(* ===== verification/Prelude.thy ===== *)
theory Prelude
  imports Main "HOL-Library.Char_ord" "HOL-Library.List_Lexorder" "HOL-Library.Product_Lexorder"
    "HOL-Library.Sublist"
begin

text \<open>
  The prelude of the development: results with errors as values, the exceptions the modelled
  code raises, the pieces of Python's standard library that several components use
  (\<^verbatim>\<open>sorted(set(...))\<close>, \<^verbatim>\<open>str.startswith\<close>, \<^verbatim>\<open>str.removeprefix\<close>,
  \<^verbatim>\<open>itertools.combinations\<close>, \<^verbatim>\<open>min(..., key=...)\<close>) and the lemmas on them.

  Strings are \<^typ>\<open>string\<close>; their order is the lexicographic order of the characters'
  codes, which is the order Python's \<^verbatim>\<open>sorted\<close> gives (UTF-8 preserves the order of code
  points).
\<close>

section \<open>Collections of facts\<close>

named_theorems result_simps \<open>how results compose\<close>
named_theorems guard_simps \<open>when a write guard of the database fires\<close>
named_theorems frame_simps \<open>fields that an operation leaves alone\<close>

section \<open>Errors as values\<close>

text \<open>The exception classes of the modelled code, with their message.\<close>

datatype exn =
    ValueError string
  | ContractError string
  | KeyError string
  | TypeError string
  | AttributeError string
  | IntegrityError
  | RuntimeError string
  | PermissionError string
  | PreledgerError string
  | WorkflowError string
  | OSError string
  | SubprocessError string
  | CsvError string
  | SchedulerError string
  | SchedulerUnsupported string
  | ReclamationPending string
  | NoGrant string
  | OverflowError string
  | ChildCredentialUnavailable string
  | OutOfFuel

type_synonym 'a result = "exn + 'a"

definition bindR :: "'a result \<Rightarrow> ('a \<Rightarrow> 'b result) \<Rightarrow> 'b result" where
  "bindR m f = (case m of Inl e \<Rightarrow> Inl e | Inr a \<Rightarrow> f a)"

definition raise_if :: "bool \<Rightarrow> exn \<Rightarrow> unit result" where
  "raise_if c e = (if c then Inl e else Inr ())"

lemma bindR_simps [simp, result_simps]:
  "bindR (Inl e) f = Inl e"
  "bindR (Inr a) f = f a"
  by (simp_all add: bindR_def)

lemma bindR_eq_Inr [result_simps]:
  "bindR m f = Inr b \<longleftrightarrow> (\<exists>a. m = Inr a \<and> f a = Inr b)"
  by (cases m) auto

lemma bindR_eq_Inl [result_simps]:
  "bindR m f = Inl e \<longleftrightarrow> m = Inl e \<or> (\<exists>a. m = Inr a \<and> f a = Inl e)"
  by (cases m) auto

lemma raise_if_eq_Inr [simp, result_simps]: "raise_if c e = Inr u \<longleftrightarrow> \<not> c"
  by (simp add: raise_if_def)

lemma raise_if_eq_Inl [simp, result_simps]: "raise_if c e = Inl e' \<longleftrightarrow> c \<and> e' = e"
  by (auto simp: raise_if_def)

lemma bindR_raise_if [result_simps]:
  "bindR (raise_if c e) f = (if c then Inl e else f ())"
  by (simp add: raise_if_def)

text \<open>\<open>mapR f xs\<close> is a comprehension whose body may raise: the first error wins.\<close>

fun mapR :: "('a \<Rightarrow> 'b result) \<Rightarrow> 'a list \<Rightarrow> 'b list result" where
  "mapR f [] = Inr []"
| "mapR f (x # xs) = bindR (f x) (\<lambda>y. bindR (mapR f xs) (\<lambda>ys. Inr (y # ys)))"

lemma mapR_eq_Inr:
  "mapR f xs = Inr ys \<longleftrightarrow> list_all2 (\<lambda>x y. f x = Inr y) xs ys"
  by (induction xs arbitrary: ys) (auto simp: bindR_eq_Inr list_all2_Cons1)

lemma mapR_member: "mapR f xs = Inr ys \<Longrightarrow> y \<in> set ys \<Longrightarrow> \<exists>x \<in> set xs. f x = Inr y"
  by (induction xs arbitrary: ys) (auto simp: bindR_eq_Inr)

section \<open>Strings\<close>

definition startswith :: "string \<Rightarrow> string \<Rightarrow> bool" where
  "startswith s p = (take (length p) s = p)"

definition removeprefix :: "string \<Rightarrow> string \<Rightarrow> string" where
  "removeprefix s p = (if startswith s p then drop (length p) s else s)"

lemma startswith_append [simp]: "startswith (p @ s) p"
  by (simp add: startswith_def)

lemma startswith_iff: "startswith s p \<longleftrightarrow> (\<exists>r. s = p @ r)"
  by (auto simp: startswith_def) (metis append_take_drop_id)

lemma removeprefix_append [simp]: "removeprefix (p @ s) p = s"
  by (simp add: removeprefix_def)

section \<open>Sorted sets, combinations and minima\<close>

definition sorted_set :: "'a::linorder list \<Rightarrow> 'a list" where
  "sorted_set xs = sort (remdups xs)"

lemma set_sorted_set [simp]: "set (sorted_set xs) = set xs"
  by (simp add: sorted_set_def)

lemma sorted_sorted_set [simp]: "sorted (sorted_set xs)"
  by (simp add: sorted_set_def)

lemma distinct_sorted_set [simp]: "distinct (sorted_set xs)"
  by (simp add: sorted_set_def)

lemma sorted_set_cong: "set xs = set ys \<Longrightarrow> sorted_set xs = sorted_set ys"
  by (metis sorted_distinct_set_unique sorted_sorted_set distinct_sorted_set set_sorted_set)

text \<open>\<^verbatim>\<open>itertools.combinations\<close>: the sublists of a length, in lexicographic position order.\<close>

fun combinations :: "'a list \<Rightarrow> nat \<Rightarrow> 'a list list" where
  "combinations xs 0 = [[]]"
| "combinations [] (Suc n) = []"
| "combinations (x # xs) (Suc n) = map ((#) x) (combinations xs n) @ combinations xs (Suc n)"

lemma set_combinations: "set (combinations xs n) = {ys. subseq ys xs \<and> length ys = n}"
proof (induction xs n rule: combinations.induct)
  case (3 x xs n)
  have "ys \<in> set (combinations (x # xs) (Suc n)) \<longleftrightarrow> subseq ys (x # xs) \<and> length ys = Suc n" for ys
  proof (cases ys)
    case (Cons y zs)
    have "subseq (y # zs) (x # xs) \<longleftrightarrow> (x = y \<and> subseq zs xs) \<or> subseq (y # zs) xs"
      by (metis list_emb.list_emb_Cons subseq_Cons2_iff subseq_Cons')
    with 3 Cons show ?thesis by auto
  qed (use 3 in auto)
  then show ?case by blast
qed auto

lemma length_combinations: "length (combinations xs n) = length xs choose n"
  by (induction xs n rule: combinations.induct) auto

lemma combinations_distinct:
  "distinct xs \<Longrightarrow> ys \<in> set (combinations xs n) \<Longrightarrow> distinct ys"
  using subseqs_distinctD by (force simp: set_combinations)

lemma combinations_subset:
  "ys \<in> set (combinations xs n) \<Longrightarrow> set ys \<subseteq> set xs"
  by (auto simp: set_combinations dest: list_emb_set)

text \<open>\<^verbatim>\<open>min(xs, key=f)\<close> on a non-empty list: the first element with the least key.\<close>

lemma arg_min_list_le:
  fixes f :: "'a \<Rightarrow> 'b::linorder"
  assumes "x \<in> set xs" shows "f (arg_min_list f xs) \<le> f x"
proof -
  from assms have "xs \<noteq> []" by auto
  then show ?thesis using assms
    by (simp add: f_arg_min_list_f)
qed

text \<open>\<^verbatim>\<open>next((x for x in xs if P(x)), None)\<close> and a loop that returns the first match.\<close>

lemma find_Some_ex: "(\<exists>b. find P xs = Some b) \<longleftrightarrow> (\<exists>x \<in> set xs. P x)"
  by (induction xs) auto

lemma find_SomeD: "find P xs = Some b \<Longrightarrow> b \<in> set xs \<and> P b"
  by (induction xs) (auto split: if_splits)

section \<open>Sums over lists of rows\<close>

lemma sum_list_map_filter_le:
  fixes f :: "'a \<Rightarrow> int"
  assumes "\<And>x. x \<in> set xs \<Longrightarrow> 0 \<le> f x"
  shows "sum_list (map f (filter P xs)) \<le> sum_list (map f xs)"
  using assms by (induction xs) (auto simp: add_increasing)

lemma distinct_map_filter: "distinct (map f xs) \<Longrightarrow> distinct (map f (filter P xs))"
  by (induction xs) auto

text \<open>Rows updated in place: keys stay distinct, and so do the keys of a selection that only shrinks.\<close>

lemma distinct_map_step:
  assumes "distinct (map k xs)" "\<And>x. x \<in> set xs \<Longrightarrow> k (g x) = k x"
  shows "distinct (map k (map g xs))"
proof -
  have "map k (map g xs) = map k xs" using assms(2) by simp
  with assms(1) show ?thesis by (simp only:)
qed

lemma distinct_filter_step:
  assumes d: "distinct (map k (filter Q xs))" and k: "\<And>x. x \<in> set xs \<Longrightarrow> k (g x) = k x"
    and Q: "\<And>x. x \<in> set xs \<Longrightarrow> Q (g x) \<Longrightarrow> Q x"
  shows "distinct (map k (filter Q (map g xs)))"
proof -
  have "map k (filter Q (map g xs)) = map k (filter (\<lambda>x. Q (g x)) xs)"
    using k by (simp add: filter_map comp_def)
  also have "filter (\<lambda>x. Q (g x)) xs = filter (\<lambda>x. Q (g x)) (filter Q xs)"
    using Q by (auto simp: intro!: filter_cong)
  finally show ?thesis using distinct_map_filter [OF d] by simp
qed

end
