(* ===== verification/PyValue.thy ===== *)
theory PyValue
  imports Prelude Complex_Main
begin

text \<open>
  The values of decoded JSON as Python code sees them, for the parts of the program that
  inspect untyped input (\<^verbatim>\<open>dict[str, Any]\<close>): truthiness, \<^verbatim>\<open>isinstance\<close> tests,
  \<^verbatim>\<open>dict.get\<close>, numeric equality across \<^verbatim>\<open>bool\<close>, \<^verbatim>\<open>int\<close> and
  \<^verbatim>\<open>float\<close>, and \<^verbatim>\<open>float(...)\<close>.

  A dictionary is an association list in insertion order; Python's dictionaries have no
  repeated key, which \<open>wf_pv\<close> states.  A finite float is a real number: the double's rounding
  is not modelled, the non-finite values are.
\<close>

datatype pyfloat = Finite real | PosInf | NegInf | NaN

datatype pv =
    PNone
  | PBool bool
  | PInt int
  | PFloat pyfloat
  | PStr string
  | PList "pv list"
  | PDict "(string \<times> pv) list"

type_synonym pdict = "(string \<times> pv) list"

fun truthy :: "pv \<Rightarrow> bool" where
  "truthy PNone = False"
| "truthy (PBool b) = b"
| "truthy (PInt i) = (i \<noteq> 0)"
| "truthy (PFloat x) = (x \<noteq> Finite 0)"
| "truthy (PStr s) = (s \<noteq> [])"
| "truthy (PList xs) = (xs \<noteq> [])"
| "truthy (PDict d) = (d \<noteq> [])"

text \<open>\<^verbatim>\<open>d.get(k)\<close> and \<^verbatim>\<open>d.get(k, default)\<close>.\<close>

definition dget_or :: "pdict \<Rightarrow> string \<Rightarrow> pv \<Rightarrow> pv" where
  "dget_or d k v = (case map_of d k of None \<Rightarrow> v | Some x \<Rightarrow> x)"

definition dget :: "pdict \<Rightarrow> string \<Rightarrow> pv" where
  "dget d k = dget_or d k PNone"

definition has_key :: "pdict \<Rightarrow> string \<Rightarrow> bool" where
  "has_key d k = (map_of d k \<noteq> None)"

definition keys :: "pdict \<Rightarrow> string list" where
  "keys d = map fst d"

lemma has_key_iff: "has_key d k \<longleftrightarrow> k \<in> set (keys d)"
  by (simp add: has_key_def keys_def map_of_eq_None_iff)

text \<open>\<^verbatim>\<open>isinstance\<close>: a \<^verbatim>\<open>bool\<close> is an \<^verbatim>\<open>int\<close> in Python.\<close>

fun is_str :: "pv \<Rightarrow> bool" where
  "is_str (PStr _) = True"
| "is_str _ = False"

lemma is_str_iff: "is_str v \<longleftrightarrow> (\<exists>s. v = PStr s)"
  by (cases v) auto

fun is_nonempty_str :: "pv \<Rightarrow> bool" where
  "is_nonempty_str (PStr s) = (s \<noteq> [])"
| "is_nonempty_str _ = False"

fun is_bool :: "pv \<Rightarrow> bool" where
  "is_bool (PBool _) = True"
| "is_bool _ = False"

fun is_int :: "pv \<Rightarrow> bool" where
  "is_int (PInt _) = True"
| "is_int (PBool _) = True"
| "is_int _ = False"

fun is_float :: "pv \<Rightarrow> bool" where
  "is_float (PFloat _) = True"
| "is_float _ = False"

fun is_dict :: "pv \<Rightarrow> bool" where
  "is_dict (PDict _) = True"
| "is_dict _ = False"

fun is_list :: "pv \<Rightarrow> bool" where
  "is_list (PList _) = True"
| "is_list _ = False"

text \<open>\<^verbatim>\<open>v == n\<close> for an integer \<open>n\<close>: \<^verbatim>\<open>True == 1\<close> and \<^verbatim>\<open>1.0 == 1\<close> hold.\<close>

fun eq_int :: "pv \<Rightarrow> int \<Rightarrow> bool" where
  "eq_int (PInt i) n = (i = n)"
| "eq_int (PBool b) n = (n = (if b then 1 else 0))"
| "eq_int (PFloat (Finite x)) n = (x = of_int n)"
| "eq_int _ n = False"

definition eq_opt_int :: "pv \<Rightarrow> int option \<Rightarrow> bool" where
  "eq_opt_int v m = (case m of None \<Rightarrow> v = PNone | Some n \<Rightarrow> eq_int v n)"

text \<open>
  \<^verbatim>\<open>float(v)\<close>; how a string parses is the argument \<open>parse\<close> (None when
  \<^verbatim>\<open>float\<close> raises \<^verbatim>\<open>ValueError\<close> on it).
\<close>

fun py_float :: "(string \<Rightarrow> pyfloat option) \<Rightarrow> pv \<Rightarrow> pyfloat result" where
  "py_float parse (PFloat x) = Inr x"
| "py_float parse (PInt i) = Inr (Finite (of_int i))"
| "py_float parse (PBool b) = Inr (Finite (if b then 1 else 0))"
| "py_float parse (PStr s) =
     (case parse s of None \<Rightarrow> Inl (ValueError ''could not convert string to float'') | Some x \<Rightarrow> Inr x)"
| "py_float parse _ = Inl (TypeError ''float() argument must be a string or a real number'')"

fun isfinite :: "pyfloat \<Rightarrow> bool" where
  "isfinite (Finite _) = True"
| "isfinite _ = False"

text \<open>\<^verbatim>\<open>x < y\<close> and \<^verbatim>\<open>x > y\<close> on floats; every comparison with a NaN is false.\<close>

fun float_less :: "pyfloat \<Rightarrow> pyfloat \<Rightarrow> bool" where
  "float_less (Finite x) (Finite y) = (x < y)"
| "float_less (Finite _) PosInf = True"
| "float_less NegInf (Finite _) = True"
| "float_less NegInf PosInf = True"
| "float_less _ _ = False"

fun float_add :: "pyfloat \<Rightarrow> real \<Rightarrow> pyfloat" where
  "float_add (Finite x) y = Finite (x + y)"
| "float_add x y = x"

fun wf_pv :: "pv \<Rightarrow> bool" where
  "wf_pv (PList xs) = (\<forall>x \<in> set xs. wf_pv x)"
| "wf_pv (PDict d) = (distinct (map fst d) \<and> (\<forall>p \<in> set d. wf_pv (snd p)))"
| "wf_pv _ = True"

text \<open>
  \<^verbatim>\<open>v == w\<close>: numbers compare by value across \<^verbatim>\<open>bool\<close>, \<^verbatim>\<open>int\<close> and \<^verbatim>\<open>float\<close>, dictionaries
  regardless of order, and a NaN equals nothing.
\<close>

fun num_val :: "pv \<Rightarrow> real option" where
  "num_val (PBool b) = Some (if b then 1 else 0)"
| "num_val (PInt i) = Some (of_int i)"
| "num_val (PFloat (Finite x)) = Some x"
| "num_val _ = None"

definition eq_atom :: "pv \<Rightarrow> pv \<Rightarrow> bool" where
  "eq_atom v w =
     (case (num_val v, num_val w) of
        (Some x, Some y) \<Rightarrow> x = y
      | _ \<Rightarrow> v = w \<and> v \<noteq> PFloat NaN)"

fun py_eq :: "pv \<Rightarrow> pv \<Rightarrow> bool" where
  "py_eq (PList xs) w = (case w of PList ys \<Rightarrow> list_all2 py_eq xs ys | _ \<Rightarrow> False)"
| "py_eq (PDict d) w = (case w of
     PDict e \<Rightarrow> length d = length e \<and>
       (\<forall>p \<in> set d. case map_of e (fst p) of None \<Rightarrow> False | Some x \<Rightarrow> py_eq (snd p) x)
   | _ \<Rightarrow> False)"
| "py_eq v w = eq_atom v w"

text \<open>No float that JSON cannot write.\<close>

fun json_finite :: "pv \<Rightarrow> bool" where
  "json_finite (PFloat x) = isfinite x"
| "json_finite (PList xs) = (\<forall>x \<in> set xs. json_finite x)"
| "json_finite (PDict d) = (\<forall>p \<in> set d. json_finite (snd p))"
| "json_finite _ = True"

lemma py_eq_refl: "json_finite v \<Longrightarrow> wf_pv v \<Longrightarrow> py_eq v v"
proof (induction v)
  case (PFloat x)
  then show ?case by (cases x) (simp_all add: eq_atom_def)
next
  case (PList xs)
  then show ?case by (auto simp: list_all2_same)
next
  case (PDict d)
  have "map_of d (fst p) = Some (snd p) \<and> py_eq (snd p) (snd p)" if "p \<in> set d" for p
  proof
    show "map_of d (fst p) = Some (snd p)" using that PDict.prems(2) by (simp add: map_of_eq_Some_iff)
    show "py_eq (snd p) (snd p)"
      by (rule PDict.IH [OF that]) (use that PDict.prems in \<open>auto intro: snds.intros\<close>)
  qed
  then show ?case by simp
qed (simp_all add: eq_atom_def)

end
