(* ===== verification/Policy.thy ===== *)
theory Policy
  imports PyValue
begin

text \<open>
  \<^verbatim>\<open>src/src/project_control/host_resources/policy.py\<close>: the fixed priority classes of
  competing owners of host resources, and \<^verbatim>\<open>capacity.py\<close> and \<^verbatim>\<open>process.py\<close> of the
  same package: the capacity the admission checks use and process liveness.
\<close>

section \<open>Priority classes\<close>

datatype ResourcePriority =
    IDLE_MODEL_RESIDENCY
  | BACKGROUND_CUDA
  | FOREGROUND_GPU
  | ACTIVE_LOCAL_DELEGATION
  | CLEAN_CUDA_FOREGROUND

fun priority_int :: "ResourcePriority \<Rightarrow> int" where
  "priority_int IDLE_MODEL_RESIDENCY = 20"
| "priority_int BACKGROUND_CUDA = 40"
| "priority_int FOREGROUND_GPU = 60"
| "priority_int ACTIVE_LOCAL_DELEGATION = 80"
| "priority_int CLEAN_CUDA_FOREGROUND = 100"

definition PRIORITY_CLASSES :: "(string \<times> ResourcePriority) list" where
  "PRIORITY_CLASSES =
    [(''idle_model_residency'', IDLE_MODEL_RESIDENCY),
     (''background_cuda'', BACKGROUND_CUDA),
     (''foreground_gpu'', FOREGROUND_GPU),
     (''active_local_delegation'', ACTIVE_LOCAL_DELEGATION),
     (''clean_cuda_foreground'', CLEAN_CUDA_FOREGROUND)]"

text \<open>The argument is a wire name or a member of the enumeration.\<close>

datatype priority_arg = PName string | PMember ResourcePriority

definition normalize_priority_class :: "priority_arg \<Rightarrow> string result" where
  "normalize_priority_class v =
     (case v of
        PMember p \<Rightarrow>
          (case filter (\<lambda>np. priority_int (snd np) = priority_int p) PRIORITY_CLASSES of
             np # _ \<Rightarrow> Inr (fst np)
           | [] \<Rightarrow> Inl (ValueError ''unknown resource priority class''))
      | PName s \<Rightarrow>
          if s \<in> set (map fst PRIORITY_CLASSES) then Inr s
          else Inl (ValueError ''unknown resource priority class''))"

definition priority_value :: "priority_arg \<Rightarrow> int result" where
  "priority_value v =
     bindR (normalize_priority_class v)
       (\<lambda>name. case map_of PRIORITY_CLASSES name of
          Some p \<Rightarrow> Inr (priority_int p)
        | None \<Rightarrow> Inl (KeyError name))"

text \<open>The name under which a class is stored, and the class of a stored name.\<close>

definition priority_name :: "ResourcePriority \<Rightarrow> string" where
  "priority_name p = fst (hd (filter (\<lambda>np. snd np = p) PRIORITY_CLASSES))"

instantiation ResourcePriority :: linorder
begin

definition less_eq_ResourcePriority :: "ResourcePriority \<Rightarrow> ResourcePriority \<Rightarrow> bool" where
  "less_eq_ResourcePriority p q = (priority_int p \<le> priority_int q)"

definition less_ResourcePriority :: "ResourcePriority \<Rightarrow> ResourcePriority \<Rightarrow> bool" where
  "less_ResourcePriority p q = (priority_int p < priority_int q)"

instance
proof
  fix x y z :: ResourcePriority
  show "x \<le> y \<Longrightarrow> y \<le> x \<Longrightarrow> x = y"
    by (cases x; cases y) (simp_all add: less_eq_ResourcePriority_def)
qed (auto simp: less_eq_ResourcePriority_def less_ResourcePriority_def)

end

lemma priority_int_inj [simp]: "priority_int p = priority_int q \<longleftrightarrow> p = q"
  by (cases p; cases q) simp_all

lemma normalize_member: "normalize_priority_class (PMember p) = Inr (priority_name p)"
  by (cases p) (simp_all add: normalize_priority_class_def priority_name_def PRIORITY_CLASSES_def)

lemma map_of_priority_name: "map_of PRIORITY_CLASSES (priority_name p) = Some p"
  by (cases p) (simp_all add: priority_name_def PRIORITY_CLASSES_def)

lemma priority_value_member: "priority_value (PMember p) = Inr (priority_int p)"
  by (simp add: priority_value_def normalize_member map_of_priority_name)

lemma map_of_PRIORITY_CLASSES_Some:
  "map_of PRIORITY_CLASSES s = Some p \<longleftrightarrow> s = priority_name p"
proof
  assume "map_of PRIORITY_CLASSES s = Some p"
  then show "s = priority_name p"
    by (auto simp: PRIORITY_CLASSES_def priority_name_def split: if_splits)
qed (simp add: map_of_priority_name)

lemma priority_name_inj [simp]: "priority_name p = priority_name q \<longleftrightarrow> p = q"
  by (metis map_of_priority_name option.inject)

lemma priority_value_name:
  "priority_value (PName s) = Inr n \<longleftrightarrow> (\<exists>p. s = priority_name p \<and> n = priority_int p)"
proof -
  have "s \<in> set (map fst PRIORITY_CLASSES) \<longleftrightarrow> (\<exists>p. map_of PRIORITY_CLASSES s = Some p)"
    by (metis list.set_map map_of_eq_None_iff not_None_eq)
  then show ?thesis
    by (auto simp: priority_value_def normalize_priority_class_def map_of_PRIORITY_CLASSES_Some
        map_of_priority_name)
qed

section \<open>Capacity\<close>

text \<open>
  \<^verbatim>\<open>cpu_capacity\<close>: \<open>affinity\<close> is the number of processors of the process, \<open>cpu_max\<close>
  the two fields of \<^verbatim>\<open>/sys/fs/cgroup/cpu.max\<close> as integers, None where the file cannot be
  read or the quota is \<^verbatim>\<open>max\<close>.
\<close>

definition cpu_capacity :: "int \<Rightarrow> (int \<times> int) option \<Rightarrow> int" where
  "cpu_capacity affinity cpu_max =
     (let quota = (case cpu_max of None \<Rightarrow> None | Some (q, p) \<Rightarrow> Some (max 1 (q div max 1 p)))
      in max 1 (min affinity (case quota of None \<Rightarrow> affinity | Some q \<Rightarrow> q)))"

text \<open>\<^verbatim>\<open>memory_capacity_bytes\<close>: a control group limit of 0 is treated as absent.\<close>

definition memory_capacity_bytes :: "int option \<Rightarrow> int \<Rightarrow> int" where
  "memory_capacity_bytes cgroup physical =
     (case cgroup of Some c \<Rightarrow> if c \<noteq> 0 then min physical c else physical | None \<Rightarrow> physical)"

section \<open>Processes\<close>

text \<open>
  The process table as the coordinator observes it: whether \<^verbatim>\<open>os.kill(pid, 0)\<close> succeeds
  and the start time \<^verbatim>\<open>_process_start(pid)\<close> read from \<^verbatim>\<open>/proc\<close>.
\<close>

record process_table =
  kill_ok :: "int \<Rightarrow> bool"
  process_start_of :: "int \<Rightarrow> string option"

definition alive :: "process_table \<Rightarrow> int option \<Rightarrow> string option \<Rightarrow> bool" where
  "alive pt pid expected =
     (case pid of
        None \<Rightarrow> False
      | Some p \<Rightarrow>
          if p = 0 \<or> \<not> kill_ok pt p then False
          else (case expected of
                  None \<Rightarrow> True
                | Some e \<Rightarrow> e = [] \<or>
                    (case process_start_of pt p of None \<Rightarrow> True | Some a \<Rightarrow> a = [] \<or> e = a)))"

end
