(* ===== verification/HostDb.thy ===== *)
theory HostDb
  imports Policy
begin

text \<open>
  The host registry's database, \<^verbatim>\<open>SCHEMA\<close> of
  \<^verbatim>\<open>src/src/project_control/host_resources/coordinator.py\<close>: its four tables, their keys
  and indexes, and the \<^verbatim>\<open>residency_guard_*\<close> triggers of
  \<^verbatim>\<open>_install_residency_guards\<close>, which run before every write, also for older clients
  of the same file.  A table is the list of its rows in the order of insertion; a row a trigger
  guards with \<^verbatim>\<open>RAISE(IGNORE)\<close> is skipped; a violated key or unique index is
  \<^verbatim>\<open>sqlite3.IntegrityError\<close>.
\<close>

section \<open>Rows\<close>

text \<open>
  The values the code writes to the \<^verbatim>\<open>state\<close> columns.  An owner is released under one of
  three names: by its client, by a sweep, or as an orphan of a service.
\<close>

datatype owner_state = Active | Intent | Released | Stale | Orphaned

datatype row_state = RActive | RReleased

datatype phase = Phase_reserved | Phase_spawned

record origin =
  origin_pid :: int
  origin_process_start :: "string option"
  boot_id :: string

record metadata =
  m_phase :: phase
  model_pid :: "int option"
  m_process_start :: "string option"
  baseline :: pdict
  m_origin :: origin
  generation :: string
  m_resource_ids :: "string list"
  capability_sha256 :: string

record host_resource =
  res_id :: string
  res_kind :: string
  res_tags :: "(string \<times> string) list"
  res_enabled :: bool

text \<open>The empty \<^verbatim>\<open>residency_metadata_json\<close>, \<^verbatim>\<open>'{}'\<close>, is None.\<close>

record owner =
  o_id :: string
  o_kind :: string
  o_project_root :: "string option"
  o_job_id :: "string option"
  o_attempt_id :: "string option"
  o_service_id :: "string option"
  o_pid :: "int option"
  o_process_start :: "string option"
  o_state :: owner_state
  preempt_flag :: bool
  o_priority :: ResourcePriority
  preemptible :: bool
  residency_protected :: bool
  residency_metadata :: "metadata option"
  release_verified :: bool
  o_cpu_threads :: int
  o_ram_bytes :: int
  o_acquired_at :: real
  o_heartbeat_at :: real

record reservation =
  r_resource :: string
  r_owner :: string
  r_state :: row_state
  r_acquired_at :: real
  r_heartbeat_at :: real

record foreground_intent =
  i_id :: string
  i_owner :: string
  i_resources :: "string list"
  i_cpu_threads :: int
  i_ram_bytes :: int
  i_state :: row_state
  i_created_at :: real
  i_heartbeat_at :: real

record host_db =
  host_resources :: "host_resource list"
  host_owners :: "owner list"
  host_reservations :: "reservation list"
  host_intents :: "foreground_intent list"

definition empty_db :: host_db where
  "empty_db = \<lparr>host_resources = [], host_owners = [], host_reservations = [], host_intents = []\<rparr>"

section \<open>Three-valued conditions\<close>

text \<open>
  A trigger's \<^verbatim>\<open>WHEN\<close> condition is an SQL expression: it may be NULL, here None, and fires
  only when it is true.  A JSON value missing from the metadata, and a JSON null, is NULL.
\<close>

type_synonym tri = "bool option"

fun sql_and :: "tri \<Rightarrow> tri \<Rightarrow> tri" where
  "sql_and (Some False) y = Some False"
| "sql_and (Some True) y = y"
| "sql_and None (Some False) = Some False"
| "sql_and None y = None"

fun sql_not :: "tri \<Rightarrow> tri" where
  "sql_not None = None"
| "sql_not (Some b) = Some (\<not> b)"

fun sql_or :: "tri \<Rightarrow> tri \<Rightarrow> tri" where
  "sql_or (Some True) y = Some True"
| "sql_or (Some False) y = y"
| "sql_or None (Some True) = Some True"
| "sql_or None y = None"

definition sql_eq :: "'a option \<Rightarrow> 'a option \<Rightarrow> tri" where
  "sql_eq x y = (case (x, y) of (Some a, Some b) \<Rightarrow> Some (a = b) | _ \<Rightarrow> None)"

definition fires :: "tri \<Rightarrow> bool" where
  "fires x = (x = Some True)"

lemma fires_and [simp]: "fires (sql_and x y) \<longleftrightarrow> fires x \<and> fires y"
  by (cases "(x, y)" rule: sql_and.cases) (auto simp: fires_def)

lemma fires_or [simp]: "fires (sql_or x y) \<longleftrightarrow> fires x \<or> fires y"
  by (cases "(x, y)" rule: sql_or.cases) (auto simp: fires_def)

lemma fires_Some [simp]: "fires (Some b) \<longleftrightarrow> b"
  by (simp add: fires_def)

section \<open>The residency guards\<close>

definition is_protected :: "owner \<Rightarrow> bool" where
  "is_protected ow \<longleftrightarrow> residency_protected ow \<and> o_state ow = Active"

definition protected_owner :: "host_db \<Rightarrow> string \<Rightarrow> bool" where
  "protected_owner db oid \<longleftrightarrow> (\<exists>ow \<in> set (host_owners db). o_id ow = oid \<and> is_protected ow)"

text \<open>The columns and metadata fields of an owner that its guard compares with \<^verbatim>\<open>IS NOT\<close>.\<close>

definition guarded_change :: "owner \<Rightarrow> owner \<Rightarrow> bool" where
  "guarded_change old new \<longleftrightarrow>
     o_state new \<noteq> o_state old \<or> o_id new \<noteq> o_id old \<or> o_kind new \<noteq> o_kind old \<or>
     o_project_root new \<noteq> o_project_root old \<or> o_job_id new \<noteq> o_job_id old \<or>
     o_attempt_id new \<noteq> o_attempt_id old \<or> o_service_id new \<noteq> o_service_id old \<or>
     o_acquired_at new \<noteq> o_acquired_at old \<or> o_cpu_threads new \<noteq> o_cpu_threads old \<or>
     o_ram_bytes new \<noteq> o_ram_bytes old \<or>
     map_option generation (residency_metadata new) \<noteq> map_option generation (residency_metadata old) \<or>
     map_option capability_sha256 (residency_metadata new) \<noteq> map_option capability_sha256 (residency_metadata old) \<or>
     map_option m_origin (residency_metadata new) \<noteq> map_option m_origin (residency_metadata old) \<or>
     map_option baseline (residency_metadata new) \<noteq> map_option baseline (residency_metadata old) \<or>
     map_option m_resource_ids (residency_metadata new) \<noteq> map_option m_resource_ids (residency_metadata old)"

text \<open>The one change of process identity that the guard lets through: reserved to spawned.\<close>

definition spawn_transition :: "owner \<Rightarrow> owner \<Rightarrow> tri" where
  "spawn_transition old new =
     sql_and (sql_eq (map_option m_phase (residency_metadata old)) (Some Phase_reserved))
    (sql_and (sql_eq (map_option m_phase (residency_metadata new)) (Some Phase_spawned))
    (sql_and (sql_eq (Option.bind (residency_metadata new) model_pid) (o_pid new))
             (sql_eq (Option.bind (residency_metadata new) m_process_start) (o_process_start new))))"

definition owner_update_guard :: "owner \<Rightarrow> owner \<Rightarrow> tri" where
  "owner_update_guard old new =
     sql_and (Some (is_protected old))
       (sql_or
          (Some (\<not> residency_protected new \<and> \<not> (release_verified new \<and> \<not> release_verified old)))
          (sql_and (Some (residency_protected new))
             (sql_or (Some (guarded_change old new))
                (sql_and (Some (o_pid new \<noteq> o_pid old \<or> o_process_start new \<noteq> o_process_start old))
                         (sql_not (spawn_transition old new))))))"

definition reservation_update_guard :: "host_db \<Rightarrow> reservation \<Rightarrow> reservation \<Rightarrow> bool" where
  "reservation_update_guard db old new \<longleftrightarrow>
     r_state old = RActive \<and> protected_owner db (r_owner old) \<and>
     (r_state new \<noteq> r_state old \<or> r_owner new \<noteq> r_owner old \<or> r_resource new \<noteq> r_resource old \<or>
      r_acquired_at new \<noteq> r_acquired_at old)"

definition intent_update_guard :: "host_db \<Rightarrow> foreground_intent \<Rightarrow> foreground_intent \<Rightarrow> bool" where
  "intent_update_guard db old new \<longleftrightarrow>
     i_state old = RActive \<and> protected_owner db (i_owner old) \<and>
     (i_state new \<noteq> i_state old \<or> i_owner new \<noteq> i_owner old \<or> i_id new \<noteq> i_id old \<or>
      i_created_at new \<noteq> i_created_at old \<or> i_resources new \<noteq> i_resources old \<or>
      i_cpu_threads new \<noteq> i_cpu_threads old \<or> i_ram_bytes new \<noteq> i_ram_bytes old)"

section \<open>Guarded writes\<close>

definition update_owners :: "(owner \<Rightarrow> bool) \<Rightarrow> (owner \<Rightarrow> owner) \<Rightarrow> host_db \<Rightarrow> host_db" where
  "update_owners P f db = db\<lparr>host_owners := map (\<lambda>ow.
     if P ow \<and> \<not> fires (owner_update_guard ow (f ow)) then f ow else ow) (host_owners db)\<rparr>"

definition update_reservations ::
  "(reservation \<Rightarrow> bool) \<Rightarrow> (reservation \<Rightarrow> reservation) \<Rightarrow> host_db \<Rightarrow> host_db" where
  "update_reservations P f db = db\<lparr>host_reservations := map (\<lambda>r.
     if P r \<and> \<not> reservation_update_guard db r (f r) then f r else r) (host_reservations db)\<rparr>"

definition update_intents ::
  "(foreground_intent \<Rightarrow> bool) \<Rightarrow> (foreground_intent \<Rightarrow> foreground_intent) \<Rightarrow> host_db \<Rightarrow> host_db" where
  "update_intents P f db = db\<lparr>host_intents := map (\<lambda>i.
     if P i \<and> \<not> intent_update_guard db i (f i) then f i else i) (host_intents db)\<rparr>"

definition delete_owners :: "(owner \<Rightarrow> bool) \<Rightarrow> host_db \<Rightarrow> host_db" where
  "delete_owners P db = db\<lparr>host_owners := filter (\<lambda>ow. \<not> P ow \<or> is_protected ow) (host_owners db)\<rparr>"

definition delete_reservations :: "(reservation \<Rightarrow> bool) \<Rightarrow> host_db \<Rightarrow> host_db" where
  "delete_reservations P db = db\<lparr>host_reservations := filter (\<lambda>r.
     \<not> P r \<or> (r_state r = RActive \<and> protected_owner db (r_owner r))) (host_reservations db)\<rparr>"

definition delete_intents :: "(foreground_intent \<Rightarrow> bool) \<Rightarrow> host_db \<Rightarrow> host_db" where
  "delete_intents P db = db\<lparr>host_intents := filter (\<lambda>i.
     \<not> P i \<or> (i_state i = RActive \<and> protected_owner db (i_owner i))) (host_intents db)\<rparr>"

definition insert_owner :: "owner \<Rightarrow> host_db \<Rightarrow> host_db result" where
  "insert_owner ow db =
     (if protected_owner db (o_id ow) then Inr db
      else if o_id ow \<in> o_id ` set (host_owners db) then Inl IntegrityError
      else Inr (db\<lparr>host_owners := host_owners db @ [ow]\<rparr>))"

text \<open>The primary key is the pair; the unique index holds one active row per resource.\<close>

definition insert_reservation :: "reservation \<Rightarrow> host_db \<Rightarrow> host_db result" where
  "insert_reservation r db =
     (if \<exists>s \<in> set (host_reservations db).
           r_resource s = r_resource r \<and> r_state s = RActive \<and> protected_owner db (r_owner s) then Inr db
      else if \<exists>s \<in> set (host_reservations db). r_resource s = r_resource r \<and> r_owner s = r_owner r
        then Inl IntegrityError
      else if r_state r = RActive \<and> (\<exists>s \<in> set (host_reservations db). r_resource s = r_resource r \<and> r_state s = RActive)
        then Inl IntegrityError
      else Inr (db\<lparr>host_reservations := host_reservations db @ [r]\<rparr>))"

definition insert_intent :: "foreground_intent \<Rightarrow> host_db \<Rightarrow> host_db result" where
  "insert_intent i db =
     (if \<exists>s \<in> set (host_intents db). i_id s = i_id i \<and> i_state s = RActive \<and> protected_owner db (i_owner s)
        then Inr db
      else if i_id i \<in> i_id ` set (host_intents db) then Inl IntegrityError
      else Inr (db\<lparr>host_intents := host_intents db @ [i]\<rparr>))"

text \<open>\<^verbatim>\<open>INSERT ... ON CONFLICT(id) DO UPDATE\<close> of a resource row.\<close>

definition upsert_resource :: "host_resource \<Rightarrow> host_db \<Rightarrow> host_db" where
  "upsert_resource res db =
     (if res_id res \<in> res_id ` set (host_resources db)
      then db\<lparr>host_resources := map (\<lambda>s. if res_id s = res_id res then res else s) (host_resources db)\<rparr>
      else db\<lparr>host_resources := host_resources db @ [res]\<rparr>)"

definition find_owner :: "host_db \<Rightarrow> string \<Rightarrow> owner option" where
  "find_owner db oid = find (\<lambda>ow. o_id ow = oid) (host_owners db)"

section \<open>Frames\<close>

lemma update_owners_frame [simp, frame_simps]:
  "host_resources (update_owners P f db) = host_resources db"
  "host_reservations (update_owners P f db) = host_reservations db"
  "host_intents (update_owners P f db) = host_intents db"
  by (simp_all add: update_owners_def)

lemma update_reservations_frame [simp, frame_simps]:
  "host_resources (update_reservations P g db) = host_resources db"
  "host_owners (update_reservations P g db) = host_owners db"
  "host_intents (update_reservations P g db) = host_intents db"
  by (simp_all add: update_reservations_def)

lemma update_intents_frame [simp, frame_simps]:
  "host_resources (update_intents P h db) = host_resources db"
  "host_owners (update_intents P h db) = host_owners db"
  "host_reservations (update_intents P h db) = host_reservations db"
  by (simp_all add: update_intents_def)

lemma protected_owner_cong [simp]:
  "protected_owner (update_reservations P g db) oid = protected_owner db oid"
  "protected_owner (update_intents Q h db) oid = protected_owner db oid"
  by (simp_all add: protected_owner_def)

lemma insert_owner_eq_Inr:
  "insert_owner ow db = Inr db' \<longleftrightarrow>
     (protected_owner db (o_id ow) \<and> db' = db) \<or>
     (o_id ow \<notin> o_id ` set (host_owners db) \<and> db' = db\<lparr>host_owners := host_owners db @ [ow]\<rparr>)"
  by (auto simp: insert_owner_def protected_owner_def) (metis imageI)

text \<open>Which row an update leaves in place of a row.\<close>

definition owner_step :: "(owner \<Rightarrow> bool) \<Rightarrow> (owner \<Rightarrow> owner) \<Rightarrow> owner \<Rightarrow> owner" where
  "owner_step P f ow = (if P ow \<and> \<not> fires (owner_update_guard ow (f ow)) then f ow else ow)"

lemma host_owners_update: "host_owners (update_owners P f db) = map (owner_step P f) (host_owners db)"
  by (simp add: update_owners_def owner_step_def)

lemma owner_step_id [simp]: "(\<And>ow. o_id (f ow) = o_id ow) \<Longrightarrow> o_id (owner_step P f ow) = o_id ow"
  by (simp add: owner_step_def)

lemma owner_ids_update:
  "(\<And>ow. o_id (f ow) = o_id ow) \<Longrightarrow> map o_id (host_owners (update_owners P f db)) = map o_id (host_owners db)"
  by (simp add: host_owners_update)

lemma guard_unprotected [simp, guard_simps]: "\<not> is_protected ow \<Longrightarrow> \<not> fires (owner_update_guard ow w)"
  by (simp add: owner_update_guard_def)

lemma fires_protected: "fires (owner_update_guard ow w) \<Longrightarrow> is_protected ow"
  using guard_unprotected by blast

text \<open>When a guarded write to a protected owner goes through.\<close>

lemma guard_protected [guard_simps]:
  "is_protected ow \<Longrightarrow> fires (owner_update_guard ow w) \<longleftrightarrow>
     (\<not> residency_protected w \<and> \<not> (release_verified w \<and> \<not> release_verified ow)) \<or>
     (residency_protected w \<and> (guarded_change ow w \<or>
        (o_pid w \<noteq> o_pid ow \<or> o_process_start w \<noteq> o_process_start ow) \<and> fires (sql_not (spawn_transition ow w))))"
  by (auto simp: owner_update_guard_def)

end
