(* ===== verification/PyText.thy ===== *)
theory PyText
  imports PyValue "HOL-Library.AList"
begin

text \<open>
  Text and dictionaries as the modelled code uses them: character classes of ASCII text,
  \<^verbatim>\<open>str.lower\<close>, \<^verbatim>\<open>str.strip\<close>, \<^verbatim>\<open>str.split\<close>, decimal digits, and
  \<^verbatim>\<open>dict.update\<close>.
\<close>

section \<open>Text\<close>

definition is_upper :: "char \<Rightarrow> bool" where
  "is_upper c \<longleftrightarrow> CHR ''A'' \<le> c \<and> c \<le> CHR ''Z''"

definition is_lower :: "char \<Rightarrow> bool" where
  "is_lower c \<longleftrightarrow> CHR ''a'' \<le> c \<and> c \<le> CHR ''z''"

definition is_digit :: "char \<Rightarrow> bool" where
  "is_digit c \<longleftrightarrow> CHR ''0'' \<le> c \<and> c \<le> CHR ''9''"

definition to_lower :: "char \<Rightarrow> char" where
  "to_lower c = (if is_upper c then char_of (of_char c + 32 :: nat) else c)"

definition lower :: "string \<Rightarrow> string" where
  "lower = map to_lower"

definition replace_char :: "char \<Rightarrow> char \<Rightarrow> string \<Rightarrow> string" where
  "replace_char a b = map (\<lambda>c. if c = a then b else c)"

text \<open>The classes \<^verbatim>\<open>\w\<close> and \<^verbatim>\<open>\s\<close>.\<close>

definition is_word :: "char \<Rightarrow> bool" where
  "is_word c \<longleftrightarrow> is_upper c \<or> is_lower c \<or> is_digit c \<or> c = CHR ''_''"

definition is_space :: "char \<Rightarrow> bool" where
  "is_space c \<longleftrightarrow> c = CHR '' '' \<or> (9 \<le> (of_char c :: nat) \<and> (of_char c :: nat) \<le> 13) \<or>
     (28 \<le> (of_char c :: nat) \<and> (of_char c :: nat) \<le> 31)"

text \<open>Decimal digits of an index.\<close>

fun string_of_nat :: "nat \<Rightarrow> string" where
  "string_of_nat n =
     (if n < 10 then [char_of (48 + n)] else string_of_nat (n div 10) @ [char_of (48 + n mod 10)])"

declare string_of_nat.simps [simp del]

definition string_of_int :: "int \<Rightarrow> string" where
  "string_of_int i = (if i < 0 then ''-'' @ string_of_nat (nat (- i)) else string_of_nat (nat i))"

fun split_on :: "char \<Rightarrow> string \<Rightarrow> string list" where
  "split_on sep [] = [[]]"
| "split_on sep (c # cs) =
     (if c = sep then [] # split_on sep cs
      else (case split_on sep cs of [] \<Rightarrow> [[c]] | p # ps \<Rightarrow> (c # p) # ps))"

definition is_letter :: "char \<Rightarrow> bool" where
  "is_letter c \<longleftrightarrow> is_upper c \<or> is_lower c"

definition strip :: "string \<Rightarrow> string" where
  "strip s = rev (dropWhile is_space (rev (dropWhile is_space s)))"

fun join :: "string \<Rightarrow> string list \<Rightarrow> string" where
  "join sep [] = []"
| "join sep [x] = x"
| "join sep (x # y # xs) = x @ sep @ join sep (y # xs)"

section \<open>Values\<close>

fun str_of :: "pv \<Rightarrow> string" where
  "str_of (PStr s) = s"
| "str_of _ = []"

text \<open>\<^verbatim>\<open>d.update(e)\<close>: a key that is there keeps its place.\<close>

definition dupdate :: "pdict \<Rightarrow> pdict \<Rightarrow> pdict" where
  "dupdate d e = fold (\<lambda>p. AList.update (fst p) (snd p)) e d"

lemma map_of_dupdate: "map_of (dupdate d e) = map_of d ++ map_of (rev e)"
  by (induction e arbitrary: d) (simp_all add: dupdate_def update_conv' fun_eq_iff map_add_def split: option.splits)

lemma keys_dupdate: "fst ` set (dupdate d e) = fst ` set d \<union> fst ` set e"
  by (induction e arbitrary: d) (simp_all add: dupdate_def dom_update)

lemma distinct_dupdate: "distinct (map fst d) \<Longrightarrow> distinct (map fst (dupdate d e))"
  by (induction e arbitrary: d) (simp_all add: dupdate_def distinct_update)

end
