(* ===== verification/Contracts.thy ===== *)
theory Contracts
  imports PyText
begin

text \<open>
  \<^verbatim>\<open>src/src/project_control/host_resources/contracts.py\<close>: the dependency-free validation of
  the runtime contracts.  Input is an arbitrary decoded value; a validator raises
  \<^verbatim>\<open>ContractError\<close> or returns the normalized object, here a record with the fields of the
  dictionary that the code returns.  A field that the code may leave out of the result is an
  option.
\<close>

section \<open>Results\<close>

record command_spec =
  argv :: "string list"
  cwd :: string
  cmd_env :: "(string \<times> string) list"
  timeout_seconds :: pyfloat

record source_identity =
  repo_root :: string
  git_head :: "string option"
  dirty_paths :: "string list"
  fingerprint :: string

record resource_request =
  rq_kind :: string
  rq_ids :: "string list"
  rq_tags :: "(string \<times> string) list"
  exclusive_resources :: "string list"
  isolate_pcie_root :: bool
  isolate_nvlink_domain :: bool
  cpu_heavy :: bool
  rq_count :: nat
  rq_cpu_threads :: nat
  rq_ram_bytes :: nat

record artifact_ref =
  ar_schema_version :: pv
  artifact_id :: "string option"
  ar_job_id :: "string option"
  ar_kind :: string
  ar_path :: string
  content_hash :: "string option option"
  complete :: bool

record evidence_summary =
  ev_status :: string
  ev_valid :: bool
  contaminated :: bool
  severity :: nat
  summary :: pdict
  artifacts :: "artifact_ref list"
  ev_optional :: "(string \<times> string option) list"
  ev_source_identity :: "source_identity option"

section \<open>Shared checks\<close>

definition c_object :: "pv \<Rightarrow> string \<Rightarrow> pdict result" where
  "c_object v name =
     (case v of PDict d \<Rightarrow> Inr d | _ \<Rightarrow> Inl (ContractError (name @ '' must be an object'')))"

definition c_version :: "pdict \<Rightarrow> string \<Rightarrow> unit result" where
  "c_version d name =
     raise_if (\<not> eq_int (dget d ''schema_version'') 1)
       (ContractError (name @ ''.schema_version must be 1''))"

definition c_extra :: "pdict \<Rightarrow> string list \<Rightarrow> string \<Rightarrow> unit result" where
  "c_extra d allowed name =
     (let unknown = sorted_set (filter (\<lambda>k. k \<notin> set allowed) (keys d))
      in raise_if (unknown \<noteq> [])
           (ContractError (name @ '' has unknown fields: '' @ join '', '' unknown)))"

definition c_strings :: "pv \<Rightarrow> string \<Rightarrow> bool \<Rightarrow> string list result" where
  "c_strings v name nonempty =
     (case v of
        PList xs \<Rightarrow>
          if \<exists>x \<in> set xs. \<not> is_str x \<or> (nonempty \<and> x = PStr [])
          then Inl (ContractError (name @ '' must be a list of strings''))
          else if \<not> distinct (map str_of xs)
          then Inl (ContractError (name @ '' must not contain duplicates''))
          else Inr (map str_of xs)
      | _ \<Rightarrow> Inl (ContractError (name @ '' must be a list of strings'')))"

text \<open>A mapping from strings to strings, as \<^verbatim>\<open>env\<close> and \<^verbatim>\<open>tags\<close> are checked.\<close>

definition c_string_map :: "pv \<Rightarrow> string \<Rightarrow> (string \<times> string) list result" where
  "c_string_map v msg =
     (case v of
        PDict d \<Rightarrow>
          if \<exists>p \<in> set d. \<not> is_str (snd p) then Inl (ContractError msg)
          else Inr (map (\<lambda>(k, x). (k, str_of x)) d)
      | _ \<Rightarrow> Inl (ContractError msg))"

definition is_hex_digit :: "char \<Rightarrow> bool" where
  "is_hex_digit c = (c \<in> set ''0123456789abcdef'')"

definition is_sha256 :: "string \<Rightarrow> bool" where
  "is_sha256 s = (length s = 64 \<and> list_all is_hex_digit s)"

definition is_git_head :: "string \<Rightarrow> bool" where
  "is_git_head s = (40 \<le> length s \<and> length s \<le> 64 \<and> list_all is_hex_digit s)"

text \<open>\<^verbatim>\<open>timeout <= 0\<close> on a number that is not a \<^verbatim>\<open>bool\<close>; false for a NaN.\<close>

fun number_le_zero :: "pv \<Rightarrow> bool" where
  "number_le_zero (PInt i) = (i \<le> 0)"
| "number_le_zero (PFloat (Finite x)) = (x \<le> 0)"
| "number_le_zero (PFloat NegInf) = True"
| "number_le_zero _ = False"

fun number_float :: "pv \<Rightarrow> pyfloat" where
  "number_float (PInt i) = Finite (of_int i)"
| "number_float (PFloat x) = x"
| "number_float _ = NaN"

text \<open>A non-negative \<^verbatim>\<open>int\<close> that is not a \<^verbatim>\<open>bool\<close>.\<close>

definition c_nonneg :: "pv \<Rightarrow> string \<Rightarrow> nat result" where
  "c_nonneg v msg =
     (case v of PInt i \<Rightarrow> if i < 0 then Inl (ContractError msg) else Inr (nat i)
      | _ \<Rightarrow> Inl (ContractError msg))"

section \<open>The validators\<close>

definition normalize_command_spec :: "pv \<Rightarrow> command_spec result" where
  "normalize_command_spec v =
     bindR (c_object v ''command'') (\<lambda>d.
     bindR (c_extra d [''schema_version'', ''argv'', ''cwd'', ''env'', ''timeout_seconds''] ''command'') (\<lambda>_.
     bindR (c_version d ''command'') (\<lambda>_.
     bindR (c_strings (dget d ''argv'') ''command.argv'' True) (\<lambda>av.
     bindR (raise_if (av = []) (ContractError ''command.argv must not be empty'')) (\<lambda>_.
     bindR (raise_if (\<not> is_nonempty_str (dget d ''cwd''))
              (ContractError ''command.cwd must be a non-empty string'')) (\<lambda>_.
     bindR (c_string_map (dget_or d ''env'' (PDict [])) ''command.env must map strings to strings'') (\<lambda>ev.
     let t = dget_or d ''timeout_seconds'' (PFloat (Finite 3600)) in
     bindR (raise_if (is_bool t \<or> \<not> (is_int t \<or> is_float t) \<or> number_le_zero t)
              (ContractError ''command.timeout_seconds must be positive'')) (\<lambda>_.
     Inr \<lparr>argv = av, cwd = str_of (dget d ''cwd''), cmd_env = ev, timeout_seconds = number_float t\<rparr>))))))))"

definition normalize_source_identity :: "pv \<Rightarrow> source_identity result" where
  "normalize_source_identity v =
     bindR (c_object v ''source_identity'') (\<lambda>d.
     bindR (c_extra d [''schema_version'', ''repo_root'', ''git_head'', ''dirty_paths'', ''fingerprint'']
              ''source_identity'') (\<lambda>_.
     bindR (c_version d ''source_identity'') (\<lambda>_.
     let root = dget d ''repo_root''; head = dget d ''git_head''; fp = dget d ''fingerprint'' in
     bindR (raise_if (\<not> is_nonempty_str root)
              (ContractError ''source_identity.repo_root must be a non-empty string'')) (\<lambda>_.
     bindR (raise_if (head \<noteq> PNone \<and> (\<not> is_str head \<or> \<not> is_git_head (str_of head)))
              (ContractError ''source_identity.git_head must be null or a hexadecimal commit id'')) (\<lambda>_.
     bindR (c_strings (dget d ''dirty_paths'') ''source_identity.dirty_paths'' True) (\<lambda>dirty.
     bindR (raise_if (\<not> is_str fp \<or> \<not> is_sha256 (str_of fp))
              (ContractError ''source_identity.fingerprint must be a lowercase SHA-256'')) (\<lambda>_.
     Inr \<lparr>repo_root = str_of root, git_head = (if head = PNone then None else Some (str_of head)),
          dirty_paths = sort dirty, fingerprint = str_of fp\<rparr>)))))))"

definition normalize_resource_request :: "pv \<Rightarrow> resource_request result" where
  "normalize_resource_request v =
     bindR (c_object (if truthy v then v else PDict [(''schema_version'', PInt 1)]) ''resource_request'') (\<lambda>d.
     bindR (c_extra d [''schema_version'', ''kind'', ''ids'', ''count'', ''tags'', ''exclusive_resources'',
              ''isolate_pcie_root'', ''isolate_nvlink_domain'', ''cpu_threads'', ''cpu_heavy'', ''ram_bytes'']
              ''resource_request'') (\<lambda>_.
     bindR (c_version d ''resource_request'') (\<lambda>_.
     bindR (raise_if (has_key d ''ids'' \<and> has_key d ''count'')
              (ContractError ''resource_request may declare ids or count, not both'')) (\<lambda>_.
     let kind = dget_or d ''kind'' (PStr ''accelerator'') in
     bindR (raise_if (\<not> is_nonempty_str kind)
              (ContractError ''resource_request.kind must be a non-empty string'')) (\<lambda>_.
     bindR (c_strings (dget_or d ''ids'' (PList [])) ''resource_request.ids'' True) (\<lambda>ids.
     bindR (c_strings (dget_or d ''exclusive_resources'' (PList []))
              ''resource_request.exclusive_resources'' True) (\<lambda>exclusive.
     bindR (c_string_map (dget_or d ''tags'' (PDict []))
              ''resource_request.tags must map strings to strings'') (\<lambda>tags.
     bindR (c_nonneg (dget_or d ''count'' (PInt 0))
              ''resource_request.count must be a non-negative integer'') (\<lambda>count.
     bindR (c_nonneg (dget_or d ''cpu_threads'' (PInt 0))
              ''resource_request.cpu_threads must be a non-negative integer'') (\<lambda>cpu.
     bindR (c_nonneg (dget_or d ''ram_bytes'' (PInt 0))
              ''resource_request.ram_bytes must be a non-negative integer'') (\<lambda>ram.
     Inr \<lparr>rq_kind = str_of kind, rq_ids = ids, rq_tags = tags, exclusive_resources = exclusive,
          isolate_pcie_root = truthy (dget_or d ''isolate_pcie_root'' (PBool False)),
          isolate_nvlink_domain = truthy (dget_or d ''isolate_nvlink_domain'' (PBool False)),
          cpu_heavy = truthy (dget_or d ''cpu_heavy'' (PBool False)),
          rq_count = count, rq_cpu_threads = cpu, rq_ram_bytes = ram\<rparr>)))))))))))"

definition opt_nonempty :: "pdict \<Rightarrow> string \<Rightarrow> string \<Rightarrow> string option result" where
  "opt_nonempty d field msg =
     (case map_of d field of
        None \<Rightarrow> Inr None
      | Some v \<Rightarrow> if is_nonempty_str v then Inr (Some (str_of v)) else Inl (ContractError msg))"

definition normalize_artifact_ref :: "pv \<Rightarrow> artifact_ref result" where
  "normalize_artifact_ref v =
     bindR (c_object v ''artifact'') (\<lambda>d.
     bindR (c_extra d [''schema_version'', ''artifact_id'', ''job_id'', ''kind'', ''path'', ''content_hash'',
              ''complete''] ''artifact'') (\<lambda>_.
     bindR (c_version d ''artifact'') (\<lambda>_.
     bindR (raise_if (\<not> is_nonempty_str (dget d ''kind''))
              (ContractError ''artifact.kind must be a non-empty string'')) (\<lambda>_.
     bindR (raise_if (\<not> is_nonempty_str (dget d ''path''))
              (ContractError ''artifact.path must be a non-empty string'')) (\<lambda>_.
     bindR (opt_nonempty d ''artifact_id'' ''artifact.artifact_id must be a non-empty string'') (\<lambda>aid.
     bindR (opt_nonempty d ''job_id'' ''artifact.job_id must be a non-empty string'') (\<lambda>jid.
     let h = dget d ''content_hash'' in
     bindR (raise_if (h \<noteq> PNone \<and> (\<not> is_str h \<or> \<not> is_sha256 (str_of h)))
              (ContractError ''artifact.content_hash must be null or a lowercase SHA-256'')) (\<lambda>_.
     bindR (raise_if (\<not> is_bool (dget d ''complete''))
              (ContractError ''artifact.complete must be boolean'')) (\<lambda>_.
     Inr \<lparr>ar_schema_version = dget d ''schema_version'', artifact_id = aid, ar_job_id = jid,
          ar_kind = str_of (dget d ''kind''), ar_path = str_of (dget d ''path''),
          content_hash = (if has_key d ''content_hash''
                          then Some (if h = PNone then None else Some (str_of h)) else None),
          complete = truthy (dget d ''complete'')\<rparr>)))))))))"

definition EVIDENCE_STATES :: "string list" where
  "EVIDENCE_STATES =
    [''queued'', ''running'', ''succeeded'', ''failed'', ''preempted'', ''canceled'', ''skipped'',
     ''completed'', ''needs_codex'', ''no_change'']"

text \<open>
  \<^verbatim>\<open>status not in _EVIDENCE_STATES\<close> hashes the value, so a list or an object raises
  \<^verbatim>\<open>TypeError\<close> before the contract is checked.
\<close>

definition c_status :: "pv \<Rightarrow> string result" where
  "c_status v =
     (case v of
        PStr s \<Rightarrow> if s \<in> set EVIDENCE_STATES then Inr s else Inl (ContractError ''evidence.status is unsupported'')
      | PList _ \<Rightarrow> Inl (TypeError ''unhashable type'')
      | PDict _ \<Rightarrow> Inl (TypeError ''unhashable type'')
      | _ \<Rightarrow> Inl (ContractError ''evidence.status is unsupported''))"

definition opt_null_or_nonempty :: "pdict \<Rightarrow> string \<Rightarrow> (string \<times> string option) list result" where
  "opt_null_or_nonempty d field =
     (case map_of d field of
        None \<Rightarrow> Inr []
      | Some PNone \<Rightarrow> Inr [(field, None)]
      | Some v \<Rightarrow> if is_nonempty_str v then Inr [(field, Some (str_of v))]
                  else Inl (ContractError (''evidence.'' @ field @ '' must be null or a non-empty string'')))"

definition normalize_evidence_summary :: "pv \<Rightarrow> evidence_summary result" where
  "normalize_evidence_summary v =
     bindR (c_object v ''evidence'') (\<lambda>d.
     bindR (c_extra d [''schema_version'', ''job_id'', ''result_id'', ''status'', ''valid'', ''contaminated'',
              ''severity'', ''classification'', ''parser_version'', ''summary'', ''artifacts'', ''source_identity'']
              ''evidence'') (\<lambda>_.
     bindR (c_version d ''evidence'') (\<lambda>_.
     bindR (c_status (dget d ''status'')) (\<lambda>st.
     bindR (raise_if (\<not> is_bool (dget d ''valid'')) (ContractError ''evidence.valid must be boolean'')) (\<lambda>_.
     bindR (raise_if (\<not> is_bool (dget d ''contaminated''))
              (ContractError ''evidence.contaminated must be boolean'')) (\<lambda>_.
     bindR (c_nonneg (dget d ''severity'') ''evidence.severity must be a non-negative integer'') (\<lambda>sev.
     bindR (case dget d ''summary'' of PDict s \<Rightarrow> Inr s
            | _ \<Rightarrow> Inl (ContractError ''evidence.summary must be an object'')) (\<lambda>sm.
     bindR (case dget d ''artifacts'' of PList xs \<Rightarrow> mapR normalize_artifact_ref xs
            | _ \<Rightarrow> Inl (ContractError ''evidence.artifacts must be an array'')) (\<lambda>arts.
     bindR (mapR (opt_null_or_nonempty d) [''job_id'', ''result_id'', ''classification'', ''parser_version''])
       (\<lambda>opts.
     bindR (case map_of d ''source_identity'' of None \<Rightarrow> Inr None
            | Some s \<Rightarrow> bindR (normalize_source_identity s) (\<lambda>i. Inr (Some i))) (\<lambda>src.
     Inr \<lparr>ev_status = st, ev_valid = truthy (dget d ''valid''), contaminated = truthy (dget d ''contaminated''),
          severity = sev, summary = sm, artifacts = arts, ev_optional = concat opts,
          ev_source_identity = src\<rparr>)))))))))))"

section \<open>What the shared checks accept\<close>

lemma c_object_eq_Inr [result_simps]: "c_object v name = Inr d \<longleftrightarrow> v = PDict d"
  by (auto simp: c_object_def split: pv.splits)

lemma c_version_eq_Inr [result_simps]: "c_version d name = Inr u \<longleftrightarrow> eq_int (dget d ''schema_version'') 1"
  by (simp add: c_version_def)

lemma c_extra_eq_Inr [result_simps]: "c_extra d allowed name = Inr u \<longleftrightarrow> set (keys d) \<subseteq> set allowed"
proof -
  have "(sorted_set (filter (\<lambda>k. k \<notin> set allowed) (keys d)) = []) = (set (keys d) \<subseteq> set allowed)"
    by (metis (no_types, lifting) filter_False filter_empty_conv set_empty set_sorted_set subsetI subsetD)
  then show ?thesis by (simp add: c_extra_def Let_def)
qed

lemma is_nonempty_str_iff: "is_nonempty_str v \<longleftrightarrow> (\<exists>s. v = PStr s \<and> s \<noteq> [])"
  by (cases v) auto

lemma c_strings_eq_Inr [result_simps]:
  "c_strings v name ne = Inr ss \<longleftrightarrow> v = PList (map PStr ss) \<and> distinct ss \<and> (ne \<longrightarrow> [] \<notin> set ss)"
proof
  assume "c_strings v name ne = Inr ss"
  then obtain xs where xs: "v = PList xs" and all: "\<forall>x \<in> set xs. is_str x \<and> (ne \<longrightarrow> x \<noteq> PStr [])"
    and d: "distinct (map str_of xs)" and ss: "ss = map str_of xs"
    by (auto simp: c_strings_def split: pv.splits if_splits)
  have "map PStr (map str_of xs) = xs"
    using all by (induction xs) (auto simp: is_str_iff)
  then show "v = PList (map PStr ss) \<and> distinct ss \<and> (ne \<longrightarrow> [] \<notin> set ss)"
    using xs d ss all by (auto simp: is_str_iff)
next
  assume *: "v = PList (map PStr ss) \<and> distinct ss \<and> (ne \<longrightarrow> [] \<notin> set ss)"
  have "map str_of (map PStr ss) = ss" by (induction ss) auto
  with * show "c_strings v name ne = Inr ss" by (auto simp: c_strings_def comp_def)
qed

lemma c_string_map_eq_Inr [result_simps]:
  "c_string_map v msg = Inr m \<longleftrightarrow> v = PDict (map (\<lambda>(k, s). (k, PStr s)) m)"
proof
  assume "c_string_map v msg = Inr m"
  then obtain d where d: "v = PDict d" "\<forall>p \<in> set d. is_str (snd p)" "m = map (\<lambda>(k, x). (k, str_of x)) d"
    by (auto simp: c_string_map_def split: pv.splits if_splits)
  from d(2) have "map (\<lambda>(k, s). (k, PStr s)) (map (\<lambda>(k, x). (k, str_of x)) d) = d"
    by (induction d) (auto simp: is_str_iff)
  with d show "v = PDict (map (\<lambda>(k, s). (k, PStr s)) m)" by simp
next
  assume v: "v = PDict (map (\<lambda>(k, s). (k, PStr s)) m)"
  have "map (\<lambda>(k, x). (k, str_of x)) (map (\<lambda>(k, s). (k, PStr s)) m) = m"
    by (induction m) auto
  with v show "c_string_map v msg = Inr m" by (auto simp: c_string_map_def)
qed

lemma c_nonneg_eq_Inr [result_simps]: "c_nonneg v msg = Inr n \<longleftrightarrow> v = PInt (int n)"
  by (auto simp: c_nonneg_def split: pv.splits if_splits)

section \<open>Normal forms\<close>

text \<open>The dictionaries the code returns, as values.\<close>

definition command_spec_pv :: "command_spec \<Rightarrow> pv" where
  "command_spec_pv c = PDict
    [(''schema_version'', PInt 1), (''argv'', PList (map PStr (argv c))), (''cwd'', PStr (cwd c)),
     (''env'', PDict (map (\<lambda>(k, s). (k, PStr s)) (cmd_env c))),
     (''timeout_seconds'', PFloat (timeout_seconds c))]"

definition source_identity_pv :: "source_identity \<Rightarrow> pv" where
  "source_identity_pv s = PDict
    [(''schema_version'', PInt 1), (''repo_root'', PStr (repo_root s)),
     (''git_head'', case git_head s of None \<Rightarrow> PNone | Some h \<Rightarrow> PStr h),
     (''dirty_paths'', PList (map PStr (dirty_paths s))), (''fingerprint'', PStr (fingerprint s))]"

text \<open>What a normalized resource request satisfies; the coordinator relies on it.\<close>

definition request_ok :: "resource_request \<Rightarrow> bool" where
  "request_ok r \<longleftrightarrow> rq_kind r \<noteq> [] \<and> distinct (rq_ids r) \<and> [] \<notin> set (rq_ids r) \<and>
     distinct (exclusive_resources r) \<and> [] \<notin> set (exclusive_resources r) \<and>
     (rq_ids r = [] \<or> rq_count r = 0)"

lemma dget_or_has_key: "dget_or d k v \<noteq> v \<Longrightarrow> has_key d k"
  by (auto simp: dget_or_def has_key_def split: option.splits)

text \<open>What a successful call read from the request, field by field.\<close>

lemma normalize_resource_request_fields:
  assumes "normalize_resource_request v = Inr r"
  shows "\<exists>d. (if truthy v then v else PDict [(''schema_version'', PInt 1)]) = PDict d \<and>
      eq_int (dget d ''schema_version'') 1 \<and> \<not> (has_key d ''ids'' \<and> has_key d ''count'') \<and>
      is_nonempty_str (dget_or d ''kind'' (PStr ''accelerator'')) \<and>
      rq_kind r = str_of (dget_or d ''kind'' (PStr ''accelerator'')) \<and>
      c_strings (dget_or d ''ids'' (PList [])) ''resource_request.ids'' True = Inr (rq_ids r) \<and>
      c_strings (dget_or d ''exclusive_resources'' (PList [])) ''resource_request.exclusive_resources'' True
        = Inr (exclusive_resources r) \<and>
      dget_or d ''count'' (PInt 0) = PInt (int (rq_count r)) \<and>
      dget_or d ''cpu_threads'' (PInt 0) = PInt (int (rq_cpu_threads r)) \<and>
      dget_or d ''ram_bytes'' (PInt 0) = PInt (int (rq_ram_bytes r))"
  using assms unfolding normalize_resource_request_def Let_def bindR_eq_Inr raise_if_eq_Inr
    c_object_eq_Inr c_version_eq_Inr c_nonneg_eq_Inr
  by (elim exE conjE) (rule exI, intro conjI; (assumption | force))

lemma normalize_resource_request_request_ok:
  assumes "normalize_resource_request v = Inr r"
  shows "request_ok r"
proof -
  obtain d where no: "\<not> (has_key d ''ids'' \<and> has_key d ''count'')"
    and k: "is_nonempty_str (dget_or d ''kind'' (PStr ''accelerator''))"
      "rq_kind r = str_of (dget_or d ''kind'' (PStr ''accelerator''))"
    and i: "c_strings (dget_or d ''ids'' (PList [])) ''resource_request.ids'' True = Inr (rq_ids r)"
    and e: "c_strings (dget_or d ''exclusive_resources'' (PList [])) ''resource_request.exclusive_resources'' True
           = Inr (exclusive_resources r)"
    and c: "dget_or d ''count'' (PInt 0) = PInt (int (rq_count r))"
    using normalize_resource_request_fields [OF assms] by blast
  have "rq_ids r = [] \<or> rq_count r = 0"
    using no i c dget_or_has_key [of d "''ids''" "PList []"] dget_or_has_key [of d "''count''" "PInt 0"]
    by (auto simp: c_strings_eq_Inr)
  with k i e show ?thesis by (auto simp: request_ok_def c_strings_eq_Inr is_nonempty_str_iff)
qed

section \<open>Properties\<close>

text \<open>
  C40. A resource request the validator accepts is one the coordinator can serve: its kind is named,
  its identifiers and exclusive resources are distinct and not empty, it does not ask for
  identifiers and a count at once, and its numbers are those of the input or zero.
\<close>

theorem resource_request_accepted:
  assumes "normalize_resource_request v = Inr r"
  shows "request_ok r \<and> (\<exists>d. (if truthy v then v else PDict [(''schema_version'', PInt 1)]) = PDict d \<and>
    dget_or d ''count'' (PInt 0) = PInt (int (rq_count r)) \<and>
    dget_or d ''cpu_threads'' (PInt 0) = PInt (int (rq_cpu_threads r)) \<and>
    dget_or d ''ram_bytes'' (PInt 0) = PInt (int (rq_ram_bytes r)) \<and>
    dget_or d ''ids'' (PList []) = PList (map PStr (rq_ids r)))"
  using normalize_resource_request_request_ok [OF assms] normalize_resource_request_fields [OF assms]
  by (auto simp: c_strings_eq_Inr)

text \<open>C13 at a request for two accelerators.\<close>

definition demo_wire_request :: pv where
  "demo_wire_request = PDict [(''schema_version'', PInt 1), (''count'', PInt 2), (''ram_bytes'', PInt 7)]"

definition demo_wire_result :: resource_request where
  "demo_wire_result = \<lparr>rq_kind = ''accelerator'', rq_ids = [], rq_tags = [], exclusive_resources = [],
     isolate_pcie_root = False, isolate_nvlink_domain = False, cpu_heavy = False, rq_count = 2,
     rq_cpu_threads = 0, rq_ram_bytes = 7\<rparr>"

theorem resource_request_accepted_witness: "request_ok demo_wire_result"
proof -
  have "normalize_resource_request demo_wire_request = Inr demo_wire_result" by code_simp
  from resource_request_accepted [OF this] show ?thesis by simp
qed

text \<open>The checks on a dictionary that is written out.\<close>

lemma c_strings_list: "distinct ss \<Longrightarrow> [] \<notin> set ss \<Longrightarrow> c_strings (PList (map PStr ss)) name ne = Inr ss"
  by (simp add: c_strings_eq_Inr)

lemma c_string_map_dict: "c_string_map (PDict (map (\<lambda>(k, s). (k, PStr s)) m)) msg = Inr m"
  by (simp add: c_string_map_eq_Inr)

lemma c_extra_allowed: "set (keys d) \<subseteq> set allowed \<Longrightarrow> c_extra d allowed name = Inr ()"
  by (simp add: c_extra_eq_Inr)

lemmas wire_simps = c_strings_list c_string_map_dict c_extra_allowed c_object_def c_version_def raise_if_def
  dget_def dget_or_def keys_def Let_def

lemma normalize_source_identity_facts:
  assumes "normalize_source_identity v = Inr s"
  shows "repo_root s \<noteq> []" "\<And>h. git_head s = Some h \<Longrightarrow> is_git_head h" "distinct (dirty_paths s)" "[] \<notin> set (dirty_paths s)"
    "sorted (dirty_paths s)" "is_sha256 (fingerprint s)"
  using assms
  by (auto simp: normalize_source_identity_def Let_def bindR_eq_Inr raise_if_eq_Inr c_strings_eq_Inr is_nonempty_str_iff
      is_str_iff split: if_splits)

text \<open>
  Normalizing a source identity a second time changes nothing: the validator accepts the object
  it returned and gives it back.
\<close>

theorem source_identity_idempotent:
  assumes "normalize_source_identity v = Inr s"
  shows "normalize_source_identity (source_identity_pv s) = Inr s"
  using normalize_source_identity_facts [OF assms]
  by (cases "git_head s") (simp_all add: normalize_source_identity_def source_identity_pv_def wire_simps sorted_sort_id)

lemma normalize_command_spec_facts:
  assumes "normalize_command_spec v = Inr s"
  shows "argv s \<noteq> []" "distinct (argv s)" "[] \<notin> set (argv s)" "cwd s \<noteq> []" "\<not> number_le_zero (PFloat (timeout_seconds s))"
proof -
  obtain t where t: "timeout_seconds s = number_float t" "\<not> number_le_zero t" "is_int t \<or> is_float t"
    using assms by (auto simp: normalize_command_spec_def Let_def bindR_eq_Inr raise_if_eq_Inr)
  from t(2,3) show "\<not> number_le_zero (PFloat (timeout_seconds s))" unfolding t(1) by (cases t) auto
  show "argv s \<noteq> []" "distinct (argv s)" "[] \<notin> set (argv s)" "cwd s \<noteq> []"
    using assms by (auto simp: normalize_command_spec_def Let_def bindR_eq_Inr raise_if_eq_Inr c_strings_eq_Inr
        is_nonempty_str_iff)
qed

text \<open>C14 at an identity with two dirty paths, given in the wrong order.\<close>

definition demo_identity :: pv where
  "demo_identity = PDict [(''schema_version'', PInt 1), (''repo_root'', PStr ''/r''), (''git_head'', PNone),
     (''dirty_paths'', PList [PStr ''b'', PStr ''a'']), (''fingerprint'', PStr (replicate 64 CHR ''0''))]"

definition demo_identity_result :: source_identity where
  "demo_identity_result = \<lparr>repo_root = ''/r'', git_head = None, dirty_paths = [''a'', ''b''],
     fingerprint = replicate 64 CHR ''0''\<rparr>"

theorem source_identity_idempotent_witness:
  "normalize_source_identity (source_identity_pv demo_identity_result) = Inr demo_identity_result"
proof -
  have "normalize_source_identity demo_identity = Inr demo_identity_result" by code_simp
  then show ?thesis by (rule source_identity_idempotent)
qed

text \<open>
  Normalizing a command twice gives the same command, and an accepted command has arguments, a
  working directory and a time limit that is not zero or negative.
\<close>

theorem command_spec_idempotent:
  assumes "normalize_command_spec v = Inr s"
  shows "normalize_command_spec (command_spec_pv s) = Inr s \<and> argv s \<noteq> [] \<and> cwd s \<noteq> [] \<and>
    \<not> number_le_zero (PFloat (timeout_seconds s))"
  using normalize_command_spec_facts [OF assms]
  by (simp add: normalize_command_spec_def command_spec_pv_def wire_simps)

text \<open>C15 at a command that leaves its environment and time limit to the defaults.\<close>

definition demo_command :: pv where
  "demo_command = PDict [(''schema_version'', PInt 1), (''argv'', PList [PStr ''make'', PStr ''test'']), (''cwd'', PStr ''/r'')]"

definition demo_command_result :: command_spec where
  "demo_command_result = \<lparr>argv = [''make'', ''test''], cwd = ''/r'', cmd_env = [], timeout_seconds = Finite 3600\<rparr>"

theorem command_spec_idempotent_witness:
  "normalize_command_spec (command_spec_pv demo_command_result) = Inr demo_command_result"
proof -
  have "normalize_command_spec demo_command = Inr demo_command_result" by code_simp
  from command_spec_idempotent [OF this] show ?thesis by simp
qed

end
