(* ===== verification/Coordinator.thy ===== *)
theory Coordinator
  imports HostDb Contracts "HOL-Library.AList"
begin

text \<open>
  \<^verbatim>\<open>class HostCoordinator\<close> of
  \<^verbatim>\<open>src/src/project_control/host_resources/coordinator.py\<close>: reservation, preemption,
  foreground intents, sweeping, release and residency protection over the tables of
  \<open>HostDb\<close>.

  Every method runs in one \<^verbatim>\<open>BEGIN IMMEDIATE\<close> transaction, so a method is one atomic step
  from a database to a database; an exception leaves the database as it was.  What the method
  reads from the host is the argument \<open>env\<close>: the clock (one reading per transaction), the
  process table, the capacities, the caller's identity; fresh identifiers are arguments.
\<close>

record host_env =
  now :: real
  procs :: process_table
  env_cpu_capacity :: int
  env_memory_capacity :: int
  getpid :: int
  env_boot_id :: string
  resolve_path :: "string \<Rightarrow> string"
  digest :: "string \<Rightarrow> string"
  sha256_hex :: "string \<Rightarrow> string"
  parse_float :: "string \<Rightarrow> pyfloat option"

abbreviation process_start :: "host_env \<Rightarrow> int \<Rightarrow> string option" where
  "process_start env pid \<equiv> process_start_of (procs env) pid"

section \<open>SQL vocabulary\<close>

text \<open>
  \<^verbatim>\<open>x LIKE 'prefix%'\<close> is case-insensitive on ASCII letters in SQLite; \<^verbatim>\<open>str.startswith\<close>
  is not.
\<close>

definition ascii_lower :: "char \<Rightarrow> char" where
  "ascii_lower c = (if 65 \<le> (of_char c :: nat) \<and> (of_char c :: nat) \<le> 90 then char_of ((of_char c :: nat) + 32) else c)"

definition like_prefix :: "string \<Rightarrow> string \<Rightarrow> bool" where
  "like_prefix s p = startswith (map ascii_lower s) (map ascii_lower p)"

definition live_state :: "owner_state \<Rightarrow> bool" where
  "live_state s \<longleftrightarrow> s = Active \<or> s = Intent"

definition active_reservations :: "host_db \<Rightarrow> reservation list" where
  "active_reservations db = filter (\<lambda>r. r_state r = RActive) (host_reservations db)"

definition active_intents :: "host_db \<Rightarrow> foreground_intent list" where
  "active_intents db = filter (\<lambda>i. i_state i = RActive) (host_intents db)"

text \<open>\<^verbatim>\<open>SELECT resource_id FROM host_reservations WHERE owner_id=? AND state='active'\<close>\<close>

definition held_resources :: "host_db \<Rightarrow> string \<Rightarrow> string list" where
  "held_resources db oid = map r_resource (filter (\<lambda>r. r_owner r = oid) (active_reservations db))"

section \<open>Resources\<close>

definition upsert_resources :: "host_resource list \<Rightarrow> host_db \<Rightarrow> host_db" where
  "upsert_resources rs db = fold upsert_resource rs db"

text \<open>\<^verbatim>\<open>replace_resources\<close>: rows of the kind are disabled, then the given ones written.\<close>

definition replace_resources :: "string \<Rightarrow> host_resource list \<Rightarrow> host_db \<Rightarrow> host_db result" where
  "replace_resources kind rs db =
     (if \<exists>r \<in> set rs. res_kind r \<noteq> kind
      then Inl (ValueError ''replacement resources must share one kind'')
      else Inr (fold upsert_resource rs (db\<lparr>host_resources :=
             map (\<lambda>r. if res_kind r = kind then r\<lparr>res_enabled := False\<rparr> else r) (host_resources db)\<rparr>)))"

section \<open>Release and sweep\<close>

definition release_locked :: "host_env \<Rightarrow> string \<Rightarrow> owner_state \<Rightarrow> host_db \<Rightarrow> host_db" where
  "release_locked env oid st db =
     update_intents (\<lambda>i. i_owner i = oid \<and> i_state i = RActive)
         (\<lambda>i. i\<lparr>i_state := RReleased, i_heartbeat_at := now env\<rparr>)
    (update_owners (\<lambda>ow. o_id ow = oid)
         (\<lambda>ow. ow\<lparr>o_state := st, o_heartbeat_at := now env\<rparr>)
    (update_reservations (\<lambda>r. r_owner r = oid \<and> r_state r = RActive)
         (\<lambda>r. r\<lparr>r_state := RReleased, r_heartbeat_at := now env\<rparr>) db))"

text \<open>The owners a sweep selects: live by their row, silent since the cutoff, not protected, dead.\<close>

definition sweepable :: "host_env \<Rightarrow> real \<Rightarrow> owner \<Rightarrow> bool" where
  "sweepable env cutoff ow \<longleftrightarrow>
     live_state (o_state ow) \<and> o_heartbeat_at ow < cutoff \<and> \<not> residency_protected ow \<and>
     \<not> alive (procs env) (o_pid ow) (o_process_start ow)"

definition close_dead_intents :: "host_env \<Rightarrow> host_db \<Rightarrow> host_db" where
  "close_dead_intents env db =
     update_intents
       (\<lambda>i. i_state i = RActive \<and>
          i_owner i \<in> o_id ` {ow \<in> set (host_owners db). \<not> live_state (o_state ow)})
       (\<lambda>i. i\<lparr>i_state := RReleased, i_heartbeat_at := now env\<rparr>) db"

definition sweep_locked :: "host_env \<Rightarrow> real \<Rightarrow> host_db \<Rightarrow> host_db" where
  "sweep_locked env stale_seconds db =
     close_dead_intents env
       (fold (\<lambda>ow. release_locked env (o_id ow) Stale)
          (filter (sweepable env (now env - stale_seconds)) (host_owners db)) db)"

definition count_live :: "host_db \<Rightarrow> nat" where
  "count_live db = length (filter (\<lambda>ow. live_state (o_state ow)) (host_owners db))"

definition sweep_stale :: "host_env \<Rightarrow> real \<Rightarrow> host_db \<Rightarrow> int \<times> host_db" where
  "sweep_stale env stale_seconds db =
     (let db' = sweep_locked env stale_seconds db
      in (int (count_live db) - int (count_live db'), db'))"

definition reconcile_current_service_owners ::
  "host_env \<Rightarrow> string \<Rightarrow> int \<Rightarrow> string set \<Rightarrow> host_db \<Rightarrow> string list \<times> host_db" where
  "reconcile_current_service_owners env project pid live_ids db =
     (case process_start env pid of
        None \<Rightarrow> ([], db)
      | Some start \<Rightarrow>
          let rows = filter (\<lambda>ow. o_kind ow = ''service'' \<and> o_project_root ow = Some (resolve_path env project) \<and>
                 o_pid ow = Some pid \<and> o_process_start ow = Some start \<and>
                 (case o_service_id ow of None \<Rightarrow> False | Some s \<Rightarrow> like_prefix s ''core4-local-'') \<and>
                 live_state (o_state ow)) (host_owners db);
              orphans = filter (\<lambda>ow. o_id ow \<notin> live_ids \<and> \<not> residency_protected ow) rows
          in (map o_id orphans, fold (\<lambda>ow. release_locked env (o_id ow) Orphaned) orphans db))"

section \<open>Admission and selection\<close>

definition tag_text :: "host_resource \<Rightarrow> string \<Rightarrow> string" where
  \<comment> \<open>\<^verbatim>\<open>str(json.loads(row['tags_json']).get(key))\<close>\<close>
  "tag_text res k = (case map_of (res_tags res) k of None \<Rightarrow> ''None'' | Some v \<Rightarrow> v)"

definition interference_ids :: "string \<Rightarrow> string \<Rightarrow> host_resource list \<Rightarrow> string list" where
  "interference_ids pre k selected =
     concat (map (\<lambda>res. case map_of (res_tags res) k of
        None \<Rightarrow> [] | Some v \<Rightarrow> if v = [] then [] else [pre @ v]) selected)"

definition extra_ids :: "resource_request \<Rightarrow> host_resource list \<Rightarrow> string list" where
  "extra_ids rq selected = sorted_set
     (exclusive_resources rq @
      (if isolate_pcie_root rq then interference_ids ''interference:pcie:'' ''pcie_root'' selected else []) @
      (if isolate_nvlink_domain rq then interference_ids ''interference:nvlink:'' ''nvlink_domain'' selected else []))"

definition active_resource_ids :: "host_db \<Rightarrow> string set" where
  "active_resource_ids db =
     set (map r_resource (active_reservations db)) \<union> set (concat (map i_resources (active_intents db)))"

text \<open>\<^verbatim>\<open>int(capacity * 0.75)\<close>; exact, since 0.75 is a binary fraction.\<close>

definition cpu_limit :: "host_env \<Rightarrow> int" where
  "cpu_limit env = max 1 (env_cpu_capacity env * 3 div 4)"

text \<open>
  \<^verbatim>\<open>int(capacity * 0.80)\<close>: the double product is within a fifth of the exact one for
  capacities below \<open>2 ^ 50\<close> bytes, so truncation gives the exact quotient.
\<close>

definition ram_limit :: "host_env \<Rightarrow> int" where
  "ram_limit env = env_memory_capacity env * 4 div 5"

definition cpu_threads :: "host_env \<Rightarrow> resource_request \<Rightarrow> int" where
  "cpu_threads env rq =
     (if rq_cpu_threads rq \<noteq> 0 then int (rq_cpu_threads rq)
      else if cpu_heavy rq then cpu_limit env else 0)"

definition total :: "(owner \<Rightarrow> int) \<Rightarrow> (owner_state \<Rightarrow> bool) \<Rightarrow> host_db \<Rightarrow> int" where
  "total f P db = sum_list (map f (filter (\<lambda>ow. P (o_state ow)) (host_owners db)))"

definition pressure_available :: "host_env \<Rightarrow> host_db \<Rightarrow> resource_request \<Rightarrow> bool" where
  "pressure_available env db rq \<longleftrightarrow>
     total o_cpu_threads live_state db + cpu_threads env rq \<le> cpu_limit env \<and>
     total o_ram_bytes live_state db + int (rq_ram_bytes rq) \<le> max 0 (ram_limit env)"

definition matching_resources :: "host_db \<Rightarrow> resource_request \<Rightarrow> host_resource list" where
  "matching_resources db rq =
     filter (\<lambda>res. \<forall>(k, v) \<in> set (rq_tags rq). tag_text res k = v)
       (sort_key res_id (filter (\<lambda>res. res_enabled res \<and> res_kind res = rq_kind rq) (host_resources db)))"

text \<open>The bundles of resources that satisfy a request, in the order the code tries them.\<close>

definition bundle_combinations :: "host_db \<Rightarrow> resource_request \<Rightarrow> host_resource list list" where
  "bundle_combinations db rq =
     (let rows = matching_resources db rq in
      if rq_ids rq \<noteq> [] then
        (let selected = filter (\<lambda>res. res_id res \<in> set (rq_ids rq)) rows
         in if length selected = length (rq_ids rq) then [selected] else [])
      else if rq_count rq \<noteq> 0 then combinations rows (rq_count rq)
      else [[]])"

definition expand_bundle :: "resource_request \<Rightarrow> host_resource list \<Rightarrow> string list" where
  "expand_bundle rq combo = sorted_set (map res_id combo @ extra_ids rq combo)"

definition candidate_resources :: "host_db \<Rightarrow> resource_request \<Rightarrow> string list list" where
  "candidate_resources db rq = map (expand_bundle rq) (bundle_combinations db rq)"

definition select_locked :: "host_env \<Rightarrow> host_db \<Rightarrow> resource_request \<Rightarrow> string list option" where
  "select_locked env db rq =
     (if \<not> pressure_available env db rq then None
      else find (\<lambda>expanded. active_resource_ids db \<inter> set expanded = {})
             (candidate_resources db rq))"

section \<open>Preemption\<close>

definition conflicting_owners :: "host_db \<Rightarrow> string list \<Rightarrow> owner list" where
  "conflicting_owners db resources =
     filter (\<lambda>ow. o_state ow = Active \<and>
        (\<exists>r \<in> set (active_reservations db). r_owner r = o_id ow \<and> r_resource r \<in> set resources))
       (host_owners db)"

definition preemptible_by :: "ResourcePriority \<Rightarrow> owner \<Rightarrow> bool" where
  "preemptible_by p ow \<longleftrightarrow> preemptible ow \<and> priority_int (o_priority ow) < priority_int p"

definition preemption_candidates ::
  "host_db \<Rightarrow> resource_request \<Rightarrow> ResourcePriority \<Rightarrow> (nat \<times> int \<times> string list) list" where
  "preemption_candidates db rq p =
     concat (map (\<lambda>resources.
        let owners = conflicting_owners db resources in
        if owners \<noteq> [] \<and> list_all (preemptible_by p) owners
        then [(length owners, sum_list (map (\<lambda>ow. priority_int (o_priority ow)) owners), resources)]
        else []) (candidate_resources db rq))"

definition request_preemption_flag :: "host_env \<Rightarrow> (owner \<Rightarrow> bool) \<Rightarrow> host_db \<Rightarrow> host_db" where
  "request_preemption_flag env P = update_owners P (\<lambda>ow. ow\<lparr>preempt_flag := True, o_heartbeat_at := now env\<rparr>)"

definition request_preemption_locked ::
  "host_env \<Rightarrow> resource_request \<Rightarrow> ResourcePriority \<Rightarrow> host_db \<Rightarrow> string list \<times> host_db" where
  "request_preemption_locked env rq p db =
     (case preemption_candidates db rq p of
        [] \<Rightarrow> ([], db)
      | c # cs \<Rightarrow>
          let resources = snd (snd (arg_min_list id (c # cs)));
              victims = map o_id (conflicting_owners db resources)
          in (resources, request_preemption_flag env (\<lambda>ow. o_id ow \<in> set victims) db))"

section \<open>Reservation\<close>

text \<open>The resolved project path, the identifiers and the process of a new owner.\<close>

record owner_spec =
  spec_id :: string
  spec_kind :: string
  spec_project :: string
  spec_job :: "string option"
  spec_attempt :: "string option"
  spec_service :: "string option"
  spec_pid :: int

definition new_owner ::
  "host_env \<Rightarrow> owner_spec \<Rightarrow> ResourcePriority \<Rightarrow> owner_state \<Rightarrow> bool \<Rightarrow> int \<Rightarrow> int \<Rightarrow> owner" where
  "new_owner env sp p st pre cpu ram =
     \<lparr>o_id = spec_id sp, o_kind = spec_kind sp, o_project_root = Some (resolve_path env (spec_project sp)),
      o_job_id = spec_job sp, o_attempt_id = spec_attempt sp, o_service_id = spec_service sp,
      o_pid = Some (spec_pid sp), o_process_start = process_start env (spec_pid sp), o_state = st,
      preempt_flag = False, o_priority = p, preemptible = pre, residency_protected = False,
      residency_metadata = None, release_verified = False, o_cpu_threads = cpu, o_ram_bytes = ram,
      o_acquired_at = now env, o_heartbeat_at = now env\<rparr>"

definition new_reservation :: "host_env \<Rightarrow> string \<Rightarrow> string \<Rightarrow> reservation" where
  "new_reservation env oid rid =
     \<lparr>r_resource = rid, r_owner = oid, r_state = RActive, r_acquired_at = now env, r_heartbeat_at = now env\<rparr>"

fun insert_reservations :: "reservation list \<Rightarrow> host_db \<Rightarrow> host_db result" where
  "insert_reservations [] db = Inr db"
| "insert_reservations (r # rs) db = bindR (insert_reservation r db) (insert_reservations rs)"

definition parse_priority :: "string \<Rightarrow> ResourcePriority result" where
  "parse_priority s =
     bindR (normalize_priority_class (PName s))
       (\<lambda>name. case map_of PRIORITY_CLASSES name of Some p \<Rightarrow> Inr p | None \<Rightarrow> Inl (KeyError name))"

definition reserve_locked ::
  "host_env \<Rightarrow> owner_spec \<Rightarrow> resource_request \<Rightarrow> string \<Rightarrow> host_db \<Rightarrow> ((string \<times> string list) option \<times> host_db) result" where
  "reserve_locked env sp rq priority_class db =
     bindR (parse_priority priority_class) (\<lambda>p.
     case select_locked env db rq of
       None \<Rightarrow> Inr (None, snd (request_preemption_locked env rq p db))
     | Some resources \<Rightarrow>
         bindR (insert_owner (new_owner env sp p Active True (cpu_threads env rq) (int (rq_ram_bytes rq))) db) (\<lambda>db1.
         bindR (insert_reservations (map (new_reservation env (spec_id sp)) resources) db1) (\<lambda>db2.
         Inr (Some (spec_id sp, filter (\<lambda>r. startswith r ''accelerator:'') resources), db2))))"

text \<open>\<^verbatim>\<open>sqlite3.IntegrityError\<close> is caught: the transaction is rolled back and None returned.\<close>

definition catch_integrity :: "host_db \<Rightarrow> 'a \<Rightarrow> ('a \<times> host_db) result \<Rightarrow> ('a \<times> host_db) result" where
  "catch_integrity db dflt m = (case m of Inl IntegrityError \<Rightarrow> Inr (dflt, db) | _ \<Rightarrow> m)"

definition background_owner_id :: "host_env \<Rightarrow> string \<Rightarrow> string \<Rightarrow> string \<Rightarrow> string" where
  "background_owner_id env project job attempt =
     ''background:'' @ take 16 (digest env (resolve_path env project)) @ '':'' @ job @ '':'' @ attempt"

definition reserve_background ::
  "host_env \<Rightarrow> string \<Rightarrow> string \<Rightarrow> string \<Rightarrow> resource_request \<Rightarrow> int \<Rightarrow> host_db
    \<Rightarrow> ((string \<times> string list) option \<times> host_db) result" where
  "reserve_background env project job attempt rq pid db =
     catch_integrity db None
       (reserve_locked env
          \<lparr>spec_id = background_owner_id env project job attempt, spec_kind = ''background'',
           spec_project = project, spec_job = Some job, spec_attempt = Some attempt, spec_service = None,
           spec_pid = pid\<rparr> rq ''background_cuda'' (sweep_locked env 30 db))"

definition service_owner_id :: "host_env \<Rightarrow> string \<Rightarrow> string \<Rightarrow> string \<Rightarrow> string" where
  "service_owner_id env project service uuid =
     ''service:'' @ take 16 (digest env (resolve_path env project)) @ '':'' @ service @ '':'' @ uuid"

definition reserve_service ::
  "host_env \<Rightarrow> string \<Rightarrow> string \<Rightarrow> string \<Rightarrow> resource_request \<Rightarrow> int \<Rightarrow> string \<Rightarrow> host_db
    \<Rightarrow> ((string \<times> string list) option \<times> host_db) result" where
  "reserve_service env uuid project service rq pid priority_class db =
     catch_integrity db None
       (reserve_locked env
          \<lparr>spec_id = service_owner_id env project service uuid, spec_kind = ''service'',
           spec_project = project, spec_job = None, spec_attempt = None, spec_service = Some service,
           spec_pid = pid\<rparr> rq priority_class (sweep_locked env 30 db))"

section \<open>Foreground intents\<close>

definition foreground_resources ::
  "host_env \<Rightarrow> resource_request \<Rightarrow> ResourcePriority \<Rightarrow> host_db \<Rightarrow> string list \<times> host_db" where
  "foreground_resources env rq p db =
     (case select_locked env db rq of
        Some resources \<Rightarrow> (resources, db)
      | None \<Rightarrow>
          (case request_preemption_locked env rq p db of
             (resources, db1) \<Rightarrow>
               if resources \<noteq> [] then (resources, db1)
               else (case candidate_resources db1 rq of [] \<Rightarrow> ([], db1) | c # _ \<Rightarrow> (c, db1))))"

definition pressure_conflict :: "host_env \<Rightarrow> int \<Rightarrow> int \<Rightarrow> host_db \<Rightarrow> bool" where
  "pressure_conflict env cpu ram db \<longleftrightarrow>
     total o_cpu_threads (\<lambda>s. s = Active) db + cpu > cpu_limit env \<or>
     total o_ram_bytes (\<lambda>s. s = Active) db + ram > ram_limit env"

definition begin_foreground ::
  "host_env \<Rightarrow> string \<Rightarrow> string \<Rightarrow> string \<Rightarrow> resource_request \<Rightarrow> int \<Rightarrow> string \<Rightarrow> host_db
    \<Rightarrow> ((string \<times> string list) \<times> host_db) result" where
  "begin_foreground env uuid intent_id project rq pid priority_class db =
     bindR (parse_priority priority_class) (\<lambda>p.
     case foreground_resources env rq p (sweep_locked env 30 db) of (resources, db1) \<Rightarrow>
     let oid = ''foreground:'' @ uuid;
         cpu = int (rq_cpu_threads rq); ram = int (rq_ram_bytes rq);
         ow = new_owner env \<lparr>spec_id = oid, spec_kind = ''foreground'', spec_project = project, spec_job = None,
                spec_attempt = None, spec_service = None, spec_pid = pid\<rparr> p Intent False cpu ram
     in bindR (insert_owner ow db1) (\<lambda>db2.
        bindR (insert_intent \<lparr>i_id = intent_id, i_owner = oid, i_resources = resources, i_cpu_threads = cpu,
                 i_ram_bytes = ram, i_state = RActive, i_created_at = now env, i_heartbeat_at = now env\<rparr> db2) (\<lambda>db3.
        let pc = pressure_conflict env cpu ram db3
        in Inr ((oid, resources),
             request_preemption_flag env (\<lambda>w. o_state w = Active \<and> preemptible_by p w \<and>
               (pc \<or> set (held_resources db3 (o_id w)) \<inter> set resources \<noteq> {})) db3))))"

definition activate_foreground ::
  "host_env \<Rightarrow> string \<Rightarrow> string list \<Rightarrow> host_db \<Rightarrow> (bool \<times> host_db) result" where
  "activate_foreground env oid resources db =
     (let db1 = sweep_locked env 30 db in
      if \<exists>r \<in> set (active_reservations db1). r_resource r \<in> set resources then Inr (False, db1)
      else catch_integrity db False
        (bindR (insert_reservations (map (new_reservation env oid) resources) db1) (\<lambda>db2.
         Inr (True, update_owners (\<lambda>ow. o_id ow = oid) (\<lambda>ow. ow\<lparr>o_state := Active, o_heartbeat_at := now env\<rparr>) db2))))"

section \<open>Queries and small updates\<close>

definition set_priority :: "host_env \<Rightarrow> string \<Rightarrow> string \<Rightarrow> host_db \<Rightarrow> (bool \<times> host_db) result" where
  "set_priority env oid priority_class db =
     bindR (parse_priority priority_class) (\<lambda>p.
     case find_owner db oid of
       None \<Rightarrow> Inr (False, db)
     | Some ow \<Rightarrow>
         if o_state ow \<noteq> Active \<or> preempt_flag ow then Inr (False, db)
         else Inr (True, update_owners (\<lambda>w. o_id w = oid)
                (\<lambda>w. w\<lparr>o_priority := p, o_heartbeat_at := now env\<rparr>) db))"

text \<open>\<^verbatim>\<open>rowcount\<close> counts the rows the statement changed; a guarded row is not changed.\<close>

definition request_preemption :: "host_env \<Rightarrow> string \<Rightarrow> host_db \<Rightarrow> bool \<times> host_db" where
  "request_preemption env oid db =
     (let P = (\<lambda>ow. o_id ow = oid \<and> o_state ow = Active \<and> preemptible ow);
          f = (\<lambda>ow. ow\<lparr>preempt_flag := True, o_heartbeat_at := now env\<rparr>)
      in (\<exists>ow \<in> set (host_owners db). P ow \<and> \<not> fires (owner_update_guard ow (f ow)), update_owners P f db))"

definition owner_view :: "host_db \<Rightarrow> string \<Rightarrow> (owner \<times> string list) option" where
  "owner_view db oid =
     (case find_owner db oid of None \<Rightarrow> None | Some ow \<Rightarrow> Some (ow, sort (held_resources db oid)))"

definition owners_for_attempt :: "host_env \<Rightarrow> string \<Rightarrow> string \<Rightarrow> host_db \<Rightarrow> (owner \<times> string list) list" where
  "owners_for_attempt env project attempt db =
     map (\<lambda>ow. (ow, sort (held_resources db (o_id ow))))
       (sort_key (\<lambda>ow. (o_acquired_at ow, o_id ow))
          (filter (\<lambda>ow. o_project_root ow = Some (resolve_path env project) \<and> o_attempt_id ow = Some attempt)
             (host_owners db)))"

definition release_observation_counts :: "host_db \<Rightarrow> nat \<times> nat \<times> nat" where
  "release_observation_counts db =
     (count_live db, length (active_reservations db), length (active_intents db))"

definition owner_activity :: "string list \<Rightarrow> host_db \<Rightarrow> nat \<times> nat" where
  "owner_activity oids db =
     (if oids = [] then (0, 0)
      else (length (filter (\<lambda>ow. o_id ow \<in> set oids \<and> o_state ow = Active) (host_owners db)),
            length (filter (\<lambda>r. r_owner r \<in> set oids) (active_reservations db))))"

text \<open>\<^verbatim>\<open>SELECT DISTINCT owner_id\<close> of the active reservations on the resources.\<close>

definition conflicts :: "host_db \<Rightarrow> string list \<Rightarrow> string list" where
  "conflicts db resources =
     (if resources = [] then []
      else remdups (map r_owner (filter (\<lambda>r. r_resource r \<in> set resources \<and>
             r_owner r \<in> o_id ` {ow \<in> set (host_owners db). o_state ow = Active}) (active_reservations db))))"

definition heartbeat :: "host_env \<Rightarrow> string \<Rightarrow> int option \<Rightarrow> host_db \<Rightarrow> host_db" where
  "heartbeat env oid pid db =
     (let start = (case pid of None \<Rightarrow> None | Some p \<Rightarrow> if p = 0 then None else process_start env p)
      in update_reservations (\<lambda>r. r_owner r = oid \<and> r_state r = RActive)
           (\<lambda>r. r\<lparr>r_heartbeat_at := now env\<rparr>)
        (update_owners (\<lambda>ow. o_id ow = oid)
           (\<lambda>ow. ow\<lparr>o_heartbeat_at := now env,
              o_pid := (case pid of None \<Rightarrow> o_pid ow | Some p \<Rightarrow> Some p),
              o_process_start := (case start of None \<Rightarrow> o_process_start ow | Some s \<Rightarrow> Some s)\<rparr>) db))"

definition preempt_requested :: "host_db \<Rightarrow> string \<Rightarrow> bool" where
  "preempt_requested db oid =
     (case find (\<lambda>ow. o_id ow = oid \<and> o_state ow = Active) (host_owners db) of
        None \<Rightarrow> False | Some ow \<Rightarrow> preempt_flag ow)"

section \<open>Residency protection\<close>

text \<open>The accelerators an owner holds, without the prefix of their identifiers.\<close>

definition held_accelerators :: "host_db \<Rightarrow> string \<Rightarrow> string set" where
  "held_accelerators db oid =
     (\<lambda>r. removeprefix r ''accelerator:'') ` {r \<in> set (held_resources db oid). like_prefix r ''accelerator:''}"

text \<open>
  \<^verbatim>\<open>any(isinstance(value, bool) or not math.isfinite(float(value)) or float(value) < 0 ...)\<close>,
  which stops at the first bad value and raises where \<^verbatim>\<open>float\<close> does.
\<close>

fun bad_baseline :: "(string \<Rightarrow> pyfloat option) \<Rightarrow> pv list \<Rightarrow> bool result" where
  "bad_baseline parse [] = Inr False"
| "bad_baseline parse (v # vs) =
     (if is_bool v then Inr True
      else bindR (py_float parse v) (\<lambda>x.
        if \<not> isfinite x \<or> float_less x (Finite 0) then Inr True else bad_baseline parse vs))"

definition protect_residency ::
  "host_env \<Rightarrow> string \<Rightarrow> string \<Rightarrow> string \<Rightarrow> pdict \<Rightarrow> host_db \<Rightarrow> (metadata \<times> host_db) result" where
  "protect_residency env capability gen oid memory_baseline db =
     (let invalid = ValueError ''residency_protection_identity_invalid'' in
      case find_owner db oid of
        None \<Rightarrow> Inl invalid
      | Some ow \<Rightarrow>
          let resources = held_accelerators db oid in
          if o_state ow \<noteq> Active \<or> o_kind ow \<noteq> ''service'' \<or>
             \<not> (case o_service_id ow of None \<Rightarrow> False | Some s \<Rightarrow> startswith s ''core4-local-'') \<or>
             o_pid ow \<noteq> Some (getpid env) \<or> set (keys memory_baseline) \<noteq> resources \<or> resources = {}
          then Inl invalid
          else bindR (bad_baseline (parse_float env) (map snd memory_baseline)) (\<lambda>bad.
            if bad then Inl invalid
            else if residency_protected ow then Inl (ValueError ''residency_protection_immutable'')
            else let md = \<lparr>m_phase = Phase_reserved, model_pid = None, m_process_start = None,
                        baseline = memory_baseline,
                        m_origin = \<lparr>origin_pid = getpid env, origin_process_start = process_start env (getpid env),
                                     boot_id = env_boot_id env\<rparr>,
                        generation = gen, m_resource_ids = sort (held_resources db oid),
                        capability_sha256 = sha256_hex env capability\<rparr>
                 in Inr (md, update_owners (\<lambda>w. o_id w = oid)
                       (\<lambda>w. w\<lparr>residency_protected := True, residency_metadata := Some md\<rparr>) db)))"

text \<open>
  \<^verbatim>\<open>_verify_residency_capability\<close>, with the metadata it has checked as the result.  On the empty
  object the generation is missing, and with no generation given the digest lookup raises.
\<close>

definition verify_residency_capability ::
  "host_env \<Rightarrow> metadata option \<Rightarrow> string option \<Rightarrow> string option \<Rightarrow> metadata result" where
  "verify_residency_capability env mdo capability gen =
     (let invalid = ValueError ''residency_cleanup_capability_invalid'' in
      case capability of
        None \<Rightarrow> Inl invalid
      | Some c \<Rightarrow>
          if length c \<noteq> 64 \<or> gen \<noteq> map_option generation mdo then Inl invalid
          else (case mdo of
            None \<Rightarrow> Inl (KeyError ''residency_capability_sha256'')
          | Some md \<Rightarrow> if sha256_hex env c \<noteq> capability_sha256 md then Inl invalid else Inr md))"

definition residency_origin_caller :: "host_env \<Rightarrow> metadata \<Rightarrow> bool" where
  "residency_origin_caller env md \<longleftrightarrow>
     origin_pid (m_origin md) = getpid env \<and>
     origin_process_start (m_origin md) = process_start env (getpid env) \<and>
     boot_id (m_origin md) = env_boot_id env"

definition record_residency_process ::
  "host_env \<Rightarrow> string \<Rightarrow> int \<Rightarrow> string \<Rightarrow> string \<Rightarrow> host_db \<Rightarrow> (unit \<times> host_db) result" where
  "record_residency_process env oid pid capability gen db =
     (case (find_owner db oid, process_start env pid) of
        (Some ow, Some start) \<Rightarrow>
          if o_state ow \<noteq> Active \<or> \<not> residency_protected ow \<or> start = []
          then Inl (ValueError ''residency_process_identity_invalid'')
          else
              bindR (verify_residency_capability env (residency_metadata ow) (Some capability) (Some gen)) (\<lambda>md.
              bindR (raise_if (\<not> residency_origin_caller env md) (ValueError ''residency_process_owner_mismatch'')) (\<lambda>_.
              bindR (raise_if (m_phase md = Phase_spawned \<and> (model_pid md \<noteq> Some pid \<or> m_process_start md \<noteq> Some start))
                       (ValueError ''residency_process_identity_immutable'')) (\<lambda>_.
              bindR (raise_if (m_phase md = Phase_reserved \<and> o_pid ow \<noteq> Some (getpid env))
                       (ValueError ''residency_process_owner_mismatch'')) (\<lambda>_.
              Inr ((), update_owners (\<lambda>w. o_id w = oid)
                (\<lambda>w. w\<lparr>o_pid := Some pid, o_process_start := Some start,
                   residency_metadata := Some (md\<lparr>m_phase := Phase_spawned, model_pid := Some pid,
                                                  m_process_start := Some start\<rparr>),
                   o_heartbeat_at := now env\<rparr>) db)))))
      | _ \<Rightarrow> Inl (ValueError ''residency_process_identity_invalid''))"

text \<open>\<^verbatim>\<open>not 0 <= time.time() - observed <= 5\<close> on a number\<close>

definition observation_stale :: "host_env \<Rightarrow> pv \<Rightarrow> bool" where
  "observation_stale env v =
     (case v of
        PInt i \<Rightarrow> \<not> (0 \<le> now env - of_int i \<and> now env - of_int i \<le> 5)
      | PFloat (Finite x) \<Rightarrow> \<not> (0 \<le> now env - x \<and> now env - x \<le> 5)
      | _ \<Rightarrow> True)"

text \<open>\<^verbatim>\<open>{row['uuid']: float(row['memory_used_mib']) for row in rows}\<close>\<close>

definition memory_entry :: "(string \<Rightarrow> pyfloat option) \<Rightarrow> pv \<Rightarrow> (pv \<times> pyfloat) result" where
  "memory_entry parse row =
     (case row of
        PDict d \<Rightarrow>
          (case map_of d ''uuid'' of
             None \<Rightarrow> Inl (KeyError ''uuid'')
           | Some u \<Rightarrow>
               (case map_of d ''memory_used_mib'' of
                  None \<Rightarrow> Inl (KeyError ''memory_used_mib'')
                | Some m \<Rightarrow> bindR (py_float parse m) (\<lambda>x.
                    if is_list u \<or> is_dict u then Inl (TypeError ''unhashable type'') else Inr (u, x))))
      | _ \<Rightarrow> Inl (TypeError ''indices must be integers''))"

definition dict_of :: "('k \<times> 'v) list \<Rightarrow> ('k \<times> 'v) list" where
  "dict_of ps = fold (\<lambda>(k, v). AList.update k v) ps []"

fun bad_memory :: "(string \<Rightarrow> pyfloat option) \<Rightarrow> pdict \<Rightarrow> (pv \<times> pyfloat) list \<Rightarrow> bool result" where
  "bad_memory parse base [] = Inr False"
| "bad_memory parse base ((u, x) # ps) =
     (if \<not> isfinite x \<or> float_less x (Finite 0) then Inr True
      else case map_of base (str_of u) of
        None \<Rightarrow> Inl (KeyError (str_of u))
      | Some b \<Rightarrow> bindR (py_float parse b) (\<lambda>y.
          if float_less (float_add y 16) x then Inr True else bad_memory parse base ps))"

text \<open>\<^verbatim>\<open>any(row.get('pid') == pid for row in processes)\<close>\<close>

fun process_listed :: "int option \<Rightarrow> pv list \<Rightarrow> bool result" where
  "process_listed pid [] = Inr False"
| "process_listed pid (row # rows) =
     (case row of
        PDict d \<Rightarrow> if eq_opt_int (dget d ''pid'') pid then Inr True else process_listed pid rows
      | _ \<Rightarrow> Inl (AttributeError ''get''))"

definition verify_residency_release ::
  "host_env \<Rightarrow> owner \<Rightarrow> metadata \<Rightarrow> pv \<Rightarrow> host_db \<Rightarrow> unit result" where
  "verify_residency_release env ow md proof db =
     (case proof of
        PDict pr \<Rightarrow>
          bindR (raise_if (dget pr ''format'' \<noteq> PStr ''CORE4-RESIDENCY-QUIESCENCE/1'' \<or>
                           dget pr ''owner_id'' \<noteq> PStr (o_id ow))
                  (ValueError ''residency_release_requires_quiescence'')) (\<lambda>_.
          bindR (raise_if (observation_stale env (dget pr ''observed_unix''))
                  (ValueError ''residency_release_observation_stale'')) (\<lambda>_.
          let pid = model_pid md in
          bindR (raise_if (pid \<noteq> None \<and> (o_pid ow \<noteq> pid \<or> o_process_start ow \<noteq> m_process_start md))
                  (ValueError ''residency_release_process_identity_changed'')) (\<lambda>_.
          bindR (raise_if (\<not> eq_opt_int (dget pr ''owned_pid'') pid \<or>
                           (pid \<noteq> None \<and> alive (procs env) pid (m_process_start md)))
                  (ValueError ''residency_release_model_still_alive'')) (\<lambda>_.
          case dget pr ''observation'' of
            PDict obs \<Rightarrow>
              bindR (raise_if (dget obs ''available'' \<noteq> PBool True)
                      (ValueError ''residency_release_observation_unavailable'')) (\<lambda>_.
              let resources = held_accelerators db (o_id ow) in
              bindR (raise_if (sort (held_resources db (o_id ow)) \<noteq> m_resource_ids md)
                      (ValueError ''residency_release_resources_changed'')) (\<lambda>_.
              case (dget obs ''devices'', dget obs ''processes'') of
                (PList rows, PList processes) \<Rightarrow>
                  bindR (raise_if (set (keys (baseline md)) \<noteq> resources \<or> length rows \<noteq> card resources)
                          (ValueError ''residency_release_resources_changed'')) (\<lambda>_.
                  bindR (mapR (memory_entry (parse_float env)) rows) (\<lambda>entries.
                  let memory = dict_of entries in
                  bindR (if set (map fst memory) \<noteq> PStr ` resources then Inr True
                         else bad_memory (parse_float env) (baseline md) memory) (\<lambda>bad.
                  bindR (raise_if bad (ValueError ''residency_release_memory_not_quiescent'')) (\<lambda>_.
                  bindR (process_listed pid processes) (\<lambda>listed.
                  raise_if (listed \<or> (m_phase md = Phase_reserved \<and> processes \<noteq> []))
                    (ValueError ''residency_release_process_not_quiescent''))))))
              | _ \<Rightarrow> Inl (ValueError ''residency_release_resources_changed'')))
          | _ \<Rightarrow> Inl (ValueError ''residency_release_observation_unavailable'')))))
      | _ \<Rightarrow> Inl (ValueError ''residency_release_requires_quiescence''))"

definition verified_release ::
  "host_env \<Rightarrow> owner \<Rightarrow> pv \<Rightarrow> string option \<Rightarrow> string option \<Rightarrow> host_db \<Rightarrow> unit result" where
  "verified_release env ow quiescence capability gen db =
     bindR (verify_residency_capability env (residency_metadata ow) capability gen) (\<lambda>md.
          bindR (raise_if (m_phase md = Phase_reserved \<and> \<not> residency_origin_caller env md)
                  (ValueError ''residency_release_reserved_recovery_blocked'')) (\<lambda>_.
          bindR (raise_if (\<not> residency_origin_caller env md \<and>
                    alive (procs env) (Some (origin_pid (m_origin md))) (origin_process_start (m_origin md)))
                  (ValueError ''residency_release_owner_alive'')) (\<lambda>_.
          verify_residency_release env ow md quiescence db)))"

definition release ::
  "host_env \<Rightarrow> string \<Rightarrow> pv \<Rightarrow> string option \<Rightarrow> string option \<Rightarrow> host_db \<Rightarrow> (unit \<times> host_db) result" where
  "release env oid quiescence capability gen db =
     (case find_owner db oid of
        Some ow \<Rightarrow>
          if residency_protected ow then
            bindR (verified_release env ow quiescence capability gen db) (\<lambda>_.
            Inr ((), release_locked env oid Released
              (update_owners (\<lambda>w. o_id w = oid)
                 (\<lambda>w. w\<lparr>residency_protected := False, release_verified := True\<rparr>) db)))
          else Inr ((), release_locked env oid Released db)
      | None \<Rightarrow> Inr ((), release_locked env oid Released db))"

end
