(* ===== verification/CoordinatorInv.thy ===== *)
theory CoordinatorInv
  imports Coordinator
begin

text \<open>
  The invariant of the host registry and that every method of \<open>Coordinator\<close> keeps it: keys are
  unique, an active reservation is exclusive and belongs to an active owner, and an active
  foreground intent belongs to a live owner.  Then the registry as a state machine: the steps
  are the methods, in any order and from any host environment.
\<close>

section \<open>The invariant\<close>

definition active_backed :: "host_db \<Rightarrow> bool" where
  "active_backed db \<longleftrightarrow> (\<forall>r \<in> set (active_reservations db).
     \<exists>ow \<in> set (host_owners db). o_id ow = r_owner r \<and> o_state ow = Active)"

definition intents_backed :: "host_db \<Rightarrow> bool" where
  "intents_backed db \<longleftrightarrow> (\<forall>i \<in> set (active_intents db).
     \<exists>ow \<in> set (host_owners db). o_id ow = i_owner i \<and> live_state (o_state ow))"

definition protected_described :: "host_db \<Rightarrow> bool" where
  "protected_described db \<longleftrightarrow> (\<forall>ow \<in> set (host_owners db). residency_protected ow \<longrightarrow> residency_metadata ow \<noteq> None)"

definition db_ok :: "host_db \<Rightarrow> bool" where
  "db_ok db \<longleftrightarrow>
     distinct (map res_id (host_resources db)) \<and>
     distinct (map o_id (host_owners db)) \<and>
     distinct (map (\<lambda>r. (r_resource r, r_owner r)) (host_reservations db)) \<and>
     distinct (map i_id (host_intents db)) \<and>
     distinct (map r_resource (active_reservations db)) \<and>
     active_backed db \<and> intents_backed db \<and> protected_described db"

lemma db_okD:
  assumes "db_ok db"
  shows "distinct (map res_id (host_resources db))" "distinct (map o_id (host_owners db))"
    "distinct (map (\<lambda>r. (r_resource r, r_owner r)) (host_reservations db))"
    "distinct (map i_id (host_intents db))" "distinct (map r_resource (active_reservations db))"
    "active_backed db" "intents_backed db" "protected_described db"
  using assms by (simp_all add: db_ok_def)

lemma empty_db_ok: "db_ok empty_db"
  by (simp add: db_ok_def empty_db_def active_reservations_def active_intents_def active_backed_def
      intents_backed_def protected_described_def)

lemma set_active_reservations: "r \<in> set (active_reservations db) \<longleftrightarrow> r \<in> set (host_reservations db) \<and> r_state r = RActive"
  by (auto simp: active_reservations_def)

lemma set_active_intents: "i \<in> set (active_intents db) \<longleftrightarrow> i \<in> set (host_intents db) \<and> i_state i = RActive"
  by (auto simp: active_intents_def)

lemma owner_unique:
  "db_ok db \<Longrightarrow> ow \<in> set (host_owners db) \<Longrightarrow> w \<in> set (host_owners db) \<Longrightarrow> o_id ow = o_id w \<Longrightarrow> ow = w"
  by (auto simp: db_ok_def dest: inj_onD [OF iffD1 [OF distinct_map, THEN conjunct2]])

lemma protected_owner_iff:
  "db_ok db \<Longrightarrow> ow \<in> set (host_owners db) \<Longrightarrow> protected_owner db (o_id ow) \<longleftrightarrow> is_protected ow"
  unfolding protected_owner_def by (metis owner_unique)

section \<open>Writes that keep the invariant\<close>

text \<open>An update of owners that keeps identity, activity and protection.\<close>

definition benign :: "(owner \<Rightarrow> owner) \<Rightarrow> bool" where
  "benign f \<longleftrightarrow> (\<forall>ow. o_id (f ow) = o_id ow \<and> o_state (f ow) = o_state ow \<and>
     (residency_protected (f ow) \<longrightarrow> residency_metadata (f ow) = None \<longrightarrow>
        residency_protected ow \<and> residency_metadata ow = None))"

lemma owner_step_benign:
  assumes "benign f"
  shows "o_id (owner_step P f ow) = o_id ow" "o_state (owner_step P f ow) = o_state ow"
    "residency_protected (owner_step P f ow) \<Longrightarrow> residency_metadata (owner_step P f ow) = None \<Longrightarrow>
       residency_protected ow \<and> residency_metadata ow = None"
  using assms by (auto simp: benign_def owner_step_def split: if_splits)

lemma active_reservations_owners [simp]: "active_reservations (update_owners P f db) = active_reservations db"
  "active_reservations (update_intents Q h db) = active_reservations db"
  by (simp_all add: active_reservations_def)

lemma active_intents_owners [simp]: "active_intents (update_owners P f db) = active_intents db"
  "active_intents (update_reservations Q h db) = active_intents db"
  by (simp_all add: active_intents_def)

lemma update_owners_ok:
  assumes ok: "db_ok db" and b: "benign f"
  shows "db_ok (update_owners P f db)"
proof -
  have "distinct (map o_id (host_owners (update_owners P f db)))"
    using ok b by (subst owner_ids_update) (auto simp: benign_def db_ok_def)
  moreover have "active_backed (update_owners P f db)" "intents_backed (update_owners P f db)"
    using ok b by (auto simp: db_ok_def active_backed_def intents_backed_def host_owners_update owner_step_benign)
  moreover have "protected_described (update_owners P f db)"
    using ok owner_step_benign(3) [OF b]
    by (fastforce simp: db_ok_def protected_described_def host_owners_update)
  ultimately show ?thesis using ok by (simp add: db_ok_def)
qed

text \<open>An update of reservations that keeps their key and activates none.\<close>

definition calm :: "(reservation \<Rightarrow> reservation) \<Rightarrow> bool" where
  "calm g \<longleftrightarrow> (\<forall>r. r_resource (g r) = r_resource r \<and> r_owner (g r) = r_owner r \<and>
     (r_state (g r) = RActive \<longrightarrow> r_state r = RActive))"

lemma update_reservations_ok:
  assumes ok: "db_ok db" and c: "calm g"
  shows "db_ok (update_reservations P g db)"
proof -
  let ?g = "\<lambda>r. if P r \<and> \<not> reservation_update_guard db r (g r) then g r else r"
  have rows: "host_reservations (update_reservations P g db) = map ?g (host_reservations db)"
    by (simp add: update_reservations_def)
  have key: "r_resource (?g r) = r_resource r" "r_owner (?g r) = r_owner r" for r
    using c by (simp_all add: calm_def)
  have act: "r_state (?g r) = RActive \<Longrightarrow> r_state r = RActive" for r
    using c by (auto simp: calm_def split: if_splits)
  have "distinct (map (\<lambda>r. (r_resource r, r_owner r)) (host_reservations (update_reservations P g db)))"
    unfolding rows by (rule distinct_map_step [OF db_okD(3) [OF ok]]) (simp only: key)
  moreover have "distinct (map r_resource (active_reservations (update_reservations P g db)))"
    unfolding active_reservations_def rows
    by (rule distinct_filter_step [OF db_okD(5) [OF ok, unfolded active_reservations_def]])
      (rule key, erule act)
  moreover have "active_backed (update_reservations P g db)"
    unfolding active_backed_def
  proof
    fix r assume "r \<in> set (active_reservations (update_reservations P g db))"
    then obtain s where s: "s \<in> set (host_reservations db)" "r = ?g s" "r_state (?g s) = RActive"
      by (auto simp: set_active_reservations rows)
    then have "s \<in> set (active_reservations db)" "r_owner r = r_owner s"
      using act [of s] key(2) [of s] by (simp_all only: set_active_reservations)
    with db_okD(6) [OF ok]
    show "\<exists>ow\<in>set (host_owners (update_reservations P g db)). o_id ow = r_owner r \<and> o_state ow = Active"
      by (simp add: active_backed_def)
  qed
  ultimately show ?thesis using ok by (simp add: db_ok_def intents_backed_def protected_described_def)
qed

text \<open>An update of intents that keeps their key and owner and activates none.\<close>

definition calm_intent :: "(foreground_intent \<Rightarrow> foreground_intent) \<Rightarrow> bool" where
  "calm_intent h \<longleftrightarrow> (\<forall>i. i_id (h i) = i_id i \<and> i_owner (h i) = i_owner i \<and>
     (i_state (h i) = RActive \<longrightarrow> i_state i = RActive))"

lemma update_intents_ok:
  assumes ok: "db_ok db" and c: "calm_intent h"
  shows "db_ok (update_intents P h db)"
proof -
  let ?h = "\<lambda>i. if P i \<and> \<not> intent_update_guard db i (h i) then h i else i"
  have rows: "host_intents (update_intents P h db) = map ?h (host_intents db)"
    by (simp add: update_intents_def)
  have key: "i_id (?h i) = i_id i" "i_owner (?h i) = i_owner i" for i
    using c by (simp_all add: calm_intent_def)
  have act: "i_state (?h i) = RActive \<Longrightarrow> i_state i = RActive" for i
    using c by (auto simp: calm_intent_def split: if_splits)
  have "distinct (map i_id (host_intents (update_intents P h db)))"
    unfolding rows by (rule distinct_map_step [OF db_okD(4) [OF ok]]) (rule key)
  moreover have "intents_backed (update_intents P h db)"
    unfolding intents_backed_def
  proof
    fix i assume "i \<in> set (active_intents (update_intents P h db))"
    then obtain j where j: "j \<in> set (host_intents db)" "i = ?h j" "i_state (?h j) = RActive"
      by (auto simp: set_active_intents rows)
    then have "j \<in> set (active_intents db)" "i_owner i = i_owner j"
      using act [of j] key(2) [of j] by (simp_all only: set_active_intents)
    with db_okD(7) [OF ok]
    show "\<exists>ow\<in>set (host_owners (update_intents P h db)). o_id ow = i_owner i \<and> live_state (o_state ow)"
      by (simp add: intents_backed_def)
  qed
  ultimately show ?thesis
    using ok by (simp add: db_ok_def active_backed_def protected_described_def)
qed

section \<open>Release\<close>

lemma update_owners_eq:
  assumes "\<And>ow. ow \<in> set (host_owners db) \<Longrightarrow> owner_step P f ow = g ow"
  shows "update_owners P f db = db\<lparr>host_owners := map g (host_owners db)\<rparr>"
proof -
  have "map (owner_step P f) (host_owners db) = map g (host_owners db)" using assms by simp
  then show ?thesis by (simp add: update_owners_def owner_step_def [abs_def])
qed

lemma update_reservations_id:
  assumes "\<And>r. r \<in> set (host_reservations db) \<Longrightarrow> P r \<Longrightarrow> reservation_update_guard db r (g r)"
  shows "update_reservations P g db = db"
proof -
  have "map (\<lambda>r. if P r \<and> \<not> reservation_update_guard db r (g r) then g r else r) (host_reservations db)
      = host_reservations db"
    using assms by (intro map_idI) auto
  then show ?thesis by (simp add: update_reservations_def)
qed

lemma update_intents_id:
  assumes "\<And>i. i \<in> set (host_intents db) \<Longrightarrow> P i \<Longrightarrow> intent_update_guard db i (h i)"
  shows "update_intents P h db = db"
proof -
  have "map (\<lambda>i. if P i \<and> \<not> intent_update_guard db i (h i) then h i else i) (host_intents db) = host_intents db"
    using assms by (intro map_idI) auto
  then show ?thesis by (simp add: update_intents_def)
qed

lemma update_owners_id:
  assumes "\<And>ow. ow \<in> set (host_owners db) \<Longrightarrow> P ow \<Longrightarrow> fires (owner_update_guard ow (f ow))"
  shows "update_owners P f db = db"
proof -
  have "update_owners P f db = db\<lparr>host_owners := map (\<lambda>ow. ow) (host_owners db)\<rparr>"
    by (rule update_owners_eq) (use assms in \<open>auto simp: owner_step_def\<close>)
  then show ?thesis by simp
qed

text \<open>On a protected owner a release does nothing at all: every one of its writes is guarded.\<close>

lemma release_locked_protected:
  assumes ok: "db_ok db" and p: "protected_owner db oid" and st: "st \<noteq> Active"
  shows "release_locked env oid st db = db"
proof -
  have res: "update_reservations (\<lambda>r. r_owner r = oid \<and> r_state r = RActive)
      (\<lambda>r. r\<lparr>r_state := RReleased, r_heartbeat_at := now env\<rparr>) db = db"
    using p by (intro update_reservations_id) (auto simp: reservation_update_guard_def)
  have own: "update_owners (\<lambda>ow. o_id ow = oid) (\<lambda>ow. ow\<lparr>o_state := st, o_heartbeat_at := now env\<rparr>) db = db"
  proof (rule update_owners_id)
    fix ow assume "ow \<in> set (host_owners db)" "o_id ow = oid"
    with p protected_owner_iff [OF ok] have "is_protected ow" by blast
    with st show "fires (owner_update_guard ow (ow\<lparr>o_state := st, o_heartbeat_at := now env\<rparr>))"
      by (auto simp: guard_protected guarded_change_def is_protected_def)
  qed
  show ?thesis
    unfolding release_locked_def res own
    using p by (intro update_intents_id) (auto simp: intent_update_guard_def)
qed

text \<open>On any other owner it does exactly what its three statements say.\<close>

lemma release_locked_unprotected:
  assumes np: "\<not> protected_owner db oid" and st: "st \<noteq> Active"
  shows "release_locked env oid st db = db\<lparr>
      host_owners := map (\<lambda>ow. if o_id ow = oid then ow\<lparr>o_state := st, o_heartbeat_at := now env\<rparr> else ow) (host_owners db),
      host_reservations := map (\<lambda>r. if r_owner r = oid \<and> r_state r = RActive
         then r\<lparr>r_state := RReleased, r_heartbeat_at := now env\<rparr> else r) (host_reservations db),
      host_intents := map (\<lambda>i. if i_owner i = oid \<and> i_state i = RActive
         then i\<lparr>i_state := RReleased, i_heartbeat_at := now env\<rparr> else i) (host_intents db)\<rparr>"
proof -
  let ?o = "\<lambda>ow. if o_id ow = oid then ow\<lparr>o_state := st, o_heartbeat_at := now env\<rparr> else ow"
  define db1 where "db1 = update_reservations (\<lambda>r. r_owner r = oid \<and> r_state r = RActive)
      (\<lambda>r. r\<lparr>r_state := RReleased, r_heartbeat_at := now env\<rparr>) db"
  have db1: "db1 = db\<lparr>host_reservations := map (\<lambda>r. if r_owner r = oid \<and> r_state r = RActive
         then r\<lparr>r_state := RReleased, r_heartbeat_at := now env\<rparr> else r) (host_reservations db)\<rparr>"
    using np unfolding db1_def update_reservations_def reservation_update_guard_def
    by (auto intro!: arg_cong [where f = "\<lambda>x. host_reservations_update x db"])
  define db2 where "db2 = update_owners (\<lambda>ow. o_id ow = oid) (\<lambda>ow. ow\<lparr>o_state := st, o_heartbeat_at := now env\<rparr>) db1"
  have np1: "ow \<in> set (host_owners db1) \<Longrightarrow> o_id ow = oid \<Longrightarrow> \<not> is_protected ow" for ow
    using np by (auto simp: db1 protected_owner_def)
  have db2: "db2 = db1\<lparr>host_owners :=
      map (\<lambda>ow. if o_id ow = oid then ow\<lparr>o_state := st, o_heartbeat_at := now env\<rparr> else ow) (host_owners db1)\<rparr>"
    unfolding db2_def by (rule update_owners_eq) (use np1 in \<open>auto simp: owner_step_def\<close>)
  have own2: "host_owners db2 = map ?o (host_owners db)"
    unfolding db2 db1 by simp
  have "o_id (?o w) = oid \<Longrightarrow> o_state (?o w) = st" for w by (cases "o_id w = oid") simp_all
  then have "o_state ow = st" if "ow \<in> set (host_owners db2)" "o_id ow = oid" for ow
    using that unfolding own2 set_map by (elim imageE) (simp only:)
  then have "\<not> protected_owner db2 oid"
    using st unfolding protected_owner_def is_protected_def by blast
  then have "update_intents (\<lambda>i. i_owner i = oid \<and> i_state i = RActive)
      (\<lambda>i. i\<lparr>i_state := RReleased, i_heartbeat_at := now env\<rparr>) db2 =
    db2\<lparr>host_intents := map (\<lambda>i. if i_owner i = oid \<and> i_state i = RActive
         then i\<lparr>i_state := RReleased, i_heartbeat_at := now env\<rparr> else i) (host_intents db2)\<rparr>"
    unfolding update_intents_def intent_update_guard_def
    by (auto intro!: arg_cong [where f = "\<lambda>x. host_intents_update x db2"])
  then show ?thesis
    unfolding release_locked_def db1_def [symmetric] db2_def [symmetric]
    by (simp add: db2 db1)
qed

lemma release_locked_ok:
  assumes ok: "db_ok db" and st: "\<not> live_state st"
  shows "db_ok (release_locked env oid st db)"
proof (cases "protected_owner db oid")
  case True
  with ok st show ?thesis by (simp add: release_locked_protected live_state_def)
next
  case False
  from st have st': "st \<noteq> Active" by (simp add: live_state_def)
  let ?o = "\<lambda>ow. if o_id ow = oid then ow\<lparr>o_state := st, o_heartbeat_at := now env\<rparr> else ow"
  let ?r = "\<lambda>r. if r_owner r = oid \<and> r_state r = RActive
     then r\<lparr>r_state := RReleased, r_heartbeat_at := now env\<rparr> else r"
  let ?i = "\<lambda>i. if i_owner i = oid \<and> i_state i = RActive
     then i\<lparr>i_state := RReleased, i_heartbeat_at := now env\<rparr> else i"
  let ?db = "release_locked env oid st db"
  note eq = release_locked_unprotected [OF False st']
  have "distinct (map o_id (host_owners ?db))"
    unfolding eq by (simp, rule distinct_map_step [OF db_okD(2) [OF ok], of ?o, simplified]) simp
  moreover have "distinct (map (\<lambda>r. (r_resource r, r_owner r)) (map ?r (host_reservations db)))"
    by (rule distinct_map_step [OF db_okD(3) [OF ok]]) simp
  moreover have "distinct (map i_id (map ?i (host_intents db)))"
    by (rule distinct_map_step [OF db_okD(4) [OF ok]]) simp
  moreover have "distinct (map r_resource (filter (\<lambda>r. r_state r = RActive) (map ?r (host_reservations db))))"
    by (rule distinct_filter_step [OF db_okD(5) [OF ok, unfolded active_reservations_def]]) (auto split: if_splits)
  moreover have "active_backed ?db"
    using db_okD(6) [OF ok]
    by (force simp: eq active_backed_def set_active_reservations split: if_splits)
  moreover have "intents_backed ?db"
    using db_okD(7) [OF ok]
    by (force simp: eq intents_backed_def set_active_intents split: if_splits)
  moreover have "protected_described ?db"
    using db_okD(8) [OF ok] by (auto simp: eq protected_described_def)
  ultimately show ?thesis
    using db_okD(1) [OF ok] by (simp add: db_ok_def eq active_reservations_def del: map_map)
qed

lemma close_dead_intents_ok: "db_ok db \<Longrightarrow> db_ok (close_dead_intents env db)"
  unfolding close_dead_intents_def by (rule update_intents_ok) (auto simp: calm_intent_def)

lemma fold_release_ok:
  assumes "db_ok db" "\<not> live_state st"
  shows "db_ok (fold (\<lambda>ow. release_locked env (o_id ow) st) ows db)"
  using assms by (induction ows arbitrary: db) (auto simp: release_locked_ok)

lemma sweep_locked_ok: "db_ok db \<Longrightarrow> db_ok (sweep_locked env stale db)"
  by (simp add: sweep_locked_def close_dead_intents_ok fold_release_ok live_state_def)

section \<open>Inserts\<close>

lemma insert_owner_ok:
  assumes ok: "db_ok db" and np: "\<not> residency_protected ow" and ins: "insert_owner ow db = Inr db'"
  shows "db_ok db'"
  using assms unfolding insert_owner_eq_Inr
  by (auto simp: db_ok_def active_backed_def intents_backed_def protected_described_def
      active_reservations_def active_intents_def)

lemma insert_owner_backs:
  assumes ins: "insert_owner ow db = Inr db'" and l: "live_state (o_state ow)"
  shows "\<exists>w \<in> set (host_owners db'). o_id w = o_id ow \<and> (o_state w = Active \<or> w = ow)"
  using ins unfolding insert_owner_eq_Inr
  by (auto simp: protected_owner_def is_protected_def)

text \<open>What an inserted reservation changes: nothing, or the row is appended.\<close>

lemma insert_reservation_cases:
  assumes "insert_reservation r db = Inr db'" and "r_state r = RActive"
  shows "db' = db \<or>
     (db' = db\<lparr>host_reservations := host_reservations db @ [r]\<rparr> \<and>
      r_resource r \<notin> set (map r_resource (active_reservations db)) \<and>
      (r_resource r, r_owner r) \<notin> set (map (\<lambda>r. (r_resource r, r_owner r)) (host_reservations db)))"
  using assms by (auto simp: insert_reservation_def active_reservations_def split: if_splits)

definition keyed :: "host_db \<Rightarrow> bool" where
  "keyed db \<longleftrightarrow> distinct (map (\<lambda>r. (r_resource r, r_owner r)) (host_reservations db)) \<and>
     distinct (map r_resource (active_reservations db))"

lemma insert_reservations_keyed:
  assumes "insert_reservations rs db = Inr db'" "\<And>r. r \<in> set rs \<Longrightarrow> r_state r = RActive" "keyed db"
  shows "keyed db' \<and> host_owners db' = host_owners db \<and> host_intents db' = host_intents db \<and>
    host_resources db' = host_resources db \<and>
    set (host_reservations db') \<subseteq> set (host_reservations db) \<union> set rs"
  using assms
proof (induction rs arbitrary: db)
  case (Cons r rs)
  then obtain db1 where i: "insert_reservation r db = Inr db1" and rest: "insert_reservations rs db1 = Inr db'"
    by (auto simp: bindR_eq_Inr)
  from insert_reservation_cases [OF i] Cons.prems
  have "keyed db1 \<and> host_owners db1 = host_owners db \<and> host_intents db1 = host_intents db \<and>
      host_resources db1 = host_resources db \<and>
      set (host_reservations db1) \<subseteq> insert r (set (host_reservations db))"
    by (auto simp: keyed_def active_reservations_def)
  with Cons.IH [OF rest] Cons.prems(2) show ?case by auto
qed simp

lemma insert_reservations_ok:
  assumes ok: "db_ok db" and ins: "insert_reservations (map (new_reservation env oid) rids) db = Inr db'"
    and ow: "\<exists>w \<in> set (host_owners db). o_id w = oid \<and> o_state w = Active"
  shows "db_ok db'"
proof -
  have "keyed db" using ok by (simp add: keyed_def db_ok_def)
  moreover have "r_state r = RActive" if "r \<in> set (map (new_reservation env oid) rids)" for r
    using that by (auto simp: new_reservation_def)
  ultimately have k: "keyed db'" and fr: "host_owners db' = host_owners db" "host_intents db' = host_intents db"
    "host_resources db' = host_resources db"
    and sub: "set (host_reservations db') \<subseteq> set (host_reservations db) \<union> new_reservation env oid ` set rids"
    using insert_reservations_keyed [OF ins] by auto
  have "active_backed db'"
    using sub db_okD(6) [OF ok] ow
    by (fastforce simp: active_backed_def set_active_reservations fr new_reservation_def)
  with k ok fr show ?thesis
    by (simp add: db_ok_def keyed_def intents_backed_def protected_described_def active_intents_def)
qed

lemma insert_intent_ok:
  assumes ok: "db_ok db" and ins: "insert_intent i db = Inr db'"
    and ow: "\<exists>w \<in> set (host_owners db). o_id w = i_owner i \<and> live_state (o_state w)"
  shows "db_ok db'"
  using assms
  by (auto simp: insert_intent_def db_ok_def active_backed_def intents_backed_def protected_described_def
      active_reservations_def active_intents_def split: if_splits)

section \<open>The methods keep the invariant\<close>

lemma benign_flag: "benign (\<lambda>ow. ow\<lparr>preempt_flag := True, o_heartbeat_at := t\<rparr>)"
  by (simp add: benign_def)

lemma request_preemption_locked_ok:
  "db_ok db \<Longrightarrow> db_ok (snd (request_preemption_locked env rq p db))"
  by (auto simp: request_preemption_locked_def request_preemption_flag_def Let_def benign_flag
      intro: update_owners_ok split: list.splits)

lemma new_owner_simps [simp]:
  "residency_protected (new_owner env sp p st pre cpu ram) = False"
  "o_state (new_owner env sp p st pre cpu ram) = st"
  "o_id (new_owner env sp p st pre cpu ram) = spec_id sp"
  "o_cpu_threads (new_owner env sp p st pre cpu ram) = cpu"
  "o_ram_bytes (new_owner env sp p st pre cpu ram) = ram"
  by (simp_all add: new_owner_def)

lemma reserve_locked_ok:
  assumes ok: "db_ok db" and res: "reserve_locked env sp rq pc db = Inr (out, db')"
  shows "db_ok db'"
proof -
  from res obtain p where p: "parse_priority pc = Inr p"
    by (auto simp: reserve_locked_def bindR_eq_Inr)
  show ?thesis
  proof (cases "select_locked env db rq")
    case None
    with res p request_preemption_locked_ok [OF ok, of env rq p] show ?thesis
      by (auto simp: reserve_locked_def)
  next
    case (Some rids)
    with res p obtain db1 where
      i: "insert_owner (new_owner env sp p Active True (cpu_threads env rq) (int (rq_ram_bytes rq))) db = Inr db1"
      and r: "insert_reservations (map (new_reservation env (spec_id sp)) rids) db1 = Inr db'"
      by (auto simp: reserve_locked_def bindR_eq_Inr)
    have "db_ok db1" using insert_owner_ok [OF ok _ i] by simp
    moreover have "\<exists>w \<in> set (host_owners db1). o_id w = spec_id sp \<and> o_state w = Active"
      using insert_owner_backs [OF i] by (auto simp: live_state_def)
    ultimately show ?thesis using insert_reservations_ok [OF _ r] by blast
  qed
qed

lemma catch_integrity_ok:
  assumes "db_ok db" "\<And>x d. m = Inr (x, d) \<Longrightarrow> db_ok d" "catch_integrity db dflt m = Inr (out, db')"
  shows "db_ok db'"
  using assms by (auto simp: catch_integrity_def split: sum.splits exn.splits)

lemma reserve_background_ok:
  "db_ok db \<Longrightarrow> reserve_background env project job attempt rq pid db = Inr (out, db') \<Longrightarrow> db_ok db'"
  unfolding reserve_background_def
  by (erule catch_integrity_ok [rotated 2]) (auto intro: reserve_locked_ok sweep_locked_ok)

lemma reserve_service_ok:
  "db_ok db \<Longrightarrow> reserve_service env uuid project service rq pid pc db = Inr (out, db') \<Longrightarrow> db_ok db'"
  unfolding reserve_service_def
  by (erule catch_integrity_ok [rotated 2]) (auto intro: reserve_locked_ok sweep_locked_ok)

lemma foreground_resources_ok:
  "db_ok db \<Longrightarrow> foreground_resources env rq p db = (rs, db') \<Longrightarrow> db_ok db'"
  using request_preemption_locked_ok [of db env rq p]
  by (auto simp: foreground_resources_def split: option.splits prod.splits if_splits list.splits)

lemma begin_foreground_ok:
  assumes ok: "db_ok db" and res: "begin_foreground env uuid iid project rq pid pc db = Inr (out, db')"
  shows "db_ok db'"
proof -
  obtain p where p: "parse_priority pc = Inr p"
    using res by (auto simp: begin_foreground_def bindR_eq_Inr)
  obtain rs db1 where fr: "foreground_resources env rq p (sweep_locked env 30 db) = (rs, db1)"
    by fastforce
  let ?sp = "\<lparr>spec_id = ''foreground:'' @ uuid, spec_kind = ''foreground'', spec_project = project, spec_job = None,
                spec_attempt = None, spec_service = None, spec_pid = pid\<rparr>"
  from res p fr obtain db2 db3 P where
    i: "insert_owner (new_owner env ?sp p Intent False (int (rq_cpu_threads rq)) (int (rq_ram_bytes rq))) db1 = Inr db2"
    and j: "insert_intent \<lparr>i_id = iid, i_owner = ''foreground:'' @ uuid, i_resources = rs,
        i_cpu_threads = int (rq_cpu_threads rq), i_ram_bytes = int (rq_ram_bytes rq), i_state = RActive,
        i_created_at = now env, i_heartbeat_at = now env\<rparr> db2 = Inr db3"
    and d: "db' = request_preemption_flag env P db3"
    unfolding begin_foreground_def Let_def by (auto simp: bindR_eq_Inr)
  have "db_ok db1" using foreground_resources_ok [OF sweep_locked_ok [OF ok] fr] .
  then have "db_ok db2" using insert_owner_ok [OF _ _ i] by simp
  moreover have "\<exists>w \<in> set (host_owners db2). o_id w = ''foreground:'' @ uuid \<and> live_state (o_state w)"
    using insert_owner_backs [OF i] by (auto simp: live_state_def)
  ultimately have "db_ok db3" using insert_intent_ok [OF _ j] by simp
  then show ?thesis unfolding d request_preemption_flag_def by (rule update_owners_ok) (rule benign_flag)
qed

text \<open>Owners are never removed and keep their identifiers.\<close>

lemma release_locked_ids: "map o_id (host_owners (release_locked env oid st db)) = map o_id (host_owners db)"
  by (simp add: release_locked_def owner_ids_update)

lemma sweep_locked_ids: "map o_id (host_owners (sweep_locked env stale db)) = map o_id (host_owners db)"
proof -
  have "map o_id (host_owners (fold (\<lambda>ow. release_locked env (o_id ow) Stale) ows db)) = map o_id (host_owners db)" for ows
    by (induction ows arbitrary: db) (simp_all add: release_locked_ids)
  then show ?thesis by (simp add: sweep_locked_def close_dead_intents_def)
qed

abbreviation activated :: "real \<Rightarrow> owner \<Rightarrow> owner" where
  "activated t \<equiv> \<lambda>ow. ow\<lparr>o_state := Active, o_heartbeat_at := t\<rparr>"

lemma owner_step_activate:
  shows "o_id (owner_step (\<lambda>ow. o_id ow = oid) (activated t) w) = o_id w"
    "o_id w = oid \<Longrightarrow> o_state (owner_step (\<lambda>ow. o_id ow = oid) (activated t) w) = Active"
    "o_id w \<noteq> oid \<Longrightarrow> owner_step (\<lambda>ow. o_id ow = oid) (activated t) w = w"
    "residency_protected (owner_step (\<lambda>ow. o_id ow = oid) (activated t) w) = residency_protected w"
    "residency_metadata (owner_step (\<lambda>ow. o_id ow = oid) (activated t) w) = residency_metadata w"
  by (auto simp: owner_step_def is_protected_def dest: fires_protected)

lemma owner_step_activate_live:
  assumes "o_state w = Active \<or> live_state (o_state w) \<and> Q"
  shows "o_state (owner_step (\<lambda>ow. o_id ow = oid) (activated t) w) = Active \<or>
     live_state (o_state (owner_step (\<lambda>ow. o_id ow = oid) (activated t) w)) \<and> Q"
  using assms owner_step_activate(2,3) [of w oid t] by (cases "o_id w = oid") auto

lemma activate_owner_ok:
  assumes k: "keyed db2" and ok: "db_ok db1"
    and fr: "host_owners db2 = host_owners db1" "host_intents db2 = host_intents db1"
      "host_resources db2 = host_resources db1"
    and sub: "set (host_reservations db2) \<subseteq> set (host_reservations db1) \<union> new_reservation env oid ` set rids"
    and w: "w \<in> set (host_owners db1)" "o_id w = oid"
  shows "db_ok (update_owners (\<lambda>ow. o_id ow = oid) (activated (now env)) db2)"
    (is "db_ok ?db")
proof -
  let ?s = "owner_step (\<lambda>ow. o_id ow = oid) (activated (now env))"
  have own: "host_owners ?db = map ?s (host_owners db1)" by (simp add: host_owners_update fr)
  have act: "o_state ow = Active \<Longrightarrow> o_state (?s ow) = Active" for ow
    using owner_step_activate_live [of ow False] by auto
  have "active_backed ?db"
    unfolding active_backed_def
  proof
    fix r assume "r \<in> set (active_reservations ?db)"
    then have "r \<in> set (active_reservations db1) \<or> r_owner r = oid"
      using sub by (auto simp: set_active_reservations new_reservation_def)
    then obtain ow where "ow \<in> set (host_owners db1)" "o_id ow = r_owner r" "o_state (?s ow) = Active"
      using db_okD(6) [OF ok] w act owner_step_activate(2) by (auto simp: active_backed_def)
    then show "\<exists>ow\<in>set (host_owners ?db). o_id ow = r_owner r \<and> o_state ow = Active"
      unfolding own by (auto simp: owner_step_activate(1) intro!: bexI [of _ ow])
  qed
  moreover have "intents_backed ?db"
    using db_okD(7) [OF ok] owner_step_activate_live [of _ True]
    unfolding intents_backed_def own active_intents_def update_owners_frame fr
    by (fastforce simp: owner_step_activate(1) live_state_def)
  moreover have "protected_described ?db"
    using db_okD(8) [OF ok] by (auto simp: protected_described_def own owner_step_activate)
  moreover have "distinct (map o_id (host_owners ?db))"
    using db_okD(2) [OF ok] by (subst owner_ids_update) (simp_all add: fr)
  ultimately show ?thesis
    using k db_okD [OF ok] by (simp add: db_ok_def keyed_def fr)
qed

lemma activate_foreground_ok:
  assumes ok: "db_ok db" and known: "oid \<in> o_id ` set (host_owners db)"
    and res: "activate_foreground env oid rids db = Inr (out, db')"
  shows "db_ok db'"
proof -
  let ?db1 = "sweep_locked env 30 db"
  have ok1: "db_ok ?db1" by (rule sweep_locked_ok [OF ok])
  obtain w where w: "w \<in> set (host_owners ?db1)" "o_id w = oid"
    using known sweep_locked_ids [of env 30 db] by (metis (no_types, lifting) imageE list.set_map)
  show ?thesis
  proof (cases "\<exists>r \<in> set (active_reservations ?db1). r_resource r \<in> set rids")
    case True
    with res ok1 show ?thesis by (auto simp: activate_foreground_def)
  next
    case False
    show ?thesis
    proof (rule catch_integrity_ok [OF ok])
      show "catch_integrity db False (bindR (insert_reservations (map (new_reservation env oid) rids) ?db1) (\<lambda>db2.
         Inr (True, update_owners (\<lambda>ow. o_id ow = oid) (activated (now env)) db2)))
        = Inr (out, db')"
        using res False by (simp add: activate_foreground_def Let_def)
    next
      fix x d
      assume "bindR (insert_reservations (map (new_reservation env oid) rids) ?db1) (\<lambda>db2.
         Inr (True, update_owners (\<lambda>ow. o_id ow = oid) (activated (now env)) db2))
        = Inr (x, d)"
      then obtain db2 where ins: "insert_reservations (map (new_reservation env oid) rids) ?db1 = Inr db2"
        and d: "d = update_owners (\<lambda>ow. o_id ow = oid) (activated (now env)) db2"
        by (auto simp: bindR_eq_Inr)
      have k: "keyed ?db1" using ok1 by (simp add: keyed_def db_ok_def)
      have a: "r_state r = RActive" if "r \<in> set (map (new_reservation env oid) rids)" for r
        using that by (auto simp: new_reservation_def)
      from insert_reservations_keyed [OF ins a k] show "db_ok d"
        unfolding d by (auto intro!: activate_owner_ok [OF _ ok1 _ _ _ _ w])
    qed
  qed
qed

lemma set_priority_ok: "db_ok db \<Longrightarrow> set_priority env oid pc db = Inr (out, db') \<Longrightarrow> db_ok db'"
  by (auto simp: set_priority_def bindR_eq_Inr benign_def split: option.splits if_splits intro!: update_owners_ok)

lemma request_preemption_ok: "db_ok db \<Longrightarrow> db_ok (snd (request_preemption env oid db))"
  by (auto simp: request_preemption_def Let_def benign_def intro!: update_owners_ok)

lemma heartbeat_ok: "db_ok db \<Longrightarrow> db_ok (heartbeat env oid pid db)"
  unfolding heartbeat_def Let_def
  by (intro update_reservations_ok update_owners_ok) (auto simp: benign_def calm_def)

lemma reconcile_ok: "db_ok db \<Longrightarrow> db_ok (snd (reconcile_current_service_owners env project pid live db))"
  by (auto simp: reconcile_current_service_owners_def Let_def live_state_def intro!: fold_release_ok split: option.splits)

lemma protect_residency_ok:
  "db_ok db \<Longrightarrow> protect_residency env cap gen oid base db = Inr (out, db') \<Longrightarrow> db_ok db'"
  by (auto simp: protect_residency_def Let_def bindR_eq_Inr benign_def
      split: option.splits if_splits intro!: update_owners_ok)

lemma record_residency_process_ok:
  "db_ok db \<Longrightarrow> record_residency_process env oid pid cap gen db = Inr (out, db') \<Longrightarrow> db_ok db'"
  by (auto simp: record_residency_process_def bindR_eq_Inr benign_def
      split: option.splits if_splits intro!: update_owners_ok)

lemma release_ok: "db_ok db \<Longrightarrow> release env oid q cap gen db = Inr (out, db') \<Longrightarrow> db_ok db'"
  by (auto simp: release_def bindR_eq_Inr benign_def live_state_def
      split: option.splits if_splits intro!: release_locked_ok update_owners_ok)

lemma resources_only_ok:
  "db_ok db \<Longrightarrow> distinct (map res_id rs) \<Longrightarrow> db_ok (db\<lparr>host_resources := rs\<rparr>)"
  by (simp add: db_ok_def active_backed_def intents_backed_def protected_described_def
      active_reservations_def active_intents_def)

lemma upsert_resource_ok:
  assumes ok: "db_ok db" shows "db_ok (upsert_resource res db)"
proof (cases "res_id res \<in> res_id ` set (host_resources db)")
  case True
  have "distinct (map res_id (map (\<lambda>s. if res_id s = res_id res then res else s) (host_resources db)))"
    by (rule distinct_map_step [OF db_okD(1) [OF ok]]) simp
  with True ok show ?thesis by (simp add: upsert_resource_def resources_only_ok)
next
  case False
  with ok show ?thesis by (auto simp: upsert_resource_def db_okD(1) intro: resources_only_ok)
qed

lemma fold_upsert_ok: "db_ok db \<Longrightarrow> db_ok (fold upsert_resource rs db)"
  by (induction rs arbitrary: db) (auto simp: upsert_resource_ok)

lemma replace_resources_ok:
  assumes ok: "db_ok db" and r: "replace_resources kind rs db = Inr db'"
  shows "db_ok db'"
proof -
  have "distinct (map res_id (map (\<lambda>r. if res_kind r = kind then r\<lparr>res_enabled := False\<rparr> else r) (host_resources db)))"
    by (rule distinct_map_step [OF db_okD(1) [OF ok]]) simp
  with ok r show ?thesis
    by (auto simp: replace_resources_def split: if_splits intro!: fold_upsert_ok resources_only_ok)
qed

end
