(* ===== verification/Machine.thy ===== *)
theory Machine
  imports Prelude
begin

text \<open>
  The interfaces of the state machines: a start state and a step relation with an invariant, a
  registry in which a resource has one holder, and a name space whose bindings never change.  The
  host registry and the packet store are instances.
\<close>

section \<open>Transition systems with an invariant\<close>

locale transition_system =
  fixes start :: 's and step :: "'s \<Rightarrow> 's \<Rightarrow> bool" and inv :: "'s \<Rightarrow> bool"
  assumes start_inv: "inv start"
    and step_inv: "inv s \<Longrightarrow> step s t \<Longrightarrow> inv t"
begin

lemma reachable_inv: "step\<^sup>*\<^sup>* start s \<Longrightarrow> inv s"
  by (induction rule: rtranclp_induct) (auto intro: start_inv step_inv)

end

text \<open>A registry in which a resource has at most one holder.\<close>

locale exclusive_registry = transition_system start step inv
  for start :: 's and step :: "'s \<Rightarrow> 's \<Rightarrow> bool" and inv :: "'s \<Rightarrow> bool" +
  fixes holds :: "'s \<Rightarrow> string \<Rightarrow> string \<Rightarrow> bool"
  assumes inv_exclusive: "inv s \<Longrightarrow> holds s rid a \<Longrightarrow> holds s rid b \<Longrightarrow> a = b"
begin

lemma reachable_exclusive: "step\<^sup>*\<^sup>* start s \<Longrightarrow> holds s rid a \<Longrightarrow> holds s rid b \<Longrightarrow> a = b"
  by (blast intro: inv_exclusive reachable_inv)

end

text \<open>A name space: a name is bound to at most one value, and a step keeps every binding.\<close>

locale stable_names = transition_system start step inv
  for start :: 's and step :: "'s \<Rightarrow> 's \<Rightarrow> bool" and inv :: "'s \<Rightarrow> bool" +
  fixes binds :: "'s \<Rightarrow> string \<Rightarrow> 'v \<Rightarrow> bool"
  assumes binds_unique: "inv s \<Longrightarrow> binds s n a \<Longrightarrow> binds s n b \<Longrightarrow> a = b"
    and binds_kept: "inv s \<Longrightarrow> step s t \<Longrightarrow> binds s n a \<Longrightarrow> binds t n a"
begin

lemma binds_forever:
  assumes "step\<^sup>*\<^sup>* start s" "step\<^sup>*\<^sup>* s t" "binds s n a"
  shows "binds t n a"
  using assms(2,1,3)
proof (induction rule: rtranclp_induct)
  case (step u t)
  have "inv u" using step.prems(1) step.hyps(1) by (meson reachable_inv rtranclp_trans)
  with step show ?case by (blast intro: binds_kept)
qed

lemma never_rebound:
  assumes "step\<^sup>*\<^sup>* start s" "step\<^sup>*\<^sup>* s t" "binds s n a" "binds t n b"
  shows "a = b"
  using binds_forever [OF assms(1,2,3)] assms(4) reachable_inv [OF rtranclp_trans [OF assms(1,2)]] by (blast intro: binds_unique)

end

end
