(* ===== verification/HostMachine.thy ===== *)
theory HostMachine
  imports CoordinatorInv Machine
begin

text \<open>
  The host registry as a state machine.  A step is one method of \<open>HostCoordinator\<close> run in its
  transaction, from any host environment and with any arguments; the one thing a step assumes of
  its caller is that \<open>activate_foreground\<close> names an owner that is in the registry, as the
  result of \<open>begin_foreground\<close> is.
\<close>

section \<open>The steps\<close>

inductive host_step :: "host_db \<Rightarrow> host_db \<Rightarrow> bool" where
  step_upsert: "host_step db (upsert_resources rs db)"
| step_replace: "replace_resources kind rs db = Inr db' \<Longrightarrow> host_step db db'"
| step_sweep: "host_step db (snd (sweep_stale env stale db))"
| step_reconcile: "host_step db (snd (reconcile_current_service_owners env project pid live db))"
| step_background: "reserve_background env project job attempt rq pid db = Inr (out, db') \<Longrightarrow> host_step db db'"
| step_service: "reserve_service env uuid project service rq pid pc db = Inr (out, db') \<Longrightarrow> host_step db db'"
| step_foreground: "begin_foreground env uuid iid project rq pid pc db = Inr (res, db') \<Longrightarrow> host_step db db'"
| step_activate: "oid \<in> o_id ` set (host_owners db) \<Longrightarrow>
     activate_foreground env oid rids db = Inr (b, db') \<Longrightarrow> host_step db db'"
| step_priority: "set_priority env oid pc db = Inr (b, db') \<Longrightarrow> host_step db db'"
| step_preempt: "host_step db (snd (request_preemption env oid db))"
| step_heartbeat: "host_step db (heartbeat env oid hpid db)"
| step_protect: "protect_residency env cap gen oid base db = Inr (md, db') \<Longrightarrow> host_step db db'"
| step_record: "record_residency_process env oid pid cap gen db = Inr (u, db') \<Longrightarrow> host_step db db'"
| step_release: "release env oid q capo geno db = Inr (u, db') \<Longrightarrow> host_step db db'"

lemmas method_ok = fold_upsert_ok replace_resources_ok sweep_locked_ok reconcile_ok reserve_background_ok
  reserve_service_ok begin_foreground_ok activate_foreground_ok set_priority_ok request_preemption_ok
  heartbeat_ok protect_residency_ok record_residency_process_ok release_ok

lemma host_step_ok: "host_step db db' \<Longrightarrow> db_ok db \<Longrightarrow> db_ok db'"
  by (induction rule: host_step.induct)
    (auto simp: upsert_resources_def sweep_stale_def Let_def intro: method_ok)

text \<open>Who holds a resource: the owner of its active reservation.\<close>

definition holds :: "host_db \<Rightarrow> string \<Rightarrow> string \<Rightarrow> bool" where
  "holds db rid oid \<longleftrightarrow> rid \<in> set (held_resources db oid)"

lemma holds_iff: "holds db rid oid \<longleftrightarrow> (\<exists>r \<in> set (active_reservations db). r_resource r = rid \<and> r_owner r = oid)"
  by (auto simp: holds_def held_resources_def)

lemma active_unique:
  assumes "db_ok db" "r \<in> set (active_reservations db)" "s \<in> set (active_reservations db)" "r_resource r = r_resource s"
  shows "r = s"
  using db_okD(5) [OF assms(1)] assms(2-4) by (auto simp: distinct_map dest: inj_onD)

interpretation host: exclusive_registry empty_db host_step db_ok holds
proof unfold_locales
  show "db_ok empty_db" by (rule empty_db_ok)
next
  fix s t assume "db_ok s" "host_step s t"
  then show "db_ok t" by (rule host_step_ok [rotated])
next
  fix s rid a b assume ok: "db_ok s" and "holds s rid a" "holds s rid b"
  then obtain x y where xy: "x \<in> set (active_reservations s)" "y \<in> set (active_reservations s)"
    and eq: "r_resource x = rid" "r_owner x = a" "r_resource y = rid" "r_owner y = b"
    unfolding holds_iff by blast
  have "x = y" by (rule active_unique [OF ok xy]) (simp add: eq)
  with eq show "a = b" by simp
qed

section \<open>Exclusive ownership\<close>

text \<open>
  C1. In every state the registry can reach, a resource has at most one active reservation, and
  the owner of that reservation is a registered owner in state \<^verbatim>\<open>active\<close>.
\<close>

theorem host_exclusive:
  assumes reach: "host_step\<^sup>*\<^sup>* empty_db db"
    and r: "r \<in> set (active_reservations db)"
  shows "(\<forall>s. s \<in> set (active_reservations db) \<and> r_resource s = r_resource r \<longrightarrow> s = r) \<and>
    (\<exists>!ow. ow \<in> set (host_owners db) \<and> o_id ow = r_owner r) \<and>
    (\<exists>ow \<in> set (host_owners db). o_id ow = r_owner r \<and> o_state ow = Active)"
proof -
  have ok: "db_ok db" by (rule host.reachable_inv [OF reach])
  obtain ow where ow: "ow \<in> set (host_owners db)" "o_id ow = r_owner r" "o_state ow = Active"
    using db_okD(6) [OF ok] r by (auto simp: active_backed_def)
  show ?thesis
  proof (intro conjI allI impI)
    fix s assume s: "s \<in> set (active_reservations db) \<and> r_resource s = r_resource r"
    show "s = r" by (rule active_unique [OF ok _ r]) (use s in simp_all)
  next
    show "\<exists>!ow. ow \<in> set (host_owners db) \<and> o_id ow = r_owner r"
    proof (rule ex1I [of _ ow])
      fix w assume w: "w \<in> set (host_owners db) \<and> o_id w = r_owner r"
      show "w = ow" by (rule owner_unique [OF ok _ ow(1)]) (use w ow in simp_all)
    qed (use ow in simp)
  next
    show "\<exists>ow \<in> set (host_owners db). o_id ow = r_owner r \<and> o_state ow = Active" using ow by blast
  qed
qed

end
