(* ===== verification/HostDemo.thy ===== *)
theory HostDemo
  imports HostMachine
begin

text \<open>
  A small host on which the theorems about the registry are exercised: two accelerators in one
  NVLink domain, and a background job that holds the first.
\<close>

definition demo_env :: host_env where
  "demo_env = \<lparr>now = 1000, procs = \<lparr>kill_ok = (\<lambda>_. True), process_start_of = (\<lambda>_. Some ''77'')\<rparr>,
     env_cpu_capacity = 8, env_memory_capacity = 1000, getpid = 4242, env_boot_id = ''boot'',
     resolve_path = (\<lambda>p. p), digest = (\<lambda>_. ''0123456789abcdef''), sha256_hex = (\<lambda>_. ''d''),
     parse_float = (\<lambda>_. None)\<rparr>"

definition demo_resources :: "host_resource list" where
  "demo_resources =
     [\<lparr>res_id = ''accelerator:a'', res_kind = ''accelerator'', res_tags = [(''nvlink_domain'', ''n0'')], res_enabled = True\<rparr>,
      \<lparr>res_id = ''accelerator:b'', res_kind = ''accelerator'', res_tags = [(''nvlink_domain'', ''n0'')], res_enabled = True\<rparr>]"

definition demo_db0 :: host_db where
  "demo_db0 = upsert_resources demo_resources empty_db"

definition demo_request :: "string list \<Rightarrow> resource_request" where
  "demo_request ids = \<lparr>rq_kind = ''accelerator'', rq_ids = ids, rq_tags = [], exclusive_resources = [],
     isolate_pcie_root = False, isolate_nvlink_domain = False, cpu_heavy = False, rq_count = 0,
     rq_cpu_threads = 2, rq_ram_bytes = 100\<rparr>"

definition demo_owner :: owner where
  "demo_owner = new_owner demo_env
     \<lparr>spec_id = ''background:0123456789abcdef:j:1'', spec_kind = ''background'', spec_project = ''/p'',
      spec_job = Some ''j'', spec_attempt = Some ''1'', spec_service = None, spec_pid = 7\<rparr>
     BACKGROUND_CUDA Active True 2 100"

definition demo_db1 :: host_db where
  "demo_db1 = demo_db0\<lparr>host_owners := [demo_owner],
     host_reservations := [new_reservation demo_env ''background:0123456789abcdef:j:1'' ''accelerator:a'']\<rparr>"

lemma demo_reserve:
  "reserve_background demo_env ''/p'' ''j'' ''1'' (demo_request [''accelerator:a'']) 7 demo_db0 =
     Inr (Some (''background:0123456789abcdef:j:1'', [''accelerator:a'']), demo_db1)"
  by code_simp

lemma demo_reachable0: "host_step\<^sup>*\<^sup>* empty_db demo_db0"
  unfolding demo_db0_def by (rule r_into_rtranclp) (rule step_upsert)

lemma demo_reachable1: "host_step\<^sup>*\<^sup>* empty_db demo_db1"
  using demo_reachable0 step_background [OF demo_reserve] by (rule rtranclp.rtrancl_into_rtrancl)

lemma demo_db1_ok: "db_ok demo_db1"
  by (rule host.reachable_inv [OF demo_reachable1])

text \<open>C1 at the host where the first accelerator is reserved.\<close>

theorem host_exclusive_witness:
  "\<exists>!ow. ow \<in> set (host_owners demo_db1) \<and> o_id ow = ''background:0123456789abcdef:j:1''"
proof -
  have "new_reservation demo_env ''background:0123456789abcdef:j:1'' ''accelerator:a'' \<in> set (active_reservations demo_db1)"
    by (simp add: demo_db1_def active_reservations_def new_reservation_def)
  from host_exclusive [OF demo_reachable1 this] show ?thesis
    by (simp add: new_reservation_def)
qed

end
