(* ===== verification/HostProps.thy ===== *)
theory HostProps
  imports HostDemo
begin

text \<open>
  What the methods of the host registry do, branch by branch: selection is a complete search,
  a reservation takes exactly the selected bundle within the pressure limits, preemption signals
  only weaker owners and as few as possible, a foreground intent fences its resources, a sweep
  releases exactly the dead.
\<close>

section \<open>Selection is complete\<close>

text \<open>What a set of resources claims under a request: its identifiers and the extra ones.\<close>

definition bundle_claim :: "resource_request \<Rightarrow> host_resource set \<Rightarrow> string set" where
  "bundle_claim rq S = res_id ` S \<union> set (exclusive_resources rq) \<union>
     (if isolate_pcie_root rq
      then {''interference:pcie:'' @ v | v res. res \<in> S \<and> map_of (res_tags res) ''pcie_root'' = Some v \<and> v \<noteq> []} else {}) \<union>
     (if isolate_nvlink_domain rq
      then {''interference:nvlink:'' @ v | v res. res \<in> S \<and> map_of (res_tags res) ''nvlink_domain'' = Some v \<and> v \<noteq> []} else {})"

lemma set_interference_ids:
  "set (interference_ids pre k xs) = {pre @ v | v res. res \<in> set xs \<and> map_of (res_tags res) k = Some v \<and> v \<noteq> []}"
  by (force simp: interference_ids_def split: option.splits if_splits)

lemma set_expand_bundle: "set (expand_bundle rq xs) = bundle_claim rq (set xs)"
  by (auto simp: expand_bundle_def extra_ids_def bundle_claim_def set_interference_ids)

lemma distinct_matching: "db_ok db \<Longrightarrow> distinct (matching_resources db rq)"
  using db_okD(1) [of db] by (auto simp: matching_resources_def distinct_map)

lemma combinations_of_subset:
  assumes d: "distinct rows" and S: "S \<subseteq> set rows" and n: "card S = n"
  shows "\<exists>c \<in> set (combinations rows n). set c = S"
proof (intro bexI)
  let ?c = "filter (\<lambda>x. x \<in> S) rows"
  show "set ?c = S" using S by auto
  have "length ?c = n" using d n \<open>set ?c = S\<close> by (metis distinct_card distinct_filter)
  then show "?c \<in> set (combinations rows n)" by (simp add: set_combinations)
qed

lemma select_locked_Some_iff:
  "(\<exists>b. select_locked env db rq = Some b) \<longleftrightarrow>
    pressure_available env db rq \<and>
    (\<exists>c \<in> set (bundle_combinations db rq). active_resource_ids db \<inter> bundle_claim rq (set c) = {})"
  using find_Some_ex [of "\<lambda>b. active_resource_ids db \<inter> set b = {}" "candidate_resources db rq"]
  by (auto simp: select_locked_def candidate_resources_def set_expand_bundle)

text \<open>
  C17. A request for \<open>n\<close> resources is granted exactly when capacity allows it and some \<open>n\<close> of the
  enabled resources that match it are free together with everything they would exclude: the
  search over combinations misses no bundle.
\<close>

theorem select_locked_complete:
  assumes ok: "db_ok db" and ids: "rq_ids rq = []" and n: "rq_count rq = n" "0 < n"
  shows "(\<exists>b. select_locked env db rq = Some b) \<longleftrightarrow>
    pressure_available env db rq \<and>
    (\<exists>S \<subseteq> set (matching_resources db rq). card S = n \<and> active_resource_ids db \<inter> bundle_claim rq S = {})"
proof -
  have bc: "bundle_combinations db rq = combinations (matching_resources db rq) n"
    using ids n by (simp add: bundle_combinations_def Let_def)
  have "(\<exists>c \<in> set (bundle_combinations db rq). active_resource_ids db \<inter> bundle_claim rq (set c) = {}) \<longleftrightarrow>
    (\<exists>S \<subseteq> set (matching_resources db rq). card S = n \<and> active_resource_ids db \<inter> bundle_claim rq S = {})"
    (is "?L \<longleftrightarrow> ?R")
  proof
    assume ?L
    then obtain c where c: "c \<in> set (combinations (matching_resources db rq) n)"
      "active_resource_ids db \<inter> bundle_claim rq (set c) = {}" by (auto simp: bc)
    have "set c \<subseteq> set (matching_resources db rq)" by (rule combinations_subset [OF c(1)])
    moreover have "card (set c) = n"
      using combinations_distinct [OF distinct_matching [OF ok] c(1)] c(1) by (simp add: set_combinations distinct_card)
    ultimately show ?R using c(2) by blast
  next
    assume ?R
    then show ?L unfolding bc using combinations_of_subset [OF distinct_matching [OF ok]] by metis
  qed
  then show ?thesis by (simp only: select_locked_Some_iff)
qed

text \<open>C17 at the demonstration host, asking for one more accelerator.\<close>

theorem select_locked_complete_witness:
  "\<exists>S \<subseteq> set (matching_resources demo_db1 ((demo_request [])\<lparr>rq_count := 1\<rparr>)).
     card S = 1 \<and> active_resource_ids demo_db1 \<inter> bundle_claim ((demo_request [])\<lparr>rq_count := 1\<rparr>) S = {}"
proof -
  let ?rq = "(demo_request [])\<lparr>rq_count := 1\<rparr>"
  have "select_locked demo_env demo_db1 ?rq = Some [''accelerator:b'']" by code_simp
  then have "\<exists>b. select_locked demo_env demo_db1 ?rq = Some b" by blast
  moreover have "rq_ids ?rq = []" "rq_count ?rq = 1" by (simp_all add: demo_request_def)
  ultimately show ?thesis
    using select_locked_complete [OF demo_db1_ok, of ?rq 1 demo_env] by simp
qed

section \<open>A reservation takes its bundle\<close>

text \<open>On free resources an insert of reservations appends every row, or raises.\<close>

lemma insert_reservations_append:
  assumes "insert_reservations (map (new_reservation env oid) rids) db = Inr db'"
    and "distinct rids" "set rids \<inter> set (map r_resource (active_reservations db)) = {}"
  shows "db' = db\<lparr>host_reservations := host_reservations db @ map (new_reservation env oid) rids\<rparr>"
  using assms
proof (induction rids arbitrary: db)
  case (Cons rid rids)
  let ?r = "new_reservation env oid rid"
  have free: "\<not> (\<exists>s \<in> set (host_reservations db). r_resource s = rid \<and> r_state s = RActive)"
    using Cons.prems(3) by (auto simp: active_reservations_def)
  from Cons.prems(1) obtain db1 where i: "insert_reservation ?r db = Inr db1"
    and rest: "insert_reservations (map (new_reservation env oid) rids) db1 = Inr db'"
    by (auto simp: bindR_eq_Inr)
  have db1: "db1 = db\<lparr>host_reservations := host_reservations db @ [?r]\<rparr>"
    using i free by (auto simp: insert_reservation_def new_reservation_def split: if_splits)
  have "set rids \<inter> set (map r_resource (active_reservations db1)) = {}"
    using Cons.prems(2,3) by (auto simp: db1 active_reservations_def new_reservation_def)
  from Cons.IH [OF rest _ this] Cons.prems(2) show ?case by (simp add: db1)
qed simp

lemma select_locked_free:
  assumes "select_locked env db rq = Some b"
  shows "pressure_available env db rq" "distinct b" "sorted b" "active_resource_ids db \<inter> set b = {}"
    "b \<in> set (candidate_resources db rq)"
proof -
  have f: "find (\<lambda>b. active_resource_ids db \<inter> set b = {}) (candidate_resources db rq) = Some b"
    and "pressure_available env db rq"
    using assms by (auto simp: select_locked_def split: if_splits)
  then show "pressure_available env db rq" by simp
  show b: "b \<in> set (candidate_resources db rq)" "active_resource_ids db \<inter> set b = {}"
    using find_SomeD [OF f] by simp_all
  from b(1) show "distinct b" "sorted b" by (auto simp: candidate_resources_def expand_bundle_def)
qed

lemma reserve_locked_success:
  assumes res: "reserve_locked env sp rq pc db = Inr (Some (oid, accs), db')"
    and np: "\<not> protected_owner db (spec_id sp)"
  shows "\<exists>p rids. parse_priority pc = Inr p \<and> select_locked env db rq = Some rids \<and> oid = spec_id sp \<and>
    accs = filter (\<lambda>r. startswith r ''accelerator:'') rids \<and>
    db' = db\<lparr>host_owners := host_owners db @
              [new_owner env sp p Active True (cpu_threads env rq) (int (rq_ram_bytes rq))],
             host_reservations := host_reservations db @ map (new_reservation env (spec_id sp)) rids\<rparr>"
proof -
  from res obtain p where p: "parse_priority pc = Inr p"
    by (auto simp: reserve_locked_def bindR_eq_Inr)
  with res obtain rids where sel: "select_locked env db rq = Some rids"
    by (cases "select_locked env db rq") (simp_all add: reserve_locked_def)
  from res p sel obtain db1 where
    i: "insert_owner (new_owner env sp p Active True (cpu_threads env rq) (int (rq_ram_bytes rq))) db = Inr db1"
    and r: "insert_reservations (map (new_reservation env (spec_id sp)) rids) db1 = Inr db'"
    and out: "oid = spec_id sp" "accs = filter (\<lambda>r. startswith r ''accelerator:'') rids"
    by (auto simp: reserve_locked_def bindR_eq_Inr)
  have db1: "db1 = db\<lparr>host_owners := host_owners db @
      [new_owner env sp p Active True (cpu_threads env rq) (int (rq_ram_bytes rq))]\<rparr>"
    using i np by (simp add: insert_owner_eq_Inr)
  have "set rids \<inter> set (map r_resource (active_reservations db1)) = {}"
    using select_locked_free(4) [OF sel] by (auto simp: db1 active_resource_ids_def active_reservations_def)
  from insert_reservations_append [OF r select_locked_free(2) [OF sel] this] p sel out show ?thesis
    by (simp add: db1)
qed

lemma total_append:
  "total f P (db\<lparr>host_owners := host_owners db @ [ow]\<rparr>) = total f P db + (if P (o_state ow) then f ow else 0)"
  by (simp add: total_def)

lemma total_cong: "host_owners db = host_owners db' \<Longrightarrow> total f P db = total f P db'"
  by (simp add: total_def)

text \<open>
  When a background reservation is granted, the job's owner holds exactly the selected bundle,
  which no active reservation and no active foreground intent claimed; nobody else's reservation
  changes; and with the new owner the live owners stay within the processor and memory limits.
\<close>

theorem reserve_background_granted:
  assumes res: "reserve_background env project job attempt rq pid db = Inr (Some (oid, accs), db')"
    and np: "\<not> protected_owner (sweep_locked env 30 db) (background_owner_id env project job attempt)"
  shows "\<exists>rids. select_locked env (sweep_locked env 30 db) rq = Some rids \<and>
    accs = filter (\<lambda>r. startswith r ''accelerator:'') rids \<and>
    active_resource_ids (sweep_locked env 30 db) \<inter> set rids = {} \<and>
    host_reservations db' = host_reservations (sweep_locked env 30 db) @ map (new_reservation env oid) rids \<and>
    find_owner db' oid \<noteq> None \<and>
    total o_cpu_threads live_state db' \<le> cpu_limit env \<and>
    total o_ram_bytes live_state db' \<le> max 0 (ram_limit env)"
proof -
  let ?db = "sweep_locked env 30 db"
  let ?sp = "\<lparr>spec_id = background_owner_id env project job attempt, spec_kind = ''background'',
           spec_project = project, spec_job = Some job, spec_attempt = Some attempt, spec_service = None,
           spec_pid = pid\<rparr>"
  have "reserve_locked env ?sp rq ''background_cuda'' ?db = Inr (Some (oid, accs), db')"
    using res by (auto simp: reserve_background_def catch_integrity_def split: sum.splits exn.splits)
  from reserve_locked_success [OF this] np obtain p rids where
    sel: "select_locked env ?db rq = Some rids" and oid: "oid = spec_id ?sp"
    and accs: "accs = filter (\<lambda>r. startswith r ''accelerator:'') rids"
    and db': "db' = ?db\<lparr>host_owners := host_owners ?db @
              [new_owner env ?sp p Active True (cpu_threads env rq) (int (rq_ram_bytes rq))],
             host_reservations := host_reservations ?db @ map (new_reservation env (spec_id ?sp)) rids\<rparr>"
    by auto
  have tot: "total f P db' = total f P ?db +
      (if P Active then f (new_owner env ?sp p Active True (cpu_threads env rq) (int (rq_ram_bytes rq))) else 0)" for f P
    by (simp add: db' total_def)
  have "find_owner db' oid \<noteq> None"
    by (auto simp: find_owner_def find_None_iff db' oid)
  moreover have "total o_cpu_threads live_state db' \<le> cpu_limit env" "total o_ram_bytes live_state db' \<le> max 0 (ram_limit env)"
    using select_locked_free(1) [OF sel] by (simp_all add: tot pressure_available_def live_state_def)
  ultimately show ?thesis
    using sel accs oid select_locked_free(4) [OF sel] by (auto simp: db')
qed

text \<open>At the demonstration host, where the first accelerator is granted.\<close>

theorem reserve_background_granted_witness:
  "total o_cpu_threads live_state demo_db1 \<le> cpu_limit demo_env \<and>
   select_locked demo_env (sweep_locked demo_env 30 demo_db0) (demo_request [''accelerator:a'']) \<noteq> None"
proof -
  have "\<not> protected_owner (sweep_locked demo_env 30 demo_db0) (background_owner_id demo_env ''/p'' ''j'' ''1'')"
    by code_simp
  from reserve_background_granted [OF demo_reserve this] show ?thesis by auto
qed

section \<open>Preemption\<close>

lemma preemption_candidates_iff:
  "(n, k, b) \<in> set (preemption_candidates db rq p) \<longleftrightarrow>
     b \<in> set (candidate_resources db rq) \<and> conflicting_owners db b \<noteq> [] \<and>
     list_all (preemptible_by p) (conflicting_owners db b) \<and> n = length (conflicting_owners db b) \<and>
     k = sum_list (map (\<lambda>ow. priority_int (o_priority ow)) (conflicting_owners db b))"
  by (auto simp: preemption_candidates_def Let_def)

lemma request_preemption_locked_chosen:
  assumes "request_preemption_locked env rq p db = (b, db')" "b \<noteq> []"
  shows "\<exists>n k. (n, k, b) \<in> set (preemption_candidates db rq p) \<and>
     (\<forall>c \<in> set (preemption_candidates db rq p). (n, k, b) \<le> c) \<and>
     db' = request_preemption_flag env (\<lambda>ow. o_id ow \<in> set (map o_id (conflicting_owners db b))) db"
proof -
  from assms have ne: "preemption_candidates db rq p \<noteq> []"
    and b: "b = snd (snd (arg_min_list id (preemption_candidates db rq p)))"
    and db': "db' = request_preemption_flag env (\<lambda>ow. o_id ow \<in> set (map o_id (conflicting_owners db b))) db"
    by (auto simp: request_preemption_locked_def Let_def split: list.splits)
  let ?m = "arg_min_list id (preemption_candidates db rq p)"
  have "?m \<in> set (preemption_candidates db rq p)" using ne by (rule arg_min_list_in)
  moreover have "\<forall>c \<in> set (preemption_candidates db rq p). ?m \<le> c"
    using arg_min_list_le [where f = id] by auto
  moreover obtain n k c where m: "?m = (n, k, c)" by (cases ?m)
  moreover have "c = b" using b m by simp
  ultimately show ?thesis using db' by auto
qed

text \<open>Whether a write sets the flag of an owner that did not have it.\<close>

definition newly_flagged :: "host_db \<Rightarrow> host_db \<Rightarrow> string \<Rightarrow> bool" where
  "newly_flagged db db' oid \<longleftrightarrow>
     (\<exists>ow \<in> set (host_owners db). o_id ow = oid \<and> \<not> preempt_flag ow) \<and>
     (\<exists>ow \<in> set (host_owners db'). o_id ow = oid \<and> preempt_flag ow)"

text \<open>
  C29. A reservation that must preempt asks only active, preemptible owners of a strictly lower
  priority that hold a resource of the chosen bundle, changes no reservation, and chooses a bundle
  with the fewest owners to preempt among those whose owners may all be preempted.
\<close>

theorem preemption_weakest:
  assumes ok: "db_ok db" and req: "request_preemption_locked env rq p db = (b, db')" and ne: "b \<noteq> []"
  shows "(\<forall>oid. newly_flagged db db' oid \<longrightarrow>
      (\<exists>ow \<in> set (host_owners db). o_id ow = oid \<and> o_state ow = Active \<and> preemptible ow \<and>
         priority_int (o_priority ow) < priority_int p \<and> set (held_resources db oid) \<inter> set b \<noteq> {})) \<and>
    host_reservations db' = host_reservations db \<and>
    (\<forall>c \<in> set (candidate_resources db rq).
       conflicting_owners db c \<noteq> [] \<and> list_all (preemptible_by p) (conflicting_owners db c) \<longrightarrow>
       length (conflicting_owners db b) \<le> length (conflicting_owners db c))"
proof -
  obtain n k where cand: "(n, k, b) \<in> set (preemption_candidates db rq p)"
    and least: "\<forall>c \<in> set (preemption_candidates db rq p). (n, k, b) \<le> c"
    and db': "db' = request_preemption_flag env (\<lambda>ow. o_id ow \<in> set (map o_id (conflicting_owners db b))) db"
    using request_preemption_locked_chosen [OF req ne] by blast
  have "\<exists>ow \<in> set (host_owners db). o_id ow = oid \<and> o_state ow = Active \<and> preemptible ow \<and>
      priority_int (o_priority ow) < priority_int p \<and> set (held_resources db oid) \<inter> set b \<noteq> {}"
    if fl: "newly_flagged db db' oid" for oid
  proof -
    have "oid \<in> set (map o_id (conflicting_owners db b))"
    proof (rule ccontr)
      assume no: "oid \<notin> set (map o_id (conflicting_owners db b))"
      from fl obtain w where w: "w \<in> set (host_owners db')" "o_id w = oid" "preempt_flag w"
        by (auto simp: newly_flagged_def)
      from fl obtain v where v: "v \<in> set (host_owners db)" "o_id v = oid" "\<not> preempt_flag v"
        by (auto simp: newly_flagged_def)
      from w no have "w \<in> set (host_owners db)"
        by (auto simp: db' request_preemption_flag_def host_owners_update owner_step_def split: if_splits)
      then have "w = v" by (rule owner_unique [OF ok _ v(1)]) (simp add: w v)
      with w v show False by simp
    qed
    with cand show ?thesis
      by (fastforce simp: preemption_candidates_iff conflicting_owners_def list_all_iff preemptible_by_def
          held_resources_def)
  qed
  moreover have "length (conflicting_owners db b) \<le> length (conflicting_owners db c)"
    if "c \<in> set (candidate_resources db rq)" "conflicting_owners db c \<noteq> []"
      "list_all (preemptible_by p) (conflicting_owners db c)" for c
  proof -
    from that have "(length (conflicting_owners db c),
        sum_list (map (\<lambda>ow. priority_int (o_priority ow)) (conflicting_owners db c)), c) \<in> set (preemption_candidates db rq p)"
      by (simp add: preemption_candidates_iff)
    with least have "n \<le> length (conflicting_owners db c)" by (auto simp: less_eq_prod_def)
    with cand show ?thesis by (simp add: preemption_candidates_iff)
  qed
  ultimately show ?thesis by (auto simp: db' request_preemption_flag_def)
qed

text \<open>C29 at the demonstration host: a foreground request asks the background job to yield.\<close>

theorem preemption_weakest_witness:
  "\<exists>ow \<in> set (host_owners demo_db1). o_id ow = o_id demo_owner \<and> o_state ow = Active \<and> preemptible ow \<and>
     priority_int (o_priority ow) < priority_int FOREGROUND_GPU \<and>
     set (held_resources demo_db1 (o_id demo_owner)) \<inter> {''accelerator:a''} \<noteq> {}"
proof -
  let ?r = "request_preemption_locked demo_env (demo_request [''accelerator:a'']) FOREGROUND_GPU demo_db1"
  have r: "?r = (fst ?r, snd ?r)" and b: "fst ?r = [''accelerator:a'']" and fl: "newly_flagged demo_db1 (snd ?r) (o_id demo_owner)"
    by (simp, code_simp, code_simp)
  have "fst ?r \<noteq> []" by (simp add: b)
  from preemption_weakest [OF demo_db1_ok r this] fl show ?thesis
    unfolding b by (metis (no_types, lifting) list.set(1) list.simps(15))
qed

section \<open>Foreground intents\<close>

lemma flag_keeps [simp]:
  "host_reservations (request_preemption_flag env P db) = host_reservations db"
  "host_intents (request_preemption_flag env P db) = host_intents db"
  "held_resources (request_preemption_flag env P db) oid = held_resources db oid"
  "active_intents (request_preemption_flag env P db) = active_intents db"
  "map o_id (host_owners (request_preemption_flag env P db)) = map o_id (host_owners db)"
  by (simp_all add: request_preemption_flag_def held_resources_def owner_ids_update)

lemma flag_not_guarded: "\<not> fires (owner_update_guard ow (ow\<lparr>preempt_flag := True, o_heartbeat_at := t\<rparr>))"
  by (cases "is_protected ow") (auto simp: guard_protected guarded_change_def is_protected_def)

lemma flagged_owner:
  assumes "w \<in> set (host_owners (request_preemption_flag env P db))"
  obtains v where "v \<in> set (host_owners db)"
    "w = (if P v then v\<lparr>preempt_flag := True, o_heartbeat_at := now env\<rparr> else v)"
  using assms flag_not_guarded
  by (auto simp: request_preemption_flag_def host_owners_update owner_step_def)

lemma request_preemption_locked_keeps:
  assumes "request_preemption_locked env rq p db = (b, db')"
  shows "host_intents db' = host_intents db" "map o_id (host_owners db') = map o_id (host_owners db)"
  using assms by (auto simp: request_preemption_locked_def Let_def split: list.splits)

lemma foreground_resources_keeps:
  assumes "foreground_resources env rq p db = (rs, db')"
  shows "host_intents db' = host_intents db" "map o_id (host_owners db') = map o_id (host_owners db)"
proof -
  obtain b d where r: "request_preemption_locked env rq p db = (b, d)" by (cases "request_preemption_locked env rq p db")
  have "db' = db \<or> db' = d"
    using assms by (auto simp: foreground_resources_def r split: option.splits if_splits list.splits)
  then show "host_intents db' = host_intents db" "map o_id (host_owners db') = map o_id (host_owners db)"
    using request_preemption_locked_keeps [OF r] by auto
qed

lemma update_intents_ids:
  "(\<And>i. i_id (h i) = i_id i) \<Longrightarrow> map i_id (host_intents (update_intents P h db)) = map i_id (host_intents db)"
  by (simp add: update_intents_def)

lemma release_locked_intent_ids: "map i_id (host_intents (release_locked env oid st db)) = map i_id (host_intents db)"
  by (simp add: release_locked_def update_intents_ids)

lemma sweep_locked_intent_ids: "map i_id (host_intents (sweep_locked env s db)) = map i_id (host_intents db)"
proof -
  have "map i_id (host_intents (fold (\<lambda>ow. release_locked env (o_id ow) Stale) ows d)) = map i_id (host_intents d)" for ows d
    by (induction ows arbitrary: d) (simp_all add: release_locked_intent_ids)
  then show ?thesis by (simp add: sweep_locked_def close_dead_intents_def update_intents_ids)
qed

lemma begin_foreground_cases:
  assumes res: "begin_foreground env uuid iid project rq pid pc db = Inr ((oid, rs), db')"
    and fresh: "iid \<notin> i_id ` set (host_intents db)" "''foreground:'' @ uuid \<notin> o_id ` set (host_owners db)"
  obtains p i ow db2 P where "parse_priority pc = Inr p" "oid = ''foreground:'' @ uuid"
    "i_resources i = rs" "i_state i = RActive" "i_owner i = oid" "o_id ow = oid" "o_state ow = Intent" "\<not> preemptible ow"
    "i \<in> set (host_intents db2)" "ow \<in> set (host_owners db2)"
    "db' = request_preemption_flag env (\<lambda>w. o_state w = Active \<and> preemptible_by p w \<and>
               (P \<or> set (held_resources db2 (o_id w)) \<inter> set rs \<noteq> {})) db2"
proof -
  obtain p where p: "parse_priority pc = Inr p" using res by (auto simp: begin_foreground_def bindR_eq_Inr)
  obtain rs1 db1 where fr: "foreground_resources env rq p (sweep_locked env 30 db) = (rs1, db1)" by fastforce
  let ?sp = "\<lparr>spec_id = ''foreground:'' @ uuid, spec_kind = ''foreground'', spec_project = project, spec_job = None,
                spec_attempt = None, spec_service = None, spec_pid = pid\<rparr>"
  let ?ow = "new_owner env ?sp p Intent False (int (rq_cpu_threads rq)) (int (rq_ram_bytes rq))"
  let ?i = "\<lparr>i_id = iid, i_owner = ''foreground:'' @ uuid, i_resources = rs1, i_cpu_threads = int (rq_cpu_threads rq),
     i_ram_bytes = int (rq_ram_bytes rq), i_state = RActive, i_created_at = now env, i_heartbeat_at = now env\<rparr>"
  have ids: "iid \<notin> i_id ` set (host_intents db1)" "''foreground:'' @ uuid \<notin> o_id ` set (host_owners db1)"
    using fresh foreground_resources_keeps [OF fr] sweep_locked_intent_ids [of env 30 db] sweep_locked_ids [of env 30 db]
    by (metis list.set_map)+
  let ?db2 = "db1\<lparr>host_owners := host_owners db1 @ [?ow], host_intents := host_intents db1 @ [?i]\<rparr>"
  have "insert_owner ?ow db1 = Inr (db1\<lparr>host_owners := host_owners db1 @ [?ow]\<rparr>)"
    using ids(2) by (auto simp: insert_owner_eq_Inr)
  moreover have "insert_intent ?i (db1\<lparr>host_owners := host_owners db1 @ [?ow]\<rparr>) = Inr ?db2"
    using ids(1) by (auto simp: insert_intent_def)
  ultimately have "begin_foreground env uuid iid project rq pid pc db = Inr ((''foreground:'' @ uuid, rs1),
      request_preemption_flag env (\<lambda>w. o_state w = Active \<and> preemptible_by p w \<and>
        (pressure_conflict env (int (rq_cpu_threads rq)) (int (rq_ram_bytes rq)) ?db2 \<or>
         set (held_resources ?db2 (o_id w)) \<inter> set rs1 \<noteq> {})) ?db2)"
    using p fr by (simp add: begin_foreground_def Let_def)
  then have "rs = rs1" "oid = ''foreground:'' @ uuid" "db' = request_preemption_flag env (\<lambda>w. o_state w = Active \<and> preemptible_by p w \<and>
      (pressure_conflict env (int (rq_cpu_threads rq)) (int (rq_ram_bytes rq)) ?db2 \<or>
       set (held_resources ?db2 (o_id w)) \<inter> set rs1 \<noteq> {})) ?db2"
    unfolding res by (simp_all only: sum.inject prod.inject)
  then show thesis by (intro that [OF p, of ?i ?ow ?db2]) (simp_all add: new_owner_def)
qed

text \<open>
  C21. Once a foreground request is registered its resources are fenced: no later selection, for any
  request, returns a bundle that touches them, and every active owner of a lower priority that
  may be preempted and holds one of them has been asked to yield.
\<close>

theorem foreground_fences:
  assumes res: "begin_foreground env uuid iid project rq pid pc db = Inr ((oid, rs), db')"
    and fresh: "iid \<notin> i_id ` set (host_intents db)" "''foreground:'' @ uuid \<notin> o_id ` set (host_owners db)"
  shows "(\<forall>env' rq' b. select_locked env' db' rq' = Some b \<longrightarrow> set b \<inter> set rs = {}) \<and>
    (\<forall>p ow. parse_priority pc = Inr p \<and> ow \<in> set (host_owners db') \<and> o_state ow = Active \<and> preemptible_by p ow \<and>
       set (held_resources db' (o_id ow)) \<inter> set rs \<noteq> {} \<longrightarrow> preempt_flag ow) \<and>
    (\<exists>ow \<in> set (host_owners db'). o_id ow = oid \<and> o_state ow = Intent)"
proof -
  obtain p i ow db2 P where p: "parse_priority pc = Inr p"
    and i: "i_resources i = rs" "i_state i = RActive" "i \<in> set (host_intents db2)"
    and ow: "o_id ow = oid" "o_state ow = Intent" "ow \<in> set (host_owners db2)"
    and db': "db' = request_preemption_flag env (\<lambda>w. o_state w = Active \<and> preemptible_by p w \<and>
               (P \<or> set (held_resources db2 (o_id w)) \<inter> set rs \<noteq> {})) db2"
    by (rule begin_foreground_cases [OF res fresh]) blast
  have "set rs \<subseteq> active_resource_ids db'"
    using i by (auto simp: active_resource_ids_def db' active_intents_def)
  then have fence: "set b \<inter> set rs = {}" if "select_locked env' db' rq' = Some b" for env' rq' b
    using select_locked_free(4) [OF that] by blast
  have flag: "preempt_flag w" if w: "w \<in> set (host_owners db')" "o_state w = Active" "preemptible_by p w"
    "set (held_resources db' (o_id w)) \<inter> set rs \<noteq> {}" for w
    using w by (auto simp: db' preemptible_by_def elim!: flagged_owner split: if_splits)
  have "\<exists>ow \<in> set (host_owners db'). o_id ow = oid \<and> o_state ow = Intent"
    using ow flag_not_guarded by (auto simp: db' request_preemption_flag_def host_owners_update owner_step_def
        intro!: bexI [of _ ow])
  with fence flag p show ?thesis by auto
qed

text \<open>C5 at the demonstration host, where a foreground request wants the accelerator of the job.\<close>

definition demo_foreground :: "(string \<times> string list) \<times> host_db" where
  "demo_foreground = (case begin_foreground demo_env ''u'' ''i'' ''/p'' (demo_request [''accelerator:a'']) 8 ''foreground_gpu'' demo_db1 of
     Inl _ \<Rightarrow> ((''''  , []), demo_db1) | Inr x \<Rightarrow> x)"

theorem foreground_fences_witness:
  "select_locked demo_env (snd demo_foreground) ((demo_request [])\<lparr>rq_count := 1\<rparr>) = Some [''accelerator:b''] \<and>
   set [''accelerator:b''] \<inter> set (snd (fst demo_foreground)) = {}"
proof -
  have r: "begin_foreground demo_env ''u'' ''i'' ''/p'' (demo_request [''accelerator:a'']) 8 ''foreground_gpu'' demo_db1 =
      Inr ((fst (fst demo_foreground), snd (fst demo_foreground)), snd demo_foreground)"
    by code_simp
  have "''i'' \<notin> i_id ` set (host_intents demo_db1)" "''foreground:'' @ ''u'' \<notin> o_id ` set (host_owners demo_db1)"
    by code_simp+
  from foreground_fences [OF r this] have "\<forall>b. select_locked demo_env (snd demo_foreground) ((demo_request [])\<lparr>rq_count := 1\<rparr>) = Some b \<longrightarrow>
      set b \<inter> set (snd (fst demo_foreground)) = {}" by blast
  moreover have "select_locked demo_env (snd demo_foreground) ((demo_request [])\<lparr>rq_count := 1\<rparr>) = Some [''accelerator:b'']"
    by code_simp
  ultimately show ?thesis by blast
qed

end
