(* ===== verification/HostRelease.thy ===== *)
theory HostRelease
  imports HostDemo
begin

text \<open>
  How resources come back: the sweep of silent owners, release, the residency guards that keep a
  protected owner against writers that do not know of them, and the fence a foreground intent
  puts around its resources.
\<close>

section \<open>The sweep\<close>

abbreviation stale_owner :: "host_env \<Rightarrow> owner_state \<Rightarrow> owner \<Rightarrow> owner" where
  "stale_owner env st ow \<equiv> ow\<lparr>o_state := st, o_heartbeat_at := now env\<rparr>"

abbreviation freed_row :: "host_env \<Rightarrow> reservation \<Rightarrow> reservation" where
  "freed_row env r \<equiv> r\<lparr>r_state := RReleased, r_heartbeat_at := now env\<rparr>"

abbreviation closed_intent :: "host_env \<Rightarrow> foreground_intent \<Rightarrow> foreground_intent" where
  "closed_intent env i \<equiv> i\<lparr>i_state := RReleased, i_heartbeat_at := now env\<rparr>"

text \<open>The joint effect of releasing every owner of a set.\<close>

definition free_all :: "host_env \<Rightarrow> owner_state \<Rightarrow> string set \<Rightarrow> host_db \<Rightarrow> host_db" where
  "free_all env st S db = db\<lparr>
     host_owners := map (\<lambda>ow. if o_id ow \<in> S then stale_owner env st ow else ow) (host_owners db),
     host_reservations := map (\<lambda>r. if r_owner r \<in> S \<and> r_state r = RActive then freed_row env r else r) (host_reservations db),
     host_intents := map (\<lambda>i. if i_owner i \<in> S \<and> i_state i = RActive then closed_intent env i else i) (host_intents db)\<rparr>"

lemma free_all_one:
  "\<not> protected_owner db oid \<Longrightarrow> st \<noteq> Active \<Longrightarrow> release_locked env oid st db = free_all env st {oid} db"
  by (simp add: release_locked_unprotected free_all_def)

lemma free_all_compose: "free_all env st S (free_all env st T db) = free_all env st (T \<union> S) db"
proof -
  have o: "(\<lambda>ow. if o_id ow \<in> S then stale_owner env st ow else ow) \<circ> (\<lambda>ow. if o_id ow \<in> T then stale_owner env st ow else ow) =
      (\<lambda>ow. if o_id ow \<in> T \<union> S then stale_owner env st ow else ow)" by (rule ext) auto
  have r: "(\<lambda>r. if r_owner r \<in> S \<and> r_state r = RActive then freed_row env r else r) \<circ>
      (\<lambda>r. if r_owner r \<in> T \<and> r_state r = RActive then freed_row env r else r) =
      (\<lambda>r. if r_owner r \<in> T \<union> S \<and> r_state r = RActive then freed_row env r else r)" by (rule ext) auto
  have i: "(\<lambda>i. if i_owner i \<in> S \<and> i_state i = RActive then closed_intent env i else i) \<circ>
      (\<lambda>i. if i_owner i \<in> T \<and> i_state i = RActive then closed_intent env i else i) =
      (\<lambda>i. if i_owner i \<in> T \<union> S \<and> i_state i = RActive then closed_intent env i else i)" by (rule ext) auto
  show ?thesis by (simp add: free_all_def o r i del: Un_iff)
qed

lemma free_all_empty: "free_all env st {} db = db"
  by (simp add: free_all_def)

lemma free_all_unprotected:
  "st \<noteq> Active \<Longrightarrow> \<not> protected_owner db oid \<Longrightarrow> \<not> protected_owner (free_all env st S db) oid"
  by (auto simp: protected_owner_def is_protected_def free_all_def split: if_splits)

lemma fold_release_exact:
  assumes "\<And>ow. ow \<in> set ows \<Longrightarrow> \<not> protected_owner db (o_id ow)" "st \<noteq> Active"
  shows "fold (\<lambda>ow. release_locked env (o_id ow) st) ows db = free_all env st (o_id ` set ows) db"
  using assms
proof (induction ows arbitrary: db)
  case (Cons ow ows)
  have "release_locked env (o_id ow) st db = free_all env st {o_id ow} db"
    using Cons.prems by (intro free_all_one) simp_all
  moreover have "\<not> protected_owner (free_all env st {o_id ow} db) (o_id w)" if "w \<in> set ows" for w
    using Cons.prems that by (intro free_all_unprotected) simp_all
  ultimately show ?case using Cons.IH Cons.prems(2) by (simp add: free_all_compose)
qed (simp add: free_all_empty)

lemma sweepable_ids:
  assumes "db_ok db" "ow \<in> set (host_owners db)"
  shows "o_id ow \<in> o_id ` set (filter (sweepable env t) (host_owners db)) \<longleftrightarrow> sweepable env t ow"
proof
  assume "o_id ow \<in> o_id ` set (filter (sweepable env t) (host_owners db))"
  then obtain w where w: "w \<in> set (host_owners db)" "sweepable env t w" "o_id w = o_id ow" by auto
  have "w = ow" by (rule owner_unique [OF assms(1) w(1) assms(2) w(3)])
  with w show "sweepable env t ow" by simp
qed (use assms(2) in auto)

lemma sweepable_unprotected:
  assumes "db_ok db" "ow \<in> set (filter (sweepable env t) (host_owners db))"
  shows "\<not> protected_owner db (o_id ow)"
  using assms by (auto simp: protected_owner_iff sweepable_def is_protected_def)

lemma sweep_locked_rows:
  assumes ok: "db_ok db"
  shows "host_owners (sweep_locked env s db) =
      map (\<lambda>ow. if sweepable env (now env - s) ow then stale_owner env Stale ow else ow) (host_owners db)"
    and "host_reservations (sweep_locked env s db) =
      map (\<lambda>r. if r_owner r \<in> o_id ` set (filter (sweepable env (now env - s)) (host_owners db)) \<and> r_state r = RActive
        then freed_row env r else r) (host_reservations db)"
proof -
  let ?S = "o_id ` set (filter (sweepable env (now env - s)) (host_owners db))"
  have eq: "sweep_locked env s db = close_dead_intents env (free_all env Stale ?S db)"
    unfolding sweep_locked_def by (subst fold_release_exact) (use sweepable_unprotected [OF ok] in simp_all)
  show "host_owners (sweep_locked env s db) =
      map (\<lambda>ow. if sweepable env (now env - s) ow then stale_owner env Stale ow else ow) (host_owners db)"
    unfolding eq close_dead_intents_def update_intents_frame free_all_def
    using sweepable_ids [OF ok] by (simp del: set_filter)
  show "host_reservations (sweep_locked env s db) =
      map (\<lambda>r. if r_owner r \<in> ?S \<and> r_state r = RActive then freed_row env r else r) (host_reservations db)"
    unfolding eq close_dead_intents_def update_intents_frame free_all_def by simp
qed

lemma count_live_drop:
  assumes "\<And>ow. P ow \<Longrightarrow> live_state (o_state ow)"
  shows "int (length (filter (\<lambda>ow. live_state (o_state ow)) ows)) -
     int (length (filter (\<lambda>ow. live_state (o_state ow)) (map (\<lambda>ow. if P ow then stale_owner env Stale ow else ow) ows))) =
     int (length (filter P ows))"
  using assms by (induction ows) (auto simp: live_state_def)

text \<open>
  A sweep marks stale exactly the live owners that are silent since the cutoff, not protected
  and whose process is gone; it releases exactly their active reservations and leaves every other
  row as it is; and the number it reports is the number of owners it marked.
\<close>

theorem sweep_exact:
  assumes ok: "db_ok db" and res: "sweep_stale env s db = (n, db')"
  shows "host_owners db' =
      map (\<lambda>ow. if sweepable env (now env - s) ow then ow\<lparr>o_state := Stale, o_heartbeat_at := now env\<rparr> else ow)
        (host_owners db) \<and>
    host_reservations db' =
      map (\<lambda>r. if r_owner r \<in> o_id ` set (filter (sweepable env (now env - s)) (host_owners db)) \<and> r_state r = RActive
        then r\<lparr>r_state := RReleased, r_heartbeat_at := now env\<rparr> else r) (host_reservations db) \<and>
    n = int (length (filter (sweepable env (now env - s)) (host_owners db)))"
proof -
  have n: "n = int (count_live db) - int (count_live db')" and db': "db' = sweep_locked env s db"
    using res by (auto simp: sweep_stale_def Let_def)
  have "n = int (length (filter (sweepable env (now env - s)) (host_owners db)))"
    unfolding n count_live_def db' sweep_locked_rows(1) [OF ok]
    by (rule count_live_drop) (simp add: sweepable_def)
  then show ?thesis using sweep_locked_rows [OF ok] by (simp add: db')
qed

text \<open>C5 at the demonstration host after its processes are gone.\<close>

definition dead_env :: host_env where
  "dead_env = demo_env\<lparr>now := 2000, procs := \<lparr>kill_ok = (\<lambda>_. False), process_start_of = (\<lambda>_. None)\<rparr>\<rparr>"

theorem sweep_exact_witness:
  "active_reservations (snd (sweep_stale dead_env 30 demo_db1)) = [] \<and> fst (sweep_stale dead_env 30 demo_db1) = 1"
proof -
  have "filter (sweepable dead_env (now dead_env - 30)) (host_owners demo_db1) = [demo_owner]"
    by (simp add: demo_db1_def sweepable_def demo_owner_def new_owner_def demo_env_def dead_env_def
        live_state_def alive_def)
  with sweep_exact [OF demo_db1_ok, of dead_env 30] show ?thesis
    by (simp add: prod_eq_iff active_reservations_def demo_db1_def demo_owner_def new_owner_def new_reservation_def)
qed

section \<open>Release\<close>

text \<open>What the verified release has checked when it goes through.\<close>

lemma verify_residency_capability_eq_Inr:
  "verify_residency_capability env mdo cap gen = Inr md \<longleftrightarrow>
     mdo = Some md \<and> gen = Some (generation md) \<and>
     (\<exists>c. cap = Some c \<and> length c = 64 \<and> sha256_hex env c = capability_sha256 md)"
  by (auto simp: verify_residency_capability_def Let_def split: option.splits if_splits)

lemma verify_residency_release_dead:
  "verify_residency_release env ow md q db = Inr () \<Longrightarrow>
     model_pid md = None \<or> \<not> alive (procs env) (model_pid md) (m_process_start md)"
  by (auto simp: verify_residency_release_def Let_def bindR_eq_Inr raise_if_def split: pv.splits if_splits)

lemma verified_release_eq_Inr:
  assumes "verified_release env ow q cap gen db = Inr ()"
  obtains md c where "residency_metadata ow = Some md" "gen = Some (generation md)" "cap = Some c" "length c = 64"
    "sha256_hex env c = capability_sha256 md"
    "model_pid md = None \<or> \<not> alive (procs env) (model_pid md) (m_process_start md)"
    "residency_origin_caller env md \<or> (m_phase md = Phase_spawned \<and>
       \<not> alive (procs env) (Some (origin_pid (m_origin md))) (origin_process_start (m_origin md)))"
proof -
  from assms obtain md where v: "verify_residency_capability env (residency_metadata ow) cap gen = Inr md"
    and a: "\<not> (m_phase md = Phase_reserved \<and> \<not> residency_origin_caller env md)"
    and b: "\<not> (\<not> residency_origin_caller env md \<and>
       alive (procs env) (Some (origin_pid (m_origin md))) (origin_process_start (m_origin md)))"
    and q: "verify_residency_release env ow md q db = Inr ()"
    by (auto simp: verified_release_def bindR_eq_Inr raise_if_def split: if_splits)
  from a have "residency_origin_caller env md \<or> m_phase md = Phase_spawned" by (cases "m_phase md") auto
  moreover from v obtain c where "residency_metadata ow = Some md" "gen = Some (generation md)" "cap = Some c"
    "length c = 64" "sha256_hex env c = capability_sha256 md"
    by (auto simp: verify_residency_capability_eq_Inr)
  ultimately show thesis using that b verify_residency_release_dead [OF q] by blast
qed

text \<open>Lifting the protection of an owner leaves it unprotected.\<close>

lemma unprotect_owner:
  assumes ok: "db_ok db" and ow: "ow \<in> set (host_owners db)" "\<not> release_verified ow"
  defines "db1 \<equiv> update_owners (\<lambda>w. o_id w = o_id ow) (\<lambda>w. w\<lparr>residency_protected := False, release_verified := True\<rparr>) db"
  shows "\<not> protected_owner db1 (o_id ow)"
    and "host_reservations db1 = host_reservations db" "host_intents db1 = host_intents db"
    and "map o_id (host_owners db1) = map o_id (host_owners db)"
proof -
  have "owner_step (\<lambda>w. o_id w = o_id ow) (\<lambda>w. w\<lparr>residency_protected := False, release_verified := True\<rparr>) w =
      w\<lparr>residency_protected := False, release_verified := True\<rparr>" if "w \<in> set (host_owners db)" "o_id w = o_id ow" for w
  proof -
    have "w = ow" by (rule owner_unique [OF ok that(1) ow(1) that(2)])
    with ow(2) show ?thesis by (simp add: owner_step_def owner_update_guard_def)
  qed
  then show "\<not> protected_owner db1 (o_id ow)"
    unfolding protected_owner_def db1_def host_owners_update
    by (auto simp: is_protected_def)
  show "host_reservations db1 = host_reservations db" "host_intents db1 = host_intents db"
    "map o_id (host_owners db1) = map o_id (host_owners db)"
    unfolding db1_def by (simp_all add: owner_ids_update)
qed

lemma find_owner_SomeD: "find_owner db oid = Some ow \<Longrightarrow> ow \<in> set (host_owners db) \<and> o_id ow = oid"
  unfolding find_owner_def by (drule find_SomeD) simp

lemma unprotected_by_find:
  assumes "db_ok db" "\<And>ow. find_owner db oid = Some ow \<Longrightarrow> \<not> residency_protected ow"
  shows "\<not> protected_owner db oid"
proof
  assume "protected_owner db oid"
  then obtain w where w: "w \<in> set (host_owners db)" "o_id w = oid" "residency_protected w"
    by (auto simp: protected_owner_def is_protected_def)
  then obtain v where v: "find_owner db oid = Some v"
    unfolding find_owner_def by (cases "find (\<lambda>ow. o_id ow = oid) (host_owners db)") (auto simp: find_None_iff)
  have "v = w" by (rule owner_unique [OF assms(1)]) (use find_owner_SomeD [OF v] w in simp_all)
  with assms(2) [OF v] w(3) show False by simp
qed

lemma release_locked_frees:
  assumes "\<not> protected_owner db oid"
  shows "host_reservations (release_locked env oid Released db) =
      map (\<lambda>r. if r_owner r = oid \<and> r_state r = RActive then freed_row env r else r) (host_reservations db)"
    and "active_intents (release_locked env oid Released db) = filter (\<lambda>i. i_owner i \<noteq> oid) (active_intents db)"
    and "ow \<in> set (host_owners (release_locked env oid Released db)) \<Longrightarrow> o_id ow = oid \<Longrightarrow> o_state ow = Released"
proof -
  let ?o = "\<lambda>ow. if o_id ow = oid then stale_owner env Released ow else ow"
  have st: "Released \<noteq> Active" by simp
  note eq = release_locked_unprotected [OF assms st, of env]
  show "host_reservations (release_locked env oid Released db) =
      map (\<lambda>r. if r_owner r = oid \<and> r_state r = RActive then freed_row env r else r) (host_reservations db)"
    by (simp add: eq)
  have "filter (\<lambda>i. i_state i = RActive)
      (map (\<lambda>i. if i_owner i = oid \<and> i_state i = RActive then closed_intent env i else i) is) =
    filter (\<lambda>i. i_owner i \<noteq> oid) (filter (\<lambda>i. i_state i = RActive) is)" for "is"
    by (induction "is") auto
  then show "active_intents (release_locked env oid Released db) = filter (\<lambda>i. i_owner i \<noteq> oid) (active_intents db)"
    by (simp add: eq active_intents_def)
  have "host_owners (release_locked env oid Released db) = map ?o (host_owners db)" by (simp add: eq)
  moreover have "o_id (?o w) = oid \<Longrightarrow> o_state (?o w) = Released" for w by (cases "o_id w = oid") simp_all
  ultimately show "ow \<in> set (host_owners (release_locked env oid Released db)) \<Longrightarrow> o_id ow = oid \<Longrightarrow> o_state ow = Released"
    by (simp only: set_map) (elim imageE, simp only:)
qed

text \<open>
  A release that returns has freed its owner: exactly the owner's active reservations turn
  released, none of its foreground intents stays active, and its row is released.  This holds for a
  protected owner too, whose writes the guards would drop: the verified release lifts the
  protection first.
\<close>

theorem release_frees:
  assumes ok: "db_ok db" and res: "release env oid q cap gen db = Inr (u, db')"
    and fresh: "\<And>ow. find_owner db oid = Some ow \<Longrightarrow> \<not> release_verified ow \<or> \<not> residency_protected ow"
  shows "host_reservations db' = map (\<lambda>r. if r_owner r = oid \<and> r_state r = RActive
       then r\<lparr>r_state := RReleased, r_heartbeat_at := now env\<rparr> else r) (host_reservations db) \<and>
    active_intents db' = filter (\<lambda>i. i_owner i \<noteq> oid) (active_intents db) \<and>
    (\<forall>ow. ow \<in> set (host_owners db') \<and> o_id ow = oid \<longrightarrow> o_state ow = Released)"
proof (cases "\<exists>ow. find_owner db oid = Some ow \<and> residency_protected ow")
  case True
  then obtain ow where ow: "find_owner db oid = Some ow" "residency_protected ow" by blast
  let ?db1 = "update_owners (\<lambda>w. o_id w = oid) (\<lambda>w. w\<lparr>residency_protected := False, release_verified := True\<rparr>) db"
  have db': "db' = release_locked env oid Released ?db1"
    using res ow by (auto simp: release_def bindR_eq_Inr)
  note mem = find_owner_SomeD [OF ow(1)]
  have "\<not> release_verified ow" using fresh [OF ow(1)] ow(2) by simp
  note un = unprotect_owner [OF ok conjunct1 [OF mem] this, unfolded conjunct2 [OF mem]]
  show ?thesis
    using release_locked_frees [OF un(1), where env = env] un(2,3) by (auto simp: db' active_intents_def)
next
  case False
  then have np: "\<not> protected_owner db oid" using unprotected_by_find [OF ok] by blast
  have "db' = release_locked env oid Released db"
    using res False by (auto simp: release_def split: option.splits)
  then show ?thesis using release_locked_frees [OF np, where env = env] by auto
qed

text \<open>C19 at the demonstration host, whose job gives its accelerator back.\<close>

theorem release_frees_witness:
  "\<exists>ow \<in> set (host_owners (free_all demo_env Released {o_id demo_owner} demo_db1)). o_id ow = o_id demo_owner \<and> o_state ow = Released"
proof -
  have m: "\<exists>ow \<in> set (host_owners (free_all demo_env Released {o_id demo_owner} demo_db1)). o_id ow = o_id demo_owner" by code_simp
  have r: "release demo_env (o_id demo_owner) PNone None None demo_db1 =
      Inr ((), free_all demo_env Released {o_id demo_owner} demo_db1)"
    by code_simp
  have "find_owner demo_db1 (o_id demo_owner) = Some demo_owner"
    by (simp add: find_owner_def demo_db1_def)
  then have "\<forall>ow. ow \<in> set (host_owners (free_all demo_env Released {o_id demo_owner} demo_db1)) \<and> o_id ow = o_id demo_owner
     \<longrightarrow> o_state ow = Released"
    using release_frees [OF demo_db1_ok r] by (simp add: demo_owner_def new_owner_def)
  with m show ?thesis by blast
qed

text \<open>
  C23. A protected owner is released only for the holder of its capability and generation, only when
  its recorded model process is not alive, and only by the process that protected it or, once the
  model was spawned, after that process is gone.
\<close>

theorem release_authorized:
  assumes ow: "find_owner db oid = Some ow" "residency_protected ow"
    and res: "release env oid q cap gen db = Inr (u, db')"
  shows "\<exists>md c. residency_metadata ow = Some md \<and> gen = Some (generation md) \<and> cap = Some c \<and> length c = 64 \<and>
    sha256_hex env c = capability_sha256 md \<and>
    (model_pid md = None \<or> \<not> alive (procs env) (model_pid md) (m_process_start md)) \<and>
    (residency_origin_caller env md \<or> (m_phase md = Phase_spawned \<and>
       \<not> alive (procs env) (Some (origin_pid (m_origin md))) (origin_process_start (m_origin md))))"
proof -
  have "verified_release env ow q cap gen db = Inr ()"
    using res ow by (auto simp: release_def bindR_eq_Inr)
  then show ?thesis by (rule verified_release_eq_Inr) blast
qed

text \<open>The demonstration host with a protected service on the first accelerator.\<close>

definition demo_service :: string where
  "demo_service = ''service:0123456789abcdef:core4-local-m:u''"

definition demo_capability :: string where
  "demo_capability = replicate 64 CHR ''c''"

definition demo_db2 :: host_db where
  "demo_db2 =
     (case reserve_service demo_env ''u'' ''/p'' ''core4-local-m'' (demo_request [''accelerator:a'']) 4242
             ''idle_model_residency'' demo_db0 of
        Inl _ \<Rightarrow> demo_db0
      | Inr (_, db) \<Rightarrow>
          (case protect_residency demo_env demo_capability ''g1'' demo_service [(''a'', PInt 3)] db of
             Inl _ \<Rightarrow> db | Inr (_, db') \<Rightarrow> db'))"

definition demo_quiescence :: pv where
  "demo_quiescence = PDict [(''format'', PStr ''CORE4-RESIDENCY-QUIESCENCE/1''), (''owner_id'', PStr demo_service),
     (''observed_unix'', PInt 998), (''owned_pid'', PNone),
     (''observation'', PDict [(''available'', PBool True),
        (''devices'', PList [PDict [(''uuid'', PStr ''a''), (''memory_used_mib'', PInt 5)]]), (''processes'', PList [])])]"

definition demo_service_owner :: owner where
  "demo_service_owner = the (find_owner demo_db2 demo_service)"

definition demo_db3 :: host_db where
  "demo_db3 = (case release demo_env demo_service demo_quiescence (Some demo_capability) (Some ''g1'') demo_db2 of
     Inl _ \<Rightarrow> demo_db2 | Inr (_, db) \<Rightarrow> db)"

lemma demo_protected:
  "find_owner demo_db2 demo_service = Some demo_service_owner"
  "is_protected demo_service_owner"
  "release demo_env demo_service demo_quiescence (Some demo_capability) (Some ''g1'') demo_db2 = Inr ((), demo_db3)"
  by code_simp+

text \<open>C23 at the demonstration host, whose protected service stops.\<close>

theorem release_authorized_witness:
  "\<exists>md. residency_metadata demo_service_owner = Some md \<and> ''g1'' = generation md \<and> capability_sha256 md = ''d''"
proof -
  have "residency_protected demo_service_owner" using demo_protected(2) by (simp add: is_protected_def)
  from release_authorized [OF demo_protected(1) this demo_protected(3)] show ?thesis
    by (auto simp: demo_env_def)
qed

section \<open>The residency guards against other writers\<close>

text \<open>
  The statements a client may issue against the registry, whether or not it knows of protection:
  the triggers are in the database.  An insert that violates a constraint is rolled back.
\<close>

datatype client_write =
    UpdateOwners "owner \<Rightarrow> bool" "owner \<Rightarrow> owner"
  | DeleteOwners "owner \<Rightarrow> bool"
  | InsertOwner owner
  | UpdateReservations "reservation \<Rightarrow> bool" "reservation \<Rightarrow> reservation"
  | DeleteReservations "reservation \<Rightarrow> bool"
  | InsertReservation reservation

definition or_rollback :: "host_db \<Rightarrow> host_db result \<Rightarrow> host_db" where
  "or_rollback db m = (case m of Inl _ \<Rightarrow> db | Inr db' \<Rightarrow> db')"

fun apply_write :: "client_write \<Rightarrow> host_db \<Rightarrow> host_db" where
  "apply_write (UpdateOwners P f) db = update_owners P f db"
| "apply_write (DeleteOwners P) db = delete_owners P db"
| "apply_write (InsertOwner ow) db = or_rollback db (insert_owner ow db)"
| "apply_write (UpdateReservations P g) db = update_reservations P g db"
| "apply_write (DeleteReservations P) db = delete_reservations P db"
| "apply_write (InsertReservation r) db = or_rollback db (insert_reservation r db)"

text \<open>A client that neither rewrites the metadata of protection nor claims a verified release.\<close>

fun legacy :: "client_write \<Rightarrow> bool" where
  "legacy (UpdateOwners P f) \<longleftrightarrow>
     (\<forall>ow. residency_metadata (f ow) = residency_metadata ow \<and> release_verified (f ow) = release_verified ow)"
| "legacy _ \<longleftrightarrow> True"

text \<open>What of a protected owner a later row still has.\<close>

definition kept :: "owner \<Rightarrow> owner \<Rightarrow> bool" where
  "kept ow w \<longleftrightarrow> is_protected w \<and> \<not> guarded_change ow w \<and> o_pid w = o_pid ow \<and>
     o_process_start w = o_process_start ow \<and> residency_metadata w = residency_metadata ow \<and>
     release_verified w = release_verified ow"

text \<open>The four columns of scheduling, which no guard compares.\<close>

definition reschedule :: "bool \<Rightarrow> ResourcePriority \<Rightarrow> bool \<Rightarrow> real \<Rightarrow> owner \<Rightarrow> owner" where
  "reschedule flag priority pre beat ow =
     ow\<lparr>preempt_flag := flag, o_priority := priority, preemptible := pre, o_heartbeat_at := beat\<rparr>"

lemma kept_reschedule:
  "kept ow w \<Longrightarrow> is_protected ow \<Longrightarrow> w = reschedule (preempt_flag w) (o_priority w) (preemptible w) (o_heartbeat_at w) ow"
  by (cases ow; cases w) (simp add: kept_def guarded_change_def reschedule_def is_protected_def)

lemma reschedule_passes:
  assumes "is_protected ow"
  shows "\<not> fires (owner_update_guard ow (reschedule flag priority pre beat ow))"
  using assms by (simp add: guard_protected reschedule_def guarded_change_def is_protected_def)

lemma kept_trans: "kept a b \<Longrightarrow> kept b c \<Longrightarrow> kept a c"
  by (simp add: kept_def guarded_change_def)

lemma kept_id: "kept ow w \<Longrightarrow> o_id w = o_id ow"
  by (simp add: kept_def guarded_change_def)

lemma kept_refl: "is_protected ow \<Longrightarrow> kept ow ow"
  by (simp add: kept_def guarded_change_def)

lemma legacy_step_kept:
  assumes p: "is_protected ow" and md: "residency_metadata ow = Some md"
    and f: "residency_metadata (f ow) = residency_metadata ow" "release_verified (f ow) = release_verified ow"
  shows "kept ow (owner_step P f ow)"
proof (cases "P ow \<and> \<not> fires (owner_update_guard ow (f ow))")
  case True
  have "fires (sql_not (spawn_transition ow (f ow)))"
    by (cases "m_phase md") (auto simp: spawn_transition_def sql_eq_def f md fires_def)
  with True p f have "residency_protected (f ow)" "\<not> guarded_change ow (f ow)"
    "o_pid (f ow) = o_pid ow" "o_process_start (f ow) = o_process_start ow"
    by (auto simp: guard_protected)
  with True p f show ?thesis by (simp add: kept_def owner_step_def is_protected_def guarded_change_def)
qed (use p kept_refl in \<open>auto simp: owner_step_def\<close>)

lemma apply_write_owner:
  assumes ow: "ow \<in> set (host_owners db)" "is_protected ow" "residency_metadata ow = Some md" and l: "legacy w"
  shows "\<exists>ow' \<in> set (host_owners (apply_write w db)). kept ow ow'"
proof (cases w)
  case (UpdateOwners P f)
  have "kept ow (owner_step P f ow)"
    by (rule legacy_step_kept [OF ow(2,3)]) (use l UpdateOwners in simp_all)
  with ow(1) show ?thesis by (auto simp: UpdateOwners host_owners_update)
next
  case (InsertOwner v)
  with ow show ?thesis
    by (auto simp: or_rollback_def insert_owner_def kept_refl intro: bexI [of _ ow])
next
  case (InsertReservation r)
  with ow show ?thesis
    by (auto simp: or_rollback_def insert_reservation_def kept_refl intro: bexI [of _ ow])
qed (use ow in \<open>auto simp: delete_owners_def delete_reservations_def kept_refl intro: bexI [of _ ow]\<close>)

lemma apply_write_reservation:
  assumes p: "protected_owner db (r_owner r)" and r: "r \<in> set (active_reservations db)"
  shows "\<exists>s \<in> set (active_reservations (apply_write w db)). r_resource s = r_resource r \<and> r_owner s = r_owner r"
proof (cases w)
  case (UpdateReservations P g)
  let ?g = "\<lambda>r. if P r \<and> \<not> reservation_update_guard db r (g r) then g r else r"
  have "?g r \<in> set (host_reservations (apply_write w db))"
    using r by (auto simp: UpdateReservations update_reservations_def set_active_reservations)
  moreover have "r_state (?g r) = RActive" "r_resource (?g r) = r_resource r" "r_owner (?g r) = r_owner r"
    using p r by (auto simp: reservation_update_guard_def set_active_reservations)
  ultimately have "?g r \<in> set (active_reservations (apply_write w db))"
    "r_resource (?g r) = r_resource r" "r_owner (?g r) = r_owner r"
    by (simp_all only: set_active_reservations simp_thms)
  then show ?thesis by (intro bexI [of _ "?g r"] conjI)
next
  case (InsertOwner v)
  then have "r \<in> set (active_reservations (apply_write w db))"
    using r by (simp add: or_rollback_def insert_owner_def set_active_reservations)
  then show ?thesis by blast
next
  case (InsertReservation v)
  then have "r \<in> set (active_reservations (apply_write w db))"
    using r by (simp add: or_rollback_def insert_reservation_def set_active_reservations)
  then show ?thesis by blast
next
  case (DeleteReservations P)
  then have "r \<in> set (active_reservations (apply_write w db))"
    using p r by (simp add: delete_reservations_def set_active_reservations)
  then show ?thesis by blast
qed (use r in \<open>auto simp: delete_owners_def set_active_reservations\<close>)

lemma held_resources_iff:
  "set (held_resources db oid) = {rid. \<exists>r \<in> set (active_reservations db). r_resource r = rid \<and> r_owner r = oid}"
  by (auto simp: held_resources_def)

lemma legacy_writes_kept:
  assumes "ow \<in> set (host_owners db)" "is_protected ow" "residency_metadata ow = Some md"
    and "list_all legacy ws"
  shows "(\<exists>ow' \<in> set (host_owners (fold apply_write ws db)). kept ow ow') \<and>
    set (held_resources db (o_id ow)) \<subseteq> set (held_resources (fold apply_write ws db) (o_id ow))"
  using assms
proof (induction ws arbitrary: db ow)
  case Nil
  then show ?case by (auto intro: kept_refl)
next
  case (Cons w ws)
  obtain v where v: "v \<in> set (host_owners (apply_write w db))" "kept ow v"
    using apply_write_owner [OF Cons.prems(1-3), of w] Cons.prems(4) by auto
  have v': "is_protected v" "residency_metadata v = Some md" "o_id v = o_id ow"
    using v(2) Cons.prems(3) kept_id [OF v(2)] by (simp_all add: kept_def)
  have "protected_owner db (o_id ow)" using Cons.prems(1,2) by (auto simp: protected_owner_def)
  then have "set (held_resources db (o_id ow)) \<subseteq> set (held_resources (apply_write w db) (o_id ow))"
    by (intro subsetI) (auto simp: held_resources_iff dest!: apply_write_reservation [rotated, of _ db w])
  with Cons.IH [OF v(1) v'(1,2)] Cons.prems(4) v(2) v'(3) show ?case
    by (auto intro: kept_trans)
qed

text \<open>
  C22. Whatever statements clients unaware of residency issue, in any order, the row of a protected owner stays as it is in
  every column but the four of scheduling (the preempt flag, the priority, whether it is preemptible, the heartbeat), and
  every resource it holds stays reserved for it.  Those four columns are open: such a client can set each to anything.
\<close>

theorem residency_guard:
  assumes "ow \<in> set (host_owners db)" "is_protected ow" "residency_metadata ow = Some md"
    and "list_all legacy ws"
  shows "(\<exists>flag priority pre beat. reschedule flag priority pre beat ow \<in> set (host_owners (fold apply_write ws db))) \<and>
    set (held_resources db (o_id ow)) \<subseteq> set (held_resources (fold apply_write ws db) (o_id ow)) \<and>
    (\<forall>flag priority pre beat. reschedule flag priority pre beat ow \<in>
       set (host_owners (apply_write (UpdateOwners (\<lambda>o'. o_id o' = o_id ow) (reschedule flag priority pre beat)) db)))"
proof -
  obtain ow' where "ow' \<in> set (host_owners (fold apply_write ws db))" "kept ow ow'"
    and held: "set (held_resources db (o_id ow)) \<subseteq> set (held_resources (fold apply_write ws db) (o_id ow))"
    using legacy_writes_kept [OF assms] by blast
  then have "\<exists>flag priority pre beat. reschedule flag priority pre beat ow \<in> set (host_owners (fold apply_write ws db))"
    using kept_reschedule assms(2) by metis
  moreover have "reschedule flag priority pre beat ow \<in>
       set (host_owners (apply_write (UpdateOwners (\<lambda>o'. o_id o' = o_id ow) (reschedule flag priority pre beat)) db))"
    for flag priority pre beat
    using assms(1) reschedule_passes [OF assms(2), of flag priority pre beat]
    by (force simp: host_owners_update owner_step_def)
  ultimately show ?thesis using held by blast
qed

text \<open>C22 at the demonstration host, where a client tries to release and then delete everything.\<close>

theorem residency_guard_witness:
  "''accelerator:a'' \<in> set (held_resources (fold apply_write
      [UpdateOwners (\<lambda>_. True) (\<lambda>ow. ow\<lparr>o_state := Released\<rparr>), DeleteReservations (\<lambda>_. True)] demo_db2) (o_id demo_service_owner))"
proof -
  obtain md where md: "residency_metadata demo_service_owner = Some md"
    by (cases "residency_metadata demo_service_owner") (code_simp, blast)
  have "demo_service_owner \<in> set (host_owners demo_db2)" using find_owner_SomeD [OF demo_protected(1)] by simp
  from residency_guard [OF this demo_protected(2) md, of "[UpdateOwners (\<lambda>_. True) (\<lambda>ow. ow\<lparr>o_state := Released\<rparr>), DeleteReservations (\<lambda>_. True)]"]
  have "set (held_resources demo_db2 (o_id demo_service_owner)) \<subseteq> set (held_resources (fold apply_write
      [UpdateOwners (\<lambda>_. True) (\<lambda>ow. ow\<lparr>o_state := Released\<rparr>), DeleteReservations (\<lambda>_. True)] demo_db2) (o_id demo_service_owner))"
    by (simp del: fold_simps)
  moreover have "''accelerator:a'' \<in> set (held_resources demo_db2 (o_id demo_service_owner))" by code_simp
  ultimately show ?thesis by blast
qed

end
