(* ===== verification/Cache.thy ===== *)
theory Cache
  imports Prelude Complex_Main
begin

text \<open>
  \<^verbatim>\<open>src/src/project_control/cache.py\<close>: the snapshot cache \<^verbatim>\<open>RevisionCache\<close>, an
  \<^verbatim>\<open>OrderedDict\<close> used as a least-recently-used cache with a time to live.  The ordered
  dictionary is an association list, oldest entry first; the clock reading
  \<^verbatim>\<open>time.monotonic()\<close> is an argument.
\<close>

section \<open>State\<close>

record 'v cache_entry =
  expires_at :: real
  entry_value :: 'v

record ('k, 'v) revision_cache =
  ttl_seconds :: real
  max_items :: int
  items :: "('k \<times> 'v cache_entry) list"

section \<open>Operations\<close>

definition cache_init :: "real \<Rightarrow> int \<Rightarrow> ('k, 'v) revision_cache" where
  "cache_init ttl n = \<lparr>ttl_seconds = max (1/10) (min ttl 5), max_items = n, items = []\<rparr>"

text \<open>\<^verbatim>\<open>OrderedDict\<close>: deletion, and \<^verbatim>\<open>move_to_end\<close> of a present key.\<close>

definition od_delete :: "'k \<Rightarrow> ('k \<times> 'w) list \<Rightarrow> ('k \<times> 'w) list" where
  "od_delete k xs = filter (\<lambda>p. fst p \<noteq> k) xs"

definition cache_get :: "('k, 'v) revision_cache \<Rightarrow> real \<Rightarrow> 'k \<Rightarrow> 'v option \<times> ('k, 'v) revision_cache" where
  "cache_get c now k =
     (case map_of (items c) k of
        None \<Rightarrow> (None, c)
      | Some entry \<Rightarrow>
          if expires_at entry < now then (None, c\<lparr>items := od_delete k (items c)\<rparr>)
          else (Some (entry_value entry), c\<lparr>items := od_delete k (items c) @ [(k, entry)]\<rparr>))"

text \<open>
  The eviction loop of \<^verbatim>\<open>put\<close>: \<^verbatim>\<open>popitem(last=False)\<close> while the cache is too long.
  On an empty dictionary \<^verbatim>\<open>popitem\<close> raises \<^verbatim>\<open>KeyError\<close>, which a negative
  \<^verbatim>\<open>max_items\<close> reaches.
\<close>

fun evict :: "int \<Rightarrow> 'a list \<Rightarrow> 'a list result" where
  "evict n [] = (if int (length ([] :: 'a list)) > n then Inl (KeyError ''dictionary is empty'') else Inr [])"
| "evict n (x # xs) = (if int (length (x # xs)) > n then evict n xs else Inr (x # xs))"

definition cache_put :: "('k, 'v) revision_cache \<Rightarrow> real \<Rightarrow> 'k \<Rightarrow> 'v \<Rightarrow> ('v \<times> ('k, 'v) revision_cache) result" where
  "cache_put c now k v =
     (let entry = \<lparr>expires_at = now + ttl_seconds c, entry_value = v\<rparr>
      in bindR (evict (max_items c) (od_delete k (items c) @ [(k, entry)]))
           (\<lambda>xs. Inr (v, c\<lparr>items := xs\<rparr>)))"

definition cache_clear :: "('k, 'v) revision_cache \<Rightarrow> ('k, 'v) revision_cache" where
  "cache_clear c = c\<lparr>items := []\<rparr>"

text \<open>
  The cached read of \<^verbatim>\<open>src/src/project_control/snapshot.py\<close>
  (\<^verbatim>\<open>SnapshotBuilder.build\<close>): use the cached worktree list or list the worktrees with
  Git, here the argument \<open>worktrees\<close>, and store what it gave.
\<close>

definition cached_worktrees ::
  "('k, 'v) revision_cache \<Rightarrow> real \<Rightarrow> real \<Rightarrow> 'k \<Rightarrow> 'v \<Rightarrow> ('v \<times> ('k, 'v) revision_cache) result" where
  "cached_worktrees c t1 t2 key worktrees =
     (case cache_get c t1 key of
        (Some v, c1) \<Rightarrow> Inr (v, c1)
      | (None, c1) \<Rightarrow> cache_put c1 t2 key worktrees)"

section \<open>The contract of a cache\<close>

text \<open>
  What a client of the cache relies on: \<open>peek\<close> is the value a read at a time would see.
  A read tells that value and changes no later read; a write always succeeds, is seen until
  its time to live is over, and never makes another key's value appear or change.
\<close>

locale ttl_cache =
  fixes peek :: "'c \<Rightarrow> real \<Rightarrow> 'k \<Rightarrow> 'v option"
    and get :: "'c \<Rightarrow> real \<Rightarrow> 'k \<Rightarrow> 'v option \<times> 'c"
    and put :: "'c \<Rightarrow> real \<Rightarrow> 'k \<Rightarrow> 'v \<Rightarrow> ('v \<times> 'c) result"
    and ttl :: "'c \<Rightarrow> real"
    and invar :: "'c \<Rightarrow> bool"
  assumes get_peek: "invar c \<Longrightarrow> fst (get c now k) = peek c now k"
    and get_frame: "invar c \<Longrightarrow> now \<le> t \<Longrightarrow> peek (snd (get c now k)) t k' = peek c t k'"
    and get_invar: "invar c \<Longrightarrow> invar (snd (get c now k))"
    and put_returns: "invar c \<Longrightarrow> \<exists>c'. put c now k v = Inr (v, c') \<and> invar c' \<and> ttl c' = ttl c"
    and put_peek: "invar c \<Longrightarrow> put c now k v = Inr (w, c') \<Longrightarrow> t \<le> now + ttl c \<Longrightarrow> peek c' t k = Some v"
    and put_fresh: "invar c \<Longrightarrow> put c now k v = Inr (w, c') \<Longrightarrow> peek c' t k = Some u \<Longrightarrow> u = v"
    and put_other: "invar c \<Longrightarrow> put c now k v = Inr (w, c') \<Longrightarrow> k' \<noteq> k \<Longrightarrow> peek c' t k' = Some u
      \<Longrightarrow> peek c t k' = Some u"
begin

text \<open>A cache is sound for a function when every value it holds from a time on is the function's.\<close>

definition sound :: "'c \<Rightarrow> real \<Rightarrow> ('k \<Rightarrow> 'v) \<Rightarrow> bool" where
  "sound c now f \<longleftrightarrow> (\<forall>t k v. now \<le> t \<longrightarrow> peek c t k = Some v \<longrightarrow> v = f k)"

lemma sound_get: "invar c \<Longrightarrow> sound c now f \<Longrightarrow> sound (snd (get c now k)) now f"
  by (auto simp: sound_def get_frame)

lemma sound_later: "sound c now f \<Longrightarrow> now \<le> now' \<Longrightarrow> sound c now' f"
  unfolding sound_def by (meson order_trans)

lemma sound_put:
  "invar c \<Longrightarrow> sound c now f \<Longrightarrow> put c now k (f k) = Inr (w, c') \<Longrightarrow> sound c' now f"
  unfolding sound_def by (metis put_fresh put_other)

text \<open>Reading through the cache is calling the function, and keeps the cache sound.\<close>

lemma memo_transparent:
  assumes inv: "invar c" and snd: "sound c t1 f" and le: "t1 \<le> t2"
  shows "\<exists>c'. (case get c t1 k of (Some v, c1) \<Rightarrow> Inr (v, c1) | (None, c1) \<Rightarrow> put c1 t2 k (f k))
           = Inr (f k, c') \<and> invar c' \<and> sound c' t2 f"
proof -
  obtain r c1 where g: "get c t1 k = (r, c1)" by fastforce
  have i1: "invar c1" and s1: "sound c1 t1 f"
    using get_invar [OF inv, of t1 k] sound_get [OF inv snd, of k] g by auto
  have r: "r = peek c t1 k" using get_peek [OF inv, of t1 k] g by simp
  show ?thesis
  proof (cases r)
    case None
    obtain c' where "put c1 t2 k (f k) = Inr (f k, c')" "invar c'"
      using put_returns [OF i1] by blast
    with None g sound_put [OF i1 sound_later [OF s1 le]] show ?thesis by auto
  next
    case (Some v)
    with r snd have "v = f k" by (auto simp: sound_def)
    with Some g i1 sound_later [OF s1 le] show ?thesis by auto
  qed
qed

end

section \<open>The cache keeps the contract\<close>

definition cache_peek :: "('k, 'v) revision_cache \<Rightarrow> real \<Rightarrow> 'k \<Rightarrow> 'v option" where
  "cache_peek c t k =
     (case map_of (items c) k of
        None \<Rightarrow> None
      | Some e \<Rightarrow> if expires_at e < t then None else Some (entry_value e))"

definition cache_ok :: "('k, 'v) revision_cache \<Rightarrow> bool" where
  "cache_ok c \<longleftrightarrow> distinct (map fst (items c)) \<and> 1 \<le> max_items c \<and>
     int (length (items c)) \<le> max_items c \<and> 1/10 \<le> ttl_seconds c \<and> ttl_seconds c \<le> 5"

lemma map_of_od_delete [simp]: "map_of (od_delete k xs) k' = (if k' = k then None else map_of xs k')"
  by (induction xs) (auto simp: od_delete_def)

lemma keys_od_delete [simp]: "set (map fst (od_delete k xs)) = set (map fst xs) - {k}"
  by (auto simp: od_delete_def)

lemma distinct_od_delete: "distinct (map fst xs) \<Longrightarrow> distinct (map fst (od_delete k xs @ [(k, e)]))"
  by (auto simp: od_delete_def distinct_map_filter)

lemma length_od_delete: "length (od_delete k xs) \<le> length xs"
  by (simp add: od_delete_def)

lemma length_od_delete_present: "k \<in> fst ` set xs \<Longrightarrow> length (od_delete k xs) < length xs"
  unfolding od_delete_def by (elim imageE, rule length_filter_less) auto

text \<open>The eviction loop returns exactly when the bound is not negative, and drops the oldest.\<close>

lemma evict_suffix: "0 \<le> n \<Longrightarrow> evict n xs = Inr (drop (length xs - nat n) xs)"
proof (induction xs)
  case (Cons x xs)
  show ?case
  proof (cases "int (length (x # xs)) > n")
    case True
    then have "length (x # xs) - nat n = Suc (length xs - nat n)" using Cons.prems by auto
    with True Cons show ?thesis by simp
  next
    case False
    then have "length (x # xs) - nat n = 0" using Cons.prems by auto
    with False show ?thesis by simp
  qed
qed simp

lemma evict_negative: "n < 0 \<Longrightarrow> evict n xs = Inl (KeyError ''dictionary is empty'')"
  by (induction xs) auto

lemma cache_put_eq:
  assumes "0 \<le> max_items c"
  shows "cache_put c now k v = Inr (v, c\<lparr>items :=
     (let xs = od_delete k (items c) @ [(k, \<lparr>expires_at = now + ttl_seconds c, entry_value = v\<rparr>)]
      in drop (length xs - nat (max_items c)) xs)\<rparr>)"
  using assms by (simp add: cache_put_def evict_suffix Let_def)

lemma cache_put_ok:
  assumes ok: "cache_ok c"
  shows "\<exists>c'. cache_put c now k v = Inr (v, c') \<and> cache_ok c' \<and> ttl_seconds c' = ttl_seconds c"
proof -
  let ?xs = "od_delete k (items c) @ [(k, \<lparr>expires_at = now + ttl_seconds c, entry_value = v\<rparr>)]"
  have "distinct (map fst (drop (length ?xs - nat (max_items c)) ?xs))"
    using distinct_od_delete [of "items c" k] ok by (metis cache_ok_def distinct_drop drop_map)
  moreover have "0 \<le> max_items c" using ok by (simp add: cache_ok_def)
  ultimately show ?thesis
    using ok by (subst cache_put_eq) (auto simp: cache_ok_def Let_def)
qed

lemma map_of_drop_sub:
  assumes "distinct (map fst xs)" "map_of (drop n xs) k = Some e"
  shows "map_of xs k = Some e"
  using assms by (metis map_of_eq_Some_iff distinct_drop drop_map in_set_dropD)

lemma map_of_drop_last:
  assumes "distinct (map fst (xs @ [(k, e)]))" "n \<le> length xs"
  shows "map_of (drop n (xs @ [(k, e)])) k = Some e"
proof -
  have "(k, e) \<in> set (drop n (xs @ [(k, e)]))" using assms(2) by (simp add: in_set_conv_decomp)
  moreover have "distinct (map fst (drop n (xs @ [(k, e)])))"
    using assms(1) by (metis distinct_drop drop_map)
  ultimately show ?thesis by (simp only: map_of_eq_Some_iff)
qed

lemma cache_put_map_of:
  assumes ok: "cache_ok c" and put: "cache_put c now k v = Inr (w, c')"
  shows "map_of (items c') k = Some \<lparr>expires_at = now + ttl_seconds c, entry_value = v\<rparr>"
    and "k' \<noteq> k \<Longrightarrow> map_of (items c') k' = Some e \<Longrightarrow> map_of (items c) k' = Some e"
proof -
  let ?e = "\<lparr>expires_at = now + ttl_seconds c, entry_value = v\<rparr>"
  let ?xs = "od_delete k (items c) @ [(k, ?e)]"
  let ?n = "length ?xs - nat (max_items c)"
  have c': "items c' = drop ?n ?xs"
    using put ok by (auto simp: cache_put_eq cache_ok_def Let_def)
  have d: "distinct (map fst ?xs)" using ok by (intro distinct_od_delete) (simp add: cache_ok_def)
  have "?n \<le> length (od_delete k (items c))" using ok by (auto simp: cache_ok_def)
  from map_of_drop_last [OF d this] show "map_of (items c') k = Some ?e" by (simp add: c')
  assume "k' \<noteq> k" "map_of (items c') k' = Some e"
  with map_of_drop_sub [OF d, of ?n k' e] show "map_of (items c) k' = Some e"
    by (simp add: c' map_add_Some_iff split: if_splits)
qed

lemma cache_get_ok: "cache_ok c \<Longrightarrow> cache_ok (snd (cache_get c now k))"
  using length_od_delete [of k "items c"] length_od_delete_present [of k "items c"]
  by (fastforce simp: cache_ok_def cache_get_def od_delete_def distinct_map_filter
      split: option.splits dest: map_of_SomeD intro: rev_image_eqI)

interpretation revision: ttl_cache cache_peek cache_get cache_put ttl_seconds cache_ok
proof unfold_locales
  fix c :: "('k, 'v) revision_cache" and now t :: real and k k' :: 'k and v w u :: 'v and c'
  assume ok: "cache_ok c"
  show "fst (cache_get c now k) = cache_peek c now k"
    by (auto simp: cache_get_def cache_peek_def split: option.splits)
  show "now \<le> t \<Longrightarrow> cache_peek (snd (cache_get c now k)) t k' = cache_peek c t k'"
    by (auto simp: cache_get_def cache_peek_def map_add_def split: option.splits if_splits)
  show "cache_ok (snd (cache_get c now k))"
    by (rule cache_get_ok [OF ok])
  show "\<exists>c'. cache_put c now k v = Inr (v, c') \<and> cache_ok c' \<and> ttl_seconds c' = ttl_seconds c"
    by (rule cache_put_ok [OF ok])
  assume put: "cache_put c now k v = Inr (w, c')"
  show "t \<le> now + ttl_seconds c \<Longrightarrow> cache_peek c' t k = Some v"
    by (simp add: cache_peek_def cache_put_map_of(1) [OF ok put])
  show "cache_peek c' t k = Some u \<Longrightarrow> u = v"
    by (auto simp: cache_peek_def cache_put_map_of(1) [OF ok put] split: if_splits)
  show "k' \<noteq> k \<Longrightarrow> cache_peek c' t k' = Some u \<Longrightarrow> cache_peek c t k' = Some u"
    using cache_put_map_of(2) [OF ok put] by (auto simp: cache_peek_def split: option.splits if_splits)
qed

section \<open>Properties\<close>

text \<open>
  Reading through the cache is transparent: when every value the cache would still serve is the
  one the underlying listing gives, the cached read returns that listing's value, never raises,
  and leaves the cache in the same condition.
\<close>

theorem cached_worktrees_transparent:
  assumes ok: "cache_ok c" and le: "t1 \<le> t2"
    and fresh: "\<And>t k v. t1 \<le> t \<Longrightarrow> cache_peek c t k = Some v \<Longrightarrow> v = f k"
  shows "\<exists>c'. cached_worktrees c t1 t2 key (f key) = Inr (f key, c') \<and> cache_ok c' \<and>
    (\<forall>t k v. t2 \<le> t \<longrightarrow> cache_peek c' t k = Some v \<longrightarrow> v = f k)"
proof -
  have "revision.sound c t1 f" unfolding revision.sound_def using fresh by blast
  from revision.memo_transparent [OF ok this le, of key] show ?thesis
    by (simp add: cached_worktrees_def revision.sound_def)
qed

text \<open>C35 at a cache that holds the value of another key.\<close>

theorem cached_worktrees_transparent_witness:
  "\<exists>c'. cached_worktrees \<lparr>ttl_seconds = 3, max_items = 2, items = [(1::nat, \<lparr>expires_at = 5, entry_value = 10::nat\<rparr>)]\<rparr> 4 4 2 20
     = Inr (20, c')"
proof -
  let ?c = "\<lparr>ttl_seconds = 3, max_items = 2, items = [(1::nat, \<lparr>expires_at = 5, entry_value = 10::nat\<rparr>)]\<rparr>"
  have ok: "cache_ok ?c" by (simp add: cache_ok_def)
  have "v = 10 * k" if "cache_peek ?c t k = Some v" for t k v
    using that by (auto simp: cache_peek_def split: if_splits)
  then show ?thesis using cached_worktrees_transparent [OF ok, of 4 4 "\<lambda>k. 10 * k" 2] by auto
qed

text \<open>A client's calls on the cache, with the clock readings they see, and what a run of them leaves.\<close>

datatype ('k, 'v) cache_call = Get real 'k | Put real 'k 'v | Clear

fun apply_call :: "('k, 'v) cache_call \<Rightarrow> ('k, 'v) revision_cache \<Rightarrow> ('k, 'v) revision_cache result" where
  "apply_call (Get now k) c = Inr (snd (cache_get c now k))"
| "apply_call (Put now k v) c = bindR (cache_put c now k v) (\<lambda>(_, c'). Inr c')"
| "apply_call Clear c = Inr (cache_clear c)"

fun cache_run :: "('k, 'v) cache_call list \<Rightarrow> ('k, 'v) revision_cache \<Rightarrow> ('k, 'v) revision_cache result" where
  "cache_run [] c = Inr c"
| "cache_run (x # xs) c = bindR (apply_call x c) (cache_run xs)"

lemma cache_get_config [simp]: "max_items (snd (cache_get c now k)) = max_items c"
  by (simp add: cache_get_def split: option.splits)

lemma cache_call_ok:
  assumes "cache_ok c"
  shows "\<exists>c'. apply_call x c = Inr c' \<and> cache_ok c' \<and> max_items c' = max_items c"
proof (cases x)
  case (Put now k v)
  obtain c' where c': "cache_put c now k v = Inr (v, c')" "cache_ok c'" using cache_put_ok [OF assms] by blast
  have "max_items c' = max_items c" using c'(1) assms by (auto simp: cache_put_eq cache_ok_def)
  with c' Put show ?thesis by simp
qed (use assms cache_get_ok [OF assms] in \<open>auto simp: cache_clear_def cache_ok_def\<close>)

text \<open>
  A cache for at least one item never raises, whatever calls are made on it, and at the end
  has no key twice, at most its bound of entries, and a time to live between 0.1 and 5 seconds.
\<close>

theorem cache_run_bounded:
  assumes "1 \<le> n"
  shows "\<exists>c. cache_run calls (cache_init ttl n) = Inr c \<and> distinct (map fst (items c)) \<and>
    int (length (items c)) \<le> n \<and> 1/10 \<le> ttl_seconds c \<and> ttl_seconds c \<le> 5"
proof -
  have "\<exists>c'. cache_run calls c = Inr c' \<and> cache_ok c' \<and> max_items c' = max_items c" if "cache_ok c" for c
    using that
  proof (induction calls arbitrary: c)
    case (Cons x xs)
    obtain d where d: "apply_call x c = Inr d" "cache_ok d" "max_items d = max_items c"
      using cache_call_ok [OF Cons.prems] by blast
    from Cons.IH [OF d(2)] d show ?case by simp
  qed simp
  moreover have "cache_ok (cache_init ttl n)" using assms by (simp add: cache_ok_def cache_init_def)
  ultimately obtain c' where "cache_run calls (cache_init ttl n) = Inr c'" "cache_ok c'"
    "max_items c' = max_items (cache_init ttl n :: ('a, 'b) revision_cache)" by blast
  then show ?thesis by (auto simp: cache_ok_def cache_init_def)
qed

text \<open>C36 at a cache for one item that is asked to hold two.\<close>

theorem cache_run_bounded_witness:
  "\<exists>c. cache_run [Put 0 (1::nat) True, Put 1 2 False, Get 1 2] (cache_init 3 1) = Inr c \<and> int (length (items c)) \<le> 1"
  using cache_run_bounded [of 1 "[Put 0 (1::nat) True, Put 1 2 False, Get 1 2]" 3] by auto

text \<open>
  A write keeps the most recently used entries: with a bound that is not negative the new entry
  is last, the others keep their order of use, and only the oldest are dropped, as many as the bound
  asks; with a negative bound it raises.
\<close>

theorem cache_put_recent:
  "cache_put c now k v =
     (if max_items c < 0 then Inl (KeyError ''dictionary is empty'')
      else Inr (v, c\<lparr>items :=
        drop (Suc (length (filter (\<lambda>p. fst p \<noteq> k) (items c))) - nat (max_items c))
          (filter (\<lambda>p. fst p \<noteq> k) (items c) @ [(k, \<lparr>expires_at = now + ttl_seconds c, entry_value = v\<rparr>)])\<rparr>))"
  by (simp add: cache_put_def evict_negative evict_suffix od_delete_def Let_def)

end
