(* ===== verification/Mask.thy ===== *)
theory Mask
  imports PyText
begin

text \<open>
  \<^verbatim>\<open>mask_payload\<close> of \<^verbatim>\<open>src/src/project_control/as1_packets.py\<close>: credential fields and
  bearer tokens are masked before a packet is stored, and the places are reported.  The regular
  expression is matched by the functions below, character by character, on ASCII text.
\<close>

section \<open>Bearer tokens\<close>

text \<open>The characters of a bearer token.\<close>

definition is_token :: "char \<Rightarrow> bool" where
  "is_token c \<longleftrightarrow> is_upper c \<or> is_lower c \<or> is_digit c \<or> c \<in> set ''._~+/=-''"

text \<open>
  A match of \<^verbatim>\<open>Bearer\s+[A-Za-z0-9._~+/=-]+\<close> (ignoring case) at the head of the text: the token
  and the rest.  White space and token characters are disjoint, so the greedy match is the only one.
\<close>

definition match_bearer :: "string \<Rightarrow> (string \<times> string) option" where
  "match_bearer s =
     (let r = drop 6 s; t = dropWhile is_space r; tok = takeWhile is_token t
      in if lower (take 6 s) = ''bearer'' \<and> takeWhile is_space r \<noteq> [] \<and> tok \<noteq> []
         then Some (tok, dropWhile is_token t) else None)"

lemma match_bearer_length: "match_bearer s = Some (tok, rest) \<Longrightarrow> length rest < length s"
proof -
  assume m: "match_bearer s = Some (tok, rest)"
  let ?t = "dropWhile is_space (drop 6 s)"
  have tok: "tok = takeWhile is_token ?t" "rest = dropWhile is_token ?t" "tok \<noteq> []"
    using m by (auto simp: match_bearer_def Let_def split: if_splits)
  have "length tok + length rest = length ?t"
    unfolding tok(1,2) by (metis length_append takeWhile_dropWhile_id)
  moreover have "length ?t \<le> length s" using length_dropWhile_le [of is_space "drop 6 s"] by simp
  ultimately show ?thesis using tok(3) by (cases tok) auto
qed

text \<open>
  \<^verbatim>\<open>_BEARER.sub('Bearer [masked]', value)\<close>: the flag says whether the character before is a word
  character, for the boundary \<^verbatim>\<open>\b\<close> before \<^verbatim>\<open>Bearer\<close>.
\<close>

function bearer_sub :: "bool \<Rightarrow> string \<Rightarrow> string" where
  "bearer_sub word [] = []"
| "bearer_sub word (c # cs) =
     (case if word then None else match_bearer (c # cs) of
        Some (tok, rest) \<Rightarrow> ''Bearer [masked]'' @ bearer_sub (is_word (last tok)) rest
      | None \<Rightarrow> c # bearer_sub (is_word c) cs)"
  by pat_completeness auto
termination
  by (relation "measure (\<lambda>(w, s). length s)") (auto dest: match_bearer_length split: if_splits)

section \<open>Payloads\<close>

definition PRIVATE_KEYS :: "string list" where
  "PRIVATE_KEYS =
    [''password'', ''secret'', ''access_token'', ''refresh_token'', ''api_key'', ''authorization'',
     ''credential'', ''credentials'', ''workflow_handle'', ''capability'', ''bearer'', ''hidden_reasoning'',
     ''chain_of_thought'', ''private_context'']"

definition private_key :: "string \<Rightarrow> bool" where
  "private_key k \<longleftrightarrow> replace_char CHR ''-'' CHR ''_'' (lower k) \<in> set PRIVATE_KEYS"

type_synonym omission = "string \<times> string"

definition omitted :: "string \<Rightarrow> omission" where
  "omitted path = (path, ''policy_masked'')"

fun mask_payload :: "string \<Rightarrow> pv \<Rightarrow> pv \<times> omission list"
  and mask_items :: "string \<Rightarrow> pdict \<Rightarrow> pdict \<times> omission list"
  and mask_list :: "string \<Rightarrow> nat \<Rightarrow> pv list \<Rightarrow> pv list \<times> omission list" where
  "mask_payload path (PDict d) = (let (d', om) = mask_items path d in (PDict d', om))"
| "mask_payload path (PList xs) = (let (xs', om) = mask_list path 0 xs in (PList xs', om))"
| "mask_payload path (PStr s) =
     (let cleaned = bearer_sub False s in (PStr cleaned, if cleaned \<noteq> s then [omitted path] else []))"
| "mask_payload path v = (v, [])"
| "mask_items path [] = ([], [])"
| "mask_items path ((k, v) # d) =
     (let location = path @ ''/'' @ k;
          (v', om) = (if private_key k
                      then (PStr ''[masked]'', if v \<noteq> PStr ''[masked]'' then [omitted location] else [])
                      else mask_payload location v);
          (d', oms) = mask_items path d
      in ((k, v') # d', om @ oms))"
| "mask_list path i [] = ([], [])"
| "mask_list path i (x # xs) =
     (let (x', om) = mask_payload (path @ ''/'' @ string_of_nat i) x;
          (xs', oms) = mask_list path (Suc i) xs
      in (x' # xs', om @ oms))"

text \<open>What may be stored: no private field with a value of its own, no bearer token in any text.\<close>

fun clean :: "pv \<Rightarrow> bool" where
  "clean (PDict d) = (\<forall>p \<in> set d. if private_key (fst p) then snd p = PStr ''[masked]'' else clean (snd p))"
| "clean (PList xs) = (\<forall>x \<in> set xs. clean x)"
| "clean (PStr s) = (bearer_sub False s = s)"
| "clean _ = True"

section \<open>Substitution leaves nothing to substitute\<close>

text \<open>Whether a match starts at the head, read one character at a time.\<close>

fun m_token :: "string \<Rightarrow> bool" where
  "m_token [] = False"
| "m_token (c # cs) = (is_token c \<or> is_space c \<and> m_token cs)"

fun m_space :: "string \<Rightarrow> bool" where
  "m_space [] = False"
| "m_space (c # cs) = (is_space c \<and> m_token cs)"

fun m_word :: "string \<Rightarrow> string \<Rightarrow> bool" where
  "m_word [] s = m_space s"
| "m_word (q # p) [] = False"
| "m_word (q # p) (c # cs) = (to_lower c = q \<and> m_word p cs)"

lemma token_not_space: "is_token c \<Longrightarrow> \<not> is_space c"
  by (auto simp: is_token_def is_space_def is_upper_def is_lower_def is_digit_def less_eq_char_def)

lemma m_token_iff: "m_token s \<longleftrightarrow> takeWhile is_token (dropWhile is_space s) \<noteq> []"
proof (induction s)
  case (Cons c cs)
  then show ?case using token_not_space [of c] by auto
qed simp

lemma m_space_iff: "m_space s \<longleftrightarrow> takeWhile is_space s \<noteq> [] \<and> takeWhile is_token (dropWhile is_space s) \<noteq> []"
  by (cases s) (auto simp: m_token_iff)

lemma m_word_iff: "m_word p s \<longleftrightarrow> lower (take (length p) s) = p \<and> m_space (drop (length p) s)"
  by (induction p s rule: m_word.induct) (auto simp: lower_def)

lemma match_bearer_None: "match_bearer s = None \<longleftrightarrow> \<not> m_word ''bearer'' s"
  by (auto simp: match_bearer_def Let_def m_word_iff m_space_iff eval_nat_numeral)

lemma lower_b_token:
  assumes "to_lower c = CHR ''b''"
  shows "is_token c"
proof (cases "is_upper c")
  case True
  then show ?thesis by (simp add: is_token_def)
next
  case False
  with assms have "c = CHR ''b''" by (simp add: to_lower_def)
  moreover have "is_token CHR ''b''" by code_simp
  ultimately show ?thesis by simp
qed

lemma match_bearer_head:
  assumes "match_bearer (c # cs) = Some x"
  shows "to_lower c = CHR ''b''" "is_token c" "\<not> is_space c"
proof -
  have "m_word ''bearer'' (c # cs)" using assms by (metis match_bearer_None option.distinct(1))
  then show b: "to_lower c = CHR ''b''" by simp
  show "is_token c" by (rule lower_b_token [OF b])
  then show "\<not> is_space c" by (rule token_not_space)
qed

lemma sub_head_b: "to_lower CHR ''B'' = CHR ''b''" "\<not> is_space CHR ''B''" "is_token CHR ''B''"
  by code_simp+

text \<open>A substitution changes no character but the case of the letters it matches.\<close>

lemma bearer_sub_cases:
  obtains "bearer_sub w (c # cs) = c # bearer_sub (is_word c) cs"
  | r where "bearer_sub w (c # cs) = CHR ''B'' # r" "to_lower c = CHR ''b''"
proof (cases "if w then None else match_bearer (c # cs)")
  case None
  then show thesis using that(1) by simp
next
  case (Some m)
  then have "match_bearer (c # cs) = Some m" by (simp split: if_splits)
  from match_bearer_head(1) [OF this] Some show thesis using that(2) by (cases m) simp
qed

lemma m_token_sub: "m_token (bearer_sub w s) \<Longrightarrow> m_token s"
proof (induction s arbitrary: w)
  case (Cons c cs)
  then show ?case by (cases rule: bearer_sub_cases [of w c cs]) (auto simp: lower_b_token)
qed simp

lemma m_space_sub: "m_space (bearer_sub w s) \<Longrightarrow> m_space s"
proof (cases s)
  case (Cons c cs)
  assume "m_space (bearer_sub w s)"
  then show ?thesis unfolding Cons
    by (cases rule: bearer_sub_cases [of w c cs]) (auto simp: sub_head_b dest: m_token_sub)
qed simp

lemma m_word_sub: "m_word p (bearer_sub w s) \<Longrightarrow> CHR ''b'' \<notin> set p \<Longrightarrow> m_word p s"
proof (induction p arbitrary: w s)
  case Nil
  then show ?case by (simp add: m_space_sub)
next
  case (Cons q p)
  show ?case
  proof (cases s)
    case (Cons c cs)
    then show ?thesis using Cons.prems Cons.IH
      by (cases rule: bearer_sub_cases [of w c cs]) (auto simp: sub_head_b)
  qed (use Cons.prems in simp)
qed

text \<open>The flag matters only in front of a letter \<^verbatim>\<open>b\<close>.\<close>

lemma bearer_sub_flag:
  assumes "s = [] \<or> to_lower (hd s) \<noteq> CHR ''b''"
  shows "bearer_sub v s = bearer_sub w s"
proof (cases s)
  case (Cons c cs)
  with assms have "match_bearer (c # cs) = None" by (auto simp: match_bearer_None)
  with Cons show ?thesis by simp
qed simp

lemma bearer_sub_hd: "s \<noteq> [] \<Longrightarrow> to_lower (hd (bearer_sub w s)) = to_lower (hd s)"
  by (cases s) (simp, rule bearer_sub_cases [of w "hd s" "tl s"], simp_all add: sub_head_b)

lemma bearer_sub_Nil: "bearer_sub w s = [] \<longleftrightarrow> s = []"
  by (cases s) (simp, rule bearer_sub_cases [of w "hd s" "tl s"], simp_all)

lemma match_bearer_rest:
  assumes "match_bearer s = Some (tok, rest)"
  shows "rest = [] \<or> to_lower (hd rest) \<noteq> CHR ''b''"
proof (cases rest)
  case (Cons c cs)
  have "\<not> is_token c"
    using assms Cons by (auto simp: match_bearer_def Let_def dropWhile_eq_Cons_conv split: if_splits)
  then show ?thesis using Cons lower_b_token by auto
qed simp

lemma masked_no_match: "match_bearer (''Bearer [masked]'' @ r) = None"
proof -
  have "\<not> is_token CHR ''[''" "\<not> is_space CHR ''[''" by code_simp+
  then show ?thesis by (simp add: match_bearer_None)
qed

lemma masked_prefix:
  "bearer_sub False (''Bearer [masked]'' @ r) = ''Bearer [masked]'' @ bearer_sub False r"
proof -
  have chars: "\<not> is_token CHR ''[''" "\<not> is_space CHR ''[''" "to_lower CHR ''['' \<noteq> CHR ''b''" "to_lower CHR ''m'' \<noteq> CHR ''b''"
    "is_word CHR ''B''" "is_word CHR ''e''" "is_word CHR ''a''" "is_word CHR ''r''" "\<not> is_word CHR '' ''" "\<not> is_word CHR ''[''"
    "is_word CHR ''m''" "is_word CHR ''s''" "is_word CHR ''k''" "is_word CHR ''d''" "\<not> is_word CHR '']''"
    by code_simp+
  have "match_bearer (''Bearer [masked]'' @ r) = None" "match_bearer (''[masked]'' @ r) = None"
    "match_bearer (''masked]'' @ r) = None"
    by (simp_all add: match_bearer_None chars)
  then show ?thesis by (simp add: chars)
qed

lemma bearer_sub_idem: "bearer_sub w (bearer_sub w s) = bearer_sub w s"
proof (induction w s rule: bearer_sub.induct)
  case (2 w c cs)
  show ?case
  proof (cases "if w then None else match_bearer (c # cs)")
    case None
    have "(if w then None else match_bearer (c # bearer_sub (is_word c) cs)) = None"
    proof (cases w)
      case False
      with None have "\<not> m_word ''bearer'' (c # cs)" by (simp add: match_bearer_None)
      then have "\<not> m_word ''bearer'' (c # bearer_sub (is_word c) cs)"
        using m_word_sub [of "''earer''" "is_word c" cs] by auto
      then show ?thesis by (simp add: match_bearer_None)
    qed simp
    with None 2(1) [OF None] show ?thesis by simp
  next
    case (Some m)
    obtain tok rest where m: "m = (tok, rest)" by (cases m)
    with Some have w: "\<not> w" and mb: "match_bearer (c # cs) = Some (tok, rest)" by (auto split: if_splits)
    let ?r = "bearer_sub (is_word (last tok)) rest"
    have "?r = [] \<or> to_lower (hd ?r) \<noteq> CHR ''b''"
      using match_bearer_rest [OF mb] bearer_sub_hd [of rest] by (auto simp: bearer_sub_Nil)
    then have "bearer_sub False ?r = ?r"
      using bearer_sub_flag [of ?r False] 2(2) [OF Some m [symmetric]] by metis
    with w mb masked_prefix [of ?r] show ?thesis by simp
  qed
qed simp

section \<open>What masking gives\<close>

lemma mask_clean:
  "clean (fst (mask_payload path v))"
  "clean (PDict (fst (mask_items path d)))"
  "clean (PList (fst (mask_list path i xs)))"
  by (induction path v and path d and path i xs rule: mask_payload_mask_items_mask_list.induct)
    (auto simp: Let_def bearer_sub_idem split: prod.splits if_splits)

lemma mask_of_clean:
  "clean v \<Longrightarrow> mask_payload path v = (v, [])"
  "clean (PDict d) \<Longrightarrow> mask_items path d = (d, [])"
  "clean (PList xs) \<Longrightarrow> mask_list path i xs = (xs, [])"
  by (induction path v and path d and path i xs rule: mask_payload_mask_items_mask_list.induct)
    (auto simp: Let_def split: prod.splits if_splits)

lemma mask_silent:
  "snd (mask_payload path v) = [] \<Longrightarrow> clean v"
  "snd (mask_items path d) = [] \<Longrightarrow> clean (PDict d)"
  "snd (mask_list path i xs) = [] \<Longrightarrow> clean (PList xs)"
  by (induction path v and path d and path i xs rule: mask_payload_mask_items_mask_list.induct)
    (auto simp: Let_def split: prod.splits if_splits)

section \<open>The policy\<close>

text \<open>
  What the policy calls private, said without the code above: the names of the fields, in any case and with hyphens for the
  underscores, and a bearer credential in a text, which is the word \<^verbatim>\<open>Bearer\<close> in any case where no word character is
  before it, then white space, then a character of a token.
\<close>

definition credential_name :: "string \<Rightarrow> bool" where
  "credential_name k \<longleftrightarrow>
     (\<exists>name \<in> {''password'', ''secret'', ''access_token'', ''refresh_token'', ''api_key'', ''authorization'', ''credential'',
         ''credentials'', ''workflow_handle'', ''capability'', ''bearer'', ''hidden_reasoning'', ''chain_of_thought'', ''private_context''}.
       list_all2 (\<lambda>c q. to_lower c = q \<or> c = CHR ''-'' \<and> q = CHR ''_'') k name)"

definition credential_char :: "char \<Rightarrow> bool" where
  "credential_char c \<longleftrightarrow>
     CHR ''A'' \<le> c \<and> c \<le> CHR ''Z'' \<or> CHR ''a'' \<le> c \<and> c \<le> CHR ''z'' \<or> CHR ''0'' \<le> c \<and> c \<le> CHR ''9'' \<or>
     c \<in> {CHR ''.'', CHR ''_'', CHR ''~'', CHR ''+'', CHR ''/'', CHR ''='', CHR ''-''}"

definition credential_at :: "string \<Rightarrow> string \<Rightarrow> string \<Rightarrow> string \<Rightarrow> string \<Rightarrow> bool" where
  "credential_at s word gap token rest \<longleftrightarrow>
     s = word @ gap @ token @ rest \<and> map to_lower word = ''bearer'' \<and> gap \<noteq> [] \<and> list_all is_space gap \<and>
     token \<noteq> [] \<and> list_all credential_char token"

definition holds_bearer :: "string \<Rightarrow> bool" where
  "holds_bearer s \<longleftrightarrow>
     (\<exists>before tail. s = before @ tail \<and> (before = [] \<or> \<not> is_word (last before)) \<and>
        (\<exists>word gap token rest. credential_at tail word gap token rest))"

fun policy_clean :: "pv \<Rightarrow> bool" where
  "policy_clean (PDict d) = (\<forall>p \<in> set d. if credential_name (fst p) then snd p = PStr ''[masked]'' else policy_clean (snd p))"
| "policy_clean (PList xs) = (\<forall>x \<in> set xs. policy_clean x)"
| "policy_clean (PStr s) = (\<not> holds_bearer s)"
| "policy_clean _ = True"

text \<open>
  What masking makes of a text: from the left, every credential, its token taken as far as it goes, becomes
  \<^verbatim>\<open>Bearer [masked]\<close>, and every other character stays.  The flag tells whether a word character is before.
\<close>

inductive masked_text :: "bool \<Rightarrow> string \<Rightarrow> string \<Rightarrow> bool" where
  nil: "masked_text w [] []"
| char: "w \<or> (\<nexists>word gap token rest. credential_at (c # s) word gap token rest) \<Longrightarrow> masked_text (is_word c) s t \<Longrightarrow>
    masked_text w (c # s) (c # t)"
| credential: "credential_at s word gap token rest \<Longrightarrow> rest = [] \<or> \<not> credential_char (hd rest) \<Longrightarrow>
    masked_text (is_word (last token)) rest t \<Longrightarrow> masked_text False s (''Bearer [masked]'' @ t)"

text \<open>What it makes of a value: nothing but the private fields and the texts changes.\<close>

inductive masked_value :: "pv \<Rightarrow> pv \<Rightarrow> bool" where
  dict: "list_all2 (\<lambda>p q. fst q = fst p \<and>
      (credential_name (fst p) \<and> snd q = PStr ''[masked]'' \<or> \<not> credential_name (fst p) \<and> masked_value (snd p) (snd q))) d e \<Longrightarrow>
    masked_value (PDict d) (PDict e)"
| lst: "list_all2 masked_value xs ys \<Longrightarrow> masked_value (PList xs) (PList ys)"
| str: "masked_text False s t \<Longrightarrow> masked_value (PStr s) (PStr t)"
| atom: "\<not> is_dict v \<Longrightarrow> \<not> is_list v \<Longrightarrow> \<not> is_str v \<Longrightarrow> masked_value v v"

lemma lower_dash: "to_lower c = CHR ''-'' \<longleftrightarrow> c = CHR ''-''"
proof (cases "is_upper c")
  case True
  then have code: "65 \<le> (of_char c :: nat)" "(of_char c :: nat) \<le> 90" by (simp_all add: is_upper_def less_eq_char_def)
  have "(of_char (to_lower c) :: nat) = of_char c + 32" using True code by (simp add: to_lower_def of_char_of)
  then have "to_lower c \<noteq> CHR ''-''" using code by auto
  moreover have "c \<noteq> CHR ''-''" using code by auto
  ultimately show ?thesis by simp
qed (simp add: to_lower_def)

lemma credential_letter:
  assumes "q \<noteq> CHR ''-''"
  shows "to_lower c = q \<or> c = CHR ''-'' \<and> q = CHR ''_'' \<longleftrightarrow> (if to_lower c = CHR ''-'' then CHR ''_'' else to_lower c) = q"
  using assms lower_dash [of c] by (cases "c = CHR ''-''") auto

lemma credential_letters:
  "CHR ''-'' \<notin> set name \<Longrightarrow>
     list_all2 (\<lambda>c q. to_lower c = q \<or> c = CHR ''-'' \<and> q = CHR ''_'') k name \<longleftrightarrow> replace_char CHR ''-'' CHR ''_'' (lower k) = name"
proof (induction k arbitrary: name)
  case (Cons c k)
  show ?case
  proof (cases name)
    case (Cons q qs)
    then have q: "q \<noteq> CHR ''-''" "CHR ''-'' \<notin> set qs" using Cons.prems by auto
    show ?thesis unfolding Cons using Cons.IH [OF q(2)] credential_letter [OF q(1), of c]
      by (simp only: list_all2_Cons replace_char_def lower_def list.map list.inject)
  qed (simp add: replace_char_def lower_def)
qed (auto simp: replace_char_def lower_def)

lemma credential_name_iff: "credential_name k \<longleftrightarrow> private_key k"
  unfolding credential_name_def private_key_def PRIVATE_KEYS_def by (simp add: credential_letters del: list_all2_Cons2)

lemma credential_char_iff: "credential_char c \<longleftrightarrow> is_token c"
  by (auto simp: credential_char_def is_token_def is_upper_def is_lower_def is_digit_def)

lemma takeWhile_exact: "list_all P xs \<Longrightarrow> ys = [] \<or> \<not> P (hd ys) \<Longrightarrow> takeWhile P (xs @ ys) = xs \<and> dropWhile P (xs @ ys) = ys"
  by (induction xs) (cases ys, auto)

lemma credential_match:
  assumes "credential_at s word gap token rest"
  shows "m_word ''bearer'' s"
proof -
  have s: "s = word @ gap @ token @ rest" and w: "map to_lower word = ''bearer''" and g: "gap \<noteq> []" "list_all is_space gap"
    and t: "token \<noteq> []" "list_all credential_char token" using assms by (simp_all add: credential_at_def)
  have len: "length word = 6" using arg_cong [OF w, of length] by simp
  obtain c cs where tc: "token = c # cs" "is_token c" using t by (cases token) (auto simp: credential_char_iff)
  have "takeWhile is_space (gap @ token @ rest) = gap" "dropWhile is_space (gap @ token @ rest) = token @ rest"
    using takeWhile_exact [OF g(2), of "token @ rest"] tc token_not_space by auto
  then have "m_space (gap @ token @ rest)" using g(1) tc by (simp add: m_space_iff)
  then show ?thesis using w len by (simp add: m_word_iff s lower_def)
qed

lemma match_credential:
  assumes "match_bearer s = Some (tok, rest)"
  shows "\<exists>word gap. credential_at s word gap tok rest" "rest = [] \<or> \<not> credential_char (hd rest)"
proof -
  let ?r = "drop 6 s"
  let ?t = "dropWhile is_space ?r"
  have m: "lower (take 6 s) = ''bearer''" "takeWhile is_space ?r \<noteq> []" "tok = takeWhile is_token ?t" "tok \<noteq> []" "rest = dropWhile is_token ?t"
    using assms by (auto simp: match_bearer_def Let_def split: if_splits)
  have "s = take 6 s @ takeWhile is_space ?r @ tok @ rest" unfolding m(3,5) by simp
  moreover have "list_all is_space (takeWhile is_space ?r)" by (auto simp: list_all_iff dest: set_takeWhileD)
  moreover have "list_all credential_char tok" unfolding m(3) by (auto simp: list_all_iff credential_char_iff dest: set_takeWhileD)
  ultimately have "credential_at s (take 6 s) (takeWhile is_space ?r) tok rest"
    using m(1,2,4) by (simp add: credential_at_def lower_def)
  then show "\<exists>word gap. credential_at s word gap tok rest" by blast
  show "rest = [] \<or> \<not> credential_char (hd rest)"
    unfolding m(5) using hd_dropWhile [of is_token ?t] by (auto simp: credential_char_iff)
qed

lemma no_credential: "match_bearer s = None \<longleftrightarrow> (\<nexists>word gap token rest. credential_at s word gap token rest)"
proof
  assume "match_bearer s = None"
  then show "\<nexists>word gap token rest. credential_at s word gap token rest" using credential_match match_bearer_None by blast
next
  assume "\<nexists>word gap token rest. credential_at s word gap token rest"
  then show "match_bearer s = None" 
  proof (cases "match_bearer s")
    case (Some m)
    then show ?thesis using match_credential(1) [of s "fst m" "snd m"] \<open>\<nexists>word gap token rest. credential_at s word gap token rest\<close>
      by (metis prod.collapse)
  qed
qed

lemma bearer_sub_masked: "masked_text w s (bearer_sub w s)"
proof (induction w s rule: bearer_sub.induct)
  case (2 w c cs)
  show ?case
  proof (cases "if w then None else match_bearer (c # cs)")
    case None
    then have "w \<or> (\<nexists>word gap token rest. credential_at (c # cs) word gap token rest)" by (simp add: no_credential split: if_splits)
    then show ?thesis using 2(1) [OF None] None by (auto intro: masked_text.char)
  next
    case (Some m)
    obtain tok rest where m: "m = (tok, rest)" by (cases m)
    with Some have w: "\<not> w" and mb: "match_bearer (c # cs) = Some (tok, rest)" by (auto split: if_splits)
    obtain word gap where "credential_at (c # cs) word gap tok rest" using match_credential(1) [OF mb] by blast
    from masked_text.credential [OF this match_credential(2) [OF mb] 2(2) [OF Some m [symmetric]]]
    show ?thesis using w mb by simp
  qed
qed (simp add: masked_text.nil)

text \<open>A credential somewhere in a text, with a flag for what is before it.\<close>

fun credential_in :: "bool \<Rightarrow> string \<Rightarrow> bool" where
  "credential_in w [] = False"
| "credential_in w (c # cs) \<longleftrightarrow> \<not> w \<and> match_bearer (c # cs) \<noteq> None \<or> credential_in (is_word c) cs"

lemma credential_in_iff:
  "credential_in w s \<longleftrightarrow> (\<exists>before rest. s = before @ rest \<and> \<not> (if before = [] then w else is_word (last before)) \<and> match_bearer rest \<noteq> None)"
proof (induction s arbitrary: w)
  case Nil
  then show ?case by (simp add: match_bearer_None)
next
  case (Cons c cs)
  have "(\<exists>before rest. c # cs = before @ rest \<and> \<not> (if before = [] then w else is_word (last before)) \<and> match_bearer rest \<noteq> None) \<longleftrightarrow>
      \<not> w \<and> match_bearer (c # cs) \<noteq> None \<or>
      (\<exists>before rest. cs = before @ rest \<and> \<not> (if before = [] then is_word c else is_word (last before)) \<and> match_bearer rest \<noteq> None)"
    (is "?L \<longleftrightarrow> ?A \<or> ?B")
  proof
    assume ?L
    then obtain before rest where b: "c # cs = before @ rest" "\<not> (if before = [] then w else is_word (last before))" "match_bearer rest \<noteq> None" by blast
    then show "?A \<or> ?B" by (cases before) (auto split: if_splits)
  next
    assume "?A \<or> ?B"
    then show ?L
    proof
      assume ?B
      then obtain before rest where "cs = before @ rest" "\<not> (if before = [] then is_word c else is_word (last before))" "match_bearer rest \<noteq> None" by blast
      then show ?L by (intro exI [of _ "c # before"] exI [of _ rest]) auto
    qed (intro exI [of _ "[]"] exI [of _ "c # cs"], simp)
  qed
  then show ?case using Cons.IH [of "is_word c"] by simp
qed

lemma holds_bearer_iff: "holds_bearer s \<longleftrightarrow> credential_in False s"
proof -
  have m: "(\<exists>word gap token rest. credential_at t word gap token rest) \<longleftrightarrow> match_bearer t \<noteq> None" for t
    by (simp only: no_credential not_not)
  have b: "(before = [] \<or> \<not> is_word (last before)) \<longleftrightarrow> \<not> (if before = [] then False else is_word (last before))" for before
    by simp
  show ?thesis unfolding holds_bearer_def credential_in_iff m b ..
qed

lemma bearer_sub_same: "bearer_sub w s = s \<longleftrightarrow> \<not> credential_in w s"
proof (induction w s rule: bearer_sub.induct)
  case (2 w c cs)
  show ?case
  proof (cases "if w then None else match_bearer (c # cs)")
    case None
    then show ?thesis using 2(1) [OF None] by (auto split: if_splits)
  next
    case (Some m)
    obtain tok rest where m: "m = (tok, rest)" by (cases m)
    with Some have w: "\<not> w" and mb: "match_bearer (c # cs) = Some (tok, rest)" by (auto split: if_splits)
    have "bearer_sub w (c # cs) \<noteq> c # cs"
    proof
      assume "bearer_sub w (c # cs) = c # cs"
      then have "c # cs = ''Bearer [masked]'' @ bearer_sub (is_word (last tok)) rest" using w mb by simp
      moreover have "match_bearer (''Bearer [masked]'' @ r) = None" for r by (rule masked_no_match)
      ultimately show False using mb by simp
    qed
    then show ?thesis using w mb by simp
  qed
qed simp

lemma clean_policy: "policy_clean v \<longleftrightarrow> clean v"
  by (induction v rule: clean.induct) (auto simp: credential_name_iff holds_bearer_iff bearer_sub_same)

lemma mask_masked:
  "masked_value v (fst (mask_payload path v))"
  "list_all2 (\<lambda>p q. fst q = fst p \<and>
     (credential_name (fst p) \<and> snd q = PStr ''[masked]'' \<or> \<not> credential_name (fst p) \<and> masked_value (snd p) (snd q)))
     d (fst (mask_items path d))"
  "list_all2 masked_value xs (fst (mask_list path i xs))"
proof (induction path v and path d and path i xs rule: mask_payload_mask_items_mask_list.induct)
  case (1 path d)
  then show ?case by (cases "mask_items path d") (simp add: masked_value.dict)
next
  case (2 path xs)
  then show ?case by (cases "mask_list path 0 xs") (simp add: masked_value.lst)
next
  case (3 path s)
  show ?case by (simp add: Let_def masked_value.str bearer_sub_masked)
next
  case (6 path k v d)
  obtain e om where e: "mask_items path d = (e, om)" by fastforce
  obtain w om' where w: "mask_payload (path @ ''/'' @ k) v = (w, om')" by fastforce
  show ?case
  proof (cases "private_key k")
    case True
    then show ?thesis using 6 e by (simp add: credential_name_iff)
  next
    case False
    then show ?thesis using 6 e w by (simp add: credential_name_iff)
  qed
next
  case (8 path i x xs)
  then show ?case
    by (cases "mask_payload (path @ ''/'' @ string_of_nat i) x"; cases "mask_list path (Suc i) xs") simp
qed (simp_all, (rule masked_value.atom; simp)+)

text \<open>
  C30. The masked value has no private field with a value of its own and no bearer credential in any text; it is the value
  with exactly the private fields and the credentials replaced; and masking reports nothing, and changes nothing, exactly
  when the value was clean already.  The policy is \<open>policy_clean\<close>, stated apart from the code.
\<close>

theorem mask_payload_sound:
  "policy_clean (fst (mask_payload path v)) \<and> masked_value v (fst (mask_payload path v)) \<and>
   (snd (mask_payload path v) = [] \<longleftrightarrow> policy_clean v) \<and> (mask_payload path v = (v, []) \<longleftrightarrow> policy_clean v)"
proof -
  have "policy_clean v" if "snd (mask_payload path v) = []" using mask_silent(1) [OF that] clean_policy by blast
  moreover have "mask_payload path v = (v, [])" if "policy_clean v" using that mask_of_clean(1) clean_policy by blast
  moreover have "policy_clean (fst (mask_payload path v))" using mask_clean(1) clean_policy by blast
  ultimately show ?thesis using mask_masked(1) [of v path] by (metis snd_conv)
qed

end
