(* ===== verification/PacketContracts.thy ===== *)
theory PacketContracts
  imports Mask Contracts
begin

text \<open>
  The wire contracts of the packet store: \<^verbatim>\<open>SourceLocator\<close>, \<^verbatim>\<open>InformationPacket\<close>,
  \<^verbatim>\<open>relative_path\<close> and \<^verbatim>\<open>canonical_digest\<close> of
  \<^verbatim>\<open>src/src/project_control/as1_contracts.py\<close>.  A model object is a record; its field types are the
  annotations, and validation checks the constraints and the validators of the class.
\<close>

section \<open>Paths\<close>

definition relative_path :: "string \<Rightarrow> string result" where
  "relative_path value =
     (if value = [] \<or> startswith value ''/'' \<or>
         (length value \<ge> 2 \<and> is_letter (hd value) \<and> value ! 1 = CHR '':'') \<or>
         CHR 0x5C \<in> set value \<or> CHR 0x00 \<in> set value \<or> ''..'' \<in> set (split_on CHR ''/'' value)
      then Inl (ValueError ''source path must be relative without traversal'')
      else Inr value)"

section \<open>Source locators\<close>

record source_locator =
  sl_project :: string
  sl_repository :: string
  sl_path :: string
  sl_content_sha256 :: string
  sl_revision :: "string option"
  sl_line_start :: "int option"
  sl_line_end :: "int option"
  sl_worktree :: "string option"

definition opt_pv :: "('a \<Rightarrow> pv) \<Rightarrow> 'a option \<Rightarrow> pv" where
  "opt_pv f x = (case x of None \<Rightarrow> PNone | Some a \<Rightarrow> f a)"

definition source_locator_pv :: "source_locator \<Rightarrow> pv" where
  "source_locator_pv s = PDict
    [(''project'', PStr (sl_project s)), (''repository'', PStr (sl_repository s)), (''path'', PStr (sl_path s)),
     (''content_sha256'', PStr (sl_content_sha256 s)), (''revision'', opt_pv PStr (sl_revision s)),
     (''line_start'', opt_pv PInt (sl_line_start s)), (''line_end'', opt_pv PInt (sl_line_end s)),
     (''worktree'', opt_pv PStr (sl_worktree s))]"

text \<open>\<^verbatim>\<open>SourceLocator\<close>'s constraints, on an object of the declared types.\<close>

definition source_locator_ok :: "source_locator \<Rightarrow> bool" where
  "source_locator_ok s \<longleftrightarrow>
     sl_project s \<noteq> [] \<and> sl_repository s \<noteq> [] \<and> sl_path s \<noteq> [] \<and> is_sha256 (sl_content_sha256 s) \<and>
     relative_path (sl_path s) = Inr (sl_path s) \<and>
     (\<forall>i \<in> set_option (sl_line_start s). 1 \<le> i) \<and> (\<forall>i \<in> set_option (sl_line_end s). 1 \<le> i) \<and>
     (case (sl_line_start s, sl_line_end s) of (Some a, Some b) \<Rightarrow> a \<le> b | _ \<Rightarrow> True)"

text \<open>A strict field: text, and text or an integer that may be null or missing.\<close>

fun str_field :: "pv \<Rightarrow> string option" where
  "str_field (PStr s) = Some s"
| "str_field _ = None"

fun opt_str_field :: "pv \<Rightarrow> string option option" where
  "opt_str_field PNone = Some None"
| "opt_str_field (PStr s) = Some (Some s)"
| "opt_str_field _ = None"

fun opt_int_field :: "pv \<Rightarrow> int option option" where
  "opt_int_field PNone = Some None"
| "opt_int_field (PInt i) = Some (Some i)"
| "opt_int_field _ = None"

definition LOCATOR_FIELDS :: "string list" where
  "LOCATOR_FIELDS = [''project'', ''repository'', ''path'', ''content_sha256'', ''revision'', ''line_start'',
     ''line_end'', ''worktree'']"

text \<open>\<^verbatim>\<open>SourceLocator.model_validate\<close> on a decoded value; None when it raises.\<close>

definition parse_locator :: "pv \<Rightarrow> source_locator option" where
  "parse_locator v =
     (case v of
        PDict d \<Rightarrow>
          (case (str_field (dget d ''project''), str_field (dget d ''repository''), str_field (dget d ''path''),
                 str_field (dget d ''content_sha256'')) of
             (Some pr, Some re, Some pa, Some sh) \<Rightarrow>
               (case (opt_str_field (dget d ''revision''), opt_int_field (dget d ''line_start''),
                      opt_int_field (dget d ''line_end''), opt_str_field (dget d ''worktree'')) of
                  (Some rv, Some ls, Some le, Some wt) \<Rightarrow>
                    let s = \<lparr>sl_project = pr, sl_repository = re, sl_path = pa, sl_content_sha256 = sh,
                             sl_revision = rv, sl_line_start = ls, sl_line_end = le, sl_worktree = wt\<rparr>
                    in if source_locator_ok s \<and> set (keys d) \<subseteq> set LOCATOR_FIELDS then Some s else None
                | _ \<Rightarrow> None)
           | _ \<Rightarrow> None)
      | _ \<Rightarrow> None)"

section \<open>Packets\<close>

text \<open>
  The parameters of the contracts: the digest of canonical JSON, its length in bytes, what
  \<^verbatim>\<open>datetime.fromisoformat\<close> accepts and the instant it gives, and \<^verbatim>\<open>datetime.isoformat\<close>.
\<close>

record wire_env =
  json_digest :: "pv \<Rightarrow> string"
  json_bytes :: "pv \<Rightarrow> nat"
  iso_accepts :: "string \<Rightarrow> bool"
  iso_epoch :: "string \<Rightarrow> real"
  iso_format :: "real \<Rightarrow> string"

definition canonical_digest :: "wire_env \<Rightarrow> pv \<Rightarrow> string result" where
  "canonical_digest env v =
     (if json_finite v then Inr (json_digest env v)
      else Inl (ValueError ''Out of range float values are not JSON compliant''))"

text \<open>A packet is its metadata with a payload.\<close>

record packet_meta =
  packet_id :: string
  pk_alias :: string
  created_at :: string
  tool :: string
  payload_sha256 :: string
  sources :: "source_locator list"
  parents :: "string list"
  access_scope :: pdict
  expires_at :: "string option"
  freshness :: "pdict option"
  omissions :: "pv list option"
  pinned_by :: "string list option"

record information_packet = packet_meta +
  payload :: pdict

definition meta_fields :: "packet_meta \<Rightarrow> pdict" where
  "meta_fields p =
    [(''format'', PStr ''pc-packet/1''), (''packet_id'', PStr (packet_id p)), (''alias'', PStr (pk_alias p)),
     (''created_at'', PStr (created_at p)), (''tool'', PStr (tool p)), (''payload_sha256'', PStr (payload_sha256 p)),
     (''sources'', PList (map source_locator_pv (sources p))), (''parents'', PList (map PStr (parents p))),
     (''access_scope'', PDict (access_scope p)), (''expires_at'', opt_pv PStr (expires_at p)),
     (''freshness'', opt_pv PDict (freshness p)), (''omissions'', opt_pv PList (omissions p)),
     (''pinned_by'', opt_pv (\<lambda>xs. PList (map PStr xs)) (pinned_by p))]"

abbreviation meta_of :: "information_packet \<Rightarrow> packet_meta" where
  "meta_of p \<equiv> packet_meta.truncate p"

text \<open>\<^verbatim>\<open>packet.model_dump()\<close>\<close>

definition packet_pv :: "information_packet \<Rightarrow> pv" where
  "packet_pv p = PDict (meta_fields (meta_of p) @ [(''payload'', PDict (payload p))])"

text \<open>The pattern \<^verbatim>\<open>^[a-z]+(?:-[a-z]+){1,3}$\<close> of an alias.\<close>

definition alias_ok :: "string \<Rightarrow> bool" where
  "alias_ok s =
     (let parts = split_on CHR ''-'' s
      in 2 \<le> length parts \<and> length parts \<le> 4 \<and> list_all (\<lambda>p. p \<noteq> [] \<and> list_all is_lower p) parts)"

text \<open>The shape \<^verbatim>\<open>YYYY-MM-DDTHH:MM:SS[.f...](Z|+HH:MM|-HH:MM)\<close>; a template digit is \<^verbatim>\<open>0\<close>.\<close>

fun fits :: "string \<Rightarrow> string \<Rightarrow> bool" where
  "fits [] [] = True"
| "fits (t # ts) (c # cs) =
     ((if t = CHR ''0'' then is_digit c else if t = CHR ''T'' then c \<in> {CHR ''T'', CHR ''t''} else c = t) \<and> fits ts cs)"
| "fits _ _ = False"

definition zone_ok :: "string \<Rightarrow> bool" where
  "zone_ok z \<longleftrightarrow> z = ''Z'' \<or> z = ''z'' \<or> fits ''+00:00'' z \<or> fits ''-00:00'' z"

definition zone_of :: "string \<Rightarrow> string" where
  "zone_of s = (case drop 19 s of
     c # cs \<Rightarrow> if c = CHR ''.'' \<and> takeWhile is_digit cs \<noteq> [] then dropWhile is_digit cs else c # cs
   | [] \<Rightarrow> [])"

definition iso_normal :: "string \<Rightarrow> string" where
  "iso_normal s =
     (let n = take 10 s @ ''T'' @ drop 11 s
      in if n \<noteq> [] \<and> last n \<in> {CHR ''Z'', CHR ''z''} then butlast n @ ''+00:00'' else n)"

text \<open>Two decimal digits, from the right end of the normalized text.\<close>

definition two_digits :: "string \<Rightarrow> nat" where
  "two_digits s = (of_char (s ! 0) - 48) * 10 + (of_char (s ! 1) - 48)"

definition timestamp_ok :: "wire_env \<Rightarrow> string \<Rightarrow> bool" where
  "timestamp_ok env s \<longleftrightarrow>
     fits ''0000-00-00T00:00:00'' (take 19 s) \<and> zone_ok (zone_of s) \<and>
     (let n = iso_normal s; off = drop (length n - 5) n
      in two_digits off \<le> 23 \<and> two_digits (drop 3 off) \<le> 59 \<and> iso_accepts env n)"

text \<open>\<^verbatim>\<open>InformationPacket.model_validate\<close>: field constraints, then \<^verbatim>\<open>payload_identity\<close>.\<close>

definition packet_fields_ok :: "wire_env \<Rightarrow> packet_meta \<Rightarrow> bool" where
  "packet_fields_ok env p \<longleftrightarrow>
     8 \<le> length (packet_id p) \<and> alias_ok (pk_alias p) \<and> timestamp_ok env (created_at p) \<and>
     is_sha256 (payload_sha256 p) \<and> list_all source_locator_ok (sources p) \<and>
     (\<forall>e \<in> set_option (expires_at p). timestamp_ok env e)"

definition validate_packet :: "wire_env \<Rightarrow> information_packet \<Rightarrow> unit result" where
  "validate_packet env p =
     bindR (raise_if (\<not> packet_fields_ok env (meta_of p)) (ValueError ''packet fields are invalid'')) (\<lambda>_.
     bindR (canonical_digest env (PDict (payload p))) (\<lambda>h.
     bindR (raise_if (h \<noteq> payload_sha256 p) (ValueError ''packet payload hash mismatch'')) (\<lambda>_.
     raise_if (\<not> distinct (parents p)) (ValueError ''packet parents must be unique''))))"

end
