(* ===== verification/Closure.thy ===== *)
theory Closure
  imports Prelude
begin

text \<open>
  The work-list closure that \<^verbatim>\<open>SQLitePacketStore._live_ids\<close> computes
  (\<^verbatim>\<open>src/src/project_control/as1_packets.py\<close>): from a set of identifiers, everything reachable along
  an edge table.  The table maps an identifier to its successors; a missing identifier has none.
\<close>

definition succs :: "('a \<times> 'a list) list \<Rightarrow> 'a \<Rightarrow> 'a list" where
  "succs ps x = (case map_of ps x of None \<Rightarrow> [] | Some ys \<Rightarrow> ys)"

text \<open>The inner loop: a successor that is new becomes live and pending.\<close>

fun visit :: "'a list \<Rightarrow> 'a list \<Rightarrow> 'a list \<Rightarrow> 'a list \<times> 'a list" where
  "visit [] live pending = (live, pending)"
| "visit (y # ys) live pending =
     (if y \<in> set live then visit ys live pending else visit ys (y # live) (y # pending))"

lemma visit_eq:
  "\<exists>new. visit ys live pending = (new @ live, new @ pending) \<and> set new = set ys - set live"
proof (induction ys arbitrary: live pending)
  case (Cons y ys)
  show ?case
  proof (cases "y \<in> set live")
    case False
    obtain new where "visit ys (y # live) (y # pending) = (new @ y # live, new @ y # pending)"
      "set new = set ys - set (y # live)" using Cons.IH by blast
    with False show ?thesis by (intro exI [of _ "new @ [y]"]) auto
  qed (use Cons in auto)
qed simp

lemma succs_range: "set (succs ps x) \<subseteq> set (concat (map snd ps))"
  by (cases "map_of ps x") (auto simp: succs_def dest!: map_of_SomeD intro: rev_bexI)

lemma visit_progress:
  assumes "visit (succs ps x) live pending = (live', pending')"
  shows "(\<exists>new. live' = new @ live \<and> pending' = new @ pending \<and> set new = set (succs ps x) - set live)"
  using visit_eq [of "succs ps x" live pending] assms by auto

function closure_loop :: "('a \<times> 'a list) list \<Rightarrow> 'a list \<Rightarrow> 'a list \<Rightarrow> 'a list" where
  "closure_loop ps live [] = live"
| "closure_loop ps live (x # pending) =
     (let (live', pending') = visit (succs ps x) live pending in closure_loop ps live' pending')"
  by pat_completeness auto

termination
proof (relation "measures [\<lambda>(ps, live, pending). card (set (concat (map snd ps)) - set live), \<lambda>(ps, live, pending). length pending]")
  fix ps :: "('a \<times> 'a list) list" and live x pending l p live' pending'
  assume "l = visit (succs ps x) live pending" "(live', pending') = l"
  then have "visit (succs ps x) live pending = (live', pending')" by simp
  from visit_progress [OF this] obtain new where new: "live' = new @ live" "pending' = new @ pending"
    "set new = set (succs ps x) - set live" by blast
  let ?U = "set (concat (map snd ps))"
  show "((ps, live', pending'), ps, live, x # pending) \<in> measures [\<lambda>(ps, live, pending). card (set (concat (map snd ps)) - set live), \<lambda>(ps, live, pending). length pending]"
  proof (cases "new = []")
    case False
    then obtain y where y: "y \<in> set new" by (cases new) auto
    have "?U - set live' \<subset> ?U - set live" using y new(1,3) succs_range [of ps x] by auto
    then have "card (?U - set live') < card (?U - set live)" by (intro psubset_card_mono) auto
    then show ?thesis by simp
  qed (use new in simp)
qed simp

text \<open>The edges of the table and what is reachable along them.\<close>

definition edge :: "('a \<times> 'a list) list \<Rightarrow> 'a \<Rightarrow> 'a \<Rightarrow> bool" where
  "edge ps x y \<longleftrightarrow> y \<in> set (succs ps x)"

definition reachable_from :: "('a \<times> 'a list) list \<Rightarrow> 'a set \<Rightarrow> 'a set" where
  "reachable_from ps S = {y. \<exists>x \<in> S. (edge ps)\<^sup>*\<^sup>* x y}"

lemma reachable_from_least:
  assumes "S \<subseteq> T" "\<And>x y. x \<in> T \<Longrightarrow> edge ps x y \<Longrightarrow> y \<in> T"
  shows "reachable_from ps S \<subseteq> T"
proof
  fix y assume "y \<in> reachable_from ps S"
  then obtain x where "x \<in> S" "(edge ps)\<^sup>*\<^sup>* x y" by (auto simp: reachable_from_def)
  then show "y \<in> T" by (induction rule: rtranclp_induct [consumes 1, case_names base step, OF \<open>(edge ps)\<^sup>*\<^sup>* x y\<close>])
      (use assms in auto)
qed

lemma reachable_from_self: "S \<subseteq> reachable_from ps S"
  by (auto simp: reachable_from_def)

lemma reachable_from_step: "x \<in> reachable_from ps S \<Longrightarrow> edge ps x y \<Longrightarrow> y \<in> reachable_from ps S"
  by (auto simp: reachable_from_def intro: rtranclp.rtrancl_into_rtrancl)

text \<open>The loop returns the closure, whatever order the pending identifiers are taken in.\<close>

lemma closure_loop_set:
  assumes "set pending \<subseteq> set live" "\<And>x y. x \<in> set live - set pending \<Longrightarrow> edge ps x y \<Longrightarrow> y \<in> set live"
  shows "set (closure_loop ps live pending) = reachable_from ps (set live)"
  using assms
proof (induction ps live pending rule: closure_loop.induct)
  case (1 ps live)
  then have "reachable_from ps (set live) \<subseteq> set live" by (intro reachable_from_least) auto
  then show ?case using reachable_from_self by fastforce
next
  case (2 ps live x pending)
  obtain live' pending' where v: "visit (succs ps x) live pending = (live', pending')" by fastforce
  from visit_progress [OF v] obtain new where new: "live' = new @ live" "pending' = new @ pending"
    "set new = set (succs ps x) - set live" by blast
  have "set (closure_loop ps live' pending') = reachable_from ps (set live')"
  proof (rule 2(1) [OF v [symmetric] refl])
    show "set pending' \<subseteq> set live'" using 2(2) new by auto
    show "y \<in> set live'" if "z \<in> set live' - set pending'" "edge ps z y" for z y
    proof (cases "z = x")
      case True
      with that(2) new show ?thesis by (auto simp: edge_def)
    next
      case False
      with that new have "z \<in> set live - set (x # pending)" by auto
      from 2(3) [OF this that(2)] new(1) show ?thesis by simp
    qed
  qed
  moreover have "reachable_from ps (set live') = reachable_from ps (set live)"
  proof
    have "set live' \<subseteq> reachable_from ps (set live)"
      using 2(2) new reachable_from_self [of "set live" ps] reachable_from_step [of x ps "set live"]
      by (auto simp: edge_def subset_iff)
    then show "reachable_from ps (set live') \<subseteq> reachable_from ps (set live)"
      by (rule reachable_from_least) (rule reachable_from_step)
    show "reachable_from ps (set live) \<subseteq> reachable_from ps (set live')"
      using new(1) by (auto simp: reachable_from_def)
  qed
  ultimately show ?case using v by simp
qed

lemma closure_set: "set (closure_loop ps roots roots) = reachable_from ps (set roots)"
  by (rule closure_loop_set) auto

end
