(* ===== verification/PacketStore.thy ===== *)
theory PacketStore
  imports PacketContracts Closure "HOL-Library.AList"
begin

text \<open>
  \<^verbatim>\<open>SQLitePacketStore\<close> of \<^verbatim>\<open>src/src/project_control/as1_packets.py\<close>: packets, their bodies, the pins
  that retain them, the retention of jobs, and knowledge notes.  A table is a list of records in
  insertion order; a method is a function on the tables.  It runs in one transaction: a method that
  raises leaves no trace, which is what a result type says.  A method reads the clock once, its
  argument \<open>t\<close>; values that the code writes as JSON text and reads back are kept as values.
\<close>

section \<open>Tables\<close>

record packet_row =
  row_id :: string
  row_alias :: string
  row_meta :: packet_meta
  row_invocation :: pdict
  row_hash :: string
  row_expired :: bool

record retention_row =
  rt_owner :: string
  rt_terminal :: bool
  rt_updated :: real

record note_row =
  nt_id :: string
  nt_project :: string
  nt_record :: pdict
  nt_scope :: pdict
  nt_created :: real
  nt_updated :: real

record packet_db =
  bodies :: "(string \<times> pdict) list"
  packets :: "packet_row list"
  pins :: "(string \<times> string) list"
  retention :: "retention_row list"
  knowledge_notes :: "note_row list"

definition empty_store :: packet_db where
  "empty_store = \<lparr>bodies = [], packets = [], pins = [], retention = [], knowledge_notes = []\<rparr>"

text \<open>
  What a store is built with; \<^verbatim>\<open>authority_access\<close> is an optional callback that decides with the
  saved scope, the supplied scope and the sources.
\<close>

record store_cfg =
  wire :: wire_env
  authority_access :: "(pdict \<Rightarrow> pdict \<Rightarrow> pv list \<Rightarrow> bool) option"
  recent_terminal_limit :: nat
  max_payload_bytes :: nat

section \<open>Access\<close>

definition authorized :: "pdict \<Rightarrow> pdict \<Rightarrow> bool" where
  "authorized required supplied \<longleftrightarrow>
     required \<noteq> [] \<and> supplied \<noteq> [] \<and>
     (\<forall>(k, v) \<in> set required. k \<noteq> ''principal'' \<and> k \<noteq> ''profile'' \<longrightarrow>
        has_key supplied k \<and> py_eq (dget supplied k) v)"

definition permitted :: "store_cfg \<Rightarrow> pdict \<Rightarrow> pdict \<Rightarrow> pv list \<Rightarrow> bool" where
  "permitted cfg saved supplied srcs =
     (case authority_access cfg of Some f \<Rightarrow> f saved supplied srcs | None \<Rightarrow> authorized saved supplied)"

definition note_scope_allows :: "store_cfg \<Rightarrow> pdict \<Rightarrow> pdict \<Rightarrow> pv list \<Rightarrow> bool" where
  "note_scope_allows cfg saved supplied srcs \<longleftrightarrow>
     supplied \<noteq> [] \<and> py_eq (dget saved ''principal'') (dget supplied ''principal'') \<and>
     permitted cfg saved supplied srcs"

section \<open>Liveness\<close>

definition unexpired :: "store_cfg \<Rightarrow> real \<Rightarrow> packet_row \<Rightarrow> bool" where
  "unexpired cfg t r \<longleftrightarrow>
     \<not> row_expired r \<and> (case expires_at (row_meta r) of None \<Rightarrow> True | Some e \<Rightarrow> iso_epoch (wire cfg) e > t)"

definition parent_table :: "packet_db \<Rightarrow> (string \<times> string list) list" where
  "parent_table db = rev (map (\<lambda>r. (row_id r, parents (row_meta r))) (packets db))"

definition live_roots :: "store_cfg \<Rightarrow> real \<Rightarrow> packet_db \<Rightarrow> string list" where
  "live_roots cfg t db = map snd (pins db) @ map row_id (filter (unexpired cfg t) (packets db))"

definition live_ids :: "store_cfg \<Rightarrow> real \<Rightarrow> packet_db \<Rightarrow> string list" where
  "live_ids cfg t db =
     (let live = remdups (live_roots cfg t db) in closure_loop (parent_table db) live live)"

definition find_packet :: "packet_db \<Rightarrow> string \<Rightarrow> packet_row option" where
  "find_packet db i = find (\<lambda>r. row_id r = i) (packets db)"

definition find_reference :: "packet_db \<Rightarrow> string \<Rightarrow> packet_row option" where
  "find_reference db ref = find (\<lambda>r. row_id r = ref \<or> row_alias r = ref) (packets db)"

section \<open>Storing a packet\<close>

definition insert_pin :: "string \<Rightarrow> string \<Rightarrow> packet_db \<Rightarrow> packet_db" where
  "insert_pin owner i db = (if (owner, i) \<in> set (pins db) then db else db\<lparr>pins := pins db @ [(owner, i)]\<rparr>)"

definition delete_pins :: "string \<Rightarrow> packet_db \<Rightarrow> packet_db" where
  "delete_pins owner db = db\<lparr>pins := filter (\<lambda>p. fst p \<noteq> owner) (pins db)\<rparr>"

text \<open>\<^verbatim>\<open>INSERT OR IGNORE INTO bodies\<close>, and the insert of a packet row: both key columns are unique.\<close>

definition insert_body :: "string \<Rightarrow> pdict \<Rightarrow> packet_db \<Rightarrow> packet_db" where
  "insert_body h b db = (if h \<in> fst ` set (bodies db) then db else db\<lparr>bodies := bodies db @ [(h, b)]\<rparr>)"

definition insert_packet :: "packet_row \<Rightarrow> packet_db \<Rightarrow> packet_db result" where
  "insert_packet r db =
     (if row_id r \<in> row_id ` set (packets db) \<or> row_alias r \<in> row_alias ` set (packets db) then Inl IntegrityError
      else Inr (db\<lparr>packets := packets db @ [r]\<rparr>))"

definition parent_ok :: "store_cfg \<Rightarrow> real \<Rightarrow> packet_db \<Rightarrow> pdict \<Rightarrow> string \<Rightarrow> bool" where
  "parent_ok cfg t db scope parent =
     (case find_packet db parent of
        None \<Rightarrow> False
      | Some r \<Rightarrow> \<not> row_expired r \<and> parent \<in> set (live_ids cfg t db) \<and>
                 authorized (access_scope (row_meta r)) scope)"

definition put_packet ::
  "store_cfg \<Rightarrow> real \<Rightarrow> information_packet \<Rightarrow> pdict \<Rightarrow> packet_db \<Rightarrow> (information_packet \<times> packet_db) result" where
  "put_packet cfg t p extra db =
     bindR (validate_packet (wire cfg) p) (\<lambda>_.
     bindR (raise_if (snd (mask_payload [] (packet_pv p)) \<noteq> [])
              (ValueError ''packet contains unmasked private fields'')) (\<lambda>_.
     bindR (raise_if (access_scope p = []) (ValueError ''explicit trusted access scope required'')) (\<lambda>_.
     bindR (raise_if (json_bytes (wire cfg) (PDict (payload p)) > max_payload_bytes cfg)
              (ValueError ''packet exceeds configured payload cap'')) (\<lambda>_.
     case find_packet db (packet_id p) of
       Some prior \<Rightarrow>
         if row_expired prior \<or> \<not> py_eq (PDict (meta_fields (row_meta prior))) (PDict (meta_fields (meta_of p)))
         then Inl (ValueError ''immutable packet ID cannot be rebound'')
         else Inr (p, db)
     | None \<Rightarrow>
         bindR (raise_if (packet_id p = pk_alias p \<or>
                  (\<exists>r \<in> set (packets db). row_id r = pk_alias p \<or> row_alias r = packet_id p))
                  (ValueError ''packet ID and alias namespaces cannot shadow one another'')) (\<lambda>_.
         bindR (raise_if (\<exists>parent \<in> set (parents p). \<not> parent_ok cfg t db (access_scope p) parent)
                  (ValueError ''parent missing, expired or outside packet scope'')) (\<lambda>_.
         bindR (insert_packet \<lparr>row_id = packet_id p, row_alias = pk_alias p, row_meta = meta_of p,
                  row_invocation = extra, row_hash = payload_sha256 p, row_expired = False\<rparr>
                  (insert_body (payload_sha256 p) (payload p) db)) (\<lambda>db1.
         Inr (p, fold (\<lambda>owner. insert_pin owner (packet_id p))
                   (case pinned_by p of None \<Rightarrow> [] | Some owners \<Rightarrow> owners) db1))))))))"

text \<open>
  \<^verbatim>\<open>create\<close>: the payload is masked, then identifiers and aliases are tried until one is free.  The
  identifiers of \<^verbatim>\<open>uuid4\<close> and the aliases of the factory are functions of the attempt.
\<close>

fun create_attempts :: "(nat \<Rightarrow> 'a result) \<Rightarrow> nat list \<Rightarrow> 'a result" where
  "create_attempts f [] = Inl (RuntimeError ''alias namespace exhausted; no alias was recycled'')"
| "create_attempts f (a # rest) =
     (case f a of Inl IntegrityError \<Rightarrow> create_attempts f rest | r \<Rightarrow> r)"

definition omission_pv :: "omission \<Rightarrow> pv" where
  "omission_pv om = PDict [(''path'', PStr (fst om)), (''reason'', PStr (snd om))]"

record create_request =
  cr_tool :: string
  cr_payload :: pdict
  cr_scope :: pdict
  cr_sources :: "source_locator list"
  cr_parents :: "string list"
  cr_request :: pdict
  cr_audit :: "string option"
  cr_freshness :: "pdict option"
  cr_omissions :: "pv list"
  cr_ttl :: "real option"

definition create_packet ::
  "store_cfg \<Rightarrow> real \<Rightarrow> create_request \<Rightarrow> pdict \<Rightarrow> omission list \<Rightarrow> string \<Rightarrow> string \<Rightarrow> string \<Rightarrow> information_packet" where
  "create_packet cfg t rq cleaned masked h ident nm =
     \<lparr>packet_id = ''pkt_'' @ ident, pk_alias = nm, created_at = iso_format (wire cfg) t, tool = cr_tool rq,
      payload_sha256 = h, sources = cr_sources rq, parents = cr_parents rq, access_scope = cr_scope rq,
      expires_at = map_option (\<lambda>ttl. iso_format (wire cfg) (t + ttl)) (cr_ttl rq), freshness = cr_freshness rq,
      omissions = Some (cr_omissions rq @ map omission_pv masked), pinned_by = None, payload = cleaned\<rparr>"

fun dict_items :: "pv \<Rightarrow> pdict" where
  "dict_items (PDict d) = d"
| "dict_items _ = []"

definition create ::
  "store_cfg \<Rightarrow> (nat \<Rightarrow> string) \<Rightarrow> (nat \<Rightarrow> nat \<Rightarrow> string) \<Rightarrow> real \<Rightarrow> create_request \<Rightarrow> packet_db
    \<Rightarrow> (information_packet \<times> packet_db) result" where
  "create cfg uuids names t rq db =
     (let (cleaned, masked) = mask_payload [] (PDict (cr_payload rq));
          extra = [(''normalized_request'', PDict (cr_request rq)), (''audit_id'', opt_pv PStr (cr_audit rq))]
      in bindR (raise_if (snd (mask_payload [] (PDict extra)) \<noteq> [])
                  (ValueError ''request/audit metadata contains private fields'')) (\<lambda>_.
         create_attempts (\<lambda>attempt.
           bindR (canonical_digest (wire cfg) cleaned) (\<lambda>h.
           put_packet cfg t (create_packet cfg t rq (dict_items cleaned) masked h (uuids attempt)
                               (names attempt (min 4 (2 + attempt div 256)))) extra db))
           [0..<4096]))"

section \<open>Reading\<close>

datatype packet_lookup = Not_found | Forbidden | Expired | Ok information_packet

definition with_payload :: "packet_meta \<Rightarrow> pdict \<Rightarrow> information_packet" where
  "with_payload m b = packet_meta.extend m (information_packet.fields b)"

definition sources_pv :: "packet_meta \<Rightarrow> pv list" where
  "sources_pv m = map source_locator_pv (sources m)"

definition lookup :: "store_cfg \<Rightarrow> real \<Rightarrow> string \<Rightarrow> pdict \<Rightarrow> packet_db \<Rightarrow> packet_lookup result" where
  "lookup cfg t ref scope db =
     (case find_reference db ref of
        None \<Rightarrow> Inr Not_found
      | Some r \<Rightarrow>
          let m = row_meta r in
          if \<not> permitted cfg (access_scope m) scope (sources_pv m) then Inr Forbidden
          else if row_expired r \<or> row_id r \<notin> set (live_ids cfg t db) then Inr Expired
          else (case map_of (bodies db) (row_hash r) of
                  None \<Rightarrow> Inl (RuntimeError ''packet body missing: storage corruption'')
                | Some b \<Rightarrow> bindR (validate_packet (wire cfg) (with_payload m b)) (\<lambda>_. Inr (Ok (with_payload m b)))))"

definition resolve :: "store_cfg \<Rightarrow> real \<Rightarrow> string \<Rightarrow> pdict \<Rightarrow> packet_db \<Rightarrow> information_packet option result" where
  "resolve cfg t ref scope db =
     bindR (lookup cfg t ref scope db) (\<lambda>l. Inr (case l of Ok p \<Rightarrow> Some p | _ \<Rightarrow> None))"

definition invocation :: "store_cfg \<Rightarrow> real \<Rightarrow> string \<Rightarrow> pdict \<Rightarrow> packet_db \<Rightarrow> pdict option result" where
  "invocation cfg t ref scope db =
     bindR (lookup cfg t ref scope db) (\<lambda>l. Inr (case l of
       Ok p \<Rightarrow> map_option row_invocation (find_reference db ref) | _ \<Rightarrow> None))"

section \<open>Retention\<close>

fun pin_refs :: "store_cfg \<Rightarrow> real \<Rightarrow> string \<Rightarrow> string list \<Rightarrow> packet_db \<Rightarrow> packet_db result" where
  "pin_refs cfg t owner [] db = Inr db"
| "pin_refs cfg t owner (ref # refs) db =
     (case find_reference db ref of
        None \<Rightarrow> Inl (ValueError ''cannot pin missing/expired evidence'')
      | Some r \<Rightarrow>
          if row_expired r \<or> row_id r \<notin> set (live_ids cfg t db)
          then Inl (ValueError ''cannot pin missing/expired evidence'')
          else pin_refs cfg t owner refs (insert_pin owner (row_id r) db))"

definition unpin :: "string \<Rightarrow> packet_db \<Rightarrow> packet_db" where
  "unpin owner db = delete_pins owner db"

definition replace_retention :: "retention_row \<Rightarrow> packet_db \<Rightarrow> packet_db" where
  "replace_retention r db =
     db\<lparr>retention := filter (\<lambda>s. rt_owner s \<noteq> rt_owner r) (retention db) @ [r]\<rparr>"

text \<open>\<^verbatim>\<open>ORDER BY updated DESC, owner DESC LIMIT -1 OFFSET n\<close> of the terminal rows\<close>

definition stale_retention :: "nat \<Rightarrow> packet_db \<Rightarrow> retention_row list" where
  "stale_retention n db =
     drop n (rev (sort_key (\<lambda>r. (rt_updated r, rt_owner r)) (filter rt_terminal (retention db))))"

definition drop_owner :: "string \<Rightarrow> packet_db \<Rightarrow> packet_db" where
  "drop_owner owner db =
     (delete_pins owner db)\<lparr>retention := filter (\<lambda>s. rt_owner s \<noteq> owner) (retention db)\<rparr>"

definition retain_job :: "store_cfg \<Rightarrow> real \<Rightarrow> string \<Rightarrow> string list \<Rightarrow> bool \<Rightarrow> packet_db \<Rightarrow> packet_db result" where
  "retain_job cfg t owner refs terminal db =
     bindR (pin_refs cfg t owner refs db) (\<lambda>db1.
     let db2 = replace_retention \<lparr>rt_owner = owner, rt_terminal = terminal, rt_updated = t\<rparr> db1
     in Inr (fold (\<lambda>r. drop_owner (rt_owner r)) (stale_retention (recent_terminal_limit cfg) db2) db2))"

definition gc :: "store_cfg \<Rightarrow> real \<Rightarrow> packet_db \<Rightarrow> string list \<times> packet_db" where
  "gc cfg t db =
     (let live = live_ids cfg t db;
          dead = map row_id (filter (\<lambda>r. \<not> row_expired r \<and> row_id r \<notin> set live) (packets db));
          rows = map (\<lambda>r. if row_id r \<in> set dead then r\<lparr>row_expired := True\<rparr> else r) (packets db);
          kept = map row_hash (filter (\<lambda>r. \<not> row_expired r) rows)
      in (dead, db\<lparr>packets := rows, bodies := filter (\<lambda>b. fst b \<in> set kept) (bodies db)\<rparr>))"

text \<open>
  \<^verbatim>\<open>reconcile_retention\<close>: the pins to add are resolved against the tables as they were, all are
  added, and then the owners that are no longer retained lose theirs.
\<close>

fun retained_pins ::
  "store_cfg \<Rightarrow> real \<Rightarrow> packet_db \<Rightarrow> string \<Rightarrow> pdict \<Rightarrow> pv list \<Rightarrow> (string \<times> string) list result" where
  "retained_pins cfg t db owner scope [] = Inr []"
| "retained_pins cfg t db owner scope (v # refs) =
     (case v of
        PStr ref \<Rightarrow>
          (case find (\<lambda>r. row_id r = ref \<or> row_alias r = ref) (rev (packets db)) of
             None \<Rightarrow> retained_pins cfg t db owner scope refs
           | Some r \<Rightarrow>
               let m = row_meta r in
               if \<not> permitted cfg (access_scope m) scope (sources_pv m) \<or> row_expired r \<or>
                  row_id r \<notin> set (live_ids cfg t db)
               then retained_pins cfg t db owner scope refs
               else (case map_of (bodies db) (row_hash r) of
                       None \<Rightarrow> Inl (RuntimeError ''packet body missing: storage corruption'')
                     | Some b \<Rightarrow>
                         bindR (validate_packet (wire cfg) (with_payload m b)) (\<lambda>_.
                         bindR (retained_pins cfg t db owner scope refs) (\<lambda>ps. Inr ((owner, row_id r) # ps)))))
      | _ \<Rightarrow> retained_pins cfg t db owner scope refs)"

definition reconcile_retention ::
  "store_cfg \<Rightarrow> real \<Rightarrow> (string \<times> pdict \<times> pv list) list \<Rightarrow> string list \<Rightarrow> packet_db \<Rightarrow> packet_db result" where
  "reconcile_retention cfg t retained unpin_owners db =
     bindR (mapR (\<lambda>(owner, scope, refs). retained_pins cfg t db owner scope refs) retained) (\<lambda>pss.
     Inr (fold delete_pins unpin_owners (fold (\<lambda>(owner, i). insert_pin owner i) (concat pss) db)))"

end
