(* ===== verification/PacketInv.thy ===== *)
theory PacketInv
  imports PacketStore
begin

text \<open>
  The invariant of the packet store and that every operation keeps it: identifiers and aliases are
  unique and never meet, every stored packet is valid, a packet that is not expired has its body and
  its parents, and what is pinned is not expired.
\<close>

section \<open>The invariant\<close>

definition row_ok :: "store_cfg \<Rightarrow> packet_row \<Rightarrow> bool" where
  "row_ok cfg r \<longleftrightarrow>
     row_id r = packet_id (row_meta r) \<and> row_alias r = pk_alias (row_meta r) \<and>
     row_hash r = payload_sha256 (row_meta r) \<and> packet_fields_ok (wire cfg) (row_meta r) \<and>
     distinct (parents (row_meta r)) \<and> access_scope (row_meta r) \<noteq> []"

definition body_ok :: "store_cfg \<Rightarrow> string \<times> pdict \<Rightarrow> bool" where
  "body_ok cfg b \<longleftrightarrow> canonical_digest (wire cfg) (PDict (snd b)) = Inr (fst b)"

definition bodied :: "packet_db \<Rightarrow> bool" where
  "bodied db \<longleftrightarrow> (\<forall>r \<in> set (packets db). \<not> row_expired r \<longrightarrow> row_hash r \<in> fst ` set (bodies db))"

definition rooted :: "packet_row list \<Rightarrow> bool" where
  "rooted rows \<longleftrightarrow> (\<forall>r \<in> set rows. \<forall>p \<in> set (parents (row_meta r)).
     \<exists>s \<in> set rows. row_id s = p \<and> (\<not> row_expired r \<longrightarrow> \<not> row_expired s))"

definition pinned_alive :: "packet_db \<Rightarrow> bool" where
  "pinned_alive db \<longleftrightarrow> (\<forall>p \<in> set (pins db). \<exists>r \<in> set (packets db). row_id r = snd p \<and> \<not> row_expired r)"

definition names_apart :: "packet_db \<Rightarrow> bool" where
  "names_apart db \<longleftrightarrow> distinct (map row_id (packets db)) \<and> distinct (map row_alias (packets db)) \<and>
     row_id ` set (packets db) \<inter> row_alias ` set (packets db) = {}"

definition store_ok :: "store_cfg \<Rightarrow> packet_db \<Rightarrow> bool" where
  "store_ok cfg db \<longleftrightarrow>
     names_apart db \<and> (\<forall>r \<in> set (packets db). row_ok cfg r) \<and>
     distinct (map fst (bodies db)) \<and> (\<forall>b \<in> set (bodies db). body_ok cfg b) \<and>
     bodied db \<and> rooted (packets db) \<and> distinct (pins db) \<and> pinned_alive db"

lemma store_okD:
  assumes "store_ok cfg db"
  shows "names_apart db" "\<And>r. r \<in> set (packets db) \<Longrightarrow> row_ok cfg r" "distinct (map fst (bodies db))"
    "\<And>b. b \<in> set (bodies db) \<Longrightarrow> body_ok cfg b" "bodied db" "rooted (packets db)" "distinct (pins db)" "pinned_alive db"
  using assms by (simp_all add: store_ok_def)

lemma empty_store_ok: "store_ok cfg empty_store"
  by (simp add: store_ok_def empty_store_def names_apart_def bodied_def rooted_def pinned_alive_def)

lemma row_unique:
  assumes "names_apart db" "r \<in> set (packets db)" "s \<in> set (packets db)" "row_id r = row_id s"
  shows "r = s"
  using assms by (auto simp: names_apart_def distinct_map dest: inj_onD)

lemma find_packet_Some:
  assumes "names_apart db"
  shows "find_packet db i = Some r \<longleftrightarrow> r \<in> set (packets db) \<and> row_id r = i"
proof
  assume "find_packet db i = Some r"
  then show "r \<in> set (packets db) \<and> row_id r = i" unfolding find_packet_def by (rule find_SomeD)
next
  assume r: "r \<in> set (packets db) \<and> row_id r = i"
  then obtain s where s: "find_packet db i = Some s"
    unfolding find_packet_def using find_Some_ex [of "\<lambda>r. row_id r = i" "packets db"] by auto
  then have "s \<in> set (packets db) \<and> row_id s = i" unfolding find_packet_def by (rule find_SomeD)
  then have "s = r" using r by (intro row_unique [OF assms]) simp_all
  with s show "find_packet db i = Some r" by simp
qed

section \<open>Liveness\<close>

lemma succs_parent_table:
  assumes "names_apart db" "r \<in> set (packets db)"
  shows "succs (parent_table db) (row_id r) = parents (row_meta r)"
proof -
  have "distinct (map fst (parent_table db))"
    using assms(1) by (simp add: parent_table_def names_apart_def comp_def flip: rev_map)
  moreover have "(row_id r, parents (row_meta r)) \<in> set (parent_table db)"
    using assms(2) by (auto simp: parent_table_def)
  ultimately show ?thesis by (simp add: succs_def)
qed

lemma edge_parent_table:
  assumes "names_apart db"
  shows "edge (parent_table db) x y \<longleftrightarrow> (\<exists>r \<in> set (packets db). row_id r = x \<and> y \<in> set (parents (row_meta r)))"
proof (cases "\<exists>r \<in> set (packets db). row_id r = x")
  case True
  then obtain r where r: "r \<in> set (packets db)" "row_id r = x" by blast
  have eq: "succs (parent_table db) x = parents (row_meta r)" using succs_parent_table [OF assms r(1)] r(2) by simp
  show ?thesis
  proof
    assume "\<exists>s \<in> set (packets db). row_id s = x \<and> y \<in> set (parents (row_meta s))"
    then obtain s where s: "s \<in> set (packets db)" "row_id s = x" "y \<in> set (parents (row_meta s))" by blast
    have "s = r" by (rule row_unique [OF assms s(1) r(1)]) (simp add: s r)
    with s show "edge (parent_table db) x y" by (simp add: edge_def eq)
  qed (use r in \<open>auto simp: edge_def eq\<close>)
next
  case False
  then have "map_of (parent_table db) x = None" by (auto simp: map_of_eq_None_iff parent_table_def)
  then show ?thesis using False by (auto simp: edge_def succs_def)
qed

lemma set_live_ids: "set (live_ids cfg t db) = reachable_from (parent_table db) (set (live_roots cfg t db))"
  by (simp add: live_ids_def Let_def closure_set)

lemma live_parent:
  assumes "names_apart db" "r \<in> set (packets db)" "row_id r \<in> set (live_ids cfg t db)" "p \<in> set (parents (row_meta r))"
  shows "p \<in> set (live_ids cfg t db)"
  unfolding set_live_ids
  by (rule reachable_from_step [OF assms(3) [unfolded set_live_ids]]) (use assms in \<open>auto simp: edge_parent_table\<close>)

lemma live_root: "i \<in> set (live_roots cfg t db) \<Longrightarrow> i \<in> set (live_ids cfg t db)"
  unfolding set_live_ids using reachable_from_self by fastforce

section \<open>Writes to pins\<close>

lemma insert_pin_frame [simp, frame_simps]:
  "packets (insert_pin owner i db) = packets db" "bodies (insert_pin owner i db) = bodies db"
  "retention (insert_pin owner i db) = retention db" "knowledge_notes (insert_pin owner i db) = knowledge_notes db"
  by (simp_all add: insert_pin_def)

lemma set_insert_pin [simp]: "set (pins (insert_pin owner i db)) = insert (owner, i) (set (pins db))"
  by (auto simp: insert_pin_def)

lemma delete_pins_frame [simp, frame_simps]:
  "packets (delete_pins owner db) = packets db" "bodies (delete_pins owner db) = bodies db"
  "retention (delete_pins owner db) = retention db" "knowledge_notes (delete_pins owner db) = knowledge_notes db"
  by (simp_all add: delete_pins_def)

text \<open>The tables of packets and bodies decide the invariant up to the pins.\<close>

lemma store_ok_pins:
  assumes "store_ok cfg db" "packets db' = packets db" "bodies db' = bodies db" "distinct (pins db')"
    and "\<And>p. p \<in> set (pins db') \<Longrightarrow> \<exists>r \<in> set (packets db). row_id r = snd p \<and> \<not> row_expired r"
  shows "store_ok cfg db'"
  using assms by (auto simp: store_ok_def names_apart_def bodied_def pinned_alive_def)

lemma insert_pin_ok:
  assumes "store_ok cfg db" "\<exists>r \<in> set (packets db). row_id r = i \<and> \<not> row_expired r"
  shows "store_ok cfg (insert_pin owner i db)"
proof (rule store_ok_pins [OF assms(1)])
  show "distinct (pins (insert_pin owner i db))"
    using store_okD(7) [OF assms(1)] by (simp add: insert_pin_def)
qed (use assms store_okD(8) [OF assms(1)] in \<open>auto simp: pinned_alive_def\<close>)

lemma delete_pins_ok: "store_ok cfg db \<Longrightarrow> store_ok cfg (delete_pins owner db)"
  by (rule store_ok_pins) (auto simp: delete_pins_def store_ok_def pinned_alive_def)

lemma fold_insert_pin_ok:
  assumes "store_ok cfg db" "\<And>p. p \<in> set ps \<Longrightarrow> \<exists>r \<in> set (packets db). row_id r = snd p \<and> \<not> row_expired r"
  shows "store_ok cfg (fold (\<lambda>(owner, i). insert_pin owner i) ps db)"
  using assms
proof (induction ps arbitrary: db)
  case (Cons p ps)
  obtain owner i where p: "p = (owner, i)" by (cases p)
  have "\<exists>r \<in> set (packets db). row_id r = i \<and> \<not> row_expired r" using Cons.prems(2) [of p] p by simp
  with Cons.prems(1) have "store_ok cfg (insert_pin owner i db)" by (rule insert_pin_ok)
  from Cons.IH [OF this] Cons.prems(2) p show ?case by simp
qed simp

lemma fold_delete_pins_ok: "store_ok cfg db \<Longrightarrow> store_ok cfg (fold delete_pins owners db)"
  by (induction owners arbitrary: db) (simp_all add: delete_pins_ok)

lemma fold_insert_pin_frame [simp]:
  "packets (fold (\<lambda>(owner, i). insert_pin owner i) ps db) = packets db"
  "bodies (fold (\<lambda>(owner, i). insert_pin owner i) ps db) = bodies db"
  "packets (fold (\<lambda>owner. insert_pin owner i) os db) = packets db"
  "bodies (fold (\<lambda>owner. insert_pin owner i) os db) = bodies db"
  by (induction ps arbitrary: db, auto) (induction os arbitrary: db, auto)+

lemma fold_delete_pins_frame [simp]: "packets (fold delete_pins owners db) = packets db"
  by (induction owners arbitrary: db) auto

section \<open>Operations on pins\<close>

lemma find_reference_SomeD:
  "find_reference db ref = Some r \<Longrightarrow> r \<in> set (packets db) \<and> (row_id r = ref \<or> row_alias r = ref)"
  unfolding find_reference_def by (drule find_SomeD) simp

lemma pin_refs_ok:
  assumes "store_ok cfg db" "pin_refs cfg t owner refs db = Inr db'"
  shows "store_ok cfg db' \<and> packets db' = packets db \<and> bodies db' = bodies db \<and> retention db' = retention db \<and>
    knowledge_notes db' = knowledge_notes db"
  using assms
proof (induction refs arbitrary: db)
  case (Cons ref refs)
  from Cons.prems(2) obtain r where r: "find_reference db ref = Some r" "\<not> row_expired r"
    and rest: "pin_refs cfg t owner refs (insert_pin owner (row_id r) db) = Inr db'"
    by (auto split: option.splits if_splits)
  have "\<exists>s \<in> set (packets db). row_id s = row_id r \<and> \<not> row_expired s"
    using find_reference_SomeD [OF r(1)] r(2) by blast
  with Cons.prems(1) have "store_ok cfg (insert_pin owner (row_id r) db)" by (rule insert_pin_ok)
  from Cons.IH [OF this rest] show ?case by simp
qed simp

lemma retained_pins_alive:
  assumes "retained_pins cfg t db owner scope refs = Inr ps" "p \<in> set ps"
  shows "\<exists>r \<in> set (packets db). row_id r = snd p \<and> \<not> row_expired r"
  using assms
proof (induction refs arbitrary: ps)
  case (Cons v refs)
  show ?case
  proof (cases "\<exists>ps'. retained_pins cfg t db owner scope refs = Inr ps' \<and> p \<in> set ps'")
    case True
    then show ?thesis using Cons.IH by blast
  next
    case False
    with Cons.prems obtain ref r where "find (\<lambda>r. row_id r = ref \<or> row_alias r = ref) (rev (packets db)) = Some r"
      "\<not> row_expired r" "p = (owner, row_id r)"
      by (auto simp: bindR_eq_Inr Let_def split: pv.splits option.splits if_splits)
    then show ?thesis by (auto dest!: find_SomeD)
  qed
qed simp

lemma reconcile_retention_ok:
  assumes ok: "store_ok cfg db" and res: "reconcile_retention cfg t retained owners db = Inr db'"
  shows "store_ok cfg db' \<and> packets db' = packets db"
proof -
  from res obtain pss where pss: "mapR (\<lambda>(owner, scope, refs). retained_pins cfg t db owner scope refs) retained = Inr pss"
    and db': "db' = fold delete_pins owners (fold (\<lambda>(owner, i). insert_pin owner i) (concat pss) db)"
    by (auto simp: reconcile_retention_def bindR_eq_Inr)
  have "\<exists>r \<in> set (packets db). row_id r = snd p \<and> \<not> row_expired r" if "p \<in> set (concat pss)" for p
  proof -
    from that obtain ps where ps: "ps \<in> set pss" "p \<in> set ps" by auto
    from mapR_member [OF pss ps(1)]
    obtain x where "(case x of (owner, scope, refs) \<Rightarrow> retained_pins cfg t db owner scope refs) = Inr ps" by blast
    then show ?thesis by (cases x) (auto intro: retained_pins_alive [OF _ ps(2)])
  qed
  then have "store_ok cfg (fold (\<lambda>(owner, i). insert_pin owner i) (concat pss) db)" by (rule fold_insert_pin_ok [OF ok])
  then show ?thesis unfolding db' by (simp add: fold_delete_pins_ok)
qed

lemma retain_job_ok:
  assumes ok: "store_ok cfg db" and res: "retain_job cfg t owner refs terminal db = Inr db'"
  shows "store_ok cfg db' \<and> packets db' = packets db"
proof -
  from res obtain db1 where db1: "pin_refs cfg t owner refs db = Inr db1"
    and db': "db' = (let db2 = replace_retention \<lparr>rt_owner = owner, rt_terminal = terminal, rt_updated = t\<rparr> db1
       in fold (\<lambda>r. drop_owner (rt_owner r)) (stale_retention (recent_terminal_limit cfg) db2) db2)"
    by (auto simp: retain_job_def bindR_eq_Inr Let_def)
  have ok1: "store_ok cfg db1" "packets db1 = packets db" using pin_refs_ok [OF ok db1] by auto
  have drop: "store_ok cfg (drop_owner o' d) \<and> packets (drop_owner o' d) = packets d" if "store_ok cfg d" for o' d
    using delete_pins_ok [OF that, of o'] that
    by (auto simp: drop_owner_def store_ok_def names_apart_def bodied_def pinned_alive_def)
  have fold: "store_ok cfg (fold (\<lambda>r. drop_owner (rt_owner r)) rs d) \<and> packets (fold (\<lambda>r. drop_owner (rt_owner r)) rs d) = packets d"
    if "store_ok cfg d" for rs d
    using that by (induction rs arbitrary: d) (simp_all add: drop)
  have "store_ok cfg (replace_retention r db1) \<and> packets (replace_retention r db1) = packets db" for r
    using ok1 by (simp add: replace_retention_def store_ok_def names_apart_def bodied_def pinned_alive_def)
  then show ?thesis unfolding db' Let_def using fold by metis
qed

section \<open>Garbage collection\<close>

lemma gc_dead:
  assumes ok: "names_apart db" and r: "r \<in> set (packets db)"
  shows "row_id r \<in> set (fst (gc cfg t db)) \<longleftrightarrow> \<not> row_expired r \<and> row_id r \<notin> set (live_ids cfg t db)"
proof
  assume "row_id r \<in> set (fst (gc cfg t db))"
  then obtain s where s: "s \<in> set (packets db)" "row_id s = row_id r" "\<not> row_expired s" "row_id s \<notin> set (live_ids cfg t db)"
    by (auto simp: gc_def Let_def)
  have "s = r" by (rule row_unique [OF ok s(1) r s(2)])
  with s show "\<not> row_expired r \<and> row_id r \<notin> set (live_ids cfg t db)" by simp
qed (use r in \<open>auto simp: gc_def Let_def\<close>)

definition gc_row :: "store_cfg \<Rightarrow> real \<Rightarrow> packet_db \<Rightarrow> packet_row \<Rightarrow> packet_row" where
  "gc_row cfg t db r = (if \<not> row_expired r \<and> row_id r \<notin> set (live_ids cfg t db) then r\<lparr>row_expired := True\<rparr> else r)"

lemma gc_row_simps [simp]:
  "row_id (gc_row cfg t db r) = row_id r" "row_alias (gc_row cfg t db r) = row_alias r"
  "row_meta (gc_row cfg t db r) = row_meta r" "row_hash (gc_row cfg t db r) = row_hash r"
  "row_expired (gc_row cfg t db r) \<longleftrightarrow> row_expired r \<or> row_id r \<notin> set (live_ids cfg t db)"
  by (simp_all add: gc_row_def)

lemma gc_packets:
  assumes "names_apart db"
  shows "packets (snd (gc cfg t db)) = map (gc_row cfg t db) (packets db)"
proof -
  have "packets (snd (gc cfg t db)) =
      map (\<lambda>r. if row_id r \<in> set (fst (gc cfg t db)) then r\<lparr>row_expired := True\<rparr> else r) (packets db)"
    by (simp add: gc_def Let_def)
  also have "\<dots> = map (gc_row cfg t db) (packets db)"
    using gc_dead [OF assms] by (intro map_cong refl) (simp add: gc_row_def)
  finally show ?thesis .
qed

lemma gc_bodies:
  "bodies (snd (gc cfg t db)) =
     filter (\<lambda>b. \<exists>r \<in> set (packets (snd (gc cfg t db))). \<not> row_expired r \<and> row_hash r = fst b) (bodies db)"
  by (auto simp: gc_def Let_def intro!: filter_cong)

lemma gc_pins [simp]: "pins (snd (gc cfg t db)) = pins db"
  by (simp add: gc_def Let_def)

lemma gc_ok:
  assumes ok: "store_ok cfg db"
  shows "store_ok cfg (snd (gc cfg t db))"
proof -
  let ?db = "snd (gc cfg t db)" and ?g = "gc_row cfg t db"
  note na = store_okD(1) [OF ok]
  note rows = gc_packets [OF na, of cfg t]
  have "names_apart ?db" using na by (simp add: names_apart_def rows comp_def image_image)
  moreover have "\<forall>r \<in> set (packets ?db). row_ok cfg r"
    using store_okD(2) [OF ok] by (auto simp: rows row_ok_def)
  moreover have "distinct (map fst (bodies ?db))" "\<forall>b \<in> set (bodies ?db). body_ok cfg b"
    using store_okD(3,4) [OF ok] by (simp_all add: gc_bodies distinct_map_filter)
  moreover have "bodied ?db"
    using store_okD(5) [OF ok] unfolding bodied_def gc_bodies
    by (fastforce simp: rows)
  moreover have "rooted (packets ?db)"
    unfolding rooted_def rows set_map
  proof (intro ballI)
    fix r p assume "r \<in> ?g ` set (packets db)" and p: "p \<in> set (parents (row_meta r))"
    then obtain q where q: "q \<in> set (packets db)" "r = ?g q" "p \<in> set (parents (row_meta q))" by auto
    then obtain s where s: "s \<in> set (packets db)" "row_id s = p" "\<not> row_expired q \<longrightarrow> \<not> row_expired s"
      using store_okD(6) [OF ok] unfolding rooted_def by blast
    have "\<not> row_expired (?g q) \<longrightarrow> \<not> row_expired (?g s)"
      using live_parent [OF na q(1) _ q(3)] s by auto
    with s q(2) show "\<exists>s \<in> ?g ` set (packets db). row_id s = p \<and> (\<not> row_expired r \<longrightarrow> \<not> row_expired s)"
      by (intro bexI [of _ "?g s"]) auto
  qed
  moreover have "pinned_alive ?db"
    unfolding pinned_alive_def gc_pins
  proof
    fix p assume p: "p \<in> set (pins db)"
    then obtain r where r: "r \<in> set (packets db)" "row_id r = snd p" "\<not> row_expired r"
      using store_okD(8) [OF ok] unfolding pinned_alive_def by blast
    have "snd p \<in> set (live_ids cfg t db)" by (rule live_root) (use p in \<open>auto simp: live_roots_def\<close>)
    with r show "\<exists>r \<in> set (packets ?db). row_id r = snd p \<and> \<not> row_expired r"
      by (auto simp: rows)
  qed
  ultimately show ?thesis using store_okD(7) [OF ok] by (simp add: store_ok_def)
qed

section \<open>Storing\<close>

lemma validate_packet_eq_Inr:
  "validate_packet env p = Inr u \<longleftrightarrow>
     packet_fields_ok env (meta_of p) \<and> canonical_digest env (PDict (payload p)) = Inr (payload_sha256 p) \<and> distinct (parents p)"
  by (auto simp: validate_packet_def bindR_eq_Inr)

lemma meta_of_simps [simp]:
  "packet_id (meta_of p) = packet_id p" "pk_alias (meta_of p) = pk_alias p" "payload_sha256 (meta_of p) = payload_sha256 p"
  "parents (meta_of p) = parents p" "access_scope (meta_of p) = access_scope p" "sources (meta_of p) = sources p"
  "expires_at (meta_of p) = expires_at p" "created_at (meta_of p) = created_at p"
  by (simp_all add: packet_meta.defs)

lemma with_payload_meta [simp]: "with_payload (meta_of p) (payload p) = p" "meta_of (with_payload m b) = m"
  "payload (with_payload m b) = b" "packet_meta.more (with_payload m b) = information_packet.fields b"
  "payload_sha256 (with_payload m b) = payload_sha256 m" "parents (with_payload m b) = parents m"
  by (simp_all add: with_payload_def packet_meta.defs information_packet.defs)

definition new_row :: "information_packet \<Rightarrow> pdict \<Rightarrow> packet_row" where
  "new_row p extra = \<lparr>row_id = packet_id p, row_alias = pk_alias p, row_meta = meta_of p,
     row_invocation = extra, row_hash = payload_sha256 p, row_expired = False\<rparr>"

lemma new_row_simps [simp]:
  "row_id (new_row p x) = packet_id p" "row_alias (new_row p x) = pk_alias p" "row_meta (new_row p x) = meta_of p"
  "row_hash (new_row p x) = payload_sha256 p" "\<not> row_expired (new_row p x)"
  by (simp_all add: new_row_def)

text \<open>What a successful put of a packet has checked and done.\<close>

lemma put_packet_cases:
  assumes "put_packet cfg t p extra db = Inr (q, db')"
  obtains (same) prior where "find_packet db (packet_id p) = Some prior" "\<not> row_expired prior"
      "py_eq (PDict (meta_fields (row_meta prior))) (PDict (meta_fields (meta_of p)))" "q = p" "db' = db"
  | (fresh) "validate_packet (wire cfg) p = Inr ()" "clean (packet_pv p)" "access_scope p \<noteq> []"
      "find_packet db (packet_id p) = None" "packet_id p \<noteq> pk_alias p"
      "\<And>r. r \<in> set (packets db) \<Longrightarrow> row_id r \<noteq> pk_alias p \<and> row_alias r \<noteq> packet_id p \<and> row_id r \<noteq> packet_id p \<and> row_alias r \<noteq> pk_alias p"
      "\<And>i. i \<in> set (parents p) \<Longrightarrow> parent_ok cfg t db (access_scope p) i" "q = p"
      "db' = fold (\<lambda>owner. insert_pin owner (packet_id p)) (case pinned_by p of None \<Rightarrow> [] | Some owners \<Rightarrow> owners)
         ((insert_body (payload_sha256 p) (payload p) db)\<lparr>packets := packets db @ [new_row p extra]\<rparr>)"
proof (cases "find_packet db (packet_id p)")
  case None
  from assms None have facts: "validate_packet (wire cfg) p = Inr ()" "snd (mask_payload [] (packet_pv p)) = []" "access_scope p \<noteq> []"
    "packet_id p \<noteq> pk_alias p" "\<forall>r \<in> set (packets db). row_id r \<noteq> pk_alias p \<and> row_alias r \<noteq> packet_id p"
    "\<forall>i \<in> set (parents p). parent_ok cfg t db (access_scope p) i" "q = p"
    by (auto simp: put_packet_def bindR_eq_Inr)
  from assms None obtain db1 where i: "insert_packet (new_row p extra) (insert_body (payload_sha256 p) (payload p) db) = Inr db1"
    and db': "db' = fold (\<lambda>owner. insert_pin owner (packet_id p)) (case pinned_by p of None \<Rightarrow> [] | Some owners \<Rightarrow> owners) db1"
    by (auto simp: put_packet_def bindR_eq_Inr new_row_def)
  have pk: "packets (insert_body (payload_sha256 p) (payload p) db) = packets db" by (simp add: insert_body_def)
  from i have "packet_id p \<notin> row_id ` set (packets db)" "pk_alias p \<notin> row_alias ` set (packets db)"
    and db1: "db1 = (insert_body (payload_sha256 p) (payload p) db)\<lparr>packets := packets db @ [new_row p extra]\<rparr>"
    by (auto simp: insert_packet_def pk split: if_splits)
  then show thesis
    using facts None mask_silent(1) [OF facts(2)] by (intro fresh) (auto simp: db' db1 image_iff)
next
  case (Some prior)
  with assms show thesis by (intro same) (auto simp: put_packet_def bindR_eq_Inr split: if_splits)
qed

lemma fold_insert_pin_owner:
  "fold (\<lambda>owner. insert_pin owner i) owners db = fold (\<lambda>(owner, i). insert_pin owner i) (map (\<lambda>owner. (owner, i)) owners) db"
  by (induction owners arbitrary: db) simp_all

lemma insert_body_facts:
  assumes "distinct (map fst (bodies db))" "\<forall>b \<in> set (bodies db). body_ok cfg b" "body_ok cfg (h, b)"
  shows "distinct (map fst (bodies (insert_body h b db)))" "\<forall>b \<in> set (bodies (insert_body h b db)). body_ok cfg b"
    "fst ` set (bodies (insert_body h b db)) = insert h (fst ` set (bodies db))" "packets (insert_body h b db) = packets db"
    "pins (insert_body h b db) = pins db"
  using assms by (auto simp: insert_body_def)

lemma put_packet_ok:
  assumes ok: "store_ok cfg db" and put: "put_packet cfg t p extra db = Inr (q, db')"
  shows "store_ok cfg db'"
  using put
proof (cases rule: put_packet_cases)
  case same
  with ok show ?thesis by simp
next
  case fresh
  let ?r = "new_row p extra" and ?b = "insert_body (payload_sha256 p) (payload p) db"
  let ?d = "?b\<lparr>packets := packets db @ [?r]\<rparr>"
  have v: "packet_fields_ok (wire cfg) (meta_of p)" "canonical_digest (wire cfg) (PDict (payload p)) = Inr (payload_sha256 p)"
    "distinct (parents p)" using fresh(1) by (auto simp: validate_packet_eq_Inr)
  have "body_ok cfg (payload_sha256 p, payload p)" "\<forall>b \<in> set (bodies db). body_ok cfg b"
    using store_okD(4) [OF ok] by (simp_all add: body_ok_def v)
  note b = insert_body_facts [OF store_okD(3) [OF ok] this(2,1)]
  have "packet_id p \<notin> row_id ` set (packets db)" "pk_alias p \<notin> row_alias ` set (packets db)"
    "packet_id p \<notin> row_alias ` set (packets db)" "pk_alias p \<notin> row_id ` set (packets db)"
    using fresh(6) by (force simp: image_iff)+
  then have "names_apart ?d" using store_okD(1) [OF ok] fresh(5) by (simp add: names_apart_def insert_commute)
  moreover have "\<forall>r \<in> set (packets ?d). row_ok cfg r"
    using store_okD(2) [OF ok] v fresh(3) by (auto simp: row_ok_def)
  moreover have "bodied ?d" using store_okD(5) [OF ok] b(3) by (auto simp: bodied_def)
  moreover have "rooted (packets ?d)"
  proof -
    have "\<exists>s \<in> set (packets db). row_id s = i \<and> \<not> row_expired s" if "i \<in> set (parents p)" for i
      using fresh(7) [OF that] find_packet_Some [OF store_okD(1) [OF ok]]
      by (auto simp: parent_ok_def split: option.splits)
    then show ?thesis using store_okD(6) [OF ok] by (fastforce simp: rooted_def)
  qed
  moreover have "pinned_alive ?d" using store_okD(8) [OF ok] b(5) by (fastforce simp: pinned_alive_def)
  ultimately have "store_ok cfg ?d" using b store_okD(7) [OF ok] by (simp add: store_ok_def)
  then show ?thesis unfolding fresh(9) fold_insert_pin_owner
    by (rule fold_insert_pin_ok) (auto intro!: bexI [of _ ?r])
qed

lemma create_attempts_Inr:
  "create_attempts f as = Inr x \<Longrightarrow> \<exists>a \<in> set as. f a = Inr x"
  by (induction as) (auto split: sum.splits exn.splits)

lemma create_put:
  assumes "create cfg uuids names t rq db = Inr (p, db')"
  shows "\<exists>q extra. put_packet cfg t q extra db = Inr (p, db')"
proof -
  obtain cleaned masked where m: "mask_payload [] (PDict (cr_payload rq)) = (cleaned, masked)" by fastforce
  from assms have "create_attempts (\<lambda>attempt. bindR (canonical_digest (wire cfg) cleaned) (\<lambda>h.
      put_packet cfg t (create_packet cfg t rq (dict_items cleaned) masked h (uuids attempt)
        (names attempt (min 4 (2 + attempt div 256))))
        [(''normalized_request'', PDict (cr_request rq)), (''audit_id'', opt_pv PStr (cr_audit rq))] db)) [0..<4096] = Inr (p, db')"
    unfolding create_def m Let_def prod.case bindR_eq_Inr by blast
  from create_attempts_Inr [OF this] show ?thesis unfolding bindR_eq_Inr by blast
qed

lemma create_ok: "store_ok cfg db \<Longrightarrow> create cfg uuids names t rq db = Inr (p, db') \<Longrightarrow> store_ok cfg db'"
  by (blast dest: create_put intro: put_packet_ok)

end
