(* ===== verification/PacketNotes.thy ===== *)
theory PacketNotes
  imports PacketInv
begin

text \<open>
  Knowledge notes and hints of \<^verbatim>\<open>SQLitePacketStore\<close>
  (\<^verbatim>\<open>src/src/project_control/as1_packets.py\<close>): the validation of a note, the validation of the
  packets it cites, its storage with the pins of its evidence, its reads, and the assembly of
  packets into hints under a byte budget.
\<close>

section \<open>Validation of a note\<close>

definition NOTE_FIELDS :: "string list" where
  "NOTE_FIELDS =
    [''note_id'', ''project'', ''kind'', ''claim'', ''reason_matters'', ''sources'', ''evidence_packets'',
     ''dependencies'', ''coverage'', ''uncertainty'', ''provenance'', ''supersedes'', ''contradicts'',
     ''next_action'', ''authoritative'', ''is_independent_evidence'']"

definition NOTE_PROVENANCE :: "string list" where
  "NOTE_PROVENANCE = [''user'', ''source'', ''test'', ''model'']"

definition MAX_NOTE_BYTES :: nat where
  "MAX_NOTE_BYTES = 8 * 1024"

definition MAX_NOTES_PER_PROJECT :: nat where
  "MAX_NOTES_PER_PROJECT = 128"

definition setdefault :: "string \<Rightarrow> pv \<Rightarrow> pdict \<Rightarrow> pdict" where
  "setdefault k v d = (if has_key d k then d else d @ [(k, v)])"

text \<open>\<^verbatim>\<open>isinstance(v, str) and v.strip()\<close>\<close>

definition nonblank :: "pv \<Rightarrow> bool" where
  "nonblank v = (case v of PStr s \<Rightarrow> \<not> list_all is_space s | _ \<Rightarrow> False)"

fun list_items :: "pv \<Rightarrow> pv list" where
  "list_items (PList xs) = xs"
| "list_items _ = []"

definition note_identity :: "pdict \<Rightarrow> unit result" where
  "note_identity d =
     bindR (raise_if (\<not> nonblank (dget d ''note_id'') \<or> length (str_of (dget d ''note_id'')) > 128)
              (ValueError ''note_id must be a stable nonempty identifier of at most 128 characters'')) (\<lambda>_.
     bindR (raise_if (\<exists>c \<in> set (str_of (dget d ''note_id'')). (of_char c :: nat) < 32)
              (ValueError ''note_id contains a control character'')) (\<lambda>_.
     bindR (mapR (\<lambda>f. raise_if (\<not> nonblank (dget d f)) (ValueError (f @ '' must be a nonempty string'')))
              [''project'', ''kind'', ''claim'', ''reason_matters'']) (\<lambda>_.
     case dget d ''provenance'' of
       PStr s \<Rightarrow> raise_if (s \<notin> set NOTE_PROVENANCE) (ValueError ''unsupported note provenance'')
     | PList _ \<Rightarrow> Inl (TypeError ''unhashable type'')
     | PDict _ \<Rightarrow> Inl (TypeError ''unhashable type'')
     | _ \<Rightarrow> Inl (ValueError ''unsupported note provenance''))))"

text \<open>Sources are parsed and written back in full; evidence and dependencies are checked.\<close>

definition note_evidence :: "pdict \<Rightarrow> pdict result" where
  "note_evidence d =
     bindR (raise_if (\<not> is_list (dget d ''sources'') \<or> \<not> is_list (dget d ''evidence_packets''))
              (ValueError ''sources and evidence_packets must be lists'')) (\<lambda>_.
     bindR (mapR (\<lambda>v. case parse_locator v of None \<Rightarrow> Inl (ValueError ''invalid source locator'') | Some s \<Rightarrow> Inr s)
              (list_items (dget d ''sources''))) (\<lambda>srcs.
     bindR (raise_if (\<exists>v \<in> set (list_items (dget d ''evidence_packets'')). \<not> is_str v \<or> \<not> startswith (str_of v) ''pkt_'')
              (ValueError ''evidence_packets must contain original packet IDs'')) (\<lambda>_.
     bindR (raise_if (\<not> distinct (map str_of (list_items (dget d ''evidence_packets''))))
              (ValueError ''evidence_packets must be unique'')) (\<lambda>_.
     bindR (raise_if (\<not> is_dict (dget d ''dependencies'') \<or>
              (\<exists>(k, v) \<in> set (dict_items (dget d ''dependencies'')). k = [] \<or> \<not> is_nonempty_str v))
              (ValueError ''dependencies must map nonempty determinant names to digests'')) (\<lambda>_.
     Inr (AList.update ''sources'' (PList (map source_locator_pv srcs)) d))))))"

definition note_refs_ok :: "pdict \<Rightarrow> string \<Rightarrow> bool" where
  "note_refs_ok d f =
     (case dget d f of
        PNone \<Rightarrow> True
      | v \<Rightarrow> list_all is_nonempty_str (if is_list v then list_items v else [v]))"

definition note_claims :: "pdict \<Rightarrow> pdict result" where
  "note_claims d =
     bindR (mapR (\<lambda>f. raise_if (\<not> json_finite (dget d f)) (ValueError (f @ '' must be JSON data'')))
              [''coverage'', ''uncertainty'']) (\<lambda>_.
     bindR (mapR (\<lambda>f. raise_if (\<not> note_refs_ok d f) (ValueError (f @ '' must contain note IDs'')))
              [''supersedes'', ''contradicts'']) (\<lambda>_.
     bindR (raise_if (dget d ''next_action'' \<noteq> PNone \<and> \<not> is_str (dget d ''next_action''))
              (ValueError ''next_action must be text or null'')) (\<lambda>_.
     bindR (raise_if (dget d ''authoritative'' = PBool True \<or> dget d ''is_independent_evidence'' = PBool True)
              (ValueError ''knowledge notes cannot be authority or independent evidence'')) (\<lambda>_.
     let d1 = AList.update ''is_independent_evidence'' (PBool False) (AList.update ''authoritative'' (PBool False) d)
     in bindR (raise_if (str_of (dget d1 ''provenance'') \<in> {''source'', ''test''} \<and>
                 (list_items (dget d1 ''sources'') = [] \<or> list_items (dget d1 ''evidence_packets'') = []))
                 (ValueError ''source/test notes require original source locators and evidence packets'')) (\<lambda>_.
        Inr d1)))))"

definition validate_note :: "store_cfg \<Rightarrow> bool \<Rightarrow> pv \<Rightarrow> pdict result" where
  "validate_note cfg user_goal v =
     (case v of
        PDict d0 \<Rightarrow>
          let unknown = sorted_set (filter (\<lambda>k. k \<notin> set NOTE_FIELDS) (keys d0)) in
          bindR (raise_if (unknown \<noteq> []) (ValueError (''unknown note fields: '' @ join '', '' unknown))) (\<lambda>_.
          bindR (raise_if (\<not> user_goal \<and> (dget d0 ''provenance'' = PStr ''user'' \<or> dget d0 ''kind'' = PStr ''goal''))
                   (ValueError ''user goals require the trusted put_user_goal path'')) (\<lambda>_.
          let d1 = (if user_goal then AList.update ''provenance'' (PStr ''user'') (AList.update ''kind'' (PStr ''goal'') d0)
                    else d0);
              d2 = setdefault ''uncertainty'' (PList []) (setdefault ''coverage'' (PDict []) (setdefault ''dependencies'' (PDict [])
                     (setdefault ''evidence_packets'' (PList []) (setdefault ''sources'' (PList []) d1))))
          in bindR (note_identity d2) (\<lambda>_.
             bindR (note_evidence d2) (\<lambda>d3.
             bindR (note_claims d3) (\<lambda>d4.
             bindR (raise_if (snd (mask_payload [] (PDict d4)) \<noteq> [])
                      (ValueError ''note contains private or authority material'')) (\<lambda>_.
             bindR (raise_if (json_bytes (wire cfg) (PDict d4) > MAX_NOTE_BYTES)
                      (ValueError ''note exceeds 8 KiB record cap'')) (\<lambda>_.
             Inr d4)))))))
      | _ \<Rightarrow> Inl (TypeError ''note record must be a mapping''))"

section \<open>Evidence\<close>

definition CONTEXT_MARKERS :: "string list" where
  "CONTEXT_MARKERS = [''knowledge_notes'', ''prepared_notes'', ''derived_knowledge'', ''knowledge_context'']"

fun contains_marker :: "pv \<Rightarrow> bool" where
  "contains_marker (PDict d) \<longleftrightarrow>
     (\<exists>k \<in> set (keys d). k \<in> set CONTEXT_MARKERS) \<or>
     (case dget d ''prepared_context'' of
        PDict pc \<Rightarrow> has_key pc ''notes'' \<or> has_key pc ''goals'' | _ \<Rightarrow> False) \<or>
     (\<exists>p \<in> set d. contains_marker (snd p))"
| "contains_marker (PList xs) \<longleftrightarrow> (\<exists>x \<in> set xs. contains_marker x)"
| "contains_marker _ \<longleftrightarrow> False"

definition prepared_context_packet :: "packet_row \<Rightarrow> pdict \<Rightarrow> bool" where
  "prepared_context_packet r body \<longleftrightarrow>
     contains_marker (PDict (meta_fields (row_meta r) @ [(''_invocation'', PDict (row_invocation r))])) \<or>
     contains_marker (PDict body) \<or>
     replace_char CHR ''-'' CHR ''_'' (lower (tool (row_meta r)))
       \<in> {''knowledge'', ''knowledge_context'', ''prepared_context'', ''notebook_context''}"

text \<open>The checks on one cited packet; the sources it brings.\<close>

definition cited_packet :: "store_cfg \<Rightarrow> real \<Rightarrow> packet_db \<Rightarrow> pdict \<Rightarrow> string \<Rightarrow> pv list result" where
  "cited_packet cfg t db scope i =
     (case find_packet db i of
        None \<Rightarrow> Inl (ValueError ''note evidence packet is missing or expired'')
      | Some r \<Rightarrow>
          if row_expired r \<or> row_id r \<notin> set (live_ids cfg t db)
          then Inl (ValueError ''note evidence packet is missing or expired'')
          else if \<not> note_scope_allows cfg (access_scope (row_meta r)) scope (sources_pv (row_meta r))
          then Inl (PermissionError ''note evidence packet is outside current trusted scope'')
          else (case map_of (bodies db) (row_hash r) of
                  None \<Rightarrow> Inl (RuntimeError ''packet body missing: storage corruption'')
                | Some b \<Rightarrow>
                    if prepared_context_packet r b
                    then Inl (ValueError ''prepared knowledge context cannot corroborate a note'')
                    else Inr (sources_pv (row_meta r))))"

definition evidence_ids :: "pdict \<Rightarrow> string list" where
  "evidence_ids d = map str_of (list_items (dget d ''evidence_packets''))"

definition validate_note_evidence :: "store_cfg \<Rightarrow> real \<Rightarrow> packet_db \<Rightarrow> pdict \<Rightarrow> pdict \<Rightarrow> string list result" where
  "validate_note_evidence cfg t db d scope =
     bindR (raise_if (scope = [] \<or> dget scope ''project'' \<noteq> dget d ''project'')
              (PermissionError ''note project must match the trusted access scope'')) (\<lambda>_.
     bindR (raise_if (\<not> note_scope_allows cfg scope scope (list_items (dget d ''sources'')))
              (PermissionError ''note outside current trusted access scope'')) (\<lambda>_.
     bindR (mapR (cited_packet cfg t db scope) (evidence_ids d)) (\<lambda>srcs.
     bindR (raise_if (str_of (dget d ''provenance'') \<in> {''source'', ''test''} \<and>
                \<not> set (list_items (dget d ''sources'')) \<subseteq> set (concat srcs))
              (ValueError ''source/test note locators must appear in cited original packets'')) (\<lambda>_.
     Inr (evidence_ids d)))))"

section \<open>Storage of notes\<close>

definition find_note :: "packet_db \<Rightarrow> string \<Rightarrow> note_row option" where
  "find_note db i = find (\<lambda>n. nt_id n = i) (knowledge_notes db)"

definition replace_note :: "note_row \<Rightarrow> packet_db \<Rightarrow> packet_db" where
  "replace_note n db = db\<lparr>knowledge_notes := filter (\<lambda>m. nt_id m \<noteq> nt_id n) (knowledge_notes db) @ [n]\<rparr>"

definition note_sources :: "note_row \<Rightarrow> pv list" where
  "note_sources n = list_items (dget (nt_record n) ''sources'')"

definition put_note_record :: "store_cfg \<Rightarrow> real \<Rightarrow> bool \<Rightarrow> pv \<Rightarrow> pdict \<Rightarrow> packet_db \<Rightarrow> (pdict \<times> packet_db) result" where
  "put_note_record cfg t user_goal v scope db =
     bindR (validate_note cfg user_goal v) (\<lambda>d.
     let i = str_of (dget d ''note_id''); project = str_of (dget d ''project''); owner = ''note:'' @ i in
     bindR (case find_note db i of
              None \<Rightarrow> Inr (scope, t)
            | Some prior \<Rightarrow>
                if nt_project prior \<noteq> project \<or> \<not> note_scope_allows cfg (nt_scope prior) scope (note_sources prior)
                then Inl (PermissionError ''cannot update a note outside its original trusted scope'')
                else if dget scope ''project'' \<noteq> PStr project
                then Inl (PermissionError ''note project must match the trusted access scope'')
                else Inr (nt_scope prior, nt_created prior)) (\<lambda>(stored_scope, created).
     bindR (validate_note_evidence cfg t db d scope) (\<lambda>refs.
     let count = length (filter (\<lambda>n. nt_project n = project \<and> nt_id n \<noteq> i) (knowledge_notes db)) in
     bindR (raise_if (find_note db i = None \<and> count \<ge> MAX_NOTES_PER_PROJECT)
              (ValueError ''project knowledge capacity reached (128 records)'')) (\<lambda>_.
     Inr (d, replace_note \<lparr>nt_id = i, nt_project = project, nt_record = d, nt_scope = stored_scope, nt_created = created,
               nt_updated = t\<rparr> (fold (\<lambda>ref. insert_pin owner ref) refs (delete_pins owner db)))))))"

definition put_note :: "store_cfg \<Rightarrow> real \<Rightarrow> pv \<Rightarrow> pdict \<Rightarrow> packet_db \<Rightarrow> (pdict \<times> packet_db) result" where
  "put_note cfg t v scope db = put_note_record cfg t False v scope db"

definition put_user_goal :: "store_cfg \<Rightarrow> real \<Rightarrow> pv \<Rightarrow> pdict \<Rightarrow> packet_db \<Rightarrow> (pdict \<times> packet_db) result" where
  "put_user_goal cfg t v scope db = put_note_record cfg t True v scope db"

definition note_readable :: "store_cfg \<Rightarrow> pdict \<Rightarrow> note_row \<Rightarrow> bool" where
  "note_readable cfg scope n \<longleftrightarrow>
     dget scope ''project'' = dget (nt_record n) ''project'' \<and> note_scope_allows cfg (nt_scope n) scope (note_sources n)"

definition get_note :: "store_cfg \<Rightarrow> string \<Rightarrow> pdict \<Rightarrow> packet_db \<Rightarrow> pdict option" where
  "get_note cfg i scope db =
     (case find_note db i of
        None \<Rightarrow> None
      | Some n \<Rightarrow> if note_readable cfg scope n then Some (nt_record n) else None)"

definition list_notes :: "store_cfg \<Rightarrow> pdict \<Rightarrow> string \<Rightarrow> int \<Rightarrow> packet_db \<Rightarrow> pdict list result" where
  "list_notes cfg scope project limit db =
     bindR (raise_if (\<not> (1 \<le> limit \<and> limit \<le> int MAX_NOTES_PER_PROJECT)) (ValueError ''limit must be between 1 and 128'')) (\<lambda>_.
     bindR (raise_if (dget scope ''project'' \<noteq> PStr project)
              (PermissionError ''requested project must match the trusted access scope'')) (\<lambda>_.
     Inr (map nt_record (filter (\<lambda>n. note_scope_allows cfg (nt_scope n) scope (note_sources n))
            (take (nat limit) (sort_key (\<lambda>n. (- nt_updated n, nt_id n))
               (filter (\<lambda>n. nt_project n = project) (knowledge_notes db))))))))"

definition delete_note :: "store_cfg \<Rightarrow> string \<Rightarrow> pdict \<Rightarrow> packet_db \<Rightarrow> bool \<times> packet_db" where
  "delete_note cfg i scope db =
     (case find_note db i of
        None \<Rightarrow> (False, db)
      | Some n \<Rightarrow>
          if \<not> note_readable cfg scope n then (False, db)
          else (True, (delete_pins (''note:'' @ i) db)\<lparr>knowledge_notes :=
                  filter (\<lambda>m. nt_id m \<noteq> i) (knowledge_notes db)\<rparr>))"

section \<open>Notes keep the invariant\<close>

lemma cited_packet_alive:
  assumes "cited_packet cfg t db scope i = Inr srcs"
  shows "\<exists>r \<in> set (packets db). row_id r = i \<and> \<not> row_expired r"
proof -
  from assms obtain r where "find_packet db i = Some r" "\<not> row_expired r"
    by (auto simp: cited_packet_def split: option.splits if_splits)
  then show ?thesis unfolding find_packet_def by (auto dest!: find_SomeD)
qed

lemma validate_note_evidence_alive:
  assumes "validate_note_evidence cfg t db d scope = Inr refs"
  shows "refs = evidence_ids d" "\<And>i. i \<in> set refs \<Longrightarrow> \<exists>r \<in> set (packets db). row_id r = i \<and> \<not> row_expired r"
proof -
  from assms obtain srcs where m: "mapR (cited_packet cfg t db scope) (evidence_ids d) = Inr srcs" and refs: "refs = evidence_ids d"
    by (auto simp: validate_note_evidence_def bindR_eq_Inr)
  show "refs = evidence_ids d" by (rule refs)
  fix i assume "i \<in> set refs"
  with m refs obtain s where "cited_packet cfg t db scope i = Inr s"
    by (auto simp: mapR_eq_Inr list_all2_conv_all_nth in_set_conv_nth)
  then show "\<exists>r \<in> set (packets db). row_id r = i \<and> \<not> row_expired r" by (rule cited_packet_alive)
qed

definition note_pins :: "string \<Rightarrow> string list \<Rightarrow> packet_db \<Rightarrow> packet_db" where
  "note_pins owner refs db = fold (\<lambda>ref. insert_pin owner ref) refs (delete_pins owner db)"

lemma note_pins_eq: "note_pins owner refs db = fold (\<lambda>(owner, i). insert_pin owner i) (map (Pair owner) refs) (delete_pins owner db)"
proof -
  have "fold (\<lambda>ref. insert_pin owner ref) refs d = fold (\<lambda>(owner, i). insert_pin owner i) (map (Pair owner) refs) d" for d
    by (induction refs arbitrary: d) simp_all
  then show ?thesis by (simp add: note_pins_def)
qed

lemma set_fold_insert_pin: "set (pins (fold (\<lambda>(owner, i). insert_pin owner i) ps db)) = set (pins db) \<union> set ps"
  by (induction ps arbitrary: db) auto

lemma note_pins_facts:
  assumes "store_ok cfg db" "\<And>i. i \<in> set refs \<Longrightarrow> \<exists>r \<in> set (packets db). row_id r = i \<and> \<not> row_expired r"
  shows "store_ok cfg (note_pins owner refs db)" "packets (note_pins owner refs db) = packets db"
    "bodies (note_pins owner refs db) = bodies db"
    "set (pins (note_pins owner refs db)) = {p \<in> set (pins db). fst p \<noteq> owner} \<union> Pair owner ` set refs"
proof -
  show "store_ok cfg (note_pins owner refs db)" unfolding note_pins_eq
    by (rule fold_insert_pin_ok) (use assms in \<open>auto simp: delete_pins_ok\<close>)
  show "packets (note_pins owner refs db) = packets db" "bodies (note_pins owner refs db) = bodies db"
    by (simp_all add: note_pins_eq)
  show "set (pins (note_pins owner refs db)) = {p \<in> set (pins db). fst p \<noteq> owner} \<union> Pair owner ` set refs"
    by (auto simp: note_pins_eq set_fold_insert_pin delete_pins_def)
qed

lemma store_ok_notes [simp]: "store_ok cfg (db\<lparr>knowledge_notes := ns\<rparr>) = store_ok cfg db"
  by (simp add: store_ok_def names_apart_def bodied_def pinned_alive_def)

text \<open>What a successful write of a note has done.\<close>

lemma put_note_record_cases:
  assumes "put_note_record cfg t user_goal v scope db = Inr (d, db')"
  obtains i project stored created where
    "validate_note cfg user_goal v = Inr d" "i = str_of (dget d ''note_id'')" "project = str_of (dget d ''project'')"
    "validate_note_evidence cfg t db d scope = Inr (evidence_ids d)"
    "find_note db i = None \<Longrightarrow> stored = scope \<and> created = t \<and>
       length (filter (\<lambda>n. nt_project n = project \<and> nt_id n \<noteq> i) (knowledge_notes db)) < MAX_NOTES_PER_PROJECT"
    "\<And>prior. find_note db i = Some prior \<Longrightarrow> stored = nt_scope prior \<and> created = nt_created prior \<and> nt_project prior = project \<and>
       note_scope_allows cfg (nt_scope prior) scope (note_sources prior) \<and> dget scope ''project'' = PStr project"
    "db' = replace_note \<lparr>nt_id = i, nt_project = project, nt_record = d, nt_scope = stored, nt_created = created,
       nt_updated = t\<rparr> (note_pins (''note:'' @ i) (evidence_ids d) db)"
proof -
  let ?i = "str_of (dget d ''note_id'')" and ?p = "str_of (dget d ''project'')"
  let ?st = "case find_note db ?i of None \<Rightarrow> Inr (scope, t)
    | Some prior \<Rightarrow>
        if nt_project prior \<noteq> ?p \<or> \<not> note_scope_allows cfg (nt_scope prior) scope (note_sources prior)
        then Inl (PermissionError ''cannot update a note outside its original trusted scope'')
        else if dget scope ''project'' \<noteq> PStr ?p then Inl (PermissionError ''note project must match the trusted access scope'')
        else Inr (nt_scope prior, nt_created prior)"
  have v: "validate_note cfg user_goal v = Inr d"
    using assms by (auto simp: put_note_record_def bindR_eq_Inr Let_def split: prod.splits)
  from assms v obtain st where "?st = Inr st" unfolding put_note_record_def bindR_eq_Inr Let_def by auto
  then obtain stored created where st: "?st = Inr (stored, created)" by (cases st) auto
  from assms [unfolded put_note_record_def v bindR_simps Let_def st prod.case bindR_eq_Inr] obtain refs where ev: "validate_note_evidence cfg t db d scope = Inr refs"
    and cap: "\<not> (find_note db ?i = None \<and> length (filter (\<lambda>n. nt_project n = ?p \<and> nt_id n \<noteq> ?i) (knowledge_notes db)) \<ge> MAX_NOTES_PER_PROJECT)"
    and db': "db' = replace_note \<lparr>nt_id = ?i, nt_project = ?p, nt_record = d, nt_scope = stored, nt_created = created,
       nt_updated = t\<rparr> (note_pins (''note:'' @ ?i) refs db)"
    unfolding note_pins_def by auto
  have refs: "refs = evidence_ids d" using validate_note_evidence_alive(1) [OF ev] .
  show thesis
    by (rule that [OF v refl refl ev [unfolded refs] _ _ db' [unfolded refs]])
      (use st cap in \<open>auto split: if_splits\<close>)
qed

lemma put_note_record_ok:
  assumes ok: "store_ok cfg db" and put: "put_note_record cfg t user_goal v scope db = Inr (d, db')"
  shows "store_ok cfg db' \<and> packets db' = packets db \<and> bodies db' = bodies db"
proof -
  from put obtain i project stored created where ev: "validate_note_evidence cfg t db d scope = Inr (evidence_ids d)"
    and db': "db' = replace_note \<lparr>nt_id = i, nt_project = project, nt_record = d, nt_scope = stored, nt_created = created,
       nt_updated = t\<rparr> (note_pins (''note:'' @ i) (evidence_ids d) db)"
    by (rule put_note_record_cases)
  from note_pins_facts [OF ok validate_note_evidence_alive(2) [OF ev]] show ?thesis
    by (simp add: db' replace_note_def)
qed

lemma delete_note_ok:
  assumes "store_ok cfg db"
  shows "store_ok cfg (snd (delete_note cfg i scope db)) \<and> packets (snd (delete_note cfg i scope db)) = packets db"
  using assms by (simp add: delete_note_def delete_pins_ok split: option.splits)

end
