(* ===== verification/PacketMachine.thy ===== *)
theory PacketMachine
  imports PacketNotes Machine
begin

text \<open>
  The packet store as a state machine, whose steps are its methods with any arguments at any time,
  and its properties.  The contract is the one \<^verbatim>\<open>PacketStore\<close> states in
  \<^verbatim>\<open>src/src/project_control/as1_contracts.py\<close>: expiry never permits the reassignment of an alias, a
  payload is shown only after the scope was checked, and an expired packet is an explicit tombstone.
\<close>

section \<open>Steps\<close>

inductive packet_step :: "store_cfg \<Rightarrow> packet_db \<Rightarrow> packet_db \<Rightarrow> bool" for cfg where
  ps_put: "put_packet cfg t p extra db = Inr (q, db') \<Longrightarrow> packet_step cfg db db'"
| ps_create: "create cfg uuids names t rq db = Inr (q, db') \<Longrightarrow> packet_step cfg db db'"
| ps_pin: "pin_refs cfg t owner refs db = Inr db' \<Longrightarrow> packet_step cfg db db'"
| ps_unpin: "packet_step cfg db (unpin owner db)"
| ps_retain: "retain_job cfg t owner refs terminal db = Inr db' \<Longrightarrow> packet_step cfg db db'"
| ps_gc: "packet_step cfg db (snd (gc cfg t db))"
| ps_reconcile: "reconcile_retention cfg t retained owners db = Inr db' \<Longrightarrow> packet_step cfg db db'"
| ps_note: "put_note cfg t v scope db = Inr (d, db') \<Longrightarrow> packet_step cfg db db'"
| ps_goal: "put_user_goal cfg t v scope db = Inr (d, db') \<Longrightarrow> packet_step cfg db db'"
| ps_delete: "packet_step cfg db (snd (delete_note cfg i scope db))"

lemma packet_step_ok: "packet_step cfg db db' \<Longrightarrow> store_ok cfg db \<Longrightarrow> store_ok cfg db'"
proof (induction rule: packet_step.induct)
  case (ps_put t p extra db q db') then show ?case by (rule put_packet_ok [rotated])
next
  case (ps_create uuids names t rq db q db') then show ?case by (rule create_ok [rotated])
next
  case (ps_pin t owner refs db db') then show ?case using pin_refs_ok by blast
next
  case (ps_unpin db owner) then show ?case by (simp add: unpin_def delete_pins_ok)
next
  case (ps_retain t owner refs terminal db db') then show ?case using retain_job_ok by blast
next
  case (ps_gc db t) then show ?case by (rule gc_ok)
next
  case (ps_reconcile t retained owners db db') then show ?case using reconcile_retention_ok by blast
next
  case (ps_note t v scope db d db') then show ?case unfolding put_note_def using put_note_record_ok by blast
next
  case (ps_goal t v scope db d db') then show ?case unfolding put_user_goal_def using put_note_record_ok by blast
next
  case (ps_delete db i scope) then show ?case using delete_note_ok by blast
qed

text \<open>A reference, which is an identifier or an alias, and the packet it names.\<close>

definition names :: "packet_db \<Rightarrow> string \<Rightarrow> packet_meta \<Rightarrow> bool" where
  "names db ref m \<longleftrightarrow> (\<exists>r \<in> set (packets db). (row_id r = ref \<or> row_alias r = ref) \<and> row_meta r = m)"

text \<open>A step keeps every row but for its mark of expiry.\<close>

definition rows_kept :: "packet_db \<Rightarrow> packet_db \<Rightarrow> bool" where
  "rows_kept db db' \<longleftrightarrow> (\<forall>r \<in> set (packets db). \<exists>s \<in> set (packets db').
     row_id s = row_id r \<and> row_alias s = row_alias r \<and> row_meta s = row_meta r \<and> (row_expired r \<longrightarrow> row_expired s))"

lemma rows_kept_same: "packets db' = packets db \<Longrightarrow> rows_kept db db'"
  by (auto simp: rows_kept_def)

lemma put_packet_rows:
  assumes "put_packet cfg t p extra db = Inr (q, db')"
  shows "rows_kept db db'"
  using assms by (cases rule: put_packet_cases) (auto simp: rows_kept_def)

lemma packet_step_rows: "packet_step cfg db db' \<Longrightarrow> store_ok cfg db \<Longrightarrow> rows_kept db db'"
proof (induction rule: packet_step.induct)
  case (ps_put t p extra db q db') then show ?case by (simp add: put_packet_rows)
next
  case (ps_create uuids names t rq db q db') then show ?case using create_put put_packet_rows by blast
next
  case (ps_gc db t) then show ?case
    by (auto simp: rows_kept_def gc_packets [OF store_okD(1)])
next
  case (ps_note t v scope db d db') then show ?case unfolding put_note_def using put_note_record_ok by (blast intro: rows_kept_same)
next
  case (ps_goal t v scope db d db') then show ?case unfolding put_user_goal_def using put_note_record_ok by (blast intro: rows_kept_same)
qed (auto intro!: rows_kept_same simp: unpin_def dest: pin_refs_ok retain_job_ok reconcile_retention_ok delete_note_ok)

lemma reference_unique:
  assumes na: "names_apart db" and r: "r \<in> set (packets db)" "row_id r = ref \<or> row_alias r = ref"
    and s: "s \<in> set (packets db)" "row_id s = ref \<or> row_alias s = ref"
  shows "r = s"
proof -
  have disj: "row_id x \<noteq> row_alias y" if "x \<in> set (packets db)" "y \<in> set (packets db)" for x y
    using na that unfolding names_apart_def by (metis IntI empty_iff image_eqI)
  have inj: "inj_on row_alias (set (packets db))" using na by (simp add: names_apart_def distinct_map)
  show ?thesis
  proof (cases "row_id r = ref")
    case True
    with r s disj [of r s] have "row_id s = row_id r" by auto
    then show ?thesis using row_unique [OF na s(1) r(1)] by simp
  next
    case False
    with r s disj [of s r] have "row_alias s = row_alias r" by auto
    with inj r(1) s(1) show ?thesis by (metis inj_onD)
  qed
qed

interpretation store: stable_names empty_store "packet_step cfg" "store_ok cfg" "names" for cfg
proof unfold_locales
  show "store_ok cfg empty_store" by (rule empty_store_ok)
next
  fix s t assume "store_ok cfg s" "packet_step cfg s t"
  then show "store_ok cfg t" by (rule packet_step_ok [rotated])
next
  fix s n a b assume ok: "store_ok cfg s" and "names s n a" "names s n b"
  then obtain x y where x: "x \<in> set (packets s)" "row_id x = n \<or> row_alias x = n" "row_meta x = a"
    and y: "y \<in> set (packets s)" "row_id y = n \<or> row_alias y = n" "row_meta y = b"
    by (auto simp: names_def)
  have "x = y" by (rule reference_unique [OF store_okD(1) [OF ok] x(1,2) y(1,2)])
  with x y show "a = b" by simp
next
  fix s t n a assume "store_ok cfg s" "packet_step cfg s t" and n: "names s n a"
  then have "rows_kept s t" by (simp add: packet_step_rows)
  with n show "names t n a" unfolding names_def rows_kept_def by metis
qed

section \<open>Lookups\<close>

lemma find_reference_unique:
  assumes "names_apart db" "r \<in> set (packets db)" "row_id r = ref \<or> row_alias r = ref"
  shows "find_reference db ref = Some r"
proof -
  obtain s where s: "find_reference db ref = Some s"
    unfolding find_reference_def using find_Some_ex [of "\<lambda>r. row_id r = ref \<or> row_alias r = ref" "packets db"] assms(2,3) by blast
  from find_reference_SomeD [OF s] have "s = r" by (intro reference_unique [OF assms(1) _ _ assms(2,3)]) simp_all
  with s show ?thesis by simp
qed

text \<open>On a sound store a lookup of a packet that is not expired finds its body and validates it.\<close>

lemma body_found:
  assumes ok: "store_ok cfg db" and r: "r \<in> set (packets db)" "\<not> row_expired r"
  shows "\<exists>b. map_of (bodies db) (row_hash r) = Some b \<and> validate_packet (wire cfg) (with_payload (row_meta r) b) = Inr ()"
proof -
  have "row_hash r \<in> fst ` set (bodies db)" using store_okD(5) [OF ok] r by (auto simp: bodied_def)
  then obtain b where b: "map_of (bodies db) (row_hash r) = Some b" by (metis map_of_eq_None_iff not_Some_eq)
  have "body_ok cfg (row_hash r, b)" using store_okD(4) [OF ok] map_of_SomeD [OF b] by blast
  then show ?thesis using b store_okD(2) [OF ok r(1)]
    by (auto simp: body_ok_def row_ok_def validate_packet_eq_Inr)
qed

lemma lookup_Inr:
  assumes ok: "store_ok cfg db"
  shows "\<exists>l. lookup cfg t ref scope db = Inr l"
proof (cases "find_reference db ref")
  case (Some r)
  show ?thesis
  proof (cases "row_expired r")
    case False
    then obtain b where "map_of (bodies db) (row_hash r) = Some b" "validate_packet (wire cfg) (with_payload (row_meta r) b) = Inr ()"
      using body_found [OF ok conjunct1 [OF find_reference_SomeD [OF Some]]] by blast
    with Some show ?thesis by (simp add: lookup_def Let_def)
  qed (use Some in \<open>simp add: lookup_def Let_def\<close>)
qed (simp add: lookup_def)

lemma lookup_Ok:
  assumes "lookup cfg t ref scope db = Inr (Ok p)"
  shows "\<exists>r. find_reference db ref = Some r \<and> permitted cfg (access_scope (row_meta r)) scope (sources_pv (row_meta r)) \<and>
    \<not> row_expired r \<and> row_id r \<in> set (live_ids cfg t db) \<and> meta_of p = row_meta r \<and>
    validate_packet (wire cfg) p = Inr ()"
proof -
  from assms obtain r where r: "find_reference db ref = Some r" by (auto simp: lookup_def split: option.splits)
  from assms r obtain b where "map_of (bodies db) (row_hash r) = Some b" and p: "p = with_payload (row_meta r) b"
    and facts: "permitted cfg (access_scope (row_meta r)) scope (sources_pv (row_meta r))" "\<not> row_expired r"
      "row_id r \<in> set (live_ids cfg t db)" "validate_packet (wire cfg) (with_payload (row_meta r) b) = Inr ()"
    by (auto simp: lookup_def Let_def bindR_eq_Inr split: if_splits option.splits)
  with r show ?thesis by auto
qed

section \<open>Collection and later lookups\<close>

lemma find_map_option: "find P (map g xs) = map_option g (find (\<lambda>x. P (g x)) xs)"
  by (induction xs) auto

lemma map_of_filter_keep: "(\<And>b. fst b = h \<Longrightarrow> P b) \<Longrightarrow> map_of (filter P xs) h = map_of xs h"
  by (induction xs) auto

lemma gc_find_reference:
  assumes "names_apart db"
  shows "find_reference (snd (gc cfg t db)) ref = map_option (gc_row cfg t db) (find_reference db ref)"
  by (simp add: find_reference_def gc_packets [OF assms] find_map_option)

lemma gc_roots:
  assumes na: "names_apart db" and le: "t \<le> t'"
  shows "live_roots cfg t' (snd (gc cfg t db)) = live_roots cfg t' db"
proof -
  have "unexpired cfg t' (gc_row cfg t db r) = unexpired cfg t' r" if "r \<in> set (packets db)" for r
  proof (cases "unexpired cfg t' r")
    case True
    then have "unexpired cfg t r" using le by (auto simp: unexpired_def split: option.splits)
    then have "row_id r \<in> set (live_ids cfg t db)"
      by (intro live_root) (use that in \<open>auto simp: live_roots_def\<close>)
    with True show ?thesis by (simp add: gc_row_def)
  qed (auto simp: unexpired_def)
  then have "map row_id (filter (unexpired cfg t') (map (gc_row cfg t db) (packets db))) = map row_id (filter (unexpired cfg t') (packets db))"
    by (simp add: filter_map comp_def cong: filter_cong)
  then show ?thesis by (simp add: live_roots_def gc_packets [OF na])
qed

lemma gc_live:
  assumes na: "names_apart db" and le: "t \<le> t'"
  shows "live_ids cfg t' (snd (gc cfg t db)) = live_ids cfg t' db"
proof -
  have "parent_table (snd (gc cfg t db)) = parent_table db"
    by (simp add: parent_table_def gc_packets [OF na] comp_def)
  then show ?thesis by (simp add: live_ids_def gc_roots [OF assms])
qed

lemma live_antimono:
  assumes "t \<le> t'"
  shows "set (live_ids cfg t' db) \<subseteq> set (live_ids cfg t db)"
proof -
  have "set (live_roots cfg t' db) \<subseteq> set (live_roots cfg t db)"
    using assms by (fastforce simp: live_roots_def unexpired_def split: option.splits)
  then show ?thesis unfolding set_live_ids by (auto simp: reachable_from_def)
qed

lemma gc_lookup:
  assumes ok: "store_ok cfg db" and le: "t \<le> t'"
  shows "lookup cfg t' ref scope (snd (gc cfg t db)) = lookup cfg t' ref scope db"
proof (cases "find_reference db ref")
  case None
  then show ?thesis by (simp add: lookup_def gc_find_reference [OF store_okD(1) [OF ok]])
next
  case (Some r)
  note na = store_okD(1) [OF ok]
  let ?g = "gc_row cfg t db"
  have after: "find_reference (snd (gc cfg t db)) ref = Some (?g r)" by (simp add: gc_find_reference [OF na] Some)
  show ?thesis
  proof (cases "row_expired r \<or> row_id r \<notin> set (live_ids cfg t' db)")
    case True
    then have "row_expired (?g r) \<or> row_id (?g r) \<notin> set (live_ids cfg t' (snd (gc cfg t db)))"
      by (auto simp: gc_live [OF na le])
    with True show ?thesis by (auto simp: lookup_def Let_def Some after)
  next
    case False
    then have live: "row_id r \<in> set (live_ids cfg t db)" using live_antimono [OF le] by blast
    then have g: "?g r = r" by (simp add: gc_row_def)
    have "?g r \<in> set (packets (snd (gc cfg t db)))"
      using find_reference_SomeD [OF Some] by (auto simp: gc_packets [OF na])
    then have "map_of (bodies (snd (gc cfg t db))) (row_hash r) = map_of (bodies db) (row_hash r)"
      unfolding gc_bodies using False g by (intro map_of_filter_keep) auto
    with False show ?thesis by (simp add: lookup_def Let_def Some after g gc_live [OF na le])
  qed
qed

text \<open>
  C18. Garbage collection is invisible to readers: in every reachable store, a lookup at the time of the
  collection or later gives what it would have given without it.  It marks exactly the packets that are
  neither pinned, nor unexpired, nor ancestors of such, and keeps a body only for packets not marked.
\<close>

theorem gc_transparent:
  assumes reach: "(packet_step cfg)\<^sup>*\<^sup>* empty_store db" and le: "t \<le> t'"
  shows "lookup cfg t' ref scope (snd (gc cfg t db)) = lookup cfg t' ref scope db \<and>
    set (fst (gc cfg t db)) = {row_id r | r. r \<in> set (packets db) \<and> \<not> row_expired r \<and>
       row_id r \<notin> reachable_from (parent_table db) (set (live_roots cfg t db))} \<and>
    (\<forall>b \<in> set (bodies (snd (gc cfg t db))). \<exists>r \<in> set (packets (snd (gc cfg t db))). \<not> row_expired r \<and> row_hash r = fst b)"
proof -
  have ok: "store_ok cfg db" by (rule store.reachable_inv [OF reach])
  have "set (fst (gc cfg t db)) = {row_id r | r. r \<in> set (packets db) \<and> \<not> row_expired r \<and>
       row_id r \<notin> reachable_from (parent_table db) (set (live_roots cfg t db))}"
    unfolding set_live_ids [symmetric] by (auto simp: gc_def Let_def)
  then show ?thesis using gc_lookup [OF ok le] by (simp add: gc_bodies)
qed

text \<open>
  C20. In every reachable store a lookup returns, it never finds a packet without its body; and a packet it
  shows is the one of that identifier or alias, was checked against the scope, and its payload has the
  digest that the packet states.
\<close>

theorem packet_lookup_sound:
  assumes reach: "(packet_step cfg)\<^sup>*\<^sup>* empty_store db"
  shows "(\<exists>l. lookup cfg t ref scope db = Inr l) \<and>
    (\<forall>p. lookup cfg t ref scope db = Inr (Ok p) \<longrightarrow>
       permitted cfg (access_scope p) scope (sources_pv (meta_of p)) \<and> (packet_id p = ref \<or> pk_alias p = ref) \<and>
       canonical_digest (wire cfg) (PDict (payload p)) = Inr (payload_sha256 p))"
proof (intro conjI allI impI)
  have ok: "store_ok cfg db" by (rule store.reachable_inv [OF reach])
  show "\<exists>l. lookup cfg t ref scope db = Inr l" by (rule lookup_Inr [OF ok])
  fix p assume "lookup cfg t ref scope db = Inr (Ok p)"
  from lookup_Ok [OF this] obtain r where r: "find_reference db ref = Some r"
    "permitted cfg (access_scope (row_meta r)) scope (sources_pv (row_meta r))" "meta_of p = row_meta r"
    "validate_packet (wire cfg) p = Inr ()" by blast
  note mem = find_reference_SomeD [OF r(1)]
  have rk: "row_id r = packet_id (row_meta r)" "row_alias r = pk_alias (row_meta r)"
    using store_okD(2) [OF ok] mem by (auto simp: row_ok_def)
  have p: "access_scope p = access_scope (row_meta r)" "packet_id p = row_id r" "pk_alias p = row_alias r"
    using rk by (simp_all flip: r(3))
  show "permitted cfg (access_scope p) scope (sources_pv (meta_of p))" using r(2) by (simp add: p r(3))
  show "packet_id p = ref \<or> pk_alias p = ref" using mem by (simp add: p)
  show "canonical_digest (wire cfg) (PDict (payload p)) = Inr (payload_sha256 p)"
    using r(4) by (simp add: validate_packet_eq_Inr)
qed

text \<open>
  C19. A reference is never reassigned: whatever happens to the store after a lookup, expiry and collection
  included, the same identifier or alias shows the same packet or none; its metadata, and with it the
  digest of its payload, never changes.
\<close>

theorem reference_never_rebound:
  assumes reach: "(packet_step cfg)\<^sup>*\<^sup>* empty_store db" and later: "(packet_step cfg)\<^sup>*\<^sup>* db db'"
    and p: "lookup cfg t ref scope db = Inr (Ok p)" and q: "lookup cfg t' ref scope' db' = Inr (Ok q)"
  shows "meta_of q = meta_of p"
proof -
  have "names d ref (meta_of x)" if "lookup cfg s ref sc d = Inr (Ok x)" for d x s sc
    using lookup_Ok [OF that] find_reference_SomeD unfolding names_def by metis
  then show ?thesis using store.never_rebound [OF reach later] p q by metis
qed

section \<open>Storing and reading back\<close>

lemma put_packet_fresh_lookup:
  assumes ok: "store_ok cfg db" and put: "put_packet cfg t p extra db = Inr (q, db')"
    and new: "find_packet db (packet_id p) = None"
    and pure: "\<And>b. (payload_sha256 p, b) \<in> set (bodies db) \<Longrightarrow> b = payload p"
    and alive: "pinned_by p \<noteq> None \<and> pinned_by p \<noteq> Some [] \<or> expires_at p = None \<or> (\<exists>e. expires_at p = Some e \<and> iso_epoch (wire cfg) e > t')"
    and perm: "permitted cfg (access_scope p) scope (sources_pv (meta_of p))"
    and ref: "ref = packet_id p \<or> ref = pk_alias p"
  shows "lookup cfg t' ref scope db' = Inr (Ok p)"
  using put
proof (cases rule: put_packet_cases)
  case fresh
  let ?r = "new_row p extra"
  let ?owners = "case pinned_by p of None \<Rightarrow> [] | Some owners \<Rightarrow> owners"
  have ok': "store_ok cfg db'" by (rule put_packet_ok [OF ok put])
  have rows: "packets db' = packets db @ [?r]" and bods: "bodies db' = bodies (insert_body (payload_sha256 p) (payload p) db)"
    by (simp_all add: fresh(9))
  have r: "?r \<in> set (packets db')" by (simp add: rows)
  have f: "find_reference db' ref = Some ?r"
    by (rule find_reference_unique [OF store_okD(1) [OF ok'] r]) (use ref in auto)
  have "set (pins db') \<supseteq> (\<lambda>owner. (owner, packet_id p)) ` set ?owners"
  proof -
    have "set (pins (fold (\<lambda>owner. insert_pin owner i) owners d)) = set (pins d) \<union> (\<lambda>owner. (owner, i)) ` set owners" for i owners d
      by (induction owners arbitrary: d) auto
    then show ?thesis by (simp add: fresh(9))
  qed
  then have pinned: "packet_id p \<in> snd ` set (pins db')" if "owner \<in> set ?owners" for owner
    using that by (force simp: image_iff)
  have "packet_id p \<in> set (live_roots cfg t' db')"
  proof (cases "unexpired cfg t' ?r")
    case False
    with alive have "?owners \<noteq> []" by (auto simp: unexpired_def split: option.splits)
    then obtain owner where "owner \<in> set ?owners" by (meson hd_in_set)
    from pinned [OF this] show ?thesis by (simp add: live_roots_def)
  qed (simp add: live_roots_def rows)
  then have live: "packet_id p \<in> set (live_ids cfg t' db')" by (rule live_root)
  have "map_of (bodies db') (payload_sha256 p) = Some (payload p)"
  proof (cases "payload_sha256 p \<in> fst ` set (bodies db)")
    case True
    then obtain b where b: "map_of (bodies db) (payload_sha256 p) = Some b" by (metis map_of_eq_None_iff not_Some_eq)
    with pure [OF map_of_SomeD [OF b]] True show ?thesis by (simp add: bods insert_body_def)
  next
    case False
    then have "map_of (bodies db) (payload_sha256 p) = None" by (simp add: map_of_eq_None_iff)
    with False show ?thesis by (simp add: bods insert_body_def map_add_def)
  qed
  with fresh(1) perm live f show ?thesis by (simp add: lookup_def Let_def)
qed (use new in simp)

text \<open>
  C35. A new packet that was stored is read back, by its identifier and by its alias, exactly as it was put,
  by every scope that is permitted and as long as it has not expired or is pinned.  The payload is that of
  its digest, so a stored body of the same digest must be the same.
\<close>

theorem packet_roundtrip:
  assumes "(packet_step cfg)\<^sup>*\<^sup>* empty_store db" "put_packet cfg t p extra db = Inr (q, db')"
    and "find_packet db (packet_id p) = None" "\<And>b. (payload_sha256 p, b) \<in> set (bodies db) \<Longrightarrow> b = payload p"
    and "pinned_by p \<noteq> None \<and> pinned_by p \<noteq> Some [] \<or> expires_at p = None \<or> (\<exists>e. expires_at p = Some e \<and> iso_epoch (wire cfg) e > t')"
    and "permitted cfg (access_scope p) scope (sources_pv (meta_of p))"
  shows "lookup cfg t' (packet_id p) scope db' = Inr (Ok p) \<and> lookup cfg t' (pk_alias p) scope db' = Inr (Ok p)"
  using put_packet_fresh_lookup [OF store.reachable_inv [OF assms(1)] assms(2-6)] by simp

section \<open>Retention\<close>

lemma fold_drop_owner:
  "retention (fold (\<lambda>r. drop_owner (rt_owner r)) rs db) = filter (\<lambda>s. rt_owner s \<notin> rt_owner ` set rs) (retention db)"
  by (induction rs arbitrary: db) (auto simp: drop_owner_def delete_pins_def intro!: filter_cong)

lemma recent_rows:
  fixes n :: nat
  assumes dk: "distinct (map rt_owner R)"
  defines "T \<equiv> rev (sort_key (\<lambda>r. (rt_updated r, rt_owner r)) (filter rt_terminal R))"
  defines "R' \<equiv> filter (\<lambda>s. rt_owner s \<notin> rt_owner ` set (drop n T)) R"
  shows "length (filter rt_terminal R') \<le> n \<and> filter (\<lambda>r. \<not> rt_terminal r) R' = filter (\<lambda>r. \<not> rt_terminal r) R"
proof -
  have dd: "distinct (filter rt_terminal R')" using dk by (simp add: R'_def distinct_map)
  have T: "set T = set (filter rt_terminal R)" by (simp add: T_def)
  have "set (filter rt_terminal R') \<subseteq> set (take n T)"
  proof
    fix x assume "x \<in> set (filter rt_terminal R')"
    then have "x \<in> set T" "x \<notin> set (drop n T)" by (auto simp: R'_def T)
    then show "x \<in> set (take n T)" by (metis UnE append_take_drop_id set_append)
  qed
  then have "card (set (filter rt_terminal R')) \<le> card (set (take n T))" by (simp add: card_mono)
  also have "\<dots> \<le> n" using card_length [of "take n T"] by simp
  finally have bound: "length (filter rt_terminal R') \<le> n" by (simp only: distinct_card [OF dd])
  have "rt_owner x \<notin> rt_owner ` set (drop n T)" if x: "x \<in> set R" "\<not> rt_terminal x" for x
  proof
    assume "rt_owner x \<in> rt_owner ` set (drop n T)"
    then obtain y where y: "y \<in> set T" "rt_owner y = rt_owner x" by (auto dest: in_set_dropD)
    then have "y \<in> set R" "rt_terminal y" by (simp_all add: T)
    with dk x y show False by (metis distinct_map inj_onD)
  qed
  then have "filter (\<lambda>r. \<not> rt_terminal r) R' = filter (\<lambda>r. \<not> rt_terminal r) R"
    unfolding R'_def filter_filter by (intro filter_cong) auto
  with bound show ?thesis by simp
qed

text \<open>
  Retaining a job keeps at most the configured number of finished jobs, the most recent ones, and no job
  that is not finished is dropped.
\<close>

theorem retain_job_bounded:
  assumes keys: "distinct (map rt_owner (retention db))" and res: "retain_job cfg t owner refs terminal db = Inr db'"
  shows "length (filter rt_terminal (retention db')) \<le> recent_terminal_limit cfg \<and>
    filter (\<lambda>r. \<not> rt_terminal r) (retention db') =
      filter (\<lambda>r. \<not> rt_terminal r) (filter (\<lambda>r. rt_owner r \<noteq> owner) (retention db) @ [\<lparr>rt_owner = owner, rt_terminal = terminal, rt_updated = t\<rparr>])"
proof -
  let ?new = "\<lparr>rt_owner = owner, rt_terminal = terminal, rt_updated = t\<rparr>" and ?n = "recent_terminal_limit cfg"
  from res obtain db1 where db1: "pin_refs cfg t owner refs db = Inr db1"
    and db': "db' = fold (\<lambda>r. drop_owner (rt_owner r)) (stale_retention ?n (replace_retention ?new db1)) (replace_retention ?new db1)"
    by (auto simp: retain_job_def bindR_eq_Inr Let_def)
  have "retention db1 = retention db"
    using db1 by (induction refs arbitrary: db) (auto split: option.splits if_splits)
  then have R: "retention (replace_retention ?new db1) = filter (\<lambda>r. rt_owner r \<noteq> owner) (retention db) @ [?new]" (is "_ = ?R")
    by (simp add: replace_retention_def)
  have "distinct (map rt_owner ?R)" using keys by (auto simp: distinct_map_filter)
  from recent_rows [OF this, of ?n] show ?thesis
    by (simp only: db' fold_drop_owner stale_retention_def R)
qed

section \<open>Notes\<close>

lemma find_note_replace: "find_note (replace_note n db) (nt_id n) = Some n"
proof -
  have "find (\<lambda>m. nt_id m = nt_id n) (filter (\<lambda>m. nt_id m \<noteq> nt_id n) ns @ [n]) = Some n" for ns
    by (induction ns) auto
  then show ?thesis by (simp add: find_note_def replace_note_def)
qed

lemma foreign_principal:
  "\<not> py_eq (dget (nt_scope n) ''principal'') (dget scope ''principal'') \<Longrightarrow> \<not> note_readable cfg scope n"
  by (simp add: note_readable_def note_scope_allows_def)

text \<open>
  A note keeps the scope it was created with: an update needs that scope's permission, and keeps it and
  the time of creation whatever scope the request brings.  A reader of another principal than the
  note's cannot read, list or delete it.
\<close>

theorem note_original_scope:
  assumes put: "put_note cfg t v scope db = Inr (d, db')"
  shows "\<exists>n. find_note db' (str_of (dget d ''note_id'')) = Some n \<and> nt_record n = d \<and>
    nt_scope n = (case find_note db (str_of (dget d ''note_id'')) of None \<Rightarrow> scope | Some prior \<Rightarrow> nt_scope prior) \<and>
    (\<forall>prior. find_note db (str_of (dget d ''note_id'')) = Some prior \<longrightarrow>
       nt_created n = nt_created prior \<and> note_scope_allows cfg (nt_scope prior) scope (note_sources prior)) \<and>
    (\<forall>other. \<not> py_eq (dget (nt_scope n) ''principal'') (dget other ''principal'') \<longrightarrow>
       get_note cfg (str_of (dget d ''note_id'')) other db' = None \<and>
       delete_note cfg (str_of (dget d ''note_id'')) other db' = (False, db'))"
  using put [unfolded put_note_def]
proof (rule put_note_record_cases)
  fix i project stored created
  assume i: "i = str_of (dget d ''note_id'')"
    and new: "find_note db i = None \<Longrightarrow> stored = scope \<and> created = t \<and>
       length (filter (\<lambda>n. nt_project n = project \<and> nt_id n \<noteq> i) (knowledge_notes db)) < MAX_NOTES_PER_PROJECT"
    and old: "\<And>prior. find_note db i = Some prior \<Longrightarrow> stored = nt_scope prior \<and> created = nt_created prior \<and> nt_project prior = project \<and>
       note_scope_allows cfg (nt_scope prior) scope (note_sources prior) \<and> dget scope ''project'' = PStr project"
    and db': "db' = replace_note \<lparr>nt_id = i, nt_project = project, nt_record = d, nt_scope = stored, nt_created = created,
       nt_updated = t\<rparr> (note_pins (''note:'' @ i) (evidence_ids d) db)"
  let ?n = "\<lparr>nt_id = i, nt_project = project, nt_record = d, nt_scope = stored, nt_created = created, nt_updated = t\<rparr>"
  have f: "find_note db' i = Some ?n" unfolding db' using find_note_replace [of ?n] by simp
  have "stored = (case find_note db i of None \<Rightarrow> scope | Some prior \<Rightarrow> nt_scope prior)"
    using new old by (cases "find_note db i") auto
  with f old show ?thesis unfolding i [symmetric]
    by (intro exI [of _ ?n]) (auto simp: get_note_def delete_note_def foreign_principal)
qed

text \<open>
  The evidence of a note is safe from collection: after a note was stored every packet it cites is
  pinned for it, and no collection at any time marks one of them expired.
\<close>

theorem note_evidence_kept:
  assumes reach: "(packet_step cfg)\<^sup>*\<^sup>* empty_store db" and put: "put_note cfg t v scope db = Inr (d, db')"
    and i: "i \<in> set (evidence_ids d)"
  shows "(''note:'' @ str_of (dget d ''note_id''), i) \<in> set (pins db') \<and>
    (\<exists>r \<in> set (packets (snd (gc cfg t' db'))). row_id r = i \<and> \<not> row_expired r)"
proof -
  have ok: "store_ok cfg db" by (rule store.reachable_inv [OF reach])
  have ok': "store_ok cfg (snd (gc cfg t' db'))"
    using put_note_record_ok [OF ok put [unfolded put_note_def]] by (simp add: gc_ok)
  obtain n where ev: "validate_note_evidence cfg t db d scope = Inr (evidence_ids d)"
    and db': "db' = replace_note n (note_pins (''note:'' @ str_of (dget d ''note_id'')) (evidence_ids d) db)"
    using put [unfolded put_note_def] by (rule put_note_record_cases) blast
  from note_pins_facts(4) [OF ok validate_note_evidence_alive(2) [OF ev]] i
  have "(''note:'' @ str_of (dget d ''note_id''), i) \<in> set (pins db')" by (simp add: db' replace_note_def)
  moreover from this have "\<exists>r \<in> set (packets (snd (gc cfg t' db'))). row_id r = i \<and> \<not> row_expired r"
    using store_okD(8) [OF ok'] unfolding pinned_alive_def gc_pins by fastforce
  ultimately show ?thesis by blast
qed

text \<open>The tables of notes that the store can reach.\<close>

definition notes_ok :: "packet_db \<Rightarrow> bool" where
  "notes_ok db \<longleftrightarrow> distinct (map nt_id (knowledge_notes db)) \<and>
     (\<forall>project. length (filter (\<lambda>n. nt_project n = project) (knowledge_notes db)) \<le> MAX_NOTES_PER_PROJECT)"

lemma pin_refs_notes: "pin_refs cfg t owner refs db = Inr db' \<Longrightarrow> knowledge_notes db' = knowledge_notes db"
  by (induction refs arbitrary: db) (auto split: option.splits if_splits)

lemma fold_pins_notes:
  "knowledge_notes (fold (\<lambda>(owner, i). insert_pin owner i) ps db) = knowledge_notes db"
  "knowledge_notes (fold delete_pins owners db) = knowledge_notes db"
  by (induction ps arbitrary: db, auto) (induction owners arbitrary: db, auto)

lemma fold_drop_notes: "knowledge_notes (fold (\<lambda>r. drop_owner (rt_owner r)) rs db) = knowledge_notes db"
  by (induction rs arbitrary: db) (auto simp: drop_owner_def)

lemma put_packet_notes:
  assumes "put_packet cfg t p extra db = Inr (q, db')"
  shows "knowledge_notes db' = knowledge_notes db"
  using assms by (cases rule: put_packet_cases) (simp_all add: fold_insert_pin_owner fold_pins_notes insert_body_def)

lemma note_pins_notes: "knowledge_notes (note_pins owner refs db) = knowledge_notes db"
  by (simp add: note_pins_eq fold_pins_notes)

lemma put_note_record_notes:
  assumes ok: "notes_ok db" and put: "put_note_record cfg t user_goal v scope db = Inr (d, db')"
  shows "notes_ok db'"
  using put
proof (rule put_note_record_cases)
  fix i project stored created
  assume new: "find_note db i = None \<Longrightarrow> stored = scope \<and> created = t \<and>
       length (filter (\<lambda>n. nt_project n = project \<and> nt_id n \<noteq> i) (knowledge_notes db)) < MAX_NOTES_PER_PROJECT"
    and old: "\<And>prior. find_note db i = Some prior \<Longrightarrow> stored = nt_scope prior \<and> created = nt_created prior \<and> nt_project prior = project \<and>
       note_scope_allows cfg (nt_scope prior) scope (note_sources prior) \<and> dget scope ''project'' = PStr project"
    and db': "db' = replace_note \<lparr>nt_id = i, nt_project = project, nt_record = d, nt_scope = stored, nt_created = created,
       nt_updated = t\<rparr> (note_pins (''note:'' @ i) (evidence_ids d) db)"
  let ?ns = "knowledge_notes db" and ?n = "\<lparr>nt_id = i, nt_project = project, nt_record = d, nt_scope = stored, nt_created = created, nt_updated = t\<rparr>"
  have ns: "knowledge_notes db' = filter (\<lambda>m. nt_id m \<noteq> i) ?ns @ [?n]"
    by (simp add: db' replace_note_def note_pins_notes)
  have d: "distinct (map nt_id (knowledge_notes db'))" using ok by (auto simp: ns notes_ok_def distinct_map_filter)
  have others: "length (filter (\<lambda>n. nt_project n = project \<and> nt_id n \<noteq> i) ?ns) < MAX_NOTES_PER_PROJECT"
  proof (cases "find_note db i")
    case (Some prior)
    then have p: "prior \<in> set ?ns" "nt_id prior = i" unfolding find_note_def by (auto dest!: find_SomeD)
    have "nt_project prior = project" using old [OF Some] by simp
    with p have "length (filter (\<lambda>n. nt_id n \<noteq> i) (filter (\<lambda>n. nt_project n = project) ?ns)) <
        length (filter (\<lambda>n. nt_project n = project) ?ns)"
      by (intro length_filter_less [of prior]) auto
    also have "\<dots> \<le> MAX_NOTES_PER_PROJECT" using ok by (simp add: notes_ok_def)
    finally show ?thesis by (simp add: conj_commute)
  qed (use new in simp)
  have "length (filter (\<lambda>n. nt_project n = q) (knowledge_notes db')) \<le> MAX_NOTES_PER_PROJECT" for q
  proof (cases "q = project")
    case True
    with others show ?thesis by (simp add: ns conj_commute)
  next
    case False
    then have "filter (\<lambda>n. nt_project n = q) (knowledge_notes db') = filter (\<lambda>m. nt_id m \<noteq> i) (filter (\<lambda>n. nt_project n = q) ?ns)"
      by (auto simp: ns intro!: filter_cong)
    then have "length (filter (\<lambda>n. nt_project n = q) (knowledge_notes db')) \<le> length (filter (\<lambda>n. nt_project n = q) ?ns)"
      by (simp only: length_filter_le)
    also have "\<dots> \<le> MAX_NOTES_PER_PROJECT" using ok by (simp add: notes_ok_def)
    finally show ?thesis .
  qed
  with d show "notes_ok db'" by (simp add: notes_ok_def)
qed

lemma notes_ok_cong: "knowledge_notes db' = knowledge_notes db \<Longrightarrow> notes_ok db \<Longrightarrow> notes_ok db'"
  by (simp add: notes_ok_def)

lemma delete_note_notes: "notes_ok db \<Longrightarrow> notes_ok (snd (delete_note cfg i scope db))"
proof -
  have sub: "length (filter (\<lambda>x. nt_id x \<noteq> i \<and> P x) ns) \<le> length (filter P ns)" for P ns
    by (induction ns) auto
  assume "notes_ok db"
  then show ?thesis unfolding notes_ok_def delete_note_def
    by (auto simp: distinct_map_filter split: option.splits intro: le_trans [OF sub])
qed

lemma packet_step_notes: "packet_step cfg db db' \<Longrightarrow> notes_ok db \<Longrightarrow> notes_ok db'"
proof (induction rule: packet_step.induct)
  case (ps_put t p extra db q db') then show ?case by (blast intro: notes_ok_cong put_packet_notes)
next
  case (ps_create uuids names t rq db q db') then show ?case by (blast dest: create_put intro: notes_ok_cong put_packet_notes)
next
  case (ps_pin t owner refs db db') then show ?case by (blast intro: notes_ok_cong pin_refs_notes)
next
  case (ps_retain t owner refs terminal db db')
  then have "knowledge_notes db' = knowledge_notes db"
    by (auto simp: retain_job_def bindR_eq_Inr Let_def fold_drop_notes replace_retention_def dest: pin_refs_notes)
  then show ?case using ps_retain by (blast intro: notes_ok_cong)
next
  case (ps_reconcile t retained owners db db')
  then have "knowledge_notes db' = knowledge_notes db"
    by (auto simp: reconcile_retention_def bindR_eq_Inr fold_pins_notes)
  then show ?case using ps_reconcile by (blast intro: notes_ok_cong)
next
  case (ps_note t v scope db d db') then show ?case unfolding put_note_def by (blast intro: put_note_record_notes)
next
  case (ps_goal t v scope db d db') then show ?case unfolding put_user_goal_def by (blast intro: put_note_record_notes)
next
  case (ps_delete db i scope) then show ?case by (rule delete_note_notes)
qed (auto intro: notes_ok_cong simp: unpin_def gc_def Let_def)

interpretation notebook: transition_system empty_store "packet_step cfg" notes_ok for cfg
proof unfold_locales
  show "notes_ok empty_store" by (simp add: notes_ok_def empty_store_def)
qed (rule packet_step_notes)

text \<open>
  No project ever has more than 128 notes, and no two notes have the same identifier, in any store that
  the operations can reach.
\<close>

theorem notes_bounded:
  assumes reach: "(packet_step cfg)\<^sup>*\<^sup>* empty_store db"
  shows "length (filter (\<lambda>n. nt_project n = project) (knowledge_notes db)) \<le> 128 \<and> distinct (map nt_id (knowledge_notes db))"
  using notebook.reachable_inv [OF reach] by (auto simp: notes_ok_def MAX_NOTES_PER_PROJECT_def)

section \<open>A demonstration store\<close>

definition demo_wire :: wire_env where
  "demo_wire = \<lparr>json_digest = (\<lambda>_. replicate 64 CHR ''0''), json_bytes = (\<lambda>_. 10), iso_accepts = (\<lambda>_. True),
     iso_epoch = (\<lambda>_. 100), iso_format = (\<lambda>_. ''2024-01-01T00:00:00Z'')\<rparr>"

definition demo_cfg :: store_cfg where
  "demo_cfg = \<lparr>wire = demo_wire, authority_access = None, recent_terminal_limit = 1, max_payload_bytes = 100\<rparr>"

definition demo_scope :: pdict where
  "demo_scope = [(''project'', PStr ''p''), (''principal'', PStr ''ann'')]"

definition demo_packet :: information_packet where
  "demo_packet = \<lparr>packet_id = ''pkt_0001'', pk_alias = ''amber-birch'', created_at = ''2024-01-01T00:00:00Z'', tool = ''search'',
     payload_sha256 = replicate 64 CHR ''0'', sources = [], parents = [], access_scope = demo_scope,
     expires_at = Some ''2024-01-02T00:00:00Z'', freshness = None, omissions = None, pinned_by = None,
     payload = [(''n'', PInt 1)]\<rparr>"

definition demo_store :: packet_db where
  "demo_store = empty_store\<lparr>bodies := [(replicate 64 CHR ''0'', [(''n'', PInt 1)])], packets := [new_row demo_packet []]\<rparr>"

lemma demo_put: "put_packet demo_cfg 50 demo_packet [] empty_store = Inr (demo_packet, demo_store)"
  by code_simp

lemma demo_store_reachable: "(packet_step demo_cfg)\<^sup>*\<^sup>* empty_store demo_store"
  by (rule r_into_rtranclp) (rule ps_put [OF demo_put])

end
