(* ===== verification/PacketDemo.thy ===== *)
theory PacketDemo
  imports PacketMachine
begin

text \<open>The theorems about the packet store at the demonstration store, which holds one packet.\<close>

definition demo_collected :: packet_db where
  "demo_collected = snd (gc demo_cfg 50 demo_store)"

definition demo_read :: information_packet where
  "demo_read = (case lookup demo_cfg 70 ''pkt_0001'' demo_scope demo_collected of
     Inr (Ok q) \<Rightarrow> q | _ \<Rightarrow> demo_packet\<lparr>tool := ''none''\<rparr>)"

lemma demo_lookups:
  "lookup demo_cfg 60 ''pkt_0001'' demo_scope demo_store = Inr (Ok demo_packet)"
  "lookup demo_cfg 70 ''pkt_0001'' demo_scope demo_collected = Inr (Ok demo_read)"
  "lookup demo_cfg 60 ''amber-birch'' demo_scope demo_store = Inr (Ok demo_packet)"
  by code_simp+

text \<open>C18 at the demonstration store, read by its alias after a collection.\<close>

theorem gc_transparent_witness:
  "lookup demo_cfg 60 ''amber-birch'' demo_scope (snd (gc demo_cfg 50 demo_store)) = Inr (Ok demo_packet)"
proof -
  have "(50::real) \<le> 60" by simp
  from gc_transparent [OF demo_store_reachable this, of "''amber-birch''" demo_scope] show ?thesis
    by (simp add: demo_lookups(3))
qed

text \<open>C20 at the demonstration store, with its packet read by alias.\<close>

theorem packet_lookup_sound_witness:
  "permitted demo_cfg (access_scope demo_packet) demo_scope (sources_pv (meta_of demo_packet)) \<and>
   canonical_digest demo_wire (PDict (payload demo_packet)) = Inr (payload_sha256 demo_packet)"
proof -
  have "wire demo_cfg = demo_wire" by (simp add: demo_cfg_def)
  then show ?thesis
    using packet_lookup_sound [OF demo_store_reachable, of 60 "''amber-birch''" demo_scope] by (simp add: demo_lookups(3))
qed

text \<open>C19 at the demonstration store before and after a collection.\<close>

theorem reference_never_rebound_witness: "meta_of demo_read = meta_of demo_packet"
proof -
  have "(packet_step demo_cfg)\<^sup>*\<^sup>* demo_store demo_collected"
    unfolding demo_collected_def by (rule r_into_rtranclp) (rule ps_gc)
  from reference_never_rebound [OF demo_store_reachable this demo_lookups(1,2)] show ?thesis .
qed

text \<open>C35 at the packet of the demonstration store.\<close>

theorem packet_roundtrip_witness:
  "lookup demo_cfg 60 (packet_id demo_packet) demo_scope demo_store = Inr (Ok demo_packet)"
proof -
  have "find_packet empty_store (packet_id demo_packet) = None" by code_simp
  moreover have "permitted demo_cfg (access_scope demo_packet) demo_scope (sources_pv (meta_of demo_packet))" by code_simp
  moreover have "expires_at demo_packet = Some ''2024-01-02T00:00:00Z''" "iso_epoch (wire demo_cfg) ''2024-01-02T00:00:00Z'' > 60"
    by (simp_all add: demo_packet_def demo_cfg_def demo_wire_def)
  ultimately show ?thesis
    using packet_roundtrip [OF rtranclp.rtrancl_refl demo_put, of 60 demo_scope] by (auto simp: empty_store_def)
qed

text \<open>C21 at the demonstration store, with room for one finished job.\<close>

definition demo_retained :: packet_db where
  "demo_retained = (case retain_job demo_cfg 60 ''job'' [''amber-birch''] True demo_store of Inl _ \<Rightarrow> demo_store | Inr db \<Rightarrow> db)"

theorem retain_job_bounded_witness:
  "length (filter rt_terminal (retention demo_retained)) \<le> 1 \<and> demo_retained \<noteq> demo_store"
proof -
  have r: "retain_job demo_cfg 60 ''job'' [''amber-birch''] True demo_store = Inr demo_retained" by code_simp
  have "distinct (map rt_owner (retention demo_store))" by code_simp
  from retain_job_bounded [OF this r] have "length (filter rt_terminal (retention demo_retained)) \<le> 1"
    by (simp add: demo_cfg_def)
  moreover have "pins demo_retained \<noteq> pins demo_store" by code_simp
  ultimately show ?thesis by auto
qed

section \<open>A note\<close>

definition demo_note :: pv where
  "demo_note = PDict [(''note_id'', PStr ''n1''), (''project'', PStr ''p''), (''kind'', PStr ''fact''), (''claim'', PStr ''c''),
     (''reason_matters'', PStr ''r''), (''provenance'', PStr ''model''), (''evidence_packets'', PList [PStr ''pkt_0001''])]"

definition demo_noted :: "pdict \<times> packet_db" where
  "demo_noted = (case put_note demo_cfg 60 demo_note demo_scope demo_store of Inl _ \<Rightarrow> ([], demo_store) | Inr x \<Rightarrow> x)"

lemma demo_put_note: "put_note demo_cfg 60 demo_note demo_scope demo_store = Inr (fst demo_noted, snd demo_noted)"
  by code_simp

text \<open>At the demonstration store, where another principal asks for the note.\<close>

theorem note_original_scope_witness:
  "\<exists>n. find_note (snd demo_noted) ''n1'' = Some n \<and> nt_scope n = demo_scope"
proof -
  have i: "str_of (dget (fst demo_noted) ''note_id'') = ''n1''" and "find_note demo_store ''n1'' = None" by code_simp+
  then show ?thesis using note_original_scope [OF demo_put_note] by auto
qed

text \<open>The demonstration store, long after the packet's own time.\<close>

theorem note_evidence_kept_witness:
  "\<exists>r \<in> set (packets (snd (gc demo_cfg 5000 (snd demo_noted)))). row_id r = ''pkt_0001'' \<and> \<not> row_expired r"
proof -
  have "''pkt_0001'' \<in> set (evidence_ids (fst demo_noted))" by code_simp
  from note_evidence_kept [OF demo_store_reachable demo_put_note this] show ?thesis by blast
qed

text \<open>C34 at the demonstration store with its note.\<close>

theorem notes_bounded_witness: "length (filter (\<lambda>n. nt_project n = ''p'') (knowledge_notes (snd demo_noted))) \<le> 128"
proof -
  have "(packet_step demo_cfg)\<^sup>*\<^sup>* empty_store (snd demo_noted)"
    using demo_store_reachable ps_note [OF demo_put_note] by (rule rtranclp.rtrancl_into_rtrancl)
  from notes_bounded [OF this] show ?thesis by blast
qed

end
