(* ===== verification/Preledger.thy ===== *)
theory Preledger
  imports PacketContracts "HOL-Library.AList"
begin

text \<open>
  \<^verbatim>\<open>src/src/project_control/preledger.py\<close>: the compiler from a pre-ledger package to a native Todo plan
  for one repository.  The package directory is an argument: which files there are, their decoded
  JSON or CSV, their lines and digests.  Messages keep their text but not the values they quote.
\<close>

section \<open>The package\<close>

record csv_table =
  csv_header :: "string list"
  csv_rows :: "(string \<times> string option) list list"

record package =
  pk_is_dir :: bool
  pk_norm :: "string \<Rightarrow> string"       \<comment> \<open>the resolved path below the root\<close>
  pk_inside :: "string \<Rightarrow> bool"
  pk_is_file :: "string \<Rightarrow> bool"
  pk_json :: "string \<Rightarrow> pv result"
  pk_csv :: "string \<Rightarrow> csv_table result"
  pk_lines :: "string \<Rightarrow> string list"
  pk_sha256 :: "string \<Rightarrow> string"
  json_text :: "pv \<Rightarrow> string"
  text_sha256 :: "string \<Rightarrow> string"

abbreviation perr :: "string \<Rightarrow> exn" where
  "perr \<equiv> PreledgerError"

definition package_file :: "package \<Rightarrow> pv \<Rightarrow> string \<Rightarrow> string result" where
  "package_file pk reference label =
     (case reference of
        PStr ref \<Rightarrow>
          bindR (raise_if (strip ref = []) (perr (label @ '' must be a non-empty relative file name''))) (\<lambda>_.
          bindR (raise_if (startswith ref ''/'' \<or> ''..'' \<in> set (split_on CHR ''/'' ref))
                   (perr (label @ '' must stay within the package directory''))) (\<lambda>_.
          bindR (raise_if (\<not> pk_inside pk ref) (perr (label @ '' must stay within the package directory''))) (\<lambda>_.
          bindR (raise_if (\<not> pk_is_file pk ref) (perr (''missing '' @ label @ '': '' @ ref))) (\<lambda>_.
          Inr (pk_norm pk ref)))))
      | _ \<Rightarrow> Inl (perr (label @ '' must be a non-empty relative file name'')))"

definition records :: "pv \<Rightarrow> string list \<Rightarrow> string \<Rightarrow> pdict list result" where
  "records v names label =
     (let rs = (case v of
          PList _ \<Rightarrow> v
        | PDict d \<Rightarrow> (case find (has_key d) names of None \<Rightarrow> PNone | Some k \<Rightarrow> dget d k)
        | _ \<Rightarrow> PNone)
      in case rs of
           PList xs \<Rightarrow>
             bindR (raise_if (\<not> list_all is_dict xs) (perr (label @ '' records must be JSON objects''))) (\<lambda>_.
             Inr (map (\<lambda>x. case x of PDict d \<Rightarrow> d | _ \<Rightarrow> []) xs))
         | _ \<Rightarrow> Inl (perr (label @ '' must be an array or contain an array named '' @ hd names)))"

section \<open>The manifest\<close>

definition is_hex_any :: "char \<Rightarrow> bool" where
  "is_hex_any c \<longleftrightarrow> is_digit c \<or> to_lower c \<in> set ''abcdef''"

text \<open>\<^verbatim>\<open>([0-9a-fA-F]{64})\s+\*?(.+)\<close> on a stripped line\<close>

definition manifest_entry :: "string \<Rightarrow> (string \<times> string) option" where
  "manifest_entry line =
     (let h = take 64 line; r = drop 64 line; s = dropWhile is_space r
      in if length h = 64 \<and> list_all is_hex_any h \<and> takeWhile is_space r \<noteq> [] \<and> s \<noteq> []
         then Some (h, if hd s = CHR ''*'' \<and> tl s \<noteq> [] then tl s else s) else None)"

fun manifest_lines :: "package \<Rightarrow> string list \<Rightarrow> nat \<Rightarrow> nat result" where
  "manifest_lines pk [] seen = Inr seen"
| "manifest_lines pk (raw # rest) seen =
     (let line = strip raw in
      if line = [] \<or> startswith line ''#'' then manifest_lines pk rest seen
      else (case manifest_entry line of
              None \<Rightarrow> Inl (perr ''invalid manifest entry'')
            | Some (expected, ref) \<Rightarrow>
                bindR (package_file pk (PStr (strip ref)) ''manifest entry'') (\<lambda>path.
                bindR (raise_if (lower (pk_sha256 pk path) \<noteq> lower expected)
                         (perr (''manifest hash mismatch for '' @ strip ref))) (\<lambda>_.
                manifest_lines pk rest (Suc seen)))))"

definition validate_manifest :: "package \<Rightarrow> string \<Rightarrow> unit result" where
  "validate_manifest pk path =
     bindR (manifest_lines pk (pk_lines pk path) 0) (\<lambda>seen.
     raise_if (seen = 0) (perr (''manifest contains no file hashes: '' @ path)))"

definition COMPILER_VERSION :: int where "COMPILER_VERSION = 2"

definition semantic_digest :: "package \<Rightarrow> string list \<Rightarrow> string" where
  "semantic_digest pk files =
     text_sha256 pk (json_text pk (PDict
       [(''compiler_version'', PInt COMPILER_VERSION),
        (''semantic_files'', PList (map (\<lambda>f. PDict [(''path'', PStr f), (''sha256'', PStr (pk_sha256 pk f))])
           (sorted_set files)))]) @ [CHR 0x0A])"

section \<open>Fields\<close>

definition nonempty_string :: "pdict \<Rightarrow> string \<Rightarrow> string \<Rightarrow> string result" where
  "nonempty_string d field task =
     (case dget d field of
        PStr s \<Rightarrow> if strip s = [] then Inl (perr (''task '' @ task @ '' requires non-empty '' @ field)) else Inr (strip s)
      | _ \<Rightarrow> Inl (perr (''task '' @ task @ '' requires non-empty '' @ field)))"

fun flatten_strings :: "pv \<Rightarrow> string list" where
  "flatten_strings (PStr s) = [s]"
| "flatten_strings (PList xs) = concat (map flatten_strings xs)"
| "flatten_strings _ = []"

definition scope_paths :: "pv \<Rightarrow> string list \<Rightarrow> string list" where
  "scope_paths v names =
     (case v of PDict d \<Rightarrow> concat (map (\<lambda>k. flatten_strings (dget d k)) names) | _ \<Rightarrow> flatten_strings v)"

definition clean_path :: "string \<Rightarrow> string" where
  "clean_path value =
     (let n = strip value
      in if startswith n ''[proposed] '' then strip (drop (length ''[proposed] '') n) else n)"

definition clean_paths :: "string list \<Rightarrow> string list" where
  "clean_paths values = sorted_set (filter (\<lambda>p. p \<noteq> []) (map clean_path (filter (\<lambda>v. strip v \<noteq> []) values)))"

text \<open>\<^verbatim>\<open>value.replace(pattern, '', 1)\<close>\<close>

fun remove_first :: "string \<Rightarrow> string \<Rightarrow> string" where
  "remove_first pat [] = []"
| "remove_first pat (c # cs) =
     (if startswith (c # cs) pat then drop (length pat) (c # cs) else c # remove_first pat cs)"

definition explicit_source_paths :: "string list \<Rightarrow> string list" where
  "explicit_source_paths values =
     clean_paths (filter (\<lambda>v. strip v \<noteq> [] \<and> \<not> list_ex is_space (remove_first ''[proposed] '' v)) values)"

definition ID_KEYS :: "string list" where
  "ID_KEYS = [''task_id'', ''prerequisite_task_id'', ''checkpoint_id'', ''id'']"

lemma size_dget: "has_key d k \<Longrightarrow> size (dget d k) < size (PDict d)"
proof -
  assume "has_key d k"
  then obtain v where v: "map_of d k = Some v" by (auto simp: has_key_def)
  then have "(k, v) \<in> set d" by (rule map_of_SomeD)
  then have "size v < Suc (size_list (\<lambda>p. size (snd p)) d)"
    by (induction d) auto
  moreover have "size_list (\<lambda>p. size (snd p)) d \<le> size_list (size_prod (\<lambda>_. 0) size) d"
    by (rule size_list_pointwise) (auto simp: size_prod_def split: prod.splits)
  ultimately show ?thesis using v by (simp add: dget_def dget_or_def)
qed

function dependency_ids :: "pv \<Rightarrow> string list" where
  "dependency_ids PNone = []"
| "dependency_ids (PStr s) = (if strip s = [] then [] else [strip s])"
| "dependency_ids (PList xs) = concat (map dependency_ids xs)"
| "dependency_ids (PDict d) =
     (case find (has_key d) ID_KEYS of None \<Rightarrow> [] | Some k \<Rightarrow> dependency_ids (dget d k))"
| "dependency_ids (PBool b) = []"
| "dependency_ids (PInt i) = []"
| "dependency_ids (PFloat f) = []"
  by pat_completeness auto
termination
proof (relation "measure size")
  fix xs :: "pv list" and z assume "z \<in> set xs"
  then show "(z, PList xs) \<in> measure size" by (induction xs) auto
next
  fix d :: pdict and k assume "find (has_key d) ID_KEYS = Some k"
  then have "has_key d k" by (rule find_SomeD [THEN conjunct2])
  then show "(dget d k, PDict d) \<in> measure size" using size_dget by simp
qed simp

definition produced_checkpoints :: "pdict \<Rightarrow> string list" where
  "produced_checkpoints task = dependency_ids (dget task ''produces_checkpoint'')"

section \<open>Dependency indexes\<close>

definition first_in :: "string list \<Rightarrow> string list \<Rightarrow> string option" where
  "first_in names header = find (\<lambda>n. n \<in> set header) names"

definition COLUMN_PAIRS :: "(string list \<times> string list) list" where
  "COLUMN_PAIRS =
    [([''task_id'', ''dependent_task_id'', ''consumer_task_id'', ''consumer_task''],
      [''prerequisite_task_id'', ''dependency_id'', ''depends_on'', ''producer_task'']),
     ([''to_task_id'', ''target_task_id'', ''to_id''], [''from_task_id'', ''source_task_id'', ''from_id''])]"

definition choose_columns :: "string list \<Rightarrow> (string \<times> string) option" where
  "choose_columns header =
     (case find (\<lambda>(l, r). first_in l header \<noteq> None \<and> first_in r header \<noteq> None) COLUMN_PAIRS of
        None \<Rightarrow> None
      | Some (l, r) \<Rightarrow> Some (the (first_in l header), the (first_in r header)))"

text \<open>\<^verbatim>\<open>(row.get(column) or '').strip()\<close>\<close>

definition csv_cell :: "(string \<times> string option) list \<Rightarrow> string \<Rightarrow> string" where
  "csv_cell row column = (case map_of row column of Some (Some v) \<Rightarrow> strip v | _ \<Rightarrow> [])"

definition csv_pair ::
  "string \<Rightarrow> string \<Rightarrow> string \<Rightarrow> (string \<times> string option) list \<Rightarrow> (string \<times> string) result" where
  "csv_pair msg dcol pcol row =
     bindR (raise_if (csv_cell row dcol = [] \<or> csv_cell row pcol = []) (perr msg)) (\<lambda>_.
     Inr (csv_cell row dcol, csv_cell row pcol))"

definition csv_dependencies :: "package \<Rightarrow> string \<Rightarrow> ((string \<times> string) list \<times> bool) result" where
  "csv_dependencies pk path =
     bindR (pk_csv pk path) (\<lambda>table.
     bindR (raise_if (csv_header table = []) (perr (''dependency index has no header: '' @ path))) (\<lambda>_.
     case choose_columns (csv_header table) of
       None \<Rightarrow> Inl (perr (''unsupported dependency index columns in '' @ path))
     | Some (d, p) \<Rightarrow>
         bindR (mapR (csv_pair (''empty dependency at '' @ path) d p) (csv_rows table)) (\<lambda>pairs.
         Inr (pairs, d = ''consumer_task'' \<and> p = ''producer_task''))))"

definition csv_external_dependencies :: "package \<Rightarrow> string \<Rightarrow> (string \<times> string) list result" where
  "csv_external_dependencies pk path =
     bindR (pk_csv pk path) (\<lambda>table.
     bindR (raise_if (\<not> {''checkpoint_interface_or_receipt'', ''consumer_task''} \<subseteq> set (csv_header table))
              (perr (''unsupported external dependency columns in '' @ path))) (\<lambda>_.
     mapR (csv_pair (''empty external dependency at '' @ path) ''consumer_task'' ''checkpoint_interface_or_receipt'')
       (csv_rows table)))"

section \<open>Tasks\<close>

definition is_id_char :: "char \<Rightarrow> bool" where
  "is_id_char c \<longleftrightarrow> is_letter c \<or> is_digit c \<or> c \<in> set ''._:-''"

definition task_id_ok :: "string \<Rightarrow> bool" where
  "task_id_ok s = (case s of [] \<Rightarrow> False | c # cs \<Rightarrow> (is_letter c \<or> is_digit c) \<and> list_all is_id_char cs)"

record index_state =
  by_id :: "(string \<times> pdict) list"
  repository_by_id :: "(string \<times> string) list"
  checkpoint_owner :: "(string \<times> string) list"

fun claim_checkpoints :: "string \<Rightarrow> string list \<Rightarrow> (string \<times> string) list \<Rightarrow> (string \<times> string) list result" where
  "claim_checkpoints task [] owners = Inr owners"
| "claim_checkpoints task (c # cs) owners =
     (case map_of owners c of
        Some t \<Rightarrow> if t \<noteq> task then Inl (perr (''duplicate produced checkpoint id: '' @ c))
                 else claim_checkpoints task cs owners
      | None \<Rightarrow> claim_checkpoints task cs (owners @ [(c, task)]))"

definition index_task :: "pdict \<Rightarrow> index_state \<Rightarrow> index_state result" where
  "index_task task st =
     bindR (nonempty_string task ''id'' (str_of (dget task ''id''))) (\<lambda>i.
     bindR (raise_if (\<not> task_id_ok i) (perr (''task '' @ i @ '' has malformed id''))) (\<lambda>_.
     bindR (raise_if (i \<in> fst ` set (by_id st)) (perr (''duplicate task id: '' @ i))) (\<lambda>_.
     bindR (nonempty_string task ''title'' i) (\<lambda>_.
     bindR (nonempty_string task ''repository'' i) (\<lambda>repository.
     bindR (claim_checkpoints i (produced_checkpoints task) (checkpoint_owner st)) (\<lambda>owners.
     Inr \<lparr>by_id = by_id st @ [(i, task)], repository_by_id = repository_by_id st @ [(i, repository)],
          checkpoint_owner = owners\<rparr>))))))"

fun index_tasks :: "pdict list \<Rightarrow> index_state \<Rightarrow> index_state result" where
  "index_tasks [] st = Inr st"
| "index_tasks (task # tasks) st = bindR (index_task task st) (index_tasks tasks)"

definition selected_ids :: "index_state \<Rightarrow> string \<Rightarrow> string list" where
  "selected_ids st target = map fst (filter (\<lambda>p. snd p = target) (repository_by_id st))"

section \<open>Dependency pairs\<close>

type_synonym dep_pairs = "((string \<times> string) \<times> string list) list"

text \<open>\<^verbatim>\<open>dependency_pairs.setdefault(pair, set()).add(source)\<close>\<close>

fun add_source :: "string \<times> string \<Rightarrow> string \<Rightarrow> dep_pairs \<Rightarrow> dep_pairs" where
  "add_source p s [] = [(p, [s])]"
| "add_source p s ((q, ss) # rest) =
     (if q = p then (q, if s \<in> set ss then ss else ss @ [s]) # rest else (q, ss) # add_source p s rest)"

definition DEPENDENCY_FIELDS :: "string list" where
  "DEPENDENCY_FIELDS = [''builds_on'', ''prerequisite_tasks_or_checkpoints'', ''prerequisites'']"

definition task_pairs :: "(string \<times> pdict) list \<Rightarrow> ((string \<times> string) \<times> string) list" where
  "task_pairs tasks =
     concat (map (\<lambda>(i, task). concat (map (\<lambda>field.
       map (\<lambda>p. ((i, p), field)) (dependency_ids (dget task field))) DEPENDENCY_FIELDS)) tasks)"

definition local_pairs :: "(string \<times> pdict) list \<Rightarrow> dep_pairs" where
  "local_pairs tasks = fold (\<lambda>(p, s). add_source p s) (task_pairs tasks) []"

text \<open>The pairs of an index are added with its name; a pair that is new is a warning.\<close>

fun add_indexed :: "string \<Rightarrow> string \<Rightarrow> (string \<times> string) list \<Rightarrow> dep_pairs \<Rightarrow> string list \<Rightarrow> dep_pairs \<times> string list" where
  "add_indexed source msg [] dp ws = (dp, ws)"
| "add_indexed source msg (p # ps) dp ws =
     add_indexed source msg ps (add_source p source dp)
       (if p \<in> fst ` set dp then ws else ws @ [msg @ fst p @ '' -> '' @ snd p])"

definition use_dependency_index ::
  "package \<Rightarrow> string option \<Rightarrow> (string \<times> pdict) list \<Rightarrow> dep_pairs \<Rightarrow> (dep_pairs \<times> string list) result" where
  "use_dependency_index pk path tasks dp =
     (case path of
        None \<Rightarrow> Inr (dp, [])
      | Some f \<Rightarrow>
          bindR (csv_dependencies pk f) (\<lambda>(indexed, whole).
          let local = filter (\<lambda>p. fst p \<in> fst ` set tasks \<and> snd p \<in> fst ` set tasks) (map fst dp) in
          bindR (raise_if (whole \<and> set indexed \<noteq> set local)
                   (perr ''dependency index disagrees with task-local prerequisites'')) (\<lambda>_.
          Inr (add_indexed ''dependency_edges.csv'' ''dependency index supplemented task-local dependencies: '' indexed dp []))))"

definition use_external_index ::
  "package \<Rightarrow> string option \<Rightarrow> dep_pairs \<Rightarrow> (dep_pairs \<times> string list) result" where
  "use_external_index pk path dp =
     (case path of
        None \<Rightarrow> Inr (dp, [])
      | Some f \<Rightarrow>
          bindR (csv_external_dependencies pk f) (\<lambda>indexed.
          let receipts = filter (\<lambda>p. startswith (snd p) ''receipt:'') (map fst dp) in
          bindR (raise_if (set indexed \<noteq> set receipts)
                   (perr ''external dependency index disagrees with task-local receipts'')) (\<lambda>_.
          Inr (add_indexed ''external_dependency_receipts.csv''
                 ''external dependency index supplemented task-local dependencies: '' indexed dp []))))"

section \<open>Internal and external dependencies\<close>

datatype native_dep = OnTask string | OnCheckpoint string

definition native_dep_pv :: "native_dep \<Rightarrow> pv" where
  "native_dep_pv d = (case d of
     OnTask t \<Rightarrow> PDict [(''type'', PStr ''task''), (''task_id'', PStr t)]
   | OnCheckpoint c \<Rightarrow> PDict [(''type'', PStr ''checkpoint''), (''checkpoint_id'', PStr c)])"

record external_dep =
  ex_task :: string
  ex_dependency :: string
  ex_repository :: "string option"
  ex_source :: "string list"

record split_deps =
  native_dependencies :: "(string \<times> native_dep) list"
  external_dependencies :: "external_dep list"

definition classify ::
  "index_state \<Rightarrow> string list \<Rightarrow> string \<Rightarrow> native_dep option" where
  "classify st selected p =
     (if p \<in> set selected then Some (OnTask p)
      else case map_of (checkpoint_owner st) p of
             Some owner \<Rightarrow> if owner \<in> set selected then Some (OnCheckpoint p) else None
           | None \<Rightarrow> None)"

definition external_of :: "index_state \<Rightarrow> string \<times> string \<Rightarrow> string list \<Rightarrow> external_dep" where
  "external_of st pr srcs =
     (let owner = (case map_of (checkpoint_owner st) (snd pr) of Some t \<Rightarrow> t | None \<Rightarrow> removeprefix (snd pr) ''receipt:'')
      in \<lparr>ex_task = fst pr, ex_dependency = snd pr, ex_repository = map_of (repository_by_id st) owner, ex_source = sort srcs\<rparr>)"

fun split_pairs :: "index_state \<Rightarrow> string list \<Rightarrow> dep_pairs \<Rightarrow> split_deps \<Rightarrow> split_deps result" where
  "split_pairs st selected [] out = Inr out"
| "split_pairs st selected ((pr, srcs) # rest) out =
     (if fst pr \<notin> fst ` set (by_id st) then Inl (perr (''dependency names unknown consumer task: '' @ fst pr))
      else if fst pr \<notin> set selected then split_pairs st selected rest out
      else case classify st selected (snd pr) of
             Some d \<Rightarrow> split_pairs st selected rest
               (out\<lparr>native_dependencies := native_dependencies out @ [(fst pr, d)]\<rparr>)
           | None \<Rightarrow> split_pairs st selected rest
               (out\<lparr>external_dependencies := external_dependencies out @ [external_of st pr srcs]\<rparr>))"

definition sorted_pairs :: "dep_pairs \<Rightarrow> dep_pairs" where
  "sorted_pairs dp = sort_key fst dp"

section \<open>Lowering\<close>

definition TASK_KINDS :: "string list" where
  "TASK_KINDS = [''epic'', ''workstream'', ''task'', ''integration'', ''integration_task'', ''validation'', ''validation_task'']"

definition PROVENANCE_FIELDS :: "string list" where
  "PROVENANCE_FIELDS =
    [''workstream'', ''biological_motivation'', ''compiler_architectural_reason'', ''implementation_mechanism'', ''invariants'',
     ''forbidden_shortcuts'', ''validation'', ''performance_evidence'', ''completion_condition'', ''experimental'',
     ''negative_result_acceptable'']"

definition PROVENANCE_ALIASES :: "(string \<times> string) list" where
  "PROVENANCE_ALIASES =
    [(''mechanism'', ''implementation_mechanism''), (''cold_vs_hot_path'', ''hot_vs_cold_path''),
     (''complexity_expectations'', ''complexity_expectation''), (''failure_cases_and_fallback'', ''failure_cases''),
     (''expected_inputs'', ''inputs''), (''expected_outputs'', ''outputs'')]"

definition EXTRA_FIELDS :: "string list" where
  "EXTRA_FIELDS =
    [''category'', ''classification'', ''subsystem'', ''suggested_lane'', ''parallelism'', ''integration_point'',
     ''explicit_out_of_scope'', ''permitted_read_scope'', ''data_flow_and_ownership'', ''hot_vs_cold_path'',
     ''complexity_expectation'']"

text \<open>\<^verbatim>\<open>value in (None, '', [], {})\<close>\<close>

definition blank :: "pv \<Rightarrow> bool" where
  "blank v \<longleftrightarrow> v = PNone \<or> v = PStr [] \<or> v = PList [] \<or> v = PDict []"

definition copy_field :: "pdict \<Rightarrow> string \<times> string \<Rightarrow> pdict \<Rightarrow> pdict" where
  "copy_field task st prov =
     (if has_key task (fst st) \<and> \<not> blank (dget task (fst st)) then AList.update (snd st) (dget task (fst st)) prov else prov)"

definition provenance :: "string \<Rightarrow> string \<Rightarrow> pdict \<Rightarrow> pdict" where
  "provenance package_digest i task =
     fold (copy_field task)
       (map (\<lambda>f. (f, f)) PROVENANCE_FIELDS @ PROVENANCE_ALIASES @ map (\<lambda>f. (f, f)) EXTRA_FIELDS)
       [(''preledger_package_digest'', PStr package_digest), (''original_task_id'', PStr i)]"

definition lower_kind :: "string \<Rightarrow> pv \<Rightarrow> (string \<times> string list) result" where
  "lower_kind i kind =
     (case kind of
        PStr s \<Rightarrow>
          if s \<in> set TASK_KINDS then Inr (s, [])
          else Inr (''task'', if s = [] then [] else [''task '' @ i @ '' unsupported task_kind lowered to task''])
      | PList _ \<Rightarrow> Inl (TypeError ''unhashable type'')
      | PDict _ \<Rightarrow> Inl (TypeError ''unhashable type'')
      | PNone \<Rightarrow> Inr (''task'', [])
      | _ \<Rightarrow> Inr (''task'', [''task '' @ i @ '' unsupported task_kind lowered to task'']))"

record native_task =
  nt_task :: string
  nt_kind :: string
  nt_title :: string
  nt_objective :: string
  nt_notes :: string
  nt_exclusive :: "string list"
  nt_read :: "string list"
  nt_depends :: "native_dep list"
  nt_checkpoints :: "string list"

definition lower_task ::
  "package \<Rightarrow> string \<Rightarrow> (string \<times> native_dep) list \<Rightarrow> string \<times> pdict \<Rightarrow> (native_task \<times> string list) result" where
  "lower_task pk package_digest deps it =
     (let i = fst it; task = snd it; purpose = dget_or task ''purpose'' (PStr []) in
      bindR (raise_if (purpose \<noteq> PNone \<and> \<not> is_str purpose) (perr (''task '' @ i @ '' purpose must be a string''))) (\<lambda>_.
      bindR (lower_kind i (dget_or task ''task_kind'' (PStr ''task''))) (\<lambda>(kind, ws).
      Inr (\<lparr>nt_task = i, nt_kind = kind, nt_title = strip (str_of (dget task ''title'')), nt_objective = strip (str_of purpose),
            nt_notes = ''preledger_provenance='' @ json_text pk (PDict (provenance package_digest i task)),
            nt_exclusive = clean_paths (scope_paths (dget task ''write_scope'') [''exclusive_paths'', ''write_paths'', ''paths'']),
            nt_read = explicit_source_paths (flatten_strings (dget task ''existing_source_paths'') @
              flatten_strings (dget task ''source_paths'') @ flatten_strings (dget task ''permitted_read_scope'') @
              flatten_strings (dget task ''existing_code_extended'')),
            nt_depends = sort_key (\<lambda>d. json_text pk (native_dep_pv d)) (map snd (filter (\<lambda>p. fst p = i) deps)),
            nt_checkpoints = sorted_set (produced_checkpoints task)\<rparr>, ws))))"

section \<open>Interfaces\<close>

record native_interface =
  if_id :: string
  if_owner :: string
  if_state :: string
  if_version :: string
  if_paths :: "string list"
  if_hash :: string

fun version_text :: "pv \<Rightarrow> string option" where
  "version_text (PStr s) = Some s"
| "version_text (PInt i) = Some (string_of_int i)"
| "version_text _ = None"

definition lower_interface :: "pdict \<Rightarrow> string list \<Rightarrow> native_interface option" where
  "lower_interface d selected =
     (if (\<exists>f \<in> {''id'', ''owner_task_id'', ''state'', ''version'', ''contract_paths'', ''content_hash''}. dget d f = PNone) then None
      else if (\<exists>f \<in> {''id'', ''owner_task_id'', ''state'', ''content_hash''}. \<not> is_str (dget d f) \<or> strip (str_of (dget d f)) = [])
      then None
      else if str_of (dget d ''owner_task_id'') \<notin> set selected then None
      else case dget d ''contract_paths'' of
             PList ps \<Rightarrow>
               if ps = [] \<or> (\<exists>p \<in> set ps. \<not> is_str p \<or> strip (str_of p) = []) then None
               else map_option (\<lambda>ver. \<lparr>if_id = strip (str_of (dget d ''id'')), if_owner = strip (str_of (dget d ''owner_task_id'')),
                        if_state = strip (str_of (dget d ''state'')), if_version = ver, if_paths = clean_paths (map str_of ps),
                        if_hash = strip (str_of (dget d ''content_hash''))\<rparr>) (version_text (dget d ''version''))
           | _ \<Rightarrow> None)"

definition lower_interfaces :: "pdict list \<Rightarrow> string list \<Rightarrow> (native_interface list \<times> string list) result" where
  "lower_interfaces ds selected =
     (let lowered = map (\<lambda>d. lower_interface d selected) ds;
          ok = map the (filter (\<lambda>x. x \<noteq> None) lowered);
          ws = map (\<lambda>_. ''unsupported interface record'') (filter (\<lambda>x. x = None) lowered)
      in bindR (raise_if (\<not> distinct (map if_id ok)) (perr ''duplicate interface ids'')) (\<lambda>_. Inr (ok, ws)))"

section \<open>The compiler\<close>

record optional_files =
  op_interfaces :: "string option"
  op_dependency_index :: "string option"
  op_external :: "string option"
  op_summary :: "string option"
  op_manifest :: "string option"

definition optional_file :: "package \<Rightarrow> pdict \<Rightarrow> string \<Rightarrow> string option result" where
  "optional_file pk d key =
     (if truthy (dget d key) then bindR (package_file pk (dget d key) (key @ '' file'')) (\<lambda>f. Inr (Some f)) else Inr None)"

definition if_file :: "package \<Rightarrow> string \<Rightarrow> string option" where
  "if_file pk f = (if pk_is_file pk f then Some f else None)"

text \<open>The files of a package: those its descriptor names, or those of the conventional names.\<close>

definition package_files :: "package \<Rightarrow> (string \<times> optional_files \<times> string list) result" where
  "package_files pk =
     (if pk_is_file pk ''preledger.json'' then
        bindR (pk_json pk ''preledger.json'') (\<lambda>loaded.
        case loaded of
          PDict d \<Rightarrow>
            bindR (raise_if (dget d ''format'' \<noteq> PStr ''project-control-preledger'') (perr ''unsupported pre-ledger format'')) (\<lambda>_.
            bindR (raise_if (\<not> eq_int (dget d ''schema_version'') 1) (perr ''unsupported pre-ledger schema_version'')) (\<lambda>_.
            bindR (package_file pk (dget d ''tasks'') ''tasks file'') (\<lambda>tasks.
            bindR (optional_file pk d ''interfaces'') (\<lambda>i.
            bindR (optional_file pk d ''dependency_index'') (\<lambda>di.
            bindR (optional_file pk d ''external_dependencies'') (\<lambda>e.
            bindR (optional_file pk d ''summary'') (\<lambda>s.
            bindR (optional_file pk d ''manifest'') (\<lambda>m.
            Inr (tasks, \<lparr>op_interfaces = i, op_dependency_index = di, op_external = e, op_summary = s, op_manifest = m\<rparr>,
                 [''preledger.json'']))))))))) 
        | _ \<Rightarrow> Inl (perr ''preledger.json must be a JSON object''))
      else
        bindR (package_file pk (PStr ''proposed_todos.json'') ''tasks file'') (\<lambda>tasks.
        Inr (tasks, \<lparr>op_interfaces = if_file pk ''interface_catalog.json'', op_dependency_index = if_file pk ''dependency_edges.csv'',
               op_external = if_file pk ''external_dependency_receipts.csv'', op_summary = if_file pk ''plan_summary.json'',
               op_manifest = if_file pk ''MANIFEST.sha256''\<rparr>, [])))"

definition opt_list :: "'a option \<Rightarrow> 'a list" where
  "opt_list x = (case x of None \<Rightarrow> [] | Some a \<Rightarrow> [a])"

record compiled_preledger =
  cp_tasks :: "native_task list"
  cp_interfaces :: "native_interface list"
  cp_project :: string
  cp_package_digest :: string
  cp_selected :: nat
  cp_excluded :: nat
  cp_internal :: nat
  cp_external :: "external_dep list"
  cp_warnings :: "string list"
  cp_sources :: "string list"

text \<open>What is derived from the tasks once the files are read.\<close>

definition all_pairs :: "package \<Rightarrow> optional_files \<Rightarrow> index_state \<Rightarrow> (dep_pairs \<times> string list) result" where
  "all_pairs pk opt st =
     bindR (use_dependency_index pk (op_dependency_index opt) (by_id st) (local_pairs (by_id st))) (\<lambda>(dp1, ws1).
     bindR (use_external_index pk (op_external opt) dp1) (\<lambda>(dp2, ws2).
     Inr (dp2, ws1 @ ws2)))"

definition read_interfaces :: "package \<Rightarrow> optional_files \<Rightarrow> string list \<Rightarrow> (native_interface list \<times> string list) result" where
  "read_interfaces pk opt selected =
     (case op_interfaces opt of
        None \<Rightarrow> Inr ([], [])
      | Some f \<Rightarrow>
          bindR (pk_json pk f) (\<lambda>v.
          bindR (records v [''interfaces'', ''interface_catalog''] ''interface catalog'') (\<lambda>ds.
          lower_interfaces ds selected)))"

definition compile_preledger :: "package \<Rightarrow> string \<Rightarrow> compiled_preledger result" where
  "compile_preledger pk target_repository =
     (let target = strip target_repository in
      bindR (raise_if (target = []) (perr ''target_repository must be a non-empty string'')) (\<lambda>_.
      bindR (raise_if (\<not> pk_is_dir pk) (perr ''pre-ledger package is not a directory'')) (\<lambda>_.
      bindR (package_files pk) (\<lambda>(tasks_path, opt, descriptor).
      let semantic = descriptor @ [tasks_path] @ opt_list (op_interfaces opt) @ opt_list (op_dependency_index opt) @ opt_list (op_external opt);
          source = semantic @ opt_list (op_summary opt) @ opt_list (op_manifest opt) in
      bindR (case op_manifest opt of None \<Rightarrow> Inr () | Some m \<Rightarrow> validate_manifest pk m) (\<lambda>_.
      let digest = semantic_digest pk semantic in
      bindR (pk_json pk tasks_path) (\<lambda>v.
      bindR (records v [''tasks'', ''proposed_todos''] ''tasks file'') (\<lambda>tasks.
      bindR (index_tasks tasks \<lparr>by_id = [], repository_by_id = [], checkpoint_owner = []\<rparr>) (\<lambda>st.
      let selected = selected_ids st target in
      bindR (all_pairs pk opt st) (\<lambda>(dp, ws).
      bindR (split_pairs st selected (sorted_pairs dp) \<lparr>native_dependencies = [], external_dependencies = []\<rparr>) (\<lambda>deps.
      bindR (mapR (lower_task pk digest (native_dependencies deps))
               (map (\<lambda>i. (i, the (map_of (by_id st) i))) (sort selected))) (\<lambda>lowered.
      bindR (read_interfaces pk opt selected) (\<lambda>(ifs, wsi).
      Inr \<lparr>cp_tasks = map fst lowered, cp_interfaces = sort_key if_id ifs, cp_project = target, cp_package_digest = digest,
           cp_selected = length selected, cp_excluded = length tasks - length selected,
           cp_internal = length (native_dependencies deps), cp_external = external_dependencies deps,
           cp_warnings = sorted_set (ws @ concat (map snd lowered) @ wsi), cp_sources = sorted_set source\<rparr>))))))))))))"

end
