(* ===== verification/PreledgerProps.thy ===== *)
theory PreledgerProps
  imports Preledger
begin

text \<open>
  What the pre-ledger compiler guarantees: it selects exactly the tasks of the target repository, the
  plan it emits refers only to what it declares, and no declared prerequisite of a selected task is
  lost.
\<close>

section \<open>The index of tasks\<close>

definition declares :: "index_state \<Rightarrow> bool" where
  "declares st \<longleftrightarrow> map fst (by_id st) = map fst (repository_by_id st) \<and> distinct (map fst (by_id st)) \<and>
     (\<forall>c t. map_of (checkpoint_owner st) c = Some t \<longrightarrow>
        (\<exists>task. (t, task) \<in> set (by_id st) \<and> c \<in> set (produced_checkpoints task)))"

lemma claim_checkpoints_owner:
  assumes "claim_checkpoints task cs owners = Inr owners'" "map_of owners' c = Some t"
  shows "map_of owners c = Some t \<or> (t = task \<and> c \<in> set cs)"
  using assms
proof (induction cs arbitrary: owners)
  case (Cons k ks)
  show ?case
  proof (cases "map_of owners k")
    case None
    with Cons.prems have "claim_checkpoints task ks (owners @ [(k, task)]) = Inr owners'" by simp
    from Cons.IH [OF this Cons.prems(2)] show ?thesis by (auto simp: map_add_Some_iff split: if_splits)
  next
    case (Some u)
    with Cons.prems have "claim_checkpoints task ks owners = Inr owners'" by (simp split: if_splits)
    from Cons.IH [OF this Cons.prems(2)] show ?thesis by auto
  qed
qed simp

lemma index_task_declares:
  assumes d: "declares st" and i: "index_task task st = Inr st'"
  shows "declares st'" "\<exists>i r. nonempty_string task ''id'' (str_of (dget task ''id'')) = Inr i \<and> by_id st' = by_id st @ [(i, task)] \<and>
     nonempty_string task ''repository'' i = Inr r \<and> repository_by_id st' = repository_by_id st @ [(i, r)]"
proof -
  from i obtain k r owners where k: "nonempty_string task ''id'' (str_of (dget task ''id'')) = Inr k" "k \<notin> fst ` set (by_id st)"
    and r: "nonempty_string task ''repository'' k = Inr r"
    and o: "claim_checkpoints k (produced_checkpoints task) (checkpoint_owner st) = Inr owners"
    and st': "st' = \<lparr>by_id = by_id st @ [(k, task)], repository_by_id = repository_by_id st @ [(k, r)], checkpoint_owner = owners\<rparr>"
    by (auto simp: index_task_def bindR_eq_Inr)
  show "declares st'"
    unfolding declares_def
  proof (intro conjI allI impI)
    show "map fst (by_id st') = map fst (repository_by_id st')"
      using d by (simp add: declares_def st')
    from d have "distinct (map fst (by_id st))" unfolding declares_def by blast
    then show "distinct (map fst (by_id st'))" using k(2) by (simp add: st')
    fix c t assume "map_of (checkpoint_owner st') c = Some t"
    then have "map_of (checkpoint_owner st) c = Some t \<or> (t = k \<and> c \<in> set (produced_checkpoints task))"
      using claim_checkpoints_owner [OF o] by (simp add: st')
    then show "\<exists>task. (t, task) \<in> set (by_id st') \<and> c \<in> set (produced_checkpoints task)"
    proof
      assume "map_of (checkpoint_owner st) c = Some t"
      with d show ?thesis unfolding declares_def by (auto simp: st')
    qed (auto simp: st')
  qed
  show "\<exists>i r. nonempty_string task ''id'' (str_of (dget task ''id'')) = Inr i \<and> by_id st' = by_id st @ [(i, task)] \<and>
     nonempty_string task ''repository'' i = Inr r \<and> repository_by_id st' = repository_by_id st @ [(i, r)]"
    using k(1) r st' by auto
qed

text \<open>The identifier and the repository the index records for a task.\<close>

definition task_key :: "pdict \<Rightarrow> string" where
  "task_key task = strip (str_of (dget task ''id''))"

definition task_repository :: "pdict \<Rightarrow> string" where
  "task_repository task = strip (str_of (dget task ''repository''))"

lemma nonempty_string_Inr: "nonempty_string d f t = Inr s \<Longrightarrow> s = strip (str_of (dget d f))"
  by (auto simp: nonempty_string_def split: pv.splits if_splits)

lemma index_tasks_declares:
  assumes "declares st" "index_tasks tasks st = Inr st'"
  shows "declares st' \<and> by_id st' = by_id st @ map (\<lambda>task. (task_key task, task)) tasks \<and>
    repository_by_id st' = repository_by_id st @ map (\<lambda>task. (task_key task, task_repository task)) tasks"
  using assms
proof (induction tasks arbitrary: st)
  case (Cons task tasks)
  from Cons.prems(2) obtain st1 where st1: "index_task task st = Inr st1" "index_tasks tasks st1 = Inr st'"
    by (auto simp: bindR_eq_Inr)
  note one = index_task_declares [OF Cons.prems(1) st1(1)]
  from one(2) have "by_id st1 = by_id st @ [(task_key task, task)]"
    "repository_by_id st1 = repository_by_id st @ [(task_key task, task_repository task)]"
    by (auto simp: task_key_def task_repository_def dest: nonempty_string_Inr)
  with Cons.IH [OF one(1) st1(2)] show ?case by simp
qed simp

lemma index_tasks_start:
  assumes "index_tasks tasks \<lparr>by_id = [], repository_by_id = [], checkpoint_owner = []\<rparr> = Inr st"
  shows "declares st" "by_id st = map (\<lambda>task. (task_key task, task)) tasks"
    "repository_by_id st = map (\<lambda>task. (task_key task, task_repository task)) tasks"
    "set (selected_ids st target) = task_key ` {task \<in> set tasks. task_repository task = target}"
    "distinct (selected_ids st target)"
proof -
  have "declares \<lparr>by_id = [], repository_by_id = [], checkpoint_owner = []\<rparr>" by (simp add: declares_def)
  from index_tasks_declares [OF this assms]
  show st: "declares st" "by_id st = map (\<lambda>task. (task_key task, task)) tasks"
    "repository_by_id st = map (\<lambda>task. (task_key task, task_repository task)) tasks" by simp_all
  show "set (selected_ids st target) = task_key ` {task \<in> set tasks. task_repository task = target}"
    by (force simp: selected_ids_def st(3) image_iff)
  show "distinct (selected_ids st target)"
    unfolding selected_ids_def using st(1) by (auto simp: declares_def intro: distinct_map_filter)
qed

section \<open>The pairs\<close>

lemma keys_add_source: "fst ` set (add_source p s dp) = insert p (fst ` set dp)"
  by (induction p s dp rule: add_source.induct) auto

lemma keys_fold_add: "fst ` set (fold (\<lambda>(p, s). add_source p s) ps dp) = fst ` set dp \<union> fst ` set ps"
  by (induction ps arbitrary: dp) (simp_all add: keys_add_source split_beta)

lemma keys_local_pairs: "fst ` set (local_pairs tasks) = fst ` set (task_pairs tasks)"
  by (simp add: local_pairs_def keys_fold_add)

lemma keys_add_indexed: "add_indexed s m ps dp ws = (dp', ws') \<Longrightarrow> fst ` set dp \<subseteq> fst ` set dp'"
  by (induction s m ps dp ws rule: add_indexed.induct) (auto simp: keys_add_source)

lemma all_pairs_local:
  assumes "all_pairs pk opt st = Inr (dp, ws)"
  shows "fst ` set (task_pairs (by_id st)) \<subseteq> fst ` set dp"
proof -
  from assms obtain dp1 ws1 ws2 where 1: "use_dependency_index pk (op_dependency_index opt) (by_id st) (local_pairs (by_id st)) = Inr (dp1, ws1)"
    and 2: "use_external_index pk (op_external opt) dp1 = Inr (dp, ws2)"
    by (auto simp: all_pairs_def bindR_eq_Inr split: prod.splits)
  have "fst ` set (local_pairs (by_id st)) \<subseteq> fst ` set dp1"
  proof (cases "op_dependency_index opt")
    case (Some f)
    with 1 obtain s m indexed where "add_indexed s m indexed (local_pairs (by_id st)) [] = (dp1, ws1)"
      by (auto simp: use_dependency_index_def bindR_eq_Inr Let_def split: prod.splits)
    then show ?thesis by (rule keys_add_indexed)
  qed (use 1 in \<open>simp add: use_dependency_index_def\<close>)
  moreover have "fst ` set dp1 \<subseteq> fst ` set dp"
  proof (cases "op_external opt")
    case (Some f)
    with 2 obtain s m indexed where "add_indexed s m indexed dp1 [] = (dp, ws2)"
      by (auto simp: use_external_index_def bindR_eq_Inr Let_def)
    then show ?thesis by (rule keys_add_indexed)
  qed (use 2 in \<open>simp add: use_external_index_def\<close>)
  ultimately show ?thesis by (auto simp: keys_local_pairs)
qed

lemma task_pairs_member:
  assumes "(i, task) \<in> set tasks" "f \<in> set DEPENDENCY_FIELDS" "p \<in> set (dependency_ids (dget task f))"
  shows "(i, p) \<in> fst ` set (task_pairs tasks)"
proof -
  have "((i, p), f) \<in> set (task_pairs tasks)"
    unfolding task_pairs_def set_concat set_map UN_iff image_image
    using assms by (intro bexI [of _ "(i, task)"]) auto
  then show ?thesis by (rule image_eqI [rotated]) simp
qed

section \<open>Splitting the pairs\<close>

lemma split_pairs_sound:
  assumes "split_pairs st selected ps out = Inr out'"
  shows "native_dependencies out' = native_dependencies out @
      concat (map (\<lambda>(pr, srcs). if fst pr \<in> set selected then (case classify st selected (snd pr) of Some d \<Rightarrow> [(fst pr, d)] | None \<Rightarrow> []) else []) ps)"
    and "external_dependencies out' = external_dependencies out @
      concat (map (\<lambda>(pr, srcs). if fst pr \<in> set selected \<and> classify st selected (snd pr) = None then [external_of st pr srcs] else []) ps)"
  using assms by (induction st selected ps out rule: split_pairs.induct) (auto split: if_splits option.splits)

lemma classify_cases:
  assumes "declares st" "classify st selected p = Some d"
  shows "(d = OnTask p \<and> p \<in> set selected) \<or>
    (d = OnCheckpoint p \<and> (\<exists>t task. t \<in> set selected \<and> (t, task) \<in> set (by_id st) \<and> p \<in> set (produced_checkpoints task)))"
  using assms by (fastforce simp: classify_def declares_def split: if_splits option.splits)

section \<open>The compiled plan\<close>

text \<open>The stages of a successful compilation.\<close>

lemma compile_cases:
  assumes "compile_preledger pk target = Inr c"
  obtains path opt descriptor v tasks st dp ws deps digest where
    "package_files pk = Inr (path, opt, descriptor)"
    "pk_json pk path = Inr v" "records v [''tasks'', ''proposed_todos''] ''tasks file'' = Inr tasks"
    "index_tasks tasks \<lparr>by_id = [], repository_by_id = [], checkpoint_owner = []\<rparr> = Inr st"
    "all_pairs pk opt st = Inr (dp, ws)"
    "split_pairs st (selected_ids st (strip target)) (sorted_pairs dp) \<lparr>native_dependencies = [], external_dependencies = []\<rparr> = Inr deps"
    "list_all2 (\<lambda>i t. \<exists>w. lower_task pk digest (native_dependencies deps) (i, the (map_of (by_id st) i)) = Inr (t, w))
       (sort (selected_ids st (strip target))) (cp_tasks c)"
    "cp_selected c = length (selected_ids st (strip target))" "cp_excluded c = length tasks - length (selected_ids st (strip target))"
    "cp_internal c = length (native_dependencies deps)" "cp_external c = external_dependencies deps"
proof -
  from assms obtain path opt descriptor v tasks st dp ws deps digest lowered where
    pf: "package_files pk = Inr (path, opt, descriptor)" and v: "pk_json pk path = Inr v"
    "records v [''tasks'', ''proposed_todos''] ''tasks file'' = Inr tasks"
    and st: "index_tasks tasks \<lparr>by_id = [], repository_by_id = [], checkpoint_owner = []\<rparr> = Inr st"
    and dp: "all_pairs pk opt st = Inr (dp, ws)"
    and deps: "split_pairs st (selected_ids st (strip target)) (sorted_pairs dp) \<lparr>native_dependencies = [], external_dependencies = []\<rparr> = Inr deps"
    and low: "mapR (lower_task pk digest (native_dependencies deps))
      (map (\<lambda>i. (i, the (map_of (by_id st) i))) (sort (selected_ids st (strip target)))) = Inr lowered"
    and c: "cp_tasks c = map fst lowered" "cp_selected c = length (selected_ids st (strip target))"
      "cp_excluded c = length tasks - length (selected_ids st (strip target))"
      "cp_internal c = length (native_dependencies deps)" "cp_external c = external_dependencies deps"
    by (auto simp: compile_preledger_def Let_def bindR_eq_Inr)
  have "list_all2 (\<lambda>i t. \<exists>w. lower_task pk digest (native_dependencies deps) (i, the (map_of (by_id st) i)) = Inr (t, w))
      (sort (selected_ids st (strip target))) (map fst lowered)"
    using low by (auto simp: mapR_eq_Inr list_all2_conv_all_nth) (metis prod.collapse)
  then show thesis using that [OF pf v st dp deps] c by simp
qed

lemma lower_task_facts:
  assumes "lower_task pk digest deps (i, task) = Inr (t, w)"
  shows "nt_task t = i" "set (nt_depends t) = {d. (i, d) \<in> set deps}" "length (nt_depends t) = length (filter (\<lambda>p. fst p = i) deps)"
    "set (nt_checkpoints t) = set (produced_checkpoints task)"
  using assms by (auto simp: lower_task_def Let_def bindR_eq_Inr image_iff split: prod.splits)

text \<open>
  The plan has exactly the tasks of the target repository, each once and in order of identifier, and the
  counts of selected and excluded tasks add up to the tasks of the package.
\<close>

theorem preledger_selects:
  assumes "compile_preledger pk target = Inr c"
  shows "\<exists>path opt descriptor v tasks. package_files pk = Inr (path, opt, descriptor) \<and> pk_json pk path = Inr v \<and> records v [''tasks'', ''proposed_todos''] ''tasks file'' = Inr tasks \<and>
    set (map nt_task (cp_tasks c)) = task_key ` {task \<in> set tasks. task_repository task = strip target} \<and>
    sorted (map nt_task (cp_tasks c)) \<and> distinct (map nt_task (cp_tasks c)) \<and>
    cp_selected c = length (cp_tasks c) \<and> cp_selected c + cp_excluded c = length tasks"
  using assms
proof (rule compile_cases)
  fix path opt descriptor v tasks st dp ws deps digest
  assume pf: "package_files pk = Inr (path, opt, descriptor)" and v: "pk_json pk path = Inr v" "records v [''tasks'', ''proposed_todos''] ''tasks file'' = Inr tasks"
    and st: "index_tasks tasks \<lparr>by_id = [], repository_by_id = [], checkpoint_owner = []\<rparr> = Inr st"
    and low: "list_all2 (\<lambda>i t. \<exists>w. lower_task pk digest (native_dependencies deps) (i, the (map_of (by_id st) i)) = Inr (t, w))
       (sort (selected_ids st (strip target))) (cp_tasks c)"
    and sel: "cp_selected c = length (selected_ids st (strip target))"
    and exc: "cp_excluded c = length tasks - length (selected_ids st (strip target))"
  note idx = index_tasks_start [OF st]
  have ids: "map nt_task (cp_tasks c) = sort (selected_ids st (strip target))"
    using low by (induction rule: list_all2_induct) (auto dest: lower_task_facts(1))
  have "length (selected_ids st (strip target)) \<le> length tasks"
    unfolding selected_ids_def idx(3) using length_filter_le [of "\<lambda>p. snd p = strip target"] by (metis length_map)
  moreover have "length (cp_tasks c) = length (selected_ids st (strip target))"
    using list_all2_lengthD [OF low] by simp
  ultimately show ?thesis using pf v ids idx(4,5) sel exc by (intro exI conjI) (auto simp: distinct_sort)
qed

text \<open>Where a task of the plan comes from, and what its dependencies are.\<close>

lemma plan_task_origin:
  assumes st: "index_tasks tasks \<lparr>by_id = [], repository_by_id = [], checkpoint_owner = []\<rparr> = Inr st"
    and low: "list_all2 (\<lambda>i t. \<exists>w. lower_task pk digest deps (i, the (map_of (by_id st) i)) = Inr (t, w)) (sort (selected_ids st target)) ts"
    and mem: "(i, task) \<in> set (by_id st)" "i \<in> set (selected_ids st target)"
  obtains t where "t \<in> set ts" "nt_task t = i" "set (nt_depends t) = {d. (i, d) \<in> set deps}"
    "set (nt_checkpoints t) = set (produced_checkpoints task)"
proof -
  have "distinct (map fst (by_id st))" using index_tasks_start(1) [OF st] unfolding declares_def by blast
  then have the_task: "the (map_of (by_id st) i) = task" using mem(1) by simp
  from mem(2) obtain n where n: "n < length (sort (selected_ids st target))" "sort (selected_ids st target) ! n = i"
    by (metis in_set_conv_nth set_sort)
  with low obtain w where "lower_task pk digest deps (i, the (map_of (by_id st) i)) = Inr (ts ! n, w)"
    by (auto simp: list_all2_conv_all_nth)
  note facts = lower_task_facts [OF this]
  have "n < length ts" using n(1) list_all2_lengthD [OF low] by simp
  then show thesis using that [of "ts ! n"] facts by (simp add: the_task)
qed

lemma plan_task_depends:
  assumes "list_all2 (\<lambda>i t. \<exists>w. lower_task pk digest deps (i, f i) = Inr (t, w)) is ts" "t \<in> set ts"
  shows "set (nt_depends t) = {d. (nt_task t, d) \<in> set deps}"
  using assms by (induction rule: list_all2_induct) (auto dest: lower_task_facts(1,2))

lemma length_by_key:
  assumes "distinct is" "fst ` set deps \<subseteq> set is"
  shows "sum_list (map (\<lambda>i. length (filter (\<lambda>p. fst p = i) deps)) is) = length deps"
  using assms(2)
proof (induction deps)
  case (Cons d ds)
  have "sum_list (map (\<lambda>i. length (filter (\<lambda>p. fst p = i) (d # ds))) is) =
      sum_list (map (\<lambda>i. length (filter (\<lambda>p. fst p = i) ds) + (if fst d = i then 1 else 0)) is)"
    by (intro arg_cong [where f = sum_list] map_cong) auto
  also have "\<dots> = length ds + sum_list (map (\<lambda>i. if fst d = i then 1 else 0) is)"
    using Cons by (simp add: sum_list_addf)
  also have "sum_list (map (\<lambda>i. if fst d = i then 1 else 0) is) = (1 :: nat)"
    using Cons.prems assms(1) by (subst sum_list_distinct_conv_sum_set) auto
  finally show ?case by simp
qed simp

lemma set_sorted_pairs [simp]: "set (sorted_pairs dp) = set dp"
  by (simp add: sorted_pairs_def)

lemma native_dependency:
  assumes "split_pairs st sel (sorted_pairs dp) \<lparr>native_dependencies = [], external_dependencies = []\<rparr> = Inr deps"
  shows "(i, d) \<in> set (native_dependencies deps) \<longleftrightarrow> i \<in> set sel \<and> (\<exists>p. (i, p) \<in> fst ` set dp \<and> classify st sel p = Some d)"
proof -
  have "(i, d) \<in> set (native_dependencies deps) \<longleftrightarrow>
      (\<exists>q \<in> set dp. fst (fst q) \<in> set sel \<and> fst (fst q) = i \<and> classify st sel (snd (fst q)) = Some d)"
    unfolding split_pairs_sound(1) [OF assms] by (force simp: split_beta split: if_splits option.splits)
  then show ?thesis by force
qed

lemma external_dependency:
  assumes "split_pairs st sel (sorted_pairs dp) \<lparr>native_dependencies = [], external_dependencies = []\<rparr> = Inr deps"
    and "i \<in> set sel" "(i, p) \<in> fst ` set dp" "classify st sel p = None"
  shows "\<exists>e \<in> set (external_dependencies deps). ex_task e = i \<and> ex_dependency e = p"
proof -
  from assms(3) obtain srcs where "((i, p), srcs) \<in> set dp" by force
  then have "external_of st (i, p) srcs \<in> set (external_dependencies deps)"
    unfolding split_pairs_sound(2) [OF assms(1)] using assms(2,4) by force
  then show ?thesis by (rule bexI [rotated]) (simp add: external_of_def Let_def)
qed

text \<open>
  C33. The plan is closed: a task dependency names a task of the plan, and a checkpoint dependency a
  checkpoint that a task of the plan produces.
\<close>

theorem preledger_closed:
  assumes "compile_preledger pk target = Inr c" "t \<in> set (cp_tasks c)" "d \<in> set (nt_depends t)"
  shows "case d of OnTask i \<Rightarrow> i \<in> nt_task ` set (cp_tasks c) | OnCheckpoint k \<Rightarrow> \<exists>u \<in> set (cp_tasks c). k \<in> set (nt_checkpoints u)"
  using assms(1)
proof (rule compile_cases)
  fix path opt descriptor v tasks st dp ws deps digest
  assume st: "index_tasks tasks \<lparr>by_id = [], repository_by_id = [], checkpoint_owner = []\<rparr> = Inr st"
    and deps: "split_pairs st (selected_ids st (strip target)) (sorted_pairs dp) \<lparr>native_dependencies = [], external_dependencies = []\<rparr> = Inr deps"
    and low: "list_all2 (\<lambda>i t. \<exists>w. lower_task pk digest (native_dependencies deps) (i, the (map_of (by_id st) i)) = Inr (t, w))
       (sort (selected_ids st (strip target))) (cp_tasks c)"
  let ?sel = "selected_ids st (strip target)"
  note idx = index_tasks_start [OF st]
  from plan_task_depends [OF low assms(2)] assms(3) have "(nt_task t, d) \<in> set (native_dependencies deps)" by simp
  then obtain p where "classify st ?sel p = Some d" using native_dependency [OF deps] by blast
  from classify_cases [OF idx(1) this] show ?thesis
  proof (elim disjE conjE exE)
    assume d: "d = OnTask p" and p: "p \<in> set ?sel"
    then obtain task where "(p, task) \<in> set (by_id st)" using idx(2,4) by auto
    from plan_task_origin [OF st low this p] have "\<exists>u \<in> set (cp_tasks c). nt_task u = p" by metis
    then show ?thesis by (auto simp: d)
  next
    fix i task assume d: "d = OnCheckpoint p" and i: "i \<in> set ?sel" "(i, task) \<in> set (by_id st)" "p \<in> set (produced_checkpoints task)"
    from plan_task_origin [OF st low i(2,1)]
    have "\<exists>u \<in> set (cp_tasks c). set (nt_checkpoints u) = set (produced_checkpoints task)" by metis
    then show ?thesis using i(3) by (auto simp: d)
  qed
qed

text \<open>
  No prerequisite is lost: every prerequisite that a task of the target repository declares is a
  dependency of its task in the plan or is reported as external, and the reported number of internal
  dependencies is the number the plan has.
\<close>

theorem preledger_accounted:
  assumes "compile_preledger pk target = Inr c"
  shows "\<exists>path opt descriptor v tasks. package_files pk = Inr (path, opt, descriptor) \<and> pk_json pk path = Inr v \<and>
    records v [''tasks'', ''proposed_todos''] ''tasks file'' = Inr tasks \<and>
    (\<forall>task \<in> set tasks. \<forall>f \<in> set DEPENDENCY_FIELDS. \<forall>p \<in> set (dependency_ids (dget task f)).
      task_repository task = strip target \<longrightarrow>
      (\<exists>t \<in> set (cp_tasks c). nt_task t = task_key task \<and> (OnTask p \<in> set (nt_depends t) \<or> OnCheckpoint p \<in> set (nt_depends t))) \<or>
      (\<exists>e \<in> set (cp_external c). ex_task e = task_key task \<and> ex_dependency e = p)) \<and>
    sum_list (map (\<lambda>t. length (nt_depends t)) (cp_tasks c)) = cp_internal c"
  using assms
proof (rule compile_cases)
  fix path opt descriptor v tasks st dp ws deps digest
  assume read: "package_files pk = Inr (path, opt, descriptor)" "pk_json pk path = Inr v"
      "records v [''tasks'', ''proposed_todos''] ''tasks file'' = Inr tasks"
    and st: "index_tasks tasks \<lparr>by_id = [], repository_by_id = [], checkpoint_owner = []\<rparr> = Inr st"
    and dp: "all_pairs pk opt st = Inr (dp, ws)"
    and deps: "split_pairs st (selected_ids st (strip target)) (sorted_pairs dp) \<lparr>native_dependencies = [], external_dependencies = []\<rparr> = Inr deps"
    and low: "list_all2 (\<lambda>i t. \<exists>w. lower_task pk digest (native_dependencies deps) (i, the (map_of (by_id st) i)) = Inr (t, w))
       (sort (selected_ids st (strip target))) (cp_tasks c)"
    and c: "cp_internal c = length (native_dependencies deps)" "cp_external c = external_dependencies deps"
  let ?sel = "selected_ids st (strip target)"
  note idx = index_tasks_start [OF st]
  have one: "(\<exists>t \<in> set (cp_tasks c). nt_task t = task_key task \<and> (OnTask p \<in> set (nt_depends t) \<or> OnCheckpoint p \<in> set (nt_depends t))) \<or>
      (\<exists>e \<in> set (cp_external c). ex_task e = task_key task \<and> ex_dependency e = p)"
    if task: "task \<in> set tasks" "task_repository task = strip target" and f: "f \<in> set DEPENDENCY_FIELDS"
      and p: "p \<in> set (dependency_ids (dget task f))" for task f p
  proof -
    have sel: "task_key task \<in> set ?sel" using task idx(4) by blast
    have mem: "(task_key task, task) \<in> set (by_id st)" using task(1) idx(2) by auto
    have "(task_key task, p) \<in> fst ` set (task_pairs (by_id st))"
      using mem f p by (rule task_pairs_member)
    then have pair: "(task_key task, p) \<in> fst ` set dp" using all_pairs_local [OF dp] by blast
    show ?thesis
    proof (cases "classify st ?sel p")
      case None
      then show ?thesis unfolding c(2) by (intro disjI2 external_dependency [OF deps sel pair])
    next
      case (Some d)
      then have "(task_key task, d) \<in> set (native_dependencies deps)" using native_dependency [OF deps] sel pair by blast
      moreover have "d = OnTask p \<or> d = OnCheckpoint p" using classify_cases [OF idx(1) Some] by blast
      moreover obtain t where "t \<in> set (cp_tasks c)" "nt_task t = task_key task"
          "set (nt_depends t) = {d. (task_key task, d) \<in> set (native_dependencies deps)}"
          "set (nt_checkpoints t) = set (produced_checkpoints task)"
        by (rule plan_task_origin [OF st low mem sel])
      ultimately show ?thesis by (intro disjI1 bexI [of _ t]) (simp_all, blast)
    qed
  qed
  have "map (\<lambda>t. length (nt_depends t)) (cp_tasks c) = map (\<lambda>i. length (filter (\<lambda>p. fst p = i) (native_dependencies deps))) (sort ?sel)"
    using low by (induction rule: list_all2_induct) (auto dest: lower_task_facts(3))
  moreover have "fst ` set (native_dependencies deps) \<subseteq> set (sort ?sel)" using native_dependency [OF deps] by auto
  ultimately have "sum_list (map (\<lambda>t. length (nt_depends t)) (cp_tasks c)) = cp_internal c"
    using length_by_key [of "sort ?sel"] idx(5) c(1) by (simp add: distinct_sort)
  with read one show ?thesis by (intro exI conjI ballI impI)
qed

section \<open>A package\<close>

definition demo_tasks :: pv where
  "demo_tasks = PList
    [PDict [(''id'', PStr ''A''), (''title'', PStr ''first''), (''repository'', PStr ''core''), (''produces_checkpoint'', PStr ''ck'')],
     PDict [(''id'', PStr ''B''), (''title'', PStr ''second''), (''repository'', PStr ''core''),
            (''builds_on'', PList [PStr ''A'', PStr ''ck'', PStr ''X''])],
     PDict [(''id'', PStr ''X''), (''title'', PStr ''other''), (''repository'', PStr ''edge'')]]"

definition demo_package :: package where
  "demo_package = \<lparr>pk_is_dir = True, pk_norm = (\<lambda>s. s), pk_inside = (\<lambda>_. True), pk_is_file = (\<lambda>f. f = ''proposed_todos.json''),
     pk_json = (\<lambda>_. Inr demo_tasks), pk_csv = (\<lambda>_. Inl (PreledgerError ''no table'')), pk_lines = (\<lambda>_. []), pk_sha256 = (\<lambda>_. ''0''),
     json_text = (\<lambda>v. case v of PDict d \<Rightarrow> str_of (snd (last d)) | _ \<Rightarrow> []), text_sha256 = (\<lambda>s. s)\<rparr>"

definition demo_plan :: compiled_preledger where
  "demo_plan = (case compile_preledger demo_package ''core'' of Inr c \<Rightarrow> c | Inl _ \<Rightarrow> undefined)"

lemma demo_compiles: "compile_preledger demo_package ''core'' = Inr demo_plan"
proof -
  have "isl (compile_preledger demo_package ''core'') = False" by code_simp
  then show ?thesis by (auto simp: demo_plan_def split: sum.splits)
qed

theorem preledger_selects_witness:
  "cp_selected demo_plan = length (cp_tasks demo_plan) \<and> sorted (map nt_task (cp_tasks demo_plan))"
  using preledger_selects [OF demo_compiles] by blast

theorem preledger_closed_witness: "''A'' \<in> nt_task ` set (cp_tasks demo_plan)"
proof -
  have "cp_tasks demo_plan ! 1 \<in> set (cp_tasks demo_plan)" "OnTask ''A'' \<in> set (nt_depends (cp_tasks demo_plan ! 1))"
    by code_simp+
  from preledger_closed [OF demo_compiles this] show ?thesis by simp
qed

theorem preledger_accounted_witness: "sum_list (map (\<lambda>t. length (nt_depends t)) (cp_tasks demo_plan)) = 2 \<and> cp_internal demo_plan = 2"
proof -
  have "cp_internal demo_plan = 2" by code_simp
  with preledger_accounted [OF demo_compiles] show ?thesis by auto
qed

end
