(* ===== verification/Json.thy ===== *)
theory Json
  imports PyText "HOL-Library.Multiset"
begin

text \<open>
  \<^verbatim>\<open>json.dumps(value, ensure_ascii=False, allow_nan=False, sort_keys=True, separators=(",", ":"))\<close>, the
  canonical text that bounds and digests are taken of (\<^verbatim>\<open>_canonical\<close> of
  \<^verbatim>\<open>src/src/project_control/compact_workflow.py\<close>).  How a finite float is written (\<^verbatim>\<open>repr\<close>) is
  the argument \<open>rp\<close>; text is ASCII, so that characters are bytes.
\<close>

definition hex_digit :: "nat \<Rightarrow> char" where
  "hex_digit n = (if n < 10 then char_of (48 + n) else char_of (87 + n))"

definition esc_char :: "char \<Rightarrow> string" where
  "esc_char c =
     (if c = CHR 0x22 \<or> c = CHR 0x5C then [CHR 0x5C, c]
      else if c = CHR 0x08 then [CHR 0x5C, CHR ''b'']
      else if c = CHR 0x09 then [CHR 0x5C, CHR ''t'']
      else if c = CHR 0x0A then [CHR 0x5C, CHR ''n'']
      else if c = CHR 0x0C then [CHR 0x5C, CHR ''f'']
      else if c = CHR 0x0D then [CHR 0x5C, CHR ''r'']
      else if (of_char c :: nat) < 32 then CHR 0x5C # ''u00'' @ [hex_digit (of_char c div 16), hex_digit (of_char c mod 16)]
      else [c])"

definition json_string :: "string \<Rightarrow> string" where
  "json_string s = CHR 0x22 # concat (map esc_char s) @ [CHR 0x22]"

fun json_enc :: "(real \<Rightarrow> string) \<Rightarrow> pv \<Rightarrow> string" where
  "json_enc rp PNone = ''null''"
| "json_enc rp (PBool b) = (if b then ''true'' else ''false'')"
| "json_enc rp (PInt i) = string_of_int i"
| "json_enc rp (PFloat x) = (case x of Finite r \<Rightarrow> rp r | _ \<Rightarrow> [])"
| "json_enc rp (PStr s) = json_string s"
| "json_enc rp (PList xs) = ''['' @ join '','' (map (json_enc rp) xs) @ '']''"
| "json_enc rp (PDict d) =
     CHR 0x7B # join '','' (map (\<lambda>p. json_string (fst p) @ '':'' @ snd p)
       (sort_key fst (map (\<lambda>p. (fst p, json_enc rp (snd p))) d))) @ [CHR 0x7D]"

definition canonical :: "(real \<Rightarrow> string) \<Rightarrow> pv \<Rightarrow> string result" where
  "canonical rp v =
     (if json_finite v then Inr (json_enc rp v)
      else Inl (ValueError ''Out of range float values are not JSON compliant''))"

text \<open>The number of bytes of a value that can be written.\<close>

definition json_size :: "(real \<Rightarrow> string) \<Rightarrow> pv \<Rightarrow> nat" where
  "json_size rp v = length (json_enc rp v)"

lemma canonical_eq_Inr [simp]: "canonical rp v = Inr s \<longleftrightarrow> json_finite v \<and> s = json_enc rp v"
  by (auto simp: canonical_def)

lemma canonical_eq_Inl [simp]:
  "canonical rp v = Inl e \<longleftrightarrow> \<not> json_finite v \<and> e = ValueError ''Out of range float values are not JSON compliant''"
  by (auto simp: canonical_def)

section \<open>Sizes\<close>

lemma length_join: "length (join sep xs) = sum_list (map length xs) + length sep * (length xs - 1)"
  by (induction sep xs rule: join.induct) auto

lemma length_json_string: "length (json_string s) = 2 + length (concat (map esc_char s))"
  by (simp add: json_string_def)

lemma sum_list_map_sort: "sum_list (map f (sort_key k xs)) = sum_list (map (f :: 'a \<Rightarrow> nat) xs)"
proof -
  have "mset (map f (sort_key k xs)) = mset (map f xs)" by simp
  then show ?thesis by (metis sum_mset_sum_list)
qed

text \<open>What a member adds to an object.\<close>

definition member_size :: "(real \<Rightarrow> string) \<Rightarrow> string \<times> pv \<Rightarrow> nat" where
  "member_size rp p = length (json_string (fst p)) + 1 + json_size rp (snd p)"

lemma json_size_dict: "json_size rp (PDict d) = 2 + sum_list (map (member_size rp) d) + (length d - 1)"
  by (simp add: json_size_def length_join sum_list_map_sort comp_def member_size_def [abs_def])

lemma json_size_list: "json_size rp (PList xs) = 2 + sum_list (map (json_size rp) xs) + (length xs - 1)"
  by (simp add: json_size_def [abs_def] length_join comp_def)

text \<open>Decimal digits.\<close>

lemma string_of_nat_not_Nil [simp]: "string_of_nat n \<noteq> []"
  by (subst string_of_nat.simps) simp

lemma length_string_of_nat_mono: "m \<le> n \<Longrightarrow> length (string_of_nat m) \<le> length (string_of_nat n)"
proof (induction n arbitrary: m rule: less_induct)
  case (less n)
  show ?case
  proof (cases "n < 10 \<or> m < 10")
    case True
    then show ?thesis using less.prems
      by (subst (1 2) string_of_nat.simps) (auto simp: Suc_le_eq)
  next
    case False
    then have "length (string_of_nat (m div 10)) \<le> length (string_of_nat (n div 10))"
      using less.prems by (intro less.IH) (auto simp: div_le_mono)
    with False show ?thesis by (subst (1 2) string_of_nat.simps) simp
  qed
qed

lemma length_string_of_nat_le: "length (string_of_nat n) \<le> Suc n"
proof (induction n rule: less_induct)
  case (less n)
  show ?case
  proof (cases "n < 10")
    case False
    then have "length (string_of_nat (n div 10)) \<le> Suc (n div 10)" by (intro less.IH) simp
    with False show ?thesis by (subst string_of_nat.simps) simp
  qed (subst string_of_nat.simps, simp)
qed

lemma json_size_nat: "json_size rp (PInt (int n)) = length (string_of_nat n)"
  by (simp add: json_size_def string_of_int_def)

section \<open>A bound that needs no encoding\<close>

fun json_bound :: "pv \<Rightarrow> nat" where
  "json_bound PNone = 4"
| "json_bound (PBool b) = 5"
| "json_bound (PInt i) = length (string_of_int i)"
| "json_bound (PFloat x) = 32"
| "json_bound (PStr s) = 2 + 6 * length s"
| "json_bound (PList xs) = 2 + sum_list (map (\<lambda>x. json_bound x + 1) xs)"
| "json_bound (PDict d) = 2 + sum_list (map (\<lambda>p. 4 + 6 * length (fst p) + json_bound (snd p)) d)"

lemma length_esc: "length (concat (map esc_char s)) \<le> 6 * length s"
proof (induction s)
  case (Cons c s)
  have "length (esc_char c) \<le> 6" by (simp add: esc_char_def)
  with Cons show ?case by simp
qed simp

lemma json_size_bound: "(\<And>x. length (rp x) \<le> 32) \<Longrightarrow> json_size rp v \<le> json_bound v"
proof (induction v)
  case (PFloat x)
  then show ?case by (cases x) (simp_all add: json_size_def)
next
  case (PStr s)
  then show ?case using length_esc [of s] by (simp add: json_size_def length_json_string)
next
  case (PList xs)
  have "sum_list (map (json_size rp) xs) + length xs \<le> sum_list (map (\<lambda>x. json_bound x + 1) xs)"
    using PList
  proof (induction xs)
    case (Cons x xs)
    have "json_size rp x \<le> json_bound x" by (rule Cons.prems(1)) (auto intro: Cons.prems(2))
    moreover have "sum_list (map (json_size rp) xs) + length xs \<le> sum_list (map (\<lambda>x. json_bound x + 1) xs)"
      by (rule Cons.IH) (use Cons.prems in auto)
    ultimately show ?case by simp
  qed simp
  then show ?case unfolding json_size_list by simp
next
  case (PDict d)
  have "sum_list (map (member_size rp) d) + length d \<le> sum_list (map (\<lambda>p. 4 + 6 * length (fst p) + json_bound (snd p)) d)"
    using PDict
  proof (induction d)
    case (Cons p d)
    have "json_size rp (snd p) \<le> json_bound (snd p)" by (rule Cons.prems(1)) (auto intro: snds.intros Cons.prems(2))
    moreover have "length (json_string (fst p)) \<le> 2 + 6 * length (fst p)" using length_esc by (simp add: length_json_string)
    moreover have "sum_list (map (member_size rp) d) + length d \<le> sum_list (map (\<lambda>p. 4 + 6 * length (fst p) + json_bound (snd p)) d)"
      by (rule Cons.IH) (use Cons.prems in auto)
    moreover have "member_size rp p = length (json_string (fst p)) + 1 + json_size rp (snd p)" by (rule member_size_def)
    ultimately show ?case by simp
  qed simp
  then show ?case unfolding json_size_dict by simp
qed (simp_all add: json_size_def)

end
