(* ===== verification/WorkflowStore.thy ===== *)
theory WorkflowStore
  imports Json
begin

text \<open>
  \<^verbatim>\<open>_PrivateWorkflowStore\<close> of \<^verbatim>\<open>src/src/project_control/compact_workflow.py\<close>: the private journal
  of one host actor.  The journal file is its decoded JSON, or why there is none; every
  operation reads it under the lock, checks it, and replaces it as a whole or not at all.  The
  actor's digest, \<^verbatim>\<open>sha256\<close>, \<^verbatim>\<open>repr\<close> of a float and the outcome of taking the lock are
  the environment; the clock and the random handle are arguments of the operations that use them.
\<close>

section \<open>The environment\<close>

record wf_env =
  actor_digest :: string
  sha256 :: "string \<Rightarrow> string"
  float_repr :: "real \<Rightarrow> string"
  lock_error :: "string option"

abbreviation werr :: "string \<Rightarrow> exn" where
  "werr \<equiv> WorkflowError"

definition STORE_FORMAT :: string where "STORE_FORMAT = ''project-control.compact-workflow-store''"
definition STORE_VERSION :: int where "STORE_VERSION = 1"
definition MAX_STORE_BYTES :: int where "MAX_STORE_BYTES = 32 * 1024 * 1024"
definition MAX_RECORDS :: int where "MAX_RECORDS = 4096"
definition MAX_PREVIEW_BYTES :: int where "MAX_PREVIEW_BYTES = 1024 * 1024"
definition MAX_RESULT_BYTES :: int where "MAX_RESULT_BYTES = 256 * 1024"
definition MAX_RESPONSE_BYTES :: int where "MAX_RESPONSE_BYTES = 8 * 1024"
definition MAX_CONTEXT_CAPSULE_BYTES :: int where "MAX_CONTEXT_CAPSULE_BYTES = 64 * 1024"

definition bounded_mapping :: "wf_env \<Rightarrow> pv \<Rightarrow> string \<Rightarrow> int \<Rightarrow> pdict result" where
  "bounded_mapping env value field limit =
     (case value of
        PDict d \<Rightarrow>
          (case canonical (float_repr env) value of
             Inl _ \<Rightarrow> Inl (werr (field @ ''_invalid''))
           | Inr encoded \<Rightarrow>
               if int (length encoded) > limit then Inl (werr (field @ ''_too_large'')) else Inr d)
      | _ \<Rightarrow> Inl (werr (field @ ''_invalid'')))"

definition safe_component :: "pv \<Rightarrow> string \<Rightarrow> int \<Rightarrow> string result" where
  "safe_component value name maximum =
     (case value of
        PStr s \<Rightarrow>
          if strip s = [] \<or> int (length s) > maximum \<or> list_ex (\<lambda>c. (of_char c :: nat) < 32) s
          then Inl (werr (name @ ''_invalid'')) else Inr s
      | _ \<Rightarrow> Inl (werr (name @ ''_invalid'')))"

section \<open>The journal\<close>

record wf_entry =
  en_kind :: string
  en_identity :: string
  en_digest :: string
  en_project :: string
  en_repository :: string
  en_created :: pv
  en_updated :: pv
  en_data :: pdict

text \<open>
  \<open>Unsafe\<close> stands for a symbolic link, a file that is not regular, of another user, readable by
  others or too large; \<open>Unavailable\<close> for one that cannot be opened and \<open>Undecodable\<close> for one that
  is not JSON.
\<close>

datatype journal = Missing | Unsafe | Unavailable | Undecodable | Decoded pv

definition ENTRY_FIELDS :: "string list" where
  "ENTRY_FIELDS = [''kind'', ''identity'', ''identity_digest'', ''project'', ''repository'', ''created_at'', ''updated_at'', ''data'']"

definition is_timestamp :: "pv \<Rightarrow> bool" where
  "is_timestamp v = (case v of PInt _ \<Rightarrow> True | PFloat _ \<Rightarrow> True | _ \<Rightarrow> False)"

definition read_entry :: "pv \<Rightarrow> wf_entry result" where
  "read_entry v =
     (case v of
        PDict e \<Rightarrow>
          if set (keys e) = set ENTRY_FIELDS \<and> is_str (dget e ''kind'') \<and> is_str (dget e ''identity'') \<and>
             is_str (dget e ''identity_digest'') \<and> is_str (dget e ''project'') \<and> is_str (dget e ''repository'') \<and>
             is_timestamp (dget e ''created_at'') \<and> is_timestamp (dget e ''updated_at'') \<and> is_dict (dget e ''data'')
          then Inr \<lparr>en_kind = str_of (dget e ''kind''), en_identity = str_of (dget e ''identity''),
                 en_digest = str_of (dget e ''identity_digest''), en_project = str_of (dget e ''project''),
                 en_repository = str_of (dget e ''repository''), en_created = dget e ''created_at'',
                 en_updated = dget e ''updated_at'', en_data = (case dget e ''data'' of PDict d \<Rightarrow> d | _ \<Rightarrow> [])\<rparr>
          else Inl (werr ''workflow_store_file_invalid'')
      | _ \<Rightarrow> Inl (werr ''workflow_store_file_invalid''))"

definition read_journal :: "journal \<Rightarrow> wf_entry list result" where
  "read_journal file =
     (case file of
        Missing \<Rightarrow> Inr []
      | Unsafe \<Rightarrow> Inl (werr ''workflow_store_file_unsafe'')
      | Unavailable \<Rightarrow> Inl (werr ''workflow_store_file_unavailable'')
      | Undecodable \<Rightarrow> Inl (werr ''workflow_store_file_invalid'')
      | Decoded (PDict v) \<Rightarrow>
          if set (keys v) = {''format'', ''version'', ''entries''} \<and> dget v ''format'' = PStr STORE_FORMAT \<and>
             eq_int (dget v ''version'') STORE_VERSION
          then (case dget v ''entries'' of
                  PList es \<Rightarrow>
                    if int (length es) > MAX_RECORDS then Inl (werr ''workflow_store_file_invalid'') else mapR read_entry es
                | _ \<Rightarrow> Inl (werr ''workflow_store_file_invalid''))
          else Inl (werr ''workflow_store_file_invalid'')
      | Decoded _ \<Rightarrow> Inl (werr ''workflow_store_file_invalid''))"

definition entry_pv :: "wf_entry \<Rightarrow> pv" where
  "entry_pv e = PDict
     [(''kind'', PStr (en_kind e)), (''identity'', PStr (en_identity e)), (''identity_digest'', PStr (en_digest e)),
      (''project'', PStr (en_project e)), (''repository'', PStr (en_repository e)), (''created_at'', en_created e),
      (''updated_at'', en_updated e), (''data'', PDict (en_data e))]"

definition journal_pv :: "wf_entry list \<Rightarrow> pv" where
  "journal_pv es = PDict
     [(''format'', PStr STORE_FORMAT), (''version'', PInt STORE_VERSION), (''entries'', PList (map entry_pv es))]"

definition write_journal :: "wf_env \<Rightarrow> wf_entry list \<Rightarrow> journal result" where
  "write_journal env es =
     (case canonical (float_repr env) (journal_pv es) of
        Inl _ \<Rightarrow> Inl (werr ''workflow_store_record_invalid'')
      | Inr encoded \<Rightarrow>
          if int (length encoded) > MAX_STORE_BYTES then Inl (werr ''workflow_store_full'') else Inr (Decoded (journal_pv es)))"

section \<open>Transactions\<close>

definition NUL :: string where "NUL = [CHR 0x00]"

definition identity_of :: "wf_env \<Rightarrow> string \<Rightarrow> string \<Rightarrow> string" where
  "identity_of env kind ident = sha256 env (actor_digest env @ NUL @ kind @ NUL @ ident)"

definition take_lock :: "wf_env \<Rightarrow> unit result" where
  "take_lock env = (case lock_error env of None \<Rightarrow> Inr () | Some code \<Rightarrow> Inl (werr code))"

definition mutate ::
  "wf_env \<Rightarrow> (wf_entry list \<Rightarrow> ('a \<times> wf_entry list \<times> bool) result) \<Rightarrow> journal \<Rightarrow> ('a \<times> journal) result" where
  "mutate env f file =
     bindR (take_lock env) (\<lambda>_.
     bindR (read_journal file) (\<lambda>es.
     bindR (f es) (\<lambda>(result, es', changed).
     if changed then bindR (write_journal env es') (\<lambda>file'. Inr (result, file')) else Inr (result, file))))"

definition read_only :: "wf_env \<Rightarrow> (wf_entry list \<Rightarrow> 'a result) \<Rightarrow> journal \<Rightarrow> 'a result" where
  "read_only env f file = bindR (take_lock env) (\<lambda>_. bindR (read_journal file) f)"

definition has_identity :: "string \<Rightarrow> string \<Rightarrow> wf_entry \<Rightarrow> bool" where
  "has_identity kind digest e \<longleftrightarrow> en_kind e = kind \<and> en_digest e = digest"

text \<open>
  \<^verbatim>\<open>_find\<close>: the position of the one entry of that identity, which must be of the caller's scope.
\<close>

definition find_entry ::
  "wf_env \<Rightarrow> string \<Rightarrow> string \<Rightarrow> string \<Rightarrow> string \<Rightarrow> wf_entry list \<Rightarrow> wf_entry option result" where
  "find_entry env kind ident project repository es =
     (case filter (has_identity kind (identity_of env kind ident)) es of
        [] \<Rightarrow> Inr None
      | [e] \<Rightarrow> if en_project e \<noteq> project \<or> en_repository e \<noteq> repository
               then Inl (werr ''workflow_handle_scope_mismatch'') else Inr (Some e)
      | _ \<Rightarrow> Inl (werr ''workflow_store_duplicate_identity''))"

text \<open>The entry is an object of the list: a change to it is a change at its identity.\<close>

definition replace_entry :: "string \<Rightarrow> string \<Rightarrow> (wf_entry \<Rightarrow> wf_entry) \<Rightarrow> wf_entry list \<Rightarrow> wf_entry list" where
  "replace_entry kind digest g es = map (\<lambda>e. if has_identity kind digest e then g e else e) es"

section \<open>Operations\<close>

definition new_entry :: "wf_env \<Rightarrow> string \<Rightarrow> string \<Rightarrow> string \<Rightarrow> string \<Rightarrow> real \<Rightarrow> pdict \<Rightarrow> wf_entry" where
  "new_entry env kind ident project repository ts d =
     \<lparr>en_kind = kind, en_identity = ident, en_digest = identity_of env kind ident, en_project = project,
      en_repository = repository, en_created = PFloat (Finite ts), en_updated = PFloat (Finite ts), en_data = d\<rparr>"

text \<open>\<open>opaque\<close> is \<^verbatim>\<open>identity or secrets.token_urlsafe(32)\<close>.\<close>

definition create_record ::
  "wf_env \<Rightarrow> real \<Rightarrow> string \<Rightarrow> string \<Rightarrow> string \<Rightarrow> string \<Rightarrow> pv \<Rightarrow> journal \<Rightarrow> (string \<times> journal) result" where
  "create_record env ts kind opaque project repository v file =
     bindR (bounded_mapping env v ''workflow_record'' MAX_PREVIEW_BYTES) (\<lambda>d.
     mutate env (\<lambda>es.
       if int (length es) \<ge> MAX_RECORDS then Inl (werr ''workflow_store_full'')
       else if list_ex (\<lambda>e. en_digest e = identity_of env kind opaque) es
       then Inl (werr ''workflow_store_identity_conflict'')
       else Inr (opaque, es @ [new_entry env kind opaque project repository ts d], True)) file)"

definition get_record ::
  "wf_env \<Rightarrow> string \<Rightarrow> pv \<Rightarrow> string \<Rightarrow> string \<Rightarrow> journal \<Rightarrow> pdict result" where
  "get_record env kind opaque project repository file =
     bindR (safe_component opaque ''workflow_handle'' 256) (\<lambda>ident.
     read_only env (\<lambda>es.
       bindR (find_entry env kind ident project repository es) (\<lambda>r.
       case r of None \<Rightarrow> Inl (werr ''workflow_handle_unavailable'') | Some e \<Rightarrow> Inr (en_data e))) file)"

definition get_any_scope ::
  "wf_env \<Rightarrow> string \<Rightarrow> pv \<Rightarrow> journal \<Rightarrow> (string \<times> string \<times> pdict) result" where
  "get_any_scope env kind opaque file =
     bindR (safe_component opaque ''workflow_handle'' 256) (\<lambda>ident.
     read_only env (\<lambda>es.
       case filter (has_identity kind (identity_of env kind ident)) es of
         [] \<Rightarrow> Inl (werr ''workflow_handle_unavailable'')
       | [e] \<Rightarrow> Inr (en_project e, en_repository e, en_data e)
       | _ \<Rightarrow> Inl (werr ''workflow_store_duplicate_identity'')) file)"

definition update_record ::
  "wf_env \<Rightarrow> real \<Rightarrow> string \<Rightarrow> string \<Rightarrow> string \<Rightarrow> string \<Rightarrow> pv \<Rightarrow> journal \<Rightarrow> (pdict \<times> journal) result" where
  "update_record env ts kind opaque project repository changes file =
     bindR (bounded_mapping env changes ''workflow_record'' MAX_PREVIEW_BYTES) (\<lambda>u.
     mutate env (\<lambda>es.
       bindR (find_entry env kind opaque project repository es) (\<lambda>r.
       case r of
         None \<Rightarrow> Inl (werr ''workflow_handle_unavailable'')
       | Some e \<Rightarrow>
           Inr (dupdate (en_data e) u,
                replace_entry kind (identity_of env kind opaque)
                  (\<lambda>e. e\<lparr>en_data := dupdate (en_data e) u, en_updated := PFloat (Finite ts)\<rparr>) es, True))) file)"

definition list_records :: "wf_env \<Rightarrow> string \<Rightarrow> string \<Rightarrow> string \<Rightarrow> journal \<Rightarrow> pdict list result" where
  "list_records env kind project repository file =
     read_only env (\<lambda>es. Inr (map en_data
       (filter (\<lambda>e. en_kind e = kind \<and> en_project e = project \<and> en_repository e = repository) es))) file"

text \<open>The callback sees the data and returns it changed, with whether it reports a change.\<close>

definition atomic_update ::
  "wf_env \<Rightarrow> real \<Rightarrow> string \<Rightarrow> string \<Rightarrow> string \<Rightarrow> string \<Rightarrow> (pdict \<Rightarrow> (bool \<times> pdict) result) \<Rightarrow> journal \<Rightarrow>
     (pdict \<times> journal) result" where
  "atomic_update env ts kind opaque project repository fn file =
     mutate env (\<lambda>es.
       bindR (find_entry env kind opaque project repository es) (\<lambda>r.
       case r of
         None \<Rightarrow> Inl (werr ''workflow_handle_unavailable'')
       | Some e \<Rightarrow>
           bindR (fn (en_data e)) (\<lambda>(changed, d).
           Inr (d, replace_entry kind (identity_of env kind opaque)
                  (\<lambda>e. e\<lparr>en_data := d, en_updated := PFloat (Finite ts)\<rparr>) es, changed)))) file"

section \<open>The current workflow of a scope\<close>

definition ACTIVE_PHASES :: "string list" where
  "ACTIVE_PHASES = [''selecting'', ''workspace_pending'', ''dispatch_pending'', ''context_pending'', ''active'',
     ''finishing'', ''handback_pending'', ''report_pending'', ''release_pending'']"

definition active_phase :: "pdict \<Rightarrow> bool" where
  "active_phase record \<longleftrightarrow> dget record ''phase'' \<in> PStr ` set ACTIVE_PHASES"

definition pointer_identity :: "wf_env \<Rightarrow> string \<Rightarrow> string \<Rightarrow> string" where
  "pointer_identity env project repository = ''current-'' @ take 40 (sha256 env (project @ NUL @ repository))"

definition pointer_rows :: "wf_env \<Rightarrow> string \<Rightarrow> string \<Rightarrow> wf_entry list \<Rightarrow> wf_entry list" where
  "pointer_rows env project repository =
     filter (has_identity ''workflow_current'' (identity_of env ''workflow_current'' (pointer_identity env project repository)))"

text \<open>The request a workflow was reserved for, or one that its task and run satisfy.\<close>

definition asks_other :: "pdict \<Rightarrow> pdict \<Rightarrow> string \<Rightarrow> bool" where
  "asks_other request record field \<longleftrightarrow>
     dget request field \<noteq> PNone \<and> \<not> py_eq (dget request field) (dget record field)"

definition request_conflicts :: "pdict \<Rightarrow> pdict \<Rightarrow> bool" where
  "request_conflicts request record =
     (if dget record ''phase'' = PStr ''selecting'' then \<not> py_eq (dget record ''request'') (PDict request)
      else asks_other request record ''task_id'' \<or> asks_other request record ''run_id'')"

definition find_current_workflow ::
  "wf_env \<Rightarrow> string \<Rightarrow> string \<Rightarrow> pdict \<Rightarrow> journal \<Rightarrow> (string \<times> pdict) option result" where
  "find_current_workflow env project repository requested file =
     bindR (bounded_mapping env (PDict requested) ''workflow_request'' 4096) (\<lambda>request.
     read_only env (\<lambda>es.
       case pointer_rows env project repository es of
         [] \<Rightarrow> Inr None
       | [p] \<Rightarrow>
           if en_project p \<noteq> project \<or> en_repository p \<noteq> repository then Inl (werr ''workflow_store_current_invalid'')
           else (case dget (en_data p) ''workflow_handle'' of
                   PStr handle \<Rightarrow>
                     (case filter (has_identity ''workflow'' (identity_of env ''workflow'' handle)) es of
                        [w] \<Rightarrow>
                          if \<not> active_phase (en_data w) then Inr None
                          else if request_conflicts request (en_data w) then Inl (werr ''workflow_task_already_active'')
                          else Inr (Some (handle, en_data w))
                      | _ \<Rightarrow> Inl (werr ''workflow_store_current_invalid''))
                 | _ \<Rightarrow> Inl (werr ''workflow_store_current_invalid''))
       | _ \<Rightarrow> Inl (werr ''workflow_store_current_invalid'')) file)"

text \<open>A new authoring workflow: its entry, and the pointer of the scope set to it.\<close>

definition start_workflow ::
  "wf_env \<Rightarrow> real \<Rightarrow> string \<Rightarrow> string \<Rightarrow> string \<Rightarrow> pdict \<Rightarrow> wf_entry list \<Rightarrow>
     ((string \<times> pdict \<times> bool) \<times> wf_entry list \<times> bool) result" where
  "start_workflow env ts handle project repository request es =
     (let pointed = pointer_rows env project repository es \<noteq> [];
          d = [(''phase'', PStr ''selecting''), (''request'', PDict request), (''project'', PStr project),
               (''repository'', PStr repository), (''created_at'', PFloat (Finite ts))];
          es1 = es @ [new_entry env ''workflow'' handle project repository ts d];
          pid = pointer_identity env project repository;
          pdata = [(''workflow_handle'', PStr handle)]
      in if int (length es) + (if pointed then 0 else 1) \<ge> MAX_RECORDS then Inl (werr ''workflow_store_full'')
         else Inr ((handle, d, True),
           (if pointed then replace_entry ''workflow_current'' (identity_of env ''workflow_current'' pid)
                (\<lambda>e. e\<lparr>en_data := pdata, en_updated := PFloat (Finite ts)\<rparr>) es1
            else es1 @ [new_entry env ''workflow_current'' pid project repository ts pdata]), True))"

text \<open>The workflow the pointer names, when it is there, in scope and still active.\<close>

definition pointed_workflow ::
  "wf_env \<Rightarrow> string \<Rightarrow> string \<Rightarrow> wf_entry list \<Rightarrow> (string \<times> pdict) option result" where
  "pointed_workflow env project repository es =
     (case pointer_rows env project repository es of
        [] \<Rightarrow> Inr None
      | [p] \<Rightarrow>
          if en_project p \<noteq> project \<or> en_repository p \<noteq> repository then Inl (werr ''workflow_handle_scope_mismatch'')
          else (case dget (en_data p) ''workflow_handle'' of
                  PStr handle \<Rightarrow>
                    (case filter (has_identity ''workflow'' (identity_of env ''workflow'' handle)) es of
                       [] \<Rightarrow> Inr None
                     | [w] \<Rightarrow>
                         if en_project w = project \<and> en_repository w = repository \<and> active_phase (en_data w)
                         then Inr (Some (handle, en_data w)) else Inr None
                     | _ \<Rightarrow> Inl (werr ''workflow_store_duplicate_identity''))
                | _ \<Rightarrow> Inr None)
      | _ \<Rightarrow> Inl (werr ''workflow_store_duplicate_current''))"

definition reserve_workflow ::
  "wf_env \<Rightarrow> real \<Rightarrow> string \<Rightarrow> string \<Rightarrow> string \<Rightarrow> pdict \<Rightarrow> journal \<Rightarrow> ((string \<times> pdict \<times> bool) \<times> journal) result" where
  "reserve_workflow env ts token project repository requested file =
     bindR (bounded_mapping env (PDict requested) ''workflow_request'' 4096) (\<lambda>request.
     mutate env (\<lambda>es.
       bindR (pointed_workflow env project repository es) (\<lambda>current.
       case current of
         Some (handle, record) \<Rightarrow>
           if request_conflicts request record then Inl (werr ''workflow_task_already_active'')
           else Inr ((handle, record, False), es, False)
       | None \<Rightarrow> start_workflow env ts token project repository request es)) file)"

section \<open>Reviews\<close>

definition open_review :: "string \<Rightarrow> string \<Rightarrow> string \<Rightarrow> wf_entry \<Rightarrow> bool" where
  "open_review project repository candidate_id e \<longleftrightarrow>
     en_kind e = ''workflow'' \<and> en_project e = project \<and> en_repository e = repository \<and>
     dget (en_data e) ''mode'' = PStr ''review'' \<and> dget (en_data e) ''candidate_id'' = PStr candidate_id \<and>
     dget (en_data e) ''phase'' \<in> {PStr ''review_pending'', PStr ''review_accepted''}"

definition reserve_review ::
  "wf_env \<Rightarrow> real \<Rightarrow> string \<Rightarrow> string \<Rightarrow> string \<Rightarrow> pv \<Rightarrow> journal \<Rightarrow> ((string \<times> pdict \<times> bool) \<times> journal) result" where
  "reserve_review env ts token project repository candidate file =
     bindR (bounded_mapping env candidate ''review_workflow'' 4096) (\<lambda>d.
     case dget d ''candidate_id'' of
       PStr cid \<Rightarrow>
         if cid = [] then Inl (werr ''review_candidate_invalid'')
         else mutate env (\<lambda>es.
           case filter (open_review project repository cid) es of
             [e] \<Rightarrow> Inr ((en_identity e, en_data e, False), es, False)
           | [] \<Rightarrow>
               if int (length es) \<ge> MAX_RECORDS then Inl (werr ''workflow_store_full'')
               else let d' = dupdate d [(''mode'', PStr ''review''), (''phase'', PStr ''review_pending''),
                      (''created_at'', PFloat (Finite ts)), (''project'', PStr project), (''repository'', PStr repository)]
                    in Inr ((token, d', True), es @ [new_entry env ''workflow'' token project repository ts d'], True)
           | _ \<Rightarrow> Inl (werr ''workflow_store_duplicate_review'')) file
     | _ \<Rightarrow> Inl (werr ''review_candidate_invalid''))"

end
