(* ===== verification/WorkflowInv.thy ===== *)
theory WorkflowInv
  imports WorkflowStore Machine
begin

text \<open>
  The invariant of the journal: identities are unique, digests are those of the identities, and
  the pointer of a scope names a workflow of that scope.  Every operation keeps it, so the errors
  that report a damaged journal are never raised for one that only this store has written.
\<close>

section \<open>Reading what was written\<close>

definition stamped :: "wf_entry \<Rightarrow> bool" where
  "stamped e \<longleftrightarrow> is_timestamp (en_created e) \<and> is_timestamp (en_updated e)"

lemma read_entry_pv: "stamped e \<Longrightarrow> read_entry (entry_pv e) = Inr e"
  by (simp add: read_entry_def entry_pv_def keys_def ENTRY_FIELDS_def dget_def dget_or_def stamped_def insert_commute)

lemma read_entry_stamped: "read_entry v = Inr e \<Longrightarrow> stamped e"
  by (auto simp: read_entry_def stamped_def split: pv.splits if_splits)

lemma read_journal_facts:
  assumes "read_journal file = Inr es"
  shows "int (length es) \<le> MAX_RECORDS" "list_all stamped es"
proof -
  from assms have "es = [] \<or> (\<exists>raw. int (length raw) \<le> MAX_RECORDS \<and> mapR read_entry raw = Inr es)"
    by (auto simp: read_journal_def not_less split: journal.splits pv.splits if_splits)
  then consider "es = []" | raw where "int (length raw) \<le> MAX_RECORDS" "mapR read_entry raw = Inr es" by blast
  then have "int (length es) \<le> MAX_RECORDS \<and> list_all stamped es"
  proof cases
    case 2
    have "stamped e" if "e \<in> set es" for e
      using mapR_member [OF 2(2) that] read_entry_stamped by blast
    moreover have "length es = length raw" using 2(2) unfolding mapR_eq_Inr by (rule list_all2_lengthD [symmetric])
    ultimately show ?thesis using 2(1) by (simp add: list_all_iff)
  qed (simp add: MAX_RECORDS_def)
  then show "int (length es) \<le> MAX_RECORDS" "list_all stamped es" by simp_all
qed

lemma write_journal_eq_Inr:
  "write_journal env es = Inr file \<longleftrightarrow> json_finite (journal_pv es) \<and>
     int (json_size (float_repr env) (journal_pv es)) \<le> MAX_STORE_BYTES \<and> file = Decoded (journal_pv es)"
  by (auto simp: write_journal_def json_size_def canonical_def not_less split: if_splits)

lemma read_journal_pv:
  assumes "int (length es) \<le> MAX_RECORDS" "list_all stamped es"
  shows "read_journal (Decoded (journal_pv es)) = Inr es"
proof -
  have "mapR read_entry (map entry_pv es) = Inr es"
    unfolding mapR_eq_Inr using assms(2) by (simp add: list_all2_map1 list_all2_same list_all_iff read_entry_pv)
  with assms(1) show ?thesis
    by (simp add: read_journal_def journal_pv_def keys_def dget_def dget_or_def STORE_VERSION_def insert_commute)
qed

lemma mutate_eq_Inr:
  "mutate env f file = Inr (x, file') \<longleftrightarrow> lock_error env = None \<and>
     (\<exists>es es' changed. read_journal file = Inr es \<and> f es = Inr (x, es', changed) \<and>
        (if changed then write_journal env es' = Inr file' else file' = file))"
  by (auto simp: mutate_def take_lock_def bindR_eq_Inr split: option.splits if_splits)

text \<open>What a transaction leaves in the journal.\<close>

lemma mutate_reads:
  assumes "mutate env f file = Inr (x, file')" "read_journal file = Inr es"
    and step: "\<And>es' changed. f es = Inr (x, es', changed) \<Longrightarrow> changed \<Longrightarrow> int (length es') \<le> MAX_RECORDS \<and> list_all stamped es'"
  obtains es' changed where "f es = Inr (x, es', changed)" "read_journal file' = Inr (if changed then es' else es)"
proof -
  from assms(1,2) obtain es' changed where f: "f es = Inr (x, es', changed)"
    and w: "if changed then write_journal env es' = Inr file' else file' = file"
    unfolding mutate_eq_Inr by auto
  have "read_journal file' = Inr (if changed then es' else es)"
    using w assms(2) step [OF f] by (cases changed) (auto simp: write_journal_eq_Inr read_journal_pv)
  with f show thesis by (rule that)
qed

section \<open>The invariant\<close>

definition entry_key :: "wf_entry \<Rightarrow> string \<times> string" where
  "entry_key e = (en_kind e, en_digest e)"

lemma has_identity_key: "has_identity kind digest e \<longleftrightarrow> entry_key e = (kind, digest)"
  by (simp add: has_identity_def entry_key_def)

definition names_workflow :: "wf_env \<Rightarrow> wf_entry list \<Rightarrow> wf_entry \<Rightarrow> bool" where
  "names_workflow env es p \<longleftrightarrow> (\<exists>h. dget (en_data p) ''workflow_handle'' = PStr h \<and>
     (\<exists>w \<in> set es. has_identity ''workflow'' (identity_of env ''workflow'' h) w \<and>
        en_project w = en_project p \<and> en_repository w = en_repository p))"

definition entries_ok :: "wf_env \<Rightarrow> wf_entry list \<Rightarrow> bool" where
  "entries_ok env es \<longleftrightarrow> distinct (map entry_key es) \<and>
     (\<forall>e \<in> set es. en_digest e = identity_of env (en_kind e) (en_identity e)) \<and>
     (\<forall>p \<in> set es. en_kind p = ''workflow_current'' \<longrightarrow>
        en_digest p = identity_of env ''workflow_current'' (pointer_identity env (en_project p) (en_repository p)) \<and>
        names_workflow env es p)"

definition journal_ok :: "wf_env \<Rightarrow> journal \<Rightarrow> bool" where
  "journal_ok env file \<longleftrightarrow> (\<exists>es. read_journal file = Inr es \<and> entries_ok env es)"

lemma entries_okD:
  assumes "entries_ok env es"
  shows "distinct (map entry_key es)"
    "\<And>e. e \<in> set es \<Longrightarrow> en_digest e = identity_of env (en_kind e) (en_identity e)"
    "\<And>p. p \<in> set es \<Longrightarrow> en_kind p = ''workflow_current'' \<Longrightarrow>
       en_digest p = identity_of env ''workflow_current'' (pointer_identity env (en_project p) (en_repository p)) \<and> names_workflow env es p"
  using assms unfolding entries_ok_def by blast+

lemma missing_ok: "journal_ok env Missing"
  by (simp add: journal_ok_def read_journal_def entries_ok_def)

text \<open>Selecting by identity finds at most one entry.\<close>

lemma filter_key_unique:
  assumes "distinct (map k xs)" "x \<in> set xs" "k x = v"
  shows "filter (\<lambda>y. k y = v) xs = [x]"
  using assms
proof (induction xs)
  case (Cons y ys)
  show ?case
  proof (cases "y = x")
    case True
    have "filter (\<lambda>z. k z = v) ys = []" using Cons.prems True by (auto simp: filter_empty_conv image_iff)
    with True Cons.prems show ?thesis by simp
  next
    case False
    with Cons.prems have "x \<in> set ys" "k y \<noteq> v" by auto
    with Cons show ?thesis by simp
  qed
qed simp

lemma filter_identity:
  assumes "distinct (map entry_key es)" "e \<in> set es" "has_identity kind digest e"
  shows "filter (has_identity kind digest) es = [e]"
  using filter_key_unique [OF assms(1,2), of "(kind, digest)"] assms(3) by (simp add: has_identity_key [abs_def])

lemma filter_identity_short:
  assumes "distinct (map entry_key es)"
  shows "filter (has_identity kind digest) es = [] \<or> (\<exists>e \<in> set es. filter (has_identity kind digest) es = [e])"
proof (cases "\<exists>e \<in> set es. has_identity kind digest e")
  case True
  then show ?thesis using filter_identity [OF assms] by blast
qed (auto simp: filter_empty_conv)

lemma find_entry_Some:
  assumes "find_entry env kind ident project repository es = Inr (Some e)"
  shows "e \<in> set es" "has_identity kind (identity_of env kind ident) e" "en_project e = project" "en_repository e = repository"
proof -
  from assms have f: "filter (has_identity kind (identity_of env kind ident)) es = [e]"
    "en_project e = project \<and> en_repository e = repository"
    by (auto simp: find_entry_def split: list.splits if_splits)
  then have "e \<in> set (filter (has_identity kind (identity_of env kind ident)) es)" by simp
  with f(2) show "e \<in> set es" "has_identity kind (identity_of env kind ident) e" "en_project e = project" "en_repository e = repository"
    by auto
qed

section \<open>Changes that keep it\<close>

text \<open>An entry changed in place keeps its identity and scope; a pointer may be redirected within its scope.\<close>

definition same_place :: "wf_entry \<Rightarrow> wf_entry \<Rightarrow> bool" where
  "same_place e e' \<longleftrightarrow> en_kind e' = en_kind e \<and> en_identity e' = en_identity e \<and> en_digest e' = en_digest e \<and>
     en_project e' = en_project e \<and> en_repository e' = en_repository e"

lemma set_replace_entry:
  "set (replace_entry kind digest g es) = (\<lambda>e. if has_identity kind digest e then g e else e) ` set es"
  by (simp add: replace_entry_def)

lemma replace_entry_keys:
  assumes "\<And>e. same_place e (g e)"
  shows "map entry_key (replace_entry kind digest g es) = map entry_key es"
  using assms by (simp add: replace_entry_def entry_key_def same_place_def comp_def)

lemma names_workflow_replace:
  assumes g: "\<And>e. same_place e (g e)" and n: "names_workflow env es p"
  shows "names_workflow env (replace_entry kind digest g es) p"
proof -
  from n obtain h w where h: "dget (en_data p) ''workflow_handle'' = PStr h" and w: "w \<in> set es"
    "has_identity ''workflow'' (identity_of env ''workflow'' h) w" "en_project w = en_project p" "en_repository w = en_repository p"
    unfolding names_workflow_def by blast
  let ?w = "if has_identity kind digest w then g w else w"
  have "?w \<in> set (replace_entry kind digest g es)" unfolding set_replace_entry using w(1) by (rule imageI)
  moreover have "has_identity ''workflow'' (identity_of env ''workflow'' h) ?w" "en_project ?w = en_project p" "en_repository ?w = en_repository p"
    using w g by (auto simp: has_identity_def same_place_def)
  ultimately show ?thesis unfolding names_workflow_def using h by blast
qed

lemma replace_entry_ok:
  assumes ok: "entries_ok env es" and g: "\<And>e. same_place e (g e)" and k: "kind \<noteq> ''workflow_current''"
  shows "entries_ok env (replace_entry kind digest g es)"
  unfolding entries_ok_def
proof (intro conjI ballI impI)
  show "distinct (map entry_key (replace_entry kind digest g es))"
    unfolding replace_entry_keys [OF g] by (rule entries_okD(1) [OF ok])
next
  fix e assume "e \<in> set (replace_entry kind digest g es)"
  then obtain a where "a \<in> set es" "e = (if has_identity kind digest a then g a else a)" unfolding set_replace_entry by blast
  then show "en_digest e = identity_of env (en_kind e) (en_identity e)"
    using entries_okD(2) [OF ok] g by (auto simp: same_place_def)
next
  fix p assume p: "p \<in> set (replace_entry kind digest g es)" "en_kind p = ''workflow_current''"
  then obtain a where a: "a \<in> set es" "p = (if has_identity kind digest a then g a else a)" unfolding set_replace_entry by blast
  then have "p = a" using p(2) g k by (auto simp: same_place_def has_identity_def split: if_splits)
  with a p(2) have q: "en_digest p = identity_of env ''workflow_current'' (pointer_identity env (en_project p) (en_repository p))"
    "names_workflow env es p" using entries_okD(3) [OF ok] by auto
  show "en_digest p = identity_of env ''workflow_current'' (pointer_identity env (en_project p) (en_repository p))" by (rule q)
  show "names_workflow env (replace_entry kind digest g es) p" by (rule names_workflow_replace [OF g q(2)])
qed

lemma names_workflow_append: "names_workflow env es p \<Longrightarrow> names_workflow env (es @ fs) p"
  unfolding names_workflow_def by fastforce

lemma append_entry_ok:
  assumes ok: "entries_ok env es" and fresh: "entry_key (new_entry env kind ident project repository ts d) \<notin> entry_key ` set es"
    and k: "kind \<noteq> ''workflow_current''"
  shows "entries_ok env (es @ [new_entry env kind ident project repository ts d])"
  unfolding entries_ok_def
proof (intro conjI ballI impI)
  show "distinct (map entry_key (es @ [new_entry env kind ident project repository ts d]))"
    using entries_okD(1) [OF ok] fresh by simp
next
  fix e assume "e \<in> set (es @ [new_entry env kind ident project repository ts d])"
  then show "en_digest e = identity_of env (en_kind e) (en_identity e)"
    using entries_okD(2) [OF ok] by (auto simp: new_entry_def)
next
  fix p assume p: "p \<in> set (es @ [new_entry env kind ident project repository ts d])" "en_kind p = ''workflow_current''"
  then have "p \<in> set es" using k by (auto simp: new_entry_def)
  from entries_okD(3) [OF ok this p(2)]
  show "en_digest p = identity_of env ''workflow_current'' (pointer_identity env (en_project p) (en_repository p))"
    "names_workflow env (es @ [new_entry env kind ident project repository ts d]) p"
    by (auto intro: names_workflow_append)
qed

section \<open>Starting a workflow\<close>

lemma new_entry_simps [simp]:
  "en_kind (new_entry env k i p r ts d) = k" "en_identity (new_entry env k i p r ts d) = i"
  "en_digest (new_entry env k i p r ts d) = identity_of env k i" "en_project (new_entry env k i p r ts d) = p"
  "en_repository (new_entry env k i p r ts d) = r" "en_data (new_entry env k i p r ts d) = d"
  "entry_key (new_entry env k i p r ts d) = (k, identity_of env k i)"
  "stamped (new_entry env k i p r ts d)"
  by (simp_all add: new_entry_def entry_key_def stamped_def is_timestamp_def)

lemma set_pointer_rows:
  "p \<in> set (pointer_rows env project repository es) \<longleftrightarrow>
     p \<in> set es \<and> entry_key p = (''workflow_current'', identity_of env ''workflow_current'' (pointer_identity env project repository))"
  by (auto simp: pointer_rows_def has_identity_key)

definition pointer_of :: "wf_env \<Rightarrow> string \<Rightarrow> string \<Rightarrow> string \<Rightarrow> real \<Rightarrow> wf_entry \<Rightarrow> wf_entry" where
  "pointer_of env project repository handle ts e =
     e\<lparr>en_data := [(''workflow_handle'', PStr handle)], en_updated := PFloat (Finite ts)\<rparr>"

definition selecting :: "real \<Rightarrow> string \<Rightarrow> string \<Rightarrow> pdict \<Rightarrow> pdict" where
  "selecting ts project repository request =
     [(''phase'', PStr ''selecting''), (''request'', PDict request), (''project'', PStr project),
      (''repository'', PStr repository), (''created_at'', PFloat (Finite ts))]"

text \<open>The two shapes of the journal after a start.\<close>

lemma start_workflow_cases:
  assumes "start_workflow env ts handle project repository request es = Inr (x, es', changed)"
  obtains (pointed) "pointer_rows env project repository es \<noteq> []" "int (length es) < MAX_RECORDS"
      "x = (handle, selecting ts project repository request, True)" "changed"
      "es' = replace_entry ''workflow_current'' (identity_of env ''workflow_current'' (pointer_identity env project repository))
         (pointer_of env project repository handle ts)
         (es @ [new_entry env ''workflow'' handle project repository ts (selecting ts project repository request)])"
  | (fresh) "pointer_rows env project repository es = []" "int (length es) + 1 < MAX_RECORDS"
      "x = (handle, selecting ts project repository request, True)" "changed"
      "es' = (es @ [new_entry env ''workflow'' handle project repository ts (selecting ts project repository request)]) @
         [new_entry env ''workflow_current'' (pointer_identity env project repository) project repository ts [(''workflow_handle'', PStr handle)]]"
  using assms by (cases "pointer_rows env project repository es = []")
    (auto simp: start_workflow_def Let_def selecting_def pointer_of_def [abs_def] not_le split: if_splits)

lemma same_place_pointer: "same_place e (pointer_of env project repository handle ts e)"
  by (simp add: same_place_def pointer_of_def)

lemma start_workflow_ok:
  assumes ok: "entries_ok env es" and fresh: "(''workflow'', identity_of env ''workflow'' handle) \<notin> entry_key ` set es"
    and scope: "\<And>p. p \<in> set (pointer_rows env project repository es) \<Longrightarrow> en_project p = project \<and> en_repository p = repository"
    and start: "start_workflow env ts handle project repository request es = Inr (x, es', changed)"
  shows "entries_ok env es'"
proof -
  let ?w = "new_entry env ''workflow'' handle project repository ts (selecting ts project repository request)"
  let ?pk = "(''workflow_current'', identity_of env ''workflow_current'' (pointer_identity env project repository))"
  have ok1: "entries_ok env (es @ [?w])" using append_entry_ok [OF ok] fresh by simp
  have names: "names_workflow env fs p"
    if "dget (en_data p) ''workflow_handle'' = PStr handle" "?w \<in> set fs" "en_project p = project" "en_repository p = repository" for p fs
    unfolding names_workflow_def using that by (intro exI [of _ handle] conjI bexI [of _ ?w]) (simp_all add: has_identity_def)
  from start show ?thesis
  proof (cases rule: start_workflow_cases)
    case pointed
    let ?g = "pointer_of env project repository handle ts"
    have w: "?w \<in> set es'" unfolding pointed(5) set_replace_entry
      by (rule image_eqI [of _ _ ?w]) (simp_all add: has_identity_def)
    show ?thesis unfolding entries_ok_def
    proof (intro conjI ballI impI)
      show "distinct (map entry_key es')"
        unfolding pointed(5) replace_entry_keys [OF same_place_pointer] by (rule entries_okD(1) [OF ok1])
    next
      fix e assume "e \<in> set es'"
      then show "en_digest e = identity_of env (en_kind e) (en_identity e)"
        using entries_okD(2) [OF ok1] unfolding pointed(5) set_replace_entry by (auto simp: pointer_of_def)
    next
      fix p assume p: "p \<in> set es'" "en_kind p = ''workflow_current''"
      then obtain a where a: "a \<in> set (es @ [?w])" "p = (if entry_key a = ?pk then ?g a else a)"
        unfolding pointed(5) set_replace_entry has_identity_key by blast
      then have ak: "en_kind a = ''workflow_current''" using p(2) by (auto simp: pointer_of_def split: if_splits)
      note q = entries_okD(3) [OF ok1 a(1) ak]
      show "en_digest p = identity_of env ''workflow_current'' (pointer_identity env (en_project p) (en_repository p))"
        using q a(2) by (simp add: pointer_of_def)
      show "names_workflow env es' p"
      proof (cases "entry_key a = ?pk")
        case True
        have "a \<in> set es" using a(1) ak by auto
        with True have "a \<in> set (pointer_rows env project repository es)" by (simp add: set_pointer_rows)
        from scope [OF this] show ?thesis
          using True a(2) w by (intro names) (simp_all add: pointer_of_def dget_def dget_or_def)
      next
        case False
        with a(2) q show ?thesis unfolding pointed(5) by (auto intro: names_workflow_replace [OF same_place_pointer])
      qed
    qed
  next
    case fresh
    let ?p = "new_entry env ''workflow_current'' (pointer_identity env project repository) project repository ts [(''workflow_handle'', PStr handle)]"
    have "?pk \<notin> entry_key ` set (es @ [?w])"
    proof
      assume "?pk \<in> entry_key ` set (es @ [?w])"
      then obtain a where "a \<in> set es" "entry_key a = ?pk" by auto
      then have "a \<in> set (pointer_rows env project repository es)" by (simp add: set_pointer_rows)
      with fresh(1) show False by simp
    qed
    then have "distinct (map entry_key es')" using entries_okD(1) [OF ok1] unfolding fresh(5) by simp
    moreover have "en_digest e = identity_of env (en_kind e) (en_identity e)" if "e \<in> set es'" for e
      using that entries_okD(2) [OF ok1] unfolding fresh(5) by auto
    moreover have "en_digest p = identity_of env ''workflow_current'' (pointer_identity env (en_project p) (en_repository p)) \<and> names_workflow env es' p"
      if p: "p \<in> set es'" "en_kind p = ''workflow_current''" for p
    proof (cases "p = ?p")
      case True
      then show ?thesis using names [of ?p es'] by (simp add: fresh(5) dget_def dget_or_def)
    next
      case False
      with p have "p \<in> set (es @ [?w])" unfolding fresh(5) by auto
      from entries_okD(3) [OF ok1 this p(2)] show ?thesis unfolding fresh(5) by (blast intro: names_workflow_append)
    qed
    ultimately show ?thesis unfolding entries_ok_def by blast
  qed
qed

lemma start_workflow_stored:
  assumes "start_workflow env ts handle project repository request es = Inr (x, es', changed)" "list_all stamped es"
  shows "int (length es') \<le> MAX_RECORDS \<and> list_all stamped es'"
  using assms(1)
proof (cases rule: start_workflow_cases)
  case pointed
  then show ?thesis using assms(2)
    by (auto simp: replace_entry_def list_all_iff pointer_of_def stamped_def is_timestamp_def new_entry_def)
qed (use assms(2) in \<open>simp add: list_all_iff\<close>)

section \<open>Every operation keeps the invariant\<close>

lemma replace_entry_stored:
  assumes "int (length es) \<le> MAX_RECORDS" "list_all stamped es" "\<And>e. stamped e \<Longrightarrow> stamped (g e)"
  shows "int (length (replace_entry kind digest g es)) \<le> MAX_RECORDS \<and> list_all stamped (replace_entry kind digest g es)"
  using assms by (auto simp: replace_entry_def list_all_iff)

text \<open>A transaction that keeps the entries in order keeps the journal in order.\<close>

lemma mutate_ok:
  assumes ok: "journal_ok env file" and m: "mutate env f file = Inr (x, file')"
    and step: "\<And>es es' changed. read_journal file = Inr es \<Longrightarrow> entries_ok env es \<Longrightarrow> f es = Inr (x, es', changed) \<Longrightarrow> changed \<Longrightarrow>
      entries_ok env es' \<and> int (length es') \<le> MAX_RECORDS \<and> list_all stamped es'"
  shows "journal_ok env file'"
proof -
  from ok obtain es where es: "read_journal file = Inr es" "entries_ok env es" unfolding journal_ok_def by blast
  from m es(1) obtain es' changed where f: "f es = Inr (x, es', changed)"
    and r: "read_journal file' = Inr (if changed then es' else es)"
    by (rule mutate_reads) (use step [OF es] in blast)
  then show ?thesis unfolding journal_ok_def using es(2) step [OF es f] by (cases changed) auto
qed

lemma replace_data_ok:
  assumes "read_journal file = Inr es" "entries_ok env es" "kind \<noteq> ''workflow_current''"
    "es' = replace_entry kind digest (\<lambda>e. e\<lparr>en_data := f e, en_updated := PFloat (Finite ts)\<rparr>) es"
  shows "entries_ok env es' \<and> int (length es') \<le> MAX_RECORDS \<and> list_all stamped es'"
proof
  show "entries_ok env es'" unfolding assms(4) by (rule replace_entry_ok [OF assms(2) _ assms(3)]) (simp add: same_place_def)
  show "int (length es') \<le> MAX_RECORDS \<and> list_all stamped es'" unfolding assms(4)
    by (rule replace_entry_stored [OF read_journal_facts [OF assms(1)]]) (simp add: stamped_def is_timestamp_def)
qed

lemma update_record_ok:
  assumes "journal_ok env file" "update_record env ts kind opaque project repository changes file = Inr (x, file')"
    "kind \<noteq> ''workflow_current''"
  shows "journal_ok env file'"
proof -
  from assms(2) obtain u where m: "mutate env (\<lambda>es. bindR (find_entry env kind opaque project repository es) (\<lambda>r. case r of
      None \<Rightarrow> Inl (werr ''workflow_handle_unavailable'')
    | Some e \<Rightarrow> Inr (dupdate (en_data e) u, replace_entry kind (identity_of env kind opaque)
        (\<lambda>e. e\<lparr>en_data := dupdate (en_data e) u, en_updated := PFloat (Finite ts)\<rparr>) es, True))) file = Inr (x, file')"
    by (auto simp: update_record_def bindR_eq_Inr)
  from assms(1) m show ?thesis
  proof (rule mutate_ok)
    fix es es' changed
    assume r: "read_journal file = Inr es" and ok: "entries_ok env es"
      and f: "bindR (find_entry env kind opaque project repository es) (\<lambda>r. case r of
          None \<Rightarrow> Inl (werr ''workflow_handle_unavailable'')
        | Some e \<Rightarrow> Inr (dupdate (en_data e) u, replace_entry kind (identity_of env kind opaque)
            (\<lambda>e. e\<lparr>en_data := dupdate (en_data e) u, en_updated := PFloat (Finite ts)\<rparr>) es, True)) = Inr (x, es', changed)"
    then have "es' = replace_entry kind (identity_of env kind opaque)
        (\<lambda>e. e\<lparr>en_data := dupdate (en_data e) u, en_updated := PFloat (Finite ts)\<rparr>) es"
      by (auto simp: bindR_eq_Inr split: option.splits)
    with r ok assms(3) show "entries_ok env es' \<and> int (length es') \<le> MAX_RECORDS \<and> list_all stamped es'" by (rule replace_data_ok)
  qed
qed

lemma atomic_update_ok:
  assumes "journal_ok env file" "atomic_update env ts kind opaque project repository fn file = Inr (x, file')"
    "kind \<noteq> ''workflow_current''"
  shows "journal_ok env file'"
  using assms(1) assms(2) [unfolded atomic_update_def]
proof (rule mutate_ok)
  fix es es' changed
  assume r: "read_journal file = Inr es" and ok: "entries_ok env es"
    and f: "bindR (find_entry env kind opaque project repository es) (\<lambda>r. case r of
        None \<Rightarrow> Inl (werr ''workflow_handle_unavailable'')
      | Some e \<Rightarrow> bindR (fn (en_data e)) (\<lambda>(changed, d).
          Inr (d, replace_entry kind (identity_of env kind opaque)
            (\<lambda>e. e\<lparr>en_data := d, en_updated := PFloat (Finite ts)\<rparr>) es, changed))) = Inr (x, es', changed)"
  then obtain d where "es' = replace_entry kind (identity_of env kind opaque) (\<lambda>e. e\<lparr>en_data := d, en_updated := PFloat (Finite ts)\<rparr>) es"
    by (auto simp: bindR_eq_Inr split: option.splits)
  with r ok assms(3) show "entries_ok env es' \<and> int (length es') \<le> MAX_RECORDS \<and> list_all stamped es'" by (rule replace_data_ok)
qed

lemma create_record_ok:
  assumes "journal_ok env file" "create_record env ts kind opaque project repository v file = Inr (x, file')"
    "kind \<noteq> ''workflow_current''"
  shows "journal_ok env file'"
proof -
  from assms(2) obtain d where m: "mutate env (\<lambda>es. if int (length es) \<ge> MAX_RECORDS then Inl (werr ''workflow_store_full'')
      else if list_ex (\<lambda>e. en_digest e = identity_of env kind opaque) es then Inl (werr ''workflow_store_identity_conflict'')
      else Inr (opaque, es @ [new_entry env kind opaque project repository ts d], True)) file = Inr (x, file')"
    by (auto simp: create_record_def bindR_eq_Inr)
  from assms(1) m show ?thesis
  proof (rule mutate_ok)
    fix es es' changed
    assume r: "read_journal file = Inr es" and ok: "entries_ok env es"
      and f: "(if int (length es) \<ge> MAX_RECORDS then Inl (werr ''workflow_store_full'')
        else if list_ex (\<lambda>e. en_digest e = identity_of env kind opaque) es then Inl (werr ''workflow_store_identity_conflict'')
        else Inr (opaque, es @ [new_entry env kind opaque project repository ts d], True)) = Inr (x, es', changed)"
    then have es': "es' = es @ [new_entry env kind opaque project repository ts d]" "int (length es) < MAX_RECORDS"
      and fresh: "identity_of env kind opaque \<notin> en_digest ` set es"
      by (auto simp: list_ex_iff split: if_splits)
    from fresh have "(kind, identity_of env kind opaque) \<notin> entry_key ` set es" by (auto simp: entry_key_def)
    then show "entries_ok env es' \<and> int (length es') \<le> MAX_RECORDS \<and> list_all stamped es'"
      using append_entry_ok [OF ok _ assms(3)] es' read_journal_facts(2) [OF r] by simp
  qed
qed

text \<open>Handles are random: a new one is not the identity of a workflow of the journal.\<close>

definition fresh_handle :: "wf_env \<Rightarrow> journal \<Rightarrow> string \<Rightarrow> bool" where
  "fresh_handle env file h \<longleftrightarrow>
     (\<forall>es. read_journal file = Inr es \<longrightarrow> (''workflow'', identity_of env ''workflow'' h) \<notin> entry_key ` set es)"

lemma reserve_review_ok:
  assumes "journal_ok env file" "reserve_review env ts token project repository c file = Inr (x, file')" "fresh_handle env file token"
  shows "journal_ok env file'"
proof -
  from assms(2) obtain d where d: "bounded_mapping env c ''review_workflow'' 4096 = Inr d"
    by (auto simp: reserve_review_def bindR_eq_Inr)
  with assms(2) obtain cid where "dget d ''candidate_id'' = PStr cid" "cid \<noteq> []"
    by (cases "dget d ''candidate_id''") (auto simp: reserve_review_def split: if_splits)
  with assms(2) d have m: "mutate env (\<lambda>es. case filter (open_review project repository cid) es of
        [e] \<Rightarrow> Inr ((en_identity e, en_data e, False), es, False)
      | [] \<Rightarrow> if int (length es) \<ge> MAX_RECORDS then Inl (werr ''workflow_store_full'')
          else let d' = dupdate d [(''mode'', PStr ''review''), (''phase'', PStr ''review_pending''),
              (''created_at'', PFloat (Finite ts)), (''project'', PStr project), (''repository'', PStr repository)]
            in Inr ((token, d', True), es @ [new_entry env ''workflow'' token project repository ts d'], True)
      | _ \<Rightarrow> Inl (werr ''workflow_store_duplicate_review'')) file = Inr (x, file')"
    by (simp add: reserve_review_def)
  from assms(1) m show ?thesis
  proof (rule mutate_ok)
    fix es es' changed
    assume r: "read_journal file = Inr es" and ok: "entries_ok env es" and ch: "changed"
      and f: "(case filter (open_review project repository cid) es of
          [e] \<Rightarrow> Inr ((en_identity e, en_data e, False), es, False)
        | [] \<Rightarrow> if int (length es) \<ge> MAX_RECORDS then Inl (werr ''workflow_store_full'')
            else let d' = dupdate d [(''mode'', PStr ''review''), (''phase'', PStr ''review_pending''),
                (''created_at'', PFloat (Finite ts)), (''project'', PStr project), (''repository'', PStr repository)]
              in Inr ((token, d', True), es @ [new_entry env ''workflow'' token project repository ts d'], True)
        | _ \<Rightarrow> Inl (werr ''workflow_store_duplicate_review'')) = Inr (x, es', changed)"
    then obtain d' where es': "es' = es @ [new_entry env ''workflow'' token project repository ts d']" "int (length es) < MAX_RECORDS"
      by (auto simp: Let_def not_le split: list.splits if_splits)
    have "(''workflow'', identity_of env ''workflow'' token) \<notin> entry_key ` set es"
      using assms(3) r by (simp add: fresh_handle_def)
    then show "entries_ok env es' \<and> int (length es') \<le> MAX_RECORDS \<and> list_all stamped es'"
      using append_entry_ok [OF ok] es' read_journal_facts(2) [OF r] by simp
  qed
qed

lemma pointed_workflow_scope:
  assumes "pointed_workflow env project repository es = Inr c" "p \<in> set (pointer_rows env project repository es)"
  shows "en_project p = project \<and> en_repository p = repository"
  using assms by (auto simp: pointed_workflow_def split: list.splits if_splits)

lemma reserve_workflow_cases:
  assumes "reserve_workflow env ts token project repository requested file = Inr (x, file')"
  obtains es current es' changed where "lock_error env = None" "read_journal file = Inr es"
    "bounded_mapping env (PDict requested) ''workflow_request'' 4096 = Inr requested"
    "pointed_workflow env project repository es = Inr current"
    "(case current of
        Some (handle, record) \<Rightarrow> \<not> request_conflicts requested record \<and> x = (handle, record, False) \<and> file' = file
      | None \<Rightarrow> start_workflow env ts token project repository requested es = Inr (x, es', changed) \<and> write_journal env es' = Inr file')"
proof -
  from assms obtain request es es' changed where b: "bounded_mapping env (PDict requested) ''workflow_request'' 4096 = Inr request"
    and l: "lock_error env = None" and r: "read_journal file = Inr es"
    and f: "bindR (pointed_workflow env project repository es) (\<lambda>current. case current of
         Some (handle, record) \<Rightarrow>
           if request_conflicts request record then Inl (werr ''workflow_task_already_active'')
           else Inr ((handle, record, False), es, False)
       | None \<Rightarrow> start_workflow env ts token project repository request es) = Inr (x, es', changed)"
    and w: "if changed then write_journal env es' = Inr file' else file' = file"
    by (auto simp: reserve_workflow_def bindR_eq_Inr mutate_eq_Inr)
  from b have req: "request = requested" by (auto simp: bounded_mapping_def split: sum.splits if_splits)
  from f obtain current where c: "pointed_workflow env project repository es = Inr current" unfolding bindR_eq_Inr by blast
  show thesis
  proof (cases current)
    case None
    with f c req have s: "start_workflow env ts token project repository requested es = Inr (x, es', changed)" by simp
    moreover from s have changed by (rule start_workflow_cases)
    ultimately show ?thesis using that [OF l r b [unfolded req] c] None w by simp
  next
    case (Some hr)
    obtain h rec where "hr = (h, rec)" by (cases hr)
    with Some f c req w show ?thesis using that [OF l r b [unfolded req] c] by (auto split: if_splits)
  qed
qed

lemma reserve_workflow_ok:
  assumes ok: "journal_ok env file" and res: "reserve_workflow env ts token project repository requested file = Inr (x, file')"
    and fresh: "fresh_handle env file token"
  shows "journal_ok env file'"
  using res
proof (rule reserve_workflow_cases)
  fix es current es' changed
  assume r: "read_journal file = Inr es" and c: "pointed_workflow env project repository es = Inr current"
    and s: "case current of
        Some (handle, record) \<Rightarrow> \<not> request_conflicts requested record \<and> x = (handle, record, False) \<and> file' = file
      | None \<Rightarrow> start_workflow env ts token project repository requested es = Inr (x, es', changed) \<and> write_journal env es' = Inr file'"
  show ?thesis
  proof (cases current)
    case None
    with s have start: "start_workflow env ts token project repository requested es = Inr (x, es', changed)"
      and w: "write_journal env es' = Inr file'" by simp_all
    have "(''workflow'', identity_of env ''workflow'' token) \<notin> entry_key ` set es" using fresh r by (simp add: fresh_handle_def)
    moreover have "entries_ok env es" using ok r by (auto simp: journal_ok_def)
    ultimately have "entries_ok env es'" using pointed_workflow_scope [OF c] start by (blast intro: start_workflow_ok)
    moreover have "read_journal file' = Inr es'"
      using w start_workflow_stored [OF start read_journal_facts(2) [OF r]] by (auto simp: write_journal_eq_Inr read_journal_pv)
    ultimately show ?thesis unfolding journal_ok_def by blast
  qed (use s ok in auto)
qed

section \<open>The journal as a machine\<close>

text \<open>The operations as the host uses them: only a reservation writes the pointer of a scope.\<close>

inductive wf_step :: "wf_env \<Rightarrow> journal \<Rightarrow> journal \<Rightarrow> bool" for env where
  ws_create: "create_record env ts kind opaque project repository v file = Inr (x, file') \<Longrightarrow> kind \<noteq> ''workflow_current'' \<Longrightarrow>
    wf_step env file file'"
| ws_update: "update_record env ts kind opaque project repository changes file = Inr (d, file') \<Longrightarrow> kind \<noteq> ''workflow_current'' \<Longrightarrow>
    wf_step env file file'"
| ws_atomic: "atomic_update env ts kind opaque project repository fn file = Inr (d, file') \<Longrightarrow> kind \<noteq> ''workflow_current'' \<Longrightarrow>
    wf_step env file file'"
| ws_review: "reserve_review env ts token project repository c file = Inr (r, file') \<Longrightarrow> fresh_handle env file token \<Longrightarrow>
    wf_step env file file'"
| ws_workflow: "reserve_workflow env ts token project repository requested file = Inr (r, file') \<Longrightarrow> fresh_handle env file token \<Longrightarrow>
    wf_step env file file'"

lemma wf_step_ok: "wf_step env file file' \<Longrightarrow> journal_ok env file \<Longrightarrow> journal_ok env file'"
  by (cases rule: wf_step.cases, assumption)
    (blast intro: create_record_ok update_record_ok atomic_update_ok reserve_review_ok reserve_workflow_ok)+

interpretation wfjournal: transition_system Missing "wf_step env" "journal_ok env" for env
proof unfold_locales
  show "journal_ok env Missing" by (rule missing_ok)
next
  fix s t assume "journal_ok env s" "wf_step env s t"
  then show "journal_ok env t" by (rule wf_step_ok [rotated])
qed

end
