(* ===== verification/WorkflowHost.thy ===== *)
theory WorkflowHost
  imports WorkflowInv
begin

text \<open>
  \<^verbatim>\<open>CompactWorkflowHost\<close> of \<^verbatim>\<open>src/src/project_control/compact_workflow.py\<close>: the calls to the
  native host, the durable intents that make a mutation replayable, leases, gates and the
  administrator's previews.

  An action runs on the host's state and returns a value or an exception with the state it
  leaves.  The native host is a parameter: a call takes the tool and its keyword arguments, may do
  anything to its own world, and may find that another process has changed the journal meanwhile.
\<close>

section \<open>Actions\<close>

record 'n host =
  hs_journal :: journal
  hs_workers :: "string list"   \<comment> \<open>the handles whose lease a thread renews\<close>
  hs_world :: 'n

record 'n native =
  nv_env :: wf_env
  nv_profile :: string
  nv_invoke :: "string \<Rightarrow> pdict \<Rightarrow> 'n host \<Rightarrow> pv result \<times> 'n host"
  nv_project_root :: "string \<Rightarrow> string option \<Rightarrow> 'n host \<Rightarrow> pv result"
  nv_clock :: "'n \<Rightarrow> real"
  nv_str :: "pv \<Rightarrow> string"             \<comment> \<open>\<^verbatim>\<open>str\<close> of a value that is not a string\<close>
  nv_json_loads :: "string \<Rightarrow> pv option"
  nv_b64decode :: "string \<Rightarrow> string option"

type_synonym ('n, 'a) act = "'n host \<Rightarrow> 'a result \<times> 'n host"

definition ret :: "'a \<Rightarrow> ('n, 'a) act" where
  "ret a s = (Inr a, s)"

definition throw :: "exn \<Rightarrow> ('n, 'a) act" where
  "throw e s = (Inl e, s)"

definition bindA :: "('n, 'a) act \<Rightarrow> ('a \<Rightarrow> ('n, 'b) act) \<Rightarrow> ('n, 'b) act" where
  "bindA m f s = (case m s of (Inl e, s') \<Rightarrow> (Inl e, s') | (Inr a, s') \<Rightarrow> f a s')"

definition of_result :: "'a result \<Rightarrow> ('n, 'a) act" where
  "of_result r s = (r, s)"

text \<open>A read of the journal, and a transaction on it, which leaves it alone when it fails.\<close>

definition store_read :: "'n native \<Rightarrow> (journal \<Rightarrow> 'a result) \<Rightarrow> ('n, 'a) act" where
  "store_read nv f s = (f (hs_journal s), s)"

definition store_write :: "'n native \<Rightarrow> (real \<Rightarrow> journal \<Rightarrow> ('a \<times> journal) result) \<Rightarrow> ('n, 'a) act" where
  "store_write nv f s =
     (case f (nv_clock nv (hs_world s)) (hs_journal s) of
        Inl e \<Rightarrow> (Inl e, s) | Inr (a, j) \<Rightarrow> (Inr a, s\<lparr>hs_journal := j\<rparr>))"

section \<open>Calls\<close>

definition attention :: "string \<Rightarrow> string option \<Rightarrow> string list \<Rightarrow> pdict" where
  "attention reason handle allowed =
     [(''status'', PStr ''attention_required''), (''reason'', PStr reason), (''allowed_actions'', PList (map PStr allowed)),
      (''recommended_next_call'', PNone)] @
     (case handle of None \<Rightarrow> [] | Some h \<Rightarrow> [(''workflow_handle'', PStr h)])"

definition needs_attention :: "pdict \<Rightarrow> bool" where
  "needs_attention d \<longleftrightarrow> dget d ''status'' = PStr ''attention_required''"

definition native_attention :: "pdict \<Rightarrow> string option \<Rightarrow> pdict" where
  "native_attention d handle =
     attention (case dget d ''reason'' of PStr r \<Rightarrow> if r = [] then ''native_operation_rejected'' else r | _ \<Rightarrow> ''native_operation_rejected'')
       handle (case handle of Some h \<Rightarrow> if h = [] then [] else [''inspect_task''] | None \<Rightarrow> [])"

definition invoke :: "'n native \<Rightarrow> string \<Rightarrow> pdict \<Rightarrow> pdict \<Rightarrow> ('n, pdict) act" where
  "invoke nv tool record arguments =
     (case (dget record ''project'', dget record ''repository'') of
        (PStr project, PStr repository) \<Rightarrow>
          bindA (nv_invoke nv tool ([(''project'', PStr project), (''repository'', PStr repository)] @ arguments)) (\<lambda>result.
          case result of
            PDict d \<Rightarrow>
              if dget d ''status'' \<noteq> PStr ''ok'' then ret d
              else (case dget d ''data'' of PDict x \<Rightarrow> ret x | _ \<Rightarrow> throw (werr ''native_result_invalid''))
          | _ \<Rightarrow> throw (werr ''native_result_invalid''))
      | _ \<Rightarrow> throw (werr ''workflow_scope_invalid''))"

text \<open>\<^verbatim>\<open>str(d.get(field, default))\<close>\<close>

definition text_or :: "'n native \<Rightarrow> pdict \<Rightarrow> string \<Rightarrow> string \<Rightarrow> string" where
  "text_or nv d field dflt = (case dget_or d field (PStr dflt) of PStr s \<Rightarrow> s | v \<Rightarrow> nv_str nv v)"

text \<open>An exception of the resolver carries its code as a \<open>WorkflowError\<close> when it has one.\<close>

definition scope_of :: "'n native \<Rightarrow> string \<Rightarrow> string option \<Rightarrow> ('n, string \<times> string) act" where
  "scope_of nv project repository =
     bindA (of_result (safe_component (PStr project) ''project'' 128)) (\<lambda>project.
     bindA (of_result (case repository of None \<Rightarrow> Inr None
              | Some r \<Rightarrow> bindR (safe_component (PStr r) ''repository'' 128) (\<lambda>r. Inr (Some r)))) (\<lambda>repository.
     bindA (\<lambda>s. (case nv_project_root nv project repository s of
                   Inr v \<Rightarrow> Inr v
                 | Inl (WorkflowError code) \<Rightarrow> Inl (werr code)
                 | Inl _ \<Rightarrow> Inl (werr ''project_or_authority_unavailable''), s)) (\<lambda>selected.
     bindA (of_result (safe_component selected ''repository'' 128)) (\<lambda>r.
     ret (project, r)))))"

definition operation_key :: "wf_env \<Rightarrow> string \<Rightarrow> string \<Rightarrow> pdict \<Rightarrow> string result" where
  "operation_key env handle operation payload =
     bindR (canonical (float_repr env) (PDict payload)) (\<lambda>body.
     Inr (''pcw-'' @ take 44 (sha256 env (handle @ NUL @ operation @ NUL @ body))))"

definition bounded_response :: "wf_env \<Rightarrow> pdict \<Rightarrow> pdict result" where
  "bounded_response env d = bounded_mapping env (PDict d) ''workflow_response'' MAX_RESPONSE_BYTES"

section \<open>Durable intents\<close>

definition intent_payload :: "string \<Rightarrow> pdict \<Rightarrow> pdict" where
  "intent_payload tool arguments = [(''tool'', PStr tool), (''arguments'', PDict arguments)]"

definition payload_digest :: "wf_env \<Rightarrow> pdict \<Rightarrow> string result" where
  "payload_digest env payload = bindR (canonical (float_repr env) (PDict payload)) (\<lambda>t. Inr (sha256 env t))"

text \<open>A stored intent that serves a request with this digest.\<close>

definition intent_key :: "string \<Rightarrow> pv \<Rightarrow> (string \<times> int) option" where
  "intent_key digest prior =
     (case prior of
        PDict i \<Rightarrow>
          (case (dget i ''payload_digest'', dget i ''expected_revision'', dget i ''idempotency_key'') of
             (PStr g, PInt rv, PStr key) \<Rightarrow> if g = digest then Some (key, rv) else None
           | _ \<Rightarrow> None)
      | _ \<Rightarrow> None)"

definition intents_of :: "pdict \<Rightarrow> pdict result" where
  "intents_of record =
     (case dget_or record ''phase_intents'' (PDict []) of PDict d \<Rightarrow> Inr d | _ \<Rightarrow> Inl (werr ''workflow_phase_intents_invalid''))"

definition persist_intent :: "string \<Rightarrow> string \<Rightarrow> pdict \<Rightarrow> pdict \<Rightarrow> (bool \<times> pdict) result" where
  "persist_intent name digest intent current =
     bindR (intents_of current) (\<lambda>intents.
     case dget intents name of
       PNone \<Rightarrow> Inr (True, AList.update ''phase_intents'' (PDict (AList.update name (PDict intent) intents)) current)
     | PDict i \<Rightarrow>
         if dget i ''payload_digest'' \<noteq> PStr digest then Inl (werr ''workflow_phase_intent_conflict'')
         else Inr (False, current)
     | _ \<Rightarrow> Inl (werr ''workflow_phase_intent_conflict''))"

definition read_revision :: "'n native \<Rightarrow> string \<Rightarrow> string \<Rightarrow> ('n, int) act" where
  "read_revision nv project repository =
     bindA (invoke nv ''todo_read_authority'' [(''project'', PStr project), (''repository'', PStr repository)]
              [(''limit'', PInt 1), (''page_token'', PNone), (''expected_revision'', PNone)]) (\<lambda>observed.
     if needs_attention observed then throw (werr (text_or nv observed ''reason'' ''authority_revision_unavailable''))
     else (case dget observed ''semantic_revision'' of
             PInt rv \<Rightarrow> if rv < 0 then throw (werr ''authority_revision_unavailable'') else ret rv
           | _ \<Rightarrow> throw (werr ''authority_revision_unavailable'')))"

text \<open>The result is the key, the revision, and the caller's record after \<^verbatim>\<open>record.update(...)\<close>.\<close>

definition phase_intent ::
  "'n native \<Rightarrow> string \<Rightarrow> string \<Rightarrow> string \<Rightarrow> pdict \<Rightarrow> string \<Rightarrow> string \<Rightarrow> pdict \<Rightarrow> pv \<Rightarrow> pv \<Rightarrow> ('n, string \<times> int \<times> pdict) act" where
  "phase_intent nv handle project repository record name tool arguments expected_revision idempotency_key =
     (let env = nv_env nv; payload = intent_payload tool arguments in
      bindA (of_result (bounded_mapping env (PDict payload) ''native_phase_intent'' (32 * 1024))) (\<lambda>_.
      bindA (of_result (payload_digest env payload)) (\<lambda>digest.
      bindA (store_read nv (get_record env ''workflow'' (PStr handle) project repository)) (\<lambda>latest.
      bindA (of_result (intents_of latest)) (\<lambda>intents.
      if dget intents name \<noteq> PNone then
        (case intent_key digest (dget intents name) of
           None \<Rightarrow> throw (werr ''workflow_phase_intent_conflict'')
         | Some (key, rv) \<Rightarrow> ret (key, rv, dupdate record latest))
      else
        bindA (case expected_revision of
                 PNone \<Rightarrow> read_revision nv project repository
               | PInt rv \<Rightarrow> if rv < 0 then throw (werr ''authority_revision_unavailable'') else ret rv
               | _ \<Rightarrow> throw (werr ''authority_revision_unavailable'')) (\<lambda>revision.
        bindA (if truthy idempotency_key then ret idempotency_key
               else bindA (of_result (operation_key env handle (''native:'' @ name) payload)) (\<lambda>k. ret (PStr k))) (\<lambda>key.
        bindA (of_result (safe_component key ''idempotency_key'' 128)) (\<lambda>key.
        let intent = [(''payload_digest'', PStr digest), (''idempotency_key'', PStr key), (''expected_revision'', PInt revision)] in
        bindA (store_write nv (\<lambda>ts. atomic_update env ts ''workflow'' handle project repository (persist_intent name digest intent))) (\<lambda>d.
        bindA (of_result (intents_of d)) (\<lambda>stored.
        case intent_key digest (dget stored name) of
          None \<Rightarrow> throw (werr ''workflow_phase_intent_conflict'')
        | Some (key, rv) \<Rightarrow> ret (key, rv, dupdate record d)))))))))))"

definition refresh_callback ::
  "wf_env \<Rightarrow> string \<Rightarrow> string \<Rightarrow> pdict \<Rightarrow> string \<Rightarrow> int \<Rightarrow> pdict \<Rightarrow> (bool \<times> pdict) result" where
  "refresh_callback env handle name payload digest revision current =
     (case dget current ''phase_intents'' of
        PDict intents \<Rightarrow>
          (case dget intents name of
             PDict intent \<Rightarrow>
               bindR (raise_if (dget intent ''payload_digest'' \<noteq> PStr digest) (werr ''workflow_phase_intent_conflict'')) (\<lambda>_.
               case dget_or intent ''generation'' (PInt 0) of
                 PInt generation \<Rightarrow>
                   if generation < 0 then Inl (werr ''workflow_phase_intent_invalid'')
                   else if eq_int (dget intent ''expected_revision'') revision then Inr (False, current)
                   else
                     bindR (operation_key env handle (''native:'' @ name @ '':retry:'' @ string_of_int (generation + 1)) payload) (\<lambda>key.
                     Inr (True, AList.update ''phase_intents'' (PDict (AList.update name (PDict (dupdate intent
                       [(''expected_revision'', PInt revision), (''idempotency_key'', PStr key), (''generation'', PInt (generation + 1))]))
                       intents)) current))
               | _ \<Rightarrow> Inl (werr ''workflow_phase_intent_invalid''))
           | _ \<Rightarrow> Inl (werr ''workflow_phase_intent_unavailable''))
      | _ \<Rightarrow> Inl (werr ''workflow_phase_intent_unavailable''))"

definition refresh_phase_intent ::
  "'n native \<Rightarrow> string \<Rightarrow> string \<Rightarrow> string \<Rightarrow> pdict \<Rightarrow> string \<Rightarrow> string \<Rightarrow> pdict \<Rightarrow> ('n, pdict) act" where
  "refresh_phase_intent nv handle project repository record name tool arguments =
     (let env = nv_env nv; payload = intent_payload tool arguments in
      bindA (read_revision nv project repository) (\<lambda>revision.
      bindA (of_result (payload_digest env payload)) (\<lambda>digest.
      bindA (store_write nv (\<lambda>ts. atomic_update env ts ''workflow'' handle project repository
               (refresh_callback env handle name payload digest revision))) (\<lambda>d.
      ret (dupdate record d)))))"

definition stale_reply :: "pdict \<Rightarrow> bool" where
  "stale_reply result \<longleftrightarrow> needs_attention result \<and> dget result ''reason'' = PStr ''stale_authority_revision''"

definition send_phase ::
  "'n native \<Rightarrow> string \<Rightarrow> string \<Rightarrow> string \<Rightarrow> pdict \<Rightarrow> string \<Rightarrow> string \<Rightarrow> pdict \<Rightarrow> pv \<Rightarrow> pv \<Rightarrow> ('n, pdict \<times> pdict) act" where
  "send_phase nv handle project repository record name tool arguments expected_revision idempotency_key =
     bindA (phase_intent nv handle project repository record name tool arguments expected_revision idempotency_key) (\<lambda>(key, rv, record).
     bindA (invoke nv tool record (arguments @ [(''idempotency_key'', PStr key), (''expected_revision'', PInt rv)])) (\<lambda>result.
     ret (result, record)))"

text \<open>
  \<^verbatim>\<open>for retry in range(2)\<close>: the second round returns whatever it gets, so the statement after the
  loop is never reached.
\<close>

definition invoke_phase ::
  "'n native \<Rightarrow> string \<Rightarrow> string \<Rightarrow> string \<Rightarrow> pdict \<Rightarrow> string \<Rightarrow> string \<Rightarrow> pdict \<Rightarrow> pv \<Rightarrow> pv \<Rightarrow> ('n, pdict \<times> pdict) act" where
  "invoke_phase nv handle project repository record name tool arguments expected_revision idempotency_key =
     bindA (send_phase nv handle project repository record name tool arguments expected_revision idempotency_key) (\<lambda>(result, record).
     if stale_reply result then
       bindA (refresh_phase_intent nv handle project repository record name tool arguments) (\<lambda>record.
       send_phase nv handle project repository record name tool arguments PNone PNone)
     else ret (result, record))"

section \<open>Leases\<close>

definition update_workflow :: "'n native \<Rightarrow> string \<Rightarrow> string \<Rightarrow> string \<Rightarrow> pdict \<Rightarrow> ('n, pdict) act" where
  "update_workflow nv handle project repository changes =
     store_write nv (\<lambda>ts. update_record (nv_env nv) ts ''workflow'' handle project repository (PDict changes))"

fun nested_text :: "pv \<Rightarrow> string list \<Rightarrow> string option" where
  "nested_text v [] = (case v of PStr s \<Rightarrow> if s = [] then None else Some s | _ \<Rightarrow> None)"
| "nested_text v (k # ks) = (case v of PDict d \<Rightarrow> nested_text (dget d k) ks | _ \<Rightarrow> None)"

definition ok_reply :: pdict where
  "ok_reply = [(''status'', PStr ''ok'')]"

definition heartbeat_active :: "'n native \<Rightarrow> string \<Rightarrow> string \<Rightarrow> string \<Rightarrow> pdict \<Rightarrow> ('n, pdict) act" where
  "heartbeat_active nv handle project repository record =
     (case (dget record ''attempt_id'', dget record ''lease_id'', dget record ''plan_revision_id'', dget_or record ''heartbeat_generation'' (PInt 0)) of
        (PStr attempt, PStr lease, PStr plan, PInt generation) \<Rightarrow>
          if generation < 0 then ret (attention ''workflow_attempt_binding_incomplete'' (Some handle) [])
          else
            bindA (invoke_phase nv handle project repository record (''heartbeat:'' @ string_of_int generation) ''todo_heartbeat_attempt''
                     [(''attempt_id'', PStr attempt), (''lease_id'', PStr lease), (''plan_revision_id'', PStr plan)] PNone PNone) (\<lambda>(renewed, _).
            if needs_attention renewed then ret (native_attention renewed (Some handle))
            else (case nested_text (PDict renewed) [''result'', ''lease_id''] of
                    None \<Rightarrow> ret (attention ''lease_renewal_receipt_incomplete'' (Some handle) [])
                  | Some next_lease \<Rightarrow>
                      bindA (update_workflow nv handle project repository
                               [(''lease_id'', PStr next_lease), (''heartbeat_generation'', PInt (generation + 1)),
                                (''last_heartbeat_receipt'', PDict renewed), (''renewal_attention'', PNone)]) (\<lambda>_.
                      ret ok_reply)))
      | _ \<Rightarrow> ret (attention ''workflow_attempt_binding_incomplete'' (Some handle) []))"

definition resume_active :: "'n native \<Rightarrow> string \<Rightarrow> string \<Rightarrow> string \<Rightarrow> pdict \<Rightarrow> ('n, pdict) act" where
  "resume_active nv handle project repository record =
     (if \<not> list_all (\<lambda>k. is_nonempty_str (dget record k)) [''attempt_id'', ''lease_id'', ''task_id'', ''run_id'', ''assignment_id'', ''plan_revision_id'']
      then ret (attention ''workflow_attempt_binding_incomplete'' (Some handle) [])
      else
        bindA (invoke nv ''todo_inspect_attempt'' (dupdate record [(''project'', PStr project), (''repository'', PStr repository)])
                 [(''attempt_id'', dget record ''attempt_id'')]) (\<lambda>inspected.
        if needs_attention inspected then ret (native_attention inspected (Some handle))
        else (case dget_or record ''resume_generation'' (PInt 0) of
                PInt generation \<Rightarrow>
                  if generation < 0 then ret (attention ''workflow_resume_generation_invalid'' (Some handle) [])
                  else
                    bindA (invoke_phase nv handle project repository record (''resume:'' @ string_of_int generation) ''todo_resume_attempt''
                             [(''attempt_id'', dget record ''attempt_id''), (''lease_id'', dget record ''lease_id''),
                              (''plan_revision_id'', dget record ''plan_revision_id''), (''work_item_id'', dget record ''task_id''),
                              (''run_id'', dget record ''run_id''), (''assignment_id'', dget record ''assignment_id'')] PNone PNone) (\<lambda>(resumed, _).
                    if needs_attention resumed then ret (native_attention resumed (Some handle))
                    else (case nested_text (PDict resumed) [''result'', ''lease_id''] of
                            None \<Rightarrow> ret (attention ''attempt_resume_receipt_incomplete'' (Some handle) [])
                          | Some next_lease \<Rightarrow>
                              bindA (update_workflow nv handle project repository
                                       [(''lease_id'', PStr next_lease), (''resume_generation'', PInt (generation + 1)),
                                        (''last_resume_receipt'', PDict resumed), (''last_attempt_inspection'', PDict inspected),
                                        (''renewal_attention'', PNone)]) (\<lambda>_.
                              ret ok_reply)))
              | _ \<Rightarrow> ret (attention ''workflow_resume_generation_invalid'' (Some handle) []))))"

text \<open>The renewal thread of a handle: it is started once, and each interval is one round.\<close>

definition ensure_lease_renewal :: "string \<Rightarrow> ('n, unit) act" where
  "ensure_lease_renewal handle s = (Inr (), s\<lparr>hs_workers := List.insert handle (hs_workers s)\<rparr>)"

definition stop_lease_renewal :: "string \<Rightarrow> ('n, unit) act" where
  "stop_lease_renewal handle s = (Inr (), s\<lparr>hs_workers := removeAll handle (hs_workers s)\<rparr>)"

definition renewal_body :: "'n native \<Rightarrow> string \<Rightarrow> string \<Rightarrow> string \<Rightarrow> ('n, bool) act" where
  "renewal_body nv handle project repository =
     bindA (store_read nv (get_record (nv_env nv) ''workflow'' (PStr handle) project repository)) (\<lambda>record.
     if dget record ''phase'' \<notin> {PStr ''active'', PStr ''context_pending''} then ret False
     else
       bindA (heartbeat_active nv handle project repository record) (\<lambda>renewed.
       if needs_attention renewed then
         bindA (update_workflow nv handle project repository
                  [(''renewal_attention'', dget_or renewed ''reason'' (PStr ''lease_renewal_failed''))]) (\<lambda>_. ret False)
       else ret True))"

text \<open>
  The result is whether the thread goes on; when it ends its entry is removed.  A thread that was
  told to stop has no entry.
\<close>

definition lease_renewal_round :: "'n native \<Rightarrow> string \<Rightarrow> string \<Rightarrow> string \<Rightarrow> 'n host \<Rightarrow> bool \<times> 'n host" where
  "lease_renewal_round nv handle project repository s =
     (if handle \<notin> set (hs_workers s) then (False, s)
      else case renewal_body nv handle project repository s of
        (Inr True, s1) \<Rightarrow> (True, s1)
      | (Inr False, s1) \<Rightarrow> (False, snd (stop_lease_renewal handle s1))
      | (Inl _, s1) \<Rightarrow>
          (False, snd (stop_lease_renewal handle
             (snd (update_workflow nv handle project repository [(''renewal_attention'', PStr ''lease_renewal_failed'')] s1)))))"

section \<open>Gates\<close>

definition reference_id :: "pv \<Rightarrow> pv" where
  "reference_id v = (case v of PDict d \<Rightarrow> (case dget d ''entity_id'' of PStr s \<Rightarrow> PStr s | _ \<Rightarrow> PNone) | _ \<Rightarrow> PNone)"

definition is_scalar :: "pv \<Rightarrow> bool" where
  "is_scalar v \<longleftrightarrow> is_str v \<or> is_int v \<or> is_float v"

definition VERDICT_KEYS :: "string list" where
  "VERDICT_KEYS = [''status'', ''verdict'', ''passed'', ''exit_code'', ''returncode'', ''reason'']"

definition add_verdict :: "pv \<Rightarrow> pdict \<Rightarrow> pdict" where
  "add_verdict source verdict =
     (case source of
        PDict d \<Rightarrow> fold (\<lambda>k acc. if has_key d k \<and> (is_scalar (dget d k) \<or> dget d k = PNone) \<and> \<not> has_key acc k
                                then acc @ [(k, dget d k)] else acc) VERDICT_KEYS verdict
      | _ \<Rightarrow> verdict)"

definition SUMMARY_KEYS :: "string list" where
  "SUMMARY_KEYS = [''plan_revision_id'', ''verifier'', ''contract_digest'', ''source_digest'', ''request_digest'', ''evidence_id'',
     ''stale_reason'', ''created_at'', ''updated_at'']"

definition verification_summary :: "string \<Rightarrow> pdict \<Rightarrow> pv \<Rightarrow> pdict" where
  "verification_summary requirement result intent =
     (let verdict = add_verdict (dget result ''provider_receipt'') (add_verdict (dget result ''observation'') []) in
      [(''requirement_id'', PStr requirement), (''state'', dget_or result ''state'' (PStr ''unknown'')),
       (''operation_id'', reference_id (dget result ''operation'')), (''attempt_id'', reference_id (dget result ''attempt'')),
       (''target_id'', reference_id (dget result ''target'')), (''requirement_ref_id'', reference_id (dget result ''requirement''))] @
      map (\<lambda>k. (k, dget result k)) SUMMARY_KEYS @
      (if verdict = [] then [] else [(''verdict'', PDict verdict)]) @
      (case intent of
         PDict i \<Rightarrow> [(''native_request'', PDict ((''tool'', PStr ''todo_verify_attempt'') #
           map (\<lambda>k. (k, dget i k)) (filter (has_key i) [''idempotency_key'', ''expected_revision'', ''payload_digest'', ''generation''])))]
       | _ \<Rightarrow> []))"

text \<open>A reply is the packet to return at once, or the summaries of the requirements.\<close>

fun verify_all :: "'n native \<Rightarrow> string \<Rightarrow> string \<Rightarrow> string \<Rightarrow> pdict \<Rightarrow> pdict \<Rightarrow> string list \<Rightarrow> pv list \<Rightarrow> ('n, pdict + pv list) act" where
  "verify_all nv handle project repository record intents [] results = ret (Inr results)"
| "verify_all nv handle project repository record intents (q # qs) results =
     bindA (invoke_phase nv handle project repository record (''verify:'' @ q) ''todo_verify_attempt''
              [(''attempt_id'', dget record ''attempt_id''), (''requirement_id'', PStr q)] PNone PNone) (\<lambda>(result, _).
     if needs_attention result then ret (Inl (native_attention result (Some handle)))
     else verify_all nv handle project repository record intents qs
            (results @ [PDict (verification_summary q result (dget intents (''verify:'' @ q)))]))"

definition strings_of :: "pv \<Rightarrow> string list option" where
  "strings_of v = (case v of PList xs \<Rightarrow> if list_all is_str xs then Some (map str_of xs) else None | _ \<Rightarrow> None)"

text \<open>\<^verbatim>\<open>set(record.get("requirement_ids", []))\<close> is a set of strings: the host writes that field.\<close>

definition run_gates :: "'n native \<Rightarrow> string \<Rightarrow> string \<Rightarrow> string \<Rightarrow> pdict \<Rightarrow> pdict \<Rightarrow> ('n, pdict) act" where
  "run_gates nv handle project repository record payload =
     (case strings_of (dget_or payload ''requirement_ids'' (dget_or record ''requirement_ids'' (PList []))) of
        None \<Rightarrow> throw (werr ''requirement_ids_invalid'')
      | Some requested \<Rightarrow>
          (case strings_of (dget_or record ''requirement_ids'' (PList [])) of
             None \<Rightarrow> throw (TypeError ''requirement_ids'')
           | Some declared \<Rightarrow>
               if \<not> set requested \<subseteq> set declared then throw (werr ''requirement_not_declared_in_plan'')
               else
                 bindA (of_result (intents_of record)) (\<lambda>intents.
                 bindA (verify_all nv handle project repository record intents requested []) (\<lambda>out.
                 case out of
                   Inl packet \<Rightarrow> ret packet
                 | Inr results \<Rightarrow> of_result (bounded_response (nv_env nv)
                     [(''status'', PStr ''ok''), (''verified'', PList results), (''workflow_handle'', PStr handle)])))))"

section \<open>Administrator previews\<close>

definition is_hex64 :: "string \<Rightarrow> bool" where
  "is_hex64 s \<longleftrightarrow> length s = 64 \<and> list_all (\<lambda>c. c \<in> set ''0123456789abcdef'') s"

definition record_admin_preview ::
  "'n native \<Rightarrow> string \<Rightarrow> string \<Rightarrow> string \<Rightarrow> string \<Rightarrow> string \<Rightarrow> int \<Rightarrow> pv \<Rightarrow> ('n, string) act" where
  "record_admin_preview nv token project repository action package_digest authority_revision preview =
     (let env = nv_env nv in
      bindA (of_result (safe_component (PStr project) ''project'' 128)) (\<lambda>_.
      bindA (of_result (safe_component (PStr repository) ''repository'' 128)) (\<lambda>_.
      bindA (of_result (safe_component (PStr action) ''admin_action'' 64)) (\<lambda>_.
      bindA (of_result (raise_if (\<not> is_hex64 package_digest \<or> authority_revision < 0) (werr ''admin_preview_identity_invalid''))) (\<lambda>_.
      bindA (of_result (bounded_mapping env preview ''admin_preview'' MAX_PREVIEW_BYTES)) (\<lambda>body.
      store_write nv (\<lambda>ts. create_record env ts ''admin_preview'' token project repository
        (PDict [(''action'', PStr action), (''package_digest'', PStr package_digest), (''authority_revision'', PInt authority_revision),
                (''preview'', PDict body), (''idempotency_key'', PStr (''pc-'' @ take 48 (sha256 env token))), (''result'', PNone)]))))))))"

definition get_admin_preview ::
  "'n native \<Rightarrow> string \<Rightarrow> string \<Rightarrow> string \<Rightarrow> string \<Rightarrow> string \<Rightarrow> int option \<Rightarrow> ('n, pdict option) act" where
  "get_admin_preview nv project repository proposal_ref action package_digest authority_revision =
     bindA (of_result (safe_component (PStr project) ''project'' 128)) (\<lambda>_.
     bindA (of_result (safe_component (PStr repository) ''repository'' 128)) (\<lambda>_.
     bindA (store_read nv (\<lambda>j. case get_record (nv_env nv) ''admin_preview'' (PStr proposal_ref) project repository j of
              Inr d \<Rightarrow> Inr (Some d)
            | Inl e \<Rightarrow> if e = werr ''workflow_handle_unavailable'' then Inr None else Inl e)) (\<lambda>r.
     case r of
       None \<Rightarrow> ret None
     | Some record \<Rightarrow>
         if dget record ''action'' \<noteq> PStr action \<or> dget record ''package_digest'' \<noteq> PStr package_digest then ret None
         else if (case authority_revision of None \<Rightarrow> False | Some rv \<Rightarrow> \<not> eq_int (dget record ''authority_revision'') rv) then ret None
         else ret (Some record))))"

definition complete_preview :: "wf_env \<Rightarrow> string \<Rightarrow> pdict \<Rightarrow> pdict \<Rightarrow> (bool \<times> pdict) result" where
  "complete_preview env key receipt record =
     bindR (raise_if (dget record ''idempotency_key'' \<noteq> PStr key) (werr ''admin_preview_idempotency_mismatch'')) (\<lambda>_.
     if dget record ''result'' \<noteq> PNone then
       bindR (canonical (float_repr env) (dget record ''result'')) (\<lambda>old.
       bindR (canonical (float_repr env) (PDict receipt)) (\<lambda>new.
       if old \<noteq> new then Inl (werr ''admin_preview_result_conflict'') else Inr (False, record)))
     else Inr (True, AList.update ''result'' (PDict receipt) record))"

definition complete_admin_preview ::
  "'n native \<Rightarrow> string \<Rightarrow> string \<Rightarrow> string \<Rightarrow> string \<Rightarrow> pv \<Rightarrow> ('n, unit) act" where
  "complete_admin_preview nv project repository proposal_ref idempotency_key result =
     (let env = nv_env nv in
      bindA (of_result (safe_component (PStr project) ''project'' 128)) (\<lambda>_.
      bindA (of_result (safe_component (PStr repository) ''repository'' 128)) (\<lambda>_.
      bindA (of_result (safe_component (PStr idempotency_key) ''idempotency_key'' 128)) (\<lambda>key.
      bindA (of_result (bounded_mapping env result ''admin_result'' MAX_RESULT_BYTES)) (\<lambda>receipt.
      bindA (store_write nv (\<lambda>ts. atomic_update env ts ''admin_preview'' proposal_ref project repository (complete_preview env key receipt))) (\<lambda>_.
      ret ()))))))"

end
