(* ===== verification/WorkflowProps.thy ===== *)
theory WorkflowProps
  imports WorkflowInv
begin

text \<open>
  What the journal of workflows promises: a reservation is the one workflow of its scope until it
  ends, a record is read back in its scope and only there, and a journal that only these
  operations have written never raises the errors that report damage.
\<close>

section \<open>A reservation\<close>

text \<open>No workflow pointer of another scope has the digest of this scope's pointer.\<close>

definition own_pointer :: "wf_env \<Rightarrow> string \<Rightarrow> string \<Rightarrow> journal \<Rightarrow> bool" where
  "own_pointer env project repository file \<longleftrightarrow>
     (\<forall>es. read_journal file = Inr es \<longrightarrow> (\<forall>p \<in> set (pointer_rows env project repository es). en_project p = project \<and> en_repository p = repository))"

lemma pointer_rows_short:
  assumes "entries_ok env es"
  shows "pointer_rows env project repository es = [] \<or> (\<exists>p \<in> set es. pointer_rows env project repository es = [p])"
  unfolding pointer_rows_def by (rule filter_identity_short [OF entries_okD(1) [OF assms]])

text \<open>In a journal that is in order the pointer names exactly one workflow, of its scope.\<close>

lemma pointed_row:
  assumes ok: "entries_ok env es" and p: "pointer_rows env project repository es = [p]"
  obtains h w where "dget (en_data p) ''workflow_handle'' = PStr h" "w \<in> set es"
    "filter (has_identity ''workflow'' (identity_of env ''workflow'' h)) es = [w]" "en_project w = en_project p" "en_repository w = en_repository p"
proof -
  from p have "p \<in> set (pointer_rows env project repository es)" by simp
  then have "p \<in> set es" "en_kind p = ''workflow_current''" by (auto simp: set_pointer_rows entry_key_def)
  from entries_okD(3) [OF ok this] obtain h w where "dget (en_data p) ''workflow_handle'' = PStr h" "w \<in> set es"
    "has_identity ''workflow'' (identity_of env ''workflow'' h) w" "en_project w = en_project p" "en_repository w = en_repository p"
    unfolding names_workflow_def by blast
  then show thesis using filter_identity [OF entries_okD(1) [OF ok]] by (intro that)
qed

text \<open>The two readings of the pointer agree.\<close>

lemma find_current_eq:
  assumes ok: "entries_ok env es" and r: "read_journal file = Inr es" and l: "lock_error env = None"
    and b: "bounded_mapping env (PDict requested) ''workflow_request'' 4096 = Inr requested"
    and own: "own_pointer env project repository file"
  shows "find_current_workflow env project repository requested file =
      bindR (pointed_workflow env project repository es) (\<lambda>c. case c of None \<Rightarrow> Inr None
        | Some (h, rec) \<Rightarrow> if request_conflicts requested rec then Inl (werr ''workflow_task_already_active'') else Inr (Some (h, rec)))"
    and "\<exists>c. pointed_workflow env project repository es = Inr c"
proof -
  have fc: "find_current_workflow env project repository requested file = (case pointer_rows env project repository es of
         [] \<Rightarrow> Inr None
       | [p] \<Rightarrow>
           if en_project p \<noteq> project \<or> en_repository p \<noteq> repository then Inl (werr ''workflow_store_current_invalid'')
           else (case dget (en_data p) ''workflow_handle'' of
                   PStr handle \<Rightarrow>
                     (case filter (has_identity ''workflow'' (identity_of env ''workflow'' handle)) es of
                        [w] \<Rightarrow>
                          if \<not> active_phase (en_data w) then Inr None
                          else if request_conflicts requested (en_data w) then Inl (werr ''workflow_task_already_active'')
                          else Inr (Some (handle, en_data w))
                      | _ \<Rightarrow> Inl (werr ''workflow_store_current_invalid''))
                 | _ \<Rightarrow> Inl (werr ''workflow_store_current_invalid''))
       | _ \<Rightarrow> Inl (werr ''workflow_store_current_invalid''))"
    unfolding find_current_workflow_def b by (simp add: read_only_def take_lock_def l r)
  consider "pointer_rows env project repository es = []" | p where "pointer_rows env project repository es = [p]"
    using pointer_rows_short [OF ok] by blast
  then have "find_current_workflow env project repository requested file =
      bindR (pointed_workflow env project repository es) (\<lambda>c. case c of None \<Rightarrow> Inr None
        | Some (h, rec) \<Rightarrow> if request_conflicts requested rec then Inl (werr ''workflow_task_already_active'') else Inr (Some (h, rec)))
      \<and> (\<exists>c. pointed_workflow env project repository es = Inr c)"
  proof cases
    case 2
    then have scope: "en_project p = project" "en_repository p = repository" using own r by (auto simp: own_pointer_def)
    obtain h w where "dget (en_data p) ''workflow_handle'' = PStr h"
      "filter (has_identity ''workflow'' (identity_of env ''workflow'' h)) es = [w]" "en_project w = project" "en_repository w = repository"
      using pointed_row [OF ok 2] scope by metis
    then show ?thesis unfolding fc by (simp add: pointed_workflow_def 2 scope)
  qed (simp add: fc pointed_workflow_def)
  then show "find_current_workflow env project repository requested file =
      bindR (pointed_workflow env project repository es) (\<lambda>c. case c of None \<Rightarrow> Inr None
        | Some (h, rec) \<Rightarrow> if request_conflicts requested rec then Inl (werr ''workflow_task_already_active'') else Inr (Some (h, rec)))"
    "\<exists>c. pointed_workflow env project repository es = Inr c" by blast+
qed

text \<open>After a start the pointer of the scope names the new workflow.\<close>

lemma start_workflow_pointed:
  assumes ok: "entries_ok env es" and fresh: "(''workflow'', identity_of env ''workflow'' handle) \<notin> entry_key ` set es"
    and scope: "\<And>p. p \<in> set (pointer_rows env project repository es) \<Longrightarrow> en_project p = project \<and> en_repository p = repository"
    and start: "start_workflow env ts handle project repository request es = Inr (x, es', changed)"
  shows "pointed_workflow env project repository es' = Inr (Some (handle, selecting ts project repository request))"
    "\<forall>p \<in> set (pointer_rows env project repository es'). en_project p = project \<and> en_repository p = repository"
proof -
  let ?d = "selecting ts project repository request"
  let ?w = "new_entry env ''workflow'' handle project repository ts ?d"
  have ok': "entries_ok env es'" by (rule start_workflow_ok [OF ok fresh scope start])
  have "\<exists>p. p \<in> set (pointer_rows env project repository es') \<and> en_data p = [(''workflow_handle'', PStr handle)] \<and>
      en_project p = project \<and> en_repository p = repository \<and> ?w \<in> set es'"
    using start
  proof (cases rule: start_workflow_cases)
    case pointed
    then obtain p where p: "p \<in> set (pointer_rows env project repository es)" by (cases "pointer_rows env project repository es") auto
    then have "pointer_of env project repository handle ts p \<in> set es'" "?w \<in> set es'"
      unfolding pointed(5) set_replace_entry by (auto simp: set_pointer_rows has_identity_key image_iff intro!: bexI [of _ p])
    moreover have "pointer_of env project repository handle ts p \<in> set (pointer_rows env project repository es')"
      using calculation(1) p by (simp add: set_pointer_rows pointer_of_def entry_key_def)
    ultimately show ?thesis using scope [OF p] by (intro exI [of _ "pointer_of env project repository handle ts p"]) (simp add: pointer_of_def)
  next
    case fresh
    then show ?thesis by (auto simp: set_pointer_rows)
  qed
  then obtain p where p: "p \<in> set (pointer_rows env project repository es')" "en_data p = [(''workflow_handle'', PStr handle)]"
    "en_project p = project" "en_repository p = repository" and w: "?w \<in> set es'" by blast
  then have rows: "pointer_rows env project repository es' = [p]" using pointer_rows_short [OF ok', of project repository] by force
  have "filter (has_identity ''workflow'' (identity_of env ''workflow'' handle)) es' = [?w]"
    by (rule filter_identity [OF entries_okD(1) [OF ok'] w]) (simp add: has_identity_def)
  then show "pointed_workflow env project repository es' = Inr (Some (handle, ?d))"
    by (simp add: pointed_workflow_def rows p dget_def dget_or_def active_phase_def selecting_def ACTIVE_PHASES_def)
  show "\<forall>p \<in> set (pointer_rows env project repository es'). en_project p = project \<and> en_repository p = repository"
    by (simp add: rows p)
qed

text \<open>
  C15. One authoring workflow per scope: a reservation returns the workflow that the scope already
  has, without changing the journal, exactly when there is an active one that the request fits;
  otherwise it starts one, and every later look or reservation for the same request finds that one.
\<close>

theorem reservation_resumed:
  assumes reach: "(wf_step env)\<^sup>*\<^sup>* Missing file" and fresh: "fresh_handle env file token"
    and res: "reserve_workflow env ts token project repository requested file = Inr ((h, rec, new), file')"
    and json: "wf_pv (PDict requested)"
  shows "find_current_workflow env project repository requested file = Inr (if new then None else Some (h, rec)) \<and>
    find_current_workflow env project repository requested file' = Inr (Some (h, rec)) \<and>
    reserve_workflow env ts' token' project repository requested file' = Inr ((h, rec, False), file') \<and>
    (new \<longrightarrow> h = token) \<and> (\<not> new \<longrightarrow> file' = file)"
  using res
proof (rule reserve_workflow_cases)
  fix es current es' changed
  assume l: "lock_error env = None" and r: "read_journal file = Inr es"
    and b: "bounded_mapping env (PDict requested) ''workflow_request'' 4096 = Inr requested"
    and c: "pointed_workflow env project repository es = Inr current"
    and s: "case current of
        Some (handle, record) \<Rightarrow> \<not> request_conflicts requested record \<and> (h, rec, new) = (handle, record, False) \<and> file' = file
      | None \<Rightarrow> start_workflow env ts token project repository requested es = Inr ((h, rec, new), es', changed) \<and> write_journal env es' = Inr file'"
  have ok: "entries_ok env es" using wfjournal.reachable_inv [OF reach] r by (auto simp: journal_ok_def)
  have own: "own_pointer env project repository file" using pointed_workflow_scope [OF c] r by (auto simp: own_pointer_def)
  have again: "reserve_workflow env ts' token' project repository requested f = Inr ((k, q, False), f)"
    if "read_journal f = Inr fs" "pointed_workflow env project repository fs = Inr (Some (k, q))" "\<not> request_conflicts requested q" for f fs k q
    using that by (simp add: reserve_workflow_def b mutate_def take_lock_def l)
  show ?thesis
  proof (cases current)
    case None
    with s have start: "start_workflow env ts token project repository requested es = Inr ((h, rec, new), es', changed)"
      and w: "write_journal env es' = Inr file'" by simp_all
    have fr: "(''workflow'', identity_of env ''workflow'' token) \<notin> entry_key ` set es" using fresh r by (simp add: fresh_handle_def)
    have x: "h = token" "rec = selecting ts project repository requested" "new" using start by (auto elim: start_workflow_cases)
    note sc = pointed_workflow_scope [OF c]
    note p = start_workflow_pointed [OF ok fr sc start]
    have r': "read_journal file' = Inr es'"
      using w start_workflow_stored [OF start read_journal_facts(2) [OF r]] by (auto simp: write_journal_eq_Inr read_journal_pv)
    have ok': "entries_ok env es'" by (rule start_workflow_ok [OF ok fr sc start])
    have own': "own_pointer env project repository file'" using p(2) r' by (simp add: own_pointer_def)
    have "json_finite (PDict requested)" using b by (auto simp: bounded_mapping_def canonical_def split: sum.splits if_splits)
    then have fits: "\<not> request_conflicts requested rec"
      using py_eq_refl [OF _ json] by (simp add: x request_conflicts_def selecting_def dget_def dget_or_def del: py_eq.simps)
    have "find_current_workflow env project repository requested file' = Inr (Some (h, rec))"
      using find_current_eq(1) [OF ok' r' l b own'] p(1) fits x by simp
    moreover have "find_current_workflow env project repository requested file = Inr None"
      unfolding find_current_eq(1) [OF ok r l b own] using c None by simp
    moreover have "reserve_workflow env ts' token' project repository requested file' = Inr ((h, rec, False), file')"
      by (rule again [OF r']) (use p(1) fits x in auto)
    ultimately show ?thesis using x by simp
  next
    case (Some hr)
    obtain k q where "hr = (k, q)" by (cases hr)
    with Some s have s': "\<not> request_conflicts requested q" "h = k" "rec = q" "\<not> new" "file' = file" by auto
    have "find_current_workflow env project repository requested file = Inr (Some (h, rec))"
      unfolding find_current_eq(1) [OF ok r l b own] using c Some s' \<open>hr = (k, q)\<close> by simp
    moreover have "reserve_workflow env ts' token' project repository requested file = Inr ((h, rec, False), file)"
      by (rule again [OF r]) (use c Some s' \<open>hr = (k, q)\<close> in auto)
    ultimately show ?thesis using s' by simp
  qed
qed

section \<open>Which errors a reservation raises\<close>

definition journal_finite :: "journal \<Rightarrow> bool" where
  "journal_finite file \<longleftrightarrow> (\<forall>v. file = Decoded v \<longrightarrow> json_finite v)"

lemma json_finite_dget: "json_finite (PDict d) \<Longrightarrow> json_finite (dget d k)"
  by (cases "map_of d k") (force simp: dget_def dget_or_def dest: map_of_SomeD)+

lemma read_entry_finite:
  assumes "read_entry v = Inr e" "json_finite v"
  shows "json_finite (entry_pv e)"
proof (cases v)
  case (PDict d)
  have f: "json_finite (dget d k)" for k using assms(2) PDict json_finite_dget by blast
  have "json_finite (PDict (case dget d ''data'' of PDict x \<Rightarrow> x | _ \<Rightarrow> []))"
    using f [of "''data''"] by (cases "dget d ''data''") simp_all
  with assms(1) PDict f show ?thesis by (auto simp: read_entry_def entry_pv_def simp del: json_finite.simps(3) split: if_splits)
      (simp add: f)
qed (use assms in \<open>simp_all add: read_entry_def\<close>)

lemma entry_pv_data: "json_finite (entry_pv e) \<longleftrightarrow> json_finite (en_created e) \<and> json_finite (en_updated e) \<and> json_finite (PDict (en_data e))"
  by (auto simp: entry_pv_def)

lemma journal_pv_finite: "json_finite (journal_pv es) \<longleftrightarrow> (\<forall>e \<in> set es. json_finite (entry_pv e))"
  by (simp add: journal_pv_def)

lemma read_journal_finite:
  assumes "read_journal file = Inr es" "journal_finite file"
  shows "json_finite (journal_pv es)"
proof (cases "file")
  case (Decoded v)
  with assms(1) obtain d raw where v: "v = PDict d" "dget d ''entries'' = PList raw" "mapR read_entry raw = Inr es"
    by (auto simp: read_journal_def split: pv.splits if_splits)
  have "json_finite (PList raw)" using assms(2) Decoded v json_finite_dget [of d "''entries''"] by (simp add: journal_finite_def)
  then have "\<forall>x \<in> set raw. json_finite x" by simp
  then show ?thesis unfolding journal_pv_finite using mapR_member [OF v(3)] read_entry_finite by metis
qed (use assms(1) in \<open>auto simp: read_journal_def journal_pv_def\<close>)

lemma mutate_finite: "mutate env f file = Inr (x, file') \<Longrightarrow> journal_finite file \<Longrightarrow> journal_finite file'"
  by (auto simp: mutate_eq_Inr write_journal_eq_Inr journal_finite_def split: if_splits)

lemma reserve_review_mutates:
  assumes "reserve_review env ts token project repository c file = Inr (x, file')"
  shows "\<exists>f. mutate env f file = Inr (x, file')"
proof -
  from assms obtain d where d: "bounded_mapping env c ''review_workflow'' 4096 = Inr d"
    by (auto simp: reserve_review_def bindR_eq_Inr)
  with assms obtain cid where "dget d ''candidate_id'' = PStr cid" "cid \<noteq> []"
    by (cases "dget d ''candidate_id''") (auto simp: reserve_review_def split: if_splits)
  with assms d show ?thesis by (auto simp: reserve_review_def)
qed

text \<open>Every step is one transaction.\<close>

lemma wf_step_mutates: "wf_step env file file' \<Longrightarrow>
   (\<exists>f (x :: string). mutate env f file = Inr (x, file')) \<or> (\<exists>f (x :: pdict). mutate env f file = Inr (x, file')) \<or>
   (\<exists>f (x :: string \<times> pdict \<times> bool). mutate env f file = Inr (x, file'))"
  by (induction rule: wf_step.induct)
    (auto simp: create_record_def update_record_def atomic_update_def reserve_workflow_def bindR_eq_Inr dest: reserve_review_mutates)

lemma wf_step_finite: "wf_step env file file' \<Longrightarrow> journal_finite file \<Longrightarrow> journal_finite file'"
  by (auto dest!: wf_step_mutates elim: mutate_finite)

interpretation wffinite: transition_system Missing "wf_step env" journal_finite for env
proof unfold_locales
  show "journal_finite Missing" by (simp add: journal_finite_def)
qed (blast intro: wf_step_finite)

lemma start_workflow_finite:
  assumes "start_workflow env ts handle project repository request es = Inr (x, es', changed)"
    "json_finite (journal_pv es)" "json_finite (PDict request)"
  shows "json_finite (journal_pv es')"
proof -
  have new: "json_finite (entry_pv (new_entry env k i p r ts d))" if "json_finite (PDict d)" for k i p r d
    using that by (simp add: entry_pv_data new_entry_def)
  have sel: "json_finite (PDict (selecting ts project repository request))" using assms(3) by (simp add: selecting_def)
  from assms(1) show ?thesis
  proof (cases rule: start_workflow_cases)
    case pointed
    have "\<forall>e \<in> set (es @ [new_entry env ''workflow'' handle project repository ts (selecting ts project repository request)]). json_finite (entry_pv e)"
      using assms(2) new [OF sel] by (auto simp: journal_pv_finite)
    then show ?thesis unfolding pointed(5) journal_pv_finite set_replace_entry by (auto simp: entry_pv_data pointer_of_def)
  next
    case fresh
    then show ?thesis using assms(2) new [OF sel] new [of "[(''workflow_handle'', PStr handle)]"] by (auto simp: journal_pv_finite)
  qed
qed

text \<open>
  In a journal that only these operations have written, a reservation fails only because another
  task is active in the scope or because the store is full, and a look only because another task is
  active: the errors that report a damaged journal or record are never raised.
\<close>

theorem reservation_errors:
  assumes reach: "(wf_step env)\<^sup>*\<^sup>* Missing file" and l: "lock_error env = None"
    and b: "bounded_mapping env (PDict requested) ''workflow_request'' 4096 = Inr requested"
    and own: "own_pointer env project repository file"
  shows "reserve_workflow env ts token project repository requested file \<in>
      range Inr \<union> {Inl (werr ''workflow_task_already_active''), Inl (werr ''workflow_store_full'')} \<and>
    find_current_workflow env project repository requested file \<in> range Inr \<union> {Inl (werr ''workflow_task_already_active'')}"
proof -
  obtain es where r: "read_journal file = Inr es" and ok: "entries_ok env es"
    using wfjournal.reachable_inv [OF reach] by (auto simp: journal_ok_def)
  obtain c where c: "pointed_workflow env project repository es = Inr c" using find_current_eq(2) [OF ok r l b own] by blast
  have rf: "json_finite (PDict requested)" using b by (auto simp: bounded_mapping_def canonical_def split: sum.splits if_splits)
  have "find_current_workflow env project repository requested file \<in> range Inr \<union> {Inl (werr ''workflow_task_already_active'')}"
    unfolding find_current_eq(1) [OF ok r l b own] by (simp add: c split: option.splits prod.splits)
  moreover have "reserve_workflow env ts token project repository requested file \<in>
      range Inr \<union> {Inl (werr ''workflow_task_already_active''), Inl (werr ''workflow_store_full'')}"
  proof (cases c)
    case None
    have res: "reserve_workflow env ts token project repository requested file =
        bindR (start_workflow env ts token project repository requested es) (\<lambda>(x, es', changed).
          if changed then bindR (write_journal env es') (\<lambda>file'. Inr (x, file')) else Inr (x, file))"
      by (simp add: reserve_workflow_def b mutate_def take_lock_def l r c None)
    show ?thesis
    proof (cases "start_workflow env ts token project repository requested es")
      case (Inl e)
      then have "e = werr ''workflow_store_full''" by (auto simp: start_workflow_def Let_def split: if_splits)
      with Inl res show ?thesis by simp
    next
      case (Inr y)
      obtain x es' changed where y: "y = (x, es', changed)" by (cases y)
      have "json_finite (journal_pv es)" using read_journal_finite [OF r] wffinite.reachable_inv [OF reach] by simp
      then have "json_finite (journal_pv es')" using start_workflow_finite Inr y rf by blast
      then have "write_journal env es' = Inl (werr ''workflow_store_full'') \<or> (\<exists>f. write_journal env es' = Inr f)"
        by (simp add: write_journal_def canonical_def)
      with Inr y res show ?thesis by auto
    qed
  next
    case (Some hr)
    then show ?thesis by (cases hr) (simp add: reserve_workflow_def b mutate_def take_lock_def l r c)
  qed
  ultimately show ?thesis by blast
qed

section \<open>Records\<close>

lemma get_record_reads:
  assumes "read_journal file = Inr es" "lock_error env = None" "safe_component (PStr opaque) ''workflow_handle'' 256 = Inr opaque"
  shows "get_record env kind (PStr opaque) project repository file =
    bindR (find_entry env kind opaque project repository es) (\<lambda>r. case r of
       None \<Rightarrow> Inl (werr ''workflow_handle_unavailable'') | Some e \<Rightarrow> Inr (en_data e))"
  using assms by (simp add: get_record_def read_only_def take_lock_def)

text \<open>
  A record is read back as it was created, by its handle, kind and scope; a caller of another scope is
  refused; and no other record changes.
\<close>

theorem record_roundtrip:
  assumes reach: "(wf_step env)\<^sup>*\<^sup>* Missing file" and kind: "kind \<noteq> ''workflow_current''"
    and cr: "create_record env ts kind opaque project repository (PDict d) file = Inr (h, file')"
    and safe: "safe_component (PStr opaque) ''workflow_handle'' 256 = Inr opaque"
  shows "h = opaque \<and> get_record env kind (PStr h) project repository file' = Inr d \<and>
    get_any_scope env kind (PStr h) file' = Inr (project, repository, d) \<and>
    (\<forall>p r. (p, r) \<noteq> (project, repository) \<longrightarrow>
       get_record env kind (PStr h) p r file' = Inl (werr ''workflow_handle_scope_mismatch'')) \<and>
    (\<forall>k v p r e. get_record env k v p r file = Inr e \<longrightarrow> get_record env k v p r file' = Inr e)"
proof -
  let ?e = "new_entry env kind opaque project repository ts d"
  have "bounded_mapping env (PDict d) ''workflow_record'' MAX_PREVIEW_BYTES = Inr d"
    using cr by (auto simp: create_record_def bindR_eq_Inr bounded_mapping_def split: sum.splits if_splits)
  with cr obtain es es' where l: "lock_error env = None" and r: "read_journal file = Inr es"
    and f: "(if int (length es) \<ge> MAX_RECORDS then Inl (werr ''workflow_store_full'')
      else if list_ex (\<lambda>e. en_digest e = identity_of env kind opaque) es then Inl (werr ''workflow_store_identity_conflict'')
      else Inr (opaque, es @ [?e], True)) = Inr (h, es', True)" and w: "write_journal env es' = Inr file'"
    by (auto simp: create_record_def mutate_eq_Inr split: if_splits)
  from f have h: "h = opaque" and es': "es' = es @ [?e]" and len: "int (length es) < MAX_RECORDS"
    and free: "\<And>e. e \<in> set es \<Longrightarrow> en_digest e \<noteq> identity_of env kind opaque"
    by (auto simp: list_ex_iff split: if_splits)
  have r': "read_journal file' = Inr es'"
    using w len read_journal_facts(2) [OF r] by (auto simp: write_journal_eq_Inr es' intro!: read_journal_pv)
  have only: "filter (has_identity kind (identity_of env kind opaque)) es' = [?e]"
    using free by (auto simp: es' has_identity_def filter_empty_conv)
  have others: "filter (has_identity k g) es' = filter (has_identity k g) es" if "(k, g) \<noteq> (kind, identity_of env kind opaque)" for k g
    using that by (auto simp: es' has_identity_def)
  have kept: "get_record env k v p s file' = Inr e" if "get_record env k v p s file = Inr e" for k v p s e
  proof -
    from that obtain i where i: "safe_component v ''workflow_handle'' 256 = Inr i" by (auto simp: get_record_def bindR_eq_Inr)
    have "(k, identity_of env k i) \<noteq> (kind, identity_of env kind opaque)"
    proof
      assume eq: "(k, identity_of env k i) = (kind, identity_of env kind opaque)"
      then have "filter (has_identity k (identity_of env k i)) es = []" using free by (auto simp: filter_empty_conv has_identity_def)
      with that i r l show False by (auto simp: get_record_def read_only_def take_lock_def find_entry_def)
    qed
    from others [OF this] that i r r' l show ?thesis
      by (simp add: get_record_def read_only_def take_lock_def find_entry_def)
  qed
  note g = get_record_reads [OF r' l safe]
  have "get_record env kind (PStr h) project repository file' = Inr d"
    "\<And>p s. (p, s) \<noteq> (project, repository) \<Longrightarrow> get_record env kind (PStr h) p s file' = Inl (werr ''workflow_handle_scope_mismatch'')"
    unfolding h g by (auto simp: find_entry_def only)
  moreover have "get_any_scope env kind (PStr h) file' = Inr (project, repository, d)"
    using safe r' l by (simp add: h get_any_scope_def read_only_def take_lock_def only)
  ultimately show ?thesis using h kept by blast
qed

end
