(* ===== verification/WorkflowPhases.thy ===== *)
theory WorkflowPhases
  imports WorkflowHost WorkflowProps
begin

text \<open>
  What the durable intents promise: a request whose reply was lost is sent again exactly as
  before, another request under the same name is refused, and the result of an administrator's
  preview is written once.
\<close>

section \<open>Actions\<close>

lemma bindA_eq_Inr [result_simps]:
  "bindA m f s = (Inr b, s') \<longleftrightarrow> (\<exists>a s1. m s = (Inr a, s1) \<and> f a s1 = (Inr b, s'))"
  by (auto simp: bindA_def split: prod.splits sum.splits)

lemma bindA_run:
  "m s = (Inr a, s1) \<Longrightarrow> bindA m f s = f a s1"
  "m s = (Inl e, s1) \<Longrightarrow> bindA m f s = (Inl e, s1)"
  by (simp_all add: bindA_def)

lemma ret_eq [simp]: "ret a s = (x, s') \<longleftrightarrow> x = Inr a \<and> s' = s"
  by (auto simp: ret_def)

lemma throw_eq [simp]: "throw e s = (x, s') \<longleftrightarrow> x = Inl e \<and> s' = s"
  by (auto simp: throw_def)

lemma of_result_eq [simp]: "of_result r s = (x, s') \<longleftrightarrow> r = x \<and> s' = s"
  by (auto simp: of_result_def)

lemma bindA_of_result [simp]:
  "bindA (of_result (Inr a)) f = f a"
  "bindA (of_result (Inl e)) f = throw e"
  by (auto simp: bindA_def of_result_def throw_def)

lemma store_read_eq [simp]: "store_read nv f s = (x, s') \<longleftrightarrow> f (hs_journal s) = x \<and> s' = s"
  by (auto simp: store_read_def)

lemma bindA_ret [simp]: "bindA (ret a) f = f a" "bindA (throw e) f = throw e"
  by (auto simp: bindA_def ret_def throw_def)

lemma bindA_store:
  "bindA (store_read nv f) g s = (case f (hs_journal s) of Inl e \<Rightarrow> (Inl e, s) | Inr a \<Rightarrow> g a s)"
  "bindA (store_write nv h) g s = (case h (nv_clock nv (hs_world s)) (hs_journal s) of
     Inl e \<Rightarrow> (Inl e, s) | Inr (a, j) \<Rightarrow> g a (s\<lparr>hs_journal := j\<rparr>))"
  by (auto simp: bindA_def store_read_def store_write_def split: sum.splits prod.splits)

lemma store_write_eq_Inr:
  "store_write nv f s = (Inr a, s') \<longleftrightarrow>
     (\<exists>j. f (nv_clock nv (hs_world s)) (hs_journal s) = Inr (a, j) \<and> s' = s\<lparr>hs_journal := j\<rparr>)"
  by (auto simp: store_write_def split: sum.splits)

section \<open>A record after a transaction on it\<close>

lemma filter_replace:
  assumes "\<And>e. same_place e (g e)"
  shows "filter (has_identity kind digest) (replace_entry kind digest g es) = map g (filter (has_identity kind digest) es)"
  using assms by (induction es) (auto simp: replace_entry_def has_identity_def same_place_def)

lemma find_entry_filter:
  assumes "find_entry env kind ident project repository es = Inr (Some e)"
  shows "filter (has_identity kind (identity_of env kind ident)) es = [e]" "en_project e = project" "en_repository e = repository"
  using assms by (auto simp: find_entry_def split: list.splits if_splits)

lemma atomic_update_get:
  assumes a: "atomic_update env ts kind opaque project repository fn file = Inr (d, file')"
    and safe: "safe_component (PStr opaque) ''workflow_handle'' 256 = Inr opaque"
  obtains e changed where "get_record env kind (PStr opaque) project repository file = Inr e" "fn e = Inr (changed, d)"
    "changed \<Longrightarrow> get_record env kind (PStr opaque) project repository file' = Inr d" "\<not> changed \<Longrightarrow> file' = file"
proof -
  let ?g = "\<lambda>e. e\<lparr>en_data := d, en_updated := PFloat (Finite ts)\<rparr>"
  from a obtain es e changed es' where l: "lock_error env = None" and r: "read_journal file = Inr es"
    and f: "find_entry env kind opaque project repository es = Inr (Some e)" and fn: "fn (en_data e) = Inr (changed, d)"
    and es': "es' = replace_entry kind (identity_of env kind opaque) ?g es"
    and w: "if changed then write_journal env es' = Inr file' else file' = file"
    by (auto simp: atomic_update_def mutate_eq_Inr bindR_eq_Inr split: option.splits)
  note fe = find_entry_filter [OF f]
  have place: "same_place x (?g x)" for x by (simp add: same_place_def)
  have get: "get_record env kind (PStr opaque) project repository file = Inr (en_data e)"
    using get_record_reads [OF r l safe] f by simp
  have "get_record env kind (PStr opaque) project repository file' = Inr d" if changed
  proof -
    have "read_journal file' = Inr es'"
      using w that replace_entry_stored [OF read_journal_facts [OF r], of ?g] unfolding es'
      by (auto simp: write_journal_eq_Inr stamped_def is_timestamp_def intro!: read_journal_pv)
    moreover have "find_entry env kind opaque project repository es' = Inr (Some (?g e))"
      unfolding es' find_entry_def filter_replace [OF place] fe(1) using fe(2,3) by simp
    ultimately show ?thesis using get_record_reads [OF _ l safe, of file' es'] by simp
  qed
  with get fn w show thesis by (intro that [of "en_data e" changed]) auto
qed

text \<open>A callback that fails, or reports no change, leaves the journal alone.\<close>

lemma atomic_update_idle:
  assumes "get_record env kind (PStr opaque) project repository file = Inr d"
    and safe: "safe_component (PStr opaque) ''workflow_handle'' 256 = Inr opaque"
  shows "fn d = Inl e \<Longrightarrow> atomic_update env ts kind opaque project repository fn file = Inl e"
    "fn d = Inr (False, d') \<Longrightarrow> atomic_update env ts kind opaque project repository fn file = Inr (d', file)"
proof -
  from assms obtain es en where "lock_error env = None" "read_journal file = Inr es"
    "find_entry env kind opaque project repository es = Inr (Some en)" "en_data en = d"
    by (auto simp: get_record_def safe read_only_def take_lock_def bindR_eq_Inr split: option.splits)
  then show "fn d = Inl e \<Longrightarrow> atomic_update env ts kind opaque project repository fn file = Inl e"
    "fn d = Inr (False, d') \<Longrightarrow> atomic_update env ts kind opaque project repository fn file = Inr (d', file)"
    by (simp_all add: atomic_update_def mutate_def take_lock_def)
qed

section \<open>Intents\<close>

lemma persist_intent_kept:
  assumes "persist_intent name digest intent e = Inr (changed, d)" "\<not> changed"
  shows "d = e"
proof -
  from assms(1) obtain ins where "intents_of e = Inr ins" by (auto simp: persist_intent_def bindR_eq_Inr)
  with assms show ?thesis by (cases "dget ins name") (auto simp: persist_intent_def split: if_splits)
qed

text \<open>Once an intent is recorded, the request reads it and calls nobody.\<close>

lemma phase_intent_recorded:
  assumes "bounded_mapping (nv_env nv) (PDict (intent_payload tool arguments)) ''native_phase_intent'' (32 * 1024) = Inr b"
    "payload_digest (nv_env nv) (intent_payload tool arguments) = Inr g"
    "get_record (nv_env nv) ''workflow'' (PStr handle) project repository (hs_journal t) = Inr d"
    "intents_of d = Inr ins" "dget ins name \<noteq> PNone"
  shows "phase_intent nv handle project repository rec name tool arguments er ik t =
    (case intent_key g (dget ins name) of None \<Rightarrow> (Inl (werr ''workflow_phase_intent_conflict''), t)
      | Some (key, rv) \<Rightarrow> (Inr (key, rv, dupdate rec d), t))"
  using assms
  by (simp add: phase_intent_def Let_def bindA_def store_read_def of_result_def ret_def throw_def split: option.splits)

lemma phase_intent_stored:
  assumes "phase_intent nv handle project repository rec name tool arguments er ik s = (Inr (key, rv, rec'), s')"
  obtains b g d ins where "bounded_mapping (nv_env nv) (PDict (intent_payload tool arguments)) ''native_phase_intent'' (32 * 1024) = Inr b"
    "payload_digest (nv_env nv) (intent_payload tool arguments) = Inr g"
    "get_record (nv_env nv) ''workflow'' (PStr handle) project repository (hs_journal s') = Inr d"
    "intents_of d = Inr ins" "intent_key g (dget ins name) = Some (key, rv)" "rec' = dupdate rec d"
proof -
  from assms obtain b g latest li where b: "bounded_mapping (nv_env nv) (PDict (intent_payload tool arguments)) ''native_phase_intent'' (32 * 1024) = Inr b"
    and g: "payload_digest (nv_env nv) (intent_payload tool arguments) = Inr g"
    and latest: "get_record (nv_env nv) ''workflow'' (PStr handle) project repository (hs_journal s) = Inr latest"
    and li: "intents_of latest = Inr li"
    by (auto simp: phase_intent_def Let_def bindA_eq_Inr)
  show thesis
  proof (cases "dget li name = PNone")
    case False
    from phase_intent_recorded [OF b g latest li False] assms
    have "intent_key g (dget li name) = Some (key, rv)" "rec' = dupdate rec latest" "s' = s" by (auto split: option.splits)
    with b g latest li show thesis by (intro that) simp_all
  next
    case True
    from assms obtain intent s1 d ins where w: "store_write nv (\<lambda>ts. atomic_update (nv_env nv) ts ''workflow'' handle project repository
          (persist_intent name g intent)) s1 = (Inr d, s')"
      and ins: "intents_of d = Inr ins" "intent_key g (dget ins name) = Some (key, rv)" "rec' = dupdate rec d"
      by (auto simp: phase_intent_def Let_def bindA_eq_Inr b g latest li True split: option.splits)
    have "safe_component (PStr handle) ''workflow_handle'' 256 = Inr handle"
      using latest by (auto simp: get_record_def bindR_eq_Inr safe_component_def split: if_splits)
    moreover obtain j ts where "atomic_update (nv_env nv) ts ''workflow'' handle project repository (persist_intent name g intent) (hs_journal s1) = Inr (d, j)"
      "s' = s1\<lparr>hs_journal := j\<rparr>" using w unfolding store_write_eq_Inr by blast
    ultimately have "get_record (nv_env nv) ''workflow'' (PStr handle) project repository (hs_journal s') = Inr d"
      by (auto elim!: atomic_update_get dest: persist_intent_kept)
    with b g ins show thesis by (intro that)
  qed
qed

text \<open>
  C16. A mutation whose reply is lost is replayed exactly: the intent is in the journal before the native
  host is called, so that the same request sent later has the same idempotency key and expected
  revision, whatever the caller now proposes, and a different request under that name is refused
  without a call.
\<close>

theorem lost_reply_replayed:
  assumes first: "phase_intent nv handle project repository rec name tool arguments er ik s = (Inr (key, rv, rec'), s1)"
    and lost: "invoke nv tool rec' (arguments @ [(''idempotency_key'', PStr key), (''expected_revision'', PInt rv)]) s1 = (Inl e, s2)"
    and journal: "hs_journal s2 = hs_journal s1"
  shows "send_phase nv handle project repository rec name tool arguments er ik s = (Inl e, s2) \<and>
    (\<forall>rec2 er2 ik2. \<exists>rec3. send_phase nv handle project repository rec2 name tool arguments er2 ik2 s2 =
       bindA (invoke nv tool rec3 (arguments @ [(''idempotency_key'', PStr key), (''expected_revision'', PInt rv)])) (\<lambda>result. ret (result, rec3)) s2) \<and>
    (\<forall>rec2 tool2 arguments2 er2 ik2 b g2.
       bounded_mapping (nv_env nv) (PDict (intent_payload tool2 arguments2)) ''native_phase_intent'' (32 * 1024) = Inr b \<and>
       payload_digest (nv_env nv) (intent_payload tool2 arguments2) = Inr g2 \<and>
       payload_digest (nv_env nv) (intent_payload tool arguments) \<noteq> Inr g2 \<longrightarrow>
       send_phase nv handle project repository rec2 name tool2 arguments2 er2 ik2 s2 = (Inl (werr ''workflow_phase_intent_conflict''), s2))"
proof -
  from first obtain b g d ins where b: "bounded_mapping (nv_env nv) (PDict (intent_payload tool arguments)) ''native_phase_intent'' (32 * 1024) = Inr b"
    and g: "payload_digest (nv_env nv) (intent_payload tool arguments) = Inr g"
    and d: "get_record (nv_env nv) ''workflow'' (PStr handle) project repository (hs_journal s2) = Inr d"
    and ins: "intents_of d = Inr ins" and k: "intent_key g (dget ins name) = Some (key, rv)"
    unfolding journal by (rule phase_intent_stored)
  from k have n: "dget ins name \<noteq> PNone" by (auto simp: intent_key_def)
  have again: "phase_intent nv handle project repository rec2 name tool arguments er2 ik2 s2 = (Inr (key, rv, dupdate rec2 d), s2)" for rec2 er2 ik2
    using phase_intent_recorded [OF b g d ins n] k by simp
  have other: "phase_intent nv handle project repository rec2 name tool2 arguments2 er2 ik2 s2 = (Inl (werr ''workflow_phase_intent_conflict''), s2)"
    if "bounded_mapping (nv_env nv) (PDict (intent_payload tool2 arguments2)) ''native_phase_intent'' (32 * 1024) = Inr b2"
      "payload_digest (nv_env nv) (intent_payload tool2 arguments2) = Inr g2" "g \<noteq> g2" for rec2 tool2 arguments2 er2 ik2 b2 g2
  proof -
    have "intent_key g2 (dget ins name) = None" using k that(3) by (auto simp: intent_key_def split: pv.splits if_splits)
    with phase_intent_recorded [OF that(1,2) d ins n] show ?thesis by simp
  qed
  show ?thesis
    using first lost again other g by (auto simp: send_phase_def bindA_run)
qed

section \<open>Previews\<close>

text \<open>
  The result of an administrator's preview is written once: after a completion that returns, the
  preview has that result, completing again with a result of the same canonical text changes nothing, and
  with another text, or another idempotency key, is refused.
\<close>

theorem preview_completed_once:
  assumes fin: "complete_admin_preview nv project repository ref key (PDict receipt) s = (Inr u, s')"
    and ref: "safe_component (PStr ref) ''workflow_handle'' 256 = Inr ref"
    and before: "get_record (nv_env nv) ''admin_preview'' (PStr ref) project repository (hs_journal s) = Inr d"
  shows "\<exists>d' v. get_record (nv_env nv) ''admin_preview'' (PStr ref) project repository (hs_journal s') = Inr d' \<and>
      dget d' ''result'' = v \<and> json_enc (float_repr (nv_env nv)) v = json_enc (float_repr (nv_env nv)) (PDict receipt) \<and>
      (dget d ''result'' \<noteq> PNone \<longrightarrow> s' = s) \<and>
      (\<forall>key2 receipt2 r t. complete_admin_preview nv project repository ref key2 (PDict receipt2) s' = (r, t) \<longrightarrow>
         t = s' \<and> (r = Inr () \<longrightarrow> key2 = key \<and> json_enc (float_repr (nv_env nv)) (PDict receipt2) = json_enc (float_repr (nv_env nv)) (PDict receipt)))"
proof -
  let ?env = "nv_env nv" and ?enc = "json_enc (float_repr (nv_env nv))"
  have pb: "bounded_mapping ?env (PDict x) f n = Inr y \<Longrightarrow> y = x \<and> json_finite (PDict x)" for x y f n
    by (auto simp: bounded_mapping_def canonical_def split: sum.splits if_splits)
  have sc: "safe_component (PStr x) n m = Inr y \<Longrightarrow> y = x" for x y n m
    by (auto simp: safe_component_def split: if_splits)
  from fin have rf: "json_finite (PDict receipt)" and w: "\<exists>d1. store_write nv (\<lambda>ts. atomic_update ?env ts ''admin_preview'' ref project repository
      (complete_preview ?env key receipt)) s = (Inr d1, s')"
    by (auto simp: complete_admin_preview_def Let_def bindA_eq_Inr simp del: json_finite.simps dest!: pb sc)
  from w obtain d1 j where j: "atomic_update ?env (nv_clock nv (hs_world s)) ''admin_preview'' ref project repository (complete_preview ?env key receipt) (hs_journal s) = Inr (d1, j)"
    and s': "s' = s\<lparr>hs_journal := j\<rparr>" unfolding store_write_eq_Inr by blast
  from j ref obtain changed where fn: "complete_preview ?env key receipt d = Inr (changed, d1)"
    and get: "changed \<Longrightarrow> get_record ?env ''admin_preview'' (PStr ref) project repository j = Inr d1" and same: "\<not> changed \<Longrightarrow> j = hs_journal s"
    using before by (auto elim!: atomic_update_get)
  have key: "dget d ''idempotency_key'' = PStr key" using fn by (auto simp: complete_preview_def bindR_eq_Inr)
  have d1: "dget d1 ''idempotency_key'' = PStr key \<and> dget d1 ''result'' \<noteq> PNone \<and> ?enc (dget d1 ''result'') = ?enc (PDict receipt) \<and>
      json_finite (dget d1 ''result'') \<and> (changed \<longleftrightarrow> dget d ''result'' = PNone) \<and> (\<not> changed \<longrightarrow> d1 = d)"
    using fn key rf by (auto simp: complete_preview_def bindR_eq_Inr dget_def dget_or_def update_conv' simp del: json_enc.simps split: if_splits)
  have get': "get_record ?env ''admin_preview'' (PStr ref) project repository (hs_journal s') = Inr d1"
    using get same before d1 by (cases changed) (auto simp: s')
  have again: "t = s' \<and> (r = Inr () \<longrightarrow> key2 = key \<and> ?enc (PDict receipt2) = ?enc (PDict receipt))"
    if run: "complete_admin_preview nv project repository ref key2 (PDict receipt2) s' = (r, t)" for key2 receipt2 r t
  proof (cases "complete_preview ?env key2 receipt2 d1")
    case (Inl e)
    have "atomic_update ?env ts ''admin_preview'' ref project repository (complete_preview ?env key2 receipt2) (hs_journal s') = Inl e" for ts
      by (rule atomic_update_idle(1) [OF get' ref]) (rule Inl)
    then show ?thesis using run
      by (auto simp: complete_admin_preview_def Let_def bindA_def of_result_def store_write_def ret_def split: sum.splits prod.splits dest!: pb sc)
  next
    case (Inr p)
    with d1 have p: "p = (False, d1)" "key2 = key" "?enc (PDict receipt2) = ?enc (PDict receipt)"
      by (auto simp: complete_preview_def bindR_eq_Inr simp del: json_enc.simps split: if_splits)
    have "atomic_update ?env ts ''admin_preview'' ref project repository (complete_preview ?env key2 receipt2) (hs_journal s') = Inr (d1, hs_journal s')" for ts
      by (rule atomic_update_idle(2) [OF get' ref]) (simp add: Inr p(1))
    then show ?thesis using run p
      by (auto simp: complete_admin_preview_def Let_def bindA_def of_result_def store_write_def ret_def split: sum.splits prod.splits dest!: pb sc)
  qed
  have "dget d ''result'' \<noteq> PNone \<longrightarrow> s' = s" using d1 same s' by auto
  with get' d1 again show ?thesis by blast
qed

end
