(* ===== verification/WorkflowDemo.thy ===== *)
theory WorkflowDemo
  imports WorkflowPhases
begin

text \<open>A small journal, on which the properties of the workflow host are evaluated.\<close>

definition demo_wf_env :: wf_env where
  "demo_wf_env = \<lparr>actor_digest = ''a'', sha256 = (\<lambda>s. s), float_repr = (\<lambda>_. ''0.0''), lock_error = None\<rparr>"

lemma bounded_small:
  assumes "json_finite (PDict d)" "int (json_bound (PDict d)) \<le> limit"
  shows "bounded_mapping demo_wf_env (PDict d) field limit = Inr d"
proof -
  have "json_size (float_repr demo_wf_env) (PDict d) \<le> json_bound (PDict d)"
    by (rule json_size_bound) (simp add: demo_wf_env_def)
  with assms show ?thesis
    unfolding bounded_mapping_def canonical_def by (simp add: json_size_def del: json_enc.simps json_finite.simps json_bound.simps)
qed

lemma write_small:
  assumes "json_finite (journal_pv es)" "int (json_bound (journal_pv es)) \<le> MAX_STORE_BYTES"
  shows "write_journal demo_wf_env es = Inr (Decoded (journal_pv es))"
proof -
  have "json_size (float_repr demo_wf_env) (journal_pv es) \<le> json_bound (journal_pv es)"
    by (rule json_size_bound) (simp add: demo_wf_env_def)
  with assms show ?thesis by (simp add: write_journal_eq_Inr)
qed

definition demo_request_wf :: pdict where
  "demo_request_wf = [(''task_id'', PStr ''T1'')]"

definition demo_workflow :: wf_entry where
  "demo_workflow = new_entry demo_wf_env ''workflow'' ''h1'' ''p'' ''r'' 0 (selecting 0 ''p'' ''r'' demo_request_wf)"

definition demo_pointer :: wf_entry where
  "demo_pointer = new_entry demo_wf_env ''workflow_current'' (pointer_identity demo_wf_env ''p'' ''r'') ''p'' ''r'' 0 [(''workflow_handle'', PStr ''h1'')]"

definition demo_journal :: journal where
  "demo_journal = Decoded (journal_pv [demo_workflow, demo_pointer])"

lemmas demo_defs = demo_workflow_def demo_pointer_def demo_request_wf_def demo_wf_env_def new_entry_def selecting_def
  pointer_identity_def identity_of_def NUL_def

lemma demo_written: "write_journal demo_wf_env [demo_workflow, demo_pointer] = Inr demo_journal"
  unfolding demo_journal_def
  by (rule write_small) (simp_all add: journal_pv_def entry_pv_def demo_defs MAX_STORE_BYTES_def STORE_FORMAT_def STORE_VERSION_def
      string_of_int_def string_of_nat.simps)

lemma demo_read: "read_journal demo_journal = Inr [demo_workflow, demo_pointer]"
  unfolding demo_journal_def
  by (rule read_journal_pv) (simp_all add: MAX_RECORDS_def demo_workflow_def demo_pointer_def)

lemma demo_reserves:
  "reserve_workflow demo_wf_env 0 ''h1'' ''p'' ''r'' demo_request_wf Missing =
    Inr ((''h1'', selecting 0 ''p'' ''r'' demo_request_wf, True), demo_journal)"
proof -
  have b: "bounded_mapping demo_wf_env (PDict demo_request_wf) ''workflow_request'' 4096 = Inr demo_request_wf"
    by (rule bounded_small) (simp_all add: demo_request_wf_def)
  have s: "start_workflow demo_wf_env 0 ''h1'' ''p'' ''r'' demo_request_wf [] =
      Inr ((''h1'', selecting 0 ''p'' ''r'' demo_request_wf, True), [demo_workflow, demo_pointer], True)"
    by (simp add: start_workflow_def pointer_rows_def MAX_RECORDS_def demo_workflow_def demo_pointer_def selecting_def Let_def)
  have l: "take_lock demo_wf_env = Inr ()" by (simp add: take_lock_def demo_wf_env_def)
  show ?thesis by (simp add: reserve_workflow_def b mutate_def l read_journal_def pointed_workflow_def pointer_rows_def s demo_written)
qed

lemma demo_fresh: "fresh_handle demo_wf_env Missing h"
  by (simp add: fresh_handle_def read_journal_def)

lemma demo_journal_reachable: "(wf_step demo_wf_env)\<^sup>*\<^sup>* Missing demo_journal"
  by (rule r_into_rtranclp) (rule ws_workflow [OF demo_reserves demo_fresh])

theorem reservation_resumed_witness:
  "reserve_workflow demo_wf_env 5 ''h2'' ''p'' ''r'' demo_request_wf demo_journal =
     Inr ((''h1'', selecting 0 ''p'' ''r'' demo_request_wf, False), demo_journal)"
proof -
  have "wf_pv (PDict demo_request_wf)" by (simp add: demo_request_wf_def)
  from reservation_resumed [OF rtranclp.rtrancl_refl demo_fresh demo_reserves this, of 5 "''h2''"] show ?thesis by blast
qed

theorem reservation_errors_witness:
  "reserve_workflow demo_wf_env 1 ''h2'' ''p'' ''r'' [(''task_id'', PStr ''T2'')] demo_journal \<in>
     range Inr \<union> {Inl (werr ''workflow_task_already_active''), Inl (werr ''workflow_store_full'')}"
proof -
  have b: "bounded_mapping demo_wf_env (PDict [(''task_id'', PStr ''T2'')]) ''workflow_request'' 4096 = Inr [(''task_id'', PStr ''T2'')]"
    by (rule bounded_small) simp_all
  have "lock_error demo_wf_env = None" by (simp add: demo_wf_env_def)
  moreover have "own_pointer demo_wf_env ''p'' ''r'' demo_journal"
    by (auto simp: own_pointer_def demo_read set_pointer_rows demo_workflow_def demo_pointer_def)
  ultimately show ?thesis using reservation_errors [OF demo_journal_reachable _ b, of "''p''" "''r''" 1 "''h2''"] by blast
qed

lemma demo_create:
  "create_record demo_wf_env 1 ''admin_preview'' ''k1'' ''p'' ''r'' (PDict [(''action'', PStr ''apply'')]) demo_journal =
    Inr (''k1'', Decoded (journal_pv [demo_workflow, demo_pointer,
      new_entry demo_wf_env ''admin_preview'' ''k1'' ''p'' ''r'' 1 [(''action'', PStr ''apply'')]]))"
proof -
  let ?e = "new_entry demo_wf_env ''admin_preview'' ''k1'' ''p'' ''r'' 1 [(''action'', PStr ''apply'')]"
  have b: "bounded_mapping demo_wf_env (PDict [(''action'', PStr ''apply'')]) ''workflow_record'' MAX_PREVIEW_BYTES = Inr [(''action'', PStr ''apply'')]"
    by (rule bounded_small) (simp_all add: MAX_PREVIEW_BYTES_def)
  have l: "take_lock demo_wf_env = Inr ()" by (simp add: take_lock_def demo_wf_env_def)
  have w: "write_journal demo_wf_env [demo_workflow, demo_pointer, ?e] = Inr (Decoded (journal_pv [demo_workflow, demo_pointer, ?e]))"
    by (rule write_small) (simp_all add: journal_pv_def entry_pv_def demo_defs MAX_STORE_BYTES_def STORE_FORMAT_def STORE_VERSION_def
        string_of_int_def string_of_nat.simps)
  have n: "identity_of demo_wf_env ''workflow'' ''h1'' \<noteq> identity_of demo_wf_env ''admin_preview'' ''k1''"
    "identity_of demo_wf_env ''workflow_current'' (pointer_identity demo_wf_env ''p'' ''r'') \<noteq> identity_of demo_wf_env ''admin_preview'' ''k1''"
    by (simp_all add: identity_of_def demo_wf_env_def NUL_def)
  have "\<not> list_ex (\<lambda>e. en_digest e = identity_of demo_wf_env ''admin_preview'' ''k1'') [demo_workflow, demo_pointer]"
    using n by (simp add: demo_workflow_def demo_pointer_def)
  then show ?thesis by (simp add: create_record_def b mutate_def l demo_read MAX_RECORDS_def w)
qed

theorem record_roundtrip_witness:
  "get_record demo_wf_env ''admin_preview'' (PStr ''k1'') ''p'' ''r'' (Decoded (journal_pv [demo_workflow, demo_pointer,
      new_entry demo_wf_env ''admin_preview'' ''k1'' ''p'' ''r'' 1 [(''action'', PStr ''apply'')]])) = Inr [(''action'', PStr ''apply'')]"
proof -
  have "safe_component (PStr ''k1'') ''workflow_handle'' 256 = Inr ''k1''" by code_simp
  from record_roundtrip [OF demo_journal_reachable _ demo_create this] show ?thesis by simp
qed

section \<open>A lost reply\<close>

definition demo_native :: "unit native" where
  "demo_native = \<lparr>nv_env = demo_wf_env, nv_profile = ''mutator'', nv_invoke = (\<lambda>_ _ s. (Inl (RuntimeError ''lost''), s)),
     nv_project_root = (\<lambda>_ _ _. Inr (PStr ''r'')), nv_clock = (\<lambda>_. 1), nv_str = (\<lambda>_. []), nv_json_loads = (\<lambda>_. None), nv_b64decode = (\<lambda>_. None)\<rparr>"

definition demo_host :: "unit host" where
  "demo_host = \<lparr>hs_journal = demo_journal, hs_workers = [], hs_world = ()\<rparr>"

definition demo_digest :: string where
  "demo_digest = json_enc (\<lambda>_. ''0.0'') (PDict (intent_payload ''t'' []))"

lemma demo_digest_length: "length demo_digest = 27"
  by code_simp

definition demo_data :: pdict where
  "demo_data = selecting 0 ''p'' ''r'' demo_request_wf @ [(''phase_intents'', PDict [(''n'',
     PDict [(''payload_digest'', PStr demo_digest), (''idempotency_key'', PStr ''k''), (''expected_revision'', PInt 3)])])]"

definition demo_entries :: "wf_entry list" where
  "demo_entries = [demo_workflow\<lparr>en_data := demo_data, en_updated := PFloat (Finite 1)\<rparr>, demo_pointer]"

lemma demo_find: "find_entry demo_wf_env ''workflow'' ''h1'' ''p'' ''r'' [demo_workflow, demo_pointer] = Inr (Some demo_workflow)"
  by (simp add: find_entry_def has_identity_def demo_workflow_def demo_pointer_def)

lemma demo_persist:
  "atomic_update demo_wf_env 1 ''workflow'' ''h1'' ''p'' ''r'' (persist_intent ''n'' demo_digest
     [(''payload_digest'', PStr demo_digest), (''idempotency_key'', PStr ''k''), (''expected_revision'', PInt 3)]) demo_journal =
   Inr (demo_data, Decoded (journal_pv demo_entries))"
proof -
  have l: "take_lock demo_wf_env = Inr ()" by (simp add: take_lock_def demo_wf_env_def)
  have w: "write_journal demo_wf_env demo_entries = Inr (Decoded (journal_pv demo_entries))"
    by (rule write_small) (simp_all add: journal_pv_def entry_pv_def demo_entries_def demo_data_def demo_defs MAX_STORE_BYTES_def
        STORE_FORMAT_def STORE_VERSION_def string_of_int_def string_of_nat.simps demo_digest_length)
  have p: "persist_intent ''n'' demo_digest [(''payload_digest'', PStr demo_digest), (''idempotency_key'', PStr ''k''), (''expected_revision'', PInt 3)]
      (en_data demo_workflow) = Inr (True, demo_data)"
    by (simp add: persist_intent_def intents_of_def dget_def dget_or_def demo_workflow_def demo_data_def selecting_def)
  have e: "replace_entry ''workflow'' (identity_of demo_wf_env ''workflow'' ''h1'') (\<lambda>e. e\<lparr>en_data := demo_data, en_updated := PFloat (Finite 1)\<rparr>)
      [demo_workflow, demo_pointer] = demo_entries"
    by (simp add: replace_entry_def has_identity_def demo_entries_def demo_workflow_def demo_pointer_def)
  show ?thesis by (simp add: atomic_update_def mutate_def l demo_read demo_find p e w)
qed

lemma demo_phase:
  "phase_intent demo_native ''h1'' ''p'' ''r'' [] ''n'' ''t'' [] (PInt 3) (PStr ''k'') demo_host =
    (Inr (''k'', 3, dupdate [] demo_data), demo_host\<lparr>hs_journal := Decoded (journal_pv demo_entries)\<rparr>)"
proof -
  have b: "bounded_mapping demo_wf_env (PDict (intent_payload ''t'' [])) ''native_phase_intent'' 32768 = Inr (intent_payload ''t'' [])"
    by (rule bounded_small) (simp_all add: intent_payload_def)
  have g: "payload_digest demo_wf_env (intent_payload ''t'' []) = Inr demo_digest"
    by (simp add: payload_digest_def canonical_def demo_digest_def demo_wf_env_def intent_payload_def del: json_enc.simps)
  have get: "get_record demo_wf_env ''workflow'' (PStr ''h1'') ''p'' ''r'' demo_journal = Inr (selecting 0 ''p'' ''r'' demo_request_wf)"
  proof -
    have "safe_component (PStr ''h1'') ''workflow_handle'' 256 = Inr ''h1''" by code_simp
    from get_record_reads [OF demo_read _ this, of demo_wf_env] demo_find show ?thesis by (simp add: demo_wf_env_def demo_workflow_def)
  qed
  have i: "intents_of (selecting 0 ''p'' ''r'' demo_request_wf) = Inr []" by (simp add: intents_of_def selecting_def dget_or_def)
  have k: "safe_component (PStr ''k'') ''idempotency_key'' 128 = Inr ''k''" by code_simp
  have d: "intents_of demo_data = Inr [(''n'',
     PDict [(''payload_digest'', PStr demo_digest), (''idempotency_key'', PStr ''k''), (''expected_revision'', PInt 3)])]"
    by (simp add: intents_of_def demo_data_def selecting_def dget_or_def)
  show ?thesis
    unfolding phase_intent_def Let_def
    by (simp add: demo_native_def b g bindA_store demo_host_def get i dget_def dget_or_def k demo_persist d intent_key_def ret_def)
qed

theorem lost_reply_replayed_witness:
  "send_phase demo_native ''h1'' ''p'' ''r'' [] ''n'' ''t'' [] (PInt 3) (PStr ''k'') demo_host =
     (Inl (RuntimeError ''lost''), demo_host\<lparr>hs_journal := Decoded (journal_pv demo_entries)\<rparr>)"
proof -
  have "dget (dupdate [] demo_data) ''project'' = PStr ''p''" "dget (dupdate [] demo_data) ''repository'' = PStr ''r''"
    by (simp_all add: dget_def dget_or_def map_of_dupdate map_add_def demo_data_def selecting_def)
  then have "invoke demo_native ''t'' (dupdate [] demo_data) ([] @ [(''idempotency_key'', PStr ''k''), (''expected_revision'', PInt 3)])
      (demo_host\<lparr>hs_journal := Decoded (journal_pv demo_entries)\<rparr>) =
      (Inl (RuntimeError ''lost''), demo_host\<lparr>hs_journal := Decoded (journal_pv demo_entries)\<rparr>)"
    by (simp add: invoke_def bindA_def demo_native_def)
  from lost_reply_replayed [OF demo_phase this refl] show ?thesis by blast
qed

section \<open>A completed preview\<close>

definition demo_preview :: wf_entry where
  "demo_preview = new_entry demo_wf_env ''admin_preview'' ''k1'' ''p'' ''r'' 1 [(''idempotency_key'', PStr ''k''), (''result'', PDict [(''a'', PInt 1)])]"

definition demo_preview_host :: "unit host" where
  "demo_preview_host = demo_host\<lparr>hs_journal := Decoded (journal_pv [demo_preview])\<rparr>"

theorem preview_completed_once_witness:
  "complete_admin_preview demo_native ''p'' ''r'' ''k1'' ''k'' (PDict [(''a'', PInt 1)]) demo_preview_host = (Inr (), demo_preview_host) \<and>
   snd (complete_admin_preview demo_native ''p'' ''r'' ''k1'' ''k'' (PDict [(''a'', PInt 2)]) demo_preview_host) = demo_preview_host"
proof -
  have safe: "safe_component (PStr ''k1'') ''workflow_handle'' 256 = Inr ''k1''" by code_simp
  have rd: "read_journal (Decoded (journal_pv [demo_preview])) = Inr [demo_preview]"
    by (rule read_journal_pv) (simp_all add: MAX_RECORDS_def demo_preview_def)
  have f: "find_entry demo_wf_env ''admin_preview'' ''k1'' ''p'' ''r'' [demo_preview] = Inr (Some demo_preview)"
    by (simp add: find_entry_def has_identity_def demo_preview_def)
  have get: "get_record (nv_env demo_native) ''admin_preview'' (PStr ''k1'') ''p'' ''r'' (hs_journal demo_preview_host) = Inr (en_data demo_preview)"
    using get_record_reads [OF rd _ safe, of demo_wf_env] f by (simp add: demo_native_def demo_preview_host_def demo_wf_env_def)
  have cp: "complete_preview demo_wf_env ''k'' [(''a'', PInt 1)] (en_data demo_preview) = Inr (False, en_data demo_preview)"
    by (simp add: complete_preview_def demo_preview_def dget_def dget_or_def raise_if_def canonical_def del: json_enc.simps)
  have b: "bounded_mapping demo_wf_env (PDict [(''a'', PInt 1)]) ''admin_result'' MAX_RESULT_BYTES = Inr [(''a'', PInt 1)]"
    by (rule bounded_small) (simp_all add: MAX_RESULT_BYTES_def string_of_int_def string_of_nat.simps)
  have sc: "safe_component (PStr ''p'') ''project'' 128 = Inr ''p''" "safe_component (PStr ''r'') ''repository'' 128 = Inr ''r''"
    "safe_component (PStr ''k'') ''idempotency_key'' 128 = Inr ''k''" by code_simp+
  have up: "atomic_update demo_wf_env 1 ''admin_preview'' ''k1'' ''p'' ''r'' (complete_preview demo_wf_env ''k'' [(''a'', PInt 1)]) (hs_journal demo_preview_host) =
      Inr (en_data demo_preview, hs_journal demo_preview_host)"
    by (rule atomic_update_idle(2) [OF get [unfolded demo_native_def, simplified] safe]) (rule cp)
  have first: "complete_admin_preview demo_native ''p'' ''r'' ''k1'' ''k'' (PDict [(''a'', PInt 1)]) demo_preview_host = (Inr (), demo_preview_host)"
    by (simp add: complete_admin_preview_def Let_def demo_native_def sc b bindA_store up ret_def)
  from preview_completed_once [OF first safe get] first show ?thesis by (metis prod.collapse)
qed

end
