(* ===== verification/WorkflowContext.thy ===== *)
theory WorkflowContext
  imports WorkflowHost
begin

text \<open>
  The context of a task in \<^verbatim>\<open>src/src/project_control/compact_workflow.py\<close>: the fragments of a
  context capsule, the assembly of a large fragment from chunks, and the packets and summaries that
  are cut down to a byte limit.
\<close>

section \<open>Fields\<close>

definition optional_text :: "pdict \<Rightarrow> string \<Rightarrow> string option result" where
  "optional_text d key =
     (let raw = (case dget d key of PDict r \<Rightarrow> if is_str (dget r ''entity_id'') then dget r ''entity_id'' else PDict r | v \<Rightarrow> v)
      in case raw of
           PNone \<Rightarrow> Inr None
         | PStr s \<Rightarrow> if s = [] then Inl (werr (key @ ''_invalid'')) else Inr (Some s)
         | _ \<Rightarrow> Inl (werr (key @ ''_invalid'')))"

fun first_text_from :: "string \<Rightarrow> pdict \<Rightarrow> string list \<Rightarrow> string result" where
  "first_text_from k0 d [] = Inl (werr (k0 @ ''_missing''))"
| "first_text_from k0 d (k # ks) =
     bindR (optional_text d k) (\<lambda>r. case r of Some s \<Rightarrow> Inr s | None \<Rightarrow> first_text_from k0 d ks)"

definition first_text :: "pdict \<Rightarrow> string list \<Rightarrow> string result" where
  "first_text d names = first_text_from (hd names) d names"

definition fragment_payload :: "'n native \<Rightarrow> pdict \<Rightarrow> pdict option result" where
  "fragment_payload nv fragment =
     (case dget fragment ''payload'' of
        PDict p \<Rightarrow> Inr (Some p)
      | _ \<Rightarrow>
          (case dget fragment ''payload_json'' of
             PStr t \<Rightarrow>
               (case nv_json_loads nv t of
                  Some (PDict p) \<Rightarrow> Inr (Some p)
                | _ \<Rightarrow> Inl (werr ''task_context_fragment_invalid''))
           | _ \<Rightarrow> Inr None))"

text \<open>The checks a requirement row asks for; \<^verbatim>\<open>kind in {...}\<close> raises for an unhashable kind.\<close>

definition requirement_of :: "pv \<Rightarrow> string list result" where
  "requirement_of row =
     (case row of
        PDict r \<Rightarrow>
          (case dget r ''kind'' of
             PList _ \<Rightarrow> Inl (TypeError ''unhashable type'')
           | PDict _ \<Rightarrow> Inl (TypeError ''unhashable type'')
           | k \<Rightarrow>
               if k \<in> {PStr ''check'', PStr ''RequirementKind.CHECK'', PNone}
               then (case dget_or r ''id'' (dget r ''requirement_id'') of PStr s \<Rightarrow> Inr [s] | _ \<Rightarrow> Inr [])
               else Inr [])
      | _ \<Rightarrow> Inr [])"

definition fragment_requirements :: "'n native \<Rightarrow> pv \<Rightarrow> string list result" where
  "fragment_requirements nv v =
     (case v of
        PDict fragment \<Rightarrow>
          bindR (fragment_payload nv fragment) (\<lambda>payload.
          case payload of
            None \<Rightarrow> Inr []
          | Some p \<Rightarrow> (case dget p ''requirements'' of PList rows \<Rightarrow> bindR (mapR requirement_of rows) (\<lambda>xs. Inr (concat xs)) | _ \<Rightarrow> Inr []))
      | _ \<Rightarrow> Inr [])"

definition requirement_ids :: "'n native \<Rightarrow> pdict \<Rightarrow> string list result" where
  "requirement_ids nv context =
     (case dget context ''fragments'' of
        PList fs \<Rightarrow> bindR (mapR (fragment_requirements nv) fs) (\<lambda>xs. Inr (sorted_set (concat xs)))
      | _ \<Rightarrow> Inr [])"

definition context_document_payload :: "wf_env \<Rightarrow> pdict \<Rightarrow> string \<Rightarrow> pdict result" where
  "context_document_payload env value kind =
     (if dget value ''kind'' = PStr kind \<and> is_dict (dget value ''payload'')
      then bounded_mapping env (dget value ''payload'') ''task_context_payload'' MAX_CONTEXT_CAPSULE_BYTES
      else Inr value)"

definition plain_payload :: "pdict \<Rightarrow> pdict \<Rightarrow> pdict" where
  "plain_payload fragment payload = AList.update ''payload'' (PDict payload) (AList.delete ''payload_json'' fragment)"

definition normalize_fragment :: "'n native \<Rightarrow> pv \<Rightarrow> pv result" where
  "normalize_fragment nv v =
     (case v of
        PDict fragment \<Rightarrow>
          if \<not> is_str (dget fragment ''payload_json'') then Inr v
          else bindR (fragment_payload nv fragment) (\<lambda>payload.
               case payload of
                 None \<Rightarrow> Inl (werr ''task_context_fragment_invalid'')
               | Some p \<Rightarrow> Inr (PDict (plain_payload fragment p)))
      | _ \<Rightarrow> Inr v)"

definition normalize_context_fragments :: "'n native \<Rightarrow> pdict \<Rightarrow> pdict result" where
  "normalize_context_fragments nv context =
     (case dget context ''fragments'' of
        PList fs \<Rightarrow> bindR (mapR (normalize_fragment nv) fs) (\<lambda>fs'. Inr (AList.update ''fragments'' (PList fs') context))
      | _ \<Rightarrow> Inr context)"

section \<open>The work item's fragment\<close>

definition expand_fragment :: "'n native \<Rightarrow> pdict \<Rightarrow> pdict \<Rightarrow> int \<Rightarrow> pv \<Rightarrow> ('n, pdict) act" where
  "expand_fragment nv record reference max_bytes off =
     (case (dget reference ''fragment_id'', dget reference ''digest'') of
        (PStr fid, PStr digest) \<Rightarrow>
          bindA (invoke nv ''todo_expand_context'' record
                   [(''work_item_id'', dget record ''task_id''), (''run_id'', dget record ''run_id''),
                    (''assignment_id'', dget record ''assignment_id''), (''attempt_id'', dget record ''attempt_id''),
                    (''fragment_id'', PStr fid), (''expected_digest'', PStr digest),
                    (''max_bytes'', PInt max_bytes), (''offset'', off)]) (\<lambda>expanded.
          if needs_attention expanded then ret expanded
          else of_result (context_document_payload (nv_env nv) expanded ''context_expansion''))
      | _ \<Rightarrow> throw (werr ''task_context_fragment_invalid''))"

text \<open>The work item's fragment is expanded with the full limit.\<close>

definition expand_context_fragment :: "'n native \<Rightarrow> pdict \<Rightarrow> pdict \<Rightarrow> pv \<Rightarrow> ('n, pdict) act" where
  "expand_context_fragment nv record reference off = expand_fragment nv record reference MAX_CONTEXT_CAPSULE_BYTES off"

record chunk =
  ch_data :: string
  ch_offset :: int
  ch_total :: int
  ch_next :: "int option"
  ch_digest :: string

definition read_chunk :: "'n native \<Rightarrow> pv \<Rightarrow> pv \<Rightarrow> pv \<Rightarrow> pv \<Rightarrow> pv \<Rightarrow> chunk option result" where
  "read_chunk nv encoded off tot nxt digest =
     (case (encoded, off, tot, digest) of
        (PStr e, PInt o', PInt t, PStr g) \<Rightarrow>
          if o' < 0 \<or> t < 1 \<or> (case nxt of PNone \<Rightarrow> False | PInt _ \<Rightarrow> False | _ \<Rightarrow> True) then Inr None
          else (case nv_b64decode nv e of
                  None \<Rightarrow> Inl (werr ''task_work_item_fragment_invalid'')
                | Some data \<Rightarrow> Inr (Some \<lparr>ch_data = data, ch_offset = o', ch_total = t,
                    ch_next = (case nxt of PInt n \<Rightarrow> Some n | _ \<Rightarrow> None), ch_digest = g\<rparr>))
      | _ \<Rightarrow> Inr None)"

definition expansion_chunk :: "'n native \<Rightarrow> pdict \<Rightarrow> chunk option result" where
  "expansion_chunk nv expansion =
     (case dget expansion ''chunk'' of
        PDict c \<Rightarrow> read_chunk nv (dget c ''data'') (dget c ''offset'') (dget c ''total_bytes'') (dget c ''next_offset'') (dget c ''content_digest'')
      | _ \<Rightarrow> read_chunk nv (dget expansion ''chunk_base64'') (dget expansion ''offset'') (dget expansion ''total_bytes'')
               (dget expansion ''next_offset'') (dget expansion ''content_digest''))"

definition chunk_reference :: "pdict \<Rightarrow> pv" where
  "chunk_reference expansion =
     (case dget expansion ''chunk'' of PDict c \<Rightarrow> dget c ''reference'' | _ \<Rightarrow> dget expansion ''reference'')"

definition same_reference :: "pv \<Rightarrow> pdict \<Rightarrow> bool" where
  "same_reference v work_ref \<longleftrightarrow> is_dict v \<and> py_eq v (PDict work_ref)"

definition attention_error :: "pdict \<Rightarrow> string \<Rightarrow> exn" where
  "attention_error d dflt = werr (case dget d ''reason'' of PStr r \<Rightarrow> r | _ \<Rightarrow> dflt)"

text \<open>One round of the loop: the bytes gathered so far, or the assembled payload.\<close>

definition chunk_step ::
  "'n native \<Rightarrow> pdict \<Rightarrow> string \<Rightarrow> string option \<Rightarrow> pdict \<Rightarrow> (pdict + string \<times> string \<times> int) result" where
  "chunk_step nv work_ref got expected expansion =
     bindR (expansion_chunk nv expansion) (\<lambda>r.
     case r of
       None \<Rightarrow> Inl (werr ''task_work_item_fragment_unavailable'')
     | Some c \<Rightarrow>
         bindR (raise_if (ch_total c > MAX_CONTEXT_CAPSULE_BYTES \<or> ch_offset c \<noteq> int (length got)) (werr ''task_work_item_fragment_invalid'')) (\<lambda>_.
         bindR (raise_if (case expected of None \<Rightarrow> False | Some g \<Rightarrow> g \<noteq> ch_digest c) (werr ''task_work_item_fragment_changed'')) (\<lambda>_.
         bindR (raise_if (\<not> same_reference (chunk_reference expansion) work_ref) (werr ''task_work_item_fragment_mismatch'')) (\<lambda>_.
         let all = got @ ch_data c in
         bindR (raise_if (int (length all) > ch_total c \<or> int (length all) > MAX_CONTEXT_CAPSULE_BYTES) (werr ''task_work_item_fragment_invalid'')) (\<lambda>_.
         case ch_next c of
           None \<Rightarrow>
             bindR (raise_if (int (length all) \<noteq> ch_total c) (werr ''task_work_item_fragment_truncated'')) (\<lambda>_.
             bindR (raise_if (sha256 (nv_env nv) all \<noteq> ch_digest c) (werr ''task_work_item_fragment_digest_mismatch'')) (\<lambda>_.
             case nv_json_loads nv all of
               Some (PDict p) \<Rightarrow> Inr (Inl p)
             | _ \<Rightarrow> Inl (werr ''task_work_item_fragment_invalid'')))
         | Some n \<Rightarrow>
             bindR (raise_if (n \<noteq> int (length all)) (werr ''task_work_item_fragment_invalid'')) (\<lambda>_.
             Inr (Inr (all, ch_digest c, n))))))))"

fun assemble :: "'n native \<Rightarrow> pdict \<Rightarrow> pdict \<Rightarrow> nat \<Rightarrow> string \<Rightarrow> string option \<Rightarrow> pdict \<Rightarrow> ('n, pdict) act" where
  "assemble nv record work_ref 0 got expected expansion = throw (werr ''task_work_item_fragment_too_large'')"
| "assemble nv record work_ref (Suc fuel) got expected expansion =
     bindA (of_result (chunk_step nv work_ref got expected expansion)) (\<lambda>r.
     case r of
       Inl p \<Rightarrow> ret p
     | Inr (all, digest, n) \<Rightarrow>
         bindA (expand_context_fragment nv record work_ref (PInt n)) (\<lambda>expansion'.
         if needs_attention expansion' then throw (attention_error expansion' ''task_work_item_fragment_unavailable'')
         else assemble nv record work_ref fuel all (Some digest) expansion'))"

definition append_fragment :: "pdict \<Rightarrow> pv list \<Rightarrow> pdict \<Rightarrow> pdict" where
  "append_fragment context fragments f = AList.update ''fragments'' (PList (fragments @ [PDict f])) context"

definition is_work_item :: "pv \<Rightarrow> bool" where
  "is_work_item v \<longleftrightarrow> (case v of PDict d \<Rightarrow> dget d ''kind'' = PStr ''work_item'' | _ \<Rightarrow> False)"

definition work_item_fragment :: "pv \<Rightarrow> bool" where
  "work_item_fragment v \<longleftrightarrow> (case v of PDict d \<Rightarrow> is_work_item (dget d ''reference'') | _ \<Rightarrow> False)"

definition work_reference :: "pdict \<Rightarrow> pdict result" where
  "work_reference context =
     (case (case dget context ''manifest'' of PDict m \<Rightarrow> dget m ''fragments'' | _ \<Rightarrow> PNone) of
        PList refs \<Rightarrow>
          (case find is_work_item refs of
             Some (PDict d) \<Rightarrow> Inr d
           | _ \<Rightarrow> Inl (werr ''task_work_item_fragment_unavailable''))
      | _ \<Rightarrow> Inl (werr ''task_work_item_fragment_unavailable''))"

definition ensure_work_item_fragment :: "'n native \<Rightarrow> pdict \<Rightarrow> pdict \<Rightarrow> ('n, pdict) act" where
  "ensure_work_item_fragment nv context record =
     (case dget context ''fragments'' of
        PList fragments \<Rightarrow>
          bindA (of_result (work_reference context)) (\<lambda>work_ref.
          if \<not> (is_str (dget work_ref ''fragment_id'') \<and> is_str (dget work_ref ''digest'')) then throw (werr ''task_work_item_fragment_invalid'')
          else (case find work_item_fragment fragments of
                  Some (PDict existing) \<Rightarrow>
                    if \<not> same_reference (dget existing ''reference'') work_ref then throw (werr ''task_work_item_fragment_mismatch'')
                    else bindA (of_result (fragment_payload nv existing)) (\<lambda>p.
                         if p = None then throw (werr ''task_work_item_fragment_invalid'') else ret context)
                | _ \<Rightarrow>
                    bindA (expand_context_fragment nv record work_ref PNone) (\<lambda>expanded.
                    if needs_attention expanded then throw (attention_error expanded ''task_work_item_fragment_unavailable'')
                    else (case dget expanded ''fragment'' of
                            PDict fragment \<Rightarrow>
                              (case dget fragment ''reference'' of
                                 PDict reference \<Rightarrow>
                                   if dget reference ''fragment_id'' \<noteq> dget work_ref ''fragment_id'' then throw (werr ''task_work_item_fragment_mismatch'')
                                   else bindA (of_result (fragment_payload nv fragment)) (\<lambda>p.
                                        case p of
                                          None \<Rightarrow> throw (werr ''task_work_item_fragment_invalid'')
                                        | Some payload \<Rightarrow> ret (append_fragment context fragments (plain_payload fragment payload)))
                               | _ \<Rightarrow> throw (werr ''task_work_item_fragment_mismatch''))
                          | _ \<Rightarrow>
                              bindA (assemble nv record work_ref 33 [] None expanded) (\<lambda>payload.
                              ret (append_fragment context fragments [(''reference'', PDict work_ref), (''payload'', PDict payload)]))))))
      | _ \<Rightarrow> throw (werr ''task_context_fragments_unavailable''))"

section \<open>The compact context\<close>

definition context_refs :: "pdict \<Rightarrow> pdict list" where
  "context_refs context =
     (case (case dget context ''manifest'' of PDict m \<Rightarrow> dget_or m ''fragments'' (PList []) | _ \<Rightarrow> PList []) of
        PList raw \<Rightarrow> concat (map (\<lambda>v. case v of PDict d \<Rightarrow> if is_str (dget d ''fragment_id'') then [d] else [] | _ \<Rightarrow> []) raw)
      | _ \<Rightarrow> [])"

text \<open>The identifiers of the included fragments that have a reference.\<close>

definition included_ids :: "pdict list \<Rightarrow> pv list" where
  "included_ids included =
     concat (map (\<lambda>row. case dget row ''reference'' of PDict d \<Rightarrow> [dget d ''fragment_id''] | _ \<Rightarrow> []) included)"

definition omitted_refs :: "pdict \<Rightarrow> pdict list \<Rightarrow> pdict list" where
  "omitted_refs context included = filter (\<lambda>d. dget d ''fragment_id'' \<notin> set (included_ids included)) (context_refs context)"

definition compact_fields :: "pdict \<Rightarrow> pdict list \<Rightarrow> pdict" where
  "compact_fields context included =
     (let omitted = omitted_refs context included in
      [(''format'', dget_or context ''format'' (PStr ''todo-orchestrator.context-capsule'')),
       (''version'', dget_or context ''version'' (PInt 1)),
       (''manifest'', (case dget context ''manifest'' of PDict m \<Rightarrow> PDict m | _ \<Rightarrow> PDict [])),
       (''semantic_revision'', dget context ''semantic_revision''),
       (''fragments'', PList (map PDict included)),
       (''omitted'', PList (map PDict omitted)),
       (''status'', (if omitted \<noteq> [] \<or> dget context ''status'' = PStr ''partial'' then PStr ''partial'' else dget_or context ''status'' (PStr ''ready''))),
       (''changes_truncated'', PBool True)])"

definition sized :: "pdict \<Rightarrow> nat \<Rightarrow> pv" where
  "sized d n = PDict (d @ [(''encoded_bytes'', PInt (int n))])"

lemma size_sized: "json_size rp (sized d n) = json_size rp (sized d 0) - 1 + length (string_of_nat n)"
proof -
  have "json_size rp (PInt (int n)) = length (string_of_nat n)" "json_size rp (PInt (int 0)) = 1"
    by (rule json_size_nat) (simp add: json_size_def string_of_int_def string_of_nat.simps)
  then show ?thesis by (simp add: sized_def json_size_dict member_size_def)
qed

lemma digits_half: "length (string_of_nat n) \<le> n div 2 + 1"
proof (induction n rule: less_induct)
  case (less n)
  show ?case
  proof (cases "n < 10")
    case False
    then have "length (string_of_nat (n div 10)) \<le> n div 10 div 2 + 1" by (intro less.IH) simp
    with False show ?thesis by (subst string_of_nat.simps) simp
  qed (subst string_of_nat.simps, simp)
qed

text \<open>
  \<^verbatim>\<open>while True\<close>: the size is written into the document until it is its own size.  Writing a larger
  number never makes the document smaller, so that the sizes go one way, and below twice the size
  without the number they cannot go on growing.
\<close>

function size_loop :: "(real \<Rightarrow> string) \<Rightarrow> pdict \<Rightarrow> nat \<Rightarrow> nat" where
  "size_loop rp d n = (let updated = json_size rp (sized d n) in if updated = n then n else size_loop rp d updated)"
  by pat_completeness auto
termination
proof (relation "measures [\<lambda>(rp, d, n). if n < json_size rp (sized d n) then 1 else 0,
    \<lambda>(rp, d, n). if n < json_size rp (sized d n) then 2 * json_size rp (sized d 0) + 2 - n else n]")
  fix rp d n m assume m: "m = json_size rp (sized d n)" and ne: "m \<noteq> n"
  let ?f = "\<lambda>k. json_size rp (sized d k)"
  let ?B = "?f 0"
  have f: "?f k = ?B - 1 + length (string_of_nat k)" for k by (rule size_sized)
  have mono: "j \<le> k \<Longrightarrow> ?f j \<le> ?f k" for j k unfolding f [of j] f [of k] using length_string_of_nat_mono by simp
  have bound: "n < ?f n \<Longrightarrow> n < 2 * ?B + 2" using f [of n] digits_half [of n] by simp
  have "((rp, d, m), rp, d, n) \<in> measures [\<lambda>(rp, d, n). if n < json_size rp (sized d n) then 1 else 0,
      \<lambda>(rp, d, n). if n < json_size rp (sized d n) then 2 * json_size rp (sized d 0) + 2 - n else n]"
  proof (cases "n < m")
    case True
    then show ?thesis using m bound by auto
  next
    case False
    with ne have "m < n" by simp
    then have "\<not> m < ?f m" using mono [of m n] m by simp
    with \<open>m < n\<close> m show ?thesis by auto
  qed
  then show "((rp, d, m), rp, d, n) \<in> measures [\<lambda>(rp, d, n). if n < json_size rp (sized d n) then 1 else 0,
      \<lambda>(rp, d, n). if n < json_size rp (sized d n) then 2 * json_size rp (sized d 0) + 2 - n else n]" .
qed simp

declare size_loop.simps [simp del]

definition compact_public_context :: "wf_env \<Rightarrow> pdict \<Rightarrow> pdict list \<Rightarrow> pdict result" where
  "compact_public_context env context included =
     (let d = compact_fields context included in
      bindR (canonical (float_repr env) (PDict d)) (\<lambda>text.
      Inr (d @ [(''encoded_bytes'', PInt (int (size_loop (float_repr env) d (length text))))])))"

section \<open>The task packet\<close>

definition truncate_field :: "pdict \<Rightarrow> string \<times> nat \<Rightarrow> pdict" where
  "truncate_field authored kl =
     (case dget authored (fst kl) of
        PStr s \<Rightarrow> (fst kl, PStr (take (snd kl) s)) # (if length s > snd kl then [(fst kl @ ''_truncated'', PBool True)] else [])
      | _ \<Rightarrow> [])"

definition title_fields :: "pdict \<Rightarrow> pdict" where
  "title_fields definition' =
     (case find (\<lambda>p. is_str (dget definition' (fst p))) [(''title'', ''title''), (''name'', ''title''), (''summary'', ''summary'')] of
        Some (src, dst) \<Rightarrow> [(dst, PStr (take 256 (str_of (dget definition' src))))]
      | None \<Rightarrow> [])"

definition task_summary :: "'n native \<Rightarrow> pdict \<Rightarrow> pdict \<Rightarrow> pdict result" where
  "task_summary nv record context =
     (let base = (case dget record ''task_id'' of PStr t \<Rightarrow> [(''task_id'', PStr t)] | _ \<Rightarrow> []) in
      case dget_or context ''fragments'' (PList []) of
        PList fs \<Rightarrow>
          (case find work_item_fragment fs of
             Some (PDict item) \<Rightarrow>
               bindR (fragment_payload nv item) (\<lambda>payload.
               case payload of
                 None \<Rightarrow> Inr base
               | Some p \<Rightarrow> Inr (base @
                   (case dget p ''definition'' of PDict d \<Rightarrow> title_fields d | _ \<Rightarrow> []) @
                   (case dget p ''authored'' of
                      PDict a \<Rightarrow> concat (map (truncate_field a) [(''objective'', 1200), (''scope'', 500), (''acceptance'', 500)])
                    | _ \<Rightarrow> [])))
           | _ \<Rightarrow> Inr base)
      | _ \<Rightarrow> Inr base)"

definition PRIORITIES :: "(string \<times> nat) list" where
  "PRIORITIES = [(''work_item'', 0), (''assignment'', 1), (''plan'', 2), (''declarations'', 3), (''source_references'', 4),
     (''findings'', 5), (''scoped_deltas'', 6)]"

definition fragment_priority :: "pdict \<Rightarrow> nat" where
  "fragment_priority fragment =
     (case dget fragment ''reference'' of
        PDict r \<Rightarrow> (case dget r ''kind'' of PStr k \<Rightarrow> (case map_of PRIORITIES k of Some n \<Rightarrow> n | None \<Rightarrow> 7) | _ \<Rightarrow> 7)
      | _ \<Rightarrow> 7)"

definition fragment_id_of :: "pdict \<Rightarrow> string option" where
  "fragment_id_of fragment =
     (case dget fragment ''reference'' of PDict r \<Rightarrow> (case dget r ''fragment_id'' of PStr s \<Rightarrow> Some s | _ \<Rightarrow> None) | _ \<Rightarrow> None)"

definition continuation :: "pdict list \<Rightarrow> pv" where
  "continuation omitted = PDict
     [(''kind'', PStr ''context_fragment''), (''target_format'', PStr ''<fragment_id>#offset=<next_offset>''),
      (''omitted_fragment_ids'', PList (map (\<lambda>d. dget d ''fragment_id'') omitted))]"

definition partial_packet :: "pdict \<Rightarrow> pdict \<Rightarrow> pdict \<Rightarrow> pdict list \<Rightarrow> pdict \<Rightarrow> pdict" where
  "partial_packet base summary context included cc =
     base @ [(''context'', PDict cc)] @ (if summary = [] then [] else [(''task_summary'', PDict summary)]) @
     [(''context_status'', PStr ''partial''), (''context_continuation'', continuation (omitted_refs context included))]"

text \<open>Fragments in order of priority are included while the packet stays within the limit.\<close>

fun include_fragments ::
  "wf_env \<Rightarrow> pdict \<Rightarrow> pdict \<Rightarrow> pdict \<Rightarrow> pdict list \<Rightarrow> pdict list \<times> pdict \<Rightarrow> (pdict list \<times> pdict) result" where
  "include_fragments env base summary context [] cur = Inr cur"
| "include_fragments env base summary context (f # fs) cur =
     (case fragment_id_of f of
        None \<Rightarrow> include_fragments env base summary context fs cur
      | Some fid \<Rightarrow>
          if PStr fid \<in> set (included_ids (fst cur)) then include_fragments env base summary context fs cur
          else bindR (compact_public_context env context (fst cur @ [f])) (\<lambda>candidate.
               bindR (canonical (float_repr env) (PDict (partial_packet base summary context (fst cur @ [f]) candidate))) (\<lambda>text.
               if int (length text) > MAX_RESPONSE_BYTES then include_fragments env base summary context fs cur
               else include_fragments env base summary context fs (fst cur @ [f], candidate))))"

definition sortable :: "pv \<Rightarrow> pdict result" where
  "sortable v =
     (case v of
        PDict d \<Rightarrow>
          (case dget d ''reference'' of
             PDict r \<Rightarrow> if is_list (dget r ''kind'') \<or> is_dict (dget r ''kind'') then Inl (TypeError ''unhashable type'') else Inr d
           | _ \<Rightarrow> Inr d)
      | _ \<Rightarrow> Inl (AttributeError ''get''))"

definition packet_base :: "string \<Rightarrow> pdict \<Rightarrow> bool \<Rightarrow> pdict" where
  "packet_base handle record resumed =
     [(''status'', PStr (if resumed then ''resumed'' else ''claimed'')), (''task_id'', dget record ''task_id''),
      (''workspace'', (case dget record ''workspace'' of
          PDict w \<Rightarrow> (case dget w ''workspace'' of PDict v \<Rightarrow> PDict v | _ \<Rightarrow> PDict w) | v \<Rightarrow> v)),
      (''workflow_handle'', PStr handle), (''allowed_actions'', PList (map PStr [''inspect_task'', ''coordinate_task'', ''finish_task''])),
      (''recommended_next_call'', PStr ''finish_task'')]"

definition record_context :: "pdict \<Rightarrow> pdict" where
  "record_context record = (case dget_or record ''context'' (PDict []) of PDict c \<Rightarrow> c | _ \<Rightarrow> [])"

text \<open>The sort reads every fragment as a mapping, and raises \<^verbatim>\<open>AttributeError\<close> for one that is not and \<^verbatim>\<open>TypeError\<close> for an unhashable kind.\<close>

definition task_packet :: "'n native \<Rightarrow> string \<Rightarrow> pdict \<Rightarrow> bool \<Rightarrow> pdict result" where
  "task_packet nv handle record resumed =
     (let env = nv_env nv; base = packet_base handle record resumed;
          context = record_context record in
      bindR (task_summary nv record context) (\<lambda>summary.
      case bounded_response env (base @ [(''context'', PDict context)] @ (if summary = [] then [] else [(''task_summary'', PDict summary)])) of
        Inr packet \<Rightarrow> Inr packet
      | Inl e \<Rightarrow>
          if e \<noteq> werr ''workflow_response_too_large'' then Inl e
          else
            bindR (compact_public_context env context []) (\<lambda>cc.
            bindR (case dget_or context ''fragments'' (PList []) of
                     PList fs \<Rightarrow>
                       bindR (mapR sortable fs) (\<lambda>ds.
                       include_fragments env base summary context (sort_key fragment_priority ds) ([], cc))
                   | _ \<Rightarrow> Inr ([], cc)) (\<lambda>(included, c).
            bounded_response env (partial_packet base summary context included c)))))"

section \<open>Bounded summaries\<close>

definition summary_ref :: "pv \<Rightarrow> pv list" where
  "summary_ref v =
     (case v of
        PDict row \<Rightarrow>
          (let r = map (\<lambda>k. (k, dget row k)) (filter (\<lambda>k. is_str (dget row k)) [''fragment_id'', ''kind'', ''digest''])
           in if r = [] then [] else [PDict r])
      | _ \<Rightarrow> [])"

text \<open>Entries are taken off the end while the text is too long; the flag says that some were.\<close>

fun pop_until :: "(pv list \<Rightarrow> bool \<Rightarrow> pdict) \<Rightarrow> (real \<Rightarrow> string) \<Rightarrow> int \<Rightarrow> pv list \<Rightarrow> bool \<Rightarrow> pv list \<times> bool" where
  "pop_until mk rp limit [] trunc = ([], trunc)"
| "pop_until mk rp limit (x # xs) trunc =
     (if int (json_size rp (PDict (mk (rev (x # xs)) trunc))) > limit then pop_until mk rp limit xs True else (x # xs, trunc))"

definition shrink :: "(pv list \<Rightarrow> bool \<Rightarrow> pdict) \<Rightarrow> pdict \<Rightarrow> wf_env \<Rightarrow> int \<Rightarrow> pv list \<Rightarrow> bool \<Rightarrow> pdict result" where
  "shrink mk fallback env limit refs trunc =
     bindR (canonical (float_repr env) (PDict (mk refs trunc))) (\<lambda>_.
     let (rest, trunc') = pop_until mk (float_repr env) limit (rev refs) trunc; d = mk (rev rest) trunc' in
     bounded_mapping env (PDict (if int (json_size (float_repr env) (PDict d)) > limit then fallback else d)) ''inspection_result'' limit)"

definition context_summary :: "pdict \<Rightarrow> pdict \<Rightarrow> nat \<Rightarrow> pv list \<Rightarrow> bool \<Rightarrow> pdict" where
  "context_summary context manifest cnt refs trunc =
     [(''status'', PStr ''partial''), (''reason'', PStr ''task_context_exceeds_budget''), (''manifest_digest'', dget manifest ''digest''),
      (''source_digest'', dget manifest ''source_digest''), (''semantic_revision'', dget context ''semantic_revision''),
      (''fragment_count'', PInt (int cnt)), (''fragment_refs'', PList refs),
      (''continuation'', PStr ''inspect_task(kind=context_fragment, target=<fragment_id>)'')] @
     (if trunc then [(''fragment_refs_truncated'', PBool True)] else [])"

definition context_fallback :: "nat \<Rightarrow> pdict" where
  "context_fallback cnt =
     [(''status'', PStr ''partial''), (''reason'', PStr ''task_context_exceeds_budget''), (''fragment_count'', PInt (int cnt)),
      (''continuation'', PStr ''inspect_task(kind=source)'')]"

definition items_of :: "pv \<Rightarrow> pv list" where
  "items_of v = (case v of PList xs \<Rightarrow> xs | _ \<Rightarrow> [])"

definition row_reference :: "pv \<Rightarrow> pv list" where
  "row_reference r = (case r of PDict d \<Rightarrow> if is_dict (dget d ''reference'') then [dget d ''reference''] else [] | _ \<Rightarrow> [])"

definition summary_refs :: "pdict \<Rightarrow> pdict \<Rightarrow> pv list" where
  "summary_refs context manifest =
     concat (map summary_ref
       (if is_list (dget manifest ''fragments'') then items_of (dget manifest ''fragments'')
        else concat (map row_reference (items_of (dget context ''fragments'')))))"

definition bounded_task_context_summary :: "wf_env \<Rightarrow> pdict \<Rightarrow> int \<Rightarrow> pdict result" where
  "bounded_task_context_summary env v limit =
     (let context = (case dget v ''payload'' of PDict p \<Rightarrow> p | _ \<Rightarrow> v);
          manifest = (case dget context ''manifest'' of PDict m \<Rightarrow> m | _ \<Rightarrow> []);
          refs = summary_refs context manifest
      in shrink (context_summary context manifest (length refs)) (context_fallback (length refs)) env limit (take 16 refs) (length refs > 16))"

definition RECOVERY_SCALARS :: "string list" where
  "RECOVERY_SCALARS = [''status'', ''attempt_id'', ''run_id'', ''assignment_id'', ''lease_id'', ''state'', ''recovery_state'', ''phase'',
     ''reason'', ''semantic_revision'', ''source_commit'', ''source_digest'', ''updated_at'']"

definition OPERATION_KEYS :: "string list" where
  "OPERATION_KEYS = [''operation_id'', ''operation'', ''effect_id'', ''kind'', ''state'', ''status'', ''reason'']"

definition plain_fields :: "pdict \<Rightarrow> string list \<Rightarrow> pdict" where
  "plain_fields d ks = map (\<lambda>k. (k, dget d k)) (filter (\<lambda>k. has_key d k \<and> (dget d k = PNone \<or> is_str (dget d k) \<or> is_int (dget d k))) ks)"

definition operation_ref :: "pv \<Rightarrow> pv list" where
  "operation_ref v =
     (case v of
        PDict row \<Rightarrow>
          (let item = plain_fields row OPERATION_KEYS;
               item' = (case dget row ''operation'' of
                   PDict op \<Rightarrow> if is_str (dget op ''entity_id'')
                     then AList.delete ''operation'' (AList.update ''operation_id'' (dget op ''entity_id'') item) else item
                 | _ \<Rightarrow> item)
           in if item' = [] then [] else [PDict item'])
      | _ \<Rightarrow> [])"

definition recovery_summary :: "pdict \<Rightarrow> pv list \<Rightarrow> bool \<Rightarrow> pdict" where
  "recovery_summary v refs trunc =
     dupdate (plain_fields v RECOVERY_SCALARS)
       ([(''status'', PStr ''partial''), (''reason'', PStr ''recovery_inspection_exceeds_budget''), (''operation_refs'', PList refs),
         (''continuation'', PStr ''inspect_task(kind=effect, target=<operation_id>)'')] @
        (if trunc then [(''operation_refs_truncated'', PBool True)] else []))"

definition bounded_recovery_summary :: "wf_env \<Rightarrow> pdict \<Rightarrow> int \<Rightarrow> pdict result" where
  "bounded_recovery_summary env v limit =
     (let ops = concat (map (\<lambda>field. concat (map operation_ref (items_of (dget v field))))
                  [''operations'', ''effects'', ''pending_operations''])
      in shrink (recovery_summary v)
           [(''status'', PStr ''partial''), (''reason'', PStr ''recovery_inspection_exceeds_budget''),
            (''continuation'', PStr ''inspect_task(kind=effect, target=<operation_id>)'')]
           env limit (take 24 ops) (length ops > 24))"

text \<open>\<^verbatim>\<open><fragment>#offset=<n>\<close>, split at the last marker\<close>

definition MARKER :: string where "MARKER = ''#offset=''"

fun rsplit_marker :: "string \<Rightarrow> (string \<times> string) option" where
  "rsplit_marker [] = None"
| "rsplit_marker (c # cs) =
     (case rsplit_marker cs of
        Some (a, b) \<Rightarrow> Some (c # a, b)
      | None \<Rightarrow> if startswith (c # cs) MARKER then Some ([], drop (length MARKER) (c # cs)) else None)"

definition nat_of_digits :: "string \<Rightarrow> int" where
  "nat_of_digits s = foldl (\<lambda>n c. 10 * n + (of_char c - 48)) 0 s"

definition context_fragment_target :: "pv \<Rightarrow> (string \<times> int option) result" where
  "context_fragment_target target =
     bindR (safe_component target ''fragment_id'' 256) (\<lambda>v.
     case rsplit_marker v of
       None \<Rightarrow> bindR (safe_component (PStr v) ''fragment_id'' 128) (\<lambda>f. Inr (f, None))
     | Some (fid, raw) \<Rightarrow>
         bindR (safe_component (PStr fid) ''fragment_id'' 128) (\<lambda>f.
         if raw = [] \<or> \<not> list_all is_digit raw \<or> nat_of_digits raw > 64 * 1024 then Inl (werr ''context_fragment_offset_invalid'')
         else Inr (f, Some (nat_of_digits raw))))"

end
