(* ===== verification/WorkflowContextProps.thy ===== *)
theory WorkflowContextProps
  imports WorkflowContext WorkflowPhases "HOL-Library.Sublist"
begin

text \<open>
  What a packet of context promises: its stated size is its size, it stays within the limit and
  names what it leaves out, and a fragment that arrives in chunks is assembled completely or refused.
\<close>

section \<open>The stated size\<close>

lemma size_loop_fixed: "json_size rp (sized d (size_loop rp d n)) = size_loop rp d n"
proof (induction rp d n rule: size_loop.induct)
  case (1 rp d n)
  show ?case
  proof (cases "json_size rp (sized d n) = n")
    case True
    then show ?thesis by (simp add: size_loop.simps [of rp d n])
  next
    case False
    then have "size_loop rp d n = size_loop rp d (json_size rp (sized d n))" by (simp add: size_loop.simps [of rp d n] Let_def)
    with 1 [OF refl False] show ?thesis by simp
  qed
qed

lemma dget_finite: "json_finite (PDict d) \<Longrightarrow> json_finite v \<Longrightarrow> json_finite (dget_or d k v)"
  by (cases "map_of d k") (force simp: dget_or_def dest: map_of_SomeD)+

lemma context_refs_finite:
  assumes "json_finite (PDict context)" "d \<in> set (context_refs context)"
  shows "json_finite (PDict d)"
proof -
  from assms(2) obtain m where m0: "dget context ''manifest'' = PDict m"
    by (cases "dget context ''manifest''") (simp_all add: context_refs_def)
  with assms(2) obtain raw where m: "dget context ''manifest'' = PDict m" "dget_or m ''fragments'' (PList []) = PList raw" "PDict d \<in> set raw"
    by (cases "dget_or m ''fragments'' (PList [])") (auto simp: context_refs_def split: pv.splits if_splits)
  have "json_finite (PDict m)" using json_finite_dget [OF assms(1), of "''manifest''"] m(1) by simp
  from dget_finite [OF this, of "PList []" "''fragments''"] m(2) have "json_finite (PList raw)" by simp
  then have "\<forall>x \<in> set raw. json_finite x" by simp
  with m(3) show ?thesis by (rule bspec [rotated])
qed

lemma compact_fields_finite:
  assumes c: "json_finite (PDict context)" and i: "\<forall>d \<in> set included. json_finite (PDict d)"
  shows "json_finite (PDict (compact_fields context included))"
proof -
  have g: "json_finite (dget context k)" for k by (rule json_finite_dget [OF c])
  have o: "json_finite v \<Longrightarrow> json_finite (dget_or context k v)" for k v by (rule dget_finite [OF c])
  have "json_finite (PList (map PDict included))" using i by simp
  moreover have "json_finite (PList (map PDict (omitted_refs context included)))"
    using context_refs_finite [OF c] by (auto simp: omitted_refs_def)
  moreover have "json_finite (case dget context ''manifest'' of PDict m \<Rightarrow> PDict m | _ \<Rightarrow> PDict [])"
    using g [of "''manifest''"] by (cases "dget context ''manifest''") simp_all
  ultimately show ?thesis using g o by (simp add: compact_fields_def Let_def)
qed

text \<open>
  The loop that writes the size of a compact context into it ends, and the size it has written is the
  number of bytes of the finished document.
\<close>

theorem compact_size_exact:
  assumes "json_finite (PDict context)" "\<forall>d \<in> set included. json_finite (PDict d)"
  shows "\<exists>d text. compact_public_context env context included = Inr d \<and> canonical (float_repr env) (PDict d) = Inr text \<and>
    dget d ''encoded_bytes'' = PInt (int (length text))"
proof -
  let ?d = "compact_fields context included"
  let ?n = "size_loop (float_repr env) ?d (length (json_enc (float_repr env) (PDict ?d)))"
  have f: "json_finite (PDict ?d)" by (rule compact_fields_finite [OF assms])
  have "json_size (float_repr env) (PDict (?d @ [(''encoded_bytes'', PInt (int ?n))])) = ?n"
    using size_loop_fixed [of "float_repr env" ?d] by (simp add: sized_def)
  moreover have "compact_public_context env context included = Inr (?d @ [(''encoded_bytes'', PInt (int ?n))])"
    using f by (simp add: compact_public_context_def Let_def canonical_def del: json_enc.simps)
  moreover have "dget (?d @ [(''encoded_bytes'', PInt (int ?n))]) ''encoded_bytes'' = PInt (int ?n)"
    by (simp add: dget_def dget_or_def compact_fields_def Let_def)
  moreover have "json_finite (PDict (?d @ [(''encoded_bytes'', PInt (int ?n))]))" using f by auto
  ultimately show ?thesis unfolding json_size_def canonical_def by auto
qed

section \<open>The task packet\<close>

lemma bounded_mapping_Inr:
  "bounded_mapping env (PDict d) field limit = Inr x \<Longrightarrow> x = d \<and> json_finite (PDict d) \<and> int (json_size (float_repr env) (PDict d)) \<le> limit"
  by (auto simp: bounded_mapping_def canonical_def json_size_def split: if_splits)

lemma sortable_Inr: "sortable v = Inr d \<Longrightarrow> v = PDict d"
proof (cases v)
  case (PDict x)
  moreover assume "sortable v = Inr d"
  ultimately show ?thesis by (cases "dget x ''reference''") (auto simp: sortable_def split: if_splits)
qed (simp_all add: sortable_def)

lemma include_fragments_subset:
  assumes "include_fragments env base summary context fs cur = Inr (included, c)"
    and "compact_public_context env context (fst cur) = Inr (snd cur)"
  shows "set included \<subseteq> set (fst cur) \<union> set fs \<and> compact_public_context env context included = Inr c"
  using assms
proof (induction fs arbitrary: cur)
  case (Cons f fs)
  have skip: ?case if "include_fragments env base summary context fs cur = Inr (included, c)"
    using Cons.IH [OF that Cons.prems(2)] by auto
  show ?case
  proof (cases "fragment_id_of f")
    case None
    with Cons.prems(1) show ?thesis by (intro skip) simp
  next
    case (Some fid)
    show ?thesis
    proof (cases "PStr fid \<in> set (included_ids (fst cur))")
      case True
      with Some Cons.prems(1) show ?thesis by (intro skip) simp
    next
      case False
      with Some Cons.prems(1) obtain candidate where cand: "compact_public_context env context (fst cur @ [f]) = Inr candidate"
        and t: "include_fragments env base summary context fs cur = Inr (included, c) \<or>
          include_fragments env base summary context fs (fst cur @ [f], candidate) = Inr (included, c)"
        by (auto simp: bindR_eq_Inr simp del: json_enc.simps json_finite.simps split: if_splits)
      from t show ?thesis
      proof
        assume "include_fragments env base summary context fs (fst cur @ [f], candidate) = Inr (included, c)"
        from Cons.IH [OF this] cand show ?thesis by auto
      qed (rule skip)
    qed
  qed
qed simp

lemma compact_fragments:
  assumes "compact_public_context env context included = Inr c"
  shows "dget c ''fragments'' = PList (map PDict included)"
  using assms by (auto simp: compact_public_context_def bindR_eq_Inr Let_def compact_fields_def dget_def dget_or_def)

text \<open>
  C34. A task packet has at most 8192 bytes.  It carries the whole context, or a partial one made of
  fragments of the context, and then its continuation names exactly the references of the manifest whose
  fragment it leaves out.
\<close>

theorem task_packet_bounded:
  assumes "task_packet nv handle record resumed = Inr p"
  shows "int (json_size (float_repr (nv_env nv)) (PDict p)) \<le> 8192 \<and>
    (dget p ''context'' = PDict (record_context record) \<or>
     (\<exists>included c. dget p ''context'' = PDict c \<and> dget c ''fragments'' = PList (map PDict included) \<and>
        set (map PDict included) \<subseteq> set (case dget (record_context record) ''fragments'' of PList fs \<Rightarrow> fs | _ \<Rightarrow> []) \<and>
        dget p ''context_status'' = PStr ''partial'' \<and>
        dget p ''context_continuation'' = continuation (filter (\<lambda>d. dget d ''fragment_id'' \<notin> set (included_ids included)) (context_refs (record_context record)))))"
proof -
  let ?env = "nv_env nv" and ?c = "record_context record" and ?base = "packet_base handle record resumed"
  from assms obtain summary where summary: "task_summary nv record ?c = Inr summary"
    by (auto simp: task_packet_def Let_def bindR_eq_Inr)
  let ?full = "?base @ [(''context'', PDict ?c)] @ (if summary = [] then [] else [(''task_summary'', PDict summary)])"
  show ?thesis
  proof (cases "bounded_response ?env ?full")
    case (Inr x)
    with assms summary have "p = x" by (simp add: task_packet_def Let_def)
    with bounded_mapping_Inr [OF Inr [unfolded bounded_response_def]] have "p = ?full"
      "int (json_size (float_repr ?env) (PDict p)) \<le> 8192" by (simp_all add: MAX_RESPONSE_BYTES_def)
    then show ?thesis by (simp add: packet_base_def dget_def dget_or_def)
  next
    case (Inl e)
    with assms summary obtain cc included c where cc: "compact_public_context ?env ?c [] = Inr cc"
      and inc: "(case dget_or ?c ''fragments'' (PList []) of PList fs \<Rightarrow> bindR (mapR sortable fs) (\<lambda>ds.
            include_fragments ?env ?base summary ?c (sort_key fragment_priority ds) ([], cc)) | _ \<Rightarrow> Inr ([], cc)) = Inr (included, c)"
      and b: "bounded_response ?env (partial_packet ?base summary ?c included c) = Inr p"
      by (auto simp: task_packet_def Let_def bindR_eq_Inr split: if_splits)
    from bounded_mapping_Inr [OF b [unfolded bounded_response_def]]
    have p: "p = partial_packet ?base summary ?c included c" "int (json_size (float_repr ?env) (PDict p)) \<le> 8192"
      by (simp_all add: MAX_RESPONSE_BYTES_def)
    have "set (map PDict included) \<subseteq> set (case dget ?c ''fragments'' of PList fs \<Rightarrow> fs | _ \<Rightarrow> []) \<and>
        compact_public_context ?env ?c included = Inr c"
    proof (cases "dget_or ?c ''fragments'' (PList [])")
      case (PList fs)
      with inc obtain ds where ds: "mapR sortable fs = Inr ds"
        and i: "include_fragments ?env ?base summary ?c (sort_key fragment_priority ds) ([], cc) = Inr (included, c)"
        by (auto simp: bindR_eq_Inr)
      have "set (map PDict ds) \<subseteq> set fs"
        using mapR_member [OF ds] by (fastforce dest: sortable_Inr)
      moreover have "fs = (case dget ?c ''fragments'' of PList fs \<Rightarrow> fs | _ \<Rightarrow> [])"
        using PList by (cases "map_of ?c ''fragments''") (auto simp: dget_or_def dget_def)
      ultimately show ?thesis using include_fragments_subset [OF i] cc by auto
    qed (use inc cc in auto)
    with p compact_fragments show ?thesis
      by (auto simp: partial_packet_def packet_base_def dget_def dget_or_def omitted_refs_def)
  qed
qed

section \<open>Chunks\<close>

lemma chunk_step_cases:
  assumes "chunk_step nv work_ref got expected expansion = Inr r"
  obtains c where "expansion_chunk nv expansion = Inr (Some c)" "same_reference (chunk_reference expansion) work_ref"
    "expected = None \<or> expected = Some (ch_digest c)" "int (length (got @ ch_data c)) \<le> MAX_CONTEXT_CAPSULE_BYTES"
    "(\<exists>p. r = Inl p \<and> nv_json_loads nv (got @ ch_data c) = Some (PDict p) \<and> sha256 (nv_env nv) (got @ ch_data c) = ch_digest c) \<or>
     r = Inr (got @ ch_data c, ch_digest c, int (length (got @ ch_data c)))"
proof -
  from assms obtain c where c: "expansion_chunk nv expansion = Inr (Some c)" by (auto simp: chunk_step_def bindR_eq_Inr split: option.splits)
  show thesis
  proof (cases "ch_next c")
    case None
    with assms c show thesis by (intro that [OF c])
        (auto simp: chunk_step_def bindR_eq_Inr Let_def split: option.splits pv.splits)
  next
    case (Some n)
    with assms c show thesis by (intro that [OF c]) (auto simp: chunk_step_def bindR_eq_Inr Let_def split: option.splits)
  qed
qed

lemma assemble_sound:
  assumes "assemble nv record work_ref fuel got expected expansion s = (Inr p, s')"
  shows "\<exists>c all. expansion_chunk nv expansion = Inr (Some c) \<and> prefix (got @ ch_data c) all \<and> (expected = None \<or> expected = Some (ch_digest c)) \<and>
    same_reference (chunk_reference expansion) work_ref \<and> int (length all) \<le> MAX_CONTEXT_CAPSULE_BYTES \<and>
    sha256 (nv_env nv) all = ch_digest c \<and> nv_json_loads nv all = Some (PDict p)"
  using assms
proof (induction fuel arbitrary: got expected expansion s)
  case (Suc fuel)
  from Suc.prems obtain r where r: "chunk_step nv work_ref got expected expansion = Inr r"
    by (cases "chunk_step nv work_ref got expected expansion") simp_all
  from r show ?case
  proof (rule chunk_step_cases)
    fix c
    assume c: "expansion_chunk nv expansion = Inr (Some c)" "same_reference (chunk_reference expansion) work_ref"
      "expected = None \<or> expected = Some (ch_digest c)" "int (length (got @ ch_data c)) \<le> MAX_CONTEXT_CAPSULE_BYTES"
      and o: "(\<exists>p. r = Inl p \<and> nv_json_loads nv (got @ ch_data c) = Some (PDict p) \<and> sha256 (nv_env nv) (got @ ch_data c) = ch_digest c) \<or>
        r = Inr (got @ ch_data c, ch_digest c, int (length (got @ ch_data c)))"
    from o show ?case
    proof
      assume "\<exists>p. r = Inl p \<and> nv_json_loads nv (got @ ch_data c) = Some (PDict p) \<and> sha256 (nv_env nv) (got @ ch_data c) = ch_digest c"
      with Suc.prems r c show ?thesis by (intro exI [of _ c] exI [of _ "got @ ch_data c"]) auto
    next
      assume "r = Inr (got @ ch_data c, ch_digest c, int (length (got @ ch_data c)))"
      with Suc.prems r obtain s1 e1 where "assemble nv record work_ref fuel (got @ ch_data c) (Some (ch_digest c)) e1 s1 = (Inr p, s')"
        by (auto simp: bindA_eq_Inr split: if_splits)
      from Suc.IH [OF this] obtain d :: chunk and all where "prefix ((got @ ch_data c) @ ch_data d) all" "Some (ch_digest c) = None \<or> Some (ch_digest c) = Some (ch_digest d)"
        "int (length all) \<le> MAX_CONTEXT_CAPSULE_BYTES" "sha256 (nv_env nv) all = ch_digest d" "nv_json_loads nv all = Some (PDict p)" by blast
      with c show ?thesis by (intro exI [of _ c] exI [of _ all]) (auto simp: prefix_def)
    qed
  qed
qed simp

text \<open>
  A payload assembled from chunks is the JSON of bytes that start with the first chunk, number at most
  64 KiB, and have the digest that the first chunk announced for the content, for exactly the reference of the
  work item.
\<close>

theorem fragment_assembled:
  assumes "assemble nv record work_ref 33 [] None expansion s = (Inr p, s')"
  shows "\<exists>c all. expansion_chunk nv expansion = Inr (Some c) \<and> prefix (ch_data c) all \<and> length all \<le> 65536 \<and>
    same_reference (chunk_reference expansion) work_ref \<and> sha256 (nv_env nv) all = ch_digest c \<and> nv_json_loads nv all = Some (PDict p)"
  using assemble_sound [OF assms] by (auto simp: MAX_CONTEXT_CAPSULE_BYTES_def)

text \<open>A host that serves the content in chunks of 2 KiB.\<close>

definition chunk_doc :: "(string \<Rightarrow> string) \<Rightarrow> string \<Rightarrow> pdict \<Rightarrow> string \<Rightarrow> nat \<Rightarrow> pdict" where
  "chunk_doc b64 g work_ref content k = [(''chunk'', PDict
     [(''data'', PStr (b64 (take 2048 (drop k content)))), (''offset'', PInt (int k)), (''total_bytes'', PInt (int (length content))),
      (''next_offset'', (if k + 2048 < length content then PInt (int (k + 2048)) else PNone)), (''content_digest'', PStr g),
      (''reference'', PDict work_ref)])]"

definition serves :: "'n native \<Rightarrow> pdict \<Rightarrow> pdict \<Rightarrow> (string \<Rightarrow> string) \<Rightarrow> string \<Rightarrow> string \<Rightarrow> bool" where
  "serves nv record work_ref b64 g content \<longleftrightarrow> (\<forall>k s. k < length content \<longrightarrow>
     (\<exists>s'. expand_context_fragment nv record work_ref (PInt (int k)) s = (Inr (chunk_doc b64 g work_ref content k), s')))"

lemma chunk_doc_step:
  assumes k: "k < length content" and len: "length content \<le> 65536" and b: "\<And>x. nv_b64decode nv (b64 x) = Some x"
    and g: "sha256 (nv_env nv) content = g" and p: "nv_json_loads nv content = Some (PDict p)"
    and ref: "py_eq (PDict work_ref) (PDict work_ref)" and e: "expected = None \<or> expected = Some g"
  shows "chunk_step nv work_ref (take k content) expected (chunk_doc b64 g work_ref content k) =
    (if k + 2048 < length content then Inr (Inr (take (k + 2048) content, g, int (k + 2048))) else Inr (Inl p))"
proof -
  let ?c = "\<lparr>ch_data = take 2048 (drop k content), ch_offset = int k, ch_total = int (length content),
      ch_next = (if k + 2048 < length content then Some (int (k + 2048)) else None), ch_digest = g\<rparr>"
  have c: "expansion_chunk nv (chunk_doc b64 g work_ref content k) = Inr (Some ?c)"
    using k by (auto simp: expansion_chunk_def chunk_doc_def dget_def dget_or_def read_chunk_def b)
  have all: "take k content @ take 2048 (drop k content) = take (k + 2048) content" by (simp add: take_add)
  have r: "same_reference (chunk_reference (chunk_doc b64 g work_ref content k)) work_ref"
    using ref by (simp add: same_reference_def chunk_reference_def chunk_doc_def dget_def dget_or_def del: py_eq.simps)
  show ?thesis
  proof (cases "k + 2048 < length content")
    case True
    with k len e show ?thesis
      by (auto simp: chunk_step_def c r all Let_def MAX_CONTEXT_CAPSULE_BYTES_def bindR_raise_if)
  next
    case False
    then have t: "take (k + 2048) content = content" by simp
    from False k len e show ?thesis
      by (auto simp: chunk_step_def c r all t Let_def MAX_CONTEXT_CAPSULE_BYTES_def bindR_raise_if g p)
  qed
qed

text \<open>
  Thirty-three rounds are enough: a host that serves a content of at most 64 KiB in chunks of 2 KiB, with the
  digest of the content, has its payload assembled.
\<close>

theorem fragment_assembles:
  assumes srv: "serves nv record work_ref b64 g content" and "content \<noteq> []" and len: "length content \<le> 65536"
    and b: "\<And>x. nv_b64decode nv (b64 x) = Some x" and g: "sha256 (nv_env nv) content = g" and p: "nv_json_loads nv content = Some (PDict p)"
    and ref: "json_finite (PDict work_ref)" "wf_pv (PDict work_ref)"
  shows "\<exists>s'. assemble nv record work_ref 33 [] None (chunk_doc b64 g work_ref content 0) s = (Inr p, s')"
proof -
  have eq: "py_eq (PDict work_ref) (PDict work_ref)" by (rule py_eq_refl [OF ref])
  have "\<exists>s'. assemble nv record work_ref fuel (take k content) expected (chunk_doc b64 g work_ref content k) s = (Inr p, s')"
    if "k < length content" "length content - k \<le> 2048 * fuel" "expected = None \<or> expected = Some g" for fuel k expected s
    using that
  proof (induction fuel arbitrary: k expected s)
    case (Suc fuel)
    note step = chunk_doc_step [OF Suc.prems(1) len b g p eq Suc.prems(3)]
    show ?case
    proof (cases "k + 2048 < length content")
      case True
      then obtain s1 where "expand_context_fragment nv record work_ref (PInt (int (k + 2048))) s = (Inr (chunk_doc b64 g work_ref content (k + 2048)), s1)"
        using srv unfolding serves_def by blast
      moreover have "\<not> needs_attention (chunk_doc b64 g work_ref content (k + 2048))"
        by (simp add: needs_attention_def chunk_doc_def dget_def dget_or_def)
      moreover obtain s2 where "assemble nv record work_ref fuel (take (k + 2048) content) (Some g) (chunk_doc b64 g work_ref content (k + 2048)) s1 = (Inr p, s2)"
      proof -
        have "length content - (k + 2048) \<le> 2048 * fuel" using Suc.prems(2) by simp
        with Suc.IH [of "k + 2048" "Some g" s1] True that show thesis by blast
      qed
      ultimately show ?thesis using step True by (simp add: bindA_run(1))
    next
      case False
      with step show ?thesis by simp
    qed
  qed simp
  from this [of 0 33 None s] assms(2) len show ?thesis by simp
qed

section \<open>Summaries\<close>

lemma pop_until_fits:
  assumes "pop_until mk rp limit refs trunc = (rest, trunc')"
  shows "rest = [] \<or> int (json_size rp (PDict (mk (rev rest) trunc'))) \<le> limit" "\<exists>k. rest = drop k refs"
proof -
  have "(rest = [] \<or> int (json_size rp (PDict (mk (rev rest) trunc'))) \<le> limit) \<and> (\<exists>k. rest = drop k refs)"
    using assms
  proof (induction mk rp limit refs trunc rule: pop_until.induct)
    case (2 mk rp limit x xs trunc)
    show ?case
    proof (cases "int (json_size rp (PDict (mk (rev (x # xs)) trunc))) > limit")
      case True
      with 2 obtain k where "rest = drop k xs" "rest = [] \<or> int (json_size rp (PDict (mk (rev rest) trunc'))) \<le> limit" by auto
      then show ?thesis by (intro conjI exI [of _ "Suc k"]) simp_all
    next
      case False
      with 2 have "rest = x # xs" "trunc' = trunc" by simp_all
      with False show ?thesis by (intro conjI exI [of _ 0]) simp_all
    qed
  qed simp
  then show "rest = [] \<or> int (json_size rp (PDict (mk (rev rest) trunc'))) \<le> limit" "\<exists>k. rest = drop k refs" by blast+
qed

lemma shrink_succeeds:
  assumes fin: "\<And>xs c. set xs \<subseteq> set refs \<Longrightarrow> json_finite (PDict (mk xs c))"
    and fb: "json_finite (PDict fallback)" "int (json_size (float_repr env) (PDict fallback)) \<le> limit"
  shows "\<exists>d. shrink mk fallback env limit refs trunc = Inr d \<and> int (json_size (float_repr env) (PDict d)) \<le> limit"
proof -
  obtain rest trunc' where pop: "pop_until mk (float_repr env) limit (rev refs) trunc = (rest, trunc')" by fastforce
  obtain k where "rest = drop k (rev refs)" using pop_until_fits(2) [OF pop] by blast
  then have "set (rev rest) \<subseteq> set refs" using set_drop_subset [of k "rev refs"] by simp
  then have f: "json_finite (PDict (mk (rev rest) trunc'))" by (rule fin)
  let ?d = "if int (json_size (float_repr env) (PDict (mk (rev rest) trunc'))) > limit then fallback else mk (rev rest) trunc'"
  have "json_finite (PDict ?d)" "int (json_size (float_repr env) (PDict ?d)) \<le> limit" using f fb by auto
  then have "bounded_mapping env (PDict ?d) ''inspection_result'' limit = Inr ?d"
    by (simp add: bounded_mapping_def canonical_def json_size_def del: json_enc.simps json_finite.simps)
  moreover have "canonical (float_repr env) (PDict (mk refs trunc)) = Inr (json_enc (float_repr env) (PDict (mk refs trunc)))"
    using fin [of refs trunc] by (simp add: canonical_def del: json_enc.simps json_finite.simps)
  ultimately have "shrink mk fallback env limit refs trunc = Inr ?d"
    unfolding shrink_def by (simp only: bindR_simps pop Let_def prod.case)
  then show ?thesis using \<open>int (json_size (float_repr env) (PDict ?d)) \<le> limit\<close> by blast
qed

lemma plain_finite: "json_finite (PDict v) \<Longrightarrow> json_finite (PDict (plain_fields v ks))"
  using json_finite_dget [of v] by (auto simp: plain_fields_def)

lemma dupdate_finite: "json_finite (PDict d) \<Longrightarrow> json_finite (PDict e) \<Longrightarrow> json_finite (PDict (dupdate d e))"
proof (induction e arbitrary: d)
  case (Cons p e)
  have "set (AList.update (fst p) (snd p) d) \<subseteq> insert p (set d)" by (induction d) auto
  then have "json_finite (PDict (AList.update (fst p) (snd p) d))" using Cons.prems by auto
  from Cons.IH [OF this] Cons.prems(2) show ?case by (simp add: dupdate_def)
qed (simp add: dupdate_def)

lemma summary_ref_finite:
  assumes "json_finite v" "x \<in> set (summary_ref v)" shows "json_finite x"
proof (cases v)
  case (PDict row)
  have "json_finite (dget row k)" for k using assms(1) PDict json_finite_dget by blast
  with assms(2) PDict show ?thesis by (auto simp: summary_ref_def Let_def split: if_splits)
qed (use assms in \<open>simp_all add: summary_ref_def\<close>)

lemma digits_small: "n < 10 ^ k \<Longrightarrow> length (string_of_nat n) \<le> max 1 k"
proof (induction k arbitrary: n)
  case (Suc k)
  show ?case
  proof (cases "n < 10")
    case False
    then have "n div 10 < 10 ^ k" using Suc.prems by (simp add: div_less_iff_less_mult)
    with False Suc.IH [of "n div 10"] show ?thesis by (subst string_of_nat.simps) (cases k, auto)
  qed (subst string_of_nat.simps, simp)
qed (simp add: string_of_nat.simps)

lemma context_fallback_size: "cnt < 10 ^ 9 \<Longrightarrow> json_size rp (PDict (context_fallback cnt)) \<le> 256"
  using digits_small [of cnt 9]
  by (simp add: context_fallback_def json_size_dict member_size_def json_size_nat)
    (simp add: json_size_def json_string_def esc_char_def)

lemma set_update_subset: "set (AList.update k v d) \<subseteq> insert (k, v) (set d)"
  by (induction d) auto

lemma operation_ref_finite:
  assumes "json_finite v" "x \<in> set (operation_ref v)" shows "json_finite x"
proof (cases v)
  case (PDict row)
  let ?item = "plain_fields row OPERATION_KEYS"
  have f: "json_finite (PDict ?item)" using assms(1) PDict plain_finite by blast
  have "json_finite (PDict (AList.delete ''operation'' (AList.update ''operation_id'' (PStr s) ?item)))" for s
  proof -
    have "set (AList.delete ''operation'' (AList.update ''operation_id'' (PStr s) ?item)) \<subseteq> insert (''operation_id'', PStr s) (set ?item)"
      unfolding AList.delete_eq using set_update_subset [of "''operation_id''" "PStr s" ?item] by auto
    with f show ?thesis by auto
  qed
  with f assms(2) PDict show ?thesis
    by (cases "dget row ''operation''") (auto simp: operation_ref_def Let_def is_str_iff simp del: json_finite.simps split: if_splits)
qed (use assms in \<open>simp_all add: operation_ref_def\<close>)

lemma items_of_finite: "json_finite v \<Longrightarrow> x \<in> set (items_of v) \<Longrightarrow> json_finite x"
  by (cases v) (auto simp: items_of_def)

lemma row_reference_finite: "json_finite r \<Longrightarrow> x \<in> set (row_reference r) \<Longrightarrow> json_finite x"
  using json_finite_dget by (cases r) (auto simp: row_reference_def simp del: json_finite.simps split: if_splits)

lemma summary_refs_finite:
  assumes "json_finite (PDict context)" "json_finite (PDict manifest)" "x \<in> set (summary_refs context manifest)"
  shows "json_finite x"
proof -
  let ?raw = "if is_list (dget manifest ''fragments'') then items_of (dget manifest ''fragments'')
    else concat (map row_reference (items_of (dget context ''fragments'')))"
  have "json_finite y" if "y \<in> set ?raw" for y
  proof (cases "is_list (dget manifest ''fragments'')")
    case True
    with that show ?thesis using items_of_finite [OF json_finite_dget [OF assms(2)]] by simp
  next
    case False
    with that obtain r where "r \<in> set (items_of (dget context ''fragments''))" "y \<in> set (row_reference r)" by auto
    then show ?thesis using items_of_finite [OF json_finite_dget [OF assms(1)]] row_reference_finite by blast
  qed
  moreover obtain y where "y \<in> set ?raw" "x \<in> set (summary_ref y)"
    using assms(3) unfolding summary_refs_def set_concat set_map by blast
  ultimately show ?thesis using summary_ref_finite by blast
qed

text \<open>The part of an inspection that is summarised, and its manifest.\<close>

definition inspected :: "pdict \<Rightarrow> pdict" where
  "inspected v = (case dget v ''payload'' of PDict p \<Rightarrow> p | _ \<Rightarrow> v)"

definition manifest_of :: "pdict \<Rightarrow> pdict" where
  "manifest_of c = (case dget c ''manifest'' of PDict m \<Rightarrow> m | _ \<Rightarrow> [])"

lemma inspected_finite:
  assumes "json_finite (PDict v)"
  shows "json_finite (PDict (inspected v))" "json_finite (PDict (manifest_of (inspected v)))"
proof -
  show c: "json_finite (PDict (inspected v))"
    unfolding inspected_def using json_finite_dget [OF assms, of "''payload''"] assms by (cases "dget v ''payload''") auto
  show "json_finite (PDict (manifest_of (inspected v)))"
    unfolding manifest_of_def using json_finite_dget [OF c, of "''manifest''"] by (cases "dget (inspected v) ''manifest''") auto
qed

lemma context_summary_fits:
  assumes "json_finite (PDict v)" "256 \<le> limit" "length (summary_refs (inspected v) (manifest_of (inspected v))) < 10 ^ 9"
  shows "\<exists>d. bounded_task_context_summary env v limit = Inr d \<and> int (json_size (float_repr env) (PDict d)) \<le> limit"
proof -
  let ?rp = "float_repr env"
  let ?ctx = "inspected v" and ?man = "manifest_of (inspected v)"
  note fin = inspected_finite [OF assms(1)]
  let ?refs = "summary_refs ?ctx ?man"
  have "\<exists>d. shrink (context_summary ?ctx ?man (length ?refs)) (context_fallback (length ?refs)) env limit (take 16 ?refs) (length ?refs > 16) = Inr d \<and>
      int (json_size ?rp (PDict d)) \<le> limit"
  proof (rule shrink_succeeds)
    fix xs tr assume "set xs \<subseteq> set (take 16 ?refs)"
    then have "\<forall>x \<in> set xs. json_finite x" using set_take_subset [of 16 ?refs] summary_refs_finite [OF fin] by blast
    then show "json_finite (PDict (context_summary ?ctx ?man (length ?refs) xs tr))"
      using json_finite_dget [OF fin(1)] json_finite_dget [OF fin(2)] by (simp add: context_summary_def)
  next
    show "json_finite (PDict (context_fallback (length ?refs)))" by (simp add: context_fallback_def)
    show "int (json_size ?rp (PDict (context_fallback (length ?refs)))) \<le> limit"
      using context_fallback_size [OF assms(3), of ?rp] assms(2) by linarith
  qed
  then show ?thesis unfolding bounded_task_context_summary_def Let_def inspected_def manifest_of_def .
qed

lemma recovery_summary_fits:
  assumes "json_finite (PDict v)" "256 \<le> limit"
  shows "\<exists>d. bounded_recovery_summary env v limit = Inr d \<and> int (json_size (float_repr env) (PDict d)) \<le> limit"
proof -
  let ?rp = "float_repr env"
  define ops where "ops = concat (map (\<lambda>field. concat (map operation_ref (items_of (dget v field))))
      [''operations'', ''effects'', ''pending_operations''])"
  have opf: "json_finite x" if "x \<in> set ops" for x
    using that operation_ref_finite items_of_finite [OF json_finite_dget [OF assms(1)]] by (auto simp: ops_def)
  let ?fb = "[(''status'', PStr ''partial''), (''reason'', PStr ''recovery_inspection_exceeds_budget''),
            (''continuation'', PStr ''inspect_task(kind=effect, target=<operation_id>)'')]"
  have "\<exists>d. shrink (recovery_summary v) ?fb env limit (take 24 ops) (length ops > 24) = Inr d \<and> int (json_size ?rp (PDict d)) \<le> limit"
  proof (rule shrink_succeeds)
    fix xs tr assume "set xs \<subseteq> set (take 24 ops)"
    then have "\<forall>x \<in> set xs. json_finite x" using set_take_subset [of 24 ops] opf by blast
    then show "json_finite (PDict (recovery_summary v xs tr))"
      unfolding recovery_summary_def by (intro dupdate_finite plain_finite [OF assms(1)]) simp
  next
    show "json_finite (PDict ?fb)" by simp
    have "json_size ?rp (PDict ?fb) \<le> 256"
      by (simp add: json_size_dict member_size_def) (simp add: json_size_def json_string_def esc_char_def)
    then show "int (json_size ?rp (PDict ?fb)) \<le> limit" using assms(2) by linarith
  qed
  then show ?thesis unfolding bounded_recovery_summary_def Let_def ops_def .
qed

text \<open>
  An inspection that does not fit is summarised within its limit: for a limit of at least 256 bytes the
  summary of any context with fewer than a milliard references, and of any recovery, is returned and fits.
\<close>

theorem summaries_fit:
  assumes "json_finite (PDict v)" "256 \<le> limit" "length (summary_refs (inspected v) (manifest_of (inspected v))) < 10 ^ 9"
  shows "(\<exists>d. bounded_task_context_summary env v limit = Inr d \<and> int (json_size (float_repr env) (PDict d)) \<le> limit) \<and>
    (\<exists>d. bounded_recovery_summary env v limit = Inr d \<and> int (json_size (float_repr env) (PDict d)) \<le> limit)"
  using context_summary_fits [OF assms] recovery_summary_fits [OF assms(1,2)] by blast

section \<open>References and bytes\<close>

text \<open>A value is no smaller than its parts, so that a small document has few references.\<close>

lemma json_size_member: "map_of d k = Some v \<Longrightarrow> json_size rp v \<le> json_size rp (PDict d)"
proof -
  assume "map_of d k = Some v"
  then have "(k, v) \<in> set d" by (rule map_of_SomeD)
  then have "member_size rp (k, v) \<le> sum_list (map (member_size rp) d)"
    by (intro member_le_sum_list) auto
  then show ?thesis by (simp add: json_size_dict member_size_def)
qed

lemma json_size_items: "length (items_of v) \<le> json_size rp v"
proof (cases v)
  case (PList xs)
  then show ?thesis by (simp add: items_of_def json_size_list)
qed (simp_all add: items_of_def)

lemma items_dget: "length (items_of (dget d k)) \<le> json_size rp (PDict d)"
proof (cases "map_of d k")
  case (Some v)
  with json_size_items [of v rp] json_size_member [OF Some, of rp] show ?thesis by (simp add: dget_def dget_or_def)
qed (simp add: dget_def dget_or_def items_of_def)

lemma length_concat_short:
  assumes "\<And>x. length (f x) \<le> 1"
  shows "length (concat (map f xs)) \<le> length xs"
proof (induction xs)
  case (Cons x xs)
  then show ?case using assms [of x] by simp
qed simp

lemma dget_size: "is_dict (dget d k) \<Longrightarrow> json_size rp (dget d k) \<le> json_size rp (PDict d)"
  using json_size_member [of d k] by (cases "map_of d k") (auto simp: dget_def dget_or_def)

lemma inspected_size:
  shows "json_size rp (PDict (inspected v)) \<le> json_size rp (PDict v)"
    "json_size rp (PDict (manifest_of v)) \<le> json_size rp (PDict v)"
  using dget_size [of v "''payload''" rp] dget_size [of v "''manifest''" rp]
  by (auto simp: inspected_def manifest_of_def json_size_dict split: pv.splits)

lemma summary_refs_short: "length (summary_refs (inspected v) (manifest_of (inspected v))) \<le> json_size rp (PDict v)"
proof -
  let ?c = "inspected v" and ?m = "manifest_of (inspected v)"
  let ?raw = "if is_list (dget ?m ''fragments'') then items_of (dget ?m ''fragments'')
    else concat (map row_reference (items_of (dget ?c ''fragments'')))"
  have "length (summary_ref x) \<le> 1" "length (row_reference x) \<le> 1" for x
    by (auto simp: summary_ref_def row_reference_def Let_def split: pv.split)
  then have "length (summary_refs ?c ?m) \<le> length ?raw" "length ?raw \<le> max (length (items_of (dget ?m ''fragments''))) (length (items_of (dget ?c ''fragments'')))"
    unfolding summary_refs_def by (auto intro!: length_concat_short intro: le_trans [OF length_concat_short])
  moreover have "length (items_of (dget ?m ''fragments'')) \<le> json_size rp (PDict v)" "length (items_of (dget ?c ''fragments'')) \<le> json_size rp (PDict v)"
    using items_dget [of ?m "''fragments''" rp] items_dget [of ?c "''fragments''" rp] inspected_size [of rp v] inspected_size [of rp ?c] by linarith+
  ultimately show ?thesis by linarith
qed

end
