(* ===== verification/WorkflowNext.thy ===== *)
theory WorkflowNext
  imports WorkflowContext
begin

text \<open>
  \<^verbatim>\<open>next_task\<close> of \<^verbatim>\<open>src/src/project_control/compact_workflow.py\<close>: a task is reviewed, resumed or
  claimed.  The phases of a workflow are stages that each continue from the record the journal has;
  a stage either returns a packet or goes on with the record.
\<close>

section \<open>Pending reviews\<close>

record review_queue =
  rq_candidates :: "pdict list"
  rq_attempts :: "(string \<times> pdict) list"

definition take_page :: "pdict \<Rightarrow> review_queue \<Rightarrow> review_queue" where
  "take_page page q =
     (case dget page ''sections'' of
        PDict sections \<Rightarrow>
          q\<lparr>rq_candidates := rq_candidates q @ concat (map (\<lambda>v. case v of PDict d \<Rightarrow> [d] | _ \<Rightarrow> []) (items_of (dget_or sections ''outcome_candidates'' (PList [])))),
            rq_attempts := fold (\<lambda>v acc. case v of
                PDict d \<Rightarrow> (case dget d ''attempt_id'' of PStr a \<Rightarrow> AList.update a d acc | _ \<Rightarrow> acc) | _ \<Rightarrow> acc)
              (items_of (dget_or sections ''attempts'' (PList []))) (rq_attempts q)\<rparr>
      | _ \<Rightarrow> q)"

fun review_pages ::
  "'n native \<Rightarrow> pdict \<Rightarrow> pv \<Rightarrow> nat \<Rightarrow> pv \<Rightarrow> pv \<Rightarrow> review_queue \<Rightarrow> ('n, review_queue) act" where
  "review_pages nv scope selector 0 token revision q = throw (werr ''review_queue_too_large'')"
| "review_pages nv scope selector (Suc fuel) token revision q =
     bindA (invoke nv ''todo_read_authority'' scope
              [(''limit'', PInt 200), (''page_token'', token), (''expected_revision'', revision), (''review_selector'', selector)]) (\<lambda>page.
     if needs_attention page then throw (werr (text_or nv page ''reason'' ''review_queue_unavailable''))
     else
       let revision' = (if revision = PNone then (case dget page ''semantic_revision'' of PInt r \<Rightarrow> PInt r | _ \<Rightarrow> PNone) else revision);
           q' = take_page page q
       in case (case dget page ''page'' of PDict m \<Rightarrow> dget m ''next_page_token'' | _ \<Rightarrow> PNone) of
            PNone \<Rightarrow> ret q'
          | PStr t \<Rightarrow> if t = [] then throw (werr ''review_queue_cursor_invalid'')
                     else review_pages nv scope selector fuel (PStr t) revision' q'
          | _ \<Rightarrow> throw (werr ''review_queue_cursor_invalid''))"

definition review_attempt :: "review_queue \<Rightarrow> pdict \<Rightarrow> pdict" where
  "review_attempt q candidate =
     (case dget candidate ''attempt_id'' of
        PStr a \<Rightarrow> (case map_of (rq_attempts q) a of Some d \<Rightarrow> d | None \<Rightarrow> [])
      | _ \<Rightarrow> [])"

definition review_matches :: "pdict \<Rightarrow> review_queue \<Rightarrow> pdict \<Rightarrow> bool" where
  "review_matches requested q candidate \<longleftrightarrow>
     dget candidate ''state'' = PStr ''pending'' \<and>
     (dget requested ''task_id'' = PNone \<or> py_eq (dget candidate ''work_item_id'') (dget requested ''task_id'')) \<and>
     (dget requested ''run_id'' = PNone \<or>
        (review_attempt q candidate \<noteq> [] \<and> py_eq (dget (review_attempt q candidate) ''run_id'') (dget requested ''run_id''))) \<and>
     list_all (\<lambda>k. is_nonempty_str (dget candidate k)) [''candidate_id'', ''attempt_id'', ''work_item_id'']"

definition review_key :: "'n native \<Rightarrow> pdict \<Rightarrow> string \<times> string" where
  "review_key nv candidate = (text_or nv candidate ''reported_at'' [], str_of (dget candidate ''candidate_id''))"

definition next_pending_review :: "'n native \<Rightarrow> string \<Rightarrow> string \<Rightarrow> pdict \<Rightarrow> ('n, pdict option) act" where
  "next_pending_review nv project repository requested =
     bindA (review_pages nv [(''project'', PStr project), (''repository'', PStr repository)]
              (PDict [(''task_id'', dget requested ''task_id''), (''run_id'', dget requested ''run_id'')]) 32 PNone PNone
              \<lparr>rq_candidates = [], rq_attempts = []\<rparr>) (\<lambda>q.
     case sort_key (review_key nv) (filter (review_matches requested q) (rq_candidates q)) of
       [] \<Rightarrow> ret None
     | c # _ \<Rightarrow>
         let a = review_attempt q c in
         ret (Some [(''mode'', PStr ''review''), (''project'', PStr project), (''repository'', PStr repository),
           (''candidate_id'', dget c ''candidate_id''), (''attempt_id'', dget c ''attempt_id''), (''task_id'', dget c ''work_item_id''),
           (''run_id'', dget a ''run_id''), (''assignment_id'', dget_or c ''assignment_id'' (dget a ''assignment_id'')),
           (''candidate_disposition'', dget c ''disposition''), (''candidate_state'', dget c ''state''),
           (''reported_by_actor_id'', dget c ''reported_by_actor_id''), (''candidate_source_digest'', dget c ''source_digest'')]))"

definition review_packet :: "wf_env \<Rightarrow> string \<Rightarrow> pdict \<Rightarrow> pdict result" where
  "review_packet env handle record =
     bounded_response env
       [(''status'', PStr ''review_required''), (''task_id'', dget record ''task_id''), (''workflow_handle'', PStr handle),
        (''candidate_handle'', PStr handle), (''disposition'', dget record ''candidate_disposition''),
        (''allowed_actions'', PList (map PStr [''inspect_task'', ''coordinate_task'', ''finish_task''])),
        (''recommended_next_call'', PStr ''inspect_task(candidate)'')]"

section \<open>The stages\<close>

type_synonym ('n, 'a) stage = "('n, pdict + 'a) act"

text \<open>A stage that goes on with a record, after one that may have returned.\<close>

definition after_stage :: "('n, 'a) stage \<Rightarrow> ('a \<Rightarrow> ('n, 'b) stage) \<Rightarrow> ('n, 'b) stage" where
  "after_stage m f = bindA m (\<lambda>r. case r of Inl packet \<Rightarrow> ret (Inl packet) | Inr a \<Rightarrow> f a)"

definition answer :: "pdict \<Rightarrow> ('n, 'a) stage" where
  "answer packet = ret (Inl packet)"

definition answer_bounded :: "'n native \<Rightarrow> pdict \<Rightarrow> ('n, 'a) stage" where
  "answer_bounded nv packet = bindA (of_result (bounded_response (nv_env nv) packet)) answer"

definition in_phase :: "pdict \<Rightarrow> string \<Rightarrow> bool" where
  "in_phase record phase \<longleftrightarrow> dget record ''phase'' = PStr phase"

definition no_work_packet :: pdict where
  "no_work_packet = [(''status'', PStr ''no_work''), (''workflow_handle'', PNone), (''allowed_actions'', PList [PStr ''next_task'']),
     (''recommended_next_call'', PStr ''next_task'')]"

text \<open>\<^verbatim>\<open>record[key]\<close>\<close>

definition need :: "pdict \<Rightarrow> string \<Rightarrow> pv result" where
  "need d k = (case map_of d k of Some v \<Rightarrow> Inr v | None \<Rightarrow> Inl (KeyError k))"

definition set_no_work :: "pdict \<Rightarrow> (bool \<times> pdict) result" where
  "set_no_work d = Inr (if in_phase d ''selecting'' then (True, AList.update ''phase'' (PStr ''no_work'') d) else (False, d))"

definition save_selection :: "pdict \<Rightarrow> pdict \<Rightarrow> (bool \<times> pdict) result" where
  "save_selection prepared d = Inr (if in_phase d ''selecting'' then (True, dupdate d prepared) else (False, d))"

definition text_pv :: "string option \<Rightarrow> pv" where
  "text_pv x = (case x of None \<Rightarrow> PNone | Some s \<Rightarrow> PStr s)"

text \<open>The selection of the native host, checked against the request and made into the next record.\<close>

definition prepare_selection ::
  "'n native \<Rightarrow> real \<Rightarrow> string \<Rightarrow> string \<Rightarrow> string \<Rightarrow> pdict \<Rightarrow> pdict \<Rightarrow> pdict \<Rightarrow> pdict result" where
  "prepare_selection nv now handle project repository requested record candidate =
     (let env = nv_env nv in
      bindR (first_text candidate [''work_item_id'', ''target_id'', ''task_id'']) (\<lambda>work_item.
      bindR (optional_text candidate ''run_id'') (\<lambda>run.
      bindR (optional_text candidate ''assignment_id'') (\<lambda>assignment.
      bindR (first_text candidate [''plan_revision_id'', ''plan_revision'']) (\<lambda>plan.
      case dget_or candidate ''authority_revision'' (dget candidate ''observed_revision'') of
        PInt revision \<Rightarrow>
          bindR (raise_if (revision < 0) (werr ''work_selection_revision_invalid'')) (\<lambda>_.
          bindR (raise_if (dget requested ''task_id'' \<noteq> PNone \<and> dget requested ''task_id'' \<noteq> PStr work_item) (werr ''work_selection_target_mismatch'')) (\<lambda>_.
          bindR (raise_if (dget requested ''run_id'' \<noteq> PNone \<and> dget requested ''run_id'' \<noteq> text_pv run) (werr ''work_selection_run_mismatch'')) (\<lambda>_.
          bindR (operation_key env handle ''create_workspace'' candidate) (\<lambda>ckey.
          bindR (operation_key env handle ''dispatch_attempt'' candidate) (\<lambda>dkey.
          Inr [(''phase'', PStr ''workspace_pending''), (''selection'', PDict candidate), (''project'', PStr project),
               (''repository'', PStr repository), (''request'', PDict requested), (''created_at'', dget_or record ''created_at'' (PFloat (Finite now))),
               (''task_id'', PStr work_item), (''run_id'', text_pv run), (''assignment_id'', text_pv assignment), (''plan_revision_id'', PStr plan),
               (''authority_revision'', PInt revision), (''workspace_id'', PStr (''pcw-ws-'' @ take 32 (sha256 env handle))),
               (''create_workspace_key'', PStr ckey), (''dispatch_key'', PStr dkey)])))))
      | _ \<Rightarrow> Inl (werr ''work_selection_revision_invalid''))))))"

definition store_selection ::
  "'n native \<Rightarrow> string \<Rightarrow> string \<Rightarrow> string \<Rightarrow> pdict \<Rightarrow> pdict \<Rightarrow> pv \<Rightarrow> ('n, pdict) stage" where
  "store_selection nv handle project repository requested record choice =
     bindA (of_result (bounded_mapping (nv_env nv) choice ''work_selection'' MAX_PREVIEW_BYTES)) (\<lambda>candidate.
     bindA (\<lambda>s. (prepare_selection nv (nv_clock nv (hs_world s)) handle project repository requested record candidate, s)) (\<lambda>prepared.
     bindA (store_write nv (\<lambda>ts. atomic_update (nv_env nv) ts ''workflow'' handle project repository (save_selection prepared))) (\<lambda>d.
     if in_phase d ''selecting'' then answer (attention ''workflow_selection_conflict'' (Some handle) []) else ret (Inr d))))"

definition select_stage ::
  "'n native \<Rightarrow> string \<Rightarrow> string \<Rightarrow> string \<Rightarrow> pdict \<Rightarrow> pdict \<Rightarrow> ('n, pdict) stage" where
  "select_stage nv handle project repository requested record =
     (if \<not> in_phase record ''selecting'' then ret (Inr record)
      else
        bindA (invoke nv ''todo_select_next_work'' record
                 [(''run_id'', dget requested ''run_id''), (''work_item_id'', dget requested ''task_id'')]) (\<lambda>reply.
        if needs_attention reply then answer (native_attention reply None)
        else
          let choice = (if has_key reply ''selection'' then dget reply ''selection'' else PDict reply) in
          if choice = PNone then
            bindA (store_write nv (\<lambda>ts. atomic_update (nv_env nv) ts ''workflow'' handle project repository set_no_work)) (\<lambda>d.
            if in_phase d ''no_work'' then answer_bounded nv no_work_packet
            else store_selection nv handle project repository requested d choice)
          else store_selection nv handle project repository requested record choice))"

definition workspace_stage :: "'n native \<Rightarrow> string \<Rightarrow> string \<Rightarrow> string \<Rightarrow> pdict \<Rightarrow> ('n, pdict) stage" where
  "workspace_stage nv handle project repository record =
     (if \<not> in_phase record ''workspace_pending'' then ret (Inr record)
      else
        bindA (of_result (mapR (need record) [''task_id'', ''assignment_id'', ''plan_revision_id'', ''workspace_id''])) (\<lambda>_.
        bindA (invoke_phase nv handle project repository record ''create_workspace'' ''todo_create_workspace''
                 [(''work_item_id'', dget record ''task_id''), (''run_id'', dget record ''run_id''), (''assignment_id'', dget record ''assignment_id''),
                  (''plan_revision_id'', dget record ''plan_revision_id''), (''workspace_id'', dget record ''workspace_id'')]
                 (dget record ''authority_revision'') (dget record ''create_workspace_key'')) (\<lambda>(workspace, record).
        if needs_attention workspace then answer (native_attention workspace None)
        else
          let record = dupdate record [(''phase'', PStr ''dispatch_pending''), (''workspace'', PDict workspace)] in
          bindA (update_workflow nv handle project repository record) (\<lambda>_. ret (Inr record)))))"

definition dispatch_stage :: "'n native \<Rightarrow> string \<Rightarrow> string \<Rightarrow> string \<Rightarrow> pdict \<Rightarrow> ('n, pdict) stage" where
  "dispatch_stage nv handle project repository record =
     (if \<not> in_phase record ''dispatch_pending'' then ret (Inr record)
      else
        bindA (of_result (mapR (need record) [''workspace_id'', ''task_id'', ''assignment_id'', ''plan_revision_id''])) (\<lambda>_.
        bindA (invoke_phase nv handle project repository record ''dispatch_attempt'' ''todo_dispatch_attempt''
                 [(''workspace_id'', dget record ''workspace_id''), (''work_item_id'', dget record ''task_id''), (''run_id'', dget record ''run_id''),
                  (''assignment_id'', dget record ''assignment_id''), (''plan_revision_id'', dget record ''plan_revision_id'')]
                 PNone (dget record ''dispatch_key'')) (\<lambda>(dispatched, record).
        if needs_attention dispatched then answer (native_attention dispatched (Some handle))
        else
          bindA (of_result (case nested_text (PDict dispatched) [''attempt_ref'', ''entity_id''] of
                   Some a \<Rightarrow> Inr (Some a) | None \<Rightarrow> optional_text dispatched ''attempt_id'')) (\<lambda>attempt.
          bindA (of_result (optional_text dispatched ''lease_id'')) (\<lambda>lease.
          if attempt = None \<or> lease = None then throw (werr ''dispatch_receipt_incomplete'')
          else
            let record = dupdate record [(''phase'', PStr ''context_pending''), (''attempt_id'', text_pv attempt), (''lease_id'', text_pv lease),
                 (''dispatch_receipt'', PDict dispatched)] in
            bindA (update_workflow nv handle project repository record) (\<lambda>_.
            bindA (ensure_lease_renewal handle) (\<lambda>_. ret (Inr record))))))))"

definition context_stage :: "'n native \<Rightarrow> string \<Rightarrow> string \<Rightarrow> string \<Rightarrow> pdict \<Rightarrow> ('n, pdict) stage" where
  "context_stage nv handle project repository record =
     (if \<not> in_phase record ''context_pending'' then ret (Inr record)
      else
        bindA (of_result (mapR (need record) [''task_id'', ''assignment_id'', ''attempt_id''])) (\<lambda>_.
        bindA (invoke nv ''todo_build_context'' record
                 [(''work_item_id'', dget record ''task_id''), (''run_id'', dget record ''run_id''), (''assignment_id'', dget record ''assignment_id''),
                  (''attempt_id'', dget record ''attempt_id''), (''max_bytes'', PInt 4096)]) (\<lambda>reply.
        if needs_attention reply then answer (native_attention reply (Some handle))
        else
          bindA (of_result (bounded_mapping (nv_env nv) (PDict reply) ''task_context'' MAX_CONTEXT_CAPSULE_BYTES)) (\<lambda>c0.
          bindA (of_result (context_document_payload (nv_env nv) c0 ''context_capsule'')) (\<lambda>c1.
          bindA (of_result (normalize_context_fragments nv c1)) (\<lambda>c2.
          bindA (ensure_work_item_fragment nv c2 record) (\<lambda>c3.
          bindA (of_result (requirement_ids nv c3)) (\<lambda>reqs.
          bindA (update_workflow nv handle project repository
                   [(''phase'', PStr ''active''), (''context'', PDict c3), (''requirement_ids'', PList (map PStr reqs))]) (\<lambda>d.
          ret (Inr d)))))))))) "

text \<open>Re-observe the attempt, read the record again, and return its packet.\<close>

definition resume_packet :: "'n native \<Rightarrow> string \<Rightarrow> string \<Rightarrow> string \<Rightarrow> pdict \<Rightarrow> ('n, pdict) act" where
  "resume_packet nv handle project repository record =
     bindA (resume_active nv handle project repository record) (\<lambda>resumed.
     if needs_attention resumed then ret resumed
     else
       bindA (store_read nv (get_record (nv_env nv) ''workflow'' (PStr handle) project repository)) (\<lambda>d.
       bindA (ensure_lease_renewal handle) (\<lambda>_.
       of_result (task_packet nv handle (dupdate d [(''project'', PStr project), (''repository'', PStr repository)]) True))))"

definition final_stage :: "'n native \<Rightarrow> string \<Rightarrow> string \<Rightarrow> string \<Rightarrow> bool \<Rightarrow> pdict \<Rightarrow> ('n, pdict) act" where
  "final_stage nv handle project repository is_new record =
     (if in_phase record ''review_pending'' then
        of_result (bounded_response (nv_env nv)
          [(''status'', PStr ''review_pending''), (''workflow_handle'', PStr handle), (''task_id'', dget record ''task_id''),
           (''allowed_actions'', PList [PStr ''inspect_task'', PStr ''next_task'']), (''recommended_next_call'', PStr ''next_task'')])
      else if \<not> in_phase record ''active'' then
        ret (attention ''workflow_recovery_required'' (Some handle) [''inspect_task'', ''finish_task''])
      else if \<not> is_new then resume_packet nv handle project repository record
      else
        bindA (ensure_lease_renewal handle) (\<lambda>_. of_result (task_packet nv handle record False)))"

definition run_stages ::
  "'n native \<Rightarrow> string \<Rightarrow> string \<Rightarrow> string \<Rightarrow> pdict \<Rightarrow> bool \<Rightarrow> pdict \<Rightarrow> ('n, pdict) act" where
  "run_stages nv handle project repository requested is_new record =
     (if in_phase record ''active'' \<and> is_dict (dget record ''context'') then resume_packet nv handle project repository record
      else if in_phase record ''no_work'' then of_result (bounded_response (nv_env nv) no_work_packet)
      else
        bindA (after_stage (select_stage nv handle project repository requested record) (\<lambda>record.
               after_stage (workspace_stage nv handle project repository record) (\<lambda>record.
               after_stage (dispatch_stage nv handle project repository record)
                 (context_stage nv handle project repository)))) (\<lambda>r.
        case r of Inl packet \<Rightarrow> ret packet | Inr record \<Rightarrow> final_stage nv handle project repository is_new record))"

definition optional_component :: "string \<Rightarrow> string option \<Rightarrow> pdict result" where
  "optional_component name v =
     (case v of None \<Rightarrow> Inr [] | Some s \<Rightarrow> bindR (safe_component (PStr s) name 128) (\<lambda>s. Inr [(name, PStr s)]))"

text \<open>The review to return first, for a mutator without a workflow of its own in the scope.\<close>

definition review_first :: "'n native \<Rightarrow> string \<Rightarrow> string \<Rightarrow> string \<Rightarrow> pdict \<Rightarrow> ('n, unit) stage" where
  "review_first nv token project repository requested =
     (if nv_profile nv \<noteq> ''mutator'' then ret (Inr ())
      else
        bindA (store_read nv (find_current_workflow (nv_env nv) project repository requested)) (\<lambda>current.
        if current \<noteq> None then ret (Inr ())
        else
          bindA (next_pending_review nv project repository requested) (\<lambda>review.
          case review of
            None \<Rightarrow> ret (Inr ())
          | Some r \<Rightarrow>
              bindA (store_write nv (\<lambda>ts. reserve_review (nv_env nv) ts token project repository (PDict r))) (\<lambda>(handle, record, _).
              bindA (of_result (review_packet (nv_env nv) handle record)) answer))))"

definition next_task_body ::
  "'n native \<Rightarrow> string \<Rightarrow> string \<Rightarrow> string option \<Rightarrow> string option \<Rightarrow> string option \<Rightarrow> ('n, pdict) act" where
  "next_task_body nv token project repository task_id run_id =
     bindA (scope_of nv project repository) (\<lambda>(project, repository).
     bindA (of_result (optional_component ''task_id'' task_id)) (\<lambda>t.
     bindA (of_result (optional_component ''run_id'' run_id)) (\<lambda>r.
     let requested = t @ r in
     bindA (review_first nv token project repository requested) (\<lambda>first.
     case first of
       Inl packet \<Rightarrow> ret packet
     | Inr _ \<Rightarrow>
         bindA (store_write nv (\<lambda>ts. reserve_workflow (nv_env nv) ts token project repository requested)) (\<lambda>(handle, record, is_new).
         run_stages nv handle project repository requested is_new
           (dupdate record [(''project'', PStr project), (''repository'', PStr repository)]))))))"

text \<open>Every exception becomes a packet that asks for attention.\<close>

definition next_task ::
  "'n native \<Rightarrow> string \<Rightarrow> string \<Rightarrow> string option \<Rightarrow> string option \<Rightarrow> string option \<Rightarrow> 'n host \<Rightarrow> pdict \<times> 'n host" where
  "next_task nv token project repository task_id run_id s =
     (case next_task_body nv token project repository task_id run_id s of
        (Inr packet, s') \<Rightarrow> (packet, s')
      | (Inl (WorkflowError code), s') \<Rightarrow> (attention code None [], s')
      | (Inl _, s') \<Rightarrow> (attention ''compact_workflow_next_task_failed'' None [], s'))"

end
