(* ===== verification/WorkflowNextProps.thy ===== *)
theory WorkflowNextProps
  imports WorkflowNext WorkflowPhases
begin

text \<open>
  What a call of \<^verbatim>\<open>next_task\<close> may do to the journal.  The actions of the host are composed from
  reads, transactions and calls of the native host, so a relation on journals that each of these
  keeps is kept by every action: the interface of the next section, used for two relations.
\<close>

section \<open>Relations kept by actions\<close>

definition runs :: "(journal \<Rightarrow> journal \<Rightarrow> bool) \<Rightarrow> ('n, 'a) act \<Rightarrow> bool" where
  "runs P m \<longleftrightarrow> (\<forall>s r s'. m s = (r, s') \<longrightarrow> P (hs_journal s) (hs_journal s'))"

lemma runsD: "runs P m \<Longrightarrow> m s = (r, s') \<Longrightarrow> P (hs_journal s) (hs_journal s')"
  unfolding runs_def by blast

locale journal_relation =
  fixes P :: "journal \<Rightarrow> journal \<Rightarrow> bool"
  assumes P_refl: "P j j"
    and P_trans: "P i j \<Longrightarrow> P j k \<Longrightarrow> P i k"
begin

lemma runs_same: "(\<And>s. hs_journal (snd (m s)) = hs_journal s) \<Longrightarrow> runs P m"
  unfolding runs_def by (metis P_refl snd_conv)

lemma runs_ret: "runs P (ret a)" and runs_throw: "runs P (throw e)" and runs_of_result: "runs P (of_result r)"
  and runs_read: "runs P (store_read nv f)" and runs_ensure: "runs P (ensure_lease_renewal h)"
  by (rule runs_same, simp add: ret_def throw_def of_result_def store_read_def ensure_lease_renewal_def)+

lemma runs_bind:
  assumes "runs P m" "\<And>a. runs P (f a)"
  shows "runs P (bindA m f)"
  unfolding runs_def
proof (intro allI impI)
  fix s r s' assume b: "bindA m f s = (r, s')"
  obtain q s1 where m: "m s = (q, s1)" by (cases "m s")
  note first = runsD [OF assms(1) m]
  show "P (hs_journal s) (hs_journal s')"
  proof (cases q)
    case (Inl e)
    with m b first show ?thesis by (simp add: bindA_def)
  next
    case (Inr a)
    with m b have "f a s1 = (r, s')" by (simp add: bindA_def)
    from first runsD [OF assms(2) this] show ?thesis by (rule P_trans)
  qed
qed

lemma runs_write:
  assumes "\<And>ts j a j'. f ts j = Inr (a, j') \<Longrightarrow> P j j'"
  shows "runs P (store_write nv f)"
  unfolding runs_def using assms by (auto simp: store_write_def P_refl split: sum.splits)

lemma runs_invoke:
  assumes "\<And>tool args. runs P (nv_invoke nv tool args)"
  shows "runs P (invoke nv tool record args)"
proof (cases "\<exists>p q. dget record ''project'' = PStr p \<and> dget record ''repository'' = PStr q")
  case True
  then obtain p q where "dget record ''project'' = PStr p" "dget record ''repository'' = PStr q" by blast
  then show ?thesis unfolding invoke_def
    by (auto intro!: runs_bind assms split: pv.split intro: runs_ret runs_throw)
next
  case False
  then have "invoke nv tool record args = throw (werr ''workflow_scope_invalid'')"
    by (auto simp: invoke_def split: pv.split)
  then show ?thesis by (simp add: runs_throw)
qed

lemma runs_if: "runs P m \<Longrightarrow> runs P n \<Longrightarrow> runs P (if c then m else n)"
  by simp

lemma runs_prod: "(\<And>a b. runs P (f a b)) \<Longrightarrow> runs P (case x of (a, b) \<Rightarrow> f a b)"
  by (cases x) simp

lemma runs_option: "runs P m \<Longrightarrow> (\<And>a. runs P (f a)) \<Longrightarrow> runs P (case x of None \<Rightarrow> m | Some a \<Rightarrow> f a)"
  by (cases x) simp_all

lemma runs_sum: "(\<And>a. runs P (f a)) \<Longrightarrow> (\<And>b. runs P (g b)) \<Longrightarrow> runs P (case x of Inl a \<Rightarrow> f a | Inr b \<Rightarrow> g b)"
  by (cases x) simp_all

lemmas runs_cases = runs_if runs_prod runs_option runs_sum

lemmas runs_pure = runs_ret runs_throw runs_of_result runs_read runs_ensure

end

text \<open>Another process, and the host itself, change the journal only by the store's operations.\<close>

interpretation steps: journal_relation "(wf_step env)\<^sup>*\<^sup>*" for env
  by unfold_locales (auto intro: rtranclp_trans)

text \<open>Until the host uses its token, nobody does.\<close>

definition token_kept :: "wf_env \<Rightarrow> string \<Rightarrow> journal \<Rightarrow> journal \<Rightarrow> bool" where
  "token_kept env token j j' \<longleftrightarrow> (fresh_handle env j token \<longrightarrow> (wf_step env)\<^sup>*\<^sup>* j j' \<and> fresh_handle env j' token)"

interpretation unused: journal_relation "token_kept env token" for env token
  by unfold_locales (auto simp: token_kept_def intro: rtranclp_trans)

section \<open>The host's actions\<close>

definition cooperative :: "'n native \<Rightarrow> bool" where
  "cooperative nv \<longleftrightarrow> (\<forall>tool args. runs ((wf_step (nv_env nv))\<^sup>*\<^sup>*) (nv_invoke nv tool args))"

definition token_respected :: "'n native \<Rightarrow> string \<Rightarrow> bool" where
  "token_respected nv token \<longleftrightarrow> (\<forall>tool args. runs (token_kept (nv_env nv) token) (nv_invoke nv tool args))"

lemma invoke_steps: "cooperative nv \<Longrightarrow> runs ((wf_step (nv_env nv))\<^sup>*\<^sup>*) (invoke nv tool record args)"
  by (rule steps.runs_invoke) (simp add: cooperative_def)

lemma invoke_unused: "token_respected nv token \<Longrightarrow> runs (token_kept (nv_env nv) token) (invoke nv tool record args)"
  by (rule unused.runs_invoke) (simp add: token_respected_def)

lemma atomic_steps: "runs ((wf_step (nv_env nv))\<^sup>*\<^sup>*) (store_write nv (\<lambda>ts. atomic_update (nv_env nv) ts ''workflow'' h p q f))"
  by (rule steps.runs_write) (auto intro!: r_into_rtranclp ws_atomic)

lemma update_steps: "runs ((wf_step (nv_env nv))\<^sup>*\<^sup>*) (update_workflow nv h p q changes)"
  unfolding update_workflow_def by (rule steps.runs_write) (auto intro!: r_into_rtranclp ws_update)

lemmas step_intros = steps.runs_bind steps.runs_pure atomic_steps update_steps

lemma read_revision_steps: "cooperative nv \<Longrightarrow> runs ((wf_step (nv_env nv))\<^sup>*\<^sup>*) (read_revision nv p q)"
  unfolding read_revision_def by (auto intro!: step_intros invoke_steps split: pv.split)

lemma phase_intent_steps:
  "cooperative nv \<Longrightarrow> runs ((wf_step (nv_env nv))\<^sup>*\<^sup>*) (phase_intent nv h p q rec name tool args er ik)"
  unfolding phase_intent_def Let_def
  by (auto intro!: step_intros read_revision_steps split: pv.split option.split)

lemma refresh_steps:
  "cooperative nv \<Longrightarrow> runs ((wf_step (nv_env nv))\<^sup>*\<^sup>*) (refresh_phase_intent nv h p q rec name tool args)"
  unfolding refresh_phase_intent_def Let_def by (intro step_intros read_revision_steps)

lemma send_phase_steps:
  "cooperative nv \<Longrightarrow> runs ((wf_step (nv_env nv))\<^sup>*\<^sup>*) (send_phase nv h p q rec name tool args er ik)"
  unfolding send_phase_def by (auto intro!: step_intros phase_intent_steps invoke_steps)

lemma invoke_phase_steps:
  "cooperative nv \<Longrightarrow> runs ((wf_step (nv_env nv))\<^sup>*\<^sup>*) (invoke_phase nv h p q rec name tool args er ik)"
  unfolding invoke_phase_def by (auto intro!: step_intros send_phase_steps refresh_steps)

lemma resume_active_steps: "cooperative nv \<Longrightarrow> runs ((wf_step (nv_env nv))\<^sup>*\<^sup>*) (resume_active nv h p q rec)"
  unfolding resume_active_def by (auto intro!: step_intros invoke_steps invoke_phase_steps split: pv.split option.split)

lemma heartbeat_steps: "cooperative nv \<Longrightarrow> runs ((wf_step (nv_env nv))\<^sup>*\<^sup>*) (heartbeat_active nv h p q rec)"
  unfolding heartbeat_active_def by (auto intro!: step_intros invoke_phase_steps split: pv.split option.split)

lemma renewal_body_steps: "cooperative nv \<Longrightarrow> runs ((wf_step (nv_env nv))\<^sup>*\<^sup>*) (renewal_body nv h p q)"
  unfolding renewal_body_def by (auto intro!: step_intros heartbeat_steps)

lemma expand_fragment_steps: "cooperative nv \<Longrightarrow> runs ((wf_step (nv_env nv))\<^sup>*\<^sup>*) (expand_fragment nv rec ref limit off)"
  unfolding expand_fragment_def by (auto intro!: step_intros invoke_steps split: pv.split)

lemma expand_steps: "cooperative nv \<Longrightarrow> runs ((wf_step (nv_env nv))\<^sup>*\<^sup>*) (expand_context_fragment nv rec ref off)"
  unfolding expand_context_fragment_def by (rule expand_fragment_steps)

lemma assemble_steps: "cooperative nv \<Longrightarrow> runs ((wf_step (nv_env nv))\<^sup>*\<^sup>*) (assemble nv rec ref fuel got expected expansion)"
  by (induction nv rec ref fuel got expected expansion rule: assemble.induct)
    (auto intro!: step_intros expand_steps split: sum.split)

lemma ensure_fragment_steps: "cooperative nv \<Longrightarrow> runs ((wf_step (nv_env nv))\<^sup>*\<^sup>*) (ensure_work_item_fragment nv c rec)"
  unfolding ensure_work_item_fragment_def
  by (auto intro!: step_intros expand_steps assemble_steps split: pv.split option.split)

section \<open>The stages\<close>

lemma after_stage_steps:
  assumes "runs ((wf_step env)\<^sup>*\<^sup>*) m" "\<And>a. runs ((wf_step env)\<^sup>*\<^sup>*) (f a)"
  shows "runs ((wf_step env)\<^sup>*\<^sup>*) (after_stage m f)"
  unfolding after_stage_def using assms by (auto intro!: step_intros split: sum.split)

lemma answer_steps: "runs ((wf_step env)\<^sup>*\<^sup>*) (answer packet)" "runs ((wf_step env)\<^sup>*\<^sup>*) (answer_bounded nv packet)"
  unfolding answer_def answer_bounded_def by (intro step_intros)+

lemma clocked_steps: "runs ((wf_step env)\<^sup>*\<^sup>*) (\<lambda>s. (f s, s))"
  by (rule steps.runs_same) simp

lemma store_selection_steps: "runs ((wf_step (nv_env nv))\<^sup>*\<^sup>*) (store_selection nv h p q requested record choice)"
  unfolding store_selection_def by (auto intro!: step_intros answer_steps clocked_steps)

lemma select_stage_steps: "cooperative nv \<Longrightarrow> runs ((wf_step (nv_env nv))\<^sup>*\<^sup>*) (select_stage nv h p q requested record)"
  unfolding select_stage_def Let_def by (auto intro!: step_intros invoke_steps answer_steps store_selection_steps)

lemma workspace_stage_steps: "cooperative nv \<Longrightarrow> runs ((wf_step (nv_env nv))\<^sup>*\<^sup>*) (workspace_stage nv h p q record)"
  unfolding workspace_stage_def Let_def by (auto intro!: step_intros invoke_phase_steps answer_steps)

lemma dispatch_stage_steps: "cooperative nv \<Longrightarrow> runs ((wf_step (nv_env nv))\<^sup>*\<^sup>*) (dispatch_stage nv h p q record)"
  unfolding dispatch_stage_def Let_def by (auto intro!: step_intros invoke_phase_steps answer_steps)

lemma context_stage_steps: "cooperative nv \<Longrightarrow> runs ((wf_step (nv_env nv))\<^sup>*\<^sup>*) (context_stage nv h p q record)"
  unfolding context_stage_def by (auto intro!: step_intros invoke_steps ensure_fragment_steps answer_steps)

lemma resume_packet_steps: "cooperative nv \<Longrightarrow> runs ((wf_step (nv_env nv))\<^sup>*\<^sup>*) (resume_packet nv h p q record)"
  unfolding resume_packet_def by (auto intro!: step_intros resume_active_steps)

lemma final_stage_steps: "cooperative nv \<Longrightarrow> runs ((wf_step (nv_env nv))\<^sup>*\<^sup>*) (final_stage nv h p q is_new record)"
  unfolding final_stage_def by (auto intro!: step_intros resume_packet_steps)

lemmas stage_steps = select_stage_steps workspace_stage_steps dispatch_stage_steps context_stage_steps
  resume_packet_steps final_stage_steps

lemma run_stages_steps: "cooperative nv \<Longrightarrow> runs ((wf_step (nv_env nv))\<^sup>*\<^sup>*) (run_stages nv h p q requested is_new record)"
  unfolding run_stages_def by (auto intro!: step_intros after_stage_steps stage_steps split: sum.split)

section \<open>The token\<close>

lemma review_pages_unused:
  "token_respected nv token \<Longrightarrow> runs (token_kept (nv_env nv) token) (review_pages nv scope selector fuel pg revision queue)"
  by (induction fuel arbitrary: pg revision queue)
    (auto simp: Let_def intro!: unused.runs_bind unused.runs_pure invoke_unused split: pv.split)

lemma next_pending_review_unused:
  "token_respected nv token \<Longrightarrow> runs (token_kept (nv_env nv) token) (next_pending_review nv p q requested)"
  unfolding next_pending_review_def Let_def
  by (auto intro!: unused.runs_bind unused.runs_pure review_pages_unused split: list.split)

lemma scope_of_unused: "runs (token_kept env token) (scope_of nv p q)"
  unfolding scope_of_def by (intro unused.runs_bind unused.runs_pure unused.runs_same [of "\<lambda>s. (f s, s)" for f]) simp

text \<open>
  An action that uses the token at most once, while it is fresh; \<open>K\<close> says which results leave it unused.
\<close>

definition spends :: "wf_env \<Rightarrow> string \<Rightarrow> ('a \<Rightarrow> bool) \<Rightarrow> ('n, 'a) act \<Rightarrow> bool" where
  "spends env token K m \<longleftrightarrow> (\<forall>s r s'. m s = (r, s') \<longrightarrow> fresh_handle env (hs_journal s) token \<longrightarrow>
     (wf_step env)\<^sup>*\<^sup>* (hs_journal s) (hs_journal s') \<and> (\<forall>a. r = Inr a \<longrightarrow> K a \<longrightarrow> fresh_handle env (hs_journal s') token))"

lemma spends_runs: "runs ((wf_step env)\<^sup>*\<^sup>*) m \<Longrightarrow> spends env token (\<lambda>_. False) m"
  unfolding runs_def spends_def by blast

lemma spends_kept: "runs (token_kept env token) m \<Longrightarrow> spends env token K m"
  unfolding runs_def spends_def token_kept_def by blast

lemma spends_write:
  assumes "\<And>ts j a j'. f ts j = Inr (a, j') \<Longrightarrow> fresh_handle env j token \<Longrightarrow> wf_step env j j'"
  shows "spends env token (\<lambda>_. False) (store_write nv f)"
  unfolding spends_def using assms by (auto simp: store_write_def split: sum.splits)

lemma spends_bind:
  assumes m: "spends env token L m" and "\<And>a. L a \<Longrightarrow> spends env token K (f a)"
    and "\<And>a. \<not> L a \<Longrightarrow> runs ((wf_step env)\<^sup>*\<^sup>*) (f a)"
    and K: "\<And>a s b s'. \<not> L a \<Longrightarrow> f a s = (Inr b, s') \<Longrightarrow> \<not> K b"
  shows "spends env token K (bindA m f)"
  unfolding spends_def
proof (intro allI impI)
  fix s r s' assume b: "bindA m f s = (r, s')" and fresh: "fresh_handle env (hs_journal s) token"
  obtain x s1 where x: "m s = (x, s1)" by (cases "m s")
  have first: "(wf_step env)\<^sup>*\<^sup>* (hs_journal s) (hs_journal s1)"
    and left: "\<And>a. x = Inr a \<Longrightarrow> L a \<Longrightarrow> fresh_handle env (hs_journal s1) token"
    using m x fresh unfolding spends_def by blast+
  show "(wf_step env)\<^sup>*\<^sup>* (hs_journal s) (hs_journal s') \<and> (\<forall>a. r = Inr a \<longrightarrow> K a \<longrightarrow> fresh_handle env (hs_journal s') token)"
  proof (cases x)
    case (Inl e)
    with x b first show ?thesis by (auto simp: bindA_def)
  next
    case (Inr a)
    with x b have f: "f a s1 = (r, s')" by (simp add: bindA_def)
    show ?thesis
    proof (cases "L a")
      case True
      from assms(2) [OF True] f left [OF Inr True] first show ?thesis unfolding spends_def by (blast intro: rtranclp_trans)
    next
      case False
      from runsD [OF assms(3) [OF False] f] first have "(wf_step env)\<^sup>*\<^sup>* (hs_journal s) (hs_journal s')" by (meson rtranclp_trans)
      with K [OF False] f show ?thesis by blast
    qed
  qed
qed

lemma spends_after:
  assumes "runs (token_kept env token) m" "\<And>a. spends env token K (f a)"
  shows "spends env token K (bindA m f)"
  by (rule spends_bind [where L = "\<lambda>_. True"]) (use assms in \<open>simp_all add: spends_kept\<close>)

lemma reserves_steps:
  "spends (nv_env nv) token (\<lambda>_. False) (store_write nv (\<lambda>ts. reserve_review (nv_env nv) ts token p q c))"
  "spends (nv_env nv) token (\<lambda>_. False) (store_write nv (\<lambda>ts. reserve_workflow (nv_env nv) ts token p q requested))"
  by (rule spends_write, erule (1) ws_review ws_workflow)+

definition goes_on :: "'a + 'b \<Rightarrow> bool" where
  "goes_on r \<longleftrightarrow> (case r of Inl _ \<Rightarrow> False | Inr _ \<Rightarrow> True)"

lemma review_first_spends:
  assumes "token_respected nv token"
  shows "spends (nv_env nv) token goes_on (review_first nv token p q requested)"
proof -
  have reserve: "spends (nv_env nv) token goes_on (bindA (store_write nv (\<lambda>ts. reserve_review (nv_env nv) ts token p q c))
      (\<lambda>(handle, record, _). bindA (of_result (review_packet (nv_env nv) handle record)) answer))" for c
    by (rule spends_bind [OF reserves_steps(1)])
      (auto simp: bindA_eq_Inr answer_def goes_on_def intro!: step_intros answer_steps)
  have go: "spends (nv_env nv) token goes_on (ret (Inr ()))" by (rule spends_kept) (rule unused.runs_ret)
  have review: "spends (nv_env nv) token goes_on (bindA (next_pending_review nv p q requested) (\<lambda>review.
      case review of None \<Rightarrow> ret (Inr ())
      | Some r \<Rightarrow> bindA (store_write nv (\<lambda>ts. reserve_review (nv_env nv) ts token p q (PDict r)))
          (\<lambda>(handle, record, _). bindA (of_result (review_packet (nv_env nv) handle record)) answer)))"
    by (rule spends_after [OF next_pending_review_unused [OF assms]]) (auto intro: reserve go split: option.split)
  show ?thesis unfolding review_first_def
    by (auto intro!: spends_after [OF unused.runs_read] intro: review go)
qed

lemma next_task_body_spends:
  assumes "cooperative nv" "token_respected nv token"
  shows "spends (nv_env nv) token (\<lambda>_. False) (next_task_body nv token p q task run)"
proof -
  have claim: "spends (nv_env nv) token (\<lambda>_. False) (bindA (store_write nv (\<lambda>ts. reserve_workflow (nv_env nv) ts token a b requested))
      (\<lambda>(handle, record, is_new). run_stages nv handle a b requested is_new (f record)))" for a b requested f
    by (rule spends_bind [OF reserves_steps(2)]) (auto intro: run_stages_steps [OF assms(1)])
  have body: "spends (nv_env nv) token (\<lambda>_. False) (bindA (review_first nv token a b requested) (\<lambda>first. case first of
       Inl packet \<Rightarrow> ret packet
     | Inr _ \<Rightarrow> bindA (store_write nv (\<lambda>ts. reserve_workflow (nv_env nv) ts token a b requested))
         (\<lambda>(handle, record, is_new). run_stages nv handle a b requested is_new (f record))))" for a b requested f
    by (rule spends_bind [OF review_first_spends [OF assms(2)]])
      (auto simp: goes_on_def intro: claim steps.runs_ret split: sum.splits)
  show ?thesis unfolding next_task_body_def Let_def
    by (auto intro!: spends_after scope_of_unused unused.runs_of_result body)
qed

lemma next_task_steps:
  assumes "cooperative nv" "token_respected nv token" "fresh_handle (nv_env nv) (hs_journal s) token"
  shows "(wf_step (nv_env nv))\<^sup>*\<^sup>* (hs_journal s) (hs_journal (snd (next_task nv token project repository task_id run_id s)))"
proof -
  obtain r s' where b: "next_task_body nv token project repository task_id run_id s = (r, s')" by fastforce
  then have "snd (next_task nv token project repository task_id run_id s) = s'"
    by (auto simp: next_task_def split: sum.split exn.split)
  with b next_task_body_spends [OF assms(1,2)] assms(3) show ?thesis unfolding spends_def by metis
qed

lemma lease_renewal_steps:
  assumes "cooperative nv"
  shows "(wf_step (nv_env nv))\<^sup>*\<^sup>* (hs_journal s) (hs_journal (snd (lease_renewal_round nv handle p q s)))"
proof (cases "handle \<in> set (hs_workers s)")
  case True
  obtain r s1 where b: "renewal_body nv handle p q s = (r, s1)" by fastforce
  note first = runsD [OF renewal_body_steps [OF assms] b]
  let ?note = "[(''renewal_attention'', PStr ''lease_renewal_failed'')]"
  obtain x s2 where u: "update_workflow nv handle p q ?note s1 = (x, s2)" by fastforce
  from runsD [OF update_steps u] first have second: "(wf_step (nv_env nv))\<^sup>*\<^sup>* (hs_journal s) (hs_journal s2)" by (rule rtranclp_trans [rotated])
  show ?thesis
    using True b u first second by (auto simp: lease_renewal_round_def stop_lease_renewal_def split: sum.split bool.split)
qed (simp add: lease_renewal_round_def)

text \<open>
  A concurrent selection is not resumed.  When the native host has no work to select, and another
  request has moved the workflow on meanwhile, the selection stage fails with
  \<open>work_selection_invalid\<close> and leaves the record of the other request as it was.
\<close>

theorem concurrent_selection_fails:
  assumes "in_phase record ''selecting''"
    and "invoke nv ''todo_select_next_work'' record
      [(''run_id'', dget requested ''run_id''), (''work_item_id'', dget requested ''task_id'')] s = (Inr [(''selection'', PNone)], s1)"
    and get: "get_record (nv_env nv) ''workflow'' (PStr handle) project repository (hs_journal s1) = Inr d"
    and "\<not> in_phase d ''selecting''" "\<not> in_phase d ''no_work''"
  shows "select_stage nv handle project repository requested record s = (Inl (werr ''work_selection_invalid''), s1)"
proof -
  have safe: "safe_component (PStr handle) ''workflow_handle'' 256 = Inr handle"
    using get by (auto simp: get_record_def bindR_eq_Inr safe_component_def split: if_splits)
  have "set_no_work d = Inr (False, d)" using assms(4) by (simp add: set_no_work_def)
  then have "store_write nv (\<lambda>ts. atomic_update (nv_env nv) ts ''workflow'' handle project repository set_no_work) s1 = (Inr d, s1)"
    using atomic_update_idle(2) [OF get safe] by (simp add: store_write_def)
  moreover have "store_selection nv handle project repository requested d PNone = throw (werr ''work_selection_invalid'')"
    by (simp add: store_selection_def bounded_mapping_def)
  ultimately show ?thesis using assms(1,2,5)
    by (simp add: select_stage_def bindA_run needs_attention_def has_key_def keys_def dget_def dget_or_def throw_def)
qed

end
