(* ===== verification/WorkflowContextDemo.thy ===== *)
theory WorkflowContextDemo
  imports WorkflowDemo WorkflowContextProps WorkflowNextProps
begin

text \<open>A native host that serves one fragment in chunks, and small records, for the properties of the context and of \<^verbatim>\<open>next_task\<close>.\<close>

section \<open>Packets\<close>

theorem compact_size_exact_witness:
  "\<exists>d text. compact_public_context demo_wf_env [(''status'', PStr ''ready'')] [[(''reference'', PDict [(''fragment_id'', PStr ''f'')])]] = Inr d \<and>
     canonical (float_repr demo_wf_env) (PDict d) = Inr text \<and> dget d ''encoded_bytes'' = PInt (int (length text))"
  by (rule compact_size_exact) simp_all

definition demo_record :: pdict where
  "demo_record = [(''task_id'', PStr ''T1''), (''workspace'', PNone), (''context'', PDict [(''status'', PStr ''ready'')])]"

definition demo_task_packet :: pdict where
  "demo_task_packet = packet_base ''h1'' demo_record False @ [(''context'', PDict [(''status'', PStr ''ready'')]), (''task_summary'', PDict [(''task_id'', PStr ''T1'')])]"

lemma demo_task_packet_made: "task_packet demo_native ''h1'' demo_record False = Inr demo_task_packet"
proof -
  have s: "task_summary demo_native demo_record [(''status'', PStr ''ready'')] = Inr [(''task_id'', PStr ''T1'')]"
    by (simp add: task_summary_def demo_record_def dget_def dget_or_def)
  have "bounded_response demo_wf_env demo_task_packet = Inr demo_task_packet"
    unfolding bounded_response_def
    by (rule bounded_small) (simp_all add: demo_task_packet_def packet_base_def demo_record_def dget_def dget_or_def MAX_RESPONSE_BYTES_def)
  moreover have "record_context demo_record = [(''status'', PStr ''ready'')]"
    by (simp add: record_context_def demo_record_def dget_or_def)
  moreover have "nv_env demo_native = demo_wf_env" by (simp add: demo_native_def)
  ultimately show ?thesis by (simp add: task_packet_def s demo_task_packet_def Let_def)
qed

theorem task_packet_bounded_witness:
  "task_packet demo_native ''h1'' demo_record False = Inr demo_task_packet \<and>
   int (json_size (float_repr (nv_env demo_native)) (PDict demo_task_packet)) \<le> 8192"
  using task_packet_bounded [OF demo_task_packet_made] demo_task_packet_made by blast

theorem summaries_fit_witness:
  "\<exists>d. bounded_recovery_summary demo_wf_env [(''status'', PStr ''ready'')] 256 = Inr d \<and>
     int (json_size (float_repr demo_wf_env) (PDict d)) \<le> 256"
  using summaries_fit [of "[(''status'', PStr ''ready'')]" 256 demo_wf_env]
  by (simp add: summary_refs_def inspected_def manifest_of_def dget_def dget_or_def items_of_def del: json_enc.simps)

section \<open>Chunks\<close>

definition demo_content :: string where
  "demo_content = replicate 3000 CHR ''x''"

definition demo_ref :: pdict where
  "demo_ref = [(''fragment_id'', PStr ''f''), (''digest'', PStr ''g'')]"

definition chunk_scope :: pdict where
  "chunk_scope = [(''project'', PStr ''p''), (''repository'', PStr ''r'')]"

definition chunk_native :: "unit native" where
  "chunk_native = demo_native\<lparr>
     nv_invoke := (\<lambda>tool args s. (Inr (PDict [(''status'', PStr ''ok''),
       (''data'', PDict (chunk_doc (\<lambda>x. x) demo_content demo_ref demo_content
          (case dget args ''offset'' of PInt n \<Rightarrow> nat n | _ \<Rightarrow> 0)))]), s)),
     nv_json_loads := (\<lambda>t. if t = demo_content then Some (PDict [(''title'', PStr ''t'')]) else None),
     nv_b64decode := Some\<rparr>"

lemma chunk_native_serves: "serves chunk_native chunk_scope demo_ref (\<lambda>x. x) demo_content demo_content"
proof -
  have "expand_context_fragment chunk_native chunk_scope demo_ref (PInt (int k)) s =
      (Inr (chunk_doc (\<lambda>x. x) demo_content demo_ref demo_content k), s)" for k s
    by (simp add: expand_context_fragment_def expand_fragment_def invoke_def chunk_native_def demo_ref_def chunk_scope_def dget_def dget_or_def bindA_def
        ret_def of_result_def needs_attention_def context_document_payload_def chunk_doc_def)
  then show ?thesis unfolding serves_def by blast
qed

theorem fragment_assembles_witness:
  "\<exists>s'. assemble chunk_native chunk_scope demo_ref 33 [] None (chunk_doc (\<lambda>x. x) demo_content demo_ref demo_content 0) demo_host =
     (Inr [(''title'', PStr ''t'')], s')"
  by (rule fragment_assembles [OF chunk_native_serves])
    (simp_all add: demo_content_def chunk_native_def demo_native_def demo_wf_env_def demo_ref_def)

lemma demo_short_assembled:
  "assemble (chunk_native\<lparr>nv_json_loads := (\<lambda>_. Some (PDict []))\<rparr>) chunk_scope demo_ref 33 [] None (chunk_doc (\<lambda>x. x) ''x'' demo_ref ''x'' 0) demo_host =
     (Inr [], demo_host)"
proof -
  let ?nv = "chunk_native\<lparr>nv_json_loads := (\<lambda>_. Some (PDict []))\<rparr>"
  have "py_eq (PDict demo_ref) (PDict demo_ref)" by (rule py_eq_refl) (simp_all add: demo_ref_def)
  then have "chunk_step ?nv demo_ref (take 0 ''x'') None (chunk_doc (\<lambda>x. x) ''x'' demo_ref ''x'' 0) =
      (if 0 + 2048 < length ''x'' then Inr (Inr (take (0 + 2048) ''x'', ''x'', int (0 + 2048))) else Inr (Inl []))"
    by (intro chunk_doc_step) (simp_all add: chunk_native_def demo_native_def demo_wf_env_def)
  then have c: "chunk_step ?nv demo_ref [] None (chunk_doc (\<lambda>x. x) ''x'' demo_ref ''x'' 0) = Inr (Inl [])" by simp
  have "assemble ?nv chunk_scope demo_ref (Suc 32) [] None (chunk_doc (\<lambda>x. x) ''x'' demo_ref ''x'' 0) demo_host = (Inr [], demo_host)"
    by (simp only: assemble.simps c bindA_of_result) simp
  then show ?thesis by simp
qed

theorem fragment_assembled_witness:
  "\<exists>c all. expansion_chunk (chunk_native\<lparr>nv_json_loads := (\<lambda>_. Some (PDict []))\<rparr>) (chunk_doc (\<lambda>x. x) ''x'' demo_ref ''x'' 0) = Inr (Some c) \<and>
     prefix (ch_data c) all \<and> sha256 demo_wf_env all = ch_digest c"
  using fragment_assembled [OF demo_short_assembled] by (auto simp: chunk_native_def demo_native_def)

section \<open>The next task\<close>

lemma demo_cooperative: "cooperative demo_native" "token_respected demo_native ''h9''"
  unfolding cooperative_def token_respected_def
  by (intro allI steps.runs_same unused.runs_same, simp add: demo_native_def)+

text \<open>A host without work, while another request has moved the workflow to its workspace.\<close>

definition moved_workflow :: wf_entry where
  "moved_workflow = new_entry demo_wf_env ''workflow'' ''h1'' ''p'' ''r'' 0 [(''phase'', PStr ''workspace_pending'')]"

definition idle_native :: "unit native" where
  "idle_native = demo_native\<lparr>nv_invoke := (\<lambda>_ _ s. (Inr (PDict [(''status'', PStr ''ok''), (''data'', PDict [(''selection'', PNone)])]),
     s\<lparr>hs_journal := Decoded (journal_pv [moved_workflow])\<rparr>))\<rparr>"

theorem concurrent_selection_fails_witness:
  "fst (select_stage idle_native ''h1'' ''p'' ''r'' [] (selecting 0 ''p'' ''r'' []) demo_host) = Inl (werr ''work_selection_invalid'')"
proof -
  let ?s = "demo_host\<lparr>hs_journal := Decoded (journal_pv [moved_workflow])\<rparr>"
  have safe: "safe_component (PStr ''h1'') ''workflow_handle'' 256 = Inr ''h1''" by code_simp
  have rd: "read_journal (Decoded (journal_pv [moved_workflow])) = Inr [moved_workflow]"
    by (rule read_journal_pv) (simp_all add: MAX_RECORDS_def moved_workflow_def)
  have f: "find_entry demo_wf_env ''workflow'' ''h1'' ''p'' ''r'' [moved_workflow] = Inr (Some moved_workflow)"
    by (simp add: find_entry_def has_identity_def moved_workflow_def)
  have get: "get_record (nv_env idle_native) ''workflow'' (PStr ''h1'') ''p'' ''r'' (hs_journal ?s) = Inr (en_data moved_workflow)"
    using get_record_reads [OF rd _ safe, of demo_wf_env] f by (simp add: idle_native_def demo_native_def demo_wf_env_def)
  have inv: "invoke idle_native ''todo_select_next_work'' (selecting 0 ''p'' ''r'' [])
      [(''run_id'', dget [] ''run_id''), (''work_item_id'', dget [] ''task_id'')] demo_host = (Inr [(''selection'', PNone)], ?s)"
    by (simp add: invoke_def selecting_def dget_def dget_or_def idle_native_def bindA_def ret_def)
  have "select_stage idle_native ''h1'' ''p'' ''r'' [] (selecting 0 ''p'' ''r'' []) demo_host = (Inl (werr ''work_selection_invalid''), ?s)"
    by (rule concurrent_selection_fails [OF _ inv get])
      (simp_all add: in_phase_def selecting_def moved_workflow_def dget_def dget_or_def)
  then show ?thesis by simp
qed

end
