(* ===== verification/PyBuiltins.thy ===== *)
theory PyBuiltins
  imports PyText
begin

text \<open>
  Builtins of Python that the later components share: lines and words of a text, decimal numbers, \<^verbatim>\<open>int\<close> of a
  value, membership in a set of texts, iteration over a value, and \<^verbatim>\<open>a or b\<close>.
\<close>

section \<open>Text\<close>

text \<open>\<^verbatim>\<open>str.splitlines\<close>, \<^verbatim>\<open>str.split()\<close>, \<^verbatim>\<open>str.isdigit\<close> and \<^verbatim>\<open>int\<close> of text.\<close>

definition LF :: char where
  "LF = char_of (10 :: nat)"

definition CR :: char where
  "CR = char_of (13 :: nat)"

definition TAB :: char where
  "TAB = char_of (9 :: nat)"

definition is_break :: "char \<Rightarrow> bool" where
  "is_break c \<longleftrightarrow> (10 \<le> (of_char c :: nat) \<and> (of_char c :: nat) \<le> 13) \<or> (28 \<le> (of_char c :: nat) \<and> (of_char c :: nat) \<le> 30)"

fun drop_break :: "string \<Rightarrow> string" where
  "drop_break [] = []"
| "drop_break [c] = []"
| "drop_break (c # d # s) = (if c = CR \<and> d = LF then s else d # s)"

lemma drop_break_length: "length s \<le> n \<Longrightarrow> 0 < n \<Longrightarrow> length (drop_break s) < n"
  by (induction s rule: drop_break.induct) auto

function splitlines :: "string \<Rightarrow> string list" where
  "splitlines s =
     (if s = [] then []
      else takeWhile (\<lambda>c. \<not> is_break c) s # splitlines (drop_break (dropWhile (\<lambda>c. \<not> is_break c) s)))"
  by pat_completeness auto

termination by (relation "measure length") (auto intro!: drop_break_length length_dropWhile_le)

declare splitlines.simps [simp del]

function words :: "string \<Rightarrow> string list" where
  "words s =
     (case dropWhile is_space s of
        [] \<Rightarrow> []
      | c # t \<Rightarrow> takeWhile (\<lambda>c. \<not> is_space c) (c # t) # words (dropWhile (\<lambda>c. \<not> is_space c) t))"
  by pat_completeness auto

termination
proof (relation "measure length", simp_all)
  fix s :: string and c t assume "dropWhile is_space s = c # t"
  then have "length (c # t) \<le> length s" by (metis length_dropWhile_le)
  then show "length (dropWhile (\<lambda>c. \<not> is_space c) t) < length s"
    using length_dropWhile_le [of "\<lambda>c. \<not> is_space c" t] by (simp del: length_dropWhile_le)
qed

declare words.simps [simp del]

definition isdigit :: "string \<Rightarrow> bool" where
  "isdigit s \<longleftrightarrow> s \<noteq> [] \<and> list_all is_digit s"

definition digits_value :: "string \<Rightarrow> int" where
  "digits_value s = foldl (\<lambda>n c. 10 * n + (int (of_char c) - 48)) 0 s"

definition MAX_DIGITS :: int where
  "MAX_DIGITS = 4300"

definition unsign :: "string \<Rightarrow> bool \<times> string" where
  "unsign s = (case s of
     c # r \<Rightarrow> if c = CHR ''-'' then (True, r) else if c = CHR ''+'' then (False, r) else (False, s)
   | [] \<Rightarrow> (False, []))"

definition py_int :: "string \<Rightarrow> int result" where
  "py_int s =
     (let (neg, u) = unsign (strip s); parts = split_on (CHR ''_'') u; n = digits_value (concat parts) in
      if \<not> list_all isdigit parts then Inl (ValueError ''invalid literal for int()'')
      else if int (length (concat parts)) > MAX_DIGITS then Inl (ValueError ''Exceeds the limit for integer string conversion'')
      else Inr (if neg then - n else n))"

section \<open>Values\<close>

definition mapping_or_empty :: "pv \<Rightarrow> pdict" where
  "mapping_or_empty v = (case v of PDict d \<Rightarrow> d | _ \<Rightarrow> [])"

text \<open>\<^verbatim>\<open>int(v)\<close>.\<close>

definition py_trunc :: "real \<Rightarrow> int" where
  "py_trunc x = (if x < 0 then - \<lfloor>- x\<rfloor> else \<lfloor>x\<rfloor>)"

fun py_int_of :: "pv \<Rightarrow> int result" where
  "py_int_of (PInt i) = Inr i"
| "py_int_of (PBool b) = Inr (if b then 1 else 0)"
| "py_int_of (PStr s) = py_int s"
| "py_int_of (PFloat (Finite x)) = Inr (py_trunc x)"
| "py_int_of (PFloat NaN) = Inl (ValueError ''cannot convert float NaN to integer'')"
| "py_int_of (PFloat _) = Inl (OverflowError ''cannot convert float infinity to integer'')"
| "py_int_of _ = Inl (TypeError ''int() argument must be a string or a real number'')"

fun unhashable :: "pv \<Rightarrow> bool" where
  "unhashable (PList _) = True"
| "unhashable (PDict _) = True"
| "unhashable _ = False"

text \<open>\<^verbatim>\<open>v in {...}\<close> raises for an unhashable value.\<close>

definition text_in :: "pv \<Rightarrow> string list \<Rightarrow> bool result" where
  "text_in v xs =
     (case v of
        PList _ \<Rightarrow> Inl (TypeError ''unhashable type'')
      | PDict _ \<Rightarrow> Inl (TypeError ''unhashable type'')
      | _ \<Rightarrow> Inr (v \<in> PStr ` set xs))"

text \<open>\<^verbatim>\<open>a or b\<close>, \<^verbatim>\<open>for x in v\<close> and the receiver of \<^verbatim>\<open>v.get\<close>.\<close>

definition pv_or :: "pv \<Rightarrow> pv \<Rightarrow> pv" where
  "pv_or a b = (if truthy a then a else b)"

definition iter_of :: "pv \<Rightarrow> pv list result" where
  "iter_of v = (case v of
     PList xs \<Rightarrow> Inr xs
   | PStr s \<Rightarrow> Inr (map (\<lambda>c. PStr [c]) s)
   | PDict d \<Rightarrow> Inr (map (\<lambda>p. PStr (fst p)) d)
   | _ \<Rightarrow> Inl (TypeError ''object is not iterable''))"

definition as_dict :: "pv \<Rightarrow> pdict result" where
  "as_dict v = (case v of PDict d \<Rightarrow> Inr d | _ \<Rightarrow> Inl (AttributeError ''get''))"

fun foldR :: "('a \<Rightarrow> 'b \<Rightarrow> 'b result) \<Rightarrow> 'a list \<Rightarrow> 'b \<Rightarrow> 'b result" where
  "foldR f [] b = Inr b"
| "foldR f (x # xs) b = bindR (f x b) (foldR f xs)"

text \<open>\<^verbatim>\<open>",".join(v)\<close>.\<close>

definition join_of :: "pv \<Rightarrow> string result" where
  "join_of v =
     bindR (iter_of v) (\<lambda>xs.
     bindR (mapR (\<lambda>x. case x of PStr s \<Rightarrow> Inr s | _ \<Rightarrow> Inl (TypeError ''sequence item: expected str instance'')) xs) (\<lambda>ss.
     Inr (join '','' ss)))"

text \<open>\<^verbatim>\<open>list(dict.fromkeys(xs))\<close>: the first occurrences.\<close>

definition dedup :: "'a list \<Rightarrow> 'a list" where
  "dedup xs = rev (remdups (rev xs))"

lemma set_dedup [simp]: "set (dedup xs) = set xs"
  by (simp add: dedup_def)

lemma distinct_dedup [simp]: "distinct (dedup xs)"
  by (simp add: dedup_def)

text \<open>
  \<^verbatim>\<open>str(v)\<close>; how a float, a list or a dictionary is written is the argument \<open>sh\<close>.
\<close>

fun py_str :: "(pv \<Rightarrow> string) \<Rightarrow> pv \<Rightarrow> string" where
  "py_str sh (PStr s) = s"
| "py_str sh PNone = ''None''"
| "py_str sh (PBool b) = (if b then ''True'' else ''False'')"
| "py_str sh (PInt i) = string_of_int i"
| "py_str sh v = sh v"

text \<open>\<^verbatim>\<open>any\<close> stops at the first hit; a comprehension with a condition that may raise.\<close>

fun anyR :: "('a \<Rightarrow> bool result) \<Rightarrow> 'a list \<Rightarrow> bool result" where
  "anyR f [] = Inr False"
| "anyR f (x # xs) = bindR (f x) (\<lambda>b. if b then Inr True else anyR f xs)"

fun filterR :: "('a \<Rightarrow> bool result) \<Rightarrow> 'a list \<Rightarrow> 'a list result" where
  "filterR f [] = Inr []"
| "filterR f (x # xs) = bindR (f x) (\<lambda>b. bindR (filterR f xs) (\<lambda>ys. Inr (if b then x # ys else ys)))"

definition andR :: "bool \<Rightarrow> bool result \<Rightarrow> bool result" where
  "andR b r = (if b then r else Inr False)"

definition dsetdefault :: "pdict \<Rightarrow> string \<Rightarrow> pv \<Rightarrow> pdict" where
  "dsetdefault d k v = (if has_key d k then d else d @ [(k, v)])"

text \<open>The dictionaries among the elements: \<^verbatim>\<open>[x for x in xs if isinstance(x, dict)]\<close>.\<close>

definition dicts_of :: "pv list \<Rightarrow> pdict list" where
  "dicts_of xs = concat (map (\<lambda>v. case v of PDict d \<Rightarrow> [d] | _ \<Rightarrow> []) xs)"

text \<open>
  \<^verbatim>\<open>dict(v)\<close>: a copy of a dictionary, or the dictionary of a sequence of pairs with text keys; anything else
  raises.
\<close>

definition pair_of :: "pv \<Rightarrow> (string \<times> pv) result" where
  "pair_of v =
     bindR (iter_of v) (\<lambda>xs. case xs of
       [k, x] \<Rightarrow> (case k of PStr s \<Rightarrow> Inr (s, x) | _ \<Rightarrow> Inl (TypeError ''not a text key''))
     | _ \<Rightarrow> Inl (ValueError ''dictionary update sequence element has wrong length''))"

definition dict_from :: "pv \<Rightarrow> pdict result" where
  "dict_from v = (case v of
     PDict d \<Rightarrow> Inr d
   | _ \<Rightarrow> bindR (iter_of v) (\<lambda>xs. bindR (mapR pair_of xs) (\<lambda>ps. Inr (dupdate [] ps))))"

lemma filterR_eq_Inr:
  "filterR f xs = Inr ys \<longleftrightarrow> (\<exists>p. (\<forall>x \<in> set xs. f x = Inr (p x)) \<and> ys = filter p xs)"
proof (induction xs arbitrary: ys)
  case (Cons x xs)
  show ?case
  proof
    assume "filterR f (x # xs) = Inr ys"
    then obtain b zs p where b: "f x = Inr b" "ys = (if b then x # zs else zs)" "\<forall>y \<in> set xs. f y = Inr (p y)" "zs = filter p xs"
      by (auto simp: bindR_eq_Inr Cons.IH)
    let ?p = "\<lambda>y. projr (f y)"
    from b have "\<forall>y \<in> set (x # xs). f y = Inr (?p y)" "ys = filter ?p (x # xs)" by (auto intro: filter_cong)
    then show "\<exists>p. (\<forall>y \<in> set (x # xs). f y = Inr (p y)) \<and> ys = filter p (x # xs)" by (intro exI [of _ ?p] conjI)
  next
    assume "\<exists>p. (\<forall>y \<in> set (x # xs). f y = Inr (p y)) \<and> ys = filter p (x # xs)"
    then obtain p where "\<forall>y \<in> set (x # xs). f y = Inr (p y)" "ys = filter p (x # xs)" by blast
    moreover then have "filterR f xs = Inr (filter p xs)" using Cons.IH by auto
    ultimately show "filterR f (x # xs) = Inr ys" by simp
  qed
qed auto

lemma filterR_total: "filterR (\<lambda>x. Inr (p x)) xs = Inr (filter p xs)"
  by (induction xs) auto

lemma filterR_subset: "filterR f xs = Inr ys \<Longrightarrow> set ys \<subseteq> set xs"
  by (auto simp: filterR_eq_Inr)

text \<open>Dictionaries that are filled in a loop.\<close>

lemma in_update: "p \<in> set (AList.update k v d) \<Longrightarrow> p = (k, v) \<or> p \<in> set d"
  by (induction d) (auto split: if_splits)

lemma in_fold_update:
  "p \<in> set (fold (\<lambda>x. case f x of (k, v) \<Rightarrow> AList.update k v) xs d) \<Longrightarrow> p \<in> f ` set xs \<or> p \<in> set d"
  by (induction xs arbitrary: d) (fastforce dest: in_update split: prod.splits)+

lemma keys_fold_update:
  "fst ` set (fold (\<lambda>x. case f x of (k, v) \<Rightarrow> AList.update k v) xs d) = fst ` f ` set xs \<union> fst ` set d"
  by (induction xs arbitrary: d) (auto simp: dom_update split: prod.splits)

end
