(* ===== verification/WorkflowCoordinate.thy ===== *)
theory WorkflowCoordinate
  imports WorkflowContext PyBuiltins
begin

text \<open>
  The actions of \<^verbatim>\<open>coordinate_task\<close> in \<^verbatim>\<open>src/src/project_control/compact_workflow.py\<close>: the native request
  each stands for, the receipts that prove an integration or a release, and one execution of an
  action, recorded so that it is not sent twice.
\<close>

section \<open>Membership and replies\<close>

definition attention_next :: "string \<Rightarrow> string \<Rightarrow> string list \<Rightarrow> string \<Rightarrow> pdict" where
  "attention_next reason handle allowed next_call =
     AList.update ''recommended_next_call'' (PStr next_call) (attention reason (Some handle) allowed)"

definition generated_id :: "wf_env \<Rightarrow> string \<Rightarrow> string \<Rightarrow> pv" where
  "generated_id env pre handle = PStr (''pcw-'' @ pre @ ''-'' @ take 32 (sha256 env handle))"

section \<open>The native request of an action\<close>

fun required :: "pdict \<Rightarrow> string list \<Rightarrow> pdict result" where
  "required d [] = Inr []"
| "required d (k # ks) =
     bindR (raise_if (\<not> has_key d k) (werr (k @ ''_missing''))) (\<lambda>_.
     bindR (required d ks) (\<lambda>rest. Inr ((k, dget d k) # rest)))"

definition given :: "pdict \<Rightarrow> string list \<Rightarrow> pdict" where
  "given d ks = map (\<lambda>k. (k, dget d k)) (filter (has_key d) ks)"

definition DECLARATION_ACTIONS :: "(string \<times> string \<times> string list) list" where
  "DECLARATION_ACTIONS =
     [(''arrive'', ''todo_arrive_rendezvous'', [''participant'']), (''arrive_rendezvous'', ''todo_arrive_rendezvous'', [''participant'']),
      (''publish_interface'', ''todo_publish_interface'', [''version'', ''rationale'']),
      (''resolve_decision'', ''todo_resolve_decision'', [''option_id'', ''rationale'']),
      (''accept_checkpoint'', ''todo_accept_checkpoint'', [''evidence_ids'', ''rationale'']),
      (''release_barrier'', ''todo_release_barrier'', [''rationale'']), (''open_blocker'', ''todo_open_blocker'', [''reason'']),
      (''clear_blocker'', ''todo_clear_blocker'', [''reason''])]"

definition declaration_request :: "pdict \<Rightarrow> pdict \<Rightarrow> pv \<Rightarrow> string \<times> string list \<Rightarrow> (string \<times> pdict) result" where
  "declaration_request context d plan tv =
     bindR (raise_if (\<not> truthy plan) (werr ''plan_revision_unavailable'')) (\<lambda>_.
     bindR (required d [''declaration_id'']) (\<lambda>base.
     bindR (required d (snd tv)) (\<lambda>vs.
     Inr (fst tv, dupdate context (dupdate (base @ [(''plan_revision_id'', plan)]) vs)))))"

definition finding_request :: "pdict \<Rightarrow> string \<Rightarrow> pdict \<Rightarrow> (string \<times> pdict) result" where
  "finding_request context action d =
     bindR (required d [''work_item_id'', ''source_manifest'']) (\<lambda>base.
     if action \<in> {''publish_context'', ''publish_finding''} then
       bindR (required d [''source_fragment_refs'', ''summary'']) (\<lambda>more.
       Inr (''todo_publish_finding'', dupdate context (base @ more @ given d [''finding_id'', ''expected_finding_version''])))
     else
       bindR (required d [''finding_id'', ''finding_version'', ''reason'']) (\<lambda>more.
       Inr (''todo_invalidate_finding'', dupdate context (base @ more))))"

definition child_request :: "wf_env \<Rightarrow> string \<Rightarrow> string \<Rightarrow> pdict \<Rightarrow> pv \<Rightarrow> (string \<times> pdict) result" where
  "child_request env handle action d attempt =
     (let parent = (\<lambda>native. dupdate [(''parent_attempt_id'', attempt)] native) in
      if action \<in> {''fork'', ''start_child''} then
        bindR (required d [''scope'', ''actions'']) (\<lambda>base.
        Inr (''todo_start_child'', parent (base @
          [(''logical_id'', dget_or d ''logical_id'' (generated_id env ''logical'' handle)),
           (''execution_id'', dget_or d ''execution_id'' (generated_id env ''child'' handle))] @ given d [''retry_of''])))
      else if action \<in> {''accept_child'', ''reject_child'', ''review_child_candidate''} then
        bindR (required d [''execution_id'', ''candidate_id'']) (\<lambda>base.
        Inr (''todo_review_child_candidate'', parent (base @
          [(''decision'', (if action = ''accept_child'' then PStr ''accepted'' else if action = ''reject_child'' then PStr ''rejected'' else dget d ''decision'')),
           (''review_id'', dget_or d ''review_id'' (generated_id env ''review'' handle))] @ given d [''reason''])))
      else if action = ''submit_child_candidate'' then
        bindR (required d [''execution_id'', ''candidate_id'', ''summary'']) (\<lambda>base.
        Inr (''todo_submit_child_candidate'', parent (base @ [(''artifacts'', dget_or d ''artifacts'' (PList []))])))
      else if action = ''cancel_child'' then
        bindR (required d [''execution_id'']) (\<lambda>base.
        Inr (''todo_cancel_child'', parent (base @
          [(''cancellation_id'', dget_or d ''cancellation_id'' (generated_id env ''cancel'' handle))] @ given d [''reason''])))
      else
        bindR (required d [''execution_id'']) (\<lambda>base. Inr (''todo_reconcile_child'', parent base)))"

definition CHILD_ACTIONS :: "string list" where
  "CHILD_ACTIONS = [''fork'', ''start_child'', ''accept_child'', ''reject_child'', ''review_child_candidate'', ''submit_child_candidate'',
     ''cancel_child'', ''reconcile_child'']"

definition RESOURCE_TOOLS :: "(string \<times> string) list" where
  "RESOURCE_TOOLS = [(''reconcile_resource'', ''todo_reconcile_resource''), (''retry_resource'', ''todo_retry_resource''),
     (''release_resource'', ''todo_release_resource'')]"

definition coordinate_arguments :: "wf_env \<Rightarrow> string \<Rightarrow> string \<Rightarrow> pdict \<Rightarrow> pdict \<Rightarrow> (string \<times> pdict) result" where
  "coordinate_arguments env handle action d record =
     (let attempt = dget record ''attempt_id'';
          context = [(''run_id'', dget record ''run_id''), (''assignment_id'', dget record ''assignment_id''), (''attempt_id'', attempt)] in
      bindR (operation_key env handle (''coordinate:'' @ action) d) (\<lambda>_.
      if action = ''sync'' then
        Inr (''todo_sync_inbox'', context @
          [(''scope'', dget_or d ''scope'' (PDict [(''kind'', PStr ''attempt''), (''entity_id'', attempt)])), (''limit'', dget_or d ''limit'' (PInt 50))])
      else if action = ''message'' then
        bindR (required d [''scope'', ''recipients'', ''subject'']) (\<lambda>base.
        Inr (''todo_send_message'', dupdate context (base @ given d [''message_type'', ''body'', ''content_ref''])))
      else if action = ''answer'' then
        bindR (required d [''question_id'']) (\<lambda>base.
        Inr (''todo_answer_question'', dupdate context (base @ given d [''body'', ''content_ref''])))
      else case map_of DECLARATION_ACTIONS action of
        Some tv \<Rightarrow> declaration_request context d (dget record ''plan_revision_id'') tv
      | None \<Rightarrow>
          if action \<in> {''publish_context'', ''publish_finding'', ''invalidate_finding''} then finding_request context action d
          else if action \<in> set CHILD_ACTIONS then child_request env handle action d attempt
          else if action = ''recover'' then bindR (required d [''intent'']) (\<lambda>base. Inr (''todo_apply_recovery'', base))
          else if action = ''integrate'' then
            bindR (raise_if (\<not> truthy attempt) (werr ''attempt_unavailable'')) (\<lambda>_.
            Inr (''todo_integrate_attempt'', [(''attempt_id'', attempt)]))
          else if action \<in> {''accept_outcome'', ''reject_outcome''} then
            bindR (raise_if (\<not> truthy attempt \<or> \<not> is_str (dget record ''candidate_id'')) (werr ''candidate_unavailable'')) (\<lambda>_.
            Inr (if action = ''accept_outcome'' then ''todo_accept_outcome'' else ''todo_reject_outcome'',
                 [(''attempt_id'', attempt), (''candidate_id'', dget record ''candidate_id'')]))
          else if action = ''reserve_resource'' then
            bindR (raise_if (\<not> truthy attempt) (werr ''attempt_unavailable'')) (\<lambda>_.
            bindR (required d [''resource_class'', ''units'']) (\<lambda>base.
            Inr (''todo_reserve_resource'', (''attempt_id'', attempt) # base)))
          else case map_of RESOURCE_TOOLS action of
            Some tool \<Rightarrow> bindR (required d [''operation_id'']) (\<lambda>base. Inr (tool, base))
          | None \<Rightarrow> Inl (werr ''workflow_action_unsupported'')))"

section \<open>Receipts\<close>

record integration =
  ig_applied :: bool
  ig_operation :: pv
  ig_state :: pv
  ig_disposition :: pv
  ig_reason :: string

definition empty_integration :: integration where
  "empty_integration = \<lparr>ig_applied = False, ig_operation = PNone, ig_state = PStr ''unknown'', ig_disposition = PNone,
     ig_reason = ''integration_receipt_invalid''\<rparr>"

definition is_document :: "pdict \<Rightarrow> string \<Rightarrow> bool" where
  "is_document d kind \<longleftrightarrow> dget d ''format'' = PStr ''todo-orchestrator.api-document'' \<and> eq_int (dget d ''version'') 1 \<and> dget d ''kind'' = PStr kind"

definition text_or_none :: "pv \<Rightarrow> pv" where
  "text_or_none v = (if is_str v then v else PNone)"

definition git_integration_result :: "pv \<Rightarrow> integration result" where
  "git_integration_result v =
     (case v of
        PDict d \<Rightarrow>
          if \<not> is_document d ''git_effect'' then Inr empty_integration
          else (case dget d ''payload'' of
            PDict p \<Rightarrow>
              let oid = dget p ''operation_id''; state = dget p ''state'';
                  observation = (case dget p ''observation'' of PDict b \<Rightarrow> Some b | _ \<Rightarrow> None);
                  disposition = (case observation of Some b \<Rightarrow> dget b ''disposition'' | None \<Rightarrow> PNone)
              in bindR (text_in state [''dirty'', ''conflict'', ''unknown'', ''not_applied'', ''rejected'']) (\<lambda>named.
                 let r = \<lparr>ig_applied = False, ig_operation = text_or_none oid, ig_state = (if is_str state then state else PStr ''unknown''),
                       ig_disposition = text_or_none disposition,
                       ig_reason = (if named then ''integration_'' @ str_of state else ''integration_not_confirmed_applied'')\<rparr>
                 in case observation of
                      None \<Rightarrow> Inr r
                    | Some b \<Rightarrow>
                        if \<not> is_nonempty_str oid \<or> (case dget p ''request'' of PDict q \<Rightarrow> dget q ''operation'' \<noteq> PStr ''integrate'' | _ \<Rightarrow> True) \<or>
                           dget b ''operation_id'' \<noteq> oid
                        then Inr r
                        else if state = PStr ''finalized'' \<and> disposition = PStr ''applied'' \<and>
                                (case dget b ''resulting_source'' of PStr g \<Rightarrow> is_hex64 g | _ \<Rightarrow> False)
                        then Inr (r\<lparr>ig_applied := True, ig_reason := ''integration_applied''\<rparr>) else Inr r)
          | _ \<Rightarrow> Inr empty_integration)
      | _ \<Rightarrow> Inr empty_integration)"

definition integration_attention :: "wf_env \<Rightarrow> string \<Rightarrow> integration \<Rightarrow> pdict result" where
  "integration_attention env handle ig =
     bounded_response env
       ([(''status'', PStr ''attention_required''), (''reason'', PStr (ig_reason ig)), (''workflow_handle'', PStr handle),
         (''integration_state'', ig_state ig), (''disposition'', ig_disposition ig), (''operation_id'', ig_operation ig),
         (''allowed_actions'', PList [PStr ''inspect_task'']),
         (''recommended_next_call'', PStr (if is_nonempty_str (ig_operation ig) then ''inspect_task(kind=effect, target=<operation_id>)''
            else ''inspect_task(kind=integration)''))] @
        (if is_nonempty_str (ig_operation ig)
         then [(''recovery_route'', PStr ''Inspect this exact external operation and use only its current native recovery intent.'')] else []))"

definition recovery_payload :: "pdict \<Rightarrow> pdict" where
  "recovery_payload d =
     (if dget d ''format'' = PStr ''todo-orchestrator.api-document'' then
        (case dget d ''payload'' of PDict p \<Rightarrow> if is_document d ''recovery'' then p else [] | _ \<Rightarrow> [])
      else d)"

definition RELEASING :: "string list" where
  "RELEASING = [''release_expired_attempt'', ''handoff_dirty_workspace'']"

definition field_of :: "pv \<Rightarrow> string \<Rightarrow> pv" where
  "field_of v k = (case v of PDict d \<Rightarrow> dget d k | _ \<Rightarrow> PNone)"

definition recovery_confirms :: "pdict \<Rightarrow> pdict \<Rightarrow> bool result" where
  "recovery_confirms result record =
     (let d = recovery_payload result in
      bindR (text_in (dget d ''disposition'') RELEASING) (\<lambda>releasing.
      if \<not> releasing then Inr False
      else (case (dget record ''attempt_id'', dget record ''lease_id'', dget d ''intent'') of
              (PStr attempt, PStr lease, PDict intent) \<Rightarrow>
                let receipt = field_of (dget d ''result'') ''receipt''; command = field_of receipt ''result'' in
                Inr (dget intent ''kind'' = dget d ''disposition'' \<and>
                     field_of (dget intent ''attempt'') ''entity_id'' = PStr attempt \<and>
                     dget intent ''expected_lease_id'' = PStr lease \<and>
                     field_of receipt ''command_kind'' = PStr ''todo.attempt.reconcile_expired'' \<and>
                     field_of command ''attempt_id'' = PStr attempt \<and> field_of command ''state'' = PStr ''released'')
            | _ \<Rightarrow> Inr False)))"

section \<open>One action\<close>

definition action_digest :: "wf_env \<Rightarrow> string \<Rightarrow> pdict \<Rightarrow> string result" where
  "action_digest env action d = bindR (canonical (float_repr env) (PDict d)) (\<lambda>t. Inr (sha256 env (action @ NUL @ t)))"

definition operations_of :: "pdict \<Rightarrow> pdict" where
  "operations_of record = (case dget_or record ''operations'' (PDict []) of PDict d \<Rightarrow> d | _ \<Rightarrow> [])"

definition action_reply :: "wf_env \<Rightarrow> string \<Rightarrow> string \<Rightarrow> pv \<Rightarrow> pdict result" where
  "action_reply env handle action result =
     bounded_response env [(''status'', PStr ''ok''), (''action'', PStr action), (''result'', result), (''workflow_handle'', PStr handle)]"

text \<open>An action that is complete is answered from its record.\<close>

definition replay_action ::
  "'n native \<Rightarrow> string \<Rightarrow> string \<Rightarrow> string \<Rightarrow> string \<Rightarrow> pdict \<Rightarrow> pv \<Rightarrow> ('n, pdict) act" where
  "replay_action nv handle project repository action record result =
     bindA (case result of
              PDict d \<Rightarrow>
                if action = ''recover'' then
                  bindA (of_result (recovery_confirms d record)) (\<lambda>released.
                  if released then bindA (update_workflow nv handle project repository [(''phase'', PStr ''released''), (''release_receipt'', result)]) (\<lambda>_. ret ())
                  else ret ())
                else ret ()
            | _ \<Rightarrow> ret ()) (\<lambda>_.
     if action = ''integrate'' then
       bindA (of_result (git_integration_result result)) (\<lambda>ig.
       if ig_applied ig then
         bindA (update_workflow nv handle project repository
                  [(''phase'', PStr ''integrated''), (''integration_receipt'', result), (''integration_operation_id'', ig_operation ig)]) (\<lambda>_.
         of_result (action_reply (nv_env nv) handle action result))
       else of_result (integration_attention (nv_env nv) handle ig))
     else of_result (action_reply (nv_env nv) handle action result))"

definition pending_operation :: "string \<Rightarrow> string \<Rightarrow> pv" where
  "pending_operation action key = PDict [(''action'', PStr action), (''key'', PStr key), (''state'', PStr ''pending'')]"

definition complete_operation :: "string \<Rightarrow> string \<Rightarrow> pdict \<Rightarrow> pv" where
  "complete_operation action key result =
     PDict [(''action'', PStr action), (''key'', PStr key), (''state'', PStr ''complete''), (''result'', PDict result)]"

text \<open>What the record gains with the result of an action.\<close>

definition action_changes :: "string \<Rightarrow> pdict \<Rightarrow> integration \<Rightarrow> bool \<Rightarrow> pdict" where
  "action_changes action result ig released =
     (if released then [(''phase'', PStr ''released''), (''release_receipt'', PDict result)] else []) @
     (if action \<in> {''publish_finding'', ''publish_context''}
      then (case nested_text (PDict result) [''finding_ref'', ''entity_id''] of Some f \<Rightarrow> [(''finding_id'', PStr f)] | None \<Rightarrow> []) else []) @
     (if action = ''integrate'' then
        [(''integration_receipt'', PDict result)] @
        (if ig_operation ig \<noteq> PNone then [(''integration_operation_id'', ig_operation ig)] else []) @
        (if ig_applied ig then [(''phase'', PStr ''integrated'')] else [])
      else if action = ''accept_outcome'' then [(''phase'', PStr ''review_accepted'')]
      else if action = ''reject_outcome'' then [(''phase'', PStr ''review_rejected'')]
      else [])"

definition intent_of :: "pdict \<Rightarrow> string \<Rightarrow> pv" where
  "intent_of record name = field_of (dget_or record ''phase_intents'' (PDict [])) name"

definition record_action ::
  "'n native \<Rightarrow> string \<Rightarrow> string \<Rightarrow> string \<Rightarrow> string \<Rightarrow> string \<Rightarrow> pdict \<Rightarrow> pdict \<Rightarrow> ('n, pdict) act" where
  "record_action nv handle project repository action aid record result =
     (let env = nv_env nv; operations = operations_of record in
      bindA (store_read nv (get_record env ''workflow'' (PStr handle) project repository)) (\<lambda>current.
      case field_of (intent_of current (''coordinate:'' @ aid)) ''idempotency_key'' of
        PStr key \<Rightarrow>
          bindA (update_workflow nv handle project repository
                   [(''operations'', PDict (AList.update aid (pending_operation action key) operations))]) (\<lambda>_.
          bindA (of_result (bounded_mapping env (PDict result) ''workflow_action_result'' MAX_RESULT_BYTES)) (\<lambda>res.
          bindA (of_result (if action = ''recover'' then text_in (dget (recovery_payload res) ''disposition'') RELEASING else Inr False)) (\<lambda>asked.
          bindA (of_result (if asked then recovery_confirms res record else Inr False)) (\<lambda>released.
          bindA (of_result (if action = ''integrate'' then git_integration_result (PDict res) else Inr empty_integration)) (\<lambda>ig.
          bindA (update_workflow nv handle project repository
                   ((''operations'', PDict (AList.update aid (complete_operation action key res) operations)) #
                    action_changes action res ig released)) (\<lambda>_.
          if action = ''integrate'' \<and> \<not> ig_applied ig then of_result (integration_attention env handle ig)
          else if asked \<and> \<not> released then
            ret (attention_next ''recovery_result_does_not_confirm_attempt_release'' handle [''inspect_task''] ''inspect_task(recovery)'')
          else of_result (action_reply env handle action (PDict res))))))))
      | _ \<Rightarrow> throw (werr ''workflow_phase_intent_unavailable'')))"

definition execute_coordinate_action ::
  "'n native \<Rightarrow> string \<Rightarrow> string \<Rightarrow> string \<Rightarrow> string \<Rightarrow> pdict \<Rightarrow> pdict \<Rightarrow> ('n, pdict) act" where
  "execute_coordinate_action nv handle project repository action d record =
     (let env = nv_env nv in
      bindA (of_result (coordinate_arguments env handle action d record)) (\<lambda>(tool, arguments).
      bindA (of_result (action_digest env action d)) (\<lambda>aid.
      let prior = dget (operations_of record) aid in
      if field_of prior ''state'' = PStr ''complete'' then
        replay_action nv handle project repository action record (field_of prior ''result'')
      else
        bindA (invoke_phase nv handle project repository record (''coordinate:'' @ aid) tool arguments PNone PNone) (\<lambda>(result, _).
        if needs_attention result then ret (native_attention result (Some handle))
        else record_action nv handle project repository action aid record result))))"

end
