(* ===== verification/WorkflowFinish.thy ===== *)
theory WorkflowFinish
  imports WorkflowCoordinate WorkflowNext
begin

text \<open>
  \<^verbatim>\<open>finish_task\<close> and \<^verbatim>\<open>coordinate_task\<close> of \<^verbatim>\<open>src/src/project_control/compact_workflow.py\<close>.  Each calls the other:
  a review is finished by coordinating it, and an outcome is reported by finishing.  A call never
  comes back to the tool it started from, so that the authoring part of \<^verbatim>\<open>finish_task\<close> comes first, with
  the review as an argument.
\<close>

section \<open>Finishing\<close>

definition FINISH_ACTIONS :: "string list" where
  "FINISH_ACTIONS = [''complete'', ''handoff'', ''block'', ''release'', ''accept'', ''reject'', ''integrate'']"

definition REVIEW_ACTIONS :: "(string \<times> string) list" where
  "REVIEW_ACTIONS = [(''accept'', ''accept_outcome''), (''reject'', ''reject_outcome''), (''integrate'', ''integrate'')]"

definition REVIEW_STATUS :: "(string \<times> string) list" where
  "REVIEW_STATUS = [(''accept'', ''review_accepted''), (''reject'', ''review_rejected''), (''integrate'', ''integrated'')]"

definition OUTCOMES :: "(string \<times> string) list" where
  "OUTCOMES = [(''complete'', ''completed''), (''handoff'', ''no_change''), (''block'', ''failed'')]"

definition optional_note :: "string \<Rightarrow> int \<Rightarrow> pv \<Rightarrow> pv result" where
  "optional_note name maximum v = (if v = PNone then Inr PNone else bindR (safe_component v name maximum) (\<lambda>s. Inr (PStr s)))"

definition validate_handoff_proof :: "wf_env \<Rightarrow> pdict \<Rightarrow> pdict \<Rightarrow> pdict result" where
  "validate_handoff_proof env proof record =
     bindR (raise_if (\<not> list_all (\<lambda>k. is_nonempty_str (dget proof k)) [''attempt_id'', ''source_commit'', ''source_digest''])
              (werr ''authoring_handoff_proof_incomplete'')) (\<lambda>_.
     bindR (raise_if (dget proof ''attempt_id'' \<noteq> dget record ''attempt_id'') (werr ''authoring_handoff_proof_scope_mismatch'')) (\<lambda>_.
     bindR (raise_if (\<not> is_hex64 (str_of (dget proof ''source_digest''))) (werr ''authoring_handoff_source_digest_invalid'')) (\<lambda>_.
     bounded_mapping env (PDict proof) ''authoring_handoff_proof'' MAX_RESULT_BYTES)))"

definition review_pending_packet :: "wf_env \<Rightarrow> string \<Rightarrow> pdict \<Rightarrow> pdict result" where
  "review_pending_packet env handle record =
     bounded_response env
       [(''status'', PStr ''review_pending''), (''task_id'', dget record ''task_id''), (''workflow_handle'', PStr handle),
        (''candidate_handle'', dget record ''candidate_handle''), (''reported_disposition'', dget record ''outcome_disposition''),
        (''requested_action'', dget record ''finish_action''), (''allowed_actions'', PList [PStr ''inspect_task'', PStr ''next_task'']),
        (''recommended_next_call'', PStr ''next_task'')]"

text \<open>The finish is recorded before anything is sent: its action, its texts and the keys of its requests.\<close>

definition finish_record :: "wf_env \<Rightarrow> string \<Rightarrow> string \<Rightarrow> string \<Rightarrow> pv \<Rightarrow> pv \<Rightarrow> pdict result" where
  "finish_record env token handle action text reason =
     (let outcome = text_pv (map_of OUTCOMES action) in
      bindR (operation_key env handle ''finish:report''
               [(''action'', PStr action), (''disposition'', outcome), (''note'', text), (''reason'', reason)]) (\<lambda>rkey.
      bindR (operation_key env handle ''finish:handback'' []) (\<lambda>hkey.
      bindR (operation_key env handle ''finish:release'' []) (\<lambda>lkey.
      Inr [(''phase'', PStr ''handback_pending''), (''finish_action'', PStr action), (''outcome_disposition'', outcome),
           (''finish_note'', text), (''finish_reason'', reason),
           (''candidate_handle'', (if outcome = PNone then PNone else PStr token)), (''report_key'', PStr rkey),
           (''handback_key'', PStr hkey), (''release_key'', PStr lkey)]))))"

definition begin_finish ::
  "'n native \<Rightarrow> string \<Rightarrow> string \<Rightarrow> string \<Rightarrow> string \<Rightarrow> string \<Rightarrow> pv \<Rightarrow> pv \<Rightarrow> pv \<Rightarrow> pdict \<Rightarrow> ('n, pdict \<times> pv \<times> pv) stage" where
  "begin_finish nv token handle project repository action disposition text reason record =
     bindA (of_result (if action = ''complete'' \<and> disposition \<noteq> PNone
              then bindR (text_in disposition [''completed'']) (\<lambda>ok. raise_if (\<not> ok) (werr ''completion_disposition_conflicts''))
              else Inr ())) (\<lambda>_.
     bindA (if action = ''complete'' then run_gates nv handle project repository record [] else ret ok_reply) (\<lambda>gates.
     if dget gates ''status'' \<noteq> PStr ''ok'' then answer gates
     else
       bindA (stop_lease_renewal handle) (\<lambda>_.
       bindA (store_read nv (get_record (nv_env nv) ''workflow'' (PStr handle) project repository)) (\<lambda>latest.
       bindA (of_result (finish_record (nv_env nv) token handle action text reason)) (\<lambda>fin.
       bindA (update_workflow nv handle project repository fin) (\<lambda>_.
       ret (Inr (dupdate (dupdate latest [(''project'', PStr project), (''repository'', PStr repository)]) fin, text, reason))))))))"

definition PENDING_PHASES :: "string list" where
  "PENDING_PHASES = [''handback_pending'', ''report_pending'', ''release_pending'']"

definition resume_finish :: "string \<Rightarrow> pv \<Rightarrow> pv \<Rightarrow> pdict \<Rightarrow> (pdict \<times> pv \<times> pv) result" where
  "resume_finish action text reason record =
     bindR (raise_if (dget record ''finish_action'' \<noteq> PStr action) (werr ''finish_action_conflicts_with_pending_operation'')) (\<lambda>_.
     bindR (raise_if (text \<noteq> PNone \<and> text \<noteq> dget record ''finish_note'') (werr ''finish_note_conflicts_with_pending_operation'')) (\<lambda>_.
     bindR (raise_if (reason \<noteq> PNone \<and> reason \<noteq> dget record ''finish_reason'') (werr ''finish_reason_conflicts_with_pending_operation'')) (\<lambda>_.
     Inr (record, dget record ''finish_note'', dget record ''finish_reason''))))"

definition handback_stage :: "'n native \<Rightarrow> string \<Rightarrow> string \<Rightarrow> string \<Rightarrow> pdict \<Rightarrow> ('n, pdict) stage" where
  "handback_stage nv handle project repository record =
     (if \<not> in_phase record ''handback_pending'' then ret (Inr record)
      else
        bindA (invoke_phase nv handle project repository record ''finish:handback'' ''todo_handback_attempt''
                 [(''attempt_id'', dget record ''attempt_id''), (''lease_id'', dget record ''lease_id'')] PNone (dget record ''handback_key'')) (\<lambda>(handback, record).
        if needs_attention handback then answer (native_attention handback (Some handle))
        else
          bindA (of_result (validate_handoff_proof (nv_env nv) handback record)) (\<lambda>proof.
          let changes = [(''handback_proof'', PDict proof),
                 (''phase'', PStr (if truthy (dget record ''outcome_disposition'') then ''report_pending'' else ''release_pending''))] in
          bindA (update_workflow nv handle project repository changes) (\<lambda>_.
          ret (Inr (dupdate record changes))))))"

text \<open>\<^verbatim>\<open>"\n".join(value for value in (note, reason) if value) or None\<close>\<close>

definition combined_note :: "pv \<Rightarrow> pv \<Rightarrow> pv result" where
  "combined_note text reason =
     (let vs = filter truthy [text, reason] in
      if \<not> list_all is_str vs then Inl (TypeError ''sequence item: expected str instance'')
      else Inr (if vs = [] then PNone else PStr (join [CHR 0x0A] (map str_of vs))))"

definition report_stage :: "'n native \<Rightarrow> string \<Rightarrow> string \<Rightarrow> string \<Rightarrow> pv \<Rightarrow> pv \<Rightarrow> pdict \<Rightarrow> ('n, pdict) stage" where
  "report_stage nv handle project repository text reason record =
     (if \<not> in_phase record ''report_pending'' then ret (Inr record)
      else
        bindA (of_result (combined_note text reason)) (\<lambda>combined.
        bindA (invoke_phase nv handle project repository record ''finish:report'' ''todo_report_outcome''
                 [(''attempt_id'', dget record ''attempt_id''), (''disposition'', dget record ''outcome_disposition''), (''note'', combined)]
                 PNone (dget record ''report_key'')) (\<lambda>(report, record).
        if needs_attention report then answer (native_attention report (Some handle))
        else (case nested_text (PDict report) [''candidate_ref'', ''entity_id''] of
                None \<Rightarrow> answer (attention ''outcome_report_receipt_incomplete'' (Some handle) [])
              | Some cid \<Rightarrow>
                  let changes = [(''candidate_id'', PStr cid), (''report_receipt'', PDict report), (''phase'', PStr ''review_pending'')] in
                  bindA (update_workflow nv handle project repository changes) (\<lambda>_.
                  bindA (of_result (review_pending_packet (nv_env nv) handle (dupdate record changes))) answer)))))"

definition release_stage :: "'n native \<Rightarrow> string \<Rightarrow> string \<Rightarrow> string \<Rightarrow> pdict \<Rightarrow> ('n, pdict) act" where
  "release_stage nv handle project repository record =
     (if \<not> in_phase record ''release_pending'' then ret (attention ''workflow_recovery_required'' (Some handle) [])
      else
        bindA (invoke_phase nv handle project repository record ''finish:release'' ''todo_release_attempt''
                 [(''attempt_id'', dget record ''attempt_id''), (''lease_id'', dget record ''lease_id'')] PNone (dget record ''release_key'')) (\<lambda>(released, record).
        if needs_attention released then ret (native_attention released (Some handle))
        else
          let changes = [(''phase'', PStr ''released''), (''release_receipt'', PDict released)]; record' = dupdate record changes in
          bindA (update_workflow nv handle project repository changes) (\<lambda>_.
          of_result (bounded_response (nv_env nv)
            [(''status'', PStr ''released''), (''workflow_handle'', PStr handle), (''task_id'', dget record' ''task_id''),
             (''candidate_handle'', dget record' ''candidate_handle''), (''allowed_actions'', PList [PStr ''inspect_task'', PStr ''next_task'']),
             (''recommended_next_call'', PStr ''next_task'')]))))"

definition send_finish :: "'n native \<Rightarrow> string \<Rightarrow> string \<Rightarrow> string \<Rightarrow> pdict \<times> pv \<times> pv \<Rightarrow> ('n, pdict) act" where
  "send_finish nv handle project repository ftr =
     (case ftr of (record, text, reason) \<Rightarrow>
      bindA (after_stage (handback_stage nv handle project repository record)
               (report_stage nv handle project repository text reason)) (\<lambda>r.
      case r of Inl packet \<Rightarrow> ret packet | Inr record \<Rightarrow> release_stage nv handle project repository record))"

definition finish_authoring ::
  "'n native \<Rightarrow> string \<Rightarrow> string \<Rightarrow> string \<Rightarrow> string \<Rightarrow> string \<Rightarrow> pv \<Rightarrow> pv \<Rightarrow> pv \<Rightarrow> pdict \<Rightarrow> ('n, pdict) act" where
  "finish_authoring nv token handle project repository action disposition text reason record =
     (if in_phase record ''review_pending'' then of_result (review_pending_packet (nv_env nv) handle record)
      else
        bindA (of_result (text_in (dget record ''phase'') [''released'', ''review_accepted'', ''review_rejected'', ''integrated''])) (\<lambda>over.
        if over then
          of_result (bounded_response (nv_env nv) [(''status'', dget record ''phase''), (''workflow_handle'', PStr handle),
            (''allowed_actions'', PList [PStr ''inspect_task'', PStr ''next_task'']), (''recommended_next_call'', PStr ''next_task'')])
        else
          bindA (if in_phase record ''active'' then begin_finish nv token handle project repository action disposition text reason record
                 else if dget record ''phase'' \<in> PStr ` set PENDING_PHASES
                 then bindA (of_result (resume_finish action text reason record)) (\<lambda>ftr. ret (Inr ftr))
                 else throw (werr ''workflow_attempt_not_active'')) (\<lambda>r.
          case r of Inl packet \<Rightarrow> ret packet | Inr ftr \<Rightarrow> send_finish nv handle project repository ftr)))"

text \<open>A tool answers with a packet whatever happens.\<close>

type_synonym 'n tool = "'n host \<Rightarrow> pdict \<times> 'n host"

definition of_tool :: "'n tool \<Rightarrow> ('n, pdict) act" where
  "of_tool f s = (case f s of (p, s') \<Rightarrow> (Inr p, s'))"

definition guard_tool :: "(string \<Rightarrow> pdict) \<Rightarrow> pdict \<Rightarrow> ('n, pdict) act \<Rightarrow> 'n tool" where
  "guard_tool on_error on_other m s =
     (case m s of
        (Inr packet, s') \<Rightarrow> (packet, s')
      | (Inl (WorkflowError code), s') \<Rightarrow> (on_error code, s')
      | (Inl _, s') \<Rightarrow> (on_other, s'))"

definition finish_review ::
  "'n native \<Rightarrow> (string \<Rightarrow> pv \<Rightarrow> 'n tool) \<Rightarrow> string \<Rightarrow> string \<Rightarrow> string \<Rightarrow> pv \<Rightarrow> pdict \<Rightarrow> ('n, pdict) act" where
  "finish_review nv coordinate handle action coordinate_action reason record =
     (if dget record ''mode'' \<noteq> PStr ''review'' then throw (werr ''review_handle_required'')
      else
        bindA (of_tool (coordinate coordinate_action (if truthy reason then PDict [(''reason'', reason)] else PNone))) (\<lambda>result.
        if dget result ''status'' \<noteq> PStr ''ok'' then ret result
        else of_result (bounded_response (nv_env nv)
          [(''status'', text_pv (map_of REVIEW_STATUS action)), (''workflow_handle'', PStr handle), (''task_id'', dget record ''task_id''),
           (''result'', dget result ''result''),
           (''allowed_actions'', PList [PStr ''inspect_task'', PStr (if action = ''accept'' then ''finish_task'' else ''next_task'')]),
           (''recommended_next_call'', PStr (if action = ''accept'' then ''finish_task'' else ''next_task''))])))"

text \<open>\<^verbatim>\<open>_handle\<close> and \<^verbatim>\<open>record.update(project=..., repository=...)\<close>\<close>

definition open_handle :: "'n native \<Rightarrow> pv \<Rightarrow> ('n, string \<times> string \<times> pdict) act" where
  "open_handle nv handle =
     bindA (store_read nv (get_any_scope (nv_env nv) ''workflow'' handle)) (\<lambda>(project, repository, record).
     ret (project, repository, dupdate record [(''project'', PStr project), (''repository'', PStr repository)]))"

definition finish_body ::
  "'n native \<Rightarrow> (string \<Rightarrow> pv \<Rightarrow> 'n tool) \<Rightarrow> string \<Rightarrow> string \<Rightarrow> string \<Rightarrow> pv \<Rightarrow> pv \<Rightarrow> pv \<Rightarrow> ('n, pdict) act" where
  "finish_body nv coordinate token handle action disposition text reason =
     bindA (of_result (raise_if (action \<notin> set FINISH_ACTIONS) (werr ''finish_action_unsupported''))) (\<lambda>_.
     bindA (of_result (optional_note ''note'' 4000 text)) (\<lambda>text.
     bindA (of_result (optional_note ''reason'' 2000 reason)) (\<lambda>reason.
     bindA (open_handle nv (PStr handle)) (\<lambda>(project, repository, record).
     case map_of REVIEW_ACTIONS action of
       Some coordinate_action \<Rightarrow> finish_review nv coordinate handle action coordinate_action reason record
     | None \<Rightarrow>
         if dget record ''mode'' = PStr ''review'' then throw (werr ''authoring_handle_required'')
         else finish_authoring nv token handle project repository action disposition text reason record))))"

definition finish_with ::
  "'n native \<Rightarrow> (string \<Rightarrow> pv \<Rightarrow> 'n tool) \<Rightarrow> string \<Rightarrow> string \<Rightarrow> string \<Rightarrow> pv \<Rightarrow> pv \<Rightarrow> pv \<Rightarrow> 'n tool" where
  "finish_with nv coordinate token handle action disposition text reason =
     guard_tool (\<lambda>code. attention code (Some handle) []) (attention ''compact_workflow_finish_failed'' (Some handle) [])
       (finish_body nv coordinate token handle action disposition text reason)"

text \<open>An authoring action does not use the review.\<close>

lemma finish_with_authoring:
  assumes "map_of REVIEW_ACTIONS action = None"
  shows "finish_with nv c1 token handle action disposition text reason = finish_with nv c2 token handle action disposition text reason"
  unfolding finish_with_def finish_body_def using assms by simp

end
