(* ===== verification/WorkflowTools.thy ===== *)
theory WorkflowTools
  imports WorkflowFinish
begin

text \<open>
  The tools \<^verbatim>\<open>coordinate_task\<close>, \<^verbatim>\<open>finish_task\<close> and \<^verbatim>\<open>inspect_task\<close> of
  \<^verbatim>\<open>src/src/project_control/compact_workflow.py\<close>; \<^verbatim>\<open>next_task\<close> is in \<^verbatim>\<open>WorkflowNext\<close>.
\<close>

section \<open>Coordinating\<close>

definition COORDINATE_ACTIONS :: "string list" where
  "COORDINATE_ACTIONS =
     [''sync'', ''fork'', ''message'', ''answer'', ''arrive'', ''arrive_rendezvous'', ''publish_interface'', ''publish_context'',
      ''run_gates'', ''bind_required_gates'', ''request_integration'', ''integrate'', ''accept_child'', ''reject_child'',
      ''resolve_decision'', ''accept_checkpoint'', ''release_barrier'', ''open_blocker'', ''clear_blocker'', ''publish_finding'',
      ''invalidate_finding'', ''start_child'', ''submit_child_candidate'', ''review_child_candidate'', ''cancel_child'',
      ''reconcile_child'', ''recover'', ''verify'', ''heartbeat'', ''resume'', ''release_attempt'', ''report_outcome'',
      ''accept_outcome'', ''reject_outcome'', ''reserve_resource'', ''reconcile_resource'', ''retry_resource'', ''release_resource'']"

definition bind_required_gates :: "wf_env \<Rightarrow> string \<Rightarrow> pdict \<Rightarrow> pdict \<Rightarrow> pdict result" where
  "bind_required_gates env handle d record =
     (case strings_of (dget_or d ''required_gates'' (dget_or d ''gate_ids'' (PList []))) of
        None \<Rightarrow> Inl (werr ''required_gates_invalid'')
      | Some requested \<Rightarrow>
          let declared = dget_or record ''requirement_ids'' (PList []) in
          (case strings_of declared of
             None \<Rightarrow> Inl (TypeError ''requirement_ids'')
           | Some native \<Rightarrow>
               if sorted_set requested \<noteq> sorted_set native then
                 bounded_response env
                   [(''status'', PStr ''needs_plan_change''), (''reason'', PStr ''plan_requirements_are_immutable''),
                    (''declared_requirements'', declared), (''allowed_actions'', PList [PStr ''plan'']),
                    (''recommended_next_call'', PStr ''plan(validate/diff)''), (''workflow_handle'', PStr handle)]
               else
                 bounded_response env
                   [(''status'', PStr ''ok''), (''binding'', PStr ''native_plan_requirements''), (''required_gates'', declared),
                    (''workflow_handle'', PStr handle)]))"

definition REVIEW_PHASES :: "(string \<times> string list) list" where
  "REVIEW_PHASES = [(''accept_outcome'', [''review_pending'', ''review_accepted'']), (''reject_outcome'', [''review_pending'', ''review_rejected'']),
     (''integrate'', [''review_accepted'', ''integrated''])]"

text \<open>Whether the handle permits the action: a review only its decision, an authoring attempt everything else.\<close>

definition action_permitted :: "string \<Rightarrow> pdict \<Rightarrow> unit result" where
  "action_permitted action record =
     (if dget record ''mode'' = PStr ''review'' then
        (case map_of REVIEW_PHASES action of
           None \<Rightarrow> Inl (werr ''review_action_not_permitted'')
         | Some phases \<Rightarrow>
             bindR (text_in (dget record ''phase'') phases) (\<lambda>ok.
             bindR (raise_if (\<not> ok) (werr ''review_action_not_permitted'')) (\<lambda>_.
             raise_if (\<not> (is_str (dget record ''attempt_id'') \<and> is_str (dget record ''candidate_id''))) (werr ''candidate_unavailable''))))
      else
        bindR (if in_phase record ''active'' then Inr True
               else if action = ''recover'' then text_in (dget record ''phase'') PENDING_PHASES else Inr False) (\<lambda>ok.
        bindR (raise_if (\<not> ok) (werr ''workflow_attempt_not_active'')) (\<lambda>_.
        raise_if (action \<in> {''integrate'', ''accept_outcome'', ''reject_outcome''}) (werr ''review_handle_required''))))"

definition OUTCOME_ACTIONS :: "(string \<times> string) list" where
  "OUTCOME_ACTIONS = [(''completed'', ''complete''), (''no_change'', ''handoff''), (''failed'', ''block'')]"

definition outcome_action :: "pv \<Rightarrow> string result" where
  "outcome_action disposition =
     bindR (text_in disposition (map fst OUTCOME_ACTIONS)) (\<lambda>ok.
     case map_of OUTCOME_ACTIONS (str_of disposition) of
       Some action \<Rightarrow> if ok then Inr action else Inl (werr ''outcome_disposition_unsupported'')
     | None \<Rightarrow> Inl (werr ''outcome_disposition_unsupported''))"

text \<open>The authoring part of \<^verbatim>\<open>finish_task\<close>; its review is never used here, by \<open>finish_with_authoring\<close>.\<close>

definition finish_outcome :: "'n native \<Rightarrow> string \<Rightarrow> string \<Rightarrow> string \<Rightarrow> pdict \<Rightarrow> 'n tool" where
  "finish_outcome nv token handle action d =
     finish_with nv (\<lambda>_ _ s. ([], s)) token handle action PNone (dget d ''note'') (dget d ''reason'')"

definition coordinate_body :: "'n native \<Rightarrow> string \<Rightarrow> string \<Rightarrow> string \<Rightarrow> pv \<Rightarrow> ('n, pdict) act" where
  "coordinate_body nv token handle action payload =
     (let env = nv_env nv in
      bindA (of_result (raise_if (action \<notin> set COORDINATE_ACTIONS) (werr ''workflow_action_unsupported''))) (\<lambda>_.
      bindA (of_result (bounded_mapping env (if truthy payload then payload else PDict []) ''workflow_payload'' (32 * 1024))) (\<lambda>d.
      bindA (open_handle nv (PStr handle)) (\<lambda>(project, repository, record).
      if action = ''bind_required_gates'' then of_result (bind_required_gates env handle d record)
      else if action = ''request_integration'' then
        ret (attention_next ''complete_and_hand_back_before_integration'' handle [''finish_task'', ''inspect_task''] ''finish_task'')
      else if action = ''run_gates'' then run_gates nv handle project repository record d
      else if action = ''verify'' then
        bindA (of_result (first_text d [''requirement_id''])) (\<lambda>q.
        run_gates nv handle project repository record [(''requirement_ids'', PList [PStr q])])
      else if action \<in> {''heartbeat'', ''resume''} then
        if \<not> in_phase record ''active'' then throw (werr ''workflow_attempt_not_active'')
        else
          bindA (resume_active nv handle project repository record) (\<lambda>refreshed.
          if needs_attention refreshed then ret refreshed
          else of_result (bounded_response env [(''status'', PStr ''ok''), (''action'', PStr action), (''workflow_handle'', PStr handle)]))
      else if action = ''release_attempt'' then of_tool (finish_outcome nv token handle ''release'' d)
      else if action = ''report_outcome'' then
        bindA (of_result (outcome_action (dget d ''disposition''))) (\<lambda>finish_action.
        of_tool (finish_outcome nv token handle finish_action d))
      else
        bindA (of_result (action_permitted action record)) (\<lambda>_.
        execute_coordinate_action nv handle project repository action d record)))))"

definition coordinate_task :: "'n native \<Rightarrow> string \<Rightarrow> string \<Rightarrow> string \<Rightarrow> pv \<Rightarrow> 'n tool" where
  "coordinate_task nv token handle action payload =
     guard_tool (\<lambda>code. attention code (Some handle) []) (attention ''compact_workflow_action_failed'' (Some handle) [])
       (coordinate_body nv token handle action payload)"

definition finish_task :: "'n native \<Rightarrow> string \<Rightarrow> string \<Rightarrow> string \<Rightarrow> pv \<Rightarrow> pv \<Rightarrow> pv \<Rightarrow> 'n tool" where
  "finish_task nv token handle action disposition text reason =
     finish_with nv (coordinate_task nv token handle) token handle action disposition text reason"

section \<open>Inspecting\<close>

definition INSPECT_KINDS :: "string list" where
  "INSPECT_KINDS = [''task'', ''source'', ''evidence'', ''run'', ''lane'', ''decision'', ''messages'', ''rendezvous'', ''context_fragment'',
     ''workspace'', ''integration'', ''candidate'', ''effect'', ''resource'', ''child'', ''recovery'']"

definition response_limit :: "int \<Rightarrow> int" where
  "response_limit budget = min (budget + 1024) (max MAX_RESPONSE_BYTES budget)"

definition result_limit :: "int \<Rightarrow> int" where
  "result_limit budget = min budget (max 512 (response_limit budget - 1024))"

definition show_text :: "'n native \<Rightarrow> pv \<Rightarrow> string" where
  "show_text nv v = (case v of PStr s \<Rightarrow> s | _ \<Rightarrow> nv_str nv v)"

text \<open>A read of the native host: a packet when it needs attention, else the reply.\<close>

definition inspect_call :: "'n native \<Rightarrow> string \<Rightarrow> string \<Rightarrow> pdict \<Rightarrow> pdict \<Rightarrow> ('n, pv) stage" where
  "inspect_call nv handle tool record arguments =
     bindA (invoke nv tool record arguments) (\<lambda>result.
     if needs_attention result then answer (native_attention result (Some handle)) else ret (Inr (PDict result)))"

definition with_continuation :: "'n native \<Rightarrow> string \<Rightarrow> pdict \<Rightarrow> pdict result" where
  "with_continuation nv fid result =
     bindR (expansion_chunk nv result) (\<lambda>r.
     let target = (\<lambda>ref n. AList.update ''continuation_target''
           (PStr (show_text nv (case ref of PDict d \<Rightarrow> dget d ''fragment_id'' | _ \<Rightarrow> PStr fid) @ MARKER @ string_of_int n)) result) in
     case r of
       Some c \<Rightarrow> Inr (case ch_next c of
           Some n \<Rightarrow> if n > 0 then target (chunk_reference result) n else result
         | None \<Rightarrow> result)
     | None \<Rightarrow> Inr (case (dget result ''next_offset'', dget result ''total_bytes'') of
           (PInt n, PInt t) \<Rightarrow> if n < t then target (dget result ''reference'') n else result
         | _ \<Rightarrow> result))"

definition has_fragment_id :: "string \<Rightarrow> pv \<Rightarrow> bool" where
  "has_fragment_id fid v \<longleftrightarrow> (case v of PDict d \<Rightarrow> dget d ''fragment_id'' = PStr fid | _ \<Rightarrow> False)"

definition inspect_fragment :: "'n native \<Rightarrow> string \<Rightarrow> pv \<Rightarrow> int \<Rightarrow> pdict \<Rightarrow> ('n, pv) stage" where
  "inspect_fragment nv handle target budget record =
     bindA (of_result (context_fragment_target target)) (\<lambda>(fid, off).
     case dget record ''context'' of
       PDict c \<Rightarrow>
         (case find (has_fragment_id fid) (items_of (field_of (dget c ''manifest'') ''fragments'')) of
            Some (PDict reference) \<Rightarrow>
              bindA (expand_fragment nv record reference (min (max budget 4096) (64 * 1024))
                       (case off of None \<Rightarrow> PNone | Some n \<Rightarrow> PInt n)) (\<lambda>expanded.
              if needs_attention expanded then answer (native_attention expanded (Some handle))
              else bindA (of_result (with_continuation nv fid expanded)) (\<lambda>d. ret (Inr (PDict d))))
          | _ \<Rightarrow> throw (werr ''context_fragment_unavailable''))
     | _ \<Rightarrow> throw (werr ''task_context_unavailable''))"

text \<open>Iterating over text or a dictionary yields no mapping; over a number or \<^verbatim>\<open>None\<close> it raises.\<close>

definition source_fragments :: "pdict \<Rightarrow> pv list result" where
  "source_fragments manifest =
     (case dget_or manifest ''fragments'' (PList []) of
        PList xs \<Rightarrow> Inr (filter is_dict xs)
      | PStr _ \<Rightarrow> Inr []
      | PDict _ \<Rightarrow> Inr []
      | _ \<Rightarrow> Inl (TypeError ''object is not iterable''))"

definition inspect_source :: "pdict \<Rightarrow> pv result" where
  "inspect_source record =
     (let manifest = field_of (dget_or record ''context'' (PDict [])) ''manifest'' in
      bindR (case manifest of PDict m \<Rightarrow> source_fragments m | _ \<Rightarrow> Inr []) (\<lambda>xs.
      Inr (PDict [(''manifest'', manifest), (''source_fragments'', PList xs)])))"

definition lanes_of :: "pv \<Rightarrow> pv result" where
  "lanes_of v =
     (case dget_or (case v of PDict d \<Rightarrow> d | _ \<Rightarrow> []) ''schedule'' (PDict []) of
        PDict s \<Rightarrow> Inr (dget_or s ''lanes'' (PList []))
      | _ \<Rightarrow> Inl (AttributeError ''get''))"

definition inspect_run :: "'n native \<Rightarrow> string \<Rightarrow> string \<Rightarrow> pv \<Rightarrow> pdict \<Rightarrow> ('n, pv) stage" where
  "inspect_run nv handle kind target record =
     (let run = (if truthy target then target else dget record ''run_id'') in
      if \<not> is_nonempty_str run then throw (werr ''run_id_unavailable'')
      else
        after_stage (inspect_call nv handle ''todo_read_run'' record [(''run_id'', run)]) (\<lambda>result.
        if kind = ''lane'' then
          bindA (of_result (lanes_of result)) (\<lambda>lanes. ret (Inr (PDict [(''run_id'', run), (''lanes'', lanes)])))
        else ret (Inr result)))"

definition SECTION_ALIASES :: "(string \<times> string list) list" where
  "SECTION_ALIASES = [(''evidence'', [''evidence'', ''artifacts'', ''outcomes'']), (''decision'', [''decisions'']),
     (''rendezvous'', [''rendezvous'', ''declarations'']), (''workspace'', [''workspaces''])]"

definition select_sections :: "string list \<Rightarrow> pv \<Rightarrow> pv" where
  "select_sections names result =
     (case dget_or (case result of PDict d \<Rightarrow> d | _ \<Rightarrow> []) ''sections'' (PDict []) of
        PDict sections \<Rightarrow> PDict [(''sections'', PDict (given sections names)), (''page'', field_of result ''page'')]
      | _ \<Rightarrow> result)"

definition inspect_target :: "'n native \<Rightarrow> string \<Rightarrow> pv \<Rightarrow> string \<Rightarrow> string \<Rightarrow> pdict \<Rightarrow> pdict \<Rightarrow> ('n, pv) stage" where
  "inspect_target nv handle target name tool record arguments =
     bindA (of_result (safe_component target name 128)) (\<lambda>i. inspect_call nv handle tool record (arguments @ [(name, PStr i)]))"

definition inspect_kind :: "'n native \<Rightarrow> string \<Rightarrow> string \<Rightarrow> pv \<Rightarrow> int \<Rightarrow> pdict \<Rightarrow> ('n, pv) stage" where
  "inspect_kind nv handle kind target budget record =
     (let review = (dget record ''mode'' = PStr ''review''); attempt = dget record ''attempt_id'' in
      if kind = ''task'' then
        if review then inspect_call nv handle ''todo_read_candidate'' record [(''candidate_id'', dget record ''candidate_id'')]
        else ret (Inr (dget_or record ''context'' (PDict [])))
      else if kind = ''context_fragment'' then inspect_fragment nv handle target budget record
      else if kind = ''source'' then bindA (of_result (inspect_source record)) (\<lambda>v. ret (Inr v))
      else if kind \<in> {''run'', ''lane''} then inspect_run nv handle kind target record
      else if kind = ''messages'' then
        if \<not> truthy attempt then throw (werr ''attempt_unavailable'')
        else inspect_call nv handle ''todo_inbox_status'' record
          [(''scope'', PDict [(''kind'', PStr ''attempt''), (''entity_id'', attempt)]), (''run_id'', dget record ''run_id''),
           (''assignment_id'', dget record ''assignment_id''), (''attempt_id'', attempt)]
      else if kind = ''candidate'' then
        if target \<noteq> PNone \<and> target \<noteq> (if review then PStr handle else dget record ''candidate_handle'')
        then throw (werr ''candidate_handle_mismatch'')
        else if \<not> is_str (dget record ''candidate_id'') then throw (werr ''candidate_unavailable'')
        else inspect_call nv handle ''todo_read_candidate'' record [(''candidate_id'', dget record ''candidate_id'')]
      else if kind \<in> {''recovery'', ''integration''} then
        if kind = ''integration'' \<and> dget record ''integration_receipt'' \<noteq> PNone then ret (Inr (dget record ''integration_receipt''))
        else inspect_call nv handle ''todo_inspect_attempt'' record [(''attempt_id'', attempt)]
      else if kind = ''effect'' then inspect_target nv handle target ''operation_id'' ''todo_inspect_effect'' record []
      else if kind = ''resource'' then inspect_target nv handle target ''operation_id'' ''todo_inspect_resource'' record [(''attempt_id'', attempt)]
      else if kind = ''child'' then inspect_target nv handle target ''execution_id'' ''todo_read_child_execution'' record [(''parent_attempt_id'', attempt)]
      else case map_of SECTION_ALIASES kind of
        Some names \<Rightarrow>
          after_stage (inspect_call nv handle ''todo_read_authority'' record [(''limit'', PInt 50)]) (\<lambda>result.
          ret (Inr (select_sections names result)))
      | None \<Rightarrow> throw (werr ''inspection_kind_unsupported''))"

text \<open>A result that does not fit is summarised, for the kinds that have a summary.\<close>

definition bound_inspection :: "wf_env \<Rightarrow> string \<Rightarrow> pv \<Rightarrow> int \<Rightarrow> pdict result" where
  "bound_inspection env kind result limit =
     (case bounded_mapping env result ''inspection_result'' limit of
        Inr d \<Rightarrow> Inr d
      | Inl e \<Rightarrow>
          (case result of
             PDict v \<Rightarrow>
               if e \<noteq> werr ''inspection_result_too_large'' then Inl e
               else if kind = ''task'' then bounded_task_context_summary env v limit
               else if kind = ''recovery'' then bounded_recovery_summary env v limit
               else Inl e
           | _ \<Rightarrow> Inl e))"

definition inspect_reply :: "wf_env \<Rightarrow> string \<Rightarrow> string \<Rightarrow> pdict \<Rightarrow> int \<Rightarrow> pdict result" where
  "inspect_reply env handle kind d limit =
     bounded_mapping env (PDict [(''status'', PStr ''ok''), (''kind'', PStr kind), (''result'', PDict d), (''workflow_handle'', PStr handle)])
       ''workflow_response'' limit"

definition inspect_body :: "'n native \<Rightarrow> string \<Rightarrow> string \<Rightarrow> pv \<Rightarrow> pv \<Rightarrow> ('n, pdict) act" where
  "inspect_body nv handle kind target budget_bytes =
     (case budget_bytes of
        PInt budget \<Rightarrow>
          if budget < 512 \<or> budget > 64 * 1024 then throw (werr ''budget_bytes_invalid'')
          else if kind \<notin> set INSPECT_KINDS then throw (werr ''inspection_kind_unsupported'')
          else
            bindA (open_handle nv (PStr handle)) (\<lambda>(project, repository, record).
            bindA (inspect_kind nv handle kind target budget record) (\<lambda>r.
            case r of
              Inl packet \<Rightarrow> ret packet
            | Inr result \<Rightarrow>
                bindA (of_result (bound_inspection (nv_env nv) kind result (result_limit budget))) (\<lambda>d.
                of_result (inspect_reply (nv_env nv) handle kind d (response_limit budget)))))
      | _ \<Rightarrow> throw (werr ''budget_bytes_invalid''))"

definition inspect_task :: "'n native \<Rightarrow> string \<Rightarrow> string \<Rightarrow> pv \<Rightarrow> pv \<Rightarrow> 'n tool" where
  "inspect_task nv handle kind target budget_bytes =
     guard_tool (\<lambda>code. attention code (Some handle) [''inspect_task'', ''coordinate_task'', ''finish_task''])
       (attention ''compact_workflow_inspection_failed'' (Some handle) [])
       (inspect_body nv handle kind target budget_bytes)"

end
