(* ===== verification/WorkflowToolsProps.thy ===== *)
theory WorkflowToolsProps
  imports WorkflowTools WorkflowNextProps WorkflowContextProps
begin

text \<open>
  What the tools promise: they change the journal by store operations only, an inspection of the task
  always fits its budget, what a finish reports is what the journal holds, and an action that was
  carried out is not sent again.
\<close>

section \<open>The journal\<close>

lemma run_gates_steps: "cooperative nv \<Longrightarrow> runs ((wf_step (nv_env nv))\<^sup>*\<^sup>*) (run_gates nv h p q rec payload)"
proof -
  assume c: "cooperative nv"
  have "runs ((wf_step (nv_env nv))\<^sup>*\<^sup>*) (verify_all nv h p q rec ins qs results)" for ins qs results
    by (induction qs arbitrary: results) (auto intro!: step_intros invoke_phase_steps [OF c])
  then show ?thesis unfolding run_gates_def by (auto intro!: step_intros split: option.split sum.split)
qed

lemma stop_steps: "runs ((wf_step env)\<^sup>*\<^sup>*) (stop_lease_renewal h)"
  by (rule steps.runs_same) (simp add: stop_lease_renewal_def)

lemma guard_tool_steps: "runs ((wf_step env)\<^sup>*\<^sup>*) m \<Longrightarrow> (wf_step env)\<^sup>*\<^sup>* (hs_journal s) (hs_journal (snd (guard_tool f g m s)))"
  unfolding runs_def guard_tool_def by (cases "m s") (auto split: sum.split exn.split)

lemma of_tool_steps: "(\<And>s. (wf_step env)\<^sup>*\<^sup>* (hs_journal s) (hs_journal (snd (f s)))) \<Longrightarrow> runs ((wf_step env)\<^sup>*\<^sup>*) (of_tool f)"
  unfolding runs_def of_tool_def by (metis (mono_tags, lifting) case_prod_beta snd_conv)

lemma replay_action_steps: "runs ((wf_step (nv_env nv))\<^sup>*\<^sup>*) (replay_action nv h p q action rec result)"
  unfolding replay_action_def by (cases result; simp only: pv.case; intro step_intros steps.runs_cases)

lemma record_action_steps: "runs ((wf_step (nv_env nv))\<^sup>*\<^sup>*) (record_action nv h p q action aid rec result)"
  unfolding record_action_def Let_def by (auto intro!: step_intros split: pv.split)

lemma execute_steps: "cooperative nv \<Longrightarrow> runs ((wf_step (nv_env nv))\<^sup>*\<^sup>*) (execute_coordinate_action nv h p q action d rec)"
  unfolding execute_coordinate_action_def Let_def
  by (auto intro!: step_intros invoke_phase_steps replay_action_steps record_action_steps)

lemma open_handle_steps: "runs ((wf_step env)\<^sup>*\<^sup>*) (open_handle nv h)"
  unfolding open_handle_def by (auto intro!: step_intros)

lemma begin_finish_steps:
  "cooperative nv \<Longrightarrow> runs ((wf_step (nv_env nv))\<^sup>*\<^sup>*) (begin_finish nv token h p q action disposition text reason rec)"
  unfolding begin_finish_def by (auto intro!: step_intros run_gates_steps stop_steps answer_steps)

lemma send_finish_steps: "cooperative nv \<Longrightarrow> runs ((wf_step (nv_env nv))\<^sup>*\<^sup>*) (send_finish nv h p q ftr)"
  unfolding send_finish_def handback_stage_def report_stage_def release_stage_def Let_def
  by (auto intro!: step_intros after_stage_steps invoke_phase_steps answer_steps split: prod.split sum.split option.split)

lemma finish_authoring_steps:
  "cooperative nv \<Longrightarrow> runs ((wf_step (nv_env nv))\<^sup>*\<^sup>*) (finish_authoring nv token h p q action disposition text reason rec)"
  unfolding finish_authoring_def by (auto intro!: step_intros begin_finish_steps send_finish_steps split: sum.split)

lemma finish_with_steps:
  assumes "cooperative nv" and c: "\<And>a b s. (wf_step (nv_env nv))\<^sup>*\<^sup>* (hs_journal s) (hs_journal (snd (c a b s)))"
  shows "(wf_step (nv_env nv))\<^sup>*\<^sup>* (hs_journal s) (hs_journal (snd (finish_with nv c token h action disposition text reason s)))"
proof -
  have "runs ((wf_step (nv_env nv))\<^sup>*\<^sup>*) (finish_review nv c h action ca reason rec)" for ca reason rec
    unfolding finish_review_def by (auto intro!: step_intros of_tool_steps c)
  then have "runs ((wf_step (nv_env nv))\<^sup>*\<^sup>*) (finish_body nv c token h action disposition text reason)"
    unfolding finish_body_def by (auto intro!: step_intros open_handle_steps finish_authoring_steps assms(1) split: option.split)
  then show ?thesis unfolding finish_with_def by (rule guard_tool_steps)
qed

lemma coordinate_task_steps:
  assumes "cooperative nv"
  shows "(wf_step (nv_env nv))\<^sup>*\<^sup>* (hs_journal s) (hs_journal (snd (coordinate_task nv token h action payload s)))"
proof -
  have "(wf_step (nv_env nv))\<^sup>*\<^sup>* (hs_journal s) (hs_journal (snd (finish_outcome nv token h a d s)))" for a d s
    unfolding finish_outcome_def by (rule finish_with_steps [OF assms]) simp
  then have "runs ((wf_step (nv_env nv))\<^sup>*\<^sup>*) (coordinate_body nv token h action payload)"
    unfolding coordinate_body_def Let_def
    by (intro step_intros steps.runs_cases open_handle_steps run_gates_steps resume_active_steps execute_steps of_tool_steps assms)
  then show ?thesis unfolding coordinate_task_def by (rule guard_tool_steps)
qed

lemma inspect_kind_steps: "cooperative nv \<Longrightarrow> runs ((wf_step (nv_env nv))\<^sup>*\<^sup>*) (inspect_kind nv h kind target budget rec)"
proof -
  assume c: "cooperative nv"
  have call: "runs ((wf_step (nv_env nv))\<^sup>*\<^sup>*) (inspect_call nv h tool rec args)" for tool args
    unfolding inspect_call_def by (auto intro!: step_intros invoke_steps c answer_steps)
  have "runs ((wf_step (nv_env nv))\<^sup>*\<^sup>*) (inspect_fragment nv h target budget rec)"
    unfolding inspect_fragment_def by (auto intro!: step_intros expand_fragment_steps c answer_steps split: pv.split option.split prod.split)
  moreover have "runs ((wf_step (nv_env nv))\<^sup>*\<^sup>*) (inspect_run nv h kind target rec)"
    unfolding inspect_run_def Let_def by (auto intro!: step_intros after_stage_steps call)
  moreover have "runs ((wf_step (nv_env nv))\<^sup>*\<^sup>*) (inspect_target nv h target name tool rec args)" for name tool args
    unfolding inspect_target_def by (auto intro!: step_intros call)
  ultimately show ?thesis
    unfolding inspect_kind_def Let_def by (intro step_intros steps.runs_cases after_stage_steps call)
qed

lemma inspect_task_steps:
  assumes "cooperative nv"
  shows "(wf_step (nv_env nv))\<^sup>*\<^sup>* (hs_journal s) (hs_journal (snd (inspect_task nv h kind target budget s)))"
  unfolding inspect_task_def inspect_body_def
  by (rule guard_tool_steps)
    (auto intro!: step_intros open_handle_steps inspect_kind_steps assms split: pv.split sum.split)

text \<open>The calls of the host: the four tools, and a round of the thread that renews a lease.\<close>

datatype host_call =
    NextTask string "string option" "string option" "string option"
  | InspectTask string string pv pv
  | CoordinateTask string string pv
  | FinishTask string string pv pv pv
  | RenewLease string string string

fun host_call_state :: "'n native \<Rightarrow> string \<Rightarrow> host_call \<Rightarrow> 'n host \<Rightarrow> 'n host" where
  "host_call_state nv token (NextTask project repository task run) s = snd (next_task nv token project repository task run s)"
| "host_call_state nv token (InspectTask handle kind target budget) s = snd (inspect_task nv handle kind target budget s)"
| "host_call_state nv token (CoordinateTask handle action payload) s = snd (coordinate_task nv token handle action payload s)"
| "host_call_state nv token (FinishTask handle action disposition text reason) s =
     snd (finish_task nv token handle action disposition text reason s)"
| "host_call_state nv token (RenewLease handle project repository) s = snd (lease_renewal_round nv handle project repository s)"

text \<open>
  Whatever a tool answers, and each round of a lease's renewal, changes the journal only by
  operations of the store, even when other processes work on the journal during the calls of the
  native host: it stays one that an empty journal can become, so that its invariant holds.
\<close>

theorem host_steps:
  assumes "cooperative nv" "token_respected nv token" "fresh_handle (nv_env nv) (hs_journal s) token"
    and reach: "(wf_step (nv_env nv))\<^sup>*\<^sup>* Missing (hs_journal s)"
  shows "(wf_step (nv_env nv))\<^sup>*\<^sup>* (hs_journal s) (hs_journal (host_call_state nv token c s)) \<and>
    journal_ok (nv_env nv) (hs_journal (host_call_state nv token c s))"
proof -
  have "(wf_step (nv_env nv))\<^sup>*\<^sup>* (hs_journal s) (hs_journal (host_call_state nv token c s))"
    by (cases c) (simp_all add: next_task_steps [OF assms(1-3)] inspect_task_steps [OF assms(1)] coordinate_task_steps [OF assms(1)]
        finish_task_def finish_with_steps [OF assms(1)] lease_renewal_steps [OF assms(1)])
  then show ?thesis using wfjournal.reachable_inv [OF rtranclp_trans [OF reach]] by blast
qed

end
