(* ===== verification/WorkflowInspectProps.thy ===== *)
theory WorkflowInspectProps
  imports WorkflowTools WorkflowContextProps WorkflowPhases
begin

text \<open>
  An inspection of the task is always answered within its budget.  The record comes from the journal,
  which is at most 32 MiB, so that its context has few enough references for the summary.
\<close>

section \<open>Records of a small journal\<close>

definition journal_small :: "wf_env \<Rightarrow> journal \<Rightarrow> bool" where
  "journal_small env file \<longleftrightarrow> (\<forall>v. file = Decoded v \<longrightarrow> json_finite v \<and> int (json_size (float_repr env) v) \<le> MAX_STORE_BYTES)"

lemma mutate_small: "mutate env f file = Inr (x, file') \<Longrightarrow> journal_small env file \<Longrightarrow> journal_small env file'"
  by (auto simp: mutate_eq_Inr write_journal_eq_Inr journal_small_def split: if_splits)

interpretation wfsmall: transition_system Missing "wf_step env" "journal_small env" for env
proof unfold_locales
  show "journal_small env Missing" by (simp add: journal_small_def)
next
  fix s t assume "journal_small env s" "wf_step env s t"
  then show "journal_small env t" by (auto dest!: wf_step_mutates elim: mutate_small)
qed

lemma json_size_elem: "x \<in> set xs \<Longrightarrow> json_size rp x \<le> json_size rp (PList xs)"
  using member_le_sum_list [of "json_size rp x" "map (json_size rp) xs"] by (simp add: json_size_list)

lemma read_entry_size:
  assumes "read_entry v = Inr e"
  shows "json_size rp (PDict (en_data e)) \<le> json_size rp v"
proof -
  from assms obtain d where v: "v = PDict d" and "is_dict (dget d ''data'')" "PDict (en_data e) = dget d ''data''"
    by (cases v) (auto simp: read_entry_def split: if_splits pv.splits)
  then show ?thesis using dget_size [of d "''data''" rp] by simp
qed

lemma read_journal_small:
  assumes "read_journal file = Inr es" "journal_small env file" "e \<in> set es"
  shows "json_finite (PDict (en_data e))" "int (json_size (float_repr env) (PDict (en_data e))) \<le> MAX_STORE_BYTES"
proof -
  have "journal_finite file" using assms(2) by (simp add: journal_small_def journal_finite_def)
  with assms(1,3) show "json_finite (PDict (en_data e))"
    using read_journal_finite journal_pv_finite entry_pv_data by blast
  from assms(1,3) obtain v where fv: "file = Decoded v" by (cases "file") (auto simp: read_journal_def)
  with assms(1) obtain d raw where v: "v = PDict d" "dget d ''entries'' = PList raw" "mapR read_entry raw = Inr es"
    by (auto simp: read_journal_def split: pv.splits if_splits)
  from mapR_member [OF v(3) assms(3)] obtain x where x: "x \<in> set raw" "read_entry x = Inr e" by blast
  have "json_size (float_repr env) (PDict (en_data e)) \<le> json_size (float_repr env) (PList raw)"
    using read_entry_size [OF x(2), of "float_repr env"] json_size_elem [OF x(1), of "float_repr env"] by linarith
  moreover have "json_size (float_repr env) (PList raw) \<le> json_size (float_repr env) v"
    using json_size_member [of d "''entries''" "PList raw" "float_repr env"] v(1,2)
    by (cases "map_of d ''entries''") (auto simp: dget_def dget_or_def)
  moreover have "int (json_size (float_repr env) v) \<le> MAX_STORE_BYTES" using assms(2) fv by (simp add: journal_small_def)
  ultimately show "int (json_size (float_repr env) (PDict (en_data e))) \<le> MAX_STORE_BYTES" by linarith
qed

lemma get_any_scope_small:
  assumes "get_any_scope env kind v file = Inr (project, repository, d)" "journal_small env file"
  shows "json_finite (PDict d)" "int (json_size (float_repr env) (PDict d)) \<le> MAX_STORE_BYTES"
proof -
  from assms(1) obtain es ident where es: "read_journal file = Inr es"
    and c: "(case filter (has_identity kind (identity_of env kind ident)) es of
         [] \<Rightarrow> Inl (werr ''workflow_handle_unavailable'')
       | [e] \<Rightarrow> Inr (en_project e, en_repository e, en_data e)
       | _ \<Rightarrow> Inl (werr ''workflow_store_duplicate_identity'')) = Inr (project, repository, d)"
    by (auto simp: get_any_scope_def read_only_def bindR_eq_Inr)
  from c obtain e where e: "filter (has_identity kind (identity_of env kind ident)) es = [e]" "en_data e = d"
    by (auto split: list.splits)
  from e(1) have "e \<in> set (filter (has_identity kind (identity_of env kind ident)) es)" by simp
  then have "e \<in> set es" by simp
  from read_journal_small [OF es assms(2) this] e(2)
  show "json_finite (PDict d)" "int (json_size (float_repr env) (PDict d)) \<le> MAX_STORE_BYTES" by simp_all
qed

section \<open>The reserve of a reply\<close>

lemma printable_size:
  assumes "list_all (\<lambda>c. 32 \<le> (of_char c :: nat)) s"
  shows "json_size rp (PStr s) \<le> 2 + 2 * length s"
proof -
  have "length (concat (map esc_char s)) \<le> 2 * length s"
    using assms by (induction s) (auto simp: esc_char_def)
  then show ?thesis by (simp add: json_size_def length_json_string)
qed

lemma safe_handle:
  assumes "safe_component (PStr h) name 256 = Inr x"
  shows "length h \<le> 256" "list_all (\<lambda>c. 32 \<le> (of_char c :: nat)) h"
  using assms by (auto simp: safe_component_def list_ex_iff list_all_iff not_less split: if_splits)

lemma limits: "512 \<le> b \<Longrightarrow> 512 \<le> result_limit b \<and> result_limit b \<le> b \<and> result_limit b + 1024 \<le> response_limit b"
  by (auto simp: result_limit_def response_limit_def MAX_RESPONSE_BYTES_def)

text \<open>What is left of a response is enough for the other fields of the reply.\<close>

lemma inspect_reply_fits:
  assumes "json_finite (PDict d)" "int (json_size (float_repr env) (PDict d)) \<le> result_limit b" "512 \<le> b"
    and h: "length handle \<le> 256" "list_all (\<lambda>c. 32 \<le> (of_char c :: nat)) handle"
  shows "inspect_reply env handle ''task'' d (response_limit b) =
      Inr [(''status'', PStr ''ok''), (''kind'', PStr ''task''), (''result'', PDict d), (''workflow_handle'', PStr handle)] \<and>
    int (json_size (float_repr env) (PDict [(''status'', PStr ''ok''), (''kind'', PStr ''task''), (''result'', PDict d), (''workflow_handle'', PStr handle)]))
      \<le> response_limit b"
proof -
  let ?rp = "float_repr env"
  let ?d = "[(''status'', PStr ''ok''), (''kind'', PStr ''task''), (''result'', PDict d), (''workflow_handle'', PStr handle)]"
  have s: "json_size ?rp (PStr ''ok'') = 4" "json_size ?rp (PStr ''task'') = 6"
    "length (json_string ''status'') = 8" "length (json_string ''kind'') = 6" "length (json_string ''result'') = 8" "length (json_string ''workflow_handle'') = 17"
    by (simp_all add: json_size_def json_string_def esc_char_def)
  have "json_size ?rp (PDict ?d) = 58 + json_size ?rp (PDict d) + json_size ?rp (PStr handle)"
    by (subst json_size_dict) (simp add: member_size_def s)
  moreover have "json_size ?rp (PStr handle) \<le> 514" using printable_size [OF h(2), of ?rp] h(1) by linarith
  ultimately have size: "int (json_size ?rp (PDict ?d)) \<le> response_limit b" using assms(2) limits [OF assms(3)] by linarith
  moreover have "json_finite (PDict ?d)" using assms(1) by simp
  ultimately show ?thesis
    by (simp add: inspect_reply_def bounded_mapping_def canonical_def json_size_def del: json_enc.simps json_finite.simps)
qed

section \<open>The inspection\<close>

text \<open>
  What a task is answered with: the context when it fits in the limit; else the summary with the first references of its
  manifest, as many of at most sixteen as fit, which says when some are left out; and when not even a summary without
  references fits, the count of the references and where to go on.
\<close>

definition listed_refs :: "pdict \<Rightarrow> pv list" where
  "listed_refs c = summary_refs (inspected c) (manifest_of (inspected c))"

definition summary_with :: "pdict \<Rightarrow> nat \<Rightarrow> pdict" where
  "summary_with c n =
     context_summary (inspected c) (manifest_of (inspected c)) (length (listed_refs c)) (take n (listed_refs c)) (n < length (listed_refs c))"

definition fits_limit :: "wf_env \<Rightarrow> int \<Rightarrow> pdict \<Rightarrow> bool" where
  "fits_limit env limit d \<longleftrightarrow> int (json_size (float_repr env) (PDict d)) \<le> limit"

definition task_answer :: "wf_env \<Rightarrow> int \<Rightarrow> pdict \<Rightarrow> pdict \<Rightarrow> bool" where
  "task_answer env limit c d \<longleftrightarrow>
     fits_limit env limit d \<and>
     (if fits_limit env limit c then d = c
      else \<exists>n \<le> min 16 (length (listed_refs c)).
        (\<forall>m. n < m \<longrightarrow> m \<le> min 16 (length (listed_refs c)) \<longrightarrow> \<not> fits_limit env limit (summary_with c m)) \<and>
        (d = summary_with c n \<or>
         n = 0 \<and> \<not> fits_limit env limit (summary_with c 0) \<and> d = context_fallback (length (listed_refs c))))"

lemma pop_until_greatest:
  assumes "pop_until mk rp limit (rev (take k xs)) trunc = (rest, trunc')" "k \<le> length xs" "trunc = (k < length xs)"
  shows "\<exists>n \<le> k. rev rest = take n xs \<and> trunc' = (n < length xs) \<and>
    (\<forall>m. n < m \<longrightarrow> m \<le> k \<longrightarrow> int (json_size rp (PDict (mk (take m xs) (m < length xs)))) > limit)"
  using assms
proof (induction k arbitrary: trunc)
  case (Suc k)
  let ?x = "xs ! k"
  have t: "take (Suc k) xs = take k xs @ [?x]" using Suc.prems(2) by (simp add: take_Suc_conv_app_nth)
  show ?case
  proof (cases "int (json_size rp (PDict (mk (take (Suc k) xs) trunc))) > limit")
    case True
    then have "pop_until mk rp limit (rev (take k xs)) True = (rest, trunc')" using Suc.prems(1) by (simp add: t)
    from Suc.IH [OF this] Suc.prems(2) obtain n where n: "n \<le> k" "rev rest = take n xs" "trunc' = (n < length xs)"
      "\<forall>m. n < m \<longrightarrow> m \<le> k \<longrightarrow> int (json_size rp (PDict (mk (take m xs) (m < length xs)))) > limit" by auto
    then have "\<forall>m. n < m \<longrightarrow> m \<le> Suc k \<longrightarrow> int (json_size rp (PDict (mk (take m xs) (m < length xs)))) > limit"
      using True Suc.prems(3) by (auto simp: le_Suc_eq)
    then show ?thesis using n by (intro exI [of _ n]) auto
  next
    case False
    then have "rest = rev (take (Suc k) xs)" "trunc' = trunc" using Suc.prems(1) by (simp_all add: t)
    then show ?thesis using Suc.prems(3) by (intro exI [of _ "Suc k"]) auto
  qed
qed simp

lemma summary_answer:
  assumes "bounded_task_context_summary env c limit = Inr d" "\<not> fits_limit env limit c"
  shows "task_answer env limit c d"
proof -
  let ?refs = "listed_refs c"
  let ?mk = "context_summary (inspected c) (manifest_of (inspected c)) (length ?refs)"
  let ?k = "min 16 (length ?refs)"
  obtain rest tr where pop: "pop_until ?mk (float_repr env) limit (rev (take ?k ?refs)) (?k < length ?refs) = (rest, tr)" by fastforce
  have k: "take 16 ?refs = take ?k ?refs" "(length ?refs > 16) = (?k < length ?refs)" by (auto simp: min_def)
  have "shrink ?mk (context_fallback (length ?refs)) env limit (take 16 ?refs) (length ?refs > 16) = Inr d"
    using assms(1) unfolding bounded_task_context_summary_def Let_def inspected_def [symmetric] manifest_of_def [symmetric]
      listed_refs_def [symmetric] .
  then have "shrink ?mk (context_fallback (length ?refs)) env limit (take ?k ?refs) (?k < length ?refs) = Inr d"
    unfolding k .
  then have b: "bounded_mapping env (PDict (if int (json_size (float_repr env) (PDict (?mk (rev rest) tr))) > limit
      then context_fallback (length ?refs) else ?mk (rev rest) tr)) ''inspection_result'' limit = Inr d"
    unfolding shrink_def by (auto simp: bindR_eq_Inr pop)
  have d: "d = (if int (json_size (float_repr env) (PDict (?mk (rev rest) tr))) > limit
      then context_fallback (length ?refs) else ?mk (rev rest) tr)" and fd: "fits_limit env limit d"
    using b by (auto simp: bounded_mapping_def fits_limit_def canonical_def json_size_def simp del: json_enc.simps json_finite.simps split: sum.splits if_splits)
  from pop_until_greatest [OF pop] obtain n where n: "n \<le> ?k" "rev rest = take n ?refs" "tr = (n < length ?refs)"
    "\<forall>m. n < m \<longrightarrow> m \<le> ?k \<longrightarrow> \<not> fits_limit env limit (summary_with c m)"
    unfolding fits_limit_def summary_with_def not_le by auto
  then have mk: "?mk (rev rest) tr = summary_with c n" by (simp add: summary_with_def)
  have "n = 0" if "\<not> fits_limit env limit (summary_with c n)"
    using pop_until_fits(1) [OF pop] that mk n(1,2) by (auto simp: fits_limit_def)
  then show ?thesis using d fd n(1,4) assms(2) unfolding task_answer_def mk fits_limit_def [symmetric] not_le [symmetric]
    by (auto split: if_splits)
qed

lemma bound_inspection_fits:
  assumes "json_finite (PDict c)" "int (json_size (float_repr env) (PDict c)) \<le> MAX_STORE_BYTES" "512 \<le> limit"
  shows "\<exists>d. bound_inspection env ''task'' (PDict c) limit = Inr d \<and> json_finite (PDict d) \<and> int (json_size (float_repr env) (PDict d)) \<le> limit \<and>
    task_answer env limit c d"
proof (cases "int (json_size (float_repr env) (PDict c)) \<le> limit")
  case True
  then have "bounded_mapping env (PDict c) ''inspection_result'' limit = Inr c"
    using assms(1) by (simp add: bounded_mapping_def canonical_def json_size_def del: json_enc.simps json_finite.simps)
  with True assms(1) show ?thesis by (simp add: bound_inspection_def task_answer_def fits_limit_def del: json_finite.simps)
next
  case False
  then have b: "bounded_mapping env (PDict c) ''inspection_result'' limit = Inl (werr ''inspection_result_too_large'')"
    using assms(1) by (simp add: bounded_mapping_def canonical_def json_size_def del: json_enc.simps json_finite.simps)
  have "int (length (summary_refs (inspected c) (manifest_of (inspected c)))) \<le> MAX_STORE_BYTES"
    using summary_refs_short [of c "float_repr env"] assms(2) by linarith
  then have "length (summary_refs (inspected c) (manifest_of (inspected c))) < 10 ^ 9" by (simp add: MAX_STORE_BYTES_def)
  with context_summary_fits [of c limit env] assms(1,3) obtain d where d: "bounded_task_context_summary env c limit = Inr d" "int (json_size (float_repr env) (PDict d)) \<le> limit"
    by (auto simp del: json_finite.simps)
  have "json_finite (PDict d)"
    using d(1) by (auto simp: bounded_task_context_summary_def Let_def shrink_def bounded_mapping_def canonical_def bindR_eq_Inr
        simp del: json_finite.simps json_enc.simps split: sum.splits if_splits prod.splits)
  with d b False summary_answer [OF d(1)] show ?thesis by (simp add: bound_inspection_def fits_limit_def del: json_finite.simps)
qed

text \<open>
  C28. An author's inspection of the task is always answered, without a native call or a write: for every budget that is
  allowed, the reply has the context of the record itself when it fits, else its summary with as many references as fit
  (\<open>task_answer\<close>), and the reserve kept for the other fields of the reply is enough.
\<close>

theorem task_inspection_answered:
  assumes reach: "(wf_step (nv_env nv))\<^sup>*\<^sup>* Missing (hs_journal s)"
    and g: "get_any_scope (nv_env nv) ''workflow'' (PStr handle) (hs_journal s) = Inr (project, repository, record)"
    and "dget record ''mode'' \<noteq> PStr ''review''" "dget_or record ''context'' (PDict []) = PDict c" and b: "512 \<le> b" "b \<le> 65536"
  shows "\<exists>d. inspect_task nv handle ''task'' target (PInt b) s =
      ([(''status'', PStr ''ok''), (''kind'', PStr ''task''), (''result'', PDict d), (''workflow_handle'', PStr handle)], s) \<and>
    task_answer (nv_env nv) (result_limit b) c d \<and> result_limit b \<le> b \<and>
    int (json_size (float_repr (nv_env nv)) (PDict
      [(''status'', PStr ''ok''), (''kind'', PStr ''task''), (''result'', PDict d), (''workflow_handle'', PStr handle)])) \<le> response_limit b"
proof -
  let ?env = "nv_env nv"
  let ?r = "dupdate record [(''project'', PStr project), (''repository'', PStr repository)]"
  note small = get_any_scope_small [OF g wfsmall.reachable_inv [OF reach]]
  have held: "dget record ''context'' = PDict c \<or> c = []"
    using assms(4) by (auto simp: dget_def dget_or_def split: option.splits)
  then have "json_finite (PDict c)"
  proof
    assume "dget record ''context'' = PDict c"
    then show ?thesis using json_finite_dget [OF small(1), of "''context''"] by (simp only:)
  qed simp
  moreover have "int (json_size (float_repr ?env) (PDict c)) \<le> MAX_STORE_BYTES"
    using held dget_size [of "record" "''context''" "float_repr ?env"] small(2)
    by (auto simp: json_size_def MAX_STORE_BYTES_def)
  ultimately obtain d where d: "bound_inspection ?env ''task'' (PDict c) (result_limit b) = Inr d" "json_finite (PDict d)"
    "int (json_size (float_repr ?env) (PDict d)) \<le> result_limit b" "task_answer ?env (result_limit b) c d"
    using bound_inspection_fits [of c ?env "result_limit b"] limits [OF b(1)] by auto
  have "safe_component (PStr handle) ''workflow_handle'' 256 = Inr handle"
    using g by (auto simp: get_any_scope_def bindR_eq_Inr safe_component_def split: if_splits)
  note reply = inspect_reply_fits [OF d(2,3) b(1) safe_handle [OF this]]
  have get: "dget ?r ''mode'' = dget record ''mode''" "dget_or ?r ''context'' (PDict []) = PDict c"
    using assms(4) by (auto simp: dget_def dget_or_def map_of_dupdate map_add_def split: option.splits)
  have "inspect_body nv handle ''task'' target (PInt b) s =
      (Inr [(''status'', PStr ''ok''), (''kind'', PStr ''task''), (''result'', PDict d), (''workflow_handle'', PStr handle)], s)"
    using b g assms(3) d(1) reply
    by (simp add: inspect_body_def INSPECT_KINDS_def open_handle_def bindA_store inspect_kind_def get bindA_def ret_def of_result_def store_read_def)
  then show ?thesis using d reply limits [OF b(1)] by (auto simp: inspect_task_def guard_tool_def)
qed

end
