(* ===== verification/WorkflowFinishProps.thy ===== *)
theory WorkflowFinishProps
  imports WorkflowTools WorkflowPhases
begin

text \<open>
  What a finish reports is what the journal holds, and an action that was carried out is answered from
  its record.
\<close>

section \<open>A record after an update\<close>

text \<open>An update is a transaction that merges its fields.\<close>

lemma update_record_atomic:
  assumes "update_record env ts kind opaque project repository (PDict u) file = Inr (d, file')"
  shows "atomic_update env ts kind opaque project repository (\<lambda>e. Inr (True, dupdate e u)) file = Inr (d, file')"
proof -
  from assms have b: "bounded_mapping env (PDict u) ''workflow_record'' MAX_PREVIEW_BYTES = Inr u"
    by (auto simp: update_record_def bindR_eq_Inr bounded_mapping_def split: sum.splits if_splits)
  have same: "replace_entry kind (identity_of env kind opaque) (\<lambda>e. e\<lparr>en_data := dupdate (en_data e) u, en_updated := PFloat (Finite ts)\<rparr>) es =
      replace_entry kind (identity_of env kind opaque) (\<lambda>e. e\<lparr>en_data := dupdate (en_data x) u, en_updated := PFloat (Finite ts)\<rparr>) es"
    if "find_entry env kind opaque project repository es = Inr (Some x)" for es x
  proof -
    have "y = x" if "y \<in> set es" "has_identity kind (identity_of env kind opaque) y" for y
    proof -
      have "y \<in> set (filter (has_identity kind (identity_of env kind opaque)) es)" using that by simp
      then show ?thesis unfolding find_entry_filter(1) [OF \<open>find_entry env kind opaque project repository es = Inr (Some x)\<close>] by simp
    qed
    then show ?thesis by (auto simp: replace_entry_def)
  qed
  from assms b obtain es x where l: "take_lock env = Inr ()" and r: "read_journal file = Inr es"
    and f: "find_entry env kind opaque project repository es = Inr (Some x)" and d: "d = dupdate (en_data x) u"
    and w: "write_journal env (replace_entry kind (identity_of env kind opaque)
      (\<lambda>e. e\<lparr>en_data := dupdate (en_data e) u, en_updated := PFloat (Finite ts)\<rparr>) es) = Inr file'"
    by (auto simp: update_record_def mutate_eq_Inr take_lock_def bindR_eq_Inr split: option.splits)
  show ?thesis using w by (simp add: atomic_update_def mutate_def l r f d same [OF f])
qed

lemma get_record_any_scope:
  assumes "get_record env kind v project repository file = Inr d"
  shows "get_any_scope env kind v file = Inr (project, repository, d)"
proof -
  from assms obtain ident es e where "safe_component v ''workflow_handle'' 256 = Inr ident" "take_lock env = Inr ()"
    "read_journal file = Inr es" and f: "find_entry env kind ident project repository es = Inr (Some e)" and "en_data e = d"
    by (auto simp: get_record_def read_only_def bindR_eq_Inr split: option.splits)
  then show ?thesis using find_entry_filter [OF f] by (simp add: get_any_scope_def read_only_def)
qed

lemma get_any_scope_safe:
  "get_any_scope env kind (PStr h) file = Inr x \<Longrightarrow> safe_component (PStr h) ''workflow_handle'' 256 = Inr h"
  by (auto simp: get_any_scope_def bindR_eq_Inr safe_component_def split: if_splits)

lemma update_workflow_get:
  assumes "update_workflow nv handle project repository u s = (Inr d, s')"
    and safe: "safe_component (PStr handle) ''workflow_handle'' 256 = Inr handle"
  obtains e where "get_record (nv_env nv) ''workflow'' (PStr handle) project repository (hs_journal s) = Inr e" "d = dupdate e u"
    "get_any_scope (nv_env nv) ''workflow'' (PStr handle) (hs_journal s') = Inr (project, repository, d)"
proof -
  from assms(1) obtain j where j: "update_record (nv_env nv) (nv_clock nv (hs_world s)) ''workflow'' handle project repository (PDict u) (hs_journal s) = Inr (d, j)"
    "s' = s\<lparr>hs_journal := j\<rparr>" by (auto simp: update_workflow_def store_write_eq_Inr)
  show thesis
    by (rule atomic_update_get [OF update_record_atomic [OF j(1)] safe]) (use that get_record_any_scope j(2) in auto)
qed

lemma dget_dupdate: "dget (dupdate d e) k = (case map_of (rev e) k of Some v \<Rightarrow> v | None \<Rightarrow> dget d k)"
  by (simp add: dget_def dget_or_def map_of_dupdate map_add_def split: option.split)

section \<open>Finishing\<close>

definition journal_phase :: "wf_env \<Rightarrow> string \<Rightarrow> string \<Rightarrow> journal \<Rightarrow> bool" where
  "journal_phase env handle st file \<longleftrightarrow>
     (\<exists>p q rec. get_any_scope env ''workflow'' (PStr handle) file = Inr (p, q, rec) \<and> dget rec ''phase'' = PStr st)"

lemma case_sum_run:
  "(case r of Inl a \<Rightarrow> f a | Inr b \<Rightarrow> g b) s = x \<longleftrightarrow> (\<exists>a. r = Inl a \<and> f a s = x) \<or> (\<exists>b. r = Inr b \<and> g b s = x)"
  by (cases r) auto

lemma dget_head [simp]: "dget ((k, v) # d) k = v"
  by (simp add: dget_def dget_or_def)

lemma bounded_response_eq: "bounded_response env d = Inr x \<Longrightarrow> x = d"
  by (auto simp: bounded_response_def bounded_mapping_def split: sum.splits if_splits)

lemma attention_status [simp]:
  "dget (attention r h al) ''status'' = PStr ''attention_required''" "dget (native_attention d h) ''status'' = PStr ''attention_required''"
  by (simp_all add: attention_def native_attention_def dget_def dget_or_def)

lemma updated_phase:
  assumes "update_workflow nv handle p q u s = (Inr d, s')" "safe_component (PStr handle) ''workflow_handle'' 256 = Inr handle"
    "map_of (rev u) ''phase'' = Some (PStr st)"
  shows "journal_phase (nv_env nv) handle st (hs_journal s')"
proof (rule update_workflow_get [OF assms(1,2)])
  fix e assume "d = dupdate e u" "get_any_scope (nv_env nv) ''workflow'' (PStr handle) (hs_journal s') = Inr (p, q, d)"
  then show ?thesis using assms(3) by (auto simp: journal_phase_def dget_dupdate)
qed

lemma run_gates_status:
  assumes "run_gates nv handle p q rec payload s = (Inr g, s')"
  shows "dget g ''status'' = PStr ''ok'' \<or> dget g ''status'' = PStr ''attention_required''"
proof -
  have "dget x ''status'' = PStr ''attention_required''" if "verify_all nv handle p q rec ins qs results t = (Inr (Inl x), t')" for ins qs results t t' x
    using that by (induction qs arbitrary: results t) (auto simp: bindA_eq_Inr split: if_splits)
  with assms show ?thesis
    by (auto simp: run_gates_def bindA_eq_Inr case_sum_run dest!: bounded_response_eq split: option.splits if_splits)
qed

lemma release_stage_truthful:
  assumes safe: "safe_component (PStr handle) ''workflow_handle'' 256 = Inr handle"
    and run: "release_stage nv handle p q rec s = (Inr packet, s')" and st: "st \<in> {''review_pending'', ''released''}" "dget packet ''status'' = PStr st"
  shows "journal_phase (nv_env nv) handle st (hs_journal s')"
proof -
  from run st obtain released d s1 where u: "update_workflow nv handle p q [(''phase'', PStr ''released''), (''release_receipt'', PDict released)] s1 = (Inr d, s')"
    and "st = ''released''"
    by (auto simp: release_stage_def Let_def bindA_eq_Inr dest!: bounded_response_eq split: if_splits prod.splits)
  with updated_phase [OF u safe] show ?thesis by simp
qed

lemma report_stage_truthful:
  assumes safe: "safe_component (PStr handle) ''workflow_handle'' 256 = Inr handle"
    and run: "report_stage nv handle p q text reason rec s = (Inr (Inl packet), s')"
    and st: "st \<in> {''review_pending'', ''released''}" "dget packet ''status'' = PStr st"
  shows "journal_phase (nv_env nv) handle st (hs_journal s')"
proof -
  from run st obtain report cid d s1 where u: "update_workflow nv handle p q
      [(''candidate_id'', PStr cid), (''report_receipt'', PDict report), (''phase'', PStr ''review_pending'')] s1 = (Inr d, s')"
    and "st = ''review_pending''"
    by (auto simp: report_stage_def Let_def bindA_eq_Inr answer_def review_pending_packet_def
        simp del: nested_text.simps dest!: bounded_response_eq split: if_splits prod.splits option.splits)
  with updated_phase [OF u safe] show ?thesis by simp
qed

lemma begin_finish_status:
  assumes "begin_finish nv token handle p q action disposition text reason rec s = (Inr (Inl packet), s')"
  shows "dget packet ''status'' = PStr ''attention_required''"
  using assms
  by (auto simp: begin_finish_def bindA_eq_Inr answer_def ok_reply_def dest: run_gates_status split: if_splits)

lemma handback_stage_status:
  assumes "handback_stage nv handle p q rec s = (Inr (Inl packet), s')"
  shows "dget packet ''status'' = PStr ''attention_required''"
  using assms by (auto simp: handback_stage_def Let_def bindA_eq_Inr answer_def split: if_splits prod.splits)

lemma send_finish_truthful:
  assumes safe: "safe_component (PStr handle) ''workflow_handle'' 256 = Inr handle"
    and run: "send_finish nv handle p q ftr s = (Inr packet, s')" and st: "st \<in> {''review_pending'', ''released''}" "dget packet ''status'' = PStr st"
  shows "journal_phase (nv_env nv) handle st (hs_journal s')"
proof -
  obtain rec body reason where ftr: "ftr = (rec, body, reason)" by (cases ftr)
  from run obtain r s1 where a: "after_stage (handback_stage nv handle p q rec) (report_stage nv handle p q body reason) s = (Inr r, s1)"
    and f: "(case r of Inl packet \<Rightarrow> ret packet | Inr rec \<Rightarrow> release_stage nv handle p q rec) s1 = (Inr packet, s')"
    by (auto simp: send_finish_def ftr bindA_eq_Inr)
  show ?thesis
  proof (cases r)
    case (Inr rec2)
    with f show ?thesis using release_stage_truthful [OF safe _ st] by simp
  next
    case (Inl x)
    with f have x: "x = packet" "s1 = s'" by simp_all
    from a obtain h s2 where h: "handback_stage nv handle p q rec s = (Inr h, s2)"
      and rest: "(case h of Inl packet \<Rightarrow> ret (Inl packet) | Inr a \<Rightarrow> report_stage nv handle p q body reason a) s2 = (Inr r, s1)"
      by (auto simp: after_stage_def bindA_eq_Inr)
    show ?thesis
    proof (cases h)
      case (Inl y)
      with h rest \<open>r = Inl x\<close> x have "dget packet ''status'' = PStr ''attention_required''" by (auto dest: handback_stage_status)
      with st show ?thesis by auto
    next
      case (Inr rec1)
      with rest \<open>r = Inl x\<close> x show ?thesis using report_stage_truthful [OF safe _ st] by simp
    qed
  qed
qed

text \<open>
  C27. What an author is told is what the journal holds: when a finish is answered with a review that is
  pending, or with a release, the record of the handle is in that phase, so that a later call, by this
  host or after a restart, finds it there.
\<close>

theorem finish_truthful:
  assumes run: "finish_task nv token handle action disposition text reason s = (packet, s')"
    and author: "action \<in> {''complete'', ''handoff'', ''block'', ''release''}"
    and st: "st \<in> {''review_pending'', ''released''}" "dget packet ''status'' = PStr st"
  shows "journal_phase (nv_env nv) handle st (hs_journal s')"
proof -
  from author have a: "map_of REVIEW_ACTIONS action = None" by (auto simp: REVIEW_ACTIONS_def)
  from run st have "finish_body nv (coordinate_task nv token handle) token handle action disposition text reason s = (Inr packet, s')"
    by (auto simp: finish_task_def finish_with_def guard_tool_def split: prod.splits sum.splits exn.splits)
  with a obtain p q rec body reason' s1 where o: "open_handle nv (PStr handle) s = (Inr (p, q, rec), s1)"
    and fin: "finish_authoring nv token handle p q action disposition body reason' rec s1 = (Inr packet, s')"
    by (auto simp: finish_body_def bindA_eq_Inr split: if_splits)
  from o obtain d where g: "get_any_scope (nv_env nv) ''workflow'' (PStr handle) (hs_journal s) = Inr (p, q, d)"
    and rec: "rec = dupdate d [(''project'', PStr p), (''repository'', PStr q)]" and s1: "s1 = s"
    by (auto simp: open_handle_def bindA_eq_Inr)
  have safe: "safe_component (PStr handle) ''workflow_handle'' 256 = Inr handle" by (rule get_any_scope_safe [OF g])
  have phase: "dget rec ''phase'' = dget d ''phase''" by (simp add: rec dget_dupdate)
  have here: "journal_phase (nv_env nv) handle st (hs_journal s)" if "dget rec ''phase'' = PStr st"
    unfolding journal_phase_def using g phase that by auto
  consider (pending) "in_phase rec ''review_pending''" "review_pending_packet (nv_env nv) handle rec = Inr packet" "s' = s"
    | (over) "bounded_response (nv_env nv) ((''status'', dget rec ''phase'') # [(''workflow_handle'', PStr handle),
            (''allowed_actions'', PList [PStr ''inspect_task'', PStr ''next_task'']), (''recommended_next_call'', PStr ''next_task'')]) = Inr packet" "s' = s"
    | (begun) "begin_finish nv token handle p q action disposition body reason' rec s = (Inr (Inl packet), s')"
    | (sent) ftr s2 where "send_finish nv handle p q ftr s2 = (Inr packet, s')"
    using fin unfolding s1 by (auto simp: finish_authoring_def bindA_eq_Inr case_sum_run split: if_splits)
  then show ?thesis
  proof cases
    case pending
    then have "dget packet ''status'' = PStr ''review_pending''" by (auto simp: review_pending_packet_def dest!: bounded_response_eq)
    with pending st here show ?thesis by (simp add: in_phase_def)
  next
    case over
    then have "dget packet ''status'' = dget rec ''phase''" by (auto dest!: bounded_response_eq)
    with over st here show ?thesis by simp
  next
    case begun
    with st show ?thesis by (auto dest: begin_finish_status)
  next
    case sent
    then show ?thesis by (rule send_finish_truthful [OF safe _ st])
  qed
qed

section \<open>Actions\<close>

text \<open>A record whose journal says that the action is complete, with its result.\<close>

definition completed_with :: "pdict \<Rightarrow> string \<Rightarrow> pv \<Rightarrow> bool" where
  "completed_with record aid result \<longleftrightarrow>
     field_of (dget (operations_of record) aid) ''state'' = PStr ''complete'' \<and> field_of (dget (operations_of record) aid) ''result'' = result"












text \<open>That an action has been recorded as complete outlives every later answer, also of a recovery or an integration.\<close>

definition action_recorded :: "wf_env \<Rightarrow> string \<Rightarrow> string \<Rightarrow> journal \<Rightarrow> bool" where
  "action_recorded env handle aid file \<longleftrightarrow>
     (\<exists>p q d r. get_any_scope env ''workflow'' (PStr handle) file = Inr (p, q, d) \<and> completed_with d aid r)"




definition keeps_record :: "'n native \<Rightarrow> string \<Rightarrow> string \<Rightarrow> ('n, 'a) act \<Rightarrow> bool" where
  "keeps_record nv handle aid m \<longleftrightarrow>
     (\<forall>s x s'. m s = (Inr x, s') \<longrightarrow> action_recorded (nv_env nv) handle aid (hs_journal s) \<longrightarrow>
        action_recorded (nv_env nv) handle aid (hs_journal s'))"

lemma keeps_basic [simp]: "keeps_record nv handle aid (of_result r)" "keeps_record nv handle aid (ret a)"
  by (simp_all add: keeps_record_def of_result_def ret_def)






section \<open>Answers without a native call\<close>

text \<open>Steps that leave the native host's world, and the leases that threads renew, as they are.\<close>

definition local_to :: "('n, 'a) act \<Rightarrow> 'n host \<Rightarrow> bool" where
  "local_to m s \<longleftrightarrow> hs_world (snd (m s)) = hs_world s \<and> hs_workers (snd (m s)) = hs_workers s"

lemma local_basic [simp]: "local_to (of_result r) s" "local_to (ret a) s" "local_to (throw e) s" "local_to (store_read nv f) s"
  by (simp_all add: local_to_def of_result_def ret_def throw_def store_read_def)

lemma local_write [simp]: "local_to (update_workflow nv handle p q u) s"
  by (auto simp: local_to_def update_workflow_def store_write_def split: sum.split prod.split)






end
