(* ===== verification/WorkflowToolsDemo.thy ===== *)
theory WorkflowToolsDemo
  imports WorkflowContextDemo WorkflowToolsProps WorkflowInspectProps WorkflowFinishProps
begin

text \<open>Small records on which the properties of the tools are evaluated.\<close>

theorem host_steps_witness:
  "journal_ok demo_wf_env (hs_journal (host_call_state demo_native ''h9'' (NextTask ''p'' (Some ''r'') None None) demo_host))"
proof -
  have "fresh_handle demo_wf_env demo_journal ''h9''"
    by (simp add: fresh_handle_def demo_read demo_workflow_def demo_pointer_def) (simp add: identity_of_def demo_wf_env_def)
  with host_steps [OF demo_cooperative, of demo_host "NextTask ''p'' (Some ''r'') None None"] demo_journal_reachable
  show ?thesis by (simp add: demo_native_def demo_host_def)
qed

section \<open>A record of a workflow\<close>

lemma demo_env: "nv_env demo_native = demo_wf_env"
  by (simp add: demo_native_def)

definition held_entry :: "pdict \<Rightarrow> wf_entry" where
  "held_entry d = new_entry demo_wf_env ''workflow'' ''h1'' ''p'' ''r'' 0 d"

definition held_host :: "pdict \<Rightarrow> unit host" where
  "held_host d = demo_host\<lparr>hs_journal := Decoded (journal_pv [held_entry d])\<rparr>"

lemma held_get: "get_any_scope (nv_env demo_native) ''workflow'' (PStr ''h1'') (hs_journal (held_host d)) = Inr (''p'', ''r'', d)"
proof -
  have "safe_component (PStr ''h1'') ''workflow_handle'' 256 = Inr ''h1''" by code_simp
  moreover have "read_journal (Decoded (journal_pv [held_entry d])) = Inr [held_entry d]"
    by (rule read_journal_pv) (simp_all add: MAX_RECORDS_def held_entry_def)
  moreover have "take_lock demo_wf_env = Inr ()" by (simp add: take_lock_def demo_wf_env_def)
  ultimately show ?thesis
    by (simp add: get_any_scope_def read_only_def held_host_def demo_env has_identity_def held_entry_def)
qed

lemma held_open:
  "open_handle demo_native (PStr ''h1'') (held_host d) =
    (Inr (''p'', ''r'', dupdate d [(''project'', PStr ''p''), (''repository'', PStr ''r'')]), held_host d)"
  by (simp add: open_handle_def bindA_def store_read_def held_get ret_def)

text \<open>A small record is one that the store can hold.\<close>

lemma held_reachable:
  assumes "bounded_mapping demo_wf_env (PDict d) ''workflow_record'' MAX_PREVIEW_BYTES = Inr d"
    and "json_finite (journal_pv [held_entry d])" "int (json_bound (journal_pv [held_entry d])) \<le> MAX_STORE_BYTES"
  shows "(wf_step demo_wf_env)\<^sup>*\<^sup>* Missing (hs_journal (held_host d))"
proof (rule r_into_rtranclp)
  have "take_lock demo_wf_env = Inr ()" by (simp add: take_lock_def demo_wf_env_def)
  then have "create_record demo_wf_env 0 ''workflow'' ''h1'' ''p'' ''r'' (PDict d) Missing = Inr (''h1'', hs_journal (held_host d))"
    using write_small [OF assms(2,3)] assms(1)
    by (simp add: create_record_def mutate_def read_journal_def MAX_RECORDS_def held_host_def held_entry_def)
  then show "wf_step demo_wf_env Missing (hs_journal (held_host d))" by (rule ws_create) simp
qed

definition released_record :: pdict where
  "released_record = [(''phase'', PStr ''released'')]"

definition released_packet :: pdict where
  "released_packet = [(''status'', PStr ''released''), (''workflow_handle'', PStr ''h1''),
     (''allowed_actions'', PList [PStr ''inspect_task'', PStr ''next_task'']), (''recommended_next_call'', PStr ''next_task'')]"

lemma released_finish: "finish_task demo_native ''h9'' ''h1'' ''complete'' PNone PNone PNone (held_host released_record) = (released_packet, held_host released_record)"
proof -
  have "bounded_response demo_wf_env released_packet = Inr released_packet"
    unfolding bounded_response_def by (rule bounded_small) (simp_all add: released_packet_def MAX_RESPONSE_BYTES_def)
  then show ?thesis
    by (simp add: finish_task_def finish_with_def held_open dupdate_def guard_tool_def finish_body_def bindA_def of_result_def raise_if_def FINISH_ACTIONS_def optional_note_def
        REVIEW_ACTIONS_def dget_def dget_or_def released_record_def finish_authoring_def in_phase_def text_in_def demo_env released_packet_def)
qed

theorem finish_truthful_witness: "journal_phase demo_wf_env ''h1'' ''released'' (hs_journal (held_host released_record))"
  using finish_truthful [OF released_finish, of "''released''"] by (simp add: released_packet_def dget_def dget_or_def demo_env)

section \<open>An action that is complete\<close>










section \<open>An inspection\<close>

definition task_context :: pdict where
  "task_context = [(''status'', PStr ''ready'')]"

definition task_record :: pdict where
  "task_record = [(''context'', PDict task_context)]"

theorem task_inspection_answered_witness:
  "inspect_task demo_native ''h1'' ''task'' PNone (PInt 512) (held_host task_record) =
    ([(''status'', PStr ''ok''), (''kind'', PStr ''task''), (''result'', PDict task_context), (''workflow_handle'', PStr ''h1'')], held_host task_record)"
proof -
  have "bounded_mapping demo_wf_env (PDict task_record) ''workflow_record'' MAX_PREVIEW_BYTES = Inr task_record"
    by (rule bounded_small) (simp_all add: task_record_def task_context_def MAX_PREVIEW_BYTES_def)
  then have "(wf_step demo_wf_env)\<^sup>*\<^sup>* Missing (hs_journal (held_host task_record))"
    by (rule held_reachable) (simp_all add: journal_pv_def entry_pv_def demo_defs held_entry_def task_record_def task_context_def MAX_STORE_BYTES_def
        STORE_FORMAT_def STORE_VERSION_def string_of_int_def string_of_nat.simps)
  then have reach: "(wf_step (nv_env demo_native))\<^sup>*\<^sup>* Missing (hs_journal (held_host task_record))" by (simp add: demo_env)
  have "int (json_bound (PDict task_context)) \<le> result_limit 512"
    by (simp add: task_context_def result_limit_def response_limit_def MAX_RESPONSE_BYTES_def)
  moreover have "json_size (float_repr demo_wf_env) (PDict task_context) \<le> json_bound (PDict task_context)"
    by (rule json_size_bound) (simp add: demo_wf_env_def)
  ultimately have "int (json_size (float_repr (nv_env demo_native)) (PDict task_context)) \<le> result_limit 512" by (simp add: demo_env)
  with task_inspection_answered [OF reach held_get, of task_context 512 PNone] show ?thesis
    by (auto simp: task_record_def dget_def dget_or_def task_answer_def fits_limit_def)
qed

end
