(* ===== verification/Topology.thy ===== *)
theory Topology
  imports PyBuiltins
begin

text \<open>
  The topology of the accelerators (\<^verbatim>\<open>host_resources/topology.py\<close>): the matrix that
  \<^verbatim>\<open>nvidia-smi topo -m\<close> prints, the islands that its NVLink relations form, which a union-find with
  path halving computes, and the resources that discovery registers.  The process that runs
  \<^verbatim>\<open>nvidia-smi\<close> is the parameter \<open>runner\<close>.
\<close>

section \<open>The topology matrix\<close>

text \<open>\<^verbatim>\<open>ANSI_ESCAPE.sub("", raw)\<close>.\<close>

definition match_ansi :: "string \<Rightarrow> string option" where
  "match_ansi s = (case s of
     e # b # r \<Rightarrow>
       if e = char_of (27 :: nat) \<and> b = CHR ''['' then
         (case dropWhile (\<lambda>c. is_digit c \<or> c = CHR '';'') r of
            m # q \<Rightarrow> if m = CHR ''m'' then Some q else None
          | [] \<Rightarrow> None)
       else None
   | _ \<Rightarrow> None)"

lemma match_ansi_length: "match_ansi s = Some q \<Longrightarrow> length q < length s"
proof -
  assume "match_ansi s = Some q"
  then obtain e b r m where s: "s = e # b # r" "dropWhile (\<lambda>c. is_digit c \<or> c = CHR '';'') r = m # q"
    by (auto simp: match_ansi_def split: list.splits if_splits)
  then have "length (m # q) \<le> length r" by (metis length_dropWhile_le)
  with s show ?thesis by simp
qed

function strip_ansi :: "string \<Rightarrow> string" where
  "strip_ansi s =
     (case match_ansi s of
        Some q \<Rightarrow> strip_ansi q
      | None \<Rightarrow> (case s of [] \<Rightarrow> [] | c # cs \<Rightarrow> c # strip_ansi cs))"
  by pat_completeness auto

termination by (relation "measure length") (auto dest: match_ansi_length)

declare strip_ansi.simps [simp del]

type_synonym links = "(int \<times> (int \<times> string) list) list"

record matrix =
  mx_links :: links
  mx_numa :: "(int \<times> string) list"
  mx_columns :: "(nat \<times> int) list"
  mx_numa_column :: "nat option"
  mx_complete :: bool

definition empty_matrix :: matrix where
  "empty_matrix = \<lparr>mx_links = [], mx_numa = [], mx_columns = [], mx_numa_column = None, mx_complete = True\<rparr>"

definition matrix_fields :: "string \<Rightarrow> string list" where
  "matrix_fields clean =
     (if TAB \<in> set clean then
        (let fields = map strip (split_on TAB clean) in case fields of [] # rest \<Rightarrow> rest | _ \<Rightarrow> fields)
      else words clean)"

definition gpu_name :: "string \<Rightarrow> bool" where
  "gpu_name s \<longleftrightarrow> startswith s ''GPU'' \<and> isdigit (drop 3 s)"

definition index_of :: "'a list \<Rightarrow> 'a \<Rightarrow> nat" where
  "index_of xs x = length (takeWhile (\<lambda>y. y \<noteq> x) xs)"

definition header_columns :: "string list \<Rightarrow> (nat \<times> int) list result" where
  "header_columns header =
     mapR (\<lambda>name. bindR (py_int (drop 3 name)) (\<lambda>i. Inr (index_of header name + 1, i))) (filter gpu_name header)"

definition matrix_header :: "string list \<Rightarrow> matrix \<Rightarrow> matrix result" where
  "matrix_header header m =
     bindR (header_columns header) (\<lambda>columns.
     Inr (m\<lparr>mx_columns := columns,
            mx_numa_column :=
              (case find (\<lambda>name. name \<in> set header) [''NUMA Affinity'', ''NUMA_Affinity''] of
                 Some name \<Rightarrow> Some (index_of header name) | None \<Rightarrow> mx_numa_column m)\<rparr>))"

fun row_links :: "string list \<Rightarrow> (nat \<times> int) list \<Rightarrow> (int \<times> string) list \<times> bool \<Rightarrow> (int \<times> string) list \<times> bool" where
  "row_links row [] acc = acc"
| "row_links row ((column, peer) # cs) (adjacent, whole) =
     row_links row cs
       (if column \<ge> length row then (adjacent, False) else (AList.update peer (row ! column) adjacent, whole))"

definition row_numa :: "string list \<Rightarrow> int \<Rightarrow> matrix \<Rightarrow> (int \<times> string) list" where
  "row_numa row i m =
     (case mx_numa_column m of
        Some c \<Rightarrow>
          if c + 1 < length row \<and> isdigit (dropWhile (\<lambda>x. x = CHR ''-'') (row ! (c + 1)))
          then AList.update i (row ! (c + 1)) (mx_numa m) else mx_numa m
      | None \<Rightarrow> mx_numa m)"

definition matrix_row :: "string list \<Rightarrow> matrix \<Rightarrow> matrix result" where
  "matrix_row row m =
     bindR (py_int (drop 3 (hd row))) (\<lambda>i.
     let (adjacent, whole) = row_links row (mx_columns m) ([], mx_complete m) in
     Inr (m\<lparr>mx_links := AList.update i adjacent (mx_links m), mx_complete := whole, mx_numa := row_numa row i m\<rparr>))"

definition matrix_line :: "matrix \<Rightarrow> string \<Rightarrow> matrix result" where
  "matrix_line m raw =
     (let row = matrix_fields (strip_ansi raw) in
      if row = [] then Inr m
      else if length row > 1 \<and> startswith (hd row) ''GPU'' \<and> startswith (row ! 1) ''GPU'' then matrix_header row m
      else if gpu_name (hd row) then matrix_row row m
      else Inr m)"

fun matrix_lines :: "matrix \<Rightarrow> string list \<Rightarrow> matrix result" where
  "matrix_lines m [] = Inr m"
| "matrix_lines m (raw # raws) = bindR (matrix_line m raw) (\<lambda>m'. matrix_lines m' raws)"

definition matrix_indices :: "matrix \<Rightarrow> int list" where
  "matrix_indices m = sort (map snd (mx_columns m))"

definition matrix_complete :: "matrix \<Rightarrow> bool" where
  "matrix_complete m \<longleftrightarrow>
     mx_complete m \<and> matrix_indices m \<noteq> [] \<and> fst ` set (mx_links m) = set (matrix_indices m) \<and>
     list_all (\<lambda>(_, adjacent). fst ` set adjacent = set (matrix_indices m)) (mx_links m)"

definition parse_topology_matrix :: "string \<Rightarrow> (int list \<times> links \<times> (int \<times> string) list \<times> bool) result" where
  "parse_topology_matrix topology =
     bindR (matrix_lines empty_matrix (splitlines topology)) (\<lambda>m.
     Inr (matrix_indices m, mx_links m, mx_numa m, matrix_complete m))"

section \<open>Islands\<close>

text \<open>
  The parents of the union-find.  Its loop ends because a parent is never larger than its child; what it
  does on other parents is not to return, which is the value \<open>None\<close>.
\<close>

type_synonym parents = "int \<Rightarrow> int option"
type_synonym 'a run = "'a result option"

definition bindO :: "'a run \<Rightarrow> ('a \<Rightarrow> 'b run) \<Rightarrow> 'b run" where
  "bindO m f = (case m of None \<Rightarrow> None | Some (Inl e) \<Rightarrow> Some (Inl e) | Some (Inr a) \<Rightarrow> f a)"

partial_function (option) find_root :: "parents \<Rightarrow> int \<Rightarrow> (int \<times> parents) run" where
  "find_root parent v =
     (case parent v of
        None \<Rightarrow> Some (Inl (KeyError ''parent''))
      | Some p \<Rightarrow>
          if p = v then Some (Inr (v, parent))
          else (case parent p of
                  None \<Rightarrow> Some (Inl (KeyError ''parent''))
                | Some g \<Rightarrow> find_root (parent(v \<mapsto> g)) g))"

definition union_roots :: "parents \<Rightarrow> int \<Rightarrow> int \<Rightarrow> parents run" where
  "union_roots parent left right =
     bindO (find_root parent left) (\<lambda>(l, parent).
     bindO (find_root parent right) (\<lambda>(r, parent).
     Some (Inr (if l \<noteq> r then parent(max l r \<mapsto> min l r) else parent))))"

definition is_nvlink :: "string \<Rightarrow> bool" where
  "is_nvlink relation \<longleftrightarrow> startswith relation ''NV''"

fun join_row :: "int \<Rightarrow> (int \<times> string) list \<Rightarrow> parents \<Rightarrow> parents run" where
  "join_row left [] parent = Some (Inr parent)"
| "join_row left ((right, relation) # adjacent) parent =
     bindO (if is_nvlink relation \<and> parent right \<noteq> None then union_roots parent left right else Some (Inr parent))
       (join_row left adjacent)"

fun join_links :: "links \<Rightarrow> parents \<Rightarrow> parents run" where
  "join_links [] parent = Some (Inr parent)"
| "join_links ((left, adjacent) # links) parent = bindO (join_row left adjacent parent) (join_links links)"

fun group_indices :: "int list \<Rightarrow> parents \<Rightarrow> (int \<times> int list) list \<Rightarrow> (int \<times> int list) list run" where
  "group_indices [] parent groups = Some (Inr groups)"
| "group_indices (i # is) parent groups =
     bindO (find_root parent i) (\<lambda>(r, parent).
     group_indices is parent (AList.update r ((case map_of groups r of Some g \<Rightarrow> g | None \<Rightarrow> []) @ [i]) groups))"

definition own_parents :: "int list \<Rightarrow> parents" where
  "own_parents indices = (\<lambda>i. if i \<in> set indices then Some i else None)"

definition nvlink_components :: "int list \<Rightarrow> links \<Rightarrow> int list list run" where
  "nvlink_components indices links =
     bindO (join_links links (own_parents indices)) (\<lambda>parent.
     bindO (group_indices indices parent []) (\<lambda>groups.
     Some (Inr (sort (map (\<lambda>(_, group). sort group) groups)))))"

section \<open>Classification\<close>

record host_topology =
  ht_mode :: string
  ht_gpu_count :: "nat option"
  ht_components :: "int list list"
  ht_status :: string

type_synonym runner = "string list \<Rightarrow> string result"

text \<open>The exceptions that mean that there is no topology.\<close>

fun topology_unavailable :: "exn \<Rightarrow> bool" where
  "topology_unavailable (OSError _) = True"
| "topology_unavailable (SubprocessError _) = True"
| "topology_unavailable (TypeError _) = True"
| "topology_unavailable (ValueError _) = True"
| "topology_unavailable _ = False"

definition topology_mode :: "int list \<Rightarrow> int list list \<Rightarrow> host_topology" where
  "topology_mode indices components =
     (let sizes = sort (map length components) in
      if length indices = 4 \<and> sizes = [2, 2] then \<lparr>ht_mode = ''normal'', ht_gpu_count = Some 4, ht_components = components, ht_status = ''available''\<rparr>
      else if length indices = 4 \<and> sizes = [4] then \<lparr>ht_mode = ''x_mode'', ht_gpu_count = Some 4, ht_components = components, ht_status = ''available''\<rparr>
      else \<lparr>ht_mode = ''unknown'', ht_gpu_count = Some (length indices), ht_components = components, ht_status = ''unsupported''\<rparr>)"

definition classify_local_worker_host_topology :: "runner \<Rightarrow> host_topology run" where
  "classify_local_worker_host_topology runner =
     (case bindR (runner [''nvidia-smi'', ''topo'', ''-m'']) parse_topology_matrix of
        Inl e \<Rightarrow>
          if topology_unavailable e
          then Some (Inr \<lparr>ht_mode = ''unknown'', ht_gpu_count = None, ht_components = [], ht_status = ''unavailable''\<rparr>)
          else Some (Inl e)
      | Inr (indices, links, _, whole) \<Rightarrow>
          if \<not> whole
          then Some (Inr \<lparr>ht_mode = ''unknown'', ht_gpu_count = (if indices = [] then None else Some (length indices)),
                         ht_components = [], ht_status = ''unavailable''\<rparr>)
          else bindO (nvlink_components indices links) (\<lambda>components. Some (Inr (topology_mode indices components))))"

end
