(* ===== verification/TopologyProps.thy ===== *)
theory TopologyProps
  imports Topology "HOL-Library.Multiset"
begin

text \<open>
  The islands are the connected components of the NVLink relation: the union-find returns, and raises
  exactly when a linked row is not an index.
\<close>

section \<open>Roots\<close>

inductive roots :: "parents \<Rightarrow> int \<Rightarrow> int \<Rightarrow> bool" for parent where
  root_self: "parent r = Some r \<Longrightarrow> roots parent r r"
| root_step: "parent v = Some p \<Longrightarrow> p \<noteq> v \<Longrightarrow> roots parent p r \<Longrightarrow> roots parent v r"

inductive_cases root_cases: "roots parent v r"

definition descending :: "parents \<Rightarrow> bool" where
  "descending parent \<longleftrightarrow> finite (dom parent) \<and> (\<forall>v p. parent v = Some p \<longrightarrow> p \<le> v \<and> parent p \<noteq> None)"

lemma descendingD: "descending parent \<Longrightarrow> parent v = Some p \<Longrightarrow> p \<le> v \<and> parent p \<noteq> None"
  by (auto simp: descending_def)

lemma descending_finite: "descending parent \<Longrightarrow> finite (dom parent)"
  by (simp add: descending_def)

lemma descendingI:
  "finite (dom parent) \<Longrightarrow> (\<And>v p. parent v = Some p \<Longrightarrow> p \<le> v) \<Longrightarrow> (\<And>v p. parent v = Some p \<Longrightarrow> parent p \<noteq> None) \<Longrightarrow> descending parent"
  by (auto simp: descending_def)

lemma roots_unique: "roots parent v r \<Longrightarrow> roots parent v s \<Longrightarrow> r = s"
proof (induction arbitrary: s rule: roots.induct)
  case (root_self r)
  from root_self(2,1) show ?case by (auto elim: root_cases)
next
  case (root_step v p r)
  from root_step.prems root_step.hyps(1,2) have "roots parent p s" by (auto elim: root_cases)
  then show ?case by (rule root_step.IH)
qed

lemma roots_dom: "roots parent v r \<Longrightarrow> parent v \<noteq> None \<and> parent r = Some r"
  by (induction rule: roots.induct) auto

text \<open>The number of smaller elements decreases along the parents.\<close>

definition below :: "parents \<Rightarrow> int \<Rightarrow> nat" where
  "below parent v = card {k \<in> dom parent. k < v}"

lemma below_less:
  assumes "descending parent" "parent v = Some p" "p \<noteq> v"
  shows "below parent p < below parent v"
  unfolding below_def
proof (rule psubset_card_mono)
  show "finite {k \<in> dom parent. k < v}" using assms(1) by (simp add: descending_def)
  have "p \<le> v" "parent p \<noteq> None" using assms by (auto simp: descending_def)
  with assms(3) have "p \<in> {k \<in> dom parent. k < v}" by auto
  moreover have "p \<notin> {k \<in> dom parent. k < p}" by simp
  moreover have "{k \<in> dom parent. k < p} \<subseteq> {k \<in> dom parent. k < v}" using \<open>p \<le> v\<close> by auto
  ultimately show "{k \<in> dom parent. k < p} \<subset> {k \<in> dom parent. k < v}" by blast
qed

lemma roots_exist: "descending parent \<Longrightarrow> parent v \<noteq> None \<Longrightarrow> \<exists>r. roots parent v r"
proof (induction "below parent v" arbitrary: v rule: less_induct)
  case less
  then obtain p where p: "parent v = Some p" by auto
  show ?case
  proof (cases "p = v")
    case False
    moreover have "parent p \<noteq> None" using less.prems(1) p by (auto simp: descending_def)
    ultimately obtain r where "roots parent p r" using less.hyps [of p] below_less [OF less.prems(1) p] less.prems(1) by blast
    with p False show ?thesis by (blast intro: root_step)
  qed (use p in \<open>auto intro: root_self\<close>)
qed

definition same_roots :: "parents \<Rightarrow> parents \<Rightarrow> bool" where
  "same_roots parent parent' \<longleftrightarrow> descending parent' \<and> dom parent' = dom parent \<and> (\<forall>v r. roots parent' v r \<longleftrightarrow> roots parent v r)"

lemma same_roots_trans: "same_roots p q \<Longrightarrow> same_roots q r \<Longrightarrow> same_roots p r"
  by (simp add: same_roots_def)

lemma same_rootsI:
  assumes d: "descending parent" "descending parent'" and dom: "dom parent' = dom parent"
    and keep: "\<And>v r. roots parent v r \<Longrightarrow> roots parent' v r"
  shows "same_roots parent parent'"
proof -
  have "roots parent v r" if "roots parent' v r" for v r
  proof -
    from roots_dom [OF that] dom have "parent v \<noteq> None" by (auto simp: dom_def)
    with d(1) obtain s where "roots parent v s" using roots_exist by blast
    with keep [OF this] that show ?thesis by (metis roots_unique)
  qed
  with d dom keep show ?thesis unfolding same_roots_def by blast
qed

text \<open>Halving a path keeps the roots.\<close>

lemma halving:
  assumes d: "descending parent" and v: "parent v = Some p" "p \<noteq> v" "parent p = Some g"
  shows "same_roots parent (parent(v \<mapsto> g))" "g < v"
proof -
  from d v have le: "p \<le> v" "g \<le> p" "parent g \<noteq> None" unfolding descending_def by blast+
  with v(2) have "g < v" by simp
  then show "g < v" .
  show "same_roots parent (parent(v \<mapsto> g))"
  proof (rule same_rootsI [OF d])
    show "descending (parent(v \<mapsto> g))" by (rule descendingI) (use d le v \<open>g < v\<close> in \<open>auto dest: descendingD descending_finite split: if_splits\<close>)
    show "dom (parent(v \<mapsto> g)) = dom parent" using v by auto
    define q where "q = parent(v \<mapsto> g)"
    have q: "q v = Some g" "\<And>w. w \<noteq> v \<Longrightarrow> q w = parent w" by (simp_all add: q_def)
    fix w s assume "roots parent w s"
    then have "roots q w s"
    proof (induction rule: roots.induct)
      case (root_self r)
      then show ?case using v q by (cases "r = v") (auto intro: roots.root_self)
    next
      case (root_step w u s)
      show ?case
      proof (cases "w = v")
        case False
        with root_step q show ?thesis by (auto intro: roots.root_step)
      next
        case True
        with root_step v have p: "roots q p s" by simp
        have "roots q g s"
        proof (cases "g = p")
          case False
          from p v False q show ?thesis by (auto elim: root_cases)
        qed (use p in simp)
        with \<open>g < v\<close> True q show ?thesis by (auto intro: roots.root_step)
      qed
    qed
    then show "roots (parent(v \<mapsto> g)) w s" by (simp add: q_def)
  qed
qed

lemma find_root_halving:
  "find_root parent v =
     (case parent v of
        None \<Rightarrow> Some (Inl (KeyError ''parent''))
      | Some p \<Rightarrow>
          if p = v then Some (Inr (v, parent))
          else (case parent p of
                  None \<Rightarrow> Some (Inl (KeyError ''parent''))
                | Some g \<Rightarrow> find_root (parent(v \<mapsto> g)) g))"
  by (rule find_root.simps)

lemma find_root_missing: "parent v = None \<Longrightarrow> find_root parent v = Some (Inl (KeyError ''parent''))"
  by (subst find_root_halving) simp

lemma find_root_finds:
  assumes "descending parent" "parent v \<noteq> None"
  obtains r parent' where "find_root parent v = Some (Inr (r, parent'))" "roots parent v r" "same_roots parent parent'"
proof -
  have "\<exists>r parent'. find_root parent v = Some (Inr (r, parent')) \<and> roots parent v r \<and> same_roots parent parent'"
    using assms
  proof (induction "below parent v" arbitrary: parent v rule: less_induct)
    case less
    then obtain p where p: "parent v = Some p" by auto
    show ?case
    proof (cases "p = v")
      case True
      with p less.prems(1) show ?thesis by (subst find_root_halving) (auto intro: root_self simp: same_roots_def)
    next
      case False
      from less.prems(1) p obtain g where g: "parent p = Some g" by (auto simp: descending_def)
      note h = halving [OF less.prems(1) p False g]
      have dg: "descending (parent(v \<mapsto> g))" and dm: "dom (parent(v \<mapsto> g)) = dom parent" using h(1) by (auto simp: same_roots_def)
      have "below (parent(v \<mapsto> g)) g < below parent v"
        using below_less [OF dg, of v g] h(2) unfolding below_def dm by simp
      moreover have "(parent(v \<mapsto> g)) g \<noteq> None" using dg h(2) unfolding descending_def by (metis fun_upd_same)
      ultimately obtain r q where "find_root (parent(v \<mapsto> g)) g = Some (Inr (r, q))" "roots (parent(v \<mapsto> g)) g r" "same_roots (parent(v \<mapsto> g)) q"
        using less.hyps [OF _ dg] by blast
      moreover from this h(2) have "roots (parent(v \<mapsto> g)) v r" by (intro root_step [of _ v g]) auto
      then have "roots parent v r" using h(1) by (simp add: same_roots_def)
      ultimately show ?thesis using p False g same_roots_trans [OF h(1)] by (subst find_root_halving) auto
    qed
  qed
  with that show thesis by blast
qed

section \<open>Unions\<close>

definition linked :: "(int \<times> int) set \<Rightarrow> (int \<times> int) set" where
  "linked E = (E \<union> E\<inverse>)\<^sup>*"

lemma linked_sym: "(v, w) \<in> linked E \<Longrightarrow> (w, v) \<in> linked E"
  unfolding linked_def by (metis converse_Un converse_converse rtrancl_converseI sup_commute)

lemma linked_trans: "(u, v) \<in> linked E \<Longrightarrow> (v, w) \<in> linked E \<Longrightarrow> (u, w) \<in> linked E"
  unfolding linked_def by (rule rtrancl_trans)

lemma linked_mono: "E \<subseteq> F \<Longrightarrow> linked E \<subseteq> linked F"
  unfolding linked_def by (rule rtrancl_mono) auto

lemma linked_edge: "(v, w) \<in> E \<Longrightarrow> (v, w) \<in> linked E"
  unfolding linked_def by auto

text \<open>The parents stand for the partition that a set of edges generates.\<close>

definition represents :: "parents \<Rightarrow> int set \<Rightarrow> (int \<times> int) set \<Rightarrow> bool" where
  "represents parent D E \<longleftrightarrow> descending parent \<and> dom parent = D \<and> E \<subseteq> D \<times> D \<and>
     (\<forall>(a, b) \<in> E. \<forall>r. roots parent a r \<longrightarrow> roots parent b r) \<and> (\<forall>v r. roots parent v r \<longrightarrow> (v, r) \<in> linked E)"

lemma represents_start: "represents (own_parents indices) (set indices) {}"
proof -
  have "v = r" if "roots (own_parents indices) v r" for v r
    using that by (induction rule: roots.induct) (auto simp: own_parents_def split: if_splits)
  then show ?thesis by (auto simp: represents_def descending_def own_parents_def linked_def dom_def split: if_splits)
qed

lemma represents_same: "represents parent D E \<Longrightarrow> same_roots parent parent' \<Longrightarrow> represents parent' D E"
  by (auto simp: represents_def same_roots_def)

lemma represents_roots:
  assumes "represents parent D E" "roots parent v r" "roots parent w s"
  shows "(v, w) \<in> linked E \<longleftrightarrow> r = s"
proof
  assume "r = s"
  with assms show "(v, w) \<in> linked E" unfolding represents_def by (metis linked_sym linked_trans)
next
  have sym: "roots parent a x \<longleftrightarrow> roots parent b x" if "(a, b) \<in> E \<union> E\<inverse>" for a b x
  proof -
    have "roots parent a x \<longleftrightarrow> roots parent b x" if "(a, b) \<in> E" for a b
    proof -
      from assms(1) that have "parent a \<noteq> None" "descending parent" by (auto simp: represents_def)
      then obtain y where "roots parent a y" using roots_exist by blast
      moreover from this assms(1) that have "roots parent b y" by (auto simp: represents_def)
      ultimately show ?thesis by (metis roots_unique)
    qed
    with that show ?thesis by blast
  qed
  assume "(v, w) \<in> linked E"
  then have "(v, w) \<in> (E \<union> E\<inverse>)\<^sup>*" by (simp add: linked_def)
  then have "roots parent w r" using assms(2) by (induction rule: rtrancl_induct) (use sym in blast)+
  with assms(3) show "r = s" by (metis roots_unique)
qed

lemma relinked:
  assumes "parent l = Some l" "parent r = Some r" "l \<noteq> r" and v: "roots parent v s"
  shows "roots (parent(max l r \<mapsto> min l r)) v (if s = max l r then min l r else s)"
  using v
proof (induction rule: roots.induct)
  case (root_self s)
  have "parent (min l r) = Some (min l r)" "min l r \<noteq> max l r" using assms(1-3) by (auto simp: min_def max_def)
  then have "roots (parent(max l r \<mapsto> min l r)) (min l r) (min l r)" by (auto intro: roots.root_self)
  with \<open>min l r \<noteq> max l r\<close> have "roots (parent(max l r \<mapsto> min l r)) (max l r) (min l r)" by (auto intro: roots.root_step)
  with root_self show ?case by (cases "s = max l r") (auto intro: roots.root_self simp del: fun_upd_apply, simp add: roots.root_self)
next
  case (root_step v p s)
  have "parent (max l r) = Some (max l r)" using assms(1-2) by (auto simp: max_def)
  with root_step have "v \<noteq> max l r" by auto
  with root_step show ?case by (auto intro: roots.root_step)
qed

lemma relink_represents:
  assumes rep: "represents parent D E" and l: "roots parent left l" and r: "roots parent right r" and "l \<noteq> r"
  shows "represents (parent(max l r \<mapsto> min l r)) D (insert (left, right) E)"
proof -
  let ?q = "parent(max l r \<mapsto> min l r)" and ?E = "insert (left, right) E"
  let ?f = "\<lambda>s. if s = max l r then min l r else s"
  have self: "parent l = Some l" "parent r = Some r" using roots_dom [OF l] roots_dom [OF r] by auto
  have d: "descending parent" "dom parent = D" "E \<subseteq> D \<times> D" using rep by (auto simp: represents_def)
  have dq: "descending ?q" using d(1) self by (auto simp: descending_def min_def max_def split: if_splits)
  have dom: "dom ?q = D" using d(2) self by (auto simp: max_def)
  have new: "\<exists>s. roots parent v s \<and> t = ?f s" if "roots ?q v t" for v t
  proof -
    from roots_dom [OF that] dom d(2) have "parent v \<noteq> None" by (auto simp: dom_def)
    with d(1) obtain s where "roots parent v s" using roots_exist by blast
    with relinked [OF self \<open>l \<noteq> r\<close> this] that show ?thesis by (metis roots_unique)
  qed
  have edge: "roots ?q b t" if e: "(a, b) \<in> ?E" and a: "roots ?q a t" for a b t
  proof -
    obtain s where s: "roots parent a s" "t = ?f s" using new [OF a] by blast
    show ?thesis
    proof (cases "(a, b) = (left, right)")
      case True
      with s l have "s = l" by (auto dest: roots_unique)
      with s have "t = ?f r" by (auto simp: min_def max_def)
      with relinked [OF self \<open>l \<noteq> r\<close> r] True show ?thesis by simp
    next
      case False
      with e s rep have "roots parent b s" by (auto simp: represents_def)
      with relinked [OF self \<open>l \<noteq> r\<close> this] s show ?thesis by simp
    qed
  qed
  have old: "(v, s) \<in> linked ?E" if "roots parent v s" for v s
    using rep that linked_mono [OF subset_insertI] unfolding represents_def by blast
  have "(l, r) \<in> linked ?E"
    using linked_trans [OF linked_trans [OF linked_sym [OF old [OF l]] linked_edge [of left right ?E]] old [OF r]] by simp
  then have "(max l r, min l r) \<in> linked ?E" using linked_sym by (auto simp: max_def min_def)
  then have "(v, t) \<in> linked ?E" if "roots ?q v t" for v t
    using new [OF that] old by (auto intro: linked_trans split: if_splits)
  moreover have "(left, right) \<in> D \<times> D" using roots_dom [OF l] roots_dom [OF r] d(2) by auto
  ultimately show ?thesis using dq dom d(3) edge unfolding represents_def by blast
qed

lemma same_represents:
  assumes "represents parent D E" "roots parent left l" "roots parent right l"
  shows "represents parent D (insert (left, right) E)"
proof -
  have "linked E \<subseteq> linked (insert (left, right) E)" by (rule linked_mono) auto
  moreover have "roots parent right s" if "roots parent left s" for s using assms(2,3) that by (metis roots_unique)
  moreover have "(left, right) \<in> D \<times> D" using assms roots_dom unfolding represents_def by blast
  ultimately show ?thesis using assms(1) unfolding represents_def by blast
qed

lemma union_roots_joins:
  assumes rep: "represents parent D E" and "left \<in> D" "right \<in> D"
  obtains q where "union_roots parent left right = Some (Inr q)" "represents q D (insert (left, right) E)"
proof -
  have d: "descending parent" "dom parent = D" using rep by (auto simp: represents_def)
  obtain l p1 where l: "find_root parent left = Some (Inr (l, p1))" "roots parent left l" "same_roots parent p1"
    using d assms(2) by (auto elim: find_root_finds [of parent left])
  note rep1 = represents_same [OF rep l(3)]
  have d1: "descending p1" "p1 right \<noteq> None" using rep1 assms(3) by (auto simp: represents_def)
  obtain r p2 where r: "find_root p1 right = Some (Inr (r, p2))" "roots p1 right r" "same_roots p1 p2"
    by (rule find_root_finds [OF d1])
  note rep2 = represents_same [OF rep1 r(3)]
  have "roots p2 left l" "roots p2 right r" using l r by (auto simp: same_roots_def)
  then show thesis
    using that l(1) r(1) relink_represents [OF rep2] same_represents [OF rep2]
    by (cases "l = r") (auto simp: union_roots_def bindO_def)
qed

section \<open>Links\<close>

definition row_edges :: "int set \<Rightarrow> int \<Rightarrow> (int \<times> string) list \<Rightarrow> (int \<times> int) set" where
  "row_edges D left adjacent = {(left, right) | right. \<exists>relation. (right, relation) \<in> set adjacent \<and> is_nvlink relation \<and> right \<in> D}"

definition nvlink_edges :: "int set \<Rightarrow> links \<Rightarrow> (int \<times> int) set" where
  "nvlink_edges D links = (\<Union>(left, adjacent) \<in> set links. row_edges D left adjacent)"

lemma nvlink_edges_Cons: "nvlink_edges D ((left, adjacent) # links) = row_edges D left adjacent \<union> nvlink_edges D links"
  by (simp add: nvlink_edges_def)

lemma row_edges_Cons:
  "row_edges D left ((right, relation) # adjacent) =
    (if is_nvlink relation \<and> right \<in> D then insert (left, right) (row_edges D left adjacent) else row_edges D left adjacent)"
  by (auto simp: row_edges_def)

lemma join_row_joins:
  assumes "represents parent D E" "fst ` row_edges D left adjacent \<subseteq> D"
  shows "\<exists>q. join_row left adjacent parent = Some (Inr q) \<and> represents q D (E \<union> row_edges D left adjacent)"
  using assms
proof (induction left adjacent parent arbitrary: E rule: join_row.induct)
  case (1 left parent)
  then show ?case by (simp add: row_edges_def)
next
  case (2 left right relation adjacent parent)
  have dom: "dom parent = D" using 2(2) by (simp add: represents_def)
  show ?case
  proof (cases "is_nvlink relation \<and> right \<in> D")
    case True
    with 2(3) have "left \<in> D" "fst ` row_edges D left adjacent \<subseteq> D" by (auto simp: row_edges_Cons)
    from union_roots_joins [OF 2(2) this(1)] True obtain q where
      q: "union_roots parent left right = Some (Inr q)" "represents q D (insert (left, right) E)" by blast
    with 2(1) [of q "insert (left, right) E"] True dom \<open>fst ` row_edges D left adjacent \<subseteq> D\<close> show ?thesis
      by (auto simp: bindO_def row_edges_Cons dom_def)
  next
    case False
    with 2(3) have "fst ` row_edges D left adjacent \<subseteq> D" by (simp add: row_edges_Cons)
    with 2(1) [of parent E] 2(2) False dom show ?thesis by (auto simp: bindO_def row_edges_Cons dom_def)
  qed
qed

lemma join_row_missing:
  assumes "dom parent = D" "left \<notin> D" "row_edges D left adjacent \<noteq> {}"
  shows "join_row left adjacent parent = Some (Inl (KeyError ''parent''))"
  using assms(3)
proof (induction adjacent)
  case Nil
  then show ?case by (simp add: row_edges_def)
next
  case (Cons a adjacent)
  obtain right relation where a: "a = (right, relation)" by (cases a)
  have "find_root parent left = Some (Inl (KeyError ''parent''))" using assms(1,2) by (intro find_root_missing) auto
  with Cons a assms(1) show ?case by (auto simp: bindO_def row_edges_Cons union_roots_def dom_def split: if_splits)
qed

lemma join_links_joins:
  assumes "represents parent D E"
  shows "if fst ` nvlink_edges D links \<subseteq> D
    then \<exists>q. join_links links parent = Some (Inr q) \<and> represents q D (E \<union> nvlink_edges D links)
    else join_links links parent = Some (Inl (KeyError ''parent''))"
  using assms
proof (induction links arbitrary: parent E)
  case Nil
  then show ?case by (simp add: nvlink_edges_def)
next
  case (Cons a links)
  obtain left adjacent where a: "a = (left, adjacent)" by (cases a)
  show ?case
  proof (cases "fst ` row_edges D left adjacent \<subseteq> D")
    case True
    with Cons.prems obtain q where q: "join_row left adjacent parent = Some (Inr q)" "represents q D (E \<union> row_edges D left adjacent)"
      using join_row_joins by blast
    with Cons.IH [OF q(2)] True show ?thesis by (simp add: a bindO_def nvlink_edges_Cons image_Un Un_assoc split: if_splits)
  next
    case False
    then have "left \<notin> D" "row_edges D left adjacent \<noteq> {}" by (auto simp: row_edges_def)
    with Cons.prems False show ?thesis by (simp add: a nvlink_edges_Cons image_Un bindO_def join_row_missing represents_def)
  qed
qed

section \<open>Groups\<close>

definition grouped :: "parents \<Rightarrow> int list \<Rightarrow> (int \<times> int list) list \<Rightarrow> bool" where
  "grouped parent done groups \<longleftrightarrow> distinct (map fst groups) \<and> mset (concat (map snd groups)) = mset done \<and>
     (\<forall>(r, g) \<in> set groups. g \<noteq> [] \<and> g = filter (\<lambda>i. roots parent i r) done) \<and>
     (\<forall>i \<in> set done. \<forall>r. roots parent i r \<longrightarrow> r \<in> fst ` set groups)"

lemma mset_concat_sort: "mset (concat (sort xs)) = mset (concat xs)" for xs :: "'a::linorder list list"
proof -
  have "sum_list (map mset ys) = sum_mset (image_mset mset (mset ys))" for ys :: "'a list list"
    by (metis mset_map sum_mset_sum_list)
  then show ?thesis by (simp add: mset_concat)
qed

lemma concat_update:
  "distinct (map fst groups) \<Longrightarrow>
   mset (concat (map snd (AList.update r ((case map_of groups r of Some g \<Rightarrow> g | None \<Rightarrow> []) @ [i]) groups))) =
   add_mset i (mset (concat (map snd groups)))"
proof (induction groups)
  case (Cons a groups)
  obtain k g where a: "a = (k, g)" by (cases a)
  show ?case
  proof (cases "k = r")
    case False
    with Cons a show ?thesis by simp
  qed (simp add: a)
qed simp

lemma grouped_step:
  assumes "grouped parent done groups" "roots parent i r"
  shows "grouped parent (done @ [i]) (AList.update r ((case map_of groups r of Some g \<Rightarrow> g | None \<Rightarrow> []) @ [i]) groups)"
proof -
  let ?g = "case map_of groups r of Some g \<Rightarrow> g | None \<Rightarrow> []"
  let ?n = "AList.update r (?g @ [i]) groups"
  have d: "distinct (map fst groups)" using assms(1) by (simp add: grouped_def)
  have exact: "x \<noteq> []" "x = filter (\<lambda>i. roots parent i k) done" if "map_of groups k = Some x" for k x
    using assms(1) map_of_SomeD [OF that] by (auto simp: grouped_def)
  have old: "?g = filter (\<lambda>i. roots parent i r) done"
  proof (cases "map_of groups r")
    case None
    then have "r \<notin> fst ` set groups" by (simp add: map_of_eq_None_iff)
    with assms(1) have "\<not> roots parent i r" if "i \<in> set done" for i using that unfolding grouped_def by blast
    then have "filter (\<lambda>i. roots parent i r) done = []" by (simp add: filter_empty_conv)
    with None show ?thesis by simp
  qed (simp add: exact)
  have "x \<noteq> [] \<and> x = filter (\<lambda>i. roots parent i k) (done @ [i])" if "(k, x) \<in> set ?n" for k x
  proof (cases "k = r")
    case True
    have "map_of ?n k = Some x" using that d by (simp add: distinct_update)
    with True old assms(2) show ?thesis by (auto simp: update_conv')
  next
    case False
    have "map_of ?n k = Some x" using that d by (simp add: distinct_update)
    with False have "map_of groups k = Some x" by (simp add: update_conv')
    with exact False assms(2) show ?thesis by (auto dest: roots_unique)
  qed
  moreover have "s \<in> fst ` set ?n" if "j \<in> set (done @ [i])" "roots parent j s" for j s
    using that assms by (auto simp: grouped_def dom_update dest: roots_unique)
  moreover have "distinct (map fst ?n)" "mset (concat (map snd ?n)) = mset (done @ [i])"
    using d assms(1) by (simp_all add: distinct_update concat_update grouped_def)
  ultimately show ?thesis unfolding grouped_def by blast
qed

lemma grouped_same: "grouped parent done groups \<Longrightarrow> same_roots parent parent' \<Longrightarrow> grouped parent' done groups"
  by (simp add: grouped_def same_roots_def)

lemma group_indices_groups:
  assumes "represents parent D E" "set is \<subseteq> D" "grouped parent done groups"
  shows "\<exists>q groups'. group_indices is parent groups = Some (Inr groups') \<and> represents q D E \<and> grouped q (done @ is) groups'"
  using assms
proof (induction "is" arbitrary: parent "done" groups)
  case (Cons i "is")
  have "descending parent" "parent i \<noteq> None" using Cons.prems by (auto simp: represents_def)
  then obtain r p where r: "find_root parent i = Some (Inr (r, p))" "roots parent i r" "same_roots parent p" by (rule find_root_finds)
  have "roots p i r" using r by (simp add: same_roots_def)
  from Cons.IH [OF represents_same [OF Cons.prems(1) r(3)] _ grouped_step [OF grouped_same [OF Cons.prems(3) r(3)] this]] Cons.prems(2)
  show ?case by (simp add: r bindO_def)
qed auto

text \<open>The reference: an island is what an index is connected with.\<close>

definition island :: "(int \<times> int) set \<Rightarrow> int list \<Rightarrow> int \<Rightarrow> int list" where
  "island E indices i = sort (filter (\<lambda>j. (i, j) \<in> linked E) indices)"

lemma grouped_island:
  assumes rep: "represents q (set indices) E" and grouped: "grouped q indices groups" and x: "(r, x) \<in> set groups" and i: "i \<in> set x"
  shows "sort x = island E indices i"
proof -
  have x_def: "x = filter (\<lambda>i. roots q i r) indices" using grouped x by (auto simp: grouped_def)
  with i have root: "roots q i r" by simp
  have "roots q j r \<longleftrightarrow> (i, j) \<in> linked E" if "j \<in> set indices" for j
  proof -
    have "descending q" "q j \<noteq> None" using rep that by (auto simp: represents_def)
    then obtain s where s: "roots q j s" using roots_exist by blast
    with represents_roots [OF rep root s] show ?thesis by (auto dest: roots_unique)
  qed
  then have "x = filter (\<lambda>j. (i, j) \<in> linked E) indices" unfolding x_def by (rule filter_cong [OF refl])
  then show ?thesis by (simp add: island_def)
qed

lemma grouped_sorted_set:
  assumes rep: "represents q (set indices) E" and grouped: "grouped q indices groups"
  shows "sort (map (\<lambda>(_, group). sort group) groups) = sorted_set (map (island E indices) indices)"
proof (rule sorted_distinct_set_unique)
  let ?f = "\<lambda>(_, group). sort group"
  have exact: "x \<noteq> [] \<and> x = filter (\<lambda>i. roots q i r) indices" if "(r, x) \<in> set groups" for r x
    using grouped that by (auto simp: grouped_def)
  have "inj_on ?f (set groups)"
  proof (rule inj_onI, clarify)
    fix r x s y assume m: "(r, x) \<in> set groups" "(s, y) \<in> set groups" "sort x = sort y"
    then have "set x = set y" by (metis set_sort)
    moreover obtain i where "i \<in> set x" using exact [OF m(1)] by (metis list.set_intros(1) neq_Nil_conv)
    ultimately have "i \<in> set x" "i \<in> set y" by simp_all
    with exact [OF m(1)] exact [OF m(2)] have "roots q i r" "roots q i s" by (metis (mono_tags, lifting) mem_Collect_eq set_filter)+
    then have "r = s" by (rule roots_unique)
    with exact [OF m(1)] exact [OF m(2)] show "r = s \<and> x = y" by metis
  qed
  moreover have "distinct groups" using grouped by (auto simp: grouped_def distinct_map)
  ultimately show "distinct (sort (map ?f groups))" by (simp add: distinct_map)
  have fwd: "sort x \<in> island E indices ` set indices" if m: "(r, x) \<in> set groups" for r x
  proof -
    obtain i where "i \<in> set x" using exact [OF m] by (metis list.set_intros(1) neq_Nil_conv)
    with exact [OF m] grouped_island [OF rep grouped m] show ?thesis by (metis (mono_tags, lifting) image_eqI mem_Collect_eq set_filter)
  qed
  have bwd: "island E indices i \<in> ?f ` set groups" if i: "i \<in> set indices" for i
  proof -
    have "set (concat (map snd groups)) = set indices" using grouped unfolding grouped_def by (metis set_mset_mset)
    with i have "\<exists>a \<in> set groups. i \<in> set (snd a)" by auto
    then obtain r x where x: "(r, x) \<in> set groups" "i \<in> set x" by force
    with grouped_island [OF rep grouped x] show ?thesis by force
  qed
  show "set (sort (map ?f groups)) = set (sorted_set (map (island E indices) indices))"
    using fwd bwd by fastforce
qed simp_all

text \<open>
  C11. The islands of a host are the connected components of its NVLink relations: for every list of
  indices and every matrix the computation returns; it raises a \<^verbatim>\<open>KeyError\<close> exactly when a row that is not an
  index is linked to one that is; else the result is the sorted set of the sorted islands of the indices,
  and no index is lost or repeated.
\<close>

theorem nvlink_components_correct:
  "if fst ` nvlink_edges (set indices) links \<subseteq> set indices
   then nvlink_components indices links = Some (Inr (sorted_set (map (island (nvlink_edges (set indices) links) indices) indices))) \<and>
     mset (concat (sorted_set (map (island (nvlink_edges (set indices) links) indices) indices))) = mset indices
   else nvlink_components indices links = Some (Inl (KeyError ''parent''))"
proof (cases "fst ` nvlink_edges (set indices) links \<subseteq> set indices")
  case False
  with join_links_joins [OF represents_start] show ?thesis by (simp add: nvlink_components_def bindO_def)
next
  case True
  let ?E = "nvlink_edges (set indices) links"
  from True join_links_joins [OF represents_start, of indices links] obtain p where
    p: "join_links links (own_parents indices) = Some (Inr p)" "represents p (set indices) ?E" by auto
  have "grouped p [] []" by (simp add: grouped_def)
  from group_indices_groups [OF p(2) subset_refl this] obtain q groups where
    g: "group_indices indices p [] = Some (Inr groups)" "represents q (set indices) ?E" "grouped q indices groups" by auto
  let ?c = "sort (map (\<lambda>(_, group). sort group) groups)"
  have "nvlink_components indices links = Some (Inr ?c)" by (simp add: nvlink_components_def bindO_def p(1) g(1))
  moreover have "mset (concat ?c) = mset (concat (map snd groups))"
    unfolding mset_concat_sort by (simp add: mset_concat comp_def case_prod_beta)
  moreover have "mset (concat (map snd groups)) = mset indices" using g(3) by (simp add: grouped_def)
  ultimately show ?thesis using True unfolding grouped_sorted_set [OF g(2,3)] by simp
qed

section \<open>Classification\<close>

lemma uniform_sizes:
  assumes "list_all (\<lambda>g. length g = n) cs" "length (concat cs) = k * n" "0 < n"
  shows "sort (map length cs) = replicate k n"
proof -
  have "length (concat cs) = length cs * n" using assms(1) by (induction cs) auto
  with assms have "length cs = k" by simp
  moreover have "map length cs = replicate (length cs) n" using assms(1) by (intro replicate_eqI) (auto simp: list_all_iff)
  moreover have "sorted (replicate k n)" by (simp add: sorted_replicate)
  ultimately show ?thesis by (simp add: sorted_sort_id)
qed

lemma sizes_uniform:
  "sort (map length cs) = replicate k n \<Longrightarrow> list_all (\<lambda>g. length g = n) cs"
proof -
  assume s: "sort (map length cs) = replicate k n"
  have "set (map length cs) = set (sort (map length cs))" by simp
  then have "length ` set cs \<subseteq> {n}" unfolding s by (auto split: if_splits)
  then show ?thesis by (auto simp: list_all_iff)
qed

lemma py_int_error: "py_int s = Inl e \<Longrightarrow> topology_unavailable e"
  by (auto simp: py_int_def Let_def split: prod.splits if_splits)

lemma mapR_eq_Inl: "mapR f xs = Inl e \<Longrightarrow> \<exists>x \<in> set xs. f x = Inl e"
  by (induction xs) (auto simp: bindR_eq_Inl)

lemma matrix_line_error: "matrix_line m raw = Inl e \<Longrightarrow> topology_unavailable e"
  by (auto simp: matrix_line_def matrix_header_def header_columns_def matrix_row_def Let_def bindR_eq_Inl
      dest!: mapR_eq_Inl dest: py_int_error split: if_splits prod.splits)

lemma parse_topology_errors: "parse_topology_matrix body = Inl e \<Longrightarrow> topology_unavailable e"
proof -
  have "matrix_lines m raws = Inl e \<Longrightarrow> topology_unavailable e" for m raws
    by (induction m raws rule: matrix_lines.induct) (auto simp: bindR_eq_Inl dest: matrix_line_error)
  then show "parse_topology_matrix body = Inl e \<Longrightarrow> topology_unavailable e" by (auto simp: parse_topology_matrix_def bindR_eq_Inl)
qed

lemma complete_edges:
  assumes "parse_topology_matrix text = Inr (indices, links, numa, True)"
  shows "fst ` nvlink_edges (set indices) links \<subseteq> set indices"
proof -
  have "fst ` nvlink_edges (set indices) links \<subseteq> fst ` set links" by (auto simp: nvlink_edges_def row_edges_def intro: rev_image_eqI)
  moreover have "fst ` set links = set indices" using assms by (auto simp: parse_topology_matrix_def bindR_eq_Inr matrix_complete_def)
  ultimately show ?thesis by simp
qed

definition island_sizes :: "int list \<Rightarrow> links \<Rightarrow> nat \<Rightarrow> bool" where
  "island_sizes indices links n \<longleftrightarrow> list_all (\<lambda>i. length (island (nvlink_edges (set indices) links) indices i) = n) indices"

lemma topology_mode_cases:
  assumes "cs = sorted_set (map (island (nvlink_edges (set indices) links) indices) indices)" "mset (concat cs) = mset indices"
  shows "ht_mode (topology_mode indices cs) = (if length indices = 4 \<and> island_sizes indices links 2 then ''normal''
    else if length indices = 4 \<and> island_sizes indices links 4 then ''x_mode'' else ''unknown'')"
proof -
  have total: "length (concat cs) = length indices" using assms(2) by (metis size_mset)
  have all: "list_all (\<lambda>g. length g = n) cs \<longleftrightarrow> island_sizes indices links n" for n
    unfolding assms(1) island_sizes_def by (simp add: list_all_iff)
  have two: "sort (map length cs) = [2, 2] \<longleftrightarrow> island_sizes indices links 2" if "length indices = 4"
    using uniform_sizes [of 2 cs 2] sizes_uniform [of cs 2 2] total that all by (auto simp: numeral_2_eq_2)
  have four: "sort (map length cs) = [4] \<longleftrightarrow> island_sizes indices links 4" if "length indices = 4"
    using uniform_sizes [of 4 cs 1] sizes_uniform [of cs 1 4] total that all by auto
  show ?thesis using two four by (cases "length indices = 4") (simp_all add: topology_mode_def Let_def)
qed

text \<open>
  C36. The classification of a host always answers, whatever \<^verbatim>\<open>nvidia-smi\<close> prints: with four accelerators in a
  complete matrix it is normal exactly when every accelerator has one partner, and in X mode exactly when
  all four are connected; everything else is unknown.
\<close>

theorem topology_classified:
  assumes fails: "\<And>e. runner [''nvidia-smi'', ''topo'', ''-m''] = Inl e \<Longrightarrow> topology_unavailable e"
  shows "\<exists>t. classify_local_worker_host_topology runner = Some (Inr t) \<and>
    ht_mode t =
      (case bindR (runner [''nvidia-smi'', ''topo'', ''-m'']) parse_topology_matrix of
         Inr (indices, links, numa, True) \<Rightarrow>
           if length indices = 4 \<and> island_sizes indices links 2 then ''normal''
           else if length indices = 4 \<and> island_sizes indices links 4 then ''x_mode'' else ''unknown''
       | _ \<Rightarrow> ''unknown'')"
proof (cases "bindR (runner [''nvidia-smi'', ''topo'', ''-m'']) parse_topology_matrix")
  case (Inl e)
  then have "topology_unavailable e" using fails parse_topology_errors by (auto simp: bindR_eq_Inl)
  with Inl show ?thesis by (simp add: classify_local_worker_host_topology_def)
next
  case (Inr m)
  obtain indices links numa whole where m: "m = (indices, links, numa, whole)" by (cases m)
  show ?thesis
  proof (cases whole)
    case True
    with Inr m obtain body where "parse_topology_matrix body = Inr (indices, links, numa, True)" by (auto simp: bindR_eq_Inr)
    from nvlink_components_correct [of indices links] complete_edges [OF this]
    show ?thesis using Inr m True by (simp add: classify_local_worker_host_topology_def bindO_def topology_mode_cases)
  qed (simp add: Inr m classify_local_worker_host_topology_def)
qed

end
