(* ===== verification/Discovery.thy ===== *)
theory Discovery
  imports TopologyProps
begin

text \<open>
  Discovery of the accelerators (\<^verbatim>\<open>discover_gpu_topology\<close> of \<^verbatim>\<open>host_resources/topology.py\<close>): the inventory is
  read by \<^verbatim>\<open>csv.reader\<close>, joined with the topology matrix, and becomes the resources that the host
  registry holds.
\<close>

section \<open>csv.reader\<close>

text \<open>The reader's automaton, with the default dialect; the end of a line is \<open>None\<close>.\<close>

datatype csv_state = StartRecord | StartField | InField | InQuotedField | QuoteInQuotedField | EatCrnl

record csv =
  cs_state :: csv_state
  cs_field :: string
  cs_fields :: "string list"

definition csv_start :: csv where
  "csv_start = \<lparr>cs_state = StartRecord, cs_field = [], cs_fields = []\<rparr>"

definition FIELD_LIMIT :: int where
  "FIELD_LIMIT = 131072"

definition csv_save :: "csv_state \<Rightarrow> csv \<Rightarrow> csv" where
  "csv_save st s = s\<lparr>cs_state := st, cs_field := [], cs_fields := cs_fields s @ [cs_field s]\<rparr>"

definition csv_add :: "csv_state \<Rightarrow> char \<Rightarrow> csv \<Rightarrow> csv result" where
  "csv_add st c s =
     (if int (length (cs_field s)) \<ge> FIELD_LIMIT then Inl (CsvError ''field larger than field limit'')
      else Inr (s\<lparr>cs_state := st, cs_field := cs_field s @ [c]\<rparr>))"

definition line_end :: "char option \<Rightarrow> csv_state" where
  "line_end c = (if c = None then StartRecord else EatCrnl)"

definition ends_line :: "char option \<Rightarrow> bool" where
  "ends_line c \<longleftrightarrow> c \<in> {None, Some LF, Some CR}"

definition csv_start_field :: "char option \<Rightarrow> csv \<Rightarrow> csv result" where
  "csv_start_field c s =
     (if ends_line c then Inr (csv_save (line_end c) s)
      else if c = Some (CHR 0x22) then Inr (s\<lparr>cs_state := InQuotedField\<rparr>)
      else if c = Some (CHR '','') then Inr (csv_save StartField s)
      else csv_add InField (the c) s)"

definition csv_char :: "char option \<Rightarrow> csv \<Rightarrow> csv result" where
  "csv_char c s =
     (case cs_state s of
        StartRecord \<Rightarrow>
          if c = None then Inr s
          else if ends_line c then Inr (s\<lparr>cs_state := EatCrnl\<rparr>)
          else csv_start_field c s
      | StartField \<Rightarrow> csv_start_field c s
      | InField \<Rightarrow>
          if ends_line c then Inr (csv_save (line_end c) s)
          else if c = Some (CHR '','') then Inr (csv_save StartField s)
          else csv_add InField (the c) s
      | InQuotedField \<Rightarrow>
          if c = None then Inr s
          else if c = Some (CHR 0x22) then Inr (s\<lparr>cs_state := QuoteInQuotedField\<rparr>)
          else csv_add InQuotedField (the c) s
      | QuoteInQuotedField \<Rightarrow>
          if c = Some (CHR 0x22) then csv_add InQuotedField (CHR 0x22) s
          else if c = Some (CHR '','') then Inr (csv_save StartField s)
          else if ends_line c then Inr (csv_save (line_end c) s)
          else csv_add InField (the c) s
      | EatCrnl \<Rightarrow>
          if c = None then Inr (s\<lparr>cs_state := StartRecord\<rparr>)
          else if ends_line c then Inr s
          else Inl (CsvError ''new-line character seen in unquoted field''))"

fun csv_chars :: "char option list \<Rightarrow> csv \<Rightarrow> csv result" where
  "csv_chars [] s = Inr s"
| "csv_chars (c # cs) s = bindR (csv_char c s) (csv_chars cs)"

text \<open>The lines of a \<^verbatim>\<open>StringIO\<close>, with their line feeds.\<close>

fun io_lines :: "string \<Rightarrow> string list" where
  "io_lines [] = []"
| "io_lines (c # cs) =
     (if c = LF then [c] # io_lines cs
      else (case io_lines cs of [] \<Rightarrow> [[c]] | l # ls \<Rightarrow> (c # l) # ls))"

text \<open>A loop over the rows, whose body may raise.\<close>

fun csv_rows :: "(string list \<Rightarrow> 'a \<Rightarrow> 'a result) \<Rightarrow> string list \<Rightarrow> csv \<Rightarrow> 'a \<Rightarrow> 'a result" where
  "csv_rows body [] s a =
     (if cs_field s \<noteq> [] \<or> cs_state s = InQuotedField then body (cs_fields s @ [cs_field s]) a else Inr a)"
| "csv_rows body (l # ls) s a =
     bindR (csv_chars (map Some l @ [None]) s) (\<lambda>s'.
     if cs_state s' = StartRecord then bindR (body (cs_fields s') a) (csv_rows body ls csv_start)
     else csv_rows body ls s' a)"

section \<open>Devices\<close>

record device =
  dv_uuid :: string
  dv_pci_bus_id :: string
  dv_pcie_generation :: string
  dv_pcie_link_width :: string
  dv_memory_free :: string
  dv_utilization :: string

definition reported :: "string list \<Rightarrow> nat \<Rightarrow> string" where
  "reported values k = (if length values > k \<and> values ! k \<noteq> [] then values ! k else ''unknown'')"

definition device_row :: "string list \<Rightarrow> (int \<times> device) list \<Rightarrow> (int \<times> device) list result" where
  "device_row row devices =
     (if length row < 3 then Inr devices
      else
        bindR (py_int (hd row)) (\<lambda>i.
        let values = map strip row in
        Inr (AList.update i \<lparr>dv_uuid = values ! 1, dv_pci_bus_id = values ! 2, dv_pcie_generation = reported values 3,
          dv_pcie_link_width = reported values 4, dv_memory_free = reported values 5, dv_utilization = reported values 6\<rparr> devices)))"

definition inventory_fields :: "string list" where
  "inventory_fields = [''index'', ''uuid'', ''pci.bus_id'', ''pcie.link.gen.current'', ''pcie.link.width.current'', ''memory.free'', ''utilization.gpu'']"

definition inventory_query :: "string list \<Rightarrow> string list" where
  "inventory_query names = [''nvidia-smi'', ''--query-gpu='' @ join '','' names, ''--format=csv,noheader,nounits'']"

fun query_failed :: "exn \<Rightarrow> bool" where
  "query_failed (OSError _) = True"
| "query_failed (SubprocessError _) = True"
| "query_failed _ = False"

definition read_inventory :: "runner \<Rightarrow> string result" where
  "read_inventory runner =
     (case runner (inventory_query inventory_fields) of
        Inl e \<Rightarrow> if query_failed e then runner (inventory_query (take 3 inventory_fields)) else Inl e
      | Inr inventory \<Rightarrow> Inr inventory)"

definition group_for :: "int list list \<Rightarrow> int \<Rightarrow> int list" where
  "group_for components i = (case find (\<lambda>g. i \<in> set g) (rev components) of Some g \<Rightarrow> g | None \<Rightarrow> [i])"

definition device_resource :: "(int \<times> string) list \<Rightarrow> int list list \<Rightarrow> int \<times> device \<Rightarrow> pdict" where
  "device_resource numa components d =
     (case d of (i, dv) \<Rightarrow>
        let domain = takeWhile (\<lambda>c. c \<noteq> CHR '':'') (dv_pci_bus_id dv);
            node = (case map_of numa i of Some v \<Rightarrow> v | None \<Rightarrow> ''unknown'') in
        [(''id'', PStr (''accelerator:'' @ dv_uuid dv)), (''kind'', PStr ''accelerator''),
         (''tags'', PDict
            [(''index'', PStr (string_of_int i)), (''uuid'', PStr (dv_uuid dv)), (''pci_bus_id'', PStr (dv_pci_bus_id dv)),
             (''numa_node'', PStr node), (''pcie_root'', PStr (domain @ '':numa:'' @ node)),
             (''nvlink_domain'', PStr (''runtime:'' @ join ''-'' (map string_of_int (group_for components i)))),
             (''pcie_generation_current'', PStr (dv_pcie_generation dv)), (''pcie_link_width_current'', PStr (dv_pcie_link_width dv)),
             (''memory_free_mib'', PStr (dv_memory_free dv)), (''utilization_percent'', PStr (dv_utilization dv))]),
         (''enabled'', PBool True)])"

definition discover_gpu_topology :: "runner \<Rightarrow> pdict list run" where
  "discover_gpu_topology runner =
     bindO (Some (read_inventory runner)) (\<lambda>inventory.
     bindO (Some (runner [''nvidia-smi'', ''topo'', ''-m''])) (\<lambda>topology.
     bindO (Some (csv_rows device_row (io_lines inventory) csv_start [])) (\<lambda>devices.
     bindO (Some (parse_topology_matrix topology)) (\<lambda>(_, links, numa, _).
     bindO (nvlink_components (sort (map fst devices)) links) (\<lambda>components.
     Some (Inr (map (device_resource numa components) (sort_key fst devices))))))))"

section \<open>Properties\<close>

lemma bindO_simps [simp]: "bindO (Some (Inl e)) f = Some (Inl e)" "bindO (Some (Inr a)) f = f a"
  by (simp_all add: bindO_def)

lemma sorted_set_distinct_pairs:
  assumes "mset (concat (sorted_set xs)) = mset ys" "distinct ys" "g \<in> set xs" "i \<in> set g"
  shows "group_for (sorted_set xs) i = g"
proof -
  have d: "distinct (concat (sorted_set xs))" using assms(1,2) by (metis mset_eq_imp_distinct_iff)
  have only: "h = g" if "h \<in> set (sorted_set xs)" "i \<in> set h" for h
  proof (rule ccontr)
    assume "h \<noteq> g"
    with d that assms(3,4) show False by (auto simp: distinct_concat_iff)
  qed
  have "find (\<lambda>g. i \<in> set g) (rev (sorted_set xs)) \<noteq> None" using assms(3,4) by (auto simp: find_None_iff)
  then obtain h where h: "find (\<lambda>g. i \<in> set g) (rev (sorted_set xs)) = Some h" by auto
  then have "h \<in> set (sorted_set xs)" "i \<in> set h" by (auto dest: find_SomeD)
  with only h show ?thesis by (simp add: group_for_def)
qed

text \<open>
  C36. Discovery joins the inventory with the matrix: when both are read, it raises a \<^verbatim>\<open>KeyError\<close> exactly when the
  matrix links a row that the inventory does not have to one that it has; else every device of the
  inventory becomes one resource, in order of index, whose NVLink domain names its island.
\<close>

theorem discovery_domains:
  assumes read: "read_inventory runner = Inr inventory" "runner [''nvidia-smi'', ''topo'', ''-m''] = Inr topology"
    and parsed: "csv_rows device_row (io_lines inventory) csv_start [] = Inr devices" "parse_topology_matrix topology = Inr (indices, links, numa, whole)"
  shows "discover_gpu_topology runner =
    (let found = sort (map fst devices); edges = nvlink_edges (set found) links in
     if \<not> fst ` edges \<subseteq> set found then Some (Inl (KeyError ''parent''))
     else Some (Inr (map (\<lambda>(i, dv). device_resource numa [island edges found i] (i, dv)) (sort_key fst devices))))"
proof -
  let ?found = "sort (map fst devices)" and ?E = "nvlink_edges (set (sort (map fst devices))) links"
  have distinct_row: "distinct (map fst ds) \<Longrightarrow> device_row row ds = Inr ds' \<Longrightarrow> distinct (map fst ds')" for row ds ds'
    by (auto simp: device_row_def Let_def bindR_eq_Inr distinct_update split: if_splits)
  have rows: "csv_rows device_row ls s ds = Inr ds' \<Longrightarrow> distinct (map fst ds) \<Longrightarrow> distinct (map fst ds')" for ls s ds ds'
    by (induction device_row ls s ds rule: csv_rows.induct) (auto simp: bindR_eq_Inr dest: distinct_row split: if_splits)
  have d: "distinct ?found" using rows [OF parsed(1)] by simp
  show ?thesis
  proof (cases "fst ` ?E \<subseteq> set ?found")
    case False
    with nvlink_components_correct [of ?found links] read parsed show ?thesis by (simp add: discover_gpu_topology_def Let_def)
  next
    case True
    let ?c = "sorted_set (map (island ?E ?found) ?found)"
    from True nvlink_components_correct [of ?found links]
    have c: "nvlink_components ?found links = Some (Inr ?c)" "mset (concat ?c) = mset ?found" by simp_all
    have "group_for ?c i = island ?E ?found i" if "i \<in> set ?found" for i
      using that by (intro sorted_set_distinct_pairs [OF c(2) d]) (auto simp: island_def linked_def)
    moreover have "group_for [island ?E ?found i] i = island ?E ?found i" if "i \<in> set ?found" for i
      using that by (simp add: group_for_def island_def linked_def)
    ultimately have "device_resource numa ?c (i, dv) = device_resource numa [island ?E ?found i] (i, dv)" if "(i, dv) \<in> set devices" for i dv
      using that by (force simp: device_resource_def)
    then have "map (device_resource numa ?c) (sort_key fst devices) =
        map (\<lambda>(i, dv). device_resource numa [island ?E ?found i] (i, dv)) (sort_key fst devices)"
      by (intro map_cong [OF refl]) auto
    with c(1) True read parsed show ?thesis by (simp add: discover_gpu_topology_def Let_def)
  qed
qed

end
