(* ===== verification/TopologyDemo.thy ===== *)
theory TopologyDemo
  imports Discovery
begin

text \<open>Small hosts on which the properties of the topology are evaluated.\<close>

definition matrix_text :: "string list list \<Rightarrow> string" where
  "matrix_text rows = concat (map (\<lambda>row. join [TAB] row @ [LF]) rows)"

section \<open>Four accelerators in two pairs\<close>

definition pairs_runner :: runner where
  "pairs_runner argv = Inr (matrix_text
     [['''', ''GPU0'', ''GPU1'', ''GPU2'', ''GPU3''], [''GPU0'', '' X '', ''NV4'', ''SYS'', ''SYS''], [''GPU1'', ''NV4'', '' X '', ''SYS'', ''SYS''],
      [''GPU2'', ''SYS'', ''SYS'', '' X '', ''NV4''], [''GPU3'', ''SYS'', ''SYS'', ''NV4'', '' X '']])"

definition pairs_links :: links where
  "pairs_links = [(0, [(0, ''X''), (1, ''NV4''), (2, ''SYS''), (3, ''SYS'')]), (1, [(0, ''NV4''), (1, ''X''), (2, ''SYS''), (3, ''SYS'')]),
     (2, [(0, ''SYS''), (1, ''SYS''), (2, ''X''), (3, ''NV4'')]), (3, [(0, ''SYS''), (1, ''SYS''), (2, ''NV4''), (3, ''X'')])]"

lemma pairs_parsed:
  "bindR (pairs_runner [''nvidia-smi'', ''topo'', ''-m'']) parse_topology_matrix = Inr ([0, 1, 2, 3], pairs_links, [], True)"
  by code_simp

text \<open>A relation whose edges stay within the classes of a function, and reach all of a class.\<close>

lemma linked_classes:
  assumes "\<And>a b. (a, b) \<in> E \<Longrightarrow> f a = f b" and "\<And>b. b \<in> set xs \<Longrightarrow> f a = f b \<Longrightarrow> a = b \<or> (a, b) \<in> E"
  shows "b \<in> set xs \<Longrightarrow> (a, b) \<in> linked E \<longleftrightarrow> f a = f b"
proof
  assume "(a, b) \<in> linked E"
  then have "(a, b) \<in> (E \<union> E\<inverse>)\<^sup>*" by (simp add: linked_def)
  then show "f a = f b" by (induction rule: rtrancl_induct) (use assms(1) in force)+
next
  assume "b \<in> set xs" "f a = f b"
  with assms(2) show "(a, b) \<in> linked E" by (auto simp: linked_def)
qed

lemma pairs_edges: "nvlink_edges (set [0, 1, 2, 3]) pairs_links = {(0, 1), (1, 0), (2, 3), (3, 2)}"
  by (auto simp: nvlink_edges_def row_edges_def pairs_links_def is_nvlink_def startswith_def)

lemma pairs_sizes: "island_sizes [0, 1, 2, 3] pairs_links 2"
proof -
  have "(i, j) \<in> linked {(0, 1), (1, 0), (2, 3), (3, 2)} \<longleftrightarrow> i div 2 = j div 2" if "i \<in> set [0, 1, 2, 3]" "j \<in> set [0, 1, 2, 3]" for i j :: int
    using that by (intro linked_classes [where xs = "[0, 1, 2, 3]"]) auto
  then have "filter (\<lambda>j. (i, j) \<in> linked {(0, 1), (1, 0), (2, 3), (3, 2)}) [0, 1, 2, 3] = filter (\<lambda>j. i div 2 = j div 2) [0, 1, 2, 3]"
    if "i \<in> set [0, 1, 2, 3]" for i :: int
    using that by (intro filter_cong [OF refl]) blast
  then show ?thesis unfolding island_sizes_def pairs_edges island_def by (simp add: list_all_iff)
qed

theorem topology_classified_witness:
  "\<exists>t. classify_local_worker_host_topology pairs_runner = Some (Inr t) \<and> ht_mode t = ''normal''"
  using topology_classified [of pairs_runner] pairs_sizes by (simp add: pairs_parsed) (simp add: pairs_runner_def)

section \<open>An accelerator that the inventory does not have\<close>

definition missing_runner :: runner where
  "missing_runner argv =
     (if argv = [''nvidia-smi'', ''topo'', ''-m'']
      then Inr (matrix_text [['''', ''GPU0'', ''GPU1''], [''GPU0'', '' X '', ''NV4''], [''GPU1'', ''NV4'', '' X '']])
      else Inr (''0, GPU-a, 00000000:01:00.0'' @ [LF]))"

definition missing_device :: "(int \<times> device) list" where
  "missing_device = [(0, \<lparr>dv_uuid = ''GPU-a'', dv_pci_bus_id = ''00000000:01:00.0'', dv_pcie_generation = ''unknown'',
     dv_pcie_link_width = ''unknown'', dv_memory_free = ''unknown'', dv_utilization = ''unknown''\<rparr>)]"

lemma missing_read:
  "read_inventory missing_runner = Inr (''0, GPU-a, 00000000:01:00.0'' @ [LF])"
  by code_simp

lemma missing_devices: "csv_rows device_row (io_lines (''0, GPU-a, 00000000:01:00.0'' @ [LF])) csv_start [] = Inr missing_device"
  by code_simp

lemma missing_parsed:
  "parse_topology_matrix (matrix_text [['''', ''GPU0'', ''GPU1''], [''GPU0'', '' X '', ''NV4''], [''GPU1'', ''NV4'', '' X '']]) =
    Inr ([0, 1], [(0, [(0, ''X''), (1, ''NV4'')]), (1, [(0, ''NV4''), (1, ''X'')])], [], True)"
  by code_simp

theorem discovery_domains_witness: "discover_gpu_topology missing_runner = Some (Inl (KeyError ''parent''))"
proof -
  have t: "missing_runner [''nvidia-smi'', ''topo'', ''-m''] =
      Inr (matrix_text [['''', ''GPU0'', ''GPU1''], [''GPU0'', '' X '', ''NV4''], [''GPU1'', ''NV4'', '' X '']])"
    by (simp add: missing_runner_def)
  let ?E = "nvlink_edges (set (sort (map fst missing_device))) [(0, [(0, ''X''), (1, ''NV4'')]), (1, [(0, ''NV4''), (1, ''X'')])]"
  have "(1, 0) \<in> ?E" by (auto simp: nvlink_edges_def row_edges_def is_nvlink_def startswith_def missing_device_def)
  then have "\<not> fst ` ?E \<subseteq> set (sort (map fst missing_device))" by (force simp: missing_device_def)
  with discovery_domains [OF missing_read t missing_devices missing_parsed] show ?thesis by (simp add: Let_def)
qed

end
