(* ===== verification/DeviceScheduler.thy ===== *)
theory DeviceScheduler
  imports Contracts PyBuiltins Json
begin

text \<open>
  The facade of the Device Scheduler (\<^verbatim>\<open>DeviceSchedulerHostResourceFacade\<close> of \<^verbatim>\<open>device_scheduler.py\<close>): the
  owner operations of the host coordinator, backed by leases of an external scheduler.  The scheduler is
  the parameter \<open>cl_call\<close>, an action on a state of the world; so are the clock, \<^verbatim>\<open>str\<close> of a value that is not
  text, \<^verbatim>\<open>float\<close> of text, \<^verbatim>\<open>sha256\<close>, the resolution of paths and the process table.
\<close>

section \<open>Calls\<close>

text \<open>An exception of the client: one of the scheduler, or another with its \<^verbatim>\<open>code\<close> and its class.\<close>

datatype client_error = SchedulerFailure string | OtherFailure "string option" string

record 'w client =
  cl_call :: "string \<Rightarrow> pdict \<Rightarrow> 'w \<Rightarrow> (client_error + pv) \<times> 'w"
  cl_clock :: "'w \<Rightarrow> real"
  cl_sleep :: "real \<Rightarrow> 'w \<Rightarrow> 'w"
  cl_ttl :: real
  cl_str :: "pv \<Rightarrow> string"
  cl_float :: "string \<Rightarrow> pyfloat option"
  cl_sha256 :: "string \<Rightarrow> string"
  cl_float_repr :: "real \<Rightarrow> string"
  cl_resolve :: "string \<Rightarrow> string"
  cl_getpid :: int
  cl_process_start :: "int \<Rightarrow> string option"

type_synonym ('w, 'a) dact = "'w \<Rightarrow> 'a result \<times> 'w"

definition retW :: "'a \<Rightarrow> ('w, 'a) dact" where
  "retW a w = (Inr a, w)"

definition raiseW :: "exn \<Rightarrow> ('w, 'a) dact" where
  "raiseW e w = (Inl e, w)"

definition ofR :: "'a result \<Rightarrow> ('w, 'a) dact" where
  "ofR r w = (r, w)"

definition bindW :: "('w, 'a) dact \<Rightarrow> ('a \<Rightarrow> ('w, 'b) dact) \<Rightarrow> ('w, 'b) dact" where
  "bindW m f w = (case m w of (Inl e, w') \<Rightarrow> (Inl e, w') | (Inr a, w') \<Rightarrow> f a w')"

fun mapW :: "('a \<Rightarrow> ('w, 'b) dact) \<Rightarrow> 'a list \<Rightarrow> ('w, 'b list) dact" where
  "mapW f [] = retW []"
| "mapW f (x # xs) = bindW (f x) (\<lambda>y. bindW (mapW f xs) (\<lambda>ys. retW (y # ys)))"

definition cl_show :: "'w client \<Rightarrow> pv \<Rightarrow> string" where
  "cl_show cl v = (case v of PStr s \<Rightarrow> s | _ \<Rightarrow> cl_str cl v)"

definition CONFLICT_CODES :: "string list" where
  "CONFLICT_CODES = [''conflict'', ''resource_conflict'', ''admission_denied'', ''idempotency_conflict'']"

definition ds_as_mapping :: "pv \<Rightarrow> string \<Rightarrow> pdict result" where
  "ds_as_mapping v name = (case v of PDict d \<Rightarrow> Inr d | _ \<Rightarrow> Inl (SchedulerError (''Device Scheduler returned an invalid '' @ name)))"

definition client_exn :: "string \<Rightarrow> client_error \<Rightarrow> exn" where
  "client_exn operation e = (case e of
     SchedulerFailure code \<Rightarrow> if code \<in> set CONFLICT_CODES then NoGrant code else SchedulerError code
   | OtherFailure code cls \<Rightarrow>
       (case code of
          Some c \<Rightarrow> if c \<in> set CONFLICT_CODES then NoGrant c else SchedulerError (operation @ ''_failed_'' @ (if c = [] then cls else c))
        | None \<Rightarrow> SchedulerError (operation @ ''_failed_'' @ cls)))"

definition reply_error :: "'w client \<Rightarrow> string \<Rightarrow> pdict \<Rightarrow> pdict result" where
  "reply_error cl operation result =
     (case dget result ''error'' of
        PDict error \<Rightarrow>
          (let code = cl_show cl (dget_or error ''code'' (PStr ''operation_failed'')) in
           if code \<in> set CONFLICT_CODES then Inl (NoGrant code) else Inl (SchedulerError (operation @ '' failed ('' @ code @ '')'')))
      | _ \<Rightarrow> Inr result)"

definition ds_call :: "'w client \<Rightarrow> string \<Rightarrow> pdict \<Rightarrow> ('w, pdict) dact" where
  "ds_call cl operation arguments w =
     (case cl_call cl operation arguments w of
        (Inl e, w') \<Rightarrow> (Inl (client_exn operation e), w')
      | (Inr v, w') \<Rightarrow> (bindR (ds_as_mapping v (operation @ '' response'')) (reply_error cl operation), w'))"

section \<open>Resources\<close>

definition flatten_resource :: "pv \<Rightarrow> pdict result" where
  "flatten_resource v =
     bindR (ds_as_mapping v ''resource'') (\<lambda>item.
     Inr (case dget item ''resource'' of
            PDict nested \<Rightarrow> dupdate nested (filter (\<lambda>p. fst p \<noteq> ''resource'') item)
          | _ \<Rightarrow> item))"

definition ds_resources :: "'w client \<Rightarrow> ('w, pdict list) dact" where
  "ds_resources cl =
     bindW (ds_call cl ''resources.list'' []) (\<lambda>result.
     case dget result ''resources'' of
       PList values \<Rightarrow> ofR (mapR flatten_resource values)
     | _ \<Rightarrow> raiseW (SchedulerError ''resources.list omitted resources''))"

definition GPU_ALIASES :: "string list" where
  "GPU_ALIASES = [''accelerator'', ''gpu'', ''nvidia_gpu'', ''cuda_gpu'']"

definition ds_kind :: "'w client \<Rightarrow> pdict \<Rightarrow> string" where
  "ds_kind cl resource = cl_show cl (dget_or resource ''kind'' (PStr []))"

definition ds_is_gpu :: "'w client \<Rightarrow> pdict \<Rightarrow> bool" where
  "ds_is_gpu cl resource \<longleftrightarrow> lower (ds_kind cl resource) \<in> set GPU_ALIASES"

definition ds_rid :: "'w client \<Rightarrow> pdict \<Rightarrow> string" where
  "ds_rid cl resource = cl_show cl (dget_or resource ''resource_id'' (PStr []))"

definition ds_attributes :: "pdict \<Rightarrow> pdict" where
  "ds_attributes resource = mapping_or_empty (dget resource ''attributes'')"

definition ds_legacy_id :: "'w client \<Rightarrow> pdict \<Rightarrow> string" where
  "ds_legacy_id cl resource =
     (case dget (ds_attributes resource) ''uuid'' of
        PStr uuid \<Rightarrow> if ds_is_gpu cl resource then ''accelerator:'' @ uuid else ds_rid cl resource
      | _ \<Rightarrow> ds_rid cl resource)"

definition ds_domain_members :: "'w client \<Rightarrow> pdict \<Rightarrow> string list" where
  "ds_domain_members cl resource =
     (if lower (ds_kind cl resource) \<noteq> ''isolation'' then []
      else case dget (ds_attributes resource) ''member_resource_ids'' of PList members \<Rightarrow> map (cl_show cl) members | _ \<Rightarrow> [])"

definition ds_mib :: "'w client \<Rightarrow> pv \<Rightarrow> string option" where
  "ds_mib cl v =
     (if v = PNone then None
      else case py_float (cl_float cl) v of
        Inr (Finite x) \<Rightarrow> Some (string_of_int (py_trunc (x / (1024 * 1024))))
      | _ \<Rightarrow> None)"

definition set_tag :: "string \<Rightarrow> string option \<Rightarrow> (string \<times> string) list \<Rightarrow> (string \<times> string) list" where
  "set_tag k v tags = (case v of Some s \<Rightarrow> AList.update k s tags | None \<Rightarrow> tags)"

definition show_present :: "'w client \<Rightarrow> pv \<Rightarrow> string option" where
  "show_present cl v = (if v = PNone then None else Some (cl_show cl v))"

definition ds_domain_tag :: "'w client \<Rightarrow> pdict list \<Rightarrow> string \<Rightarrow> string option" where
  "ds_domain_tag cl resources rid =
     (case filter (\<lambda>item. rid \<in> set (ds_domain_members cl item)) resources of
        [d] \<Rightarrow> Some (cl_show cl (dget_or (ds_attributes d) ''domain_id'' (dget_or d ''resource_id'' (PStr []))))
      | _ \<Rightarrow> None)"

definition ds_tags :: "'w client \<Rightarrow> pdict \<Rightarrow> pdict list \<Rightarrow> (string \<times> string) list" where
  "ds_tags cl resource resources =
     (let attrs = ds_attributes resource; caps = mapping_or_empty (dget resource ''capacities'') in
      set_tag ''nvlink_domain'' (ds_domain_tag cl resources (ds_rid cl resource))
      (set_tag ''memory_total_mib'' (ds_mib cl (dget caps ''memory_bytes''))
      (set_tag ''utilization_percent'' (show_present cl (dget attrs ''utilization_percent_observation''))
      (set_tag ''memory_free_mib'' (ds_mib cl (dget attrs ''memory_free_bytes_observation''))
      (set_tag ''index'' (show_present cl (dget attrs ''index_observation''))
      (set_tag ''name'' (show_present cl (dget attrs ''name''))
      (set_tag ''pci_bus_id'' (show_present cl (dget attrs ''pci_bus_id''))
      (set_tag ''uuid'' (show_present cl (dget attrs ''uuid'')) []))))))))"

record listed_resource =
  lr_id :: string
  lr_kind :: string
  lr_tags :: "(string \<times> string) list"
  lr_enabled :: bool

definition ds_listed :: "'w client \<Rightarrow> pdict list \<Rightarrow> pdict \<Rightarrow> listed_resource" where
  "ds_listed cl resources resource =
     \<lparr>lr_id = ds_legacy_id cl resource, lr_kind = (if ds_is_gpu cl resource then ''accelerator'' else ds_kind cl resource),
      lr_tags = ds_tags cl resource resources,
      lr_enabled = (dget_or resource ''available'' (PBool True) \<noteq> PBool False \<and> mapping_or_empty (dget resource ''capacities'') \<noteq> [])\<rparr>"

definition ds_list :: "'w client \<Rightarrow> string option \<Rightarrow> ('w, listed_resource list) dact" where
  "ds_list cl kind =
     bindW (ds_resources cl) (\<lambda>resources.
     let wanted = (\<lambda>k. if lower k \<in> set GPU_ALIASES then ''accelerator'' else k) in
     retW (sort_key lr_id
       (filter (\<lambda>l. case kind of Some k \<Rightarrow> lr_kind l = wanted k | None \<Rightarrow> True) (map (ds_listed cl resources) resources))))"

definition ds_discover_gpus :: "'w client \<Rightarrow> ('w, listed_resource list) dact" where
  "ds_discover_gpus cl = ds_list cl (Some ''accelerator'')"

section \<open>Requirements\<close>

fun is_number :: "pv \<Rightarrow> bool" where
  "is_number (PInt _) = True"
| "is_number (PFloat _) = True"
| "is_number _ = False"

definition valid_capacity :: "pdict \<Rightarrow> bool" where
  "valid_capacity item \<longleftrightarrow>
     (let capacity = dget (mapping_or_empty (dget item ''capacities'')) ''memory_bytes'' in
      is_number capacity \<and> isfinite (number_float capacity) \<and> float_less (Finite 0) (number_float capacity))"

text \<open>A resource whose reclamation the scheduler can verify.\<close>

definition verified_gpu :: "'w client \<Rightarrow> pdict \<Rightarrow> bool" where
  "verified_gpu cl item \<longleftrightarrow>
     ds_is_gpu cl item \<and> dget item ''available'' \<noteq> PBool False \<and> valid_capacity item \<and>
     (case dget item ''external_lease'' of
        PDict capability \<Rightarrow>
          dget capability ''supported'' = PBool True \<and> dget capability ''mode'' = PStr ''exclusive_gpu_quiescence'' \<and>
          dget capability ''required_allocation_mode'' = PStr ''exclusive'' \<and>
          dget capability ''release_method'' = PStr ''repeatable_read_only_observation''
      | _ \<Rightarrow> False)"

definition tags_match :: "'w client \<Rightarrow> pdict list \<Rightarrow> (string \<times> string) list \<Rightarrow> pdict \<Rightarrow> bool" where
  "tags_match cl resources wanted item \<longleftrightarrow> list_all (\<lambda>(k, v). map_of (ds_tags cl item resources) k = Some v) wanted"

definition ds_candidates :: "'w client \<Rightarrow> pdict list \<Rightarrow> (string \<times> string) list \<Rightarrow> pdict list" where
  "ds_candidates cl resources wanted =
     sort_key (ds_legacy_id cl) (filter (\<lambda>item. verified_gpu cl item \<and> tags_match cl resources wanted item) resources)"

definition find_alias :: "'w client \<Rightarrow> pdict list \<Rightarrow> string \<Rightarrow> pdict option" where
  "find_alias cl resources i = find (\<lambda>item. ds_legacy_id cl item = i) (rev resources)"

definition choose_id :: "'w client \<Rightarrow> pdict list \<Rightarrow> pdict list \<Rightarrow> string \<Rightarrow> pdict result" where
  "choose_id cl resources candidates i =
     (case find_alias cl resources i of
        Some item \<Rightarrow>
          if list_ex (\<lambda>c. c = item \<or> py_eq (PDict c) (PDict item)) candidates then Inr item
          else Inl (SchedulerUnsupported ''requested GPU lacks a verified exclusive reclamation capability'')
      | None \<Rightarrow> Inl (SchedulerUnsupported ''requested GPU lacks a verified exclusive reclamation capability''))"

fun add_adapter :: "pdict \<Rightarrow> (string \<times> pdict list) list \<Rightarrow> (string \<times> pdict list) list" where
  "add_adapter item groups =
     (case dget item ''source_adapter_id'' of
        PStr a \<Rightarrow> if a = [] then groups else AList.update a ((case map_of groups a of Some g \<Rightarrow> g | None \<Rightarrow> []) @ [item]) groups
      | _ \<Rightarrow> groups)"

definition choose_count :: "pdict list \<Rightarrow> nat \<Rightarrow> pdict list result" where
  "choose_count candidates n =
     (case filter (\<lambda>g. length g \<ge> n) (map snd (sort_key fst (fold add_adapter candidates []))) of
        [] \<Rightarrow> Inl (NoGrant ''insufficient_verified_gpu_resources'')
      | g # _ \<Rightarrow> Inr (take n g))"

definition one_adapter :: "pdict list \<Rightarrow> unit result" where
  "one_adapter chosen =
     (let ids = map (\<lambda>item. dget item ''source_adapter_id'') chosen in
      if list_ex unhashable ids then Inl (TypeError ''unhashable type'')
      else if ids = [] \<or> \<not> is_str (hd ids) \<or> list_ex (\<lambda>v. v \<noteq> hd ids) ids
      then Inl (SchedulerUnsupported ''external GPU lease must use one trusted reclamation adapter'')
      else Inr ())"

definition gpu_requirement :: "string \<Rightarrow> pyfloat \<Rightarrow> pdict" where
  "gpu_requirement rid budget =
     [(''kind'', PStr ''gpu''), (''quantities'', PDict [(''memory_bytes'', PFloat budget)]),
      (''selectors'', PDict [(''resource_id'', PStr rid)]), (''mode'', PStr ''exclusive''), (''same_host'', PBool True)]"

text \<open>What is asked of one resource: its identifier and its memory.\<close>

definition ds_budget :: "'w client \<Rightarrow> pdict \<Rightarrow> (string \<times> pyfloat) result" where
  "ds_budget cl item =
     (let capacity = dget (mapping_or_empty (dget item ''capacities'')) ''memory_bytes'';
          budget = dget_or (mapping_or_empty (dget item ''external_lease'')) ''admission_memory_bytes'' capacity in
      if \<not> is_number budget \<or> \<not> isfinite (number_float budget) \<or> \<not> float_less (Finite 0) (number_float budget) \<or>
         float_less (number_float capacity) (number_float budget)
      then Inl (SchedulerUnsupported ''GPU admission budget is invalid'')
      else if \<not> has_key item ''resource_id'' then Inl (KeyError ''resource_id'')
      else Inr (cl_show cl (dget item ''resource_id''), number_float budget))"

definition gpu_only :: "pv \<Rightarrow> resource_request result" where
  "gpu_only raw =
     (case normalize_resource_request raw of
        Inl (TypeError m) \<Rightarrow> Inl (SchedulerError ''legacy resource request is invalid'')
      | Inl (ValueError m) \<Rightarrow> Inl (SchedulerError ''legacy resource request is invalid'')
      | Inl (ContractError m) \<Rightarrow> Inl (SchedulerError ''legacy resource request is invalid'')
      | Inl e \<Rightarrow> Inl e
      | Inr rq \<Rightarrow>
          if lower (rq_kind rq) \<notin> set GPU_ALIASES
          then Inl (SchedulerUnsupported ''external DS leases currently support only GPU-only allocations'')
          else if cpu_heavy rq \<or> rq_cpu_threads rq \<noteq> 0 \<or> rq_ram_bytes rq \<noteq> 0 \<or> exclusive_resources rq \<noteq> [] \<or>
            isolate_pcie_root rq \<or> isolate_nvlink_domain rq
          then Inl (SchedulerUnsupported ''legacy guarantees are not covered by GPU quiescence leases'')
          else if (rq_ids rq \<noteq> []) = (rq_count rq \<noteq> 0)
          then Inl (SchedulerError ''external GPU lease requires exactly one of ids or positive count'')
          else Inr rq)"

definition ds_choose :: "'w client \<Rightarrow> resource_request \<Rightarrow> pdict list \<Rightarrow> pdict list result" where
  "ds_choose cl rq resources =
     (let candidates = ds_candidates cl resources (rq_tags rq) in
      if rq_ids rq \<noteq> [] then mapR (choose_id cl resources candidates) (rq_ids rq) else choose_count candidates (rq_count rq))"

definition ds_requirements :: "'w client \<Rightarrow> pv \<Rightarrow> ('w, (string \<times> pyfloat) list) dact" where
  "ds_requirements cl raw =
     bindW (ofR (gpu_only raw)) (\<lambda>rq.
     bindW (ds_resources cl) (\<lambda>resources.
     ofR (bindR (ds_choose cl rq resources) (\<lambda>chosen.
          bindR (one_adapter chosen) (\<lambda>_. mapR (ds_budget cl) chosen)))))"

section \<open>Requests and grants\<close>

definition owner_context :: "'w client \<Rightarrow> string \<Rightarrow> string \<Rightarrow> string \<Rightarrow> pv \<Rightarrow> (string \<times> pv) list \<Rightarrow> pdict result" where
  "owner_context cl owner kind project_root pid ids =
     (let process = (if pid = PNone then PInt (cl_getpid cl) else pid) in
      case process of
        PInt n \<Rightarrow>
          if n \<le> 0 then Inl (SchedulerError ''owner process pid must be positive'')
          else
            bindR (mapR (\<lambda>(k, v). bindR (raise_if (\<not> is_nonempty_str v) (SchedulerError (k @ '' must be non-empty''))) (\<lambda>_. Inr (k, v)))
                     (filter (\<lambda>(k, v). v \<noteq> PNone) ids)) (\<lambda>given.
            Inr ([(''issuer'', PStr ''project-control''), (''owner_id'', PStr owner), (''owner_kind'', PStr kind),
                  (''project_root'', PStr (cl_resolve cl project_root)), (''pid'', PStr (string_of_int n))] @ given @
                 (case cl_process_start cl n of Some s \<Rightarrow> if s = [] then [] else [(''process_start'', PStr s)] | None \<Rightarrow> [])))
      | _ \<Rightarrow> Inl (SchedulerError ''owner process pid must be positive''))"

definition ds_digest :: "'w client \<Rightarrow> pv \<Rightarrow> string" where
  "ds_digest cl v = cl_sha256 cl (json_enc (cl_float_repr cl) v)"

definition ds_background_owner_id :: "'w client \<Rightarrow> string \<Rightarrow> string \<Rightarrow> string \<Rightarrow> string" where
  "ds_background_owner_id cl project_root job attempt =
     ''pc:background:'' @ take 32 (ds_digest cl (PDict
       [(''project_root'', PStr (cl_resolve cl project_root)), (''job_id'', PStr job), (''attempt_id'', PStr attempt)]))"

definition lease_of :: "pdict \<Rightarrow> pv" where
  "lease_of result = dget_or result ''lease'' (PDict result)"

definition ds_request :: "'w client \<Rightarrow> string \<Rightarrow> pdict \<Rightarrow> string \<Rightarrow> (string \<times> pyfloat) list \<Rightarrow> ('w, pdict option) dact" where
  "ds_request cl owner ctxt key requirements w =
     (let payload = [(''request_id'', PStr owner), (''owner_id'', PStr owner), (''owner_context'', PDict ctxt),
            (''requirements'', PList (map (\<lambda>(rid, b). PDict (gpu_requirement rid b)) requirements)),
            (''lease_ttl_seconds'', PFloat (Finite (cl_ttl cl))), (''idempotency_key'', PStr key)] in
      case ds_call cl ''leases.request'' [(''request'', PDict payload)] w of
        (Inl (NoGrant _), w') \<Rightarrow> (Inr None, w')
      | (Inl e, w') \<Rightarrow> (Inl e, w')
      | (Inr result, w') \<Rightarrow>
          (case lease_of result of
             PDict lease \<Rightarrow>
               if dget lease ''owner_id'' \<noteq> PStr owner then (Inl (SchedulerError ''leases.request returned an invalid owner''), w')
               else (Inr (if dget lease ''state'' = PStr ''active'' then Some lease else None), w')
           | _ \<Rightarrow> (Inl (SchedulerError ''leases.request returned an invalid owner''), w')))"

text \<open>A release must be confirmed.\<close>

definition confirm_released :: "pdict \<Rightarrow> string \<Rightarrow> unit result" where
  "confirm_released result message =
     (case lease_of result of
        PDict released \<Rightarrow> if dget released ''state'' = PStr ''released'' then Inr () else Inl (ReclamationPending message)
      | _ \<Rightarrow> Inl (ReclamationPending message))"

definition lease_arguments :: "pdict \<Rightarrow> pdict" where
  "lease_arguments lease = [(''lease_id'', dget lease ''lease_id''), (''fencing_token'', dget lease ''fencing_token'')]"

definition reject_grant :: "'w client \<Rightarrow> pdict \<Rightarrow> string \<Rightarrow> ('w, 'a) dact" where
  "reject_grant cl lease reason =
     (if \<not> is_nonempty_str (dget lease ''lease_id'') \<or> is_bool (dget lease ''fencing_token'') \<or> \<not> is_int (dget lease ''fencing_token'')
      then raiseW (ReclamationPending ''mismatched scheduler grant cannot be safely released'')
      else
        bindW (ds_call cl ''leases.release'' (lease_arguments lease)) (\<lambda>result.
        bindW (ofR (confirm_released result ''mismatched scheduler grant remains'')) (\<lambda>_.
        raiseW (SchedulerError reason))))"

definition allocation_matches :: "'w client \<Rightarrow> (string \<times> pyfloat) list \<Rightarrow> pv \<Rightarrow> bool" where
  "allocation_matches cl expected v =
     (case v of
        PDict allocation \<Rightarrow>
          dget allocation ''mode'' = PStr ''exclusive'' \<and>
          py_eq (dget (mapping_or_empty (dget allocation ''quantities'')) ''memory_bytes'')
            (case map_of (rev expected) (cl_show cl (dget allocation ''resource_id'')) of Some b \<Rightarrow> PFloat b | None \<Rightarrow> PNone)
      | _ \<Rightarrow> True)"

definition allocation_id :: "'w client \<Rightarrow> pv \<Rightarrow> string" where
  "allocation_id cl v = (case v of PDict allocation \<Rightarrow> cl_show cl (dget_or allocation ''resource_id'' (PStr [])) | _ \<Rightarrow> [])"

definition lease_items :: "pdict \<Rightarrow> pv list" where
  "lease_items lease = (case dget lease ''allocations'' of PList xs \<Rightarrow> xs | _ \<Rightarrow> [])"

definition grant_matches :: "'w client \<Rightarrow> (string \<times> pyfloat) list \<Rightarrow> pdict \<Rightarrow> pdict \<Rightarrow> bool" where
  "grant_matches cl expected ctxt lease \<longleftrightarrow>
     set (map (allocation_id cl) (lease_items lease)) = set (map fst expected) \<and>
     (case dget lease ''owner_context'' of PDict c \<Rightarrow> py_eq (PDict c) (PDict ctxt) | _ \<Rightarrow> False)"

section \<open>Leases\<close>

definition ds_leases :: "'w client \<Rightarrow> ('w, pdict list) dact" where
  "ds_leases cl =
     bindW (ds_call cl ''leases.list'' []) (\<lambda>result.
     case dget result ''leases'' of
       PList values \<Rightarrow> ofR (mapR (\<lambda>v. ds_as_mapping v ''lease'') values)
     | _ \<Rightarrow> raiseW (SchedulerError ''leases.list omitted leases''))"

text \<open>A lease of this program's owners.\<close>

definition own_lease :: "'w client \<Rightarrow> pdict \<Rightarrow> bool" where
  "own_lease cl lease \<longleftrightarrow>
     startswith (cl_show cl (dget_or lease ''owner_id'' (PStr []))) ''pc:'' \<and>
     (case dget lease ''owner_context'' of
        PDict c \<Rightarrow> dget c ''issuer'' = PStr ''project-control'' \<and> py_eq (dget c ''owner_id'') (dget lease ''owner_id'')
      | _ \<Rightarrow> False)"

definition matching_leases :: "'w client \<Rightarrow> string option \<Rightarrow> ('w, pdict list) dact" where
  "matching_leases cl owner =
     bindW (ds_leases cl) (\<lambda>leases.
     retW (filter (\<lambda>l. own_lease cl l \<and> (case owner of None \<Rightarrow> True | Some i \<Rightarrow> dget l ''owner_id'' = PStr i)) leases))"

definition ACTIVE_LEASE_STATES :: "string list" where
  "ACTIVE_LEASE_STATES = [''active'', ''release_requested'', ''reclaiming'', ''unknown'', ''expired'']"

definition lease_active :: "'w client \<Rightarrow> pdict \<Rightarrow> bool" where
  "lease_active cl lease \<longleftrightarrow> cl_show cl (dget lease ''state'') \<in> set ACTIVE_LEASE_STATES"

definition choose_current :: "'w client \<Rightarrow> pdict list \<Rightarrow> pdict option result" where
  "choose_current cl matches =
     (case filter (lease_active cl) matches of
        [] \<Rightarrow> Inr (case matches of [] \<Rightarrow> None | l # _ \<Rightarrow> Some l)
      | [l] \<Rightarrow> Inr (Some l)
      | _ \<Rightarrow> Inl (SchedulerError ''multiple active DS leases match one Project Control owner''))"

definition current_lease :: "'w client \<Rightarrow> string \<Rightarrow> ('w, pdict option) dact" where
  "current_lease cl owner = bindW (matching_leases cl (Some owner)) (\<lambda>matches. ofR (choose_current cl matches))"

definition find_resource :: "'w client \<Rightarrow> pdict list \<Rightarrow> string \<Rightarrow> pdict option" where
  "find_resource cl resources rid = find (\<lambda>item. cl_show cl (dget item ''resource_id'') = rid) (rev resources)"

text \<open>\<^verbatim>\<open>rid.split(":", 2)\<close>, whose third part exists when there are two colons.\<close>

definition third_part :: "string \<Rightarrow> string option" where
  "third_part rid =
     (case dropWhile (\<lambda>c. c \<noteq> CHR '':'') rid of
        [] \<Rightarrow> None
      | _ # rest \<Rightarrow> (case dropWhile (\<lambda>c. c \<noteq> CHR '':'') rest of [] \<Rightarrow> None | _ # part \<Rightarrow> Some part))"

definition allocation_resource :: "'w client \<Rightarrow> pdict list \<Rightarrow> bool \<Rightarrow> pv \<Rightarrow> string list result" where
  "allocation_resource cl resources foreground v =
     (case v of
        PDict allocation \<Rightarrow>
          (let rid = cl_show cl (dget_or allocation ''resource_id'' (PStr [])) in
           Inr (case find_resource cl resources rid of
                  None \<Rightarrow>
                    if startswith rid ''gpu:'' then (case third_part rid of Some p \<Rightarrow> [''accelerator:'' @ p] | None \<Rightarrow> [])
                    else if foreground then [rid] else []
                | Some resource \<Rightarrow>
                    if ds_is_gpu cl resource then [ds_legacy_id cl resource]
                    else if foreground \<and> lower (ds_kind cl resource) \<notin> {''cpu'', ''memory''} then [rid]
                    else []))
      | _ \<Rightarrow> Inl (SchedulerError ''lease allocation is invalid''))"

definition resources_for_lease :: "'w client \<Rightarrow> pdict \<Rightarrow> ('w, string list) dact" where
  "resources_for_lease cl lease =
     bindW (ds_resources cl) (\<lambda>resources.
     ofR (bindR (case dget_or lease ''allocations'' (PList []) of
                   PList xs \<Rightarrow> Inr xs | _ \<Rightarrow> Inl (SchedulerError ''lease allocations are invalid'')) (\<lambda>allocations.
          bindR (mapR (allocation_resource cl resources
                   (dget (mapping_or_empty (dget lease ''owner_context'')) ''owner_kind'' = PStr ''foreground'')) allocations) (\<lambda>ids.
          Inr (sorted_set (concat ids))))))"

definition ds_reservation :: "'w client \<Rightarrow> pdict \<Rightarrow> ('w, string \<times> string list) dact" where
  "ds_reservation cl lease =
     bindW (ofR (if has_key lease ''owner_id'' then Inr (cl_show cl (dget lease ''owner_id'')) else Inl (KeyError ''owner_id''))) (\<lambda>owner.
     bindW (resources_for_lease cl lease) (\<lambda>ids. retW (owner, ids)))"

definition ds_reserve_background ::
  "'w client \<Rightarrow> string \<Rightarrow> pv \<Rightarrow> pv \<Rightarrow> pv \<Rightarrow> pv \<Rightarrow> ('w, (string \<times> string list) option) dact" where
  "ds_reserve_background cl project_root job attempt raw pid =
     (if \<not> is_nonempty_str job \<or> \<not> is_nonempty_str attempt
      then raiseW (SchedulerError ''background owner requires non-empty job and attempt IDs'')
      else
        let owner = ds_background_owner_id cl project_root (str_of job) (str_of attempt) in
        bindW (ofR (owner_context cl owner ''background'' project_root pid [(''job_id'', job), (''attempt_id'', attempt)])) (\<lambda>ctxt.
        bindW (ds_requirements cl raw) (\<lambda>expected.
        bindW (ds_request cl owner ctxt
                 (''pc-bg-'' @ take 40 (ds_digest cl (PDict [(''owner'', PStr owner), (''request'', raw)]))) expected) (\<lambda>r.
        case r of
          None \<Rightarrow> retW None
        | Some lease \<Rightarrow>
            if \<not> list_all (allocation_matches cl expected) (lease_items lease)
            then reject_grant cl lease ''Device Scheduler grant did not match the verified exclusive GPU request''
            else if \<not> grant_matches cl expected ctxt lease
            then reject_grant cl lease ''Device Scheduler grant did not match the Project Control owner request''
            else bindW (ds_reservation cl lease) (\<lambda>res. retW (Some res))))))"

section \<open>Owners\<close>

definition quantity :: "'w client \<Rightarrow> pv \<Rightarrow> int result" where
  "quantity cl v = bindR (py_float (cl_float cl) v) (\<lambda>x. py_int_of (PFloat x))"

fun owner_totals :: "'w client \<Rightarrow> pdict list \<Rightarrow> pv list \<Rightarrow> (int \<times> int) result" where
  "owner_totals cl resources [] = Inr (0, 0)"
| "owner_totals cl resources (v # vs) =
     bindR (case v of
              PDict allocation \<Rightarrow>
                (let resource = (case find_resource cl resources (cl_show cl (dget_or allocation ''resource_id'' (PStr []))) of Some r \<Rightarrow> r | None \<Rightarrow> []);
                     quantities = mapping_or_empty (dget allocation ''quantities'') in
                 if lower (ds_kind cl resource) = ''cpu'' then bindR (quantity cl (dget_or quantities ''cores'' (PInt 0))) (\<lambda>n. Inr (n, 0))
                 else if lower (ds_kind cl resource) = ''memory'' then bindR (quantity cl (dget_or quantities ''bytes'' (PInt 0))) (\<lambda>n. Inr (0, n))
                 else Inr (0, 0))
            | _ \<Rightarrow> Inr (0, 0)) (\<lambda>(c, m).
     bindR (owner_totals cl resources vs) (\<lambda>(cs, ms). Inr (c + cs, m + ms)))"

definition owner_pid :: "pdict \<Rightarrow> pv result" where
  "owner_pid ctxt =
     (if \<not> truthy (dget ctxt ''pid'') then Inr PNone
      else case py_int_of (dget ctxt ''pid'') of
        Inr n \<Rightarrow> Inr (PInt n)
      | Inl (TypeError _) \<Rightarrow> Inr PNone
      | Inl (ValueError _) \<Rightarrow> Inr PNone
      | Inl e \<Rightarrow> Inl e)"

record ds_owner_row =
  dso_id :: string
  dso_context :: pdict
  dso_pid :: pv
  dso_state :: string
  dso_cpu :: int
  dso_ram :: int
  dso_resources :: "string list"
  dso_lease :: pdict

definition ds_owner :: "'w client \<Rightarrow> string \<Rightarrow> ('w, ds_owner_row option) dact" where
  "ds_owner cl owner =
     bindW (current_lease cl owner) (\<lambda>r.
     case r of
       None \<Rightarrow> retW None
     | Some lease \<Rightarrow>
         (case dget lease ''owner_context'' of
            PDict ctxt \<Rightarrow>
              if dget ctxt ''issuer'' \<noteq> PStr ''project-control'' \<or> dget ctxt ''owner_id'' \<noteq> PStr owner then retW None
              else
                bindW (ds_resources cl) (\<lambda>resources.
                bindW (ofR (owner_totals cl resources (lease_items lease))) (\<lambda>(cpu, ram).
                bindW (ofR (owner_pid ctxt)) (\<lambda>pid.
                let state = cl_show cl (dget_or lease ''state'' (PStr ''unknown'')) in
                bindW (if state = ''released'' then retW [] else resources_for_lease cl lease) (\<lambda>ids.
                retW (Some \<lparr>dso_id = owner, dso_context = ctxt, dso_pid = pid, dso_state = state, dso_cpu = cpu, dso_ram = ram,
                  dso_resources = ids, dso_lease = lease\<rparr>)))))
          | _ \<Rightarrow> retW None))"

definition ds_owners_for_attempt :: "'w client \<Rightarrow> string \<Rightarrow> string \<Rightarrow> ('w, ds_owner_row list) dact" where
  "ds_owners_for_attempt cl project_root attempt =
     bindW (matching_leases cl None) (\<lambda>leases.
     bindW (mapW (\<lambda>l. ds_owner cl (cl_show cl (dget_or l ''owner_id'' (PStr []))))
              (filter (\<lambda>l. let c = mapping_or_empty (dget l ''owner_context'') in
                 dget c ''project_root'' = PStr (cl_resolve cl project_root) \<and> dget c ''attempt_id'' = PStr attempt) leases)) (\<lambda>owners.
     retW (sort_key (\<lambda>row. cl_show cl (dget (dso_lease row) ''expires_at'')) (List.map_filter id owners))))"

section \<open>Conflicts\<close>

definition translate_id :: "'w client \<Rightarrow> pdict list \<Rightarrow> string \<Rightarrow> string option" where
  "translate_id cl resources i =
     (if list_ex (\<lambda>item. cl_show cl (dget item ''resource_id'') = i) resources then Some i
      else map_option (\<lambda>item. cl_show cl (dget item ''resource_id'')) (find_alias cl resources i))"

definition lease_uses :: "'w client \<Rightarrow> string list \<Rightarrow> pdict \<Rightarrow> bool" where
  "lease_uses cl ids lease \<longleftrightarrow>
     list_ex (\<lambda>v. case v of PDict a \<Rightarrow> cl_show cl (dget a ''resource_id'') \<in> set ids | _ \<Rightarrow> False) (lease_items lease)"

definition lease_owner :: "'w client \<Rightarrow> pdict \<Rightarrow> string" where
  "lease_owner cl lease = cl_show cl (dget_or lease ''owner_id'' (PStr []))"

definition translated_ids :: "'w client \<Rightarrow> pdict list \<Rightarrow> string list \<Rightarrow> string list result" where
  "translated_ids cl resources ids =
     (let wanted = remdups ids; translated = remdups (List.map_filter (translate_id cl resources) wanted) in
      if length translated \<noteq> length wanted then Inl (SchedulerError ''cannot map resource IDs to current DS inventory'') else Inr translated)"

definition conflicting_leases :: "'w client \<Rightarrow> string list \<Rightarrow> pdict list \<Rightarrow> string list" where
  "conflicting_leases cl translated leases =
     sorted_set (filter (\<lambda>s. s \<noteq> []) (map (lease_owner cl) (filter (\<lambda>l. lease_active cl l \<and> lease_uses cl translated l) leases)))"

definition ds_conflicts :: "'w client \<Rightarrow> string list \<Rightarrow> ('w, string list) dact" where
  "ds_conflicts cl ids =
     (if ids = [] then retW []
      else
        bindW (ds_resources cl) (\<lambda>resources.
        bindW (ofR (translated_ids cl resources ids)) (\<lambda>translated.
        bindW (ds_leases cl) (\<lambda>leases. retW (conflicting_leases cl translated leases)))))"

partial_function (option) wait_loop :: "'w client \<Rightarrow> string list \<Rightarrow> real \<Rightarrow> real \<Rightarrow> 'w \<Rightarrow> (bool result \<times> 'w) option" where
  "wait_loop cl ids deadline pause w =
     (case ds_conflicts cl ids w of
        (Inl e, w') \<Rightarrow> Some (Inl e, w')
      | (Inr owners, w') \<Rightarrow>
          if owners = [] then Some (Inr True, w')
          else if cl_clock cl w' \<ge> deadline then Some (Inr False, w')
          else wait_loop cl ids deadline pause (cl_sleep cl pause w'))"

definition wait_for_quiescence :: "'w client \<Rightarrow> string list \<Rightarrow> real \<Rightarrow> real \<Rightarrow> 'w \<Rightarrow> (bool result \<times> 'w) option" where
  "wait_for_quiescence cl ids timeout poll w =
     wait_loop cl ids (cl_clock cl w + max 0 timeout) (max (1 / 100) poll) w"

section \<open>Activation, renewal and release\<close>

definition ds_activate_foreground :: "'w client \<Rightarrow> pv \<Rightarrow> ('w, bool) dact" where
  "ds_activate_foreground cl v =
     (let reservation = mapping_or_empty v in
      bindW (case dget reservation ''owner_id'' of PStr i \<Rightarrow> ds_owner cl i | _ \<Rightarrow> retW None) (\<lambda>r.
      retW (case (r, dget reservation ''resource_ids'') of
              (Some row, PList requested) \<Rightarrow>
                dso_state row = ''active'' \<and> sort (map (cl_show cl) requested) = sort (dso_resources row)
            | _ \<Rightarrow> False)))"

definition lease_keys :: "pdict \<Rightarrow> unit result" where
  "lease_keys lease =
     (if \<not> has_key lease ''lease_id'' then Inl (KeyError ''lease_id'')
      else if \<not> has_key lease ''fencing_token'' then Inl (KeyError ''fencing_token'') else Inr ())"

definition ds_heartbeat :: "'w client \<Rightarrow> string \<Rightarrow> pv \<Rightarrow> ('w, unit) dact" where
  "ds_heartbeat cl owner pid =
     bindW (current_lease cl owner) (\<lambda>r.
     case r of
       None \<Rightarrow> raiseW (SchedulerError ''no active Device Scheduler lease for owner'')
     | Some lease \<Rightarrow>
         if dget lease ''state'' \<noteq> PStr ''active'' then raiseW (SchedulerError ''no active Device Scheduler lease for owner'')
         else case dget lease ''owner_context'' of
           PDict c \<Rightarrow>
             if dget c ''issuer'' \<noteq> PStr ''project-control'' then raiseW (SchedulerError ''lease is outside the Project Control owner namespace'')
             else if pid \<noteq> PNone \<and> cl_show cl pid \<noteq> cl_show cl (dget c ''pid'')
             then raiseW (SchedulerUnsupported ''owner process identity is immutable under DS leases'')
             else
               bindW (ofR (lease_keys lease)) (\<lambda>_.
               bindW (ds_call cl ''leases.renew'' (lease_arguments lease @ [(''ttl_seconds'', PFloat (Finite (cl_ttl cl)))])) (\<lambda>_. retW ()))
         | _ \<Rightarrow> raiseW (SchedulerError ''lease is outside the Project Control owner namespace''))"

definition ds_release :: "'w client \<Rightarrow> string \<Rightarrow> pv list \<Rightarrow> ('w, unit) dact" where
  "ds_release cl owner legacy =
     (if list_ex (\<lambda>v. v \<noteq> PNone) legacy then raiseW (SchedulerUnsupported ''legacy residency evidence is not accepted by DS'')
      else
        bindW (current_lease cl owner) (\<lambda>r.
        case r of
          None \<Rightarrow> retW ()
        | Some lease \<Rightarrow>
            if dget lease ''state'' = PStr ''released'' then retW ()
            else
              bindW (ofR (lease_keys lease)) (\<lambda>_.
              bindW (ds_call cl ''leases.release'' (lease_arguments lease)) (\<lambda>result.
              ofR (confirm_released result ''Device Scheduler release remains'')))))"

section \<open>Bundles and counts\<close>

definition isolation_domains :: "'w client \<Rightarrow> pdict list \<Rightarrow> pdict list" where
  "isolation_domains cl resources = filter (\<lambda>item. lower (ds_kind cl item) = ''isolation'') resources"

definition gpu_group :: "'w client \<Rightarrow> pdict list \<Rightarrow> pdict \<Rightarrow> string" where
  "gpu_group cl isolation gpu =
     (let rid = ds_rid cl gpu in
      case filter (\<lambda>item. rid \<in> set (ds_domain_members cl item)) isolation of
        [d] \<Rightarrow> cl_show cl (dget d ''resource_id'')
      | _ \<Rightarrow> rid)"

fun add_group :: "(pdict \<Rightarrow> string) \<Rightarrow> pdict list \<Rightarrow> (string \<times> pdict list) list \<Rightarrow> (string \<times> pdict list) list" where
  "add_group f [] groups = groups"
| "add_group f (g # gs) groups =
     add_group f gs (AList.update (f g) ((case map_of groups (f g) of Some xs \<Rightarrow> xs | None \<Rightarrow> []) @ [g]) groups)"

definition bundle_candidates :: "'w client \<Rightarrow> pdict list \<Rightarrow> nat \<Rightarrow> pdict list list" where
  "bundle_candidates cl resources n =
     (let gpus = filter (ds_is_gpu cl) resources;
          inside = concat (map (\<lambda>(_, group). combinations group n) (add_group (gpu_group cl (isolation_domains cl resources)) gpus [])) in
      if inside = [] then combinations gpus n else inside)"

definition bundle_domains :: "'w client \<Rightarrow> pdict list \<Rightarrow> pdict list \<Rightarrow> string list" where
  "bundle_domains cl isolation combo =
     sort (map (\<lambda>item. cl_show cl (dget item ''resource_id''))
       (filter (\<lambda>item. set (ds_domain_members cl item) \<inter> (\<lambda>g. cl_show cl (dget g ''resource_id'')) ` set combo \<noteq> {}) isolation))"

definition free_bundle :: "'w client \<Rightarrow> pdict list \<Rightarrow> pdict list \<Rightarrow> ('w, (string list \<times> string list) option) dact" where
  "free_bundle cl isolation combo =
     (let ids = sort (map (ds_legacy_id cl) combo); domains = bundle_domains cl isolation combo in
      bindW (ds_conflicts cl (ids @ domains)) (\<lambda>owners. retW (if owners = [] then Some (ids, domains) else None)))"

definition compound_gpu_bundles :: "'w client \<Rightarrow> nat \<Rightarrow> ('w, (string list \<times> string list) list) dact" where
  "compound_gpu_bundles cl n =
     bindW (ds_resources cl) (\<lambda>resources.
     bindW (mapW (free_bundle cl (isolation_domains cl resources)) (bundle_candidates cl resources n)) (\<lambda>bundles.
     retW (sort_key (\<lambda>(ids, domains). (length domains, ids)) (List.map_filter id bundles))))"

fun py_len :: "pv \<Rightarrow> nat result" where
  "py_len (PList xs) = Inr (length xs)"
| "py_len (PStr s) = Inr (length s)"
| "py_len (PDict d) = Inr (length d)"
| "py_len _ = Inl (TypeError ''object has no len()'')"

definition state_active :: "pdict \<Rightarrow> bool result" where
  "state_active lease =
     (if unhashable (dget lease ''state'') then Inl (TypeError ''unhashable type'')
      else Inr (dget lease ''state'' \<in> PStr ` set ACTIVE_LEASE_STATES))"

definition allocation_count :: "pdict list \<Rightarrow> nat result" where
  "allocation_count leases = bindR (mapR (\<lambda>l. py_len (dget_or l ''allocations'' (PList []))) leases) (\<lambda>ns. Inr (sum_list ns))"

definition ds_release_observation_counts :: "'w client \<Rightarrow> ('w, nat \<times> nat \<times> nat) dact" where
  "ds_release_observation_counts cl =
     bindW (ds_leases cl) (\<lambda>leases.
     ofR (bindR (filterR state_active leases) (\<lambda>active.
          bindR (allocation_count active) (\<lambda>n. Inr (length active, n, 0)))))"

definition ds_owner_activity :: "'w client \<Rightarrow> string list \<Rightarrow> ('w, nat \<times> nat) dact" where
  "ds_owner_activity cl owners =
     bindW (matching_leases cl None) (\<lambda>leases.
     ofR (bindR (filterR (\<lambda>l. if unhashable (dget l ''owner_id'') then Inl (TypeError ''unhashable type'')
                               else if dget l ''owner_id'' \<notin> PStr ` set owners then Inr False else state_active l) leases) (\<lambda>active.
          bindR (allocation_count active) (\<lambda>n.
          Inr (length (remdups (map (\<lambda>l. cl_show cl (dget l ''owner_id'')) active)), n)))))"

section \<open>What a lease cannot do\<close>

datatype legacy_operation =
    Upsert | Replace | ReserveService | BeginForeground | ReconcileServiceOwners | PreemptRequested | RequestPreemption
  | SetPriority | ProtectResidency | RecordResidencyProcess | RegisterDrainCallback | DrainIfRequested

definition ds_unsupported :: "legacy_operation \<Rightarrow> ('w, 'a) dact" where
  "ds_unsupported operation =
     raiseW (SchedulerUnsupported (case operation of
        Upsert \<Rightarrow> ''resource discovery is Device Scheduler-owned''
      | Replace \<Rightarrow> ''resource discovery is Device Scheduler-owned''
      | ReserveService \<Rightarrow> ''managed services must use an operator-registered Device Scheduler backend''
      | BeginForeground \<Rightarrow> ''Project Control foreground handoff is unavailable until it supports a verified DS continuation; unmanaged allocation is disabled''
      | ReconcileServiceOwners \<Rightarrow> ''DS owns lease reconciliation; no local stale-owner sweep is permitted''
      | PreemptRequested \<Rightarrow> ''DS leases do not expose a legacy preemption signal''
      | RequestPreemption \<Rightarrow> ''lease release is not an implicit preemption grant''
      | SetPriority \<Rightarrow> ''legacy owner priority mutation has no lease equivalent''
      | ProtectResidency \<Rightarrow> ''residency protection belongs to an operator-registered DS backend''
      | RecordResidencyProcess \<Rightarrow> ''DS backend owns managed process tracking''
      | RegisterDrainCallback \<Rightarrow> ''in-process drain callbacks are unsupported under DS authority''
      | DrainIfRequested \<Rightarrow> ''DS leases do not expose a legacy preemption signal''))"

end
