(* ===== verification/DeviceSchedulerProps.thy ===== *)
theory DeviceSchedulerProps
  imports DeviceScheduler
begin

text \<open>
  What the facade of the Device Scheduler promises: it asks only for verified accelerators, it accepts
  only the grant it asked for, it renews and releases only its own leases, and its wait ends.
\<close>

section \<open>Actions\<close>

lemma bindW_eq_Inr: "bindW m f w = (Inr b, w') \<longleftrightarrow> (\<exists>a w1. m w = (Inr a, w1) \<and> f a w1 = (Inr b, w'))"
  by (auto simp: bindW_def split: prod.splits sum.splits)

lemma retW_eq [simp]: "retW a w = (r, w') \<longleftrightarrow> r = Inr a \<and> w' = w"
  by (auto simp: retW_def)

lemma raiseW_eq [simp]: "raiseW e w = (r, w') \<longleftrightarrow> r = Inl e \<and> w' = w"
  by (auto simp: raiseW_def)

lemma ofR_eq [simp]: "ofR r w = (x, w') \<longleftrightarrow> r = x \<and> w' = w"
  by (auto simp: ofR_def)

lemma case_list_run:
  "(case v of PList xs \<Rightarrow> f xs | _ \<Rightarrow> raiseW e) w = (Inr x, w') \<longleftrightarrow> (\<exists>xs. v = PList xs \<and> f xs w = (Inr x, w'))"
  by (cases v) auto

lemma ds_call_Inr:
  "ds_call cl operation arguments w = (Inr result, w') \<Longrightarrow> cl_call cl operation arguments w = (Inr (PDict result), w')"
  by (auto simp: ds_call_def ds_as_mapping_def reply_error_def Let_def bindR_eq_Inr split: prod.splits sum.splits pv.splits if_splits)

section \<open>Requirements\<close>

lemma add_adapter_groups:
  assumes "\<forall>(a, g) \<in> set groups. \<forall>item \<in> set g. dget item ''source_adapter_id'' = PStr a \<and> item \<in> S" "distinct (map fst groups)"
    and "set items \<subseteq> S"
  shows "(\<forall>(a, g) \<in> set (fold add_adapter items groups). \<forall>item \<in> set g. dget item ''source_adapter_id'' = PStr a \<and> item \<in> S)"
  using assms
proof (induction items arbitrary: groups)
  case (Cons x xs)
  have step: "(\<forall>(a, g) \<in> set (add_adapter x groups). \<forall>item \<in> set g. dget item ''source_adapter_id'' = PStr a \<and> item \<in> S) \<and>
      distinct (map fst (add_adapter x groups))"
  proof (cases "\<exists>a. dget x ''source_adapter_id'' = PStr a \<and> a \<noteq> []")
    case True
    then obtain a where a: "dget x ''source_adapter_id'' = PStr a" "a \<noteq> []" by blast
    let ?n = "AList.update a ((case map_of groups a of Some g \<Rightarrow> g | None \<Rightarrow> []) @ [x]) groups"
    have "\<forall>item \<in> set g. dget item ''source_adapter_id'' = PStr b \<and> item \<in> S" if "(b, g) \<in> set ?n" for b g
    proof -
      have old: "\<forall>item \<in> set h. dget item ''source_adapter_id'' = PStr k \<and> item \<in> S" if "map_of groups k = Some h" for k h
        using Cons.prems(1) map_of_SomeD [OF that] by blast
      have "map_of ?n b = Some g" using that Cons.prems(2) by (simp add: distinct_update)
      then show ?thesis using old [of b] a Cons.prems(3) by (cases "b = a"; cases "map_of groups a") (auto simp: update_conv')
    qed
    with a Cons.prems(2) show ?thesis by (auto simp: distinct_update)
  next
    case False
    then have "add_adapter x groups = groups" by (cases "dget x ''source_adapter_id''") auto
    with Cons.prems show ?thesis by simp
  qed
  with Cons.IH [of "add_adapter x groups"] Cons.prems(3) show ?case by simp
qed simp

lemma choose_count_Inr:
  assumes "choose_count candidates n = Inr chosen"
  shows "length chosen = n \<and> set chosen \<subseteq> set candidates"
proof -
  from assms obtain g gs where g: "filter (\<lambda>g. length g \<ge> n) (map snd (sort_key fst (fold add_adapter candidates []))) = g # gs" "chosen = take n g"
    by (auto simp: choose_count_def split: list.splits)
  then have "g \<in> set (filter (\<lambda>g. length g \<ge> n) (map snd (sort_key fst (fold add_adapter candidates []))))" by simp
  then have "length g \<ge> n" "\<exists>a. (a, g) \<in> set (fold add_adapter candidates [])" by auto
  moreover from this(2) add_adapter_groups [of "[]" "set candidates" candidates] have "set g \<subseteq> set candidates" by fastforce
  ultimately show ?thesis using g(2) by (auto dest: in_set_takeD)
qed

lemma find_alias_SomeD: "find_alias cl resources i = Some item \<Longrightarrow> item \<in> set resources \<and> ds_legacy_id cl item = i"
  by (auto simp: find_alias_def dest: find_SomeD)

text \<open>A resource that is verified and has the tags, or is equal to one that is.\<close>

definition admissible :: "'w client \<Rightarrow> pdict list \<Rightarrow> resource_request \<Rightarrow> pdict \<Rightarrow> bool" where
  "admissible cl resources rq item \<longleftrightarrow> item \<in> set resources \<and>
     (\<exists>c \<in> set resources. (c = item \<or> py_eq (PDict c) (PDict item)) \<and> verified_gpu cl c \<and> tags_match cl resources (rq_tags rq) c)"

lemma ds_choose_Inr:
  assumes "ds_choose cl rq resources = Inr chosen"
  shows "list_all (admissible cl resources rq) chosen \<and>
    (if rq_ids rq \<noteq> [] then map (ds_legacy_id cl) chosen = rq_ids rq else length chosen = rq_count rq)"
proof (cases "rq_ids rq \<noteq> []")
  case True
  let ?c = "ds_candidates cl resources (rq_tags rq)"
  from assms True have "list_all2 (\<lambda>i item. choose_id cl resources ?c i = Inr item) (rq_ids rq) chosen"
    by (simp add: ds_choose_def Let_def mapR_eq_Inr)
  then have "list_all2 (\<lambda>i item. ds_legacy_id cl item = i \<and> admissible cl resources rq item) (rq_ids rq) chosen"
    by (rule list_all2_mono)
      (auto simp: choose_id_def admissible_def ds_candidates_def list_ex_iff dest!: find_alias_SomeD split: option.splits if_splits)
  then show ?thesis using True by (auto simp: list_all_iff list_all2_conv_all_nth in_set_conv_nth intro!: nth_equalityI)
next
  case False
  then have "choose_count (ds_candidates cl resources (rq_tags rq)) (rq_count rq) = Inr chosen"
    using assms by (simp add: ds_choose_def Let_def)
  from choose_count_Inr [OF this] False show ?thesis by (auto simp: list_all_iff admissible_def ds_candidates_def)
qed

lemma ds_budget_Inr:
  assumes "ds_budget cl item = Inr (rid, b)"
  shows "dget_or item ''resource_id'' (PStr []) = dget item ''resource_id''" "rid = cl_show cl (dget item ''resource_id'')"
    "float_less (Finite 0) b \<and> \<not> float_less (number_float (dget (mapping_or_empty (dget item ''capacities'')) ''memory_bytes'')) b"
  using assms by (auto simp: ds_budget_def Let_def has_key_def dget_def dget_or_def split: if_splits)

definition one_source :: "pdict list \<Rightarrow> bool" where
  "one_source chosen \<longleftrightarrow> (\<exists>a. list_all (\<lambda>item. dget item ''source_adapter_id'' = PStr a) chosen)"

lemma one_adapter_Inr: "one_adapter chosen = Inr () \<Longrightarrow> one_source chosen"
  by (cases chosen) (auto simp: one_adapter_def one_source_def Let_def is_str_iff list_ex_iff list_all_iff split: if_splits)

text \<open>
  What the facade asks for is verified: the requirements name, in order, resources that the
  scheduler lists, each a verified accelerator with the tags of the request or equal to one, all of one
  reclamation adapter, with a positive amount of memory that is at most the capacity; they are those
  that the request names, or as many as it counts.
\<close>

theorem ds_requirements_verified:
  assumes "ds_requirements cl raw w = (Inr requirements, w')"
  shows "\<exists>rq resources chosen. gpu_only raw = Inr rq \<and> ds_resources cl w = (Inr resources, w') \<and>
    list_all (admissible cl resources rq) chosen \<and> one_source chosen \<and>
    (if rq_ids rq \<noteq> [] then map (ds_legacy_id cl) chosen = rq_ids rq else length chosen = rq_count rq) \<and>
    list_all2 (\<lambda>item (rid, b). rid = cl_show cl (dget item ''resource_id'') \<and> float_less (Finite 0) b \<and>
      \<not> float_less (number_float (dget (mapping_or_empty (dget item ''capacities'')) ''memory_bytes'')) b) chosen requirements"
proof -
  from assms obtain rq resources chosen where g: "gpu_only raw = Inr rq" "ds_resources cl w = (Inr resources, w')"
    and c: "ds_choose cl rq resources = Inr chosen" "one_adapter chosen = Inr ()" and m: "mapR (ds_budget cl) chosen = Inr requirements"
    by (auto simp: ds_requirements_def bindW_eq_Inr bindR_eq_Inr)
  from m have "list_all2 (\<lambda>item (rid, b). rid = cl_show cl (dget item ''resource_id'') \<and> float_less (Finite 0) b \<and>
      \<not> float_less (number_float (dget (mapping_or_empty (dget item ''capacities'')) ''memory_bytes'')) b) chosen requirements"
    unfolding mapR_eq_Inr by (rule list_all2_mono) (auto dest: ds_budget_Inr)
  with g ds_choose_Inr [OF c(1)] one_adapter_Inr [OF c(2)] show ?thesis by blast
qed

section \<open>Grants\<close>

lemma reject_grant_Inl: "reject_grant cl lease reason w = (r, w') \<Longrightarrow> \<exists>e. r = Inl e"
  by (auto simp: reject_grant_def bindW_def ofR_def raiseW_def split: if_splits prod.splits sum.splits)

definition requested_grant :: "'w client \<Rightarrow> string \<Rightarrow> pdict \<Rightarrow> (string \<times> pyfloat) list \<Rightarrow> pdict \<Rightarrow> bool" where
  "requested_grant cl owner ctxt requirements lease \<longleftrightarrow>
     dget lease ''owner_id'' = PStr owner \<and> dget lease ''state'' = PStr ''active'' \<and>
     (\<exists>c. dget lease ''owner_context'' = PDict c \<and> py_eq (PDict c) (PDict ctxt)) \<and>
     set (map (allocation_id cl) (lease_items lease)) = set (map fst requirements) \<and>
     list_all (\<lambda>v. \<exists>a b. v = PDict a \<and> dget a ''mode'' = PStr ''exclusive'' \<and>
       (has_key a ''resource_id'' \<longrightarrow> (allocation_id cl v, b) \<in> set requirements \<and>
         py_eq (dget (mapping_or_empty (dget a ''quantities'')) ''memory_bytes'') (PFloat b))) (lease_items lease)"

lemma ds_request_Some:
  assumes "ds_request cl owner ctxt key requirements w = (Inr (Some lease), w')"
  shows "dget lease ''owner_id'' = PStr owner \<and> dget lease ''state'' = PStr ''active''"
  using assms by (auto simp: ds_request_def Let_def split: prod.splits sum.splits exn.splits pv.splits if_splits)

lemma matched_allocation:
  assumes m: "allocation_matches cl requirements (PDict a)" and ids: "allocation_id cl (PDict a) \<in> set (map fst requirements)"
    and k: "has_key a ''resource_id''"
  shows "dget a ''mode'' = PStr ''exclusive'' \<and> (\<exists>b. (allocation_id cl (PDict a), b) \<in> set requirements \<and>
    py_eq (dget (mapping_or_empty (dget a ''quantities'')) ''memory_bytes'') (PFloat b))"
proof -
  have i: "allocation_id cl (PDict a) = cl_show cl (dget a ''resource_id'')" using k by (auto simp: allocation_id_def has_key_def dget_def dget_or_def)
  from ids obtain b where b: "map_of (rev requirements) (allocation_id cl (PDict a)) = Some b"
    by (metis map_of_eq_None_iff not_None_eq set_map set_rev)
  then have "(allocation_id cl (PDict a), b) \<in> set requirements" by (metis map_of_SomeD set_rev)
  with m b i show ?thesis by (auto simp: allocation_matches_def)
qed

lemma reservation_allocations:
  assumes "ds_reservation cl lease w = (Inr (owner, ids), w')"
  shows "owner = cl_show cl (dget lease ''owner_id'')" "list_all is_dict (lease_items lease)"
proof -
  from assms obtain resources w1 where o: "owner = cl_show cl (dget lease ''owner_id'')"
    and rs: "resources_for_lease cl lease w = (Inr ids, w')" by (auto simp: ds_reservation_def bindW_eq_Inr split: if_splits)
  then show "owner = cl_show cl (dget lease ''owner_id'')" by simp
  have dict: "is_dict v" if "allocation_resource cl rs f v = Inr x" for v x rs f
    using that by (cases v) (auto simp: allocation_resource_def)
  from rs obtain rs' f xs ys where x: "dget_or lease ''allocations'' (PList []) = PList xs" "mapR (allocation_resource cl rs' f) xs = Inr ys"
    by (auto simp: resources_for_lease_def bindW_eq_Inr bindR_eq_Inr split: pv.splits)
  from x(2) have "list_all is_dict xs" unfolding mapR_eq_Inr by (induction rule: list_all2_induct) (auto dest: dict)
  moreover have "lease_items lease = xs" using x(1) by (auto simp: lease_items_def dget_def dget_or_def split: option.splits)
  ultimately show "list_all is_dict (lease_items lease)" by simp
qed

text \<open>
  C24. A reservation is the grant that was asked for: when one is returned, its owner is the one of the job
  and the attempt, the scheduler had granted it an active lease with the context that was sent, and the
  allocations of that lease are exactly the resources of the requirements, each exclusive and with the
  memory that was asked.  Every other grant ends in an exception.
\<close>

theorem ds_reservation_exact:
  assumes "ds_reserve_background cl project_root (PStr job) (PStr attempt) raw pid w = (Inr (Some (owner, ids)), w')"
  shows "owner = ds_background_owner_id cl project_root job attempt \<and>
    (\<exists>ctxt requirements w1 key lease w2.
       owner_context cl owner ''background'' project_root pid [(''job_id'', PStr job), (''attempt_id'', PStr attempt)] = Inr ctxt \<and>
       ds_requirements cl raw w = (Inr requirements, w1) \<and> ds_request cl owner ctxt key requirements w1 = (Inr (Some lease), w2) \<and>
       requested_grant cl owner ctxt requirements lease)"
proof -
  let ?owner = "ds_background_owner_id cl project_root job attempt"
  from assms obtain ctxt requirements w1 lease w2 where
    c: "owner_context cl ?owner ''background'' project_root pid [(''job_id'', PStr job), (''attempt_id'', PStr attempt)] = Inr ctxt"
    and q: "ds_requirements cl raw w = (Inr requirements, w1)"
    and l: "ds_request cl ?owner ctxt (''pc-bg-'' @ take 40 (ds_digest cl (PDict [(''owner'', PStr ?owner), (''request'', raw)]))) requirements w1 =
      (Inr (Some lease), w2)"
    and m: "list_all (allocation_matches cl requirements) (lease_items lease)" "grant_matches cl requirements ctxt lease"
    and v: "ds_reservation cl lease w2 = (Inr (owner, ids), w')"
    by (auto simp: ds_reserve_background_def Let_def bindW_eq_Inr dest!: reject_grant_Inl split: if_splits option.splits)
  note s = ds_request_Some [OF l] and res = reservation_allocations [OF v]
  from res(1) s have o: "owner = ?owner" by (simp add: cl_show_def)
  have "\<exists>a b. v = PDict a \<and> dget a ''mode'' = PStr ''exclusive'' \<and> (has_key a ''resource_id'' \<longrightarrow>
      (allocation_id cl v, b) \<in> set requirements \<and> py_eq (dget (mapping_or_empty (dget a ''quantities'')) ''memory_bytes'') (PFloat b))"
    if v: "v \<in> set (lease_items lease)" for v
  proof -
    from res(2) v obtain a where a: "v = PDict a" by (auto simp: list_all_iff elim: is_dict.elims)
    have am: "allocation_matches cl requirements (PDict a)" using m(1) v a by (simp add: list_all_iff)
    have "allocation_id cl (PDict a) \<in> set (map (allocation_id cl) (lease_items lease))" using v a by simp
    then have "allocation_id cl (PDict a) \<in> set (map fst requirements)" using m(2) by (simp add: grant_matches_def)
    from matched_allocation [OF am this] am a show ?thesis by (cases "has_key a ''resource_id''") (auto simp: allocation_matches_def)
  qed
  moreover have "\<exists>c. dget lease ''owner_context'' = PDict c \<and> py_eq (PDict c) (PDict ctxt)"
    using m(2) by (auto simp: grant_matches_def simp del: py_eq.simps split: pv.splits)
  moreover have "set (map (allocation_id cl) (lease_items lease)) = set (map fst requirements)" using m(2) by (simp add: grant_matches_def)
  ultimately have "requested_grant cl ?owner ctxt requirements lease" using s unfolding requested_grant_def list_all_iff by blast
  with c q l o show ?thesis by blast
qed

section \<open>Leases\<close>

text \<open>What the current lease of an owner is, and where it came from.\<close>

lemma current_lease_Inr:
  assumes "current_lease cl owner w = (Inr r, w')"
  obtains leases where "ds_leases cl w = (Inr leases, w')"
    "case r of
       None \<Rightarrow> filter (\<lambda>l. own_lease cl l \<and> dget l ''owner_id'' = PStr owner) leases = []
     | Some l \<Rightarrow> l \<in> set leases \<and> own_lease cl l \<and> dget l ''owner_id'' = PStr owner \<and>
         (\<forall>k \<in> set leases. own_lease cl k \<longrightarrow> dget k ''owner_id'' = PStr owner \<longrightarrow> lease_active cl k \<longrightarrow> k = l)"
proof -
  from assms obtain leases where l: "ds_leases cl w = (Inr leases, w')"
    and c: "choose_current cl (filter (\<lambda>l. own_lease cl l \<and> dget l ''owner_id'' = PStr owner) leases) = Inr r"
    by (auto simp: current_lease_def matching_leases_def bindW_eq_Inr)
  let ?m = "filter (\<lambda>l. own_lease cl l \<and> dget l ''owner_id'' = PStr owner) leases"
  show thesis
  proof (cases "filter (lease_active cl) ?m")
    case Nil
    then have idle: "\<forall>k \<in> set leases. own_lease cl k \<longrightarrow> dget k ''owner_id'' = PStr owner \<longrightarrow> \<not> lease_active cl k"
      by (auto simp: filter_empty_conv)
    show thesis
    proof (cases ?m)
      case Nil
      with c idle that [OF l] show thesis by (simp add: choose_current_def)
    next
      case (Cons a ls)
      then have "a \<in> set ?m" by simp
      moreover have "r = Some a" using c Cons Nil by (simp add: choose_current_def)
      ultimately show thesis using idle that [OF l] by auto
    qed
  next
    case (Cons l ls)
    with c have one: "filter (lease_active cl) ?m = [l]" "r = Some l" by (auto simp: choose_current_def split: list.splits)
    then have "set (filter (lease_active cl) ?m) = {l}" by simp
    with one(2) that [OF l] show thesis by auto
  qed
qed

text \<open>
  C25. A release touches only what the owner holds: when it returns, either the owner has no lease that is
  not released and only the list was read, or the scheduler confirmed the release of one of the owner's
  own leases, asked for with the identifier and the fencing token of that lease, and no other active lease
  of the owner was listed.
\<close>

theorem ds_release_fenced:
  assumes "ds_release cl owner legacy w = (Inr (), w')"
  shows "\<exists>leases w1. ds_leases cl w = (Inr leases, w1) \<and>
    (w' = w1 \<and> list_all (\<lambda>l. own_lease cl l \<and> dget l ''owner_id'' = PStr owner \<longrightarrow> \<not> lease_active cl l \<or> dget l ''state'' = PStr ''released'') leases \<or>
     (\<exists>l \<in> set leases. \<exists>result. own_lease cl l \<and> dget l ''owner_id'' = PStr owner \<and>
        list_all (\<lambda>k. own_lease cl k \<and> dget k ''owner_id'' = PStr owner \<and> lease_active cl k \<longrightarrow> k = l) leases \<and>
        cl_call cl ''leases.release'' (lease_arguments l) w1 = (Inr (PDict result), w') \<and>
        (\<exists>d. lease_of result = PDict d \<and> dget d ''state'' = PStr ''released'')))"
proof -
  from assms obtain r w1 where c: "current_lease cl owner w = (Inr r, w1)"
    and rest: "(case r of None \<Rightarrow> retW () | Some lease \<Rightarrow>
        if dget lease ''state'' = PStr ''released'' then retW ()
        else bindW (ofR (lease_keys lease)) (\<lambda>_. bindW (ds_call cl ''leases.release'' (lease_arguments lease)) (\<lambda>result.
          ofR (confirm_released result ''Device Scheduler release remains'')))) w1 = (Inr (), w')"
    by (auto simp: ds_release_def bindW_eq_Inr split: if_splits)
  from c obtain leases where l: "ds_leases cl w = (Inr leases, w1)" and held: "case r of
       None \<Rightarrow> filter (\<lambda>l. own_lease cl l \<and> dget l ''owner_id'' = PStr owner) leases = []
     | Some l \<Rightarrow> l \<in> set leases \<and> own_lease cl l \<and> dget l ''owner_id'' = PStr owner \<and>
         (\<forall>k \<in> set leases. own_lease cl k \<longrightarrow> dget k ''owner_id'' = PStr owner \<longrightarrow> lease_active cl k \<longrightarrow> k = l)"
    by (rule current_lease_Inr)
  show ?thesis
  proof (cases r)
    case None
    with rest held l show ?thesis by (auto simp: filter_empty_conv list_all_iff)
  next
    case (Some x)
    show ?thesis
    proof (cases "dget x ''state'' = PStr ''released''")
      case True
      with Some rest have "w' = w1" by simp
      moreover have "list_all (\<lambda>l. own_lease cl l \<and> dget l ''owner_id'' = PStr owner \<longrightarrow> \<not> lease_active cl l \<or> dget l ''state'' = PStr ''released'') leases"
        using held Some True by (auto simp: list_all_iff)
      ultimately show ?thesis using l by blast
    next
      case False
      with Some rest obtain result where call: "ds_call cl ''leases.release'' (lease_arguments x) w1 = (Inr result, w')"
        and ok: "confirm_released result ''Device Scheduler release remains'' = Inr ()"
        by (auto simp: bindW_eq_Inr)
      from ok have "\<exists>d. lease_of result = PDict d \<and> dget d ''state'' = PStr ''released''"
        by (auto simp: confirm_released_def split: pv.splits if_splits)
      with held Some l ds_call_Inr [OF call] show ?thesis by (auto simp: list_all_iff)
    qed
  qed
qed

section \<open>Waiting\<close>

text \<open>A clock that no call turns back and that every sleep advances by its duration.\<close>

definition sound_clock :: "'w client \<Rightarrow> bool" where
  "sound_clock cl \<longleftrightarrow> (\<forall>operation arguments w. cl_clock cl w \<le> cl_clock cl (snd (cl_call cl operation arguments w))) \<and>
     (\<forall>d w. cl_clock cl w + d \<le> cl_clock cl (cl_sleep cl d w))"

definition later :: "'w client \<Rightarrow> ('w, 'a) dact \<Rightarrow> bool" where
  "later cl m \<longleftrightarrow> (\<forall>w. cl_clock cl w \<le> cl_clock cl (snd (m w)))"

lemma later_bind: "later cl m \<Longrightarrow> (\<And>a. later cl (f a)) \<Longrightarrow> later cl (bindW m f)"
proof -
  assume m: "later cl m" and f: "\<And>a. later cl (f a)"
  show ?thesis
    unfolding later_def
  proof
    fix w
    obtain r w1 where w1: "m w = (r, w1)" by fastforce
    have "cl_clock cl w \<le> cl_clock cl w1" using m w1 by (auto simp: later_def dest: spec [of _ w])
    moreover have "cl_clock cl w1 \<le> cl_clock cl (snd (f a w1))" for a using f by (simp add: later_def)
    ultimately show "cl_clock cl w \<le> cl_clock cl (snd (bindW m f w))" using w1 by (cases r) (auto simp: bindW_def intro: order_trans)
  qed
qed

lemma later_basic: "later cl (retW a)" "later cl (raiseW e)" "later cl (ofR r)"
  by (simp_all add: later_def retW_def raiseW_def ofR_def)

lemma later_call: "sound_clock cl \<Longrightarrow> later cl (ds_call cl operation arguments)"
  by (auto simp: later_def sound_clock_def ds_call_def split: prod.splits sum.splits) (metis snd_conv)+

lemma later_conflicts: "sound_clock cl \<Longrightarrow> later cl (ds_conflicts cl ids)"
  unfolding ds_conflicts_def ds_resources_def ds_leases_def
  by (auto intro!: later_bind later_basic later_call split: pv.splits)

lemma wait_loop_returns:
  assumes clock: "sound_clock cl" and pause: "0 < pause"
  shows "deadline - cl_clock cl w \<le> pause * real n \<Longrightarrow> \<exists>r w'. wait_loop cl ids deadline pause w = Some (r, w') \<and>
    (r = Inr True \<longrightarrow> (\<exists>w0. ds_conflicts cl ids w0 = (Inr [], w'))) \<and>
    (r = Inr False \<longrightarrow> deadline \<le> cl_clock cl w' \<and> (\<exists>w0 owners. ds_conflicts cl ids w0 = (Inr owners, w') \<and> owners \<noteq> []))"
proof (induction n arbitrary: w)
  case (0 w)
  obtain r w' where c: "ds_conflicts cl ids w = (r, w')" by fastforce
  then have "cl_clock cl w \<le> cl_clock cl w'" using later_conflicts [OF clock, of ids] by (auto simp: later_def dest: spec [of _ w])
  with 0 have "deadline \<le> cl_clock cl w'" by simp
  with c show ?case by (cases r; subst wait_loop.simps) auto
next
  case (Suc n w)
  obtain r w' where c: "ds_conflicts cl ids w = (r, w')" by fastforce
  then have "cl_clock cl w \<le> cl_clock cl w'" using later_conflicts [OF clock, of ids] by (auto simp: later_def dest: spec [of _ w])
  moreover have "cl_clock cl w' + pause \<le> cl_clock cl (cl_sleep cl pause w')" using clock by (simp add: sound_clock_def)
  ultimately have "deadline - cl_clock cl (cl_sleep cl pause w') \<le> pause * real n" using Suc.prems by (simp add: algebra_simps)
  from Suc.IH [OF this] c show ?case by (cases r; subst wait_loop.simps) auto
qed

text \<open>
  Waiting for resources ends: with a clock that advances, the wait returns whatever the scheduler
  replies; it is true only after a check that found no conflict, and false only when the time is over
  and the last check found one.
\<close>

theorem wait_for_quiescence_ends:
  assumes "sound_clock cl"
  shows "\<exists>r w'. wait_for_quiescence cl ids timeout poll w = Some (r, w') \<and>
    (r = Inr True \<longrightarrow> (\<exists>w0. ds_conflicts cl ids w0 = (Inr [], w'))) \<and>
    (r = Inr False \<longrightarrow> cl_clock cl w + max 0 timeout \<le> cl_clock cl w' \<and> (\<exists>w0 owners. ds_conflicts cl ids w0 = (Inr owners, w') \<and> owners \<noteq> []))"
proof -
  let ?pause = "max (1 / 100) poll"
  have p: "0 < ?pause" by simp
  obtain n where n: "max 0 timeout / ?pause \<le> real n" using real_arch_simple by blast
  have "max 0 timeout \<le> ?pause * real n" using n p by (simp add: pos_divide_le_eq mult.commute)
  then have "(cl_clock cl w + max 0 timeout) - cl_clock cl w \<le> ?pause * real n" by simp
  from wait_loop_returns [OF assms p this] show ?thesis by (simp add: wait_for_quiescence_def)
qed

section \<open>Identifiers\<close>

lemma map_filter_total: "list_all (\<lambda>x. f x \<noteq> None) xs \<Longrightarrow> List.map_filter f xs = map (the \<circ> f) xs"
  by (induction xs) (auto simp: List.map_filter_simps)

lemma map_filter_length: "length (List.map_filter f xs) \<le> length xs"
  by (induction xs) (auto simp: List.map_filter_simps split: option.splits)

lemma map_filter_partial: "\<not> list_all (\<lambda>x. f x \<noteq> None) xs \<Longrightarrow> length (List.map_filter f xs) < length xs"
  by (induction xs) (auto simp: List.map_filter_simps map_filter_length le_imp_less_Suc split: option.splits)

text \<open>
  The check for conflicts maps its identifiers to the scheduler's exactly when each one is known and no
  two of them name the same resource; a resource that is given by both of its names is refused with
  the message that it cannot be mapped.
\<close>

theorem translated_ids_exact:
  "(\<exists>ts. translated_ids cl resources ids = Inr ts) \<longleftrightarrow>
     list_all (\<lambda>i. translate_id cl resources i \<noteq> None) ids \<and> inj_on (translate_id cl resources) (set ids)"
proof -
  let ?f = "translate_id cl resources" and ?w = "remdups ids"
  have "length (remdups (List.map_filter ?f ?w)) = length ?w \<longleftrightarrow> list_all (\<lambda>i. ?f i \<noteq> None) ?w \<and> inj_on ?f (set ?w)"
  proof (cases "list_all (\<lambda>i. ?f i \<noteq> None) ?w")
    case True
    then have "?f i = Some (the (?f i))" if "i \<in> set ids" for i using that by (auto simp: list_all_iff)
    then have "(the (?f i) = the (?f j)) = (?f i = ?f j)" if "i \<in> set ids" "j \<in> set ids" for i j using that by metis
    then have "inj_on ?f (set ?w) \<longleftrightarrow> inj_on (the \<circ> ?f) (set ?w)" by (simp add: inj_on_def)
    moreover have "length (remdups (map (the \<circ> ?f) ?w)) = length ?w \<longleftrightarrow> distinct (map (the \<circ> ?f) ?w)"
      using length_remdups_eq [of "map (the \<circ> ?f) ?w"] by (simp only: length_map remdups_id_iff_distinct)
    ultimately show ?thesis using True map_filter_total [OF True] by (simp add: distinct_map)
  next
    case False
    from map_filter_partial [OF this] length_remdups_leq [of "List.map_filter ?f ?w"]
    have "length (remdups (List.map_filter ?f ?w)) < length ?w" by linarith
    with False show ?thesis by auto
  qed
  then show ?thesis by (auto simp: translated_ids_def Let_def list_all_iff)
qed

end
