(* ===== verification/DeviceSchedulerDemo.thy ===== *)
theory DeviceSchedulerDemo
  imports DeviceSchedulerProps
begin

text \<open>A scheduler with one accelerator, on which the properties of the facade are evaluated.\<close>

definition demo_gpu :: pdict where
  "demo_gpu = [(''kind'', PStr ''gpu''), (''resource_id'', PStr ''gpu:h:u''), (''source_adapter_id'', PStr ''a''),
     (''attributes'', PDict [(''uuid'', PStr ''u'')]), (''capacities'', PDict [(''memory_bytes'', PInt 100)]),
     (''external_lease'', PDict [(''supported'', PBool True), (''mode'', PStr ''exclusive_gpu_quiescence''),
        (''required_allocation_mode'', PStr ''exclusive''), (''release_method'', PStr ''repeatable_read_only_observation'')])]"

definition demo_ds_request :: pv where
  "demo_ds_request = PDict [(''schema_version'', PInt 1), (''count'', PInt 1)]"

definition demo_ds_context :: pdict where
  "demo_ds_context = [(''issuer'', PStr ''project-control''), (''owner_id'', PStr ''pc:background:d''), (''owner_kind'', PStr ''background''),
     (''project_root'', PStr ''/p''), (''pid'', PStr ''7''), (''job_id'', PStr ''j''), (''attempt_id'', PStr ''t'')]"

definition demo_lease :: pdict where
  "demo_lease = [(''owner_id'', PStr ''pc:background:d''), (''state'', PStr ''active''), (''lease_id'', PStr ''l''), (''fencing_token'', PInt 3),
     (''owner_context'', PDict demo_ds_context),
     (''allocations'', PList [PDict [(''resource_id'', PStr ''gpu:h:u''), (''mode'', PStr ''exclusive''), (''quantities'', PDict [(''memory_bytes'', PInt 100)])]])]"

definition demo_ds_call :: "string \<Rightarrow> pdict \<Rightarrow> real \<Rightarrow> (client_error + pv) \<times> real" where
  "demo_ds_call operation arguments w =
     (Inr (PDict (if operation = ''resources.list'' then [(''resources'', PList [PDict demo_gpu])]
        else if operation = ''leases.list'' then [(''leases'', PList [PDict demo_lease])]
        else if operation = ''leases.request'' then [(''lease'', PDict demo_lease)]
        else [(''state'', PStr ''released'')])), w)"

definition demo_client :: "real client" where
  "demo_client = \<lparr>cl_call = demo_ds_call, cl_clock = (\<lambda>w. w), cl_sleep = (\<lambda>d w. w + d), cl_ttl = 60, cl_str = (\<lambda>_. ''?''),
     cl_float = (\<lambda>_. None), cl_sha256 = (\<lambda>_. ''d''), cl_float_repr = (\<lambda>_. ''0.0''), cl_resolve = (\<lambda>p. p), cl_getpid = 7,
     cl_process_start = (\<lambda>_. None)\<rparr>"

lemma demo_ds_resources: "ds_resources demo_client w = (Inr [demo_gpu], w)"
  by (simp add: ds_resources_def bindW_def ds_call_def demo_client_def demo_ds_call_def ds_as_mapping_def reply_error_def dget_def dget_or_def
      ofR_def flatten_resource_def demo_gpu_def)

lemma demo_ds_leases: "ds_leases demo_client w = (Inr [demo_lease], w)"
  by (simp add: ds_leases_def bindW_def ds_call_def demo_client_def demo_ds_call_def ds_as_mapping_def reply_error_def dget_def dget_or_def ofR_def)

lemma demo_show: "cl_show demo_client (PStr s) = s"
  by (simp add: cl_show_def)

lemma demo_verified: "ds_is_gpu demo_client demo_gpu" "verified_gpu demo_client demo_gpu"
proof -
  have "lower ''gpu'' = ''gpu''" by code_simp
  then show "ds_is_gpu demo_client demo_gpu"
    by (simp add: ds_is_gpu_def ds_kind_def demo_gpu_def dget_or_def cl_show_def GPU_ALIASES_def)
  then show "verified_gpu demo_client demo_gpu"
    by (simp add: verified_gpu_def valid_capacity_def mapping_or_empty_def demo_gpu_def dget_def dget_or_def Let_def)
qed

definition demo_rq :: resource_request where
  "demo_rq = \<lparr>rq_kind = ''accelerator'', rq_ids = [], rq_tags = [], exclusive_resources = [], isolate_pcie_root = False,
     isolate_nvlink_domain = False, cpu_heavy = False, rq_count = 1, rq_cpu_threads = 0, rq_ram_bytes = 0\<rparr>"

lemma demo_gpu_only: "gpu_only demo_ds_request = Inr demo_rq"
  by code_simp

lemma demo_requirements: "ds_requirements demo_client demo_ds_request w = (Inr [(''gpu:h:u'', Finite 100)], w)"
proof -
  have "choose_count [demo_gpu] 1 = Inr [demo_gpu]"
    by (simp add: choose_count_def demo_gpu_def dget_def dget_or_def)
  then have "ds_choose demo_client demo_rq [demo_gpu] = Inr [demo_gpu]"
    by (simp add: ds_choose_def ds_candidates_def demo_rq_def demo_verified tags_match_def Let_def)
  moreover have "one_adapter [demo_gpu] = Inr ()" by (simp add: one_adapter_def demo_gpu_def dget_def dget_or_def)
  moreover have "ds_budget demo_client demo_gpu = Inr (''gpu:h:u'', Finite 100)"
    by (simp add: ds_budget_def demo_gpu_def dget_def dget_or_def mapping_or_empty_def has_key_def cl_show_def Let_def)
  ultimately show ?thesis by (simp add: ds_requirements_def bindW_def ofR_def demo_gpu_only demo_ds_resources)
qed

theorem ds_requirements_verified_witness:
  "\<exists>chosen. list_all (admissible demo_client [demo_gpu] demo_rq) chosen \<and> one_source chosen \<and> length chosen = 1"
  using ds_requirements_verified [OF demo_requirements [of 0]] by (auto simp: demo_gpu_only demo_ds_resources demo_rq_def)

section \<open>A grant\<close>

lemma demo_owner_id: "ds_background_owner_id demo_client ''/p'' ''j'' ''t'' = ''pc:background:d''"
  by (simp add: ds_background_owner_id_def ds_digest_def demo_client_def)

lemma demo_owner_context:
  "owner_context demo_client ''pc:background:d'' ''background'' ''/p'' PNone [(''job_id'', PStr ''j''), (''attempt_id'', PStr ''t'')] = Inr demo_ds_context"
proof -
  have "string_of_int 7 = ''7''" by code_simp
  then show ?thesis by (simp add: owner_context_def demo_client_def demo_ds_context_def raise_if_def)
qed

lemma demo_granted: "ds_request demo_client ''pc:background:d'' c k q w = (Inr (Some demo_lease), w)"
  by (simp add: ds_request_def ds_call_def demo_client_def demo_ds_call_def ds_as_mapping_def reply_error_def dget_def dget_or_def lease_of_def
      demo_lease_def Let_def)

lemma demo_items: "lease_items demo_lease = [PDict [(''resource_id'', PStr ''gpu:h:u''), (''mode'', PStr ''exclusive''),
    (''quantities'', PDict [(''memory_bytes'', PInt 100)])]]"
  by (simp add: lease_items_def demo_lease_def dget_def dget_or_def)

lemma demo_matches:
  "list_all (allocation_matches demo_client [(''gpu:h:u'', Finite 100)]) (lease_items demo_lease)"
  "grant_matches demo_client [(''gpu:h:u'', Finite 100)] demo_ds_context demo_lease"
proof -
  show "list_all (allocation_matches demo_client [(''gpu:h:u'', Finite 100)]) (lease_items demo_lease)"
    by (simp add: demo_items allocation_matches_def dget_def dget_or_def mapping_or_empty_def cl_show_def eq_atom_def)
  have "py_eq (PDict demo_ds_context) (PDict demo_ds_context)" by (rule py_eq_refl) (simp_all add: demo_ds_context_def)
  then show "grant_matches demo_client [(''gpu:h:u'', Finite 100)] demo_ds_context demo_lease"
    by (simp add: grant_matches_def demo_items allocation_id_def dget_or_def cl_show_def del: py_eq.simps)
      (simp add: demo_lease_def dget_def dget_or_def del: py_eq.simps)
qed

lemma demo_reserved:
  "ds_reserve_background demo_client ''/p'' (PStr ''j'') (PStr ''t'') demo_ds_request PNone w = (Inr (Some (''pc:background:d'', [''accelerator:u''])), w)"
proof -
  have "ds_legacy_id demo_client demo_gpu = ''accelerator:u''"
    using demo_verified(1) by (simp add: ds_legacy_id_def ds_attributes_def demo_gpu_def dget_def dget_or_def mapping_or_empty_def)
  moreover have "find_resource demo_client [demo_gpu] ''gpu:h:u'' = Some demo_gpu"
    by (simp add: find_resource_def demo_gpu_def dget_def dget_or_def cl_show_def)
  ultimately have "resources_for_lease demo_client demo_lease w = (Inr [''accelerator:u''], w)"
    using demo_verified(1)
    by (simp add: resources_for_lease_def bindW_def ofR_def demo_ds_resources demo_lease_def dget_def dget_or_def allocation_resource_def cl_show_def
        sorted_set_def Let_def)
  then have "ds_reservation demo_client demo_lease w = (Inr (''pc:background:d'', [''accelerator:u'']), w)"
    by (simp add: ds_reservation_def bindW_def ofR_def retW_def) (simp add: demo_lease_def has_key_def dget_def dget_or_def cl_show_def)
  then show ?thesis
    using demo_matches
    by (simp add: ds_reserve_background_def Let_def bindW_def ofR_def demo_owner_id demo_owner_context demo_requirements demo_granted retW_def)
qed

theorem ds_reservation_exact_witness:
  "\<exists>ctxt requirements w1 key lease w2. ds_requirements demo_client demo_ds_request 0 = (Inr requirements, w1) \<and>
     ds_request demo_client ''pc:background:d'' ctxt key requirements w1 = (Inr (Some lease), w2) \<and>
     requested_grant demo_client ''pc:background:d'' ctxt requirements lease"
  using ds_reservation_exact [OF demo_reserved [of 0]] by blast

section \<open>A release\<close>

lemma demo_own: "own_lease demo_client demo_lease" "lease_active demo_client demo_lease"
  by (simp_all add: own_lease_def lease_active_def demo_lease_def demo_ds_context_def dget_def dget_or_def cl_show_def startswith_def eq_atom_def
      ACTIVE_LEASE_STATES_def)

lemma demo_released: "ds_release demo_client ''pc:background:d'' [] 0 = (Inr (), 0)"
proof -
  have "current_lease demo_client ''pc:background:d'' 0 = (Inr (Some demo_lease), 0)"
    using demo_own
    by (simp add: current_lease_def matching_leases_def bindW_def demo_ds_leases retW_def ofR_def choose_current_def)
      (simp add: demo_lease_def dget_def dget_or_def)
  moreover have "ds_call demo_client ''leases.release'' arguments 0 = (Inr [(''state'', PStr ''released'')], 0)" for arguments
    by (simp add: ds_call_def demo_client_def demo_ds_call_def ds_as_mapping_def reply_error_def dget_def dget_or_def)
  ultimately show ?thesis
    by (simp add: ds_release_def bindW_def ofR_def lease_keys_def confirm_released_def lease_of_def dget_def dget_or_def)
      (simp add: demo_lease_def has_key_def)
qed

theorem ds_release_fenced_witness:
  "\<exists>leases w1. ds_leases demo_client 0 = (Inr leases, w1) \<and> own_lease demo_client demo_lease \<and> demo_lease \<in> set leases"
  using ds_release_fenced [OF demo_released] demo_own by (auto simp: demo_ds_leases)

theorem wait_for_quiescence_ends_witness: "\<exists>r w'. wait_for_quiescence demo_client [''accelerator:u''] 1 (1 / 10) 0 = Some (r, w')"
proof -
  have "sound_clock demo_client" by (simp add: sound_clock_def demo_client_def demo_ds_call_def)
  from wait_for_quiescence_ends [OF this, of "[''accelerator:u'']" 1 "1 / 10" 0] show ?thesis by blast
qed

end
