(* ===== verification/Reconcile.thy ===== *)
theory Reconcile
  imports PyBuiltins
begin

text \<open>
  Transient reconciliation of a project snapshot (\<^verbatim>\<open>src/src/project_control/reconcile.py\<close>, with the
  lifecycle predicate of \<^verbatim>\<open>src/src/project_control/lifecycle.py\<close>): the effective state of every task, checkpoint and
  gate, the ranked frontier lists and the performance evidence that still counts.

  The snapshot's validated fields are typed (\<^verbatim>\<open>todo_tables\<close> is a dictionary of lists of dictionaries), what the
  providers put into them is not: a value of the wrong shape raises where the code's \<^verbatim>\<open>for\<close>, \<^verbatim>\<open>in\<close>,
  \<^verbatim>\<open>int\<close> or \<^verbatim>\<open>join\<close> does.  How \<^verbatim>\<open>str\<close> writes a float or a container is the argument \<open>sh\<close>.
\<close>

section \<open>Lifecycle\<close>

definition TERMINAL_HISTORICAL_STATES :: "string list" where
  "TERMINAL_HISTORICAL_STATES =
     [''done'', ''superseded'', ''cancelled'', ''canceled'', ''stale'', ''archived'', ''invalidated'', ''abandoned'',
      ''historical-only'', ''historical_only'']"

definition is_terminal_historical :: "(pv \<Rightarrow> string) \<Rightarrow> pdict \<Rightarrow> bool" where
  "is_terminal_historical sh task \<longleftrightarrow>
     lower (strip (py_str sh (dget_or task ''status'' (PStr [])))) \<in> set TERMINAL_HISTORICAL_STATES"

definition current_task_ids :: "(pv \<Rightarrow> string) \<Rightarrow> pdict list \<Rightarrow> string set" where
  "current_task_ids sh tasks =
     set (map (\<lambda>t. py_str sh (dget t ''id'')) (filter (\<lambda>t. truthy (dget t ''id'') \<and> \<not> is_terminal_historical sh t) tasks))"

section \<open>The snapshot\<close>

record repository_identity =
  ri_commit :: string
  ri_dirty :: bool
  ri_fingerprint :: "string option"

record project_snapshot =
  snap_revision :: "int option"
  snap_repositories :: "(string \<times> repository_identity) list"
  snap_status :: pdict
  snap_tables :: "(string \<times> pdict list) list"
  snap_semantic :: pdict
  snap_workflow :: pdict
  snap_cuda :: pdict

definition table_rows :: "project_snapshot \<Rightarrow> string \<Rightarrow> pdict list" where
  "table_rows snap name = (case map_of (snap_tables snap) name of None \<Rightarrow> [] | Some rows \<Rightarrow> rows)"

section \<open>Ranking\<close>

definition RELEVANCE_SCORE :: "(string \<times> int) list" where
  "RELEVANCE_SCORE =
     [(''current_attention'', 800), (''current'', 700), (''reference'', 400), (''unknown'', 300), (''historical'', 100),
      (''superseded'', 0)]"

definition STATE_BONUS :: "(string \<times> int) list" where
  "STATE_BONUS = [(''blocked'', 90), (''active'', 80), (''ready'', 70), (''done'', 30)]"

definition score_or :: "(string \<times> int) list \<Rightarrow> string \<Rightarrow> int \<Rightarrow> int" where
  "score_or m k n = (case map_of m k of None \<Rightarrow> n | Some x \<Rightarrow> x)"

definition relevance_text :: "(pv \<Rightarrow> string) \<Rightarrow> pdict \<Rightarrow> string" where
  "relevance_text sh item =
     py_str sh (pv_or (pv_or (dget item ''relevance'') (dget item ''current_relevance'')) (PStr ''unknown''))"

definition relevance_score :: "(pv \<Rightarrow> string) \<Rightarrow> pdict \<Rightarrow> (int \<times> int \<times> string) result" where
  "relevance_score sh item =
     (let state = py_str sh (pv_or (dget item ''effective_state'') (PStr [])) in
      bindR (py_int_of (dget_or item ''priority'' (PInt 0))) (\<lambda>priority.
      Inr (score_or RELEVANCE_SCORE (relevance_text sh item) 300 + score_or STATE_BONUS state 0, priority,
           py_str sh (dget_or item ''id'' (PStr [])))))"

definition rank_key :: "(pv \<Rightarrow> string) \<Rightarrow> pdict \<Rightarrow> (int \<times> int \<times> string) result" where
  "rank_key sh item = bindR (relevance_score sh item) (\<lambda>(score, priority, ident). Inr (- score, - priority, ident))"

definition rank_items :: "(pv \<Rightarrow> string) \<Rightarrow> pdict list \<Rightarrow> pdict list result" where
  "rank_items sh items =
     bindR (mapR (rank_key sh) items) (\<lambda>ks. Inr (map snd (sort_key fst (zip ks items))))"

definition rstrip_slash :: "string \<Rightarrow> string" where
  "rstrip_slash s = rev (dropWhile (\<lambda>c. c = CHR ''/'') (rev s))"

definition paths_overlap :: "string \<Rightarrow> string \<Rightarrow> bool" where
  "paths_overlap left right \<longleftrightarrow>
     (let a = rstrip_slash left; b = rstrip_slash right in a = b \<or> startswith a (b @ ''/'') \<or> startswith b (a @ ''/''))"

section \<open>Tasks\<close>

type_synonym task_table = "(string \<times> pdict) list"

definition reason_text :: "pdict \<Rightarrow> string result" where
  "reason_text item =
     bindR (join_of (dget_or item ''reason_codes'' (PList []))) (\<lambda>s. Inr (if s = [] then ''todo_semantic'' else s))"

definition semantic_task :: "(pv \<Rightarrow> string) \<Rightarrow> pdict \<Rightarrow> (string \<times> pdict) result" where
  "semantic_task sh item =
     bindR (reason_text item) (\<lambda>reason.
     Inr (py_str sh (dget item ''id''),
          dupdate item [(''relevance'', dget_or item ''current_relevance'' (PStr ''unknown'')), (''relevance_reason'', PStr reason)]))"

definition semantic_tasks :: "(pv \<Rightarrow> string) \<Rightarrow> pv list \<Rightarrow> task_table result" where
  "semantic_tasks sh records =
     bindR (mapR (semantic_task sh) (filter (\<lambda>item. truthy (dget item ''id'')) (dicts_of records))) (\<lambda>ps.
     Inr (fold (\<lambda>p. AList.update (fst p) (snd p)) ps []))"

text \<open>
  The fallback on raw tables.  \<^verbatim>\<open>dependencies\<close> is the list of its pairs in the order they are appended.
\<close>

definition dependency_target :: "pdict \<Rightarrow> pv" where
  "dependency_target row =
     pv_or (pv_or (pv_or (dget row ''prerequisite_task_id'') (dget row ''checkpoint_id'')) (dget row ''interface_id'')) (dget row ''barrier_id'')"

definition legacy_dependencies :: "(pv \<Rightarrow> string) \<Rightarrow> pdict list \<Rightarrow> (string \<times> string) list" where
  "legacy_dependencies sh rows =
     map (\<lambda>row. (py_str sh (dget row ''task_id''), py_str sh (dependency_target row)))
       (filter (\<lambda>row. truthy (dependency_target row)) rows)"

definition dependencies_of :: "(string \<times> string) list \<Rightarrow> string \<Rightarrow> string list" where
  "dependencies_of deps task_id = map snd (filter (\<lambda>p. fst p = task_id) deps)"

definition legacy_state :: "string \<Rightarrow> bool \<Rightarrow> bool \<Rightarrow> bool \<Rightarrow> bool \<Rightarrow> string \<times> string" where
  "legacy_state status terminal active ready waiting =
     (if status = ''superseded'' then (''superseded'', ''superseded'')
      else if terminal then (''done'', ''reference'')
      else if active \<or> status = ''in_progress'' then (''active'', ''current'')
      else if ready then (''ready'', ''current'')
      else if status = ''blocked'' \<or> waiting then (''blocked'', ''current_attention'')
      else (''planned'', ''current''))"

definition legacy_task ::
  "(pv \<Rightarrow> string) \<Rightarrow> string set \<Rightarrow> string set \<Rightarrow> (string \<times> string) list \<Rightarrow> pdict \<Rightarrow> string \<times> pdict" where
  "legacy_task sh ready_ids active_ids deps raw =
     (let task_id = py_str sh (dget raw ''id''); status = py_str sh (dget_or raw ''status'' (PStr ''planned''));
          terminal = is_terminal_historical sh raw; waiting = dependencies_of deps task_id;
          (effective, relevance) =
            legacy_state status terminal (task_id \<in> active_ids) (task_id \<in> ready_ids) (waiting \<noteq> []) in
      (task_id, dupdate raw
        [(''effective_state'', PStr effective), (''terminal'', PBool terminal),
         (''frontier_eligible'', PBool (\<not> terminal \<and> dget raw ''kind'' \<noteq> PStr ''epic'')),
         (''attention_eligible'', PBool (effective = ''blocked'')),
         (''current_program_eligible'', PBool (relevance \<notin> {''superseded'', ''historical''})),
         (''relevance'', PStr relevance), (''relevance_reason'', PStr ''legacy_raw_status_fallback''),
         (''dependencies'', PList (map (\<lambda>v. PDict [(''type'', PStr ''legacy''), (''entity_id'', PStr v)]) waiting))]))"

definition legacy_tasks :: "(pv \<Rightarrow> string) \<Rightarrow> project_snapshot \<Rightarrow> task_table result" where
  "legacy_tasks sh snap =
     bindR (iter_of (dget_or (snap_status snap) ''ready'' (PList []))) (\<lambda>ready.
     bindR (iter_of (dget_or (snap_status snap) ''active_claims'' (PList []))) (\<lambda>claims.
     let ready_ids = set (map (\<lambda>d. py_str sh (pv_or (dget d ''id'') (dget d ''task_id''))) (dicts_of ready));
         active_ids = set (map (\<lambda>d. py_str sh (dget d ''task_id'')) (dicts_of claims));
         deps = legacy_dependencies sh (table_rows snap ''task_dependencies'') in
     Inr (fold (\<lambda>raw. case legacy_task sh ready_ids active_ids deps raw of (k, v) \<Rightarrow> AList.update k v) (table_rows snap ''tasks'') [])))"

definition rc_tasks :: "(pv \<Rightarrow> string) \<Rightarrow> project_snapshot \<Rightarrow> (task_table \<times> bool) result" where
  "rc_tasks sh snap =
     (case dget_or (snap_semantic snap) ''tasks'' (PList []) of
        PList records \<Rightarrow>
          if has_key (snap_semantic snap) ''revision'' then bindR (semantic_tasks sh records) (\<lambda>t. Inr (t, True))
          else bindR (legacy_tasks sh snap) (\<lambda>t. Inr (t, False))
      | _ \<Rightarrow> bindR (legacy_tasks sh snap) (\<lambda>t. Inr (t, False)))"

definition task_entry :: "task_table \<Rightarrow> string \<Rightarrow> pdict" where
  "task_entry tasks k = (case map_of tasks k of None \<Rightarrow> [] | Some d \<Rightarrow> d)"

section \<open>Performance evidence\<close>

record performance_view =
  pf_campaigns :: "pdict list"
  pf_current_evidence :: "pdict list"
  pf_historical_evidence :: "pdict list"
  pf_current_regressions :: "pdict list"
  pf_historical_regressions :: "pdict list"
  pf_current_improvements :: "pdict list"
  pf_active_watches :: "pdict list"

definition campaign_tasks :: "(pv \<Rightarrow> string) \<Rightarrow> pdict list \<Rightarrow> (string \<times> string list) list result" where
  "campaign_tasks sh campaigns =
     bindR (mapR (\<lambda>item. bindR (iter_of (dget_or item ''task_ids'' (PList []))) (\<lambda>vs.
       Inr (py_str sh (dget item ''id''), map str_of (filter is_str vs)))) campaigns) (\<lambda>ps.
     Inr (fold (\<lambda>p. AList.update (fst p) (snd p)) ps []))"

definition linked_ids :: "(pv \<Rightarrow> string) \<Rightarrow> (string \<times> string list) list \<Rightarrow> pdict \<Rightarrow> string list" where
  "linked_ids sh ctasks item =
     dedup ((if truthy (dget item ''task_id'') then [py_str sh (dget item ''task_id'')] else []) @
            (case map_of ctasks (py_str sh (pv_or (dget item ''campaign_id'') (dget item ''id''))) of None \<Rightarrow> [] | Some vs \<Rightarrow> vs))"

definition current_related :: "task_table \<Rightarrow> string list \<Rightarrow> bool result" where
  "current_related tasks ids =
     anyR (\<lambda>k. andR (truthy (dget_or (task_entry tasks k) ''current_program_eligible'' (PBool False)))
       (bindR (text_in (dget (task_entry tasks k) ''effective_state'') [''superseded'', ''failed'', ''canceled'']) (\<lambda>b. Inr (\<not> b)))) ids"

definition campaign_state :: "task_table \<Rightarrow> string list \<Rightarrow> pdict \<Rightarrow> (string \<times> string \<times> string) result" where
  "campaign_state tasks ids item =
     (let linked = map (task_entry tasks) ids in
      if linked \<noteq> [] \<and> list_all (\<lambda>t. dget t ''effective_state'' = PStr ''superseded'') linked
      then Inr (''superseded'', ''superseded'', ''all_linked_tasks_superseded'')
      else if list_ex (\<lambda>t. \<not> truthy (dget_or t ''terminal'' (PBool True))) linked
      then Inr (if dget item ''status'' = PStr ''armed'' then ''active_watch'' else ''current'', ''current'', ''linked_current_task'')
      else bindR (current_related tasks ids) (\<lambda>related.
        Inr (if related then (''reference_baseline'', ''reference'', ''linked_completed_current_program'')
             else (''historical'', ''historical'', ''no_current_task_link''))))"

definition project_campaign ::
  "(pv \<Rightarrow> string) \<Rightarrow> task_table \<Rightarrow> (string \<times> string list) list \<Rightarrow> pdict \<Rightarrow> pdict result" where
  "project_campaign sh tasks ctasks item =
     bindR (campaign_state tasks (linked_ids sh ctasks item) item) (\<lambda>(lifecycle, relevance, reason).
     Inr (dupdate item [(''lifecycle'', PStr lifecycle), (''relevance'', PStr relevance), (''relevance_reason'', PStr reason)]))"

definition sub_mapping :: "pdict \<Rightarrow> string \<Rightarrow> pdict" where
  "sub_mapping item k = mapping_or_empty (dget item k)"

definition evidence_compatible :: "project_snapshot \<Rightarrow> pdict \<Rightarrow> bool result" where
  "evidence_compatible snap item =
     (let commit = dget (sub_mapping item ''source'') ''commit'';
          source_ok = (\<not> truthy commit \<or> list_ex (\<lambda>p. PStr (ri_commit (snd p)) = commit) (snap_repositories snap));
          compat = dget item ''compatibility'' in
      if unhashable compat then Inl (TypeError ''unhashable type'')
      else Inr ((compat = PStr ''compatible'' \<or> eq_int compat 1 \<or> compat = PNone) \<and> dget item ''valid'' \<noteq> PBool False \<and>
                \<not> truthy (dget_or item ''contaminated'' (PBool False)) \<and>
                dget (sub_mapping item ''measurement'') ''uncontaminated'' \<noteq> PBool False \<and> source_ok))"

definition project_evidence ::
  "(pv \<Rightarrow> string) \<Rightarrow> project_snapshot \<Rightarrow> task_table \<Rightarrow> (string \<times> string list) list \<Rightarrow> pdict \<Rightarrow> pdict result" where
  "project_evidence sh snap tasks ctasks item =
     (let ids = linked_ids sh ctasks item in
      bindR (evidence_compatible snap item) (\<lambda>compatible.
      bindR (current_related tasks ids) (\<lambda>related.
      let current = related \<and> compatible in
      Inr (dupdate item
        [(''linked_task_ids'', PList (map PStr ids)),
         (''lifecycle'', PStr (if current then ''current'' else if ids \<noteq> [] then ''historical'' else ''noncomparable'')),
         (''relevance'', PStr (if current then ''current'' else ''historical'')),
         (''relevance_reason'', PStr (if current then ''current_compatible_linked_task'' else ''not_current_comparable''))]))))"

definition is_regression :: "pdict \<Rightarrow> bool" where
  "is_regression item \<longleftrightarrow> dget item ''classification'' = PStr ''material-regression''"

definition rc_performance :: "(pv \<Rightarrow> string) \<Rightarrow> project_snapshot \<Rightarrow> task_table \<Rightarrow> performance_view result" where
  "rc_performance sh snap tasks =
     bindR (iter_of (dget_or (snap_cuda snap) ''campaigns'' (PList []))) (\<lambda>cs.
     bindR (campaign_tasks sh (dicts_of cs)) (\<lambda>ctasks.
     bindR (mapR (project_campaign sh tasks ctasks) (dicts_of cs)) (\<lambda>campaigns.
     bindR (iter_of (dget_or (snap_cuda snap) ''facts'' (PList []))) (\<lambda>facts.
     bindR (iter_of (dget_or (snap_cuda snap) ''results'' (PList []))) (\<lambda>results.
     bindR (mapR (project_evidence sh snap tasks ctasks) (dicts_of facts @ dicts_of results)) (\<lambda>evidence.
     let current = filter (\<lambda>item. dget item ''relevance'' = PStr ''current'') evidence;
         historical = filter (\<lambda>item. dget item ''relevance'' \<noteq> PStr ''current'') evidence in
     bindR (rank_items sh campaigns) (\<lambda>ranked_campaigns.
     bindR (rank_items sh current) (\<lambda>ranked_current.
     bindR (rank_items sh historical) (\<lambda>ranked_historical.
     bindR (filterR (\<lambda>item. text_in (dget item ''classification'') [''material-improvement'', ''improvement'']) ranked_current) (\<lambda>improvements.
     Inr \<lparr>pf_campaigns = ranked_campaigns, pf_current_evidence = ranked_current, pf_historical_evidence = ranked_historical,
          pf_current_regressions = filter is_regression ranked_current,
          pf_historical_regressions = filter is_regression ranked_historical,
          pf_current_improvements = improvements,
          pf_active_watches = filter (\<lambda>item. dget item ''lifecycle'' = PStr ''active_watch'') campaigns\<rparr>))))))))))"

section \<open>Reconciliation\<close>

record reconciled_project =
  rp_tasks :: task_table
  rp_checkpoints :: "pdict list"
  rp_gates :: "pdict list"
  rp_programs :: "pv list"
  rp_ready :: "pdict list"
  rp_active :: "pdict list"
  rp_blocked :: "pdict list"
  rp_architectural_attention :: "pdict list"
  rp_validation_attention :: "pdict list"
  rp_completed :: "pdict list"
  rp_performance :: performance_view
  rp_historical_counts :: "(string \<times> int) list"
  rp_contradictions :: "pv list"
  rp_warnings :: "string list"
  rp_semantic_available :: bool

definition is_current_task :: "pdict \<Rightarrow> bool result" where
  "is_current_task item =
     andR (truthy (dget item ''current_program_eligible''))
       (bindR (text_in (dget item ''effective_state'') [''superseded'', ''historical'']) (\<lambda>b.
        Inr (\<not> b \<and> \<not> truthy (dget item ''terminal''))))"

definition current_ids_of :: "task_table \<Rightarrow> string set result" where
  "current_ids_of tasks = bindR (filterR (\<lambda>p. is_current_task (snd p)) tasks) (\<lambda>ps. Inr (fst ` set ps))"

definition current_refs :: "(pv \<Rightarrow> string) \<Rightarrow> string set \<Rightarrow> string \<Rightarrow> pdict list \<Rightarrow> string set" where
  "current_refs sh current_ids field rows =
     set (map (\<lambda>item. py_str sh (dget item field))
       (filter (\<lambda>item. truthy (dget item field) \<and> py_str sh (dget item ''task_id'') \<in> current_ids) rows))"

definition legacy_checkpoint :: "(pv \<Rightarrow> string) \<Rightarrow> string set \<Rightarrow> string set \<Rightarrow> pdict \<Rightarrow> pdict" where
  "legacy_checkpoint sh current_ids refs item =
     (let linked = (py_str sh (dget item ''task_id'') \<in> current_ids \<or> py_str sh (dget item ''id'') \<in> refs);
          pending = (dget item ''state'' \<noteq> PStr ''reached'') in
      dupdate item
        [(''effective_state'', PStr (if pending \<and> linked then ''current_pending'' else if \<not> pending then ''reached'' else ''historical_stale'')),
         (''attention_eligible'', PBool (pending \<and> linked)),
         (''relevance'', PStr (if pending \<and> linked then ''current_attention'' else if \<not> pending then ''reference'' else ''historical'')),
         (''relevance_reason'', PStr ''legacy_raw_state_fallback'')])"

definition legacy_gate :: "(pv \<Rightarrow> string) \<Rightarrow> string set \<Rightarrow> string set \<Rightarrow> pdict \<Rightarrow> pdict" where
  "legacy_gate sh current_ids checkpoint_ids item =
     (let linked = (py_str sh (dget item ''task_id'') \<in> current_ids \<or> py_str sh (dget item ''checkpoint_id'') \<in> checkpoint_ids);
          valid = truthy (dget item ''valid''); failed = (truthy (dget item ''required'') \<and> \<not> valid) in
      dupdate item
        [(''effective_state'', PStr (if failed \<and> linked then ''current_failed'' else if valid then ''current_valid'' else ''historical_invalid'')),
         (''attention_eligible'', PBool (failed \<and> linked)),
         (''relevance'', PStr (if failed \<and> linked then ''current_attention'' else if valid then ''reference'' else ''historical'')),
         (''relevance_reason'', PStr ''legacy_raw_state_fallback'')])"

definition with_relevance :: "(pv \<Rightarrow> string) \<Rightarrow> pdict \<Rightarrow> pdict result" where
  "with_relevance sh item =
     (let fallback = (if startswith (py_str sh (dget_or item ''effective_state'' (PStr []))) ''historical'' then ''historical''
                      else if truthy (dget item ''attention_eligible'') then ''current_attention'' else ''reference'');
          item' = dsetdefault item ''relevance'' (PStr fallback) in
      bindR (reason_text item') (\<lambda>reason. Inr (dsetdefault item' ''relevance_reason'' (PStr reason))))"

definition raw_attention ::
  "(pv \<Rightarrow> string) \<Rightarrow> project_snapshot \<Rightarrow> bool \<Rightarrow> string set \<Rightarrow> (pdict list \<times> pdict list) result" where
  "raw_attention sh snap semantic_available current_ids =
     (if semantic_available then
        bindR (iter_of (dget_or (snap_semantic snap) ''checkpoints'' (PList []))) (\<lambda>cs.
        bindR (mapR dict_from cs) (\<lambda>checkpoints.
        bindR (iter_of (dget_or (snap_semantic snap) ''gates'' (PList []))) (\<lambda>gs.
        bindR (mapR dict_from gs) (\<lambda>gates. Inr (checkpoints, gates)))))
      else
        (let refs = current_refs sh current_ids ''checkpoint_id'' (table_rows snap ''task_dependencies'');
             checkpoints = map (legacy_checkpoint sh current_ids refs) (table_rows snap ''checkpoints'');
             pending = set (map (\<lambda>d. py_str sh (dget d ''id'')) (filter (\<lambda>d. truthy (dget d ''attention_eligible'')) checkpoints)) in
         Inr (checkpoints, map (legacy_gate sh current_ids pending) (table_rows snap ''gates''))))"

definition pending_interfaces :: "(pv \<Rightarrow> string) \<Rightarrow> project_snapshot \<Rightarrow> string set \<Rightarrow> pdict list" where
  "pending_interfaces sh snap current_ids =
     (let refs = current_refs sh current_ids ''interface_id'' (table_rows snap ''task_dependencies'') \<union>
                 current_refs sh current_ids ''interface_id'' (table_rows snap ''interface_consumers'') in
      map (\<lambda>item. dupdate item
            [(''effective_state'', PStr ''current_pending''), (''attention_eligible'', PBool True),
             (''relevance'', PStr ''current_attention''), (''relevance_reason'', PStr ''current_owner_or_consumer'')])
        (filter (\<lambda>item. dget item ''state'' \<noteq> PStr ''frozen'' \<and>
           (py_str sh (dget item ''owner_task_id'') \<in> current_ids \<or> py_str sh (dget item ''id'') \<in> refs))
          (table_rows snap ''interfaces'')))"

definition tasks_in_state :: "task_table \<Rightarrow> string \<Rightarrow> pdict list" where
  "tasks_in_state tasks s = filter (\<lambda>item. dget item ''effective_state'' = PStr s) (map snd tasks)"

definition attention_items :: "pdict list \<Rightarrow> pdict list" where
  "attention_items items = filter (\<lambda>item. truthy (dget item ''attention_eligible'')) items"

definition count_historical :: "pdict list \<Rightarrow> int" where
  "count_historical items = int (length (filter (\<lambda>item. dget item ''relevance'' = PStr ''historical'') items))"

definition historical_counts_of ::
  "project_snapshot \<Rightarrow> bool \<Rightarrow> task_table \<Rightarrow> pdict list \<Rightarrow> pdict list \<Rightarrow> (string \<times> int) list result" where
  "historical_counts_of snap semantic_available tasks checkpoints gates =
     bindR (filterR (\<lambda>item. text_in (dget item ''relevance'') [''historical'', ''superseded'']) (map snd tasks)) (\<lambda>old.
     let derived = [(''tasks'', int (length old)), (''checkpoints'', count_historical checkpoints), (''gates'', count_historical gates)];
         counts = (if semantic_available then dget_or (snap_semantic snap) ''historical_counts'' (PDict []) else PDict []) in
     mapR (\<lambda>(k, n). bindR (as_dict counts) (\<lambda>d. bindR (py_int_of (dget_or d k (PInt n))) (\<lambda>i. Inr (k, i)))) derived)"

definition rc_warnings :: "bool \<Rightarrow> (string \<times> int) list \<Rightarrow> pv list \<Rightarrow> string list" where
  "rc_warnings semantic_available counts contradictions =
     (if semantic_available then [] else [''todo_semantic_unavailable'']) @
     (if list_ex (\<lambda>p. snd p \<noteq> 0) counts then [''stale_legacy_state_filtered''] else []) @
     (if contradictions \<noteq> [] then [''cross_authority_inconsistency''] else [])"

definition reconcile :: "(pv \<Rightarrow> string) \<Rightarrow> project_snapshot \<Rightarrow> reconciled_project result" where
  "reconcile sh snap =
     bindR (rc_tasks sh snap) (\<lambda>(tasks, semantic_available).
     let semantic = (if semantic_available then snap_semantic snap else []) in
     bindR (current_ids_of tasks) (\<lambda>current_ids.
     bindR (raw_attention sh snap semantic_available current_ids) (\<lambda>(raw_checkpoints, raw_gates).
     bindR (mapR (with_relevance sh) raw_checkpoints) (\<lambda>checkpoints.
     bindR (mapR (with_relevance sh) raw_gates) (\<lambda>gates.
     bindR (rank_items sh (tasks_in_state tasks ''ready'')) (\<lambda>ready.
     bindR (rank_items sh (tasks_in_state tasks ''active'')) (\<lambda>active.
     bindR (rank_items sh (tasks_in_state tasks ''blocked'')) (\<lambda>blocked.
     bindR (rank_items sh (tasks_in_state tasks ''done'')) (\<lambda>completed.
     bindR (rank_items sh (attention_items checkpoints @ pending_interfaces sh snap current_ids)) (\<lambda>architectural.
     bindR (rank_items sh (attention_items gates)) (\<lambda>validation.
     bindR (rc_performance sh snap tasks) (\<lambda>performance.
     bindR (historical_counts_of snap semantic_available tasks checkpoints gates) (\<lambda>derived.
     let counts = derived @ [(''performance_evidence'', int (length (pf_historical_evidence performance)))] in
     bindR (iter_of (dget_or semantic ''contradictions'' (PList []))) (\<lambda>contradictions.
     bindR (iter_of (dget_or semantic ''programs'' (PList []))) (\<lambda>programs.
     Inr \<lparr>rp_tasks = tasks, rp_checkpoints = checkpoints, rp_gates = gates, rp_programs = programs,
          rp_ready = ready, rp_active = active, rp_blocked = blocked,
          rp_architectural_attention = architectural, rp_validation_attention = validation, rp_completed = completed,
          rp_performance = performance, rp_historical_counts = counts, rp_contradictions = contradictions,
          rp_warnings = rc_warnings semantic_available counts contradictions,
          rp_semantic_available = semantic_available\<rparr>)))))))))))))))"

end
