(* ===== verification/Frontier.thy ===== *)
theory Frontier
  imports Reconcile
begin

text \<open>
  The frontier of a project (\<^verbatim>\<open>src/src/project_control/services/frontier.py\<close>): which ready tasks may run together,
  what blocks the blocked ones and the critical path.  Dictionaries of lists and sets are the lists of their pairs.
  The order in which Python walks the set \<^verbatim>\<open>remaining\<close> is the argument \<open>ord\<close>.
\<close>

section \<open>Conflicts\<close>

definition fr_target :: "pdict \<Rightarrow> pv" where
  "fr_target row = pv_or (pv_or (dget row ''prerequisite_task_id'') (dget row ''checkpoint_id'')) (dget row ''interface_id'')"

definition fr_dependencies :: "(pv \<Rightarrow> string) \<Rightarrow> project_snapshot \<Rightarrow> (string \<times> string) list" where
  "fr_dependencies sh snap =
     map (\<lambda>row. (py_str sh (dget row ''task_id''), py_str sh (fr_target row)))
       (filter (\<lambda>row. truthy (fr_target row)) (table_rows snap ''task_dependencies''))"

definition fr_scopes :: "(pv \<Rightarrow> string) \<Rightarrow> project_snapshot \<Rightarrow> string \<Rightarrow> string list" where
  "fr_scopes sh snap task_id =
     map (\<lambda>scope. py_str sh (dget scope ''path''))
       (filter (\<lambda>scope. dget scope ''mode'' = PStr ''exclusive'' \<and> py_str sh (dget scope ''task_id'') = task_id)
         (table_rows snap ''ownership_scopes''))"

definition fr_locks :: "(pv \<Rightarrow> string) \<Rightarrow> project_snapshot \<Rightarrow> string \<Rightarrow> string list" where
  "fr_locks sh snap task_id =
     map (\<lambda>item. py_str sh (dget item ''lock_name''))
       (filter (\<lambda>item. py_str sh (dget item ''task_id'') = task_id) (table_rows snap ''task_locks''))"

text \<open>\<^verbatim>\<open>interface_owners\<close> and \<^verbatim>\<open>checkpoint_owners\<close>: the last row of an id wins.\<close>

definition owner_map :: "(pv \<Rightarrow> string) \<Rightarrow> string \<Rightarrow> pdict list \<Rightarrow> (string \<times> string) list" where
  "owner_map sh field rows =
     fold (\<lambda>item. AList.update (py_str sh (dget item ''id'')) (py_str sh (dget item field)))
       (filter (\<lambda>item. truthy (dget item ''id'') \<and> truthy (dget item field)) rows) []"

definition interface_relations :: "(pv \<Rightarrow> string) \<Rightarrow> project_snapshot \<Rightarrow> (string option \<times> string) list" where
  "interface_relations sh snap =
     (let owners = owner_map sh ''owner_task_id'' (table_rows snap ''interfaces'') in
      map (\<lambda>item. (map_of owners (py_str sh (dget item ''interface_id'')), py_str sh (dget item ''task_id'')))
        (table_rows snap ''interface_consumers''))"

definition checkpoint_relations :: "(pv \<Rightarrow> string) \<Rightarrow> project_snapshot \<Rightarrow> (string option \<times> string) list" where
  "checkpoint_relations sh snap =
     (let owners = owner_map sh ''task_id'' (table_rows snap ''checkpoints'') in
      map (\<lambda>item. (map_of owners (py_str sh (dget item ''checkpoint_id'')), py_str sh (dget item ''task_id'')))
        (filter (\<lambda>item. truthy (dget item ''checkpoint_id'')) (table_rows snap ''task_dependencies'')))"

definition fr_conflict :: "(pv \<Rightarrow> string) \<Rightarrow> project_snapshot \<Rightarrow> string \<Rightarrow> string \<Rightarrow> bool" where
  "fr_conflict sh snap left right \<longleftrightarrow>
     list_ex (\<lambda>a. list_ex (\<lambda>b. paths_overlap a b) (fr_scopes sh snap right)) (fr_scopes sh snap left) \<or>
     list_ex (\<lambda>l. l \<in> set (fr_locks sh snap right)) (fr_locks sh snap left) \<or>
     right \<in> set (dependencies_of (fr_dependencies sh snap) left) \<or>
     left \<in> set (dependencies_of (fr_dependencies sh snap) right) \<or>
     (Some left, right) \<in> set (interface_relations sh snap) \<or> (Some right, left) \<in> set (interface_relations sh snap) \<or>
     (Some left, right) \<in> set (checkpoint_relations sh snap) \<or> (Some right, left) \<in> set (checkpoint_relations sh snap)"

text \<open>Each ready task joins the first group it conflicts with nobody of.\<close>

fun place_task :: "(string \<Rightarrow> string \<Rightarrow> bool) \<Rightarrow> string \<Rightarrow> string list list \<Rightarrow> string list list" where
  "place_task conflict task_id [] = [[task_id]]"
| "place_task conflict task_id (grp # groups) =
     (if list_all (\<lambda>other. \<not> conflict task_id other) grp then (grp @ [task_id]) # groups
      else grp # place_task conflict task_id groups)"

definition heuristic_groups :: "(pv \<Rightarrow> string) \<Rightarrow> project_snapshot \<Rightarrow> pdict list \<Rightarrow> string list list" where
  "heuristic_groups sh snap ready =
     foldl (\<lambda>groups task. place_task (fr_conflict sh snap) (py_str sh (dget task ''id'')) groups) [] ready"

section \<open>Blockers\<close>

definition id_map :: "(pv \<Rightarrow> string) \<Rightarrow> pdict list \<Rightarrow> (string \<times> pdict) list" where
  "id_map sh rows =
     fold (\<lambda>item. AList.update (py_str sh (dget item ''id'')) item) (filter (\<lambda>item. truthy (dget item ''id'')) rows) []"

definition dependency_unmet :: "(pv \<Rightarrow> string) \<Rightarrow> project_snapshot \<Rightarrow> reconciled_project \<Rightarrow> string \<Rightarrow> bool" where
  "dependency_unmet sh snap r ident =
     (case map_of (rp_tasks r) ident of
        Some task \<Rightarrow> py_str sh (dget task ''effective_state'') \<noteq> ''done''
      | None \<Rightarrow>
          (case map_of (id_map sh (rp_checkpoints r)) ident of
             Some checkpoint \<Rightarrow> py_str sh (dget checkpoint ''effective_state'') \<noteq> ''reached''
           | None \<Rightarrow>
               (case map_of (id_map sh (table_rows snap ''interfaces'')) ident of
                  Some interface \<Rightarrow> py_str sh (dget interface ''state'') \<notin> {''frozen'', ''complete'', ''reached''}
                | None \<Rightarrow> True)))"

text \<open>\<^verbatim>\<open>recovery_by_task\<close>, from the workflow summary's \<^verbatim>\<open>recovery_needed\<close>.\<close>

definition recovery_by_task :: "(pv \<Rightarrow> string) \<Rightarrow> pv list \<Rightarrow> (string \<times> string) list" where
  "recovery_by_task sh needed =
     map (\<lambda>item. (py_str sh (dget item ''task_id''),
           py_str sh (pv_or (pv_or (pv_or (dget item ''id'') (dget item ''attempt_id'')) (dget item ''kind'')) (PStr ''recovery''))))
       (filter (\<lambda>item. truthy (dget item ''task_id'')) (dicts_of needed))"

definition immediate_blockers ::
  "(pv \<Rightarrow> string) \<Rightarrow> project_snapshot \<Rightarrow> reconciled_project \<Rightarrow> (string \<times> string) list \<Rightarrow> string \<Rightarrow> string list" where
  "immediate_blockers sh snap r recovery task_id =
     dedup (filter (dependency_unmet sh snap r) (dependencies_of (fr_dependencies sh snap) task_id) @ dependencies_of recovery task_id)"

definition recorded_context :: "string \<Rightarrow> pv" where
  "recorded_context next_action =
     PDict [(''label'', PStr ''raw canonical task.next_action''), (''next_action_preview'', PStr (take 512 next_action)),
            (''truncated'', PBool (512 < length next_action))]"

definition blocked_entry ::
  "(pv \<Rightarrow> string) \<Rightarrow> project_snapshot \<Rightarrow> reconciled_project \<Rightarrow> (string \<times> string) list \<Rightarrow> string \<times> pdict \<Rightarrow> pdict" where
  "blocked_entry sh snap r recovery = (\<lambda>(task_id, task).
     let blockers = immediate_blockers sh snap r recovery task_id in
     [(''id'', PStr task_id), (''title'', dget task ''title''), (''immediate_blockers'', PList (map PStr blockers))] @
     (case dget task ''next_action'' of
        PStr s \<Rightarrow> if blockers = [] \<and> s \<noteq> [] then [(''recorded_context'', recorded_context s)] else []
      | _ \<Rightarrow> []))"

definition fr_blocked :: "(pv \<Rightarrow> string) \<Rightarrow> project_snapshot \<Rightarrow> reconciled_project \<Rightarrow> pv list \<Rightarrow> pdict list" where
  "fr_blocked sh snap r needed =
     map (blocked_entry sh snap r (recovery_by_task sh needed))
       (filter (\<lambda>p. dget (snd p) ''effective_state'' = PStr ''blocked'') (rp_tasks r))"

section \<open>The critical path\<close>

definition frontier_ids :: "reconciled_project \<Rightarrow> string list" where
  "frontier_ids r = map fst (filter (\<lambda>p. truthy (dget (snd p) ''frontier_eligible'')) (rp_tasks r))"

definition open_dependencies :: "(string \<times> string) list \<Rightarrow> string list \<Rightarrow> string \<Rightarrow> string list" where
  "open_dependencies deps remaining k = filter (\<lambda>d. d \<in> set remaining) (dependencies_of deps k)"

partial_function (option) critical_walk ::
  "(string \<times> string) list \<Rightarrow> string list \<Rightarrow> string \<Rightarrow> string list \<Rightarrow> string list option" where
  "critical_walk deps remaining current critical =
     (case open_dependencies deps remaining current of
        [] \<Rightarrow> Some critical
      | k # _ \<Rightarrow> critical_walk deps remaining k (critical @ [k]))"

text \<open>\<^verbatim>\<open>max\<close> with a key: the first of the largest.\<close>

fun first_max :: "('a \<Rightarrow> 'b::linorder) \<Rightarrow> 'a \<Rightarrow> 'a list \<Rightarrow> 'a" where
  "first_max f best [] = best"
| "first_max f best (x # xs) = first_max f (if f best < f x then x else best) xs"

definition critical_key :: "reconciled_project \<Rightarrow> (string \<times> string) list \<Rightarrow> string list \<Rightarrow> string \<Rightarrow> (int \<times> int) result" where
  "critical_key r deps remaining k =
     bindR (py_int_of (dget_or (task_entry (rp_tasks r) k) ''priority'' (PInt 0))) (\<lambda>priority.
     Inr (int (length (open_dependencies deps remaining k)), priority))"

definition critical_path ::
  "(pv \<Rightarrow> string) \<Rightarrow> (string list \<Rightarrow> string list) \<Rightarrow> project_snapshot \<Rightarrow> reconciled_project \<Rightarrow> string list option result" where
  "critical_path sh ord snap r =
     (let deps = fr_dependencies sh snap; remaining = ord (frontier_ids r) in
      case remaining of
        [] \<Rightarrow> Inr (Some [])
      | _ \<Rightarrow>
          bindR (mapR (critical_key r deps remaining) remaining) (\<lambda>ks.
          let pairs = zip ks remaining; start = snd (first_max fst (hd pairs) (tl pairs)) in
          Inr (critical_walk deps remaining start [start])))"

section \<open>The remaining answers\<close>

definition fr_active_claims :: "(pv \<Rightarrow> string) \<Rightarrow> project_snapshot \<Rightarrow> reconciled_project \<Rightarrow> pdict list result" where
  "fr_active_claims sh snap r =
     bindR (iter_of (dget_or (snap_status snap) ''active_claims'' (PList []))) (\<lambda>claims.
     Inr (map (\<lambda>item. [(''task_id'', dget item ''task_id''), (''observed_state'', PStr ''active''), (''source'', PStr ''todo_status'')])
       (filter (\<lambda>item. py_str sh (dget item ''task_id'') \<in> set (frontier_ids r)) (dicts_of claims))))"

definition worker_suitability :: "(pv \<Rightarrow> string) \<Rightarrow> project_snapshot \<Rightarrow> reconciled_project \<Rightarrow> pdict \<Rightarrow> pdict" where
  "worker_suitability sh snap r task =
     [(''task_id'', dget task ''id''),
      (''suitable'', PBool (truthy (dget task ''frontier_eligible'') \<and>
         length (dedup (fr_scopes sh snap (py_str sh (dget task ''id'')))) \<le> 2)),
      (''basis'', PStr ''heuristic: bounded scope and todo-authoritative frontier eligibility''),
      (''verification_clues'', PList (map (\<lambda>gate. dget gate ''id'')
         (filter (\<lambda>gate. py_eq (dget gate ''task_id'') (dget task ''id'')) (rp_gates r))))]"

end
