(* ===== verification/ReconcileProps.thy ===== *)
theory ReconcileProps
  imports Reconcile "HOL-Library.Sublist"
begin

text \<open>
  What reconciliation promises: ranking is a stable sort that loses nothing, overlapping scopes are those whose
  segments are a prefix of one another, the fallback on raw tables gives every task one state and lists it by it,
  and evidence counts as current only when it is valid and comparable.
\<close>

section \<open>Ranking\<close>

lemma map_insort_key_pairs:
  "insort_key fst (k x, x) (map (\<lambda>x. (k x, x)) xs) = map (\<lambda>x. (k x, x)) (insort_key k x xs)"
  by (induction xs) auto

lemma sort_key_pairs: "sort_key fst (map (\<lambda>x. (k x, x)) xs) = map (\<lambda>x. (k x, x)) (sort_key k xs)"
  by (induction xs) (simp_all add: map_insort_key_pairs)

lemma rank_items_eq:
  "rank_items sh items = Inr ys \<longleftrightarrow>
     (\<exists>k. (\<forall>i \<in> set items. rank_key sh i = Inr (k i)) \<and> ys = sort_key k items)"
proof
  assume "rank_items sh items = Inr ys"
  then obtain ks where ks: "mapR (rank_key sh) items = Inr ks" "ys = map snd (sort_key fst (zip ks items))"
    by (auto simp: rank_items_def bindR_eq_Inr)
  define k where "k = (\<lambda>i. projr (rank_key sh i))"
  from ks(1) have "list_all2 (\<lambda>i y. rank_key sh i = Inr y) items ks" by (simp add: mapR_eq_Inr)
  then have "ks = map k items" and k: "\<forall>i \<in> set items. rank_key sh i = Inr (k i)"
    by (induction rule: list_all2_induct) (auto simp: k_def)
  then have "zip ks items = map (\<lambda>i. (k i, i)) items" by (simp add: zip_map1 zip_same_conv_map)
  with ks(2) have "ys = sort_key k items" by (simp add: sort_key_pairs comp_def)
  with k show "\<exists>k. (\<forall>i \<in> set items. rank_key sh i = Inr (k i)) \<and> ys = sort_key k items" by blast
next
  assume "\<exists>k. (\<forall>i \<in> set items. rank_key sh i = Inr (k i)) \<and> ys = sort_key k items"
  then obtain k where k: "\<forall>i \<in> set items. rank_key sh i = Inr (k i)" "ys = sort_key k items" by blast
  have "mapR (rank_key sh) items = Inr (map k items)"
    using k(1) by (simp add: mapR_eq_Inr list_all2_map2 list_all2_same)
  with k(2) show "rank_items sh items = Inr ys"
    by (simp add: rank_items_def zip_map1 zip_same_conv_map sort_key_pairs comp_def)
qed

lemma rank_items_set: "rank_items sh items = Inr ys \<Longrightarrow> set ys = set items"
  by (auto simp: rank_items_eq)

section \<open>Overlap\<close>

lemma split_on_not_Nil [simp]: "split_on sep s \<noteq> []"
  by (induction s) (auto split: list.splits)

lemma split_on_append: "split_on sep (a @ sep # b) = split_on sep a @ split_on sep b"
  by (induction a) (auto split: list.splits dest: split_on_not_Nil [THEN notE])

lemma join_split_on: "join [sep] (split_on sep s) = s"
proof (induction s)
  case (Cons c s)
  obtain p ps where ps: "split_on sep s = p # ps" by (meson list.exhaust split_on_not_Nil)
  with Cons.IH show ?case by (cases ps) auto
qed simp

lemma join_append: "xs \<noteq> [] \<Longrightarrow> ys \<noteq> [] \<Longrightarrow> join sep (xs @ ys) = join sep xs @ sep @ join sep ys"
proof (induction sep xs rule: join.induct)
  case (2 sep x)
  then show ?case by (cases ys) auto
qed auto

lemma extends_iff_segments:
  "a = b \<or> startswith a (b @ [sep]) \<longleftrightarrow> prefix (split_on sep b) (split_on sep a)"
proof
  assume "a = b \<or> startswith a (b @ [sep])"
  then show "prefix (split_on sep b) (split_on sep a)"
    by (auto simp: startswith_iff split_on_append)
next
  assume "prefix (split_on sep b) (split_on sep a)"
  then obtain r where r: "split_on sep a = split_on sep b @ r" by (auto simp: prefix_def)
  then have "a = join [sep] (split_on sep b @ r)" by (metis join_split_on)
  then show "a = b \<or> startswith a (b @ [sep])"
    by (cases "r = []") (auto simp: join_split_on join_append startswith_iff)
qed

text \<open>
  Two scopes overlap exactly when, read segment by segment and without trailing slashes, one is an initial part
  of the other: \<^verbatim>\<open>src/a\<close> overlaps \<^verbatim>\<open>src/a/b\<close> and not \<^verbatim>\<open>src/ab\<close>.
\<close>

theorem paths_overlap_segments:
  "paths_overlap left right \<longleftrightarrow>
     (let a = split_on (CHR ''/'') (rstrip_slash left); b = split_on (CHR ''/'') (rstrip_slash right) in
      prefix a b \<or> prefix b a)"
  unfolding paths_overlap_def Let_def
  using extends_iff_segments [of "rstrip_slash left" "rstrip_slash right" "CHR ''/''"]
    extends_iff_segments [of "rstrip_slash right" "rstrip_slash left" "CHR ''/''"]
  by auto

section \<open>The fallback\<close>

lemma dget_dupdated: "dget (dupdate d e) k = (case map_of (rev e) k of None \<Rightarrow> dget d k | Some v \<Rightarrow> v)"
  by (simp add: dget_def dget_or_def map_of_dupdate map_add_def split: option.splits)

text \<open>The ids that \<^verbatim>\<open>todo_status\<close> reports claimed and ready.\<close>

definition reported_ids :: "(pdict \<Rightarrow> string) \<Rightarrow> project_snapshot \<Rightarrow> string \<Rightarrow> string \<Rightarrow> bool" where
  "reported_ids ident snap name k =
     (case iter_of (dget_or (snap_status snap) name (PList [])) of
        Inl _ \<Rightarrow> False
      | Inr xs \<Rightarrow> k \<in> set (map ident (dicts_of xs)))"

definition claimed :: "(pv \<Rightarrow> string) \<Rightarrow> project_snapshot \<Rightarrow> string \<Rightarrow> bool" where
  "claimed sh snap k = reported_ids (\<lambda>d. py_str sh (dget d ''task_id'')) snap ''active_claims'' k"

definition offered :: "(pv \<Rightarrow> string) \<Rightarrow> project_snapshot \<Rightarrow> string \<Rightarrow> bool" where
  "offered sh snap k = reported_ids (\<lambda>d. py_str sh (pv_or (dget d ''id'') (dget d ''task_id''))) snap ''ready'' k"

definition waiting :: "(pv \<Rightarrow> string) \<Rightarrow> project_snapshot \<Rightarrow> string \<Rightarrow> bool" where
  "waiting sh snap k \<longleftrightarrow> dependencies_of (legacy_dependencies sh (table_rows snap ''task_dependencies'')) k \<noteq> []"

definition raw_status :: "(pv \<Rightarrow> string) \<Rightarrow> pdict \<Rightarrow> string" where
  "raw_status sh raw = py_str sh (dget_or raw ''status'' (PStr ''planned''))"

definition raw_task :: "(pv \<Rightarrow> string) \<Rightarrow> project_snapshot \<Rightarrow> pdict \<Rightarrow> string \<times> pdict" where
  "raw_task sh snap = legacy_task sh {k. offered sh snap k} {k. claimed sh snap k}
     (legacy_dependencies sh (table_rows snap ''task_dependencies''))"

lemma legacy_tasks_rows:
  assumes "legacy_tasks sh snap = Inr tasks"
  shows "tasks = fold (\<lambda>raw. case raw_task sh snap raw of (k, v) \<Rightarrow> AList.update k v) (table_rows snap ''tasks'') []"
proof -
  from assms obtain ready claims where
    "iter_of (dget_or (snap_status snap) ''ready'' (PList [])) = Inr ready"
    "iter_of (dget_or (snap_status snap) ''active_claims'' (PList [])) = Inr claims" "legacy_tasks sh snap = Inr tasks"
    by (auto simp: legacy_tasks_def bindR_eq_Inr)
  then show ?thesis
    by (simp add: legacy_tasks_def raw_task_def offered_def claimed_def reported_ids_def Let_def image_def)
qed

lemma reconcile_lists:
  assumes "reconcile sh snap = Inr r"
  shows "rc_tasks sh snap = Inr (rp_tasks r, rp_semantic_available r)"
    and "rank_items sh (tasks_in_state (rp_tasks r) ''ready'') = Inr (rp_ready r)"
    and "rank_items sh (tasks_in_state (rp_tasks r) ''active'') = Inr (rp_active r)"
    and "rank_items sh (tasks_in_state (rp_tasks r) ''blocked'') = Inr (rp_blocked r)"
    and "rank_items sh (tasks_in_state (rp_tasks r) ''done'') = Inr (rp_completed r)"
    and "rc_performance sh snap (rp_tasks r) = Inr (rp_performance r)"
  using assms by (auto simp: reconcile_def bindR_eq_Inr Let_def split: prod.splits)

lemma rc_tasks_fallback: "rc_tasks sh snap = Inr (tasks, False) \<Longrightarrow> legacy_tasks sh snap = Inr tasks"
  by (auto simp: rc_tasks_def bindR_eq_Inr split: pv.splits if_splits)

lemma superseded_terminal: "raw_status sh raw = ''superseded'' \<Longrightarrow> is_terminal_historical sh raw"
  by (auto simp: raw_status_def is_terminal_historical_def TERMINAL_HISTORICAL_STATES_def dget_or_def strip_def lower_def
      is_space_def to_lower_def is_upper_def split: option.splits)

lemma raw_task_fields:
  assumes "raw_task sh snap raw = (k, item)"
  shows "k = py_str sh (dget raw ''id'')"
    and "dget item ''terminal'' = PBool (is_terminal_historical sh raw)"
    and "dget item ''effective_state'' = PStr (fst (legacy_state (raw_status sh raw) (is_terminal_historical sh raw)
           (claimed sh snap k) (offered sh snap k) (waiting sh snap k)))"
  using assms
  by (auto simp: raw_task_def legacy_task_def raw_status_def waiting_def dget_dupdated Let_def split: prod.splits)

lemma in_rank_state:
  "rank_items sh (tasks_in_state tasks s) = Inr ys \<Longrightarrow> (k, item) \<in> set tasks \<Longrightarrow>
     item \<in> set ys \<longleftrightarrow> dget item ''effective_state'' = PStr s"
  by (force dest: rank_items_set simp: tasks_in_state_def)

text \<open>How the fallback lists the task \<open>item\<close> of the row \<open>raw\<close>.\<close>

definition listed_by_rule ::
  "(pv \<Rightarrow> string) \<Rightarrow> project_snapshot \<Rightarrow> reconciled_project \<Rightarrow> pdict \<Rightarrow> string \<Rightarrow> pdict \<Rightarrow> bool" where
  "listed_by_rule sh snap r raw k item \<longleftrightarrow>
     (let terminal = is_terminal_historical sh raw; status = raw_status sh raw;
          active = (claimed sh snap k \<or> status = ''in_progress'') in
      k = py_str sh (dget raw ''id'') \<and> dget item ''terminal'' = PBool terminal \<and>
      (item \<in> set (rp_completed r) \<longleftrightarrow> terminal \<and> status \<noteq> ''superseded'') \<and>
      (item \<in> set (rp_active r) \<longleftrightarrow> \<not> terminal \<and> active) \<and>
      (item \<in> set (rp_ready r) \<longleftrightarrow> \<not> terminal \<and> \<not> active \<and> offered sh snap k) \<and>
      (item \<in> set (rp_blocked r) \<longleftrightarrow>
         \<not> terminal \<and> \<not> active \<and> \<not> offered sh snap k \<and> (status = ''blocked'' \<or> waiting sh snap k)))"

lemma raw_task_listed:
  assumes "reconcile sh snap = Inr r" "(k, item) \<in> set (rp_tasks r)" "raw_task sh snap raw = (k, item)"
  shows "listed_by_rule sh snap r raw k item"
proof -
  note lists = reconcile_lists [OF assms(1)]
  note listed = in_rank_state [OF lists(2) assms(2)] in_rank_state [OF lists(3) assms(2)]
    in_rank_state [OF lists(4) assms(2)] in_rank_state [OF lists(5) assms(2)]
  note fields = raw_task_fields [OF assms(3)]
  show ?thesis
    unfolding listed_by_rule_def Let_def listed fields(3)
    using superseded_terminal [of sh raw] fields(1,2) by (auto simp: legacy_state_def)
qed

text \<open>
  C31. On raw tables (no semantic authority) the reconciled tasks are those of the task table and each is listed by
  exactly one rule: a terminal one is never ready, active or blocked and is completed unless superseded; a live one is
  active when claimed or in progress, else ready when it is reported_ids ready, else blocked when it says so or has a
  dependency, else on none of the lists.
\<close>

theorem fallback_classified:
  assumes "reconcile sh snap = Inr r" and "\<not> rp_semantic_available r"
  shows "fst ` set (rp_tasks r) = (\<lambda>raw. py_str sh (dget raw ''id'')) ` set (table_rows snap ''tasks'') \<and>
    (\<forall>(k, item) \<in> set (rp_tasks r). \<exists>raw \<in> set (table_rows snap ''tasks''). listed_by_rule sh snap r raw k item)"
proof -
  have rows: "rp_tasks r = fold (\<lambda>raw. case raw_task sh snap raw of (k, v) \<Rightarrow> AList.update k v) (table_rows snap ''tasks'') []"
    using reconcile_lists(1) [OF assms(1)] assms(2) by (simp add: legacy_tasks_rows rc_tasks_fallback)
  have "fst (raw_task sh snap raw) = py_str sh (dget raw ''id'')" for raw
    by (metis prod.collapse raw_task_fields(1))
  then have "fst ` set (rp_tasks r) = (\<lambda>raw. py_str sh (dget raw ''id'')) ` set (table_rows snap ''tasks'')"
    unfolding rows keys_fold_update by (simp add: image_image)
  moreover have "\<exists>raw \<in> set (table_rows snap ''tasks''). listed_by_rule sh snap r raw k item"
    if mem: "(k, item) \<in> set (rp_tasks r)" for k item
    using mem raw_task_listed [OF assms(1) mem] unfolding rows by (fastforce dest!: in_fold_update)
  ultimately show ?thesis by blast
qed

section \<open>Evidence\<close>

lemma current_related_sound:
  "current_related tasks ids = Inr True \<Longrightarrow>
     \<exists>k \<in> set ids. truthy (dget (task_entry tasks k) ''current_program_eligible'') \<and>
       dget (task_entry tasks k) ''effective_state'' \<notin> PStr ` {''superseded'', ''failed'', ''canceled''}"
proof (induction ids)
  case Nil
  then show ?case by (simp add: current_related_def)
next
  case (Cons k ids)
  show ?case
  proof (cases "current_related tasks ids = Inr True")
    case True
    with Cons.IH show ?thesis by auto
  next
    case False
    with Cons.prems have "truthy (dget_or (task_entry tasks k) ''current_program_eligible'' (PBool False))"
      "dget (task_entry tasks k) ''effective_state'' \<notin> PStr ` {''superseded'', ''failed'', ''canceled''}"
      by (auto simp: current_related_def andR_def bindR_eq_Inr text_in_def split: if_splits pv.splits)
    moreover then have "truthy (dget (task_entry tasks k) ''current_program_eligible'')"
      by (auto simp: dget_def dget_or_def split: option.splits)
    ultimately show ?thesis by auto
  qed
qed

lemma sub_mapping_dupdate: "k \<notin> fst ` set e \<Longrightarrow> sub_mapping (dupdate d e) k = sub_mapping d k"
proof -
  assume "k \<notin> fst ` set e"
  then have "map_of (rev e) k = None" by (simp add: map_of_eq_None_iff)
  then show ?thesis by (simp add: sub_mapping_def dget_dupdated)
qed

text \<open>The observations a provider reports under a name.\<close>

definition observations :: "project_snapshot \<Rightarrow> string \<Rightarrow> pdict list" where
  "observations snap name =
     (case iter_of (dget_or (snap_cuda snap) name (PList [])) of Inl _ \<Rightarrow> [] | Inr xs \<Rightarrow> dicts_of xs)"

text \<open>What makes evidence count as current.\<close>

definition counts_as_current :: "project_snapshot \<Rightarrow> task_table \<Rightarrow> pdict \<Rightarrow> bool" where
  "counts_as_current snap tasks e \<longleftrightarrow>
     (let commit = dget (sub_mapping e ''source'') ''commit'' in
      dget e ''valid'' \<noteq> PBool False \<and> \<not> truthy (dget e ''contaminated'') \<and>
      dget (sub_mapping e ''measurement'') ''uncontaminated'' \<noteq> PBool False \<and>
      (truthy commit \<longrightarrow> (\<exists>p \<in> set (snap_repositories snap). PStr (ri_commit (snd p)) = commit)) \<and>
      (\<exists>ids. dget e ''linked_task_ids'' = PList (map PStr ids) \<and>
         (\<exists>k \<in> set ids. truthy (dget (task_entry tasks k) ''current_program_eligible'') \<and>
            dget (task_entry tasks k) ''effective_state'' \<notin> PStr ` {''superseded'', ''failed'', ''canceled''})))"

lemma project_evidence_current:
  assumes "project_evidence sh snap tasks ctasks item = Inr e" and "dget e ''relevance'' = PStr ''current''"
  shows "counts_as_current snap tasks e"
proof -
  let ?ids = "linked_ids sh ctasks item"
  from assms obtain compatible related where
    c: "evidence_compatible snap item = Inr compatible" "current_related tasks ?ids = Inr related"
    and e: "e = dupdate item
        [(''linked_task_ids'', PList (map PStr ?ids)),
         (''lifecycle'', PStr (if related \<and> compatible then ''current'' else if ?ids \<noteq> [] then ''historical'' else ''noncomparable'')),
         (''relevance'', PStr (if related \<and> compatible then ''current'' else ''historical'')),
         (''relevance_reason'', PStr (if related \<and> compatible then ''current_compatible_linked_task'' else ''not_current_comparable''))]"
    by (auto simp: project_evidence_def bindR_eq_Inr Let_def)
  from assms(2) have yes: "related" "compatible" by (auto simp: e dget_dupdated split: if_splits)
  have same: "dget e ''valid'' = dget item ''valid''" "dget e ''contaminated'' = dget item ''contaminated''"
    "sub_mapping e ''source'' = sub_mapping item ''source''" "sub_mapping e ''measurement'' = sub_mapping item ''measurement''"
    by (simp_all add: e dget_dupdated sub_mapping_dupdate)
  from c(1) yes(2) have "dget item ''valid'' \<noteq> PBool False" "\<not> truthy (dget_or item ''contaminated'' (PBool False))"
    "dget (sub_mapping item ''measurement'') ''uncontaminated'' \<noteq> PBool False"
    "truthy (dget (sub_mapping item ''source'') ''commit'') \<longrightarrow>
       (\<exists>p \<in> set (snap_repositories snap). PStr (ri_commit (snd p)) = dget (sub_mapping item ''source'') ''commit'')"
    by (simp_all add: evidence_compatible_def Let_def list_ex_iff split: if_splits)
  moreover then have "\<not> truthy (dget item ''contaminated'')" by (auto simp: dget_def dget_or_def split: option.splits)
  moreover have "dget e ''linked_task_ids'' = PList (map PStr ?ids)" by (simp add: e dget_dupdated)
  ultimately show ?thesis
    using current_related_sound [of tasks ?ids] c(2) yes(1) unfolding counts_as_current_def Let_def same by auto
qed

text \<open>
  Performance evidence is never lost and counts as current only when it is valid, uncontaminated, taken at a
  commit the snapshot has (or at none) and linked to a task of the current program; a current regression or
  improvement is such evidence.
\<close>

theorem performance_evidence_sound:
  assumes "rc_performance sh snap tasks = Inr p"
  shows "length (pf_current_evidence p) + length (pf_historical_evidence p) =
           length (observations snap ''facts'') + length (observations snap ''results'') \<and>
         set (pf_current_regressions p) \<union> set (pf_current_improvements p) \<subseteq> set (pf_current_evidence p) \<and>
         (\<forall>e \<in> set (pf_current_evidence p). counts_as_current snap tasks e)"
proof -
  let ?cur = "\<lambda>item. dget item ''relevance'' = PStr ''current''"
  from assms obtain cs ctasks facts results evidence where
    obs: "iter_of (dget_or (snap_cuda snap) ''facts'' (PList [])) = Inr facts"
      "iter_of (dget_or (snap_cuda snap) ''results'' (PList [])) = Inr results"
    and ev: "mapR (project_evidence sh snap tasks ctasks) (dicts_of facts @ dicts_of results) = Inr evidence"
    and ranked: "rank_items sh (filter ?cur evidence) = Inr (pf_current_evidence p)"
      "rank_items sh (filter (\<lambda>item. \<not> ?cur item) evidence) = Inr (pf_historical_evidence p)"
    and sub: "pf_current_regressions p = filter is_regression (pf_current_evidence p)"
      "filterR (\<lambda>item. text_in (dget item ''classification'') [''material-improvement'', ''improvement'']) (pf_current_evidence p)
         = Inr (pf_current_improvements p)"
    by (auto simp: rc_performance_def bindR_eq_Inr Let_def)
  from ranked have "length (pf_current_evidence p) + length (pf_historical_evidence p) = length evidence"
    using sum_length_filter_compl [of ?cur evidence] by (auto simp: rank_items_eq)
  also have "length evidence = length (dicts_of facts @ dicts_of results)"
    using ev by (auto simp: mapR_eq_Inr dest: list_all2_lengthD)
  finally have "length (pf_current_evidence p) + length (pf_historical_evidence p) =
      length (observations snap ''facts'') + length (observations snap ''results'')"
    by (simp add: observations_def obs)
  moreover have "counts_as_current snap tasks e" if "e \<in> set (pf_current_evidence p)" for e
  proof -
    from that rank_items_set [OF ranked(1)] have "e \<in> set evidence" "?cur e" by auto
    then show ?thesis using mapR_member [OF ev] project_evidence_current by blast
  qed
  ultimately show ?thesis using filterR_subset [OF sub(2)] by (auto simp: sub(1))
qed

end
