(* ===== verification/FrontierProps.thy ===== *)
theory FrontierProps
  imports Frontier ReconcileProps "HOL-Library.Multiset"
begin

text \<open>
  What the frontier promises: the groups of ready tasks are free of conflicts and lose no task, and the critical path
  ends exactly when the dependencies it follows have no cycle.
\<close>

section \<open>Parallel groups\<close>

lemma paths_overlap_sym: "paths_overlap a b = paths_overlap b a"
  by (auto simp: paths_overlap_def Let_def)

lemma fr_conflict_sym: "fr_conflict sh snap a b = fr_conflict sh snap b a"
proof -
  have "(\<exists>x \<in> set (fr_scopes sh snap a). \<exists>y \<in> set (fr_scopes sh snap b). paths_overlap x y) \<longleftrightarrow>
        (\<exists>x \<in> set (fr_scopes sh snap b). \<exists>y \<in> set (fr_scopes sh snap a). paths_overlap x y)"
    using paths_overlap_sym by blast
  then show ?thesis unfolding fr_conflict_def list_ex_iff by blast
qed

definition conflict_free :: "(string \<Rightarrow> string \<Rightarrow> bool) \<Rightarrow> string list \<Rightarrow> bool" where
  "conflict_free c grp \<longleftrightarrow> (\<forall>j < length grp. \<forall>i < j. \<not> c (grp ! j) (grp ! i))"

lemma conflict_free_snoc:
  "conflict_free c (grp @ [t]) \<longleftrightarrow> conflict_free c grp \<and> list_all (\<lambda>other. \<not> c t other) grp"
  by (auto simp: conflict_free_def nth_append list_all_length less_Suc_eq)

lemma place_task_free: "\<forall>g \<in> set groups. conflict_free c g \<Longrightarrow> \<forall>g \<in> set (place_task c t groups). conflict_free c g"
  by (induction c t groups rule: place_task.induct) (auto simp: conflict_free_snoc conflict_free_def [of _ "[_]"])

lemma place_task_mset: "mset (concat (place_task c t groups)) = add_mset t (mset (concat groups))"
  by (induction c t groups rule: place_task.induct) auto

lemma heuristic_groups_mset:
  "mset (concat (heuristic_groups sh snap ready)) = mset (map (\<lambda>task. py_str sh (dget task ''id'')) ready)"
  by (induction ready rule: rev_induct) (simp_all add: heuristic_groups_def place_task_mset)

lemma heuristic_groups_free: "\<forall>g \<in> set (heuristic_groups sh snap ready). conflict_free (fr_conflict sh snap) g"
  by (induction ready rule: rev_induct) (simp_all add: heuristic_groups_def place_task_free)

text \<open>
  C14. The heuristic parallel groups hold every ready task exactly once, and no two tasks of one group conflict in
  either direction: no overlapping exclusive scopes, no common lock, no dependency between them, and neither consumes
  an interface or waits for a checkpoint the other owns.
\<close>

theorem parallel_groups_safe:
  "mset (concat (heuristic_groups sh snap ready)) = mset (map (\<lambda>task. py_str sh (dget task ''id'')) ready) \<and>
   (\<forall>g \<in> set (heuristic_groups sh snap ready). \<forall>i < length g. \<forall>j < length g. i \<noteq> j \<longrightarrow> \<not> fr_conflict sh snap (g ! i) (g ! j))"
proof -
  have "\<not> fr_conflict sh snap (g ! i) (g ! j)"
    if "g \<in> set (heuristic_groups sh snap ready)" "i < length g" "j < length g" "i \<noteq> j" for g i j
    using that heuristic_groups_free [of sh snap ready] fr_conflict_sym [of sh snap "g ! i" "g ! j"]
    by (cases i j rule: linorder_cases) (auto simp: conflict_free_def)
  then show ?thesis using heuristic_groups_mset by blast
qed

section \<open>The critical path\<close>

text \<open>The dependency the walk follows from a task.\<close>

definition follows :: "(string \<times> string) list \<Rightarrow> string list \<Rightarrow> (string \<times> string) set" where
  "follows deps remaining = {(k, d). \<exists>ds. open_dependencies deps remaining k = d # ds}"

lemma follows_unique: "single_valued (follows deps R)"
  by (auto simp: follows_def single_valued_def)

lemma follows_remaining: "(k, d) \<in> follows deps R \<Longrightarrow> d \<in> set R \<and> (k, d) \<in> set deps"
proof -
  assume "(k, d) \<in> follows deps R"
  then obtain ds where "open_dependencies deps R k = d # ds" by (auto simp: follows_def)
  then have "d \<in> set (open_dependencies deps R k)" by simp
  then show ?thesis by (auto simp: open_dependencies_def dependencies_of_def)
qed

lemma finite_follows: "finite (follows deps R)"
  by (rule finite_subset [of _ "set deps"]) (auto dest: follows_remaining)

lemma critical_walk_step: "(k, d) \<in> follows deps R \<Longrightarrow> critical_walk deps R k acc = critical_walk deps R d (acc @ [d])"
  by (subst critical_walk.simps) (auto simp: follows_def)

lemma critical_walk_stop: "k \<notin> Domain (follows deps R) \<Longrightarrow> critical_walk deps R k acc = Some acc"
  by (subst critical_walk.simps) (auto simp: follows_def Domain_iff split: list.splits)

text \<open>A walk that returns has run off the end of the relation it follows.\<close>

lemma critical_walk_ends:
  assumes "critical_walk deps R k acc = Some p"
  shows "\<exists>z. (k, z) \<in> (follows deps R)\<^sup>* \<and> z \<notin> Domain (follows deps R)"
proof (rule critical_walk.raw_induct
    [where P = "\<lambda>deps R k acc p. \<exists>z. (k, z) \<in> (follows deps R)\<^sup>* \<and> z \<notin> Domain (follows deps R)", OF _ assms])
  fix walk :: "(string \<times> string) list \<Rightarrow> string list \<Rightarrow> string \<Rightarrow> string list \<Rightarrow> string list option" and deps R k acc p
  assume IH: "\<And>deps R k acc p. walk deps R k acc = Some p \<Longrightarrow> \<exists>z. (k, z) \<in> (follows deps R)\<^sup>* \<and> z \<notin> Domain (follows deps R)"
    and step: "(case open_dependencies deps R k of [] \<Rightarrow> Some acc | d # ds \<Rightarrow> walk deps R d (acc @ [d])) = Some p"
  show "\<exists>z. (k, z) \<in> (follows deps R)\<^sup>* \<and> z \<notin> Domain (follows deps R)"
  proof (cases "open_dependencies deps R k")
    case Nil
    then have "k \<notin> Domain (follows deps R)" by (auto simp: follows_def)
    then show ?thesis by (intro exI [of _ k] conjI rtrancl_refl)
  next
    case (Cons d ds)
    then have "(k, d) \<in> follows deps R" by (auto simp: follows_def)
    moreover from step Cons have "walk deps R d (acc @ [d]) = Some p" by simp
    from IH [OF this] obtain z where "(d, z) \<in> (follows deps R)\<^sup>*" "z \<notin> Domain (follows deps R)"
      by (elim exE conjE)
    ultimately show ?thesis by (meson converse_rtrancl_into_rtrancl)
  qed
qed

definition cyclic_from :: "('a \<times> 'a) set \<Rightarrow> 'a \<Rightarrow> bool" where
  "cyclic_from E k \<longleftrightarrow> (\<exists>c. (k, c) \<in> E\<^sup>* \<and> (c, c) \<in> E\<^sup>+)"

text \<open>In a relation that is a partial function, whoever can reach a cycle never leaves it.\<close>

lemma cyclic_from_step:
  assumes "cyclic_from E k" and unique: "single_valued E"
  shows "\<exists>d. (k, d) \<in> E \<and> cyclic_from E d"
proof -
  from assms(1) obtain c where c: "(k, c) \<in> E\<^sup>*" "(c, c) \<in> E\<^sup>+" by (auto simp: cyclic_from_def)
  then have "(k, c) \<in> E\<^sup>+" by (metis rtranclD)
  then obtain d where d: "(k, d) \<in> E" "(d, c) \<in> E\<^sup>*" by (meson tranclD)
  with c(2) show ?thesis unfolding cyclic_from_def by blast
qed

lemma cyclic_from_reaches:
  assumes "(k, z) \<in> E\<^sup>*" "cyclic_from E k" "single_valued E"
  shows "z \<in> Domain E"
proof -
  from assms(1) have "cyclic_from E z"
  proof (induction rule: rtrancl_induct)
    case base
    show ?case by fact
  next
    case (step y z)
    then show ?case using cyclic_from_step [OF step.IH assms(3)] assms(3) by (metis single_valuedD)
  qed
  then show ?thesis using cyclic_from_step [of E z] assms(3) by blast
qed

text \<open>The chain the walk leaves behind.\<close>

fun chain :: "('a \<times> 'a) set \<Rightarrow> 'a \<Rightarrow> 'a list \<Rightarrow> bool" where
  "chain E k [] \<longleftrightarrow> k \<notin> Domain E"
| "chain E k (d # ds) \<longleftrightarrow> (k, d) \<in> E \<and> chain E d ds"

lemma chain_reaches: "chain E k ds \<Longrightarrow> d \<in> set ds \<Longrightarrow> (k, d) \<in> E\<^sup>+"
  by (induction ds arbitrary: k) (auto intro: trancl_trans)

lemma chain_unique:
  assumes "chain E k ds" "chain E k es" "single_valued E"
  shows "ds = es"
  using assms(1,2)
proof (induction ds arbitrary: k es)
  case Nil
  then show ?case by (cases es) auto
next
  case (Cons d ds)
  then show ?case by (cases es) (auto dest: single_valuedD [OF assms(3)])
qed

lemma critical_walk_chain:
  assumes "\<not> cyclic_from (follows deps R) k"
  shows "\<exists>ds. critical_walk deps R k acc = Some (acc @ ds) \<and> chain (follows deps R) k ds"
proof -
  let ?E = "follows deps R"
  let ?F = "{(x, y). (x, y) \<in> ?E \<and> (k, x) \<in> ?E\<^sup>*}"
  have sub: "?F\<^sup>+ \<subseteq> ?E\<^sup>+" by (rule trancl_mono_subset) auto
  have start: "(k, x) \<in> ?E\<^sup>*" if "(x, y) \<in> ?F\<^sup>+" for x y using that by (induction rule: trancl_induct) auto
  have "acyclic ?F"
    using assms sub start unfolding acyclic_def cyclic_from_def by blast
  moreover have "finite ?F" by (rule finite_subset [OF _ finite_follows [of deps R]]) auto
  ultimately have "wf (?F\<inverse>)" by (simp add: finite_acyclic_wf_converse)
  moreover have "(k, x) \<in> ?E\<^sup>* \<Longrightarrow> \<exists>ds. critical_walk deps R x acc = Some (acc @ ds) \<and> chain ?E x ds" for x acc
    using calculation
  proof (induction x arbitrary: acc rule: wf_induct_rule)
    case (less x)
    show ?case
    proof (cases "x \<in> Domain ?E")
      case False
      then show ?thesis using critical_walk_stop [of x deps R] by (intro exI [of _ "[]"]) simp
    next
      case True
      then obtain d where d: "(x, d) \<in> ?E" by blast
      with less.prems have "(d, x) \<in> ?F\<inverse>" "(k, d) \<in> ?E\<^sup>*" by auto
      from less.IH [OF this, of "acc @ [d]"] obtain ds where
        "critical_walk deps R d ((acc @ [d]) @ ds) = critical_walk deps R d ((acc @ [d]) @ ds)"
        "critical_walk deps R d (acc @ [d]) = Some ((acc @ [d]) @ ds)" "chain ?E d ds" by blast
      then show ?thesis using critical_walk_step [OF d] d by (intro exI [of _ "d # ds"]) simp
    qed
  qed
  ultimately show ?thesis by blast
qed

lemma chain_steps:
  "chain E k ds \<Longrightarrow> Suc i < length (k # ds) \<Longrightarrow> ((k # ds) ! i, (k # ds) ! Suc i) \<in> E"
  by (induction ds arbitrary: k i) (auto simp: nth_Cons split: nat.splits)

lemma chain_last: "chain E k ds \<Longrightarrow> last (k # ds) \<notin> Domain E"
  by (induction ds arbitrary: k) auto

lemma chain_suffix: "chain E k ds \<Longrightarrow> d \<in> set ds \<Longrightarrow> \<exists>es. chain E d es \<and> length es < length ds"
proof (induction ds arbitrary: k)
  case (Cons e ds)
  then show ?case by (cases "d = e") (auto intro: less_SucI)
qed simp

lemma chain_distinct:
  assumes "chain E k ds" and unique: "single_valued E"
  shows "distinct (k # ds)"
  using assms(1)
proof (induction ds arbitrary: k)
  case (Cons d ds)
  have "k \<notin> set (d # ds)"
    using chain_suffix [OF Cons.prems] chain_unique [OF Cons.prems _ unique] by blast
  moreover from Cons.IH [of d] Cons.prems have "distinct (d # ds)" by simp
  ultimately show ?case by simp
qed simp

text \<open>
  C32. The critical path walk ends exactly when the first open dependencies it follows from its start reach no cycle;
  when it ends it has listed distinct tasks, each a remaining dependency of the one before, and the last one has no
  open dependency.
\<close>

theorem critical_walk_exact:
  "case critical_walk deps remaining k [k] of
     None \<Rightarrow> cyclic_from (follows deps remaining) k
   | Some p \<Rightarrow> \<not> cyclic_from (follows deps remaining) k \<and> distinct p \<and> hd p = k \<and>
       open_dependencies deps remaining (last p) = [] \<and>
       list_all (\<lambda>i. (p ! i, p ! Suc i) \<in> set deps \<and> p ! Suc i \<in> set remaining) [0..<length p - 1]"
proof -
  let ?E = "follows deps remaining"
  note unique = follows_unique [of deps remaining]
  have loops: "critical_walk deps remaining k [k] = None" if "cyclic_from ?E k"
  proof (cases "critical_walk deps remaining k [k]")
    case (Some p)
    from critical_walk_ends [OF this] cyclic_from_reaches [OF _ that unique] show ?thesis by blast
  qed
  have ends: "\<exists>ds. critical_walk deps remaining k [k] = Some (k # ds) \<and> chain ?E k ds" if "\<not> cyclic_from ?E k"
    using critical_walk_chain [OF that, of "[k]"] by simp
  have path: "distinct p \<and> hd p = k \<and> open_dependencies deps remaining (last p) = [] \<and>
      list_all (\<lambda>i. (p ! i, p ! Suc i) \<in> set deps \<and> p ! Suc i \<in> set remaining) [0..<length p - 1]"
    if p: "p = k # ds" "chain ?E k ds" for p ds
  proof -
    have "(p ! i, p ! Suc i) \<in> set deps \<and> p ! Suc i \<in> set remaining" if "Suc i < length p" for i
      using follows_remaining chain_steps [OF p(2)] that unfolding p(1) by blast
    moreover have "open_dependencies deps remaining (last p) = []"
      using chain_last [OF p(2)] unfolding p(1) by (cases "open_dependencies deps remaining (last (k # ds))") (auto simp: follows_def)
    ultimately show ?thesis using chain_distinct [OF p(2) unique] p(1) by (auto simp: list_all_iff)
  qed
  show ?thesis
  proof (cases "cyclic_from ?E k")
    case True
    then show ?thesis using loops by simp
  next
    case False
    with ends obtain ds where "critical_walk deps remaining k [k] = Some (k # ds)" "chain ?E k ds" by blast
    with False path [of "k # ds" ds] show ?thesis by simp
  qed
qed

lemma first_max_in: "first_max f b xs \<in> set (b # xs)"
  by (induction xs arbitrary: b) fastforce+

text \<open>
  Whatever the order in which the set of remaining tasks is walked, the critical path is answered when the
  dependencies between remaining tasks have no cycle.
\<close>

theorem critical_path_returns:
  assumes "\<forall>xs. set (ord xs) = set xs" and "critical_path sh ord snap r = Inr walk"
    and "acyclic (set (fr_dependencies sh snap) \<inter> set (frontier_ids r) \<times> set (frontier_ids r))"
  shows "\<exists>p. walk = Some p \<and> distinct p \<and> set p \<subseteq> set (frontier_ids r)"
proof (cases "ord (frontier_ids r)")
  case Nil
  with assms(2) show ?thesis by (auto simp: critical_path_def)
next
  case (Cons x xs)
  let ?R = "ord (frontier_ids r)" and ?deps = "fr_dependencies sh snap"
  have R: "set ?R = set (frontier_ids r)" using assms(1) by blast
  obtain ks where ks: "mapR (critical_key r ?deps ?R) ?R = Inr ks"
    and walk: "walk = critical_walk ?deps ?R (snd (first_max fst (hd (zip ks ?R)) (tl (zip ks ?R))))
       [snd (first_max fst (hd (zip ks ?R)) (tl (zip ks ?R)))]"
    using assms(2) Cons by (auto simp: critical_path_def bindR_eq_Inr Let_def)
  define start where "start = snd (first_max fst (hd (zip ks ?R)) (tl (zip ks ?R)))"
  have "length ks = length ?R" using ks by (auto simp: mapR_eq_Inr dest: list_all2_lengthD)
  then have "zip ks ?R \<noteq> []" using Cons by auto
  then have "first_max fst (hd (zip ks ?R)) (tl (zip ks ?R)) \<in> set (zip ks ?R)"
    using first_max_in [of fst "hd (zip ks ?R)" "tl (zip ks ?R)"] by simp
  then have start: "start \<in> set ?R" unfolding start_def by (metis in_set_zipE prod.collapse)
  let ?E = "follows ?deps ?R" and ?G = "set ?deps \<inter> set (frontier_ids r) \<times> set (frontier_ids r)"
  have inside: "(c, d) \<in> ?G\<^sup>+ \<and> d \<in> set ?R" if "(c, d) \<in> ?E\<^sup>+" "c \<in> set ?R" for c d
    using that(1)
  proof (induction rule: trancl_induct)
    case (base d)
    then show ?case using follows_remaining that(2) R by fast
  next
    case (step d e)
    then show ?case using follows_remaining [OF step.hyps(2)] R by (auto intro: trancl_into_trancl)
  qed
  have "\<not> cyclic_from ?E start"
  proof
    assume "cyclic_from ?E start"
    then obtain c where c: "(start, c) \<in> ?E\<^sup>*" "(c, c) \<in> ?E\<^sup>+" by (auto simp: cyclic_from_def)
    then have "c \<in> set ?R" using start inside by (metis rtranclD)
    with c(2) inside assms(3) show False unfolding acyclic_def by blast
  qed
  then obtain ds where ds: "walk = Some (start # ds)" "chain ?E start ds"
    using critical_walk_chain [of ?deps ?R start "[start]"] walk unfolding start_def by auto
  have "set ds \<subseteq> set ?R" using chain_reaches [OF ds(2)] inside start by blast
  with ds start R show ?thesis using chain_distinct [OF ds(2) follows_unique] by auto
qed

end
