(* ===== verification/FrontierDemo.thy ===== *)
theory FrontierDemo
  imports FrontierProps
begin

text \<open>
  Concrete snapshots: a project on raw tables that is reconciled, evidence that counts and evidence that does not, two
  ready tasks with overlapping scopes, and a task that depends on itself.
\<close>

definition demo_show :: "pv \<Rightarrow> string" where
  "demo_show v = ''?''"

definition demo_task :: "string \<Rightarrow> string \<Rightarrow> pdict" where
  "demo_task k status = [(''id'', PStr k), (''status'', PStr status)]"

definition demo_project :: project_snapshot where
  "demo_project =
     \<lparr>snap_revision = None, snap_repositories = [(''r'', \<lparr>ri_commit = ''c1'', ri_dirty = False, ri_fingerprint = None\<rparr>)],
      snap_status = [(''ready'', PList [PDict [(''id'', PStr ''B'')]]), (''active_claims'', PList [])],
      snap_tables = [(''tasks'', [demo_task ''A'' ''done'', demo_task ''B'' ''planned'', demo_task ''C'' ''planned'']),
        (''task_dependencies'', [[(''task_id'', PStr ''C''), (''prerequisite_task_id'', PStr ''B'')]])],
      snap_semantic = [], snap_workflow = [],
      snap_cuda = [(''facts'', PList
        [PDict [(''id'', PStr ''f1''), (''task_id'', PStr ''B''), (''source'', PDict [(''commit'', PStr ''c1'')])],
         PDict [(''id'', PStr ''f2''), (''task_id'', PStr ''B''), (''source'', PDict [(''commit'', PStr ''c0'')])]])]\<rparr>"

lemma demo_reconciled:
  "map_sum (\<lambda>_. ()) (\<lambda>r. (rp_semantic_available r, map fst (rp_tasks r), map (\<lambda>d. dget d ''id'') (rp_ready r),
       map (\<lambda>d. dget d ''id'') (rp_blocked r), map (\<lambda>d. dget d ''id'') (pf_current_evidence (rp_performance r))))
     (reconcile demo_show demo_project)
   = Inr (False, [''A'', ''B'', ''C''], [PStr ''B''], [PStr ''C''], [PStr ''f1''])"
  by code_simp

lemma demo_reconcile_result:
  "\<exists>r. reconcile demo_show demo_project = Inr r \<and> \<not> rp_semantic_available r \<and> map fst (rp_tasks r) = [''A'', ''B'', ''C''] \<and>
     map (\<lambda>d. dget d ''id'') (pf_current_evidence (rp_performance r)) = [PStr ''f1'']"
  using demo_reconciled by (cases "reconcile demo_show demo_project") auto

theorem fallback_classified_witness:
  "\<exists>r. reconcile demo_show demo_project = Inr r \<and> (\<exists>item raw. (''B'', item) \<in> set (rp_tasks r) \<and>
     raw \<in> set (table_rows demo_project ''tasks'') \<and> listed_by_rule demo_show demo_project r raw ''B'' item)"
proof -
  obtain r where r: "reconcile demo_show demo_project = Inr r" "\<not> rp_semantic_available r"
    and keys: "map fst (rp_tasks r) = [''A'', ''B'', ''C'']"
    using demo_reconcile_result by (elim exE conjE)
  from keys have "''B'' \<in> set (map fst (rp_tasks r))" by simp
  then obtain item where "(''B'', item) \<in> set (rp_tasks r)" by auto
  with fallback_classified [OF r] r(1) show ?thesis by fast
qed

theorem performance_evidence_sound_witness:
  "\<exists>(r :: reconciled_project) e. rc_performance demo_show demo_project (rp_tasks r) = Inr (rp_performance r) \<and>
     e \<in> set (pf_current_evidence (rp_performance r)) \<and> dget e ''id'' = PStr ''f1'' \<and>
     counts_as_current demo_project (rp_tasks r) e"
proof -
  obtain r where r: "reconcile demo_show demo_project = Inr r"
    and ev: "map (\<lambda>d. dget d ''id'') (pf_current_evidence (rp_performance r)) = [PStr ''f1'']"
    using demo_reconcile_result by (elim exE conjE)
  from ev obtain e where "e \<in> set (pf_current_evidence (rp_performance r))" "dget e ''id'' = PStr ''f1''" by auto
  with performance_evidence_sound [OF reconcile_lists(6) [OF r]] reconcile_lists(6) [OF r] show ?thesis by (intro exI [of _ r] exI [of _ e]) simp
qed

section \<open>Groups\<close>

definition demo_scopes :: project_snapshot where
  "demo_scopes = demo_project\<lparr>snap_tables :=
     [(''ownership_scopes'',
       [[(''task_id'', PStr ''T1''), (''mode'', PStr ''exclusive''), (''path'', PStr ''src/a'')],
        [(''task_id'', PStr ''T2''), (''mode'', PStr ''exclusive''), (''path'', PStr ''src/a/b/'')],
        [(''task_id'', PStr ''T3''), (''mode'', PStr ''exclusive''), (''path'', PStr ''src/ab'')]])]\<rparr>"

definition demo_ready :: "pdict list" where
  "demo_ready = [demo_task ''T1'' ''planned'', demo_task ''T2'' ''planned'', demo_task ''T3'' ''planned'']"

lemma demo_groups: "heuristic_groups demo_show demo_scopes demo_ready = [[''T1'', ''T3''], [''T2'']]"
  by code_simp

theorem parallel_groups_safe_witness:
  "heuristic_groups demo_show demo_scopes demo_ready = [[''T1'', ''T3''], [''T2'']] \<and>
   \<not> fr_conflict demo_show demo_scopes ''T1'' ''T3''"
proof -
  have "[''T1'', ''T3''] \<in> set (heuristic_groups demo_show demo_scopes demo_ready)" by (simp add: demo_groups)
  with parallel_groups_safe [of demo_show demo_scopes demo_ready]
  have "\<forall>i < length [''T1'', ''T3'']. \<forall>j < length [''T1'', ''T3'']. i \<noteq> j \<longrightarrow>
      \<not> fr_conflict demo_show demo_scopes ([''T1'', ''T3''] ! i) ([''T1'', ''T3''] ! j)" by blast
  from this [rule_format, of 0 1] show ?thesis by (simp add: demo_groups)
qed

section \<open>The critical path\<close>

definition demo_walk_of :: "(string \<times> string) list \<Rightarrow> project_snapshot" where
  "demo_walk_of deps = demo_project\<lparr>snap_tables :=
     [(''task_dependencies'', map (\<lambda>(a, b). [(''task_id'', PStr a), (''prerequisite_task_id'', PStr b)]) deps)]\<rparr>"

definition demo_frontier :: "string list \<Rightarrow> reconciled_project" where
  "demo_frontier ids =
     \<lparr>rp_tasks = map (\<lambda>k. (k, [(''id'', PStr k), (''frontier_eligible'', PBool True)])) ids, rp_checkpoints = [], rp_gates = [],
      rp_programs = [], rp_ready = [], rp_active = [], rp_blocked = [], rp_architectural_attention = [],
      rp_validation_attention = [], rp_completed = [],
      rp_performance = \<lparr>pf_campaigns = [], pf_current_evidence = [], pf_historical_evidence = [], pf_current_regressions = [],
        pf_historical_regressions = [], pf_current_improvements = [], pf_active_watches = []\<rparr>,
      rp_historical_counts = [], rp_contradictions = [], rp_warnings = [], rp_semantic_available = False\<rparr>"

lemma demo_walk_start:
  "critical_path demo_show id (demo_walk_of [(''B'', ''A'')]) (demo_frontier [''A'', ''B'']) =
     Inr (critical_walk [(''B'', ''A'')] [''A'', ''B''] ''B'' [''B''])"
  by (simp add: critical_path_def demo_walk_of_def demo_frontier_def demo_project_def fr_dependencies_def table_rows_def
      frontier_ids_def fr_target_def critical_key_def open_dependencies_def dependencies_of_def task_entry_def
      dget_def dget_or_def pv_or_def Let_def)

theorem critical_path_returns_witness:
  "\<exists>p. critical_path demo_show id (demo_walk_of [(''B'', ''A'')]) (demo_frontier [''A'', ''B'']) = Inr (Some p) \<and> distinct p"
proof -
  have deps: "fr_dependencies demo_show (demo_walk_of [(''B'', ''A'')]) = [(''B'', ''A'')]" by code_simp
  have "acyclic (set (fr_dependencies demo_show (demo_walk_of [(''B'', ''A'')])) \<inter>
      set (frontier_ids (demo_frontier [''A'', ''B''])) \<times> set (frontier_ids (demo_frontier [''A'', ''B''])))"
    unfolding deps by (rule acyclic_subset [of "{(''B'', ''A'')}"]) (auto simp: acyclic_insert acyclic_def [of "{}"])
  from critical_path_returns [OF _ demo_walk_start this] show ?thesis using demo_walk_start by auto
qed

text \<open>A remaining task that depends on itself: the frontier's loop does not end.\<close>

lemma self_dependency_loops: "critical_walk [(''A'', ''A'')] [''A''] ''A'' [''A''] = None"
proof -
  have "follows [(''A'', ''A'')] [''A''] = {(''A'', ''A'')}"
    by (auto simp: follows_def open_dependencies_def dependencies_of_def split: if_splits)
  then have "cyclic_from (follows [(''A'', ''A'')] [''A'']) ''A''" by (auto simp: cyclic_from_def)
  then show ?thesis
    using critical_walk_ends [of "[(''A'', ''A'')]" "[''A'']" "''A''" "[''A'']"]
      cyclic_from_reaches [of "''A''" _ "follows [(''A'', ''A'')] [''A'']"] follows_unique [of "[(''A'', ''A'')]" "[''A'']"]
    by (cases "critical_walk [(''A'', ''A'')] [''A''] ''A'' [''A'']") blast+
qed

end
