(* ===== verification/Graph.thy ===== *)
theory Graph
  imports Reconcile
begin

text \<open>
  The request-local project graph (\<^verbatim>\<open>src/src/project_control/graph.py\<close>, with \<^verbatim>\<open>workflow_view\<close> of
  \<^verbatim>\<open>src/src/project_control/workflow.py\<close> and \<^verbatim>\<open>relevance_priority\<close> of \<^verbatim>\<open>src/src/project_control/retrieval.py\<close>): its
  construction from a snapshot and its reconciliation, and the searches on it.  Dictionaries are association lists in
  insertion order.  How \<^verbatim>\<open>str\<close> writes a float or a container is \<open>sh\<close>, how \<^verbatim>\<open>json.loads\<close> reads text is
  \<open>loads\<close> (None when it raises \<^verbatim>\<open>JSONDecodeError\<close>).
\<close>

section \<open>Entities and edges\<close>

record entity =
  en_key :: string
  en_type :: string
  en_id :: string
  en_title :: pv
  en_aliases :: "string list"
  en_record :: pdict
  en_relevance :: pv

record graph_edge =
  ed_source :: string
  ed_target :: string
  ed_relation :: string
  ed_basis :: string
  ed_confidence :: string

record graph =
  g_entities :: "(string \<times> entity) list"
  g_edges :: "graph_edge list"
  g_adjacency :: "(string \<times> graph_edge list) list"

definition empty_graph :: graph where
  "empty_graph = \<lparr>g_entities = [], g_edges = [], g_adjacency = []\<rparr>"

definition entity_key :: "string \<Rightarrow> string \<Rightarrow> string" where
  "entity_key kind ident = kind @ '':'' @ ident"

definition NAME_FIELDS :: "string list" where
  "NAME_FIELDS = [''title'', ''name'', ''objective'', ''path'', ''symbol'', ''rule'', ''summary'']"

definition make_entity ::
  "(pv \<Rightarrow> string) \<Rightarrow> string \<Rightarrow> pv \<Rightarrow> pdict \<Rightarrow> string \<Rightarrow> string list \<Rightarrow> entity" where
  "make_entity sh kind ident rc title aliases =
     (let val = py_str sh ident;
          names = [val, title] @ aliases @ map (\<lambda>f. str_of (dget rc f)) (filter (\<lambda>f. is_str (dget rc f)) NAME_FIELDS) in
      \<lparr>en_key = entity_key kind val, en_type = kind, en_id = val,
       en_title = pv_or (pv_or (pv_or (PStr title) (dget rc ''title'')) (dget rc ''name'')) (PStr val),
       en_aliases = dedup (filter (\<lambda>n. n \<noteq> []) names), en_record = rc,
       en_relevance = pv_or (pv_or (dget rc ''relevance'') (dget rc ''current_relevance'')) (PStr ''unknown'')\<rparr>)"

definition put_entity :: "entity \<Rightarrow> graph \<Rightarrow> graph" where
  "put_entity en g = g\<lparr>g_entities := AList.update (en_key en) en (g_entities g)\<rparr>"

definition add_titled :: "(pv \<Rightarrow> string) \<Rightarrow> string \<Rightarrow> pv \<Rightarrow> pdict \<Rightarrow> string \<Rightarrow> graph \<Rightarrow> graph" where
  "add_titled sh kind ident rc title = put_entity (make_entity sh kind ident rc title [])"

definition add_entity :: "(pv \<Rightarrow> string) \<Rightarrow> string \<Rightarrow> pv \<Rightarrow> pdict \<Rightarrow> graph \<Rightarrow> graph" where
  "add_entity sh kind ident rc = add_titled sh kind ident rc []"

definition adjacent :: "graph \<Rightarrow> string \<Rightarrow> graph_edge list" where
  "adjacent g k = (case map_of (g_adjacency g) k of None \<Rightarrow> [] | Some es \<Rightarrow> es)"

definition push_edge :: "graph_edge \<Rightarrow> graph \<Rightarrow> graph" where
  "push_edge e g = g\<lparr>g_adjacency := AList.update (ed_source e) (adjacent g (ed_source e) @ [e]) (g_adjacency g)\<rparr>"

definition reverse_edge :: "graph_edge \<Rightarrow> graph_edge" where
  "reverse_edge e = e\<lparr>ed_source := ed_target e, ed_target := ed_source e, ed_relation := ''reverse:'' @ ed_relation e\<rparr>"

definition has_entity :: "graph \<Rightarrow> string \<Rightarrow> bool" where
  "has_entity g k \<longleftrightarrow> map_of (g_entities g) k \<noteq> None"

definition add_edge :: "string \<Rightarrow> string \<Rightarrow> string \<Rightarrow> string \<Rightarrow> graph \<Rightarrow> graph" where
  "add_edge source target relation basis g =
     (if \<not> has_entity g source \<or> \<not> has_entity g target then g
      else
        (let e = \<lparr>ed_source = source, ed_target = target, ed_relation = relation, ed_basis = basis, ed_confidence = ''high''\<rparr> in
         push_edge (reverse_edge e) (push_edge e (g\<lparr>g_edges := g_edges g @ [e]\<rparr>))))"

section \<open>Construction\<close>

text \<open>
  The loops of \<^verbatim>\<open>_build\<close>: over the dictionaries, or over the values, of a field that may hold anything.
\<close>

definition each_dict :: "pv \<Rightarrow> (pdict \<Rightarrow> graph \<Rightarrow> graph result) \<Rightarrow> graph \<Rightarrow> graph result" where
  "each_dict v f g = bindR (iter_of v) (\<lambda>xs. foldR (\<lambda>x g. bindR (as_dict x) (\<lambda>d. f d g)) xs g)"

definition each_value :: "pv \<Rightarrow> (pv \<Rightarrow> graph \<Rightarrow> graph) \<Rightarrow> graph \<Rightarrow> graph result" where
  "each_value v f g = bindR (iter_of v) (\<lambda>xs. Inr (fold f xs g))"

definition list_field :: "pdict \<Rightarrow> string \<Rightarrow> pv" where
  "list_field d k = dget_or d k (PList [])"

text \<open>An edge that is drawn when a field of the record is there.\<close>

definition edge_if :: "pv \<Rightarrow> string \<Rightarrow> string \<Rightarrow> string \<Rightarrow> string \<Rightarrow> graph \<Rightarrow> graph" where
  "edge_if v source target relation basis g = (if truthy v then add_edge source target relation basis g else g)"

definition ref_key :: "(pv \<Rightarrow> string) \<Rightarrow> string \<Rightarrow> pv \<Rightarrow> string" where
  "ref_key sh kind v = entity_key kind (py_str sh v)"

definition build_tasks :: "(pv \<Rightarrow> string) \<Rightarrow> reconciled_project \<Rightarrow> graph \<Rightarrow> graph" where
  "build_tasks sh r =
     fold (\<lambda>(task_id, item). add_titled sh ''task'' (PStr task_id) item (py_str sh (pv_or (dget item ''title'') (PStr task_id)))) (rp_tasks r)"

definition build_program :: "(pv \<Rightarrow> string) \<Rightarrow> pdict \<Rightarrow> graph \<Rightarrow> graph result" where
  "build_program sh item g =
     each_value (list_field item ''task_ids'')
       (\<lambda>t. add_edge (ref_key sh ''program'' (dget item ''id'')) (ref_key sh ''task'' t) ''contains'' ''todo program membership'')
       (add_entity sh ''program'' (dget item ''id'') item g)"

definition TABLE_TYPES :: "(string \<times> string) list" where
  "TABLE_TYPES =
     [(''interfaces'', ''interface''), (''decisions'', ''decision''), (''invariants'', ''invariant''), (''handoffs'', ''handoff''),
      (''child_executions'', ''child_execution''), (''evidence'', ''evidence'')]"

definition build_table :: "(pv \<Rightarrow> string) \<Rightarrow> project_snapshot \<Rightarrow> string \<times> string \<Rightarrow> graph \<Rightarrow> graph" where
  "build_table sh snap = (\<lambda>(table, kind).
     fold (\<lambda>(i, item). add_entity sh kind
         (pv_or (pv_or (pv_or (dget item ''id'') (dget item ''interface_id'')) (dget item ''decision_id''))
           (PStr (table @ ''-'' @ string_of_nat i))) item)
       (enumerate 0 (table_rows snap table)))"

definition build_records :: "(pv \<Rightarrow> string) \<Rightarrow> string \<Rightarrow> pdict list \<Rightarrow> graph \<Rightarrow> graph" where
  "build_records sh kind = fold (\<lambda>item. add_entity sh kind (dget item ''id'') item)"

definition reference_record :: "(string \<times> pv) list \<Rightarrow> pv \<Rightarrow> pdict" where
  "reference_record d relevance = d @ [(''relevance'', relevance)]"

definition build_artifact :: "(pv \<Rightarrow> string) \<Rightarrow> pdict \<Rightarrow> graph \<Rightarrow> graph" where
  "build_artifact sh item g =
     (let artifact_id = py_str sh (dget item ''task_id'') @ '':'' @ py_str sh (dget item ''path'');
          artifact = entity_key ''artifact'' artifact_id; path = ref_key sh ''path'' (dget item ''path'');
          g1 = add_titled sh ''artifact'' (PStr artifact_id) item (py_str sh (pv_or (dget item ''path'') (PStr artifact_id))) g;
          g2 = add_entity sh ''path'' (dget item ''path'') (reference_record [(''path'', dget item ''path'')] (PStr ''reference'')) g1;
          g3 = add_edge artifact path ''located_at'' ''registered todo artifact'' g2 in
      add_edge (ref_key sh ''task'' (dget item ''task_id'')) artifact ''produces'' ''registered todo artifact'' g3)"

definition build_scope :: "(pv \<Rightarrow> string) \<Rightarrow> pdict \<Rightarrow> graph \<Rightarrow> graph" where
  "build_scope sh item g =
     add_edge (ref_key sh ''task'' (dget item ''task_id'')) (ref_key sh ''path'' (dget item ''path''))
       (''scope:'' @ py_str sh (dget item ''mode'')) ''todo ownership scope''
       (add_entity sh ''path'' (dget item ''path'')
         (reference_record [(''path'', dget item ''path''), (''mode'', dget item ''mode'')] (PStr ''reference'')) g)"

definition build_parent :: "(pv \<Rightarrow> string) \<Rightarrow> string \<times> pdict \<Rightarrow> graph \<Rightarrow> graph" where
  "build_parent sh = (\<lambda>(task_id, item).
     edge_if (dget item ''parent_id'') (entity_key ''task'' task_id) (ref_key sh ''task'' (dget item ''parent_id'')) ''child_of'' ''todo parent_id'')"

definition GRAPH_DEPENDENCY_FIELDS :: "(string \<times> string) list" where
  "GRAPH_DEPENDENCY_FIELDS =
     [(''prerequisite_task_id'', ''task''), (''checkpoint_id'', ''checkpoint''), (''interface_id'', ''interface''), (''decision_id'', ''decision'')]"

definition build_dependency :: "(pv \<Rightarrow> string) \<Rightarrow> pdict \<Rightarrow> graph \<Rightarrow> graph" where
  "build_dependency sh item =
     fold (\<lambda>(field, kind). edge_if (dget item field) (ref_key sh ''task'' (dget item ''task_id'')) (ref_key sh kind (dget item field))
         ''depends_on'' (''todo task_dependencies.'' @ field)) GRAPH_DEPENDENCY_FIELDS"

definition contract_paths :: "(string \<Rightarrow> pv option) \<Rightarrow> pdict \<Rightarrow> pv list" where
  "contract_paths loads item =
     (let v = dget_or item ''contract_paths'' (dget_or item ''contract_paths_json'' (PList []));
          w = (case v of PStr s \<Rightarrow> (case loads s of None \<Rightarrow> PList [] | Some x \<Rightarrow> x) | _ \<Rightarrow> v) in
      case w of PList xs \<Rightarrow> xs | _ \<Rightarrow> [])"

definition build_interface :: "(pv \<Rightarrow> string) \<Rightarrow> (string \<Rightarrow> pv option) \<Rightarrow> pdict \<Rightarrow> graph \<Rightarrow> graph" where
  "build_interface sh loads item g =
     (let interface = ref_key sh ''interface'' (dget item ''id'') in
      fold (\<lambda>p g. add_edge interface (ref_key sh ''path'' p) ''contract_path'' ''todo interface contract''
             (add_entity sh ''path'' p (reference_record [(''path'', p)] (PStr ''reference'')) g))
        (contract_paths loads item)
        (add_edge (ref_key sh ''task'' (dget item ''owner_task_id'')) interface ''owns'' ''todo interface owner'' g))"

definition build_link :: "(pv \<Rightarrow> string) \<Rightarrow> string \<Rightarrow> string \<Rightarrow> string \<Rightarrow> string \<Rightarrow> pdict \<Rightarrow> graph \<Rightarrow> graph" where
  "build_link sh kind field relation basis item =
     add_edge (ref_key sh ''task'' (dget item ''task_id'')) (ref_key sh kind (dget item field)) relation basis"

definition build_gate :: "(pv \<Rightarrow> string) \<Rightarrow> pdict \<Rightarrow> graph \<Rightarrow> graph" where
  "build_gate sh item g =
     edge_if (dget item ''checkpoint_id'') (ref_key sh ''checkpoint'' (dget item ''checkpoint_id'')) (ref_key sh ''gate'' (dget item ''id''))
       ''validated_by'' ''todo checkpoint gate''
       (build_link sh ''gate'' ''id'' ''validated_by'' ''todo gate owner'' item g)"

definition build_workers :: "(pv \<Rightarrow> string) \<Rightarrow> string \<Rightarrow> graph \<Rightarrow> graph" where
  "build_workers sh kind g =
     fold (\<lambda>en. let task = pv_or (dget (en_record en) ''task_id'') (dget (en_record en) ''parent_task_id'') in
         edge_if task (ref_key sh ''task'' task) (en_key en) ''has_worker_result'' (''todo '' @ kind))
       (filter (\<lambda>en. en_type en = kind) (map snd (g_entities g))) g"

definition build_campaign :: "(pv \<Rightarrow> string) \<Rightarrow> pdict \<Rightarrow> graph \<Rightarrow> graph result" where
  "build_campaign sh item g =
     (let ident = pv_or (dget item ''id'') (dget item ''campaign_id''); k = ref_key sh ''cuda_campaign'' ident;
          record_of = (\<lambda>f v. reference_record [(f, v)] (dget item ''relevance'')) in
      bindR (each_value (list_field item ''task_ids'') (\<lambda>t. add_edge k (ref_key sh ''task'' t) ''linked_task'' ''CUDA campaign task_ids'')
               (add_entity sh ''cuda_campaign'' ident item g)) (\<lambda>g1.
      bindR (each_value (list_field item ''paths'')
               (\<lambda>p g. add_edge k (ref_key sh ''path'' p) ''measures_path'' ''CUDA campaign path'' (add_entity sh ''path'' p (record_of ''path'' p) g)) g1) (\<lambda>g2.
      each_value (list_field item ''symbols'')
               (\<lambda>s g. add_edge k (ref_key sh ''symbol'' s) ''measures_symbol'' ''CUDA campaign symbol'' (add_entity sh ''symbol'' s (record_of ''symbol'' s) g)) g2)))"

definition build_result :: "(pv \<Rightarrow> string) \<Rightarrow> pdict \<Rightarrow> graph \<Rightarrow> graph result" where
  "build_result sh item g =
     (let ident = pv_or (pv_or (dget item ''id'') (dget item ''fact_id'')) (dget item ''job_id''); k = ref_key sh ''cuda_result'' ident;
          g1 = edge_if (dget item ''campaign_id'') k (ref_key sh ''cuda_campaign'' (dget item ''campaign_id'')) ''result_of'' ''CUDA result campaign''
                 (add_entity sh ''cuda_result'' ident item g) in
      each_value (list_field item ''linked_task_ids'') (\<lambda>t. add_edge k (ref_key sh ''task'' t) ''linked_task'' ''CUDA result task'') g1)"

section \<open>The workflow\<close>

definition EMPTY_WORKFLOW_LISTS :: "string list" where
  "EMPTY_WORKFLOW_LISTS =
     [''runs'', ''first_class_agents'', ''local_children'', ''blocking_messages'', ''unresolved_questions'', ''rendezvous'',
      ''integration_queue'', ''recovery_needed'', ''safe_parallel_groups'']"

definition workflow_view :: "project_snapshot \<Rightarrow> pdict" where
  "workflow_view snap =
     (let v = snap_workflow snap in
      if dget v ''available'' = PBool True then v
      else [(''available'', PBool False), (''reason'', PStr ''todo_workflow_semantic_unavailable''), (''source_reason'', dget v ''reason''),
            (''revision'', dget v ''revision''), (''active_run_id'', PNone)] @ map (\<lambda>k. (k, PList [])) EMPTY_WORKFLOW_LISTS)"

definition WORKFLOW_BASIS :: string where
  "WORKFLOW_BASIS = ''todo semantic workflow''"

text \<open>An edge to, or from, what a field of the record names.\<close>

definition edge_to :: "(pv \<Rightarrow> string) \<Rightarrow> pdict \<Rightarrow> string \<Rightarrow> string \<Rightarrow> string \<Rightarrow> string \<Rightarrow> graph \<Rightarrow> graph" where
  "edge_to sh item field source kind relation =
     edge_if (dget item field) source (ref_key sh kind (dget item field)) relation WORKFLOW_BASIS"

definition edge_from :: "(pv \<Rightarrow> string) \<Rightarrow> pdict \<Rightarrow> string \<Rightarrow> string \<Rightarrow> string \<Rightarrow> string \<Rightarrow> graph \<Rightarrow> graph" where
  "edge_from sh item field kind target relation =
     edge_if (dget item field) (ref_key sh kind (dget item field)) target relation WORKFLOW_BASIS"

definition declare_run :: "(pv \<Rightarrow> string) \<Rightarrow> pdict \<Rightarrow> graph \<Rightarrow> graph result" where
  "declare_run sh run g =
     each_dict (list_field run ''lanes'')
       (\<lambda>lane g. Inr (add_titled sh ''lane'' (dget lane ''id'') lane
          (py_str sh (dget lane ''role'') @ '' lane '' @ py_str sh (dget lane ''id'')) g))
       (add_titled sh ''run'' (dget run ''id'') run (''Run '' @ py_str sh (dget run ''id'')) g)"

definition relate_dispatch :: "(pv \<Rightarrow> string) \<Rightarrow> string \<Rightarrow> pdict \<Rightarrow> graph \<Rightarrow> graph" where
  "relate_dispatch sh lane_key lane =
     (case dget lane ''dispatch'' of
        PDict dispatch \<Rightarrow> \<lambda>g.
          if truthy (dget dispatch ''dispatch_id'') then
            (let dispatch_key = ref_key sh ''workflow_dispatch'' (dget dispatch ''dispatch_id'') in
             edge_to sh dispatch ''task_id'' dispatch_key ''task'' ''owns_claim_for''
               (add_edge lane_key dispatch_key ''dispatches'' WORKFLOW_BASIS
                 (add_entity sh ''workflow_dispatch'' (dget dispatch ''dispatch_id'') dispatch g)))
          else g
      | _ \<Rightarrow> \<lambda>g. g)"

definition relate_workspace :: "(pv \<Rightarrow> string) \<Rightarrow> string \<Rightarrow> pdict \<Rightarrow> graph \<Rightarrow> graph" where
  "relate_workspace sh lane_key lane =
     (case dget lane ''workspace'' of
        PDict workspace \<Rightarrow> \<lambda>g.
          if truthy (dget workspace ''id'') then
            add_edge lane_key (ref_key sh ''workspace'' (dget workspace ''id'')) ''uses_workspace'' WORKFLOW_BASIS
              (add_entity sh ''workspace'' (dget workspace ''id'') workspace g)
          else g
      | _ \<Rightarrow> \<lambda>g. g)"

definition relate_lane :: "(pv \<Rightarrow> string) \<Rightarrow> string \<Rightarrow> pdict \<Rightarrow> graph \<Rightarrow> graph result" where
  "relate_lane sh run_key lane g =
     (let lane_key = ref_key sh ''lane'' (dget lane ''id'');
          g1 = edge_to sh lane ''parent_lane_id'' lane_key ''lane'' ''child_lane'' (add_edge run_key lane_key ''contains_lane'' WORKFLOW_BASIS g) in
      bindR (each_dict (list_field lane ''queue'') (\<lambda>queued g. Inr (edge_to sh queued ''task_id'' lane_key ''task'' ''queues'' g)) g1) (\<lambda>g2.
      Inr (relate_workspace sh lane_key lane (relate_dispatch sh lane_key lane g2))))"

definition relate_run :: "(pv \<Rightarrow> string) \<Rightarrow> pdict \<Rightarrow> graph \<Rightarrow> graph result" where
  "relate_run sh run g =
     (let run_key = ref_key sh ''run'' (dget run ''id'') in
      each_dict (list_field run ''lanes'') (relate_lane sh run_key) (edge_to sh run ''root_task_id'' run_key ''task'' ''root_task'' g))"

definition build_message :: "(pv \<Rightarrow> string) \<Rightarrow> pdict \<Rightarrow> graph \<Rightarrow> graph result" where
  "build_message sh item g =
     (let k = ref_key sh ''run_message'' (dget item ''id'') in
      Inr (edge_to sh item ''task_id'' k ''task'' ''blocks''
            (edge_from sh item ''author_lane_id'' ''lane'' k ''authored_message'' (add_entity sh ''run_message'' (dget item ''id'') item g))))"

definition build_rendezvous :: "(pv \<Rightarrow> string) \<Rightarrow> pdict \<Rightarrow> graph \<Rightarrow> graph result" where
  "build_rendezvous sh item g =
     (let k = ref_key sh ''rendezvous'' (dget item ''id'') in
      Inr (edge_to sh item ''join_task_id'' k ''task'' ''opens_join_task''
            (edge_from sh item ''run_id'' ''run'' k ''has_rendezvous'' (add_entity sh ''rendezvous'' (dget item ''id'') item g))))"

definition build_integration :: "(pv \<Rightarrow> string) \<Rightarrow> pdict \<Rightarrow> graph \<Rightarrow> graph result" where
  "build_integration sh item g =
     (let k = ref_key sh ''integration'' (dget item ''id'') in
      Inr (edge_from sh item ''integrator_lane_id'' ''lane'' k ''owns_integration''
            (edge_to sh item ''integration_task_id'' k ''task'' ''integrates_into'' (add_entity sh ''integration'' (dget item ''id'') item g))))"

definition build_patch :: "(pv \<Rightarrow> string) \<Rightarrow> pdict \<Rightarrow> graph \<Rightarrow> graph result" where
  "build_patch sh item g =
     (let k = ref_key sh ''patch_artifact'' (dget item ''id'') in
      Inr (edge_from sh item ''workspace_id'' ''workspace'' k ''contains_patch''
            (edge_from sh item ''task_id'' ''task'' k ''produces_patch''
              (edge_from sh item ''lane_id'' ''lane'' k ''produces_patch'' (add_entity sh ''patch_artifact'' (dget item ''id'') item g)))))"

definition build_child :: "(pv \<Rightarrow> string) \<Rightarrow> pdict \<Rightarrow> graph \<Rightarrow> graph result" where
  "build_child sh item g =
     (let k = ref_key sh ''local_child'' (dget item ''child_execution_id'') in
      Inr (edge_from sh item ''parent_lane_id'' ''lane'' k ''owns_subordinate_child''
            (edge_from sh item ''parent_task_id'' ''task'' k ''has_subordinate_child''
              (add_entity sh ''local_child'' (dget item ''child_execution_id'') item g))))"

definition build_workflow_records :: "(pv \<Rightarrow> string) \<Rightarrow> pdict \<Rightarrow> graph \<Rightarrow> graph result" where
  "build_workflow_records sh view g =
     bindR (each_dict (list_field view ''blocking_messages'') (build_message sh) g) (\<lambda>g1.
     bindR (each_dict (list_field view ''rendezvous'') (build_rendezvous sh) g1) (\<lambda>g2.
     bindR (each_dict (list_field view ''integration_queue'') (build_integration sh) g2) (\<lambda>g3.
     bindR (each_dict (list_field view ''patch_artifacts'') (build_patch sh) g3) (\<lambda>g4.
     each_dict (list_field view ''local_children'') (build_child sh) g4))))"

definition build_workflow :: "(pv \<Rightarrow> string) \<Rightarrow> pdict \<Rightarrow> graph \<Rightarrow> graph result" where
  "build_workflow sh view g =
     (if \<not> truthy (dget view ''available'') then Inr g
      else
        bindR (each_dict (list_field view ''runs'') (declare_run sh) g) (\<lambda>g1.
        bindR (each_dict (list_field view ''runs'') (relate_run sh) g1) (\<lambda>g2.
        build_workflow_records sh view g2)))"

definition build_commit :: "(pv \<Rightarrow> string) \<Rightarrow> string \<times> repository_identity \<Rightarrow> graph \<Rightarrow> graph" where
  "build_commit sh = (\<lambda>(alias, ident).
     add_entity sh ''git_commit'' (PStr (alias @ '':'' @ ri_commit ident))
       [(''repository'', PStr alias), (''commit'', PStr (ri_commit ident)), (''dirty'', PBool (ri_dirty ident)),
        (''working_tree_fingerprint'', case ri_fingerprint ident of None \<Rightarrow> PNone | Some f \<Rightarrow> PStr f), (''relevance'', PStr ''current'')])"

text \<open>\<^verbatim>\<open>_build\<close>: first what declares entities, then the relations of the tables.\<close>

definition build_tables :: "(pv \<Rightarrow> string) \<Rightarrow> (string \<Rightarrow> pv option) \<Rightarrow> project_snapshot \<Rightarrow> reconciled_project \<Rightarrow> graph \<Rightarrow> graph" where
  "build_tables sh loads snap r g =
     (let g1 = fold (build_table sh snap) TABLE_TYPES g;
          g2 = build_records sh ''gate'' (rp_gates r) (build_records sh ''checkpoint'' (rp_checkpoints r) g1);
          g3 = fold (build_scope sh) (table_rows snap ''ownership_scopes'') (fold (build_artifact sh) (table_rows snap ''task_artifacts'') g2);
          g4 = fold (build_dependency sh) (table_rows snap ''task_dependencies'') (fold (build_parent sh) (rp_tasks r) g3);
          g5 = fold (build_interface sh loads) (table_rows snap ''interfaces'') g4;
          g6 = fold (build_link sh ''interface'' ''interface_id'' ''consumes'' ''todo interface consumer'') (table_rows snap ''interface_consumers'') g5;
          g7 = fold (build_link sh ''checkpoint'' ''id'' ''reaches'' ''todo checkpoint owner'') (rp_checkpoints r) g6;
          g8 = fold (build_gate sh) (rp_gates r) g7;
          g9 = fold (build_link sh ''invariant'' ''invariant_id'' ''constrained_by'' ''todo task invariant'') (table_rows snap ''task_invariants'') g8 in
      build_workers sh ''child_execution'' (build_workers sh ''handoff'' g9))"

definition build_graph :: "(pv \<Rightarrow> string) \<Rightarrow> (string \<Rightarrow> pv option) \<Rightarrow> project_snapshot \<Rightarrow> reconciled_project \<Rightarrow> graph result" where
  "build_graph sh loads snap r =
     bindR (each_dict (PList (rp_programs r)) (build_program sh) (build_tasks sh r empty_graph)) (\<lambda>g1.
     bindR (foldR (build_campaign sh) (pf_campaigns (rp_performance r)) (build_tables sh loads snap r g1)) (\<lambda>g2.
     bindR (foldR (build_result sh) (pf_current_evidence (rp_performance r) @ pf_historical_evidence (rp_performance r)) g2) (\<lambda>g3.
     bindR (build_workflow sh (workflow_view snap) g3) (\<lambda>g4.
     Inr (fold (build_commit sh) (snap_repositories snap) g4)))))"

end
