(* ===== verification/GraphSearch.thy ===== *)
theory GraphSearch
  imports Graph
begin

text \<open>
  The searches on a project graph: the resolution of a subject, the seeds of a question, and what is related to an
  entity within a number of hops (\<^verbatim>\<open>resolve\<close>, \<^verbatim>\<open>seed_candidates\<close>, \<^verbatim>\<open>expand_seeds\<close> and
  \<^verbatim>\<open>related\<close> of \<^verbatim>\<open>src/src/project_control/graph.py\<close>).  Scores are real numbers and \<^verbatim>\<open>round\<close> is the
  argument \<open>rnd\<close>; text is ASCII, where \<^verbatim>\<open>casefold\<close> is \<^verbatim>\<open>lower\<close>.
\<close>

section \<open>Names\<close>

definition is_token_char :: "char \<Rightarrow> bool" where
  "is_token_char c \<longleftrightarrow> is_lower c \<or> is_digit c"

function token_runs :: "string \<Rightarrow> string list" where
  "token_runs s =
     (case dropWhile (\<lambda>c. \<not> is_token_char c) s of
        [] \<Rightarrow> []
      | c # t \<Rightarrow> takeWhile is_token_char (c # t) # token_runs (dropWhile is_token_char t))"
  by pat_completeness auto

termination
proof (relation "measure length", simp_all)
  fix s :: string and c t assume "dropWhile (\<lambda>c. \<not> is_token_char c) s = c # t"
  then have "length (c # t) \<le> length s" by (metis length_dropWhile_le)
  then show "length (dropWhile is_token_char t) < length s"
    using length_dropWhile_le [of is_token_char t] by (simp del: length_dropWhile_le)
qed

declare token_runs.simps [simp del]

definition normalize_name :: "string \<Rightarrow> string" where
  "normalize_name s = join '' '' (token_runs (lower s))"

definition STOP_WORDS :: "string list" where
  "STOP_WORDS =
     [''a'', ''an'', ''and'', ''architecture'', ''current'', ''for'', ''from'', ''in'', ''of'', ''on'', ''performance'', ''project'',
      ''relevant'', ''the'', ''to'', ''work'']"

definition name_tokens :: "string \<Rightarrow> string set" where
  "name_tokens s = set (filter (\<lambda>w. w \<notin> set STOP_WORDS) (words (normalize_name s)))"

definition entity_tokens :: "entity \<Rightarrow> string set" where
  "entity_tokens en = \<Union> (set (map name_tokens (en_aliases en)))"

section \<open>Resolution\<close>

record candidate =
  ca_type :: string
  ca_id :: string
  ca_title :: pv
  ca_score :: real

record resolution =
  rs_status :: string
  rs_entity :: "entity option"
  rs_reason :: string
  rs_candidates :: "candidate list"

definition candidate_of :: "(real \<Rightarrow> nat \<Rightarrow> real) \<Rightarrow> real \<Rightarrow> entity \<Rightarrow> candidate" where
  "candidate_of rnd score en = \<lparr>ca_type = en_type en, ca_id = en_id en, ca_title = en_title en, ca_score = rnd score 3\<rparr>"

text \<open>The pool: every entity, or those of the expected types when some are named.\<close>

definition pool_of :: "graph \<Rightarrow> string list \<Rightarrow> entity list" where
  "pool_of g expected = filter (\<lambda>en. expected = [] \<or> en_type en \<in> set expected) (map snd (g_entities g))"

definition overlap_score :: "string set \<Rightarrow> entity \<Rightarrow> (real \<times> entity) list" where
  "overlap_score wanted en =
     (let mine = entity_tokens en; common = wanted \<inter> mine;
          score = real (card common) / real (min (card wanted) (card mine)) + (if en_type en = ''program'' then 8 / 100 else 0) in
      if wanted = {} \<or> mine = {} \<or> common = {} then []
      else if score \<ge> 1 / 2 \<or> card common \<ge> 2 then [(score, en)] else [])"

definition scored_of :: "string \<Rightarrow> entity list \<Rightarrow> (real \<times> entity) list" where
  "scored_of subject pool =
     sort_key (\<lambda>p. (- fst p, en_type (snd p), en_id (snd p))) (concat (map (overlap_score (name_tokens subject)) pool))"

definition resolved_to :: "entity \<Rightarrow> string \<Rightarrow> candidate list \<Rightarrow> resolution" where
  "resolved_to en reason cs = \<lparr>rs_status = ''resolved'', rs_entity = Some en, rs_reason = reason, rs_candidates = cs\<rparr>"

definition unresolved :: "string \<Rightarrow> string \<Rightarrow> candidate list \<Rightarrow> resolution" where
  "unresolved status reason cs = \<lparr>rs_status = status, rs_entity = None, rs_reason = reason, rs_candidates = cs\<rparr>"

definition resolve_lexical :: "(real \<Rightarrow> nat \<Rightarrow> real) \<Rightarrow> string \<Rightarrow> entity list \<Rightarrow> resolution" where
  "resolve_lexical rnd subject pool =
     (case scored_of subject pool of
        [] \<Rightarrow> unresolved ''not_found'' ''no_deterministic_subject_match'' []
      | (best, en) # rest \<Rightarrow>
          (let scored = (best, en) # rest; leaders = filter (\<lambda>p. \<bar>fst p - best\<bar> < 1 / 10 ^ 9) scored;
               candidates = map (\<lambda>p. candidate_of rnd (fst p) (snd p)) (take 10 scored) in
           if length leaders \<noteq> 1 then unresolved ''ambiguous'' ''equal_bounded_token_overlap'' candidates
           else resolved_to en ''bounded_normalized_token_overlap'' (tl candidates)))"

definition resolve_subject :: "(real \<Rightarrow> nat \<Rightarrow> real) \<Rightarrow> graph \<Rightarrow> string \<Rightarrow> string list \<Rightarrow> resolution" where
  "resolve_subject rnd g subject expected =
     (let pool = pool_of g expected; wanted = normalize_name subject;
          exact_id = filter (\<lambda>en. normalize_name (en_id en) = wanted) pool;
          exact_name = filter (\<lambda>en. list_ex (\<lambda>a. normalize_name a = wanted) (en_aliases en)) pool in
      if length exact_id = 1 then resolved_to (hd exact_id) ''exact_entity_id'' []
      else if length exact_name = 1 then resolved_to (hd exact_name) ''exact_normalized_name'' []
      else if length exact_id > 1 \<or> length exact_name > 1 then
        unresolved ''ambiguous'' ''multiple_exact_matches''
          (map (candidate_of rnd 1) (take 10 (if exact_id \<noteq> [] then exact_id else exact_name)))
      else resolve_lexical rnd subject pool)"

section \<open>Seeds\<close>

definition STALE_STATES :: "string list" where
  "STALE_STATES = [''superseded'', ''canceled'', ''cancelled'', ''abandoned'', ''invalidated'', ''historical_stale'']"

definition relevance_priority :: "(pv \<Rightarrow> string) \<Rightarrow> pdict \<Rightarrow> int" where
  "relevance_priority sh rc =
     (let relevance = relevance_text sh rc;
          state = py_str sh (pv_or (pv_or (pv_or (dget rc ''effective_state'') (dget rc ''state'')) (dget rc ''status'')) (PStr [])) in
      if relevance \<in> {''historical'', ''superseded''} \<or> state \<in> set STALE_STATES then 3
      else if relevance \<in> {''current'', ''current_attention''} \<and> \<not> truthy (dget rc ''terminal'') then 0
      else if relevance = ''reference'' then 1 else 2)"

definition THEME_BY_TYPE :: "(string \<times> string) list" where
  "THEME_BY_TYPE =
     [(''run'', ''workflow''), (''lane'', ''workflow''), (''workflow_dispatch'', ''workflow''), (''run_message'', ''workflow''),
      (''rendezvous'', ''workflow''), (''workspace'', ''workflow''), (''patch_artifact'', ''workflow''), (''integration'', ''workflow''),
      (''local_child'', ''workflow''), (''task'', ''planning''), (''program'', ''planning''), (''checkpoint'', ''validation''),
      (''gate'', ''validation''), (''interface'', ''architecture''), (''decision'', ''architecture''), (''invariant'', ''architecture''),
      (''path'', ''source''), (''symbol'', ''source''), (''git_commit'', ''source''), (''artifact'', ''source''),
      (''cuda_campaign'', ''performance''), (''cuda_result'', ''performance''), (''evidence'', ''evidence'')]"

definition theme_of :: "string \<Rightarrow> string" where
  "theme_of kind = (case map_of THEME_BY_TYPE kind of None \<Rightarrow> ''other'' | Some t \<Rightarrow> t)"

record seed =
  sd_type :: string
  sd_id :: string
  sd_title :: pv
  sd_key :: string
  sd_theme :: string
  sd_exact :: bool
  sd_coverage :: real
  sd_terms :: "string list"
  sd_relevance :: pv
  sd_record :: pdict

type_synonym seed_rank = "int \<times> int \<times> int \<times> real \<times> real \<times> string \<times> string"

definition AUTHORITY_KINDS :: "string list" where
  "AUTHORITY_KINDS = [''interface'', ''decision'', ''invariant'', ''path'', ''symbol'', ''git_commit'']"

definition rank_seed ::
  "(pv \<Rightarrow> string) \<Rightarrow> (real \<Rightarrow> nat \<Rightarrow> real) \<Rightarrow> string \<Rightarrow> entity \<Rightarrow> (seed_rank \<times> seed) list" where
  "rank_seed sh rnd question en =
     (let wanted = normalize_name question; wanted_tokens = name_tokens question; mine = entity_tokens en;
          exact = (normalize_name (en_id en) = wanted \<or> wanted \<in> set (map normalize_name (en_aliases en)));
          common = wanted_tokens \<inter> mine;
          coverage = (if wanted_tokens = {} then 0 else real (card common) / real (card wanted_tokens));
          precision = (if mine = {} then 0 else real (card common) / real (card mine)) in
      if \<not> exact \<and> common = {} then []
      else
        [((if exact then - 1 else 0, relevance_priority sh (en_record en), if en_type en \<in> set AUTHORITY_KINDS then 0 else 1,
           - coverage, - precision, en_type en, en_id en),
          \<lparr>sd_type = en_type en, sd_id = en_id en, sd_title = en_title en, sd_key = en_key en, sd_theme = theme_of (en_type en),
           sd_exact = exact, sd_coverage = rnd coverage 4, sd_terms = sorted_list_of_set common, sd_relevance = en_relevance en,
           sd_record = en_record en\<rparr>)])"

definition ranked_seeds ::
  "(pv \<Rightarrow> string) \<Rightarrow> (real \<Rightarrow> nat \<Rightarrow> real) \<Rightarrow> graph \<Rightarrow> string \<Rightarrow> string list \<Rightarrow> seed list" where
  "ranked_seeds sh rnd g question expected =
     map snd (sort_key fst (concat (map (rank_seed sh rnd question) (pool_of g expected))))"

text \<open>The first loop keeps the best seed of every theme, the second fills up; both stop at \<^verbatim>\<open>max_items\<close>.\<close>

fun pick_themes :: "int \<Rightarrow> seed list \<Rightarrow> seed list \<Rightarrow> seed list \<times> bool" where
  "pick_themes n [] selected = (selected, False)"
| "pick_themes n (c # cs) selected =
     (if sd_theme c \<in> sd_theme ` set selected then pick_themes n cs selected
      else if int (length (selected @ [c])) \<ge> n then (selected @ [c], True)
      else pick_themes n cs (selected @ [c]))"

fun fill_seeds :: "int \<Rightarrow> seed list \<Rightarrow> seed list \<Rightarrow> seed list" where
  "fill_seeds n [] selected = selected"
| "fill_seeds n (c # cs) selected =
     (if sd_key c \<in> sd_key ` set selected then fill_seeds n cs selected
      else if int (length (selected @ [c])) \<ge> n then selected @ [c]
      else fill_seeds n cs (selected @ [c]))"

definition seed_candidates ::
  "(pv \<Rightarrow> string) \<Rightarrow> (real \<Rightarrow> nat \<Rightarrow> real) \<Rightarrow> graph \<Rightarrow> string \<Rightarrow> string list \<Rightarrow> int \<Rightarrow> seed list" where
  "seed_candidates sh rnd g question expected max_items =
     (let ranked = ranked_seeds sh rnd g question expected in
      case pick_themes max_items ranked [] of (selected, full) \<Rightarrow> if full then selected else fill_seeds max_items ranked selected)"

section \<open>Related entities\<close>

text \<open>\<open>rel_key\<close> is the key of the entity, which the answer gives as its type and identifier.\<close>

record related_item =
  rel_key :: string
  rel_type :: string
  rel_id :: string
  rel_title :: pv
  rel_relevance :: pv
  rel_relation :: string
  rel_basis :: string
  rel_confidence :: string
  rel_record :: pdict

definition related_of :: "graph_edge \<Rightarrow> entity \<Rightarrow> related_item" where
  "related_of e en =
     \<lparr>rel_key = ed_target e, rel_type = en_type en, rel_id = en_id en, rel_title = en_title en, rel_relevance = en_relevance en,
      rel_relation = ed_relation e, rel_basis = ed_basis e, rel_confidence = ed_confidence e, rel_record = en_record en\<rparr>"

text \<open>The state of the search: queue, seen and result.\<close>

type_synonym search = "(string \<times> nat) list \<times> string list \<times> related_item list"

fun visit_edges :: "graph \<Rightarrow> int \<Rightarrow> nat \<Rightarrow> graph_edge list \<Rightarrow> search \<Rightarrow> search result" where
  "visit_edges g max_items depth [] st = Inr st"
| "visit_edges g max_items depth (e # es) (queue, seen, res) =
     (if ed_target e \<in> set seen then visit_edges g max_items depth es (queue, seen, res)
      else case map_of (g_entities g) (ed_target e) of
        None \<Rightarrow> Inl (KeyError (ed_target e))
      | Some en \<Rightarrow>
          (let st' = (queue @ [(ed_target e, Suc depth)], ed_target e # seen, res @ [related_of e en]) in
           if int (length (res @ [related_of e en])) \<ge> max_items then Inr st' else visit_edges g max_items depth es st'))"

definition sorted_edges :: "graph \<Rightarrow> string \<Rightarrow> graph_edge list" where
  "sorted_edges g k = sort_key (\<lambda>e. (ed_relation e, ed_target e)) (adjacent g k)"

text \<open>What one visit adds: new entities, each once, at the next depth.\<close>

lemma visit_edges_adds:
  "visit_edges g n d es (queue, seen, res) = Inr (queue', seen', res') \<Longrightarrow>
   \<exists>ts. queue' = queue @ map (\<lambda>t. (t, Suc d)) ts \<and> set seen' = set seen \<union> set ts \<and> distinct ts \<and>
     set ts \<inter> set seen = {} \<and> set ts \<subseteq> fst ` set (g_entities g) \<and> set ts \<subseteq> ed_target ` set es \<and>
     map rel_key res' = map rel_key res @ ts"
proof (induction es arbitrary: queue seen res)
  case Nil
  then show ?case by (intro exI [of _ "[]"]) auto
next
  case (Cons e es)
  let ?t = "ed_target e"
  show ?case
  proof (cases "?t \<in> set seen")
    case True
    with Cons.prems have "visit_edges g n d es (queue, seen, res) = Inr (queue', seen', res')" by simp
    from Cons.IH [OF this] show ?thesis by (elim exE) (rule exI, auto)
  next
    case False
    with Cons.prems obtain en where en: "map_of (g_entities g) ?t = Some en" by (auto split: option.splits)
    let ?st = "(queue @ [(?t, Suc d)], ?t # seen, res @ [related_of e en])"
    have t: "?t \<in> fst ` set (g_entities g)" using en by (metis map_of_eq_None_iff option.distinct(1))
    show ?thesis
    proof (cases "int (length (res @ [related_of e en])) \<ge> n")
      case True
      with Cons.prems False en t show ?thesis by (intro exI [of _ "[?t]"]) (auto simp: Let_def related_of_def)
    next
      case cont: False
      with Cons.prems False en have "visit_edges g n d es ?st = Inr (queue', seen', res')" by (simp add: Let_def)
      from Cons.IH [OF this] obtain ts where "queue' = (queue @ [(?t, Suc d)]) @ map (\<lambda>t. (t, Suc d)) ts"
        "set seen' = set (?t # seen) \<union> set ts" "distinct ts" "set ts \<inter> set (?t # seen) = {}"
        "set ts \<subseteq> fst ` set (g_entities g)" "set ts \<subseteq> ed_target ` set es"
        "map rel_key res' = map rel_key (res @ [related_of e en]) @ ts" by blast
      with False t show ?thesis by (intro exI [of _ "?t # ts"]) (auto simp: related_of_def)
    qed
  qed
qed

definition unseen_count :: "graph \<Rightarrow> string list \<Rightarrow> nat" where
  "unseen_count g seen = card (fst ` set (g_entities g) - set seen)"

lemma visit_edges_measure:
  assumes "visit_edges g n d es (queue, seen, res) = Inr (queue', seen', res')"
  shows "length queue' + unseen_count g seen' = length queue + unseen_count g seen"
proof -
  obtain ts where ts: "queue' = queue @ map (\<lambda>t. (t, Suc d)) ts" "set seen' = set seen \<union> set ts" "distinct ts"
    "set ts \<inter> set seen = {}" "set ts \<subseteq> fst ` set (g_entities g)"
    using visit_edges_adds [OF assms] by blast
  have "fst ` set (g_entities g) - set seen = (fst ` set (g_entities g) - set seen') \<union> set ts" using ts by blast
  moreover have "(fst ` set (g_entities g) - set seen') \<inter> set ts = {}" using ts(2) by blast
  ultimately have "unseen_count g seen = unseen_count g seen' + length ts"
    unfolding unseen_count_def using distinct_card [OF ts(3)] by (metis card_Un_disjoint finite_Diff finite_imageI finite_set)
  then show ?thesis by (simp add: ts(1))
qed

function search_related :: "graph \<Rightarrow> int \<Rightarrow> int \<Rightarrow> (string \<times> nat) list \<Rightarrow> string list \<Rightarrow> related_item list \<Rightarrow> related_item list result" where
  "search_related g max_hops max_items [] seen res = Inr res"
| "search_related g max_hops max_items ((current, depth) # queue) seen res =
     (if \<not> int (length res) < max_items then Inr res
      else if int depth \<ge> max_hops then search_related g max_hops max_items queue seen res
      else case visit_edges g max_items depth (sorted_edges g current) (queue, seen, res) of
        Inl e \<Rightarrow> Inl e
      | Inr (queue', seen', res') \<Rightarrow> search_related g max_hops max_items queue' seen' res')"
  by pat_completeness auto

termination
  by (relation "measure (\<lambda>(g, max_hops, max_items, queue, seen, res). length queue + unseen_count g seen)")
    (auto dest!: visit_edges_measure)

definition related :: "graph \<Rightarrow> string \<Rightarrow> int \<Rightarrow> int \<Rightarrow> related_item list result" where
  "related g k max_hops max_items = search_related g max_hops max_items [(k, 0)] [k] []"

section \<open>Expansion\<close>

fun expand_related :: "int \<Rightarrow> seed \<Rightarrow> related_item list \<Rightarrow> (seed \<times> related_item) list \<Rightarrow> (seed \<times> related_item) list \<times> bool" where
  "expand_related n s [] acc = (acc, False)"
| "expand_related n s (x # xs) acc =
     (if (sd_key s, rel_type x, rel_id x) \<in> (\<lambda>(s, x). (sd_key s, rel_type x, rel_id x)) ` set acc then expand_related n s xs acc
      else if int (length (acc @ [(s, x)])) \<ge> n then (acc @ [(s, x)], True)
      else expand_related n s xs (acc @ [(s, x)]))"

fun expand_seeds :: "graph \<Rightarrow> int \<Rightarrow> seed list \<Rightarrow> (seed \<times> related_item) list \<Rightarrow> (seed \<times> related_item) list result" where
  "expand_seeds g n [] acc = Inr acc"
| "expand_seeds g n (s # ss) acc =
     bindR (related g (sd_key s) 1 n) (\<lambda>xs.
     case expand_related n s xs acc of (acc', full) \<Rightarrow> if full then Inr acc' else expand_seeds g n ss acc')"

end
