(* ===== verification/GraphInv.thy ===== *)
theory GraphInv
  imports GraphSearch
begin

text \<open>
  The invariant of the project graph and that its construction keeps it and only adds: every entity is filed under its
  own key, every edge joins two entities, and the adjacency lists hold exactly the edges and their reverses.
\<close>

section \<open>The invariant\<close>

definition graph_ok :: "graph \<Rightarrow> bool" where
  "graph_ok g \<longleftrightarrow>
     distinct (map fst (g_entities g)) \<and>
     (\<forall>(k, en) \<in> set (g_entities g). en_key en = k \<and> k = entity_key (en_type en) (en_id en)) \<and>
     (\<forall>e \<in> set (g_edges g). has_entity g (ed_source e) \<and> has_entity g (ed_target e) \<and>
        e \<in> set (adjacent g (ed_source e)) \<and> reverse_edge e \<in> set (adjacent g (ed_target e))) \<and>
     (\<forall>k. \<forall>e \<in> set (adjacent g k). ed_source e = k \<and> (e \<in> set (g_edges g) \<or> e \<in> reverse_edge ` set (g_edges g)))"

text \<open>What construction never takes back.\<close>

definition grows :: "graph \<Rightarrow> graph \<Rightarrow> bool" where
  "grows g g' \<longleftrightarrow> (\<forall>k. has_entity g k \<longrightarrow> has_entity g' k) \<and> set (g_edges g) \<subseteq> set (g_edges g')"

definition keeps :: "(graph \<Rightarrow> graph) \<Rightarrow> bool" where
  "keeps f \<longleftrightarrow> (\<forall>g. grows g (f g) \<and> (graph_ok g \<longrightarrow> graph_ok (f g)))"

definition keepsR :: "(graph \<Rightarrow> graph result) \<Rightarrow> bool" where
  "keepsR f \<longleftrightarrow> (\<forall>g g'. f g = Inr g' \<longrightarrow> grows g g' \<and> (graph_ok g \<longrightarrow> graph_ok g'))"

named_theorems keeps_intros \<open>how the steps of the construction keep the graph\<close>

lemma grows_refl [simp]: "grows g g"
  by (simp add: grows_def)

lemma grows_trans [trans]: "grows a b \<Longrightarrow> grows b c \<Longrightarrow> grows a c"
  by (auto simp: grows_def)

lemma keepsD: "keeps f \<Longrightarrow> grows g (f g)" "keeps f \<Longrightarrow> graph_ok g \<Longrightarrow> graph_ok (f g)"
  by (auto simp: keeps_def)

lemma keepsRD: "keepsR f \<Longrightarrow> f g = Inr g' \<Longrightarrow> grows g g'" "keepsR f \<Longrightarrow> f g = Inr g' \<Longrightarrow> graph_ok g \<Longrightarrow> graph_ok g'"
  by (auto simp: keepsR_def)

lemma keeps_id [keeps_intros]: "keeps (\<lambda>g. g)"
  by (simp add: keeps_def)

lemma keeps_comp: "keeps f \<Longrightarrow> keeps h \<Longrightarrow> keeps (\<lambda>g. f (h g))"
  unfolding keeps_def by (meson grows_trans)

lemma keeps_if: "keeps f \<Longrightarrow> keeps h \<Longrightarrow> keeps (\<lambda>g. if b then f g else h g)"
  by (simp add: keeps_def)

lemma keeps_fold: "(\<And>x. x \<in> set xs \<Longrightarrow> keeps (f x)) \<Longrightarrow> keeps (fold f xs)"
proof (induction xs)
  case (Cons x xs)
  then have "keeps (\<lambda>g. fold f xs (f x g))" by (intro keeps_comp [of "fold f xs" "f x"]) auto
  then show ?case by (simp add: comp_def)
qed (simp add: keeps_def)

lemma keeps_fold_comp [keeps_intros]:
  "(\<And>x. x \<in> set xs \<Longrightarrow> keeps (f x)) \<Longrightarrow> keeps h \<Longrightarrow> keeps (\<lambda>g. fold f xs (h g))"
  by (intro keeps_comp [of "fold f xs" h] keeps_fold)

lemma keepsR_Inr [keeps_intros]: "keeps f \<Longrightarrow> keepsR (\<lambda>g. Inr (f g))"
  by (simp add: keeps_def keepsR_def)

lemma keepsR_bind [keeps_intros]: "keepsR f \<Longrightarrow> keepsR h \<Longrightarrow> keepsR (\<lambda>g. bindR (f g) h)"
  unfolding keepsR_def bindR_eq_Inr by (meson grows_trans)

lemma keepsR_bind_const: "(\<And>x. keepsR (f x)) \<Longrightarrow> keepsR (\<lambda>g. bindR r (\<lambda>x. f x g))"
  by (auto simp: keepsR_def bindR_eq_Inr)

lemma keepsR_comp: "keepsR f \<Longrightarrow> keeps h \<Longrightarrow> keepsR (\<lambda>g. f (h g))"
  unfolding keepsR_def keeps_def by (meson grows_trans)

lemma keepsR_foldR: "(\<And>x. x \<in> set xs \<Longrightarrow> keepsR (f x)) \<Longrightarrow> keepsR (foldR f xs)"
proof (induction xs)
  case (Cons x xs)
  then have "keepsR (\<lambda>g. bindR (f x g) (foldR f xs))" by (intro keepsR_bind) auto
  then show ?case by simp
qed (simp add: keepsR_def)

lemma keepsR_foldR_comp [keeps_intros]:
  "(\<And>x. x \<in> set xs \<Longrightarrow> keepsR (f x)) \<Longrightarrow> keeps h \<Longrightarrow> keepsR (\<lambda>g. foldR f xs (h g))"
  by (intro keepsR_comp [of "foldR f xs" h] keepsR_foldR)

lemma keepsR_each_dict [keeps_intros]:
  assumes "\<And>d. keepsR (f d)" "keeps h"
  shows "keepsR (\<lambda>g. each_dict v f (h g))"
proof (rule keepsR_comp [OF _ assms(2)])
  show "keepsR (each_dict v f)"
    unfolding each_dict_def by (intro keepsR_bind_const keepsR_foldR assms(1))
qed

lemma keepsR_each_value [keeps_intros]:
  assumes "\<And>x. keeps (f x)" "keeps h"
  shows "keepsR (\<lambda>g. each_value v f (h g))"
proof (rule keepsR_comp [OF _ assms(2)])
  show "keepsR (each_value v f)"
    unfolding each_value_def by (intro keepsR_bind_const keepsR_Inr keeps_fold assms(1))
qed

section \<open>Entities and edges\<close>

lemma has_entity_put: "has_entity (put_entity en g) k \<longleftrightarrow> k = en_key en \<or> has_entity g k"
  by (simp add: has_entity_def put_entity_def update_conv')

lemma put_entity_fields: "g_edges (put_entity en g) = g_edges g" "adjacent (put_entity en g) = adjacent g"
  by (simp_all add: put_entity_def adjacent_def fun_eq_iff)

lemma keeps_put_entity:
  assumes "en_key en = entity_key (en_type en) (en_id en)"
  shows "keeps (put_entity en)"
proof -
  have "graph_ok (put_entity en g)" if "graph_ok g" for g
  proof -
    have "distinct (map fst (g_entities (put_entity en g)))"
      using that by (simp add: graph_ok_def put_entity_def distinct_update)
    moreover have "en_key x = k \<and> k = entity_key (en_type x) (en_id x)" if "(k, x) \<in> set (g_entities (put_entity en g))" for k x
      using that \<open>graph_ok g\<close> assms by (auto simp: graph_ok_def put_entity_def dest!: in_update)
    ultimately show ?thesis using that by (auto simp: graph_ok_def put_entity_fields has_entity_put)
  qed
  then show ?thesis by (auto simp: keeps_def grows_def has_entity_put put_entity_fields)
qed

lemma keeps_add_titled_self: "keeps (add_titled sh kind ident rc title)"
  unfolding add_titled_def by (rule keeps_put_entity) (simp add: make_entity_def Let_def)

lemma keeps_add_titled [keeps_intros]: "keeps h \<Longrightarrow> keeps (\<lambda>g. add_titled sh kind ident rc title (h g))"
  by (rule keeps_comp [OF keeps_add_titled_self])

lemma keeps_add_entity [keeps_intros]: "keeps h \<Longrightarrow> keeps (\<lambda>g. add_entity sh kind ident rc (h g))"
  unfolding add_entity_def by (rule keeps_add_titled)

lemma has_entity_add_titled: "has_entity (add_titled sh kind ident rc title g) (ref_key sh kind ident)"
  by (simp add: add_titled_def has_entity_put make_entity_def ref_key_def Let_def)

lemma adjacent_push: "adjacent (push_edge e g) k = (if k = ed_source e then adjacent g k @ [e] else adjacent g k)"
  by (simp add: adjacent_def push_edge_def update_conv')

lemma push_edge_fields: "g_edges (push_edge e g) = g_edges g" "has_entity (push_edge e g) = has_entity g"
  "g_entities (push_edge e g) = g_entities g"
  by (simp_all add: push_edge_def has_entity_def fun_eq_iff)

lemma reverse_edge_fields [simp]: "ed_source (reverse_edge e) = ed_target e" "ed_target (reverse_edge e) = ed_source e"
  by (simp_all add: reverse_edge_def)

lemma add_edge_drawn:
  assumes "has_entity g source" "has_entity g target"
  obtains e where "ed_source e = source" "ed_target e = target" "ed_relation e = relation"
    "g_edges (add_edge source target relation basis g) = g_edges g @ [e]"
    "g_entities (add_edge source target relation basis g) = g_entities g"
    "\<forall>k. set (adjacent (add_edge source target relation basis g) k) =
       set (adjacent g k) \<union> {x. x = e \<and> k = source \<or> x = reverse_edge e \<and> k = target}"
proof
  let ?e = "\<lparr>ed_source = source, ed_target = target, ed_relation = relation, ed_basis = basis, ed_confidence = ''high''\<rparr>"
  show "ed_source ?e = source" "ed_target ?e = target" "ed_relation ?e = relation" by simp_all
  show "g_edges (add_edge source target relation basis g) = g_edges g @ [?e]"
    "g_entities (add_edge source target relation basis g) = g_entities g"
    using assms by (simp_all add: add_edge_def Let_def push_edge_fields)
  show "\<forall>k. set (adjacent (add_edge source target relation basis g) k) =
       set (adjacent g k) \<union> {x. x = ?e \<and> k = source \<or> x = reverse_edge ?e \<and> k = target}"
    using assms by (auto simp: add_edge_def Let_def adjacent_push) (auto simp: adjacent_def)
qed

lemma keeps_add_edge_self: "keeps (add_edge source target relation basis)"
  unfolding keeps_def
proof (intro allI)
  fix g
  let ?g = "add_edge source target relation basis g"
  show "grows g ?g \<and> (graph_ok g \<longrightarrow> graph_ok ?g)"
  proof (cases "has_entity g source \<and> has_entity g target")
    case False
    then show ?thesis by (auto simp: add_edge_def)
  next
    case True
    then have "has_entity g source" "has_entity g target" by simp_all
    then obtain e where e: "ed_source e = source" "ed_target e = target" "ed_relation e = relation"
      "g_edges ?g = g_edges g @ [e]" "g_entities ?g = g_entities g"
      "\<forall>k. set (adjacent ?g k) = set (adjacent g k) \<union> {x. x = e \<and> k = source \<or> x = reverse_edge e \<and> k = target}"
      by (rule add_edge_drawn [where relation = relation and basis = basis])
    from e(5) have "has_entity ?g = has_entity g" by (simp add: has_entity_def fun_eq_iff)
    then have "grows g ?g" by (simp add: grows_def e(4)) blast
    moreover have "graph_ok ?g" if ok: "graph_ok g"
      unfolding graph_ok_def \<open>has_entity ?g = has_entity g\<close> e(4,5) e(6) [rule_format]
      using ok True e(1,2) by (auto simp: graph_ok_def)
    ultimately show ?thesis by blast
  qed
qed

lemma keeps_add_edge [keeps_intros]: "keeps h \<Longrightarrow> keeps (\<lambda>g. add_edge source target relation basis (h g))"
  by (rule keeps_comp [OF keeps_add_edge_self])

lemma keeps_edge_if [keeps_intros]: "keeps h \<Longrightarrow> keeps (\<lambda>g. edge_if v source target relation basis (h g))"
  unfolding edge_if_def by (intro keeps_if keeps_add_edge)

lemma keeps_edge_to [keeps_intros]: "keeps h \<Longrightarrow> keeps (\<lambda>g. edge_to sh item field source kind relation (h g))"
  unfolding edge_to_def by (rule keeps_edge_if)

lemma keeps_edge_from [keeps_intros]: "keeps h \<Longrightarrow> keeps (\<lambda>g. edge_from sh item field kind target relation (h g))"
  unfolding edge_from_def by (rule keeps_edge_if)

section \<open>The construction\<close>

lemma keeps_split [keeps_intros]: "(\<And>a b. p = (a, b) \<Longrightarrow> keeps (f a b)) \<Longrightarrow> keeps (case p of (a, b) \<Rightarrow> f a b)"
  by (cases p) auto

lemma keeps_build_tasks: "keeps (build_tasks sh r)"
  unfolding build_tasks_def by (intro keeps_fold keeps_intros)

lemma keepsR_build_program: "keepsR (build_program sh item)"
  unfolding build_program_def by (intro keeps_intros)

lemma keeps_build_table: "keeps (build_table sh snap p)"
  unfolding build_table_def by (cases p) (auto intro!: keeps_fold keeps_intros)

lemma keeps_build_records: "keeps (build_records sh kind rows)"
  unfolding build_records_def by (intro keeps_fold keeps_intros)

lemma keeps_build_artifact: "keeps (build_artifact sh item)"
  unfolding build_artifact_def Let_def by (intro keeps_intros)

lemma keeps_build_scope: "keeps (build_scope sh item)"
  unfolding build_scope_def by (intro keeps_intros)

lemma keeps_build_parent: "keeps (build_parent sh p)"
  unfolding build_parent_def by (intro keeps_intros)

lemma keeps_build_dependency: "keeps (build_dependency sh item)"
  unfolding build_dependency_def by (intro keeps_fold keeps_intros)

lemma keeps_build_interface: "keeps (build_interface sh loads item)"
  unfolding build_interface_def Let_def by (intro keeps_intros)

lemma keeps_build_link: "keeps h \<Longrightarrow> keeps (\<lambda>g. build_link sh kind field relation basis item (h g))"
  unfolding build_link_def by (intro keeps_intros)

lemma keeps_build_gate: "keeps (build_gate sh item)"
  unfolding build_gate_def by (intro keeps_intros keeps_build_link)

lemma keeps_state_fold: "(\<And>x. keeps (f x)) \<Longrightarrow> keeps (\<lambda>g. fold f (xs g) g)"
  using keeps_fold [of "xs _" f] by (fastforce simp: keeps_def)

lemma keeps_build_workers: "keeps (build_workers sh kind)"
  unfolding build_workers_def Let_def by (intro keeps_state_fold keeps_intros)

lemma keepsR_build_campaign: "keepsR (build_campaign sh item)"
  unfolding build_campaign_def Let_def by (intro keeps_intros)

lemma keepsR_build_result: "keepsR (build_result sh item)"
  unfolding build_result_def Let_def by (intro keeps_intros)

lemma keepsR_declare_run: "keepsR (declare_run sh run)"
  unfolding declare_run_def by (intro keeps_intros)

lemma keeps_relate_dispatch: "keeps (relate_dispatch sh lane_key lane)"
  by (cases "dget lane ''dispatch''") (auto simp: relate_dispatch_def Let_def intro!: keeps_if keeps_intros)

lemma keeps_relate_workspace: "keeps (relate_workspace sh lane_key lane)"
  by (cases "dget lane ''workspace''") (auto simp: relate_workspace_def intro!: keeps_if keeps_intros)

lemma keepsR_relate_lane: "keepsR (relate_lane sh run_key lane)"
  unfolding relate_lane_def Let_def
  by (intro keeps_intros keeps_comp [OF keeps_relate_workspace] keeps_relate_dispatch)

lemma keepsR_relate_run: "keepsR (relate_run sh run)"
  unfolding relate_run_def Let_def by (intro keeps_intros keepsR_relate_lane)

lemma keepsR_workflow_records:
  "keepsR (build_message sh item)" "keepsR (build_rendezvous sh item)" "keepsR (build_integration sh item)"
  "keepsR (build_patch sh item)" "keepsR (build_child sh item)"
  unfolding build_message_def build_rendezvous_def build_integration_def build_patch_def build_child_def Let_def
  by (intro keeps_intros)+

lemma keeps_build_commit: "keeps (build_commit sh p)"
  unfolding build_commit_def by (intro keeps_intros)

end
