(* ===== verification/GraphProps.thy ===== *)
theory GraphProps
  imports GraphInv
begin

text \<open>
  What the project graph promises: its construction yields a well-formed graph, no edge of the lane tree is dropped, and
  the search for related entities returns what is within reach.
\<close>

section \<open>Construction\<close>

lemma keeps_build_tables: "keeps (build_tables sh loads snap r)"
  unfolding build_tables_def Let_def
  by (intro keeps_comp [OF keeps_build_workers] keeps_fold_comp keeps_comp [OF keeps_build_records] keeps_id
      keeps_build_link keeps_build_gate keeps_build_interface keeps_build_dependency keeps_build_parent keeps_build_scope
      keeps_build_artifact keeps_build_table keeps_build_workers)

lemma keepsR_build_workflow_records: "keepsR (build_workflow_records sh view)"
  unfolding build_workflow_records_def by (intro keeps_intros keepsR_workflow_records)

lemma keepsR_build_workflow: "keepsR (build_workflow sh view)"
proof (cases "truthy (dget view ''available'')")
  case True
  then show ?thesis
    unfolding build_workflow_def
    by (simp, intro keeps_intros keepsR_declare_run keepsR_relate_run keepsR_build_workflow_records)
qed (simp add: build_workflow_def keepsR_def)

lemma empty_graph_ok: "graph_ok empty_graph"
  by (simp add: graph_ok_def empty_graph_def adjacent_def has_entity_def)

lemma build_graph_stages:
  assumes "build_graph sh loads snap r = Inr g"
  obtains g1 g2 g3 where
    "grows (build_tasks sh r empty_graph) g1" "graph_ok g1" "grows g1 g2" "graph_ok g2"
    "build_workflow sh (workflow_view snap) g2 = Inr g3" "grows g2 g3" "graph_ok g3" "grows g3 g" "graph_ok g"
proof -
  from assms obtain a b c d where
    a: "each_dict (PList (rp_programs r)) (build_program sh) (build_tasks sh r empty_graph) = Inr a"
    and b: "foldR (build_campaign sh) (pf_campaigns (rp_performance r)) (build_tables sh loads snap r a) = Inr b"
    and c: "foldR (build_result sh) (pf_current_evidence (rp_performance r) @ pf_historical_evidence (rp_performance r)) b = Inr c"
    and d: "build_workflow sh (workflow_view snap) c = Inr d"
    and g: "g = fold (build_commit sh) (snap_repositories snap) d"
    by (auto simp: build_graph_def bindR_eq_Inr)
  have "keepsR (\<lambda>g. each_dict (PList (rp_programs r)) (build_program sh) g)" by (intro keeps_intros keepsR_build_program)
  note a' = keepsRD [OF this a]
  note t' = keepsD [OF keeps_build_tables [of sh loads snap r], of a]
  note b' = keepsRD [OF keepsR_foldR [OF keepsR_build_campaign] b]
  note c' = keepsRD [OF keepsR_foldR [OF keepsR_build_result] c]
  note d' = keepsRD [OF keepsR_build_workflow d]
  have "keeps (fold (build_commit sh) (snap_repositories snap))" by (intro keeps_fold keeps_build_commit)
  note g' = keepsD [OF this, of d, folded g]
  have "graph_ok (build_tasks sh r empty_graph)" by (rule keepsD(2) [OF keeps_build_tasks empty_graph_ok])
  then have ok: "graph_ok a" "graph_ok c" using a'(2) t'(2) b'(2) c'(2) by blast+
  have "grows a c" using t'(1) b'(1) c'(1) by (meson grows_trans)
  then show thesis using that [of a c d] a'(1) ok d d' g' by blast
qed

text \<open>
  C13. The graph that is built from a snapshot is well formed: every entity is filed once, under the key of its type and
  identifier; every edge joins two entities and stands in both adjacency lists, reversed in the second; the adjacency
  lists hold nothing else; and every reconciled task is an entity.
\<close>

theorem project_graph_wellformed:
  assumes "build_graph sh loads snap r = Inr g"
  shows "graph_ok g \<and> (\<forall>(task_id, item) \<in> set (rp_tasks r). has_entity g (entity_key ''task'' task_id))"
proof -
  obtain g1 g2 g3 where st: "grows (build_tasks sh r empty_graph) g1" "grows g1 g2" "grows g2 g3" "grows g3 g" "graph_ok g"
    using build_graph_stages [OF assms] by metis
  have "has_entity g (entity_key ''task'' task_id)" if "(task_id, item) \<in> set (rp_tasks r)" for task_id item
  proof -
    have "has_entity (fold (\<lambda>(task_id, item). add_titled sh ''task'' (PStr task_id) item
        (py_str sh (pv_or (dget item ''title'') (PStr task_id)))) ts g0) (entity_key ''task'' task_id)"
      if "(task_id, item) \<in> set ts" for ts g0
      using that
    proof (induction ts arbitrary: g0)
      case (Cons p ts)
      let ?f = "\<lambda>(task_id, item). add_titled sh ''task'' (PStr task_id) item (py_str sh (pv_or (dget item ''title'') (PStr task_id)))"
      show ?case
      proof (cases "p = (task_id, item)")
        case True
        have "has_entity (?f p g0) (entity_key ''task'' task_id)"
          unfolding True using has_entity_add_titled [of sh "''task''" "PStr task_id"] by (simp add: ref_key_def)
        moreover have "keeps (fold ?f ts)" by (intro keeps_fold keeps_intros)
        ultimately show ?thesis using keepsD(1) unfolding grows_def by fastforce
      next
        case False
        with Cons show ?thesis by simp
      qed
    qed simp
    with that have "has_entity (build_tasks sh r empty_graph) (entity_key ''task'' task_id)" by (simp add: build_tasks_def)
    with st show ?thesis unfolding grows_def by blast
  qed
  with st(5) show ?thesis by blast
qed

section \<open>The lane tree\<close>

text \<open>The lanes of the runs of a workflow view.\<close>

definition dicts_at :: "pdict \<Rightarrow> string \<Rightarrow> pdict list" where
  "dicts_at d k = (case iter_of (list_field d k) of Inl _ \<Rightarrow> [] | Inr xs \<Rightarrow> dicts_of xs)"

definition view_lanes :: "pdict \<Rightarrow> pdict list" where
  "view_lanes view = concat (map (\<lambda>run. dicts_at run ''lanes'') (dicts_at view ''runs''))"

text \<open>A loop over dictionaries runs its body on each, and what the body establishes stays.\<close>

lemma each_dict_reaches:
  assumes "each_dict (list_field d k) f g = Inr g'" and "\<And>x. keepsR (f x)" and "x \<in> set (dicts_at d k)"
  obtains a b where "grows g a" "f x a = Inr b" "grows b g'"
proof -
  from assms(1) obtain xs where xs: "iter_of (list_field d k) = Inr xs"
    "foldR (\<lambda>x g. bindR (as_dict x) (\<lambda>d. f d g)) xs g = Inr g'"
    by (auto simp: each_dict_def bindR_eq_Inr)
  let ?h = "\<lambda>x g. bindR (as_dict x) (\<lambda>d. f d g)"
  have keep: "keepsR (?h v)" for v by (intro keepsR_bind_const assms(2))
  from assms(3) xs(1) have "PDict x \<in> set xs" by (auto simp: dicts_at_def dicts_of_def split: pv.splits)
  with xs(2) have "\<exists>a b. grows g a \<and> f x a = Inr b \<and> grows b g'"
  proof (induction xs arbitrary: g)
    case (Cons v xs)
    from Cons.prems(1) obtain m where m: "?h v g = Inr m" "foldR ?h xs m = Inr g'" by (auto simp: bindR_eq_Inr)
    show ?case
    proof (cases "v = PDict x")
      case True
      with m have "f x g = Inr m" by (simp add: as_dict_def)
      then show ?thesis using keepsRD(1) [OF keepsR_foldR [OF keep] m(2)] grows_refl by blast
    next
      case False
      with Cons.prems(2) have "PDict x \<in> set xs" by auto
      with Cons.IH [OF m(2)] keepsRD(1) [OF keep m(1)] show ?thesis by (meson grows_trans)
    qed
  qed simp
  then show thesis using that by blast
qed

lemma grows_has: "grows g g' \<Longrightarrow> has_entity g k \<Longrightarrow> has_entity g' k"
  and grows_edge: "grows g g' \<Longrightarrow> e \<in> set (g_edges g) \<Longrightarrow> e \<in> set (g_edges g')"
  by (auto simp: grows_def)

lemma declared_lane:
  assumes "each_dict (list_field view ''runs'') (declare_run sh) g = Inr g'" and "lane \<in> set (view_lanes view)"
  shows "has_entity g' (ref_key sh ''lane'' (dget lane ''id''))"
proof -
  from assms(2) obtain run where run: "run \<in> set (dicts_at view ''runs'')" "lane \<in> set (dicts_at run ''lanes'')"
    by (auto simp: view_lanes_def)
  obtain a b where ab: "declare_run sh run a = Inr b" "grows b g'"
    using each_dict_reaches [OF assms(1) keepsR_declare_run run(1)] by metis
  let ?add = "\<lambda>lane g. add_titled sh ''lane'' (dget lane ''id'') lane (py_str sh (dget lane ''role'') @ '' lane '' @ py_str sh (dget lane ''id'')) g"
  have keep: "keepsR (\<lambda>g. Inr (?add l g))" for l by (intro keeps_intros)
  obtain c d where "(Inr (?add lane c) :: graph result) = Inr d" "grows d b"
    by (rule each_dict_reaches [OF ab(1) [unfolded declare_run_def] keep run(2)])
  then have "has_entity b (ref_key sh ''lane'' (dget lane ''id''))" using grows_has has_entity_add_titled by fastforce
  then show ?thesis by (rule grows_has [OF ab(2)])
qed

lemma relate_lane_links:
  assumes "relate_lane sh run_key lane g = Inr g'" and "truthy (dget lane ''parent_lane_id'')"
    and "has_entity g (ref_key sh ''lane'' (dget lane ''id''))" "has_entity g (ref_key sh ''lane'' (dget lane ''parent_lane_id''))"
  shows "\<exists>e \<in> set (g_edges g'). ed_source e = ref_key sh ''lane'' (dget lane ''id'') \<and>
     ed_target e = ref_key sh ''lane'' (dget lane ''parent_lane_id'') \<and> ed_relation e = ''child_lane''"
proof -
  let ?k = "ref_key sh ''lane'' (dget lane ''id'')" and ?p = "ref_key sh ''lane'' (dget lane ''parent_lane_id'')"
  let ?a = "add_edge run_key ?k ''contains_lane'' WORKFLOW_BASIS g"
  let ?b = "add_edge ?k ?p ''child_lane'' WORKFLOW_BASIS ?a"
  have "has_entity ?a ?k" "has_entity ?a ?p" using assms(3,4) keepsD(1) [OF keeps_add_edge_self] grows_has by blast+
  then obtain e where e: "ed_source e = ?k" "ed_target e = ?p" "ed_relation e = ''child_lane''" "g_edges ?b = g_edges ?a @ [e]"
    by (rule add_edge_drawn [where relation = "''child_lane''" and basis = WORKFLOW_BASIS])
  obtain c where c: "each_dict (list_field lane ''queue'') (\<lambda>queued g. Inr (edge_to sh queued ''task_id'' ?k ''task'' ''queues'' g)) ?b = Inr c"
    "g' = relate_workspace sh ?k lane (relate_dispatch sh ?k lane c)"
    using assms(1,2) by (auto simp: relate_lane_def bindR_eq_Inr Let_def edge_to_def edge_if_def)
  have "keepsR (\<lambda>g. each_dict (list_field lane ''queue'') (\<lambda>queued g. Inr (edge_to sh queued ''task_id'' ?k ''task'' ''queues'' g)) g)"
    by (intro keeps_intros)
  from keepsRD(1) [OF this c(1)] have "grows ?b c" .
  also have "grows c (relate_dispatch sh ?k lane c)" by (rule keepsD(1) [OF keeps_relate_dispatch])
  also have "grows (relate_dispatch sh ?k lane c) g'" unfolding c(2) by (rule keepsD(1) [OF keeps_relate_workspace])
  finally have "e \<in> set (g_edges g')" by (rule grows_edge) (simp add: e(4))
  with e show ?thesis by blast
qed

text \<open>
  No parent of a lane is lost, however deep the lanes are nested and in whatever order the runs list them: a lane
  whose parent is a lane of some run of the workflow has a child-lane edge to it.
\<close>

theorem lane_parents_linked:
  assumes "build_graph sh loads snap r = Inr g" and "dget (snap_workflow snap) ''available'' = PBool True"
    and "lane \<in> set (view_lanes (snap_workflow snap))" and "parent \<in> set (view_lanes (snap_workflow snap))"
    and "truthy (dget lane ''parent_lane_id'')" and "py_str sh (dget lane ''parent_lane_id'') = py_str sh (dget parent ''id'')"
  shows "\<exists>e \<in> set (g_edges g). ed_source e = ref_key sh ''lane'' (dget lane ''id'') \<and>
     ed_target e = ref_key sh ''lane'' (dget parent ''id'') \<and> ed_relation e = ''child_lane''"
proof -
  let ?view = "snap_workflow snap" and ?graph_edge = "\<lambda>g. \<exists>e \<in> set (g_edges g). ed_source e = ref_key sh ''lane'' (dget lane ''id'') \<and>
     ed_target e = ref_key sh ''lane'' (dget parent ''id'') \<and> ed_relation e = ''child_lane''"
  have parent: "ref_key sh ''lane'' (dget lane ''parent_lane_id'') = ref_key sh ''lane'' (dget parent ''id'')"
    by (simp add: ref_key_def assms(6))
  have view: "workflow_view snap = ?view" by (simp add: workflow_view_def assms(2) Let_def)
  obtain g2 g3 where wf: "build_workflow sh ?view g2 = Inr g3" "grows g3 g"
    by (rule build_graph_stages [OF assms(1), unfolded view])
  then obtain a b where a: "each_dict (list_field ?view ''runs'') (declare_run sh) g2 = Inr a"
    and b: "each_dict (list_field ?view ''runs'') (relate_run sh) a = Inr b"
    and rest: "build_workflow_records sh ?view b = Inr g3"
    using assms(2) by (auto simp: build_workflow_def bindR_eq_Inr)
  have "grows b g3" by (rule keepsRD(1) [OF keepsR_build_workflow_records rest])
  from this wf(2) have bg: "grows b g" by (rule grows_trans)
  from assms(3) obtain run where run: "run \<in> set (dicts_at ?view ''runs'')" "lane \<in> set (dicts_at run ''lanes'')"
    by (auto simp: view_lanes_def)
  obtain c d where c: "grows a c" "relate_run sh run c = Inr d" "grows d b"
    by (rule each_dict_reaches [OF b keepsR_relate_run run(1)])
  let ?rk = "ref_key sh ''run'' (dget run ''id'')"
  let ?c = "edge_to sh run ''root_task_id'' ?rk ''task'' ''root_task'' c"
  obtain m n where m: "grows ?c m" "relate_lane sh ?rk lane m = Inr n" "grows n d"
    by (rule each_dict_reaches [OF c(2) [unfolded relate_run_def Let_def] keepsR_relate_lane run(2)])
  have "grows c ?c" by (rule keepsD(1)) (intro keeps_intros)
  with m(1) c(1) have "grows a m" by (meson grows_trans)
  then have "has_entity m (ref_key sh ''lane'' (dget lane ''id''))" "has_entity m (ref_key sh ''lane'' (dget parent ''id''))"
    using declared_lane [OF a] assms(3,4) grows_has by blast+
  then have "?graph_edge n" using relate_lane_links [OF m(2) assms(5)] unfolding parent by blast
  then show ?thesis using m(3) c(3) bg grows_edge by meson
qed

end
