(* ===== verification/GraphRelated.thy ===== *)
theory GraphRelated
  imports GraphInv
begin

text \<open>
  The search for related entities is a breadth-first search: on a well-formed graph it always answers, with distinct
  entities within the hops it is given, and with all of them unless it is cut off.  The specification is the ball around
  an entity.
\<close>

section \<open>Balls\<close>

definition nexts :: "graph \<Rightarrow> string \<Rightarrow> string set" where
  "nexts g k = ed_target ` set (adjacent g k)"

fun ball :: "graph \<Rightarrow> string \<Rightarrow> nat \<Rightarrow> string set" where
  "ball g k 0 = {k}"
| "ball g k (Suc n) = ball g k n \<union> (\<Union>x \<in> ball g k n. nexts g x)"

lemma ball_mono: "m \<le> n \<Longrightarrow> ball g k m \<subseteq> ball g k n"
  by (induction n) (auto simp: le_Suc_eq)

lemma ball_closed: "(\<And>x. x \<in> ball g k d \<Longrightarrow> nexts g x \<subseteq> ball g k d) \<Longrightarrow> d \<le> n \<Longrightarrow> ball g k n = ball g k d"
proof (induction n)
  case (Suc n)
  show ?case
  proof (cases "d = Suc n")
    case False
    with Suc have "ball g k n = ball g k d" by simp
    with Suc.prems(1) show ?thesis by auto
  qed simp
qed simp

lemma ball_start: "k \<in> ball g k n"
  using ball_mono [of 0 n g k] by auto

lemma set_sorted_edges [simp]: "set (sorted_edges g k) = set (adjacent g k)"
  by (simp add: sorted_edges_def)

lemma graph_ok_target: "graph_ok g \<Longrightarrow> e \<in> set (adjacent g k) \<Longrightarrow> has_entity g (ed_target e)"
  unfolding graph_ok_def by (metis (no_types, lifting) imageE reverse_edge_fields(2))

section \<open>One visit\<close>

lemma visit_edges_total:
  "\<forall>e \<in> set es. has_entity g (ed_target e) \<Longrightarrow> \<exists>st'. visit_edges g n d es st = Inr st'"
proof (induction es arbitrary: st)
  case (Cons e es)
  obtain queue seen res where st: "st = (queue, seen, res)" by (cases st)
  from Cons.prems obtain en where "map_of (g_entities g) (ed_target e) = Some en" by (auto simp: has_entity_def)
  with Cons show ?case by (auto simp: st Let_def)
qed (rule exI, rule visit_edges.simps(1))

lemma visit_edges_all:
  "visit_edges g n d es (queue, seen, res) = Inr (queue', seen', res') \<Longrightarrow> int (length res') < n \<Longrightarrow>
     ed_target ` set es \<subseteq> set seen'"
proof (induction es arbitrary: queue seen res)
  case (Cons e es)
  have sub: "set seen \<subseteq> set seen'" using visit_edges_adds [OF Cons.prems(1)] by blast
  show ?case
  proof (cases "ed_target e \<in> set seen")
    case True
    with Cons.prems have "visit_edges g n d es (queue, seen, res) = Inr (queue', seen', res')" by simp
    from Cons.IH [OF this Cons.prems(2)] True sub show ?thesis by auto
  next
    case False
    with Cons.prems obtain en where rest: "visit_edges g n d es
        (queue @ [(ed_target e, Suc d)], ed_target e # seen, res @ [related_of e en]) = Inr (queue', seen', res')"
      by (auto simp: Let_def split: option.splits if_splits)
    then have "set (ed_target e # seen) \<subseteq> set seen'" using visit_edges_adds [OF rest] by blast
    with Cons.IH [OF rest Cons.prems(2)] show ?thesis by simp
  qed
qed simp

lemma visit_edges_bound:
  "visit_edges g n d es (queue, seen, res) = Inr (queue', seen', res') \<Longrightarrow> int (length res) < n \<Longrightarrow> int (length res') \<le> n"
proof (induction es arbitrary: queue seen res)
  case (Cons e es)
  then show ?case by (auto simp: Let_def split: option.splits if_splits)
qed simp

section \<open>Soundness\<close>

definition sound_search :: "graph \<Rightarrow> string \<Rightarrow> int \<Rightarrow> int \<Rightarrow> (string \<times> nat) list \<Rightarrow> string list \<Rightarrow> related_item list \<Rightarrow> bool" where
  "sound_search g k hops n queue seen res \<longleftrightarrow>
     (\<forall>(x, d) \<in> set queue. x \<in> ball g k d) \<and> set seen = insert k (rel_key ` set res) \<and> distinct (k # map rel_key res) \<and>
     rel_key ` set res \<subseteq> ball g k (nat hops) \<and> (0 \<le> n \<longrightarrow> int (length res) \<le> n)"

lemma sound_visit:
  assumes sound: "sound_search g k hops n ((x, d) # queue) seen res"
    and visit: "visit_edges g n d (sorted_edges g x) (queue, seen, res) = Inr (queue', seen', res')"
    and "int (length res) < n" and "int d < hops"
  shows "sound_search g k hops n queue' seen' res'"
proof -
  obtain ts where ts: "queue' = queue @ map (\<lambda>t. (t, Suc d)) ts" "set seen' = set seen \<union> set ts" "distinct ts"
    "set ts \<inter> set seen = {}" "set ts \<subseteq> ed_target ` set (sorted_edges g x)" "map rel_key res' = map rel_key res @ ts"
    using visit_edges_adds [OF visit] by blast
  have keys: "rel_key ` set res' = rel_key ` set res \<union> set ts" using arg_cong [OF ts(6), of set] by simp
  have "set ts \<subseteq> ball g k (Suc d)"
    using ts(5) sound by (auto simp: sound_search_def nexts_def)
  moreover have "ball g k (Suc d) \<subseteq> ball g k (nat hops)" using assms(4) by (intro ball_mono) simp
  moreover have "int (length res') \<le> n" by (rule visit_edges_bound [OF visit assms(3)])
  ultimately show ?thesis
    using sound ts(1,2,3,4) unfolding sound_search_def keys ts(6) by (auto simp del: ball.simps)
qed

lemma search_related_sound:
  "search_related g hops n queue seen res = Inr out \<Longrightarrow> sound_search g k hops n queue seen res \<Longrightarrow>
     \<exists>queue' seen'. sound_search g k hops n queue' seen' out"
proof (induction g hops n queue seen res rule: search_related.induct)
  case (1 g hops n seen res)
  then show ?case by auto
next
  case (2 g hops n x d queue seen res)
  consider (cut) "\<not> int (length res) < n" | (far) "int (length res) < n" "hops \<le> int d"
    | (visit) "int (length res) < n" "\<not> hops \<le> int d" by linarith
  then show ?case
  proof cases
    case cut
    with 2 show ?thesis by auto
  next
    case far
    with 2(1,3,4) show ?thesis by (auto simp: sound_search_def)
  next
    case visit
    with "2.prems"(1) obtain queue' seen' res' where v:
      "visit_edges g n d (sorted_edges g x) (queue, seen, res) = Inr (queue', seen', res')"
      "search_related g hops n queue' seen' res' = Inr out"
      by (auto split: sum.splits prod.splits)
    have "sound_search g k hops n queue' seen' res'" by (rule sound_visit [OF "2.prems"(2) v(1)]) (use visit in auto)
    with "2.IH"(2) visit v show ?thesis by blast
  qed
qed

section \<open>Completeness\<close>

text \<open>
  The levels of the search: the queue has the rest \<open>A\<close> of the entities at depth \<open>d\<close>, then those found at the next
  depth; everything within \<open>d\<close> has been seen, and whoever is not in \<open>A\<close> has its neighbours seen.
\<close>

definition level :: "graph \<Rightarrow> string \<Rightarrow> int \<Rightarrow> nat \<Rightarrow> string list \<Rightarrow> string list \<Rightarrow> (string \<times> nat) list \<Rightarrow> string list \<Rightarrow> bool" where
  "level g k hops d A B queue seen \<longleftrightarrow>
     queue = map (\<lambda>x. (x, d)) A @ map (\<lambda>x. (x, Suc d)) B \<and> set seen = ball g k d \<union> set B \<and>
     set A \<subseteq> ball g k d \<and> set B \<subseteq> ball g k (Suc d) \<and> d \<le> nat hops \<and> (hops \<le> int d \<longrightarrow> B = []) \<and>
     (int d < hops \<longrightarrow> (\<forall>y \<in> ball g k d - set A. nexts g y \<subseteq> set seen))"

lemma level_front:
  assumes "level g k hops d A B ((x, e) # queue) seen"
  shows "\<exists>A' B'. level g k hops e (x # A') B' ((x, e) # queue) seen"
proof (cases A)
  case (Cons a A')
  with assms have "a = x" "d = e" by (auto simp: level_def)
  with assms Cons have "level g k hops e (x # A') B ((x, e) # queue) seen" by simp
  then show ?thesis by blast
next
  case Nil
  with assms obtain B' where B: "B = x # B'" "e = Suc d" "queue = map (\<lambda>x. (x, Suc d)) B'" by (auto simp: level_def)
  with assms have d: "int d < hops" by (auto simp: level_def)
  have sub: "nexts g y \<subseteq> set seen" if "y \<in> ball g k d" for y using assms that d Nil by (auto simp: level_def)
  have "ball g k (Suc d) = ball g k d \<union> set B"
  proof
    show "ball g k (Suc d) \<subseteq> ball g k d \<union> set B" using sub assms by (auto simp: level_def)
    show "ball g k d \<union> set B \<subseteq> ball g k (Suc d)" using assms by (auto simp: level_def)
  qed
  then have "level g k hops e (x # B') [] ((x, e) # queue) seen"
    using assms sub d B unfolding level_def B(2) by (auto simp del: ball.simps)
  then show ?thesis by blast
qed

lemma level_visit:
  assumes lv: "level g k hops d (x # A) B ((x, d) # queue) seen"
    and visit: "visit_edges g n d (sorted_edges g x) (queue, seen, res) = Inr (queue', seen', res')"
    and "int (length res') < n" and "int d < hops"
  shows "\<exists>B'. level g k hops d A B' queue' seen'"
proof -
  obtain ts where ts: "queue' = queue @ map (\<lambda>t. (t, Suc d)) ts" "set seen' = set seen \<union> set ts"
    "set ts \<subseteq> ed_target ` set (sorted_edges g x)"
    using visit_edges_adds [OF visit] by blast
  have all: "nexts g x \<subseteq> set seen'" using visit_edges_all [OF visit assms(3)] by (simp add: nexts_def)
  have x: "x \<in> ball g k d" using lv by (simp add: level_def)
  then have "set ts \<subseteq> ball g k (Suc d)" using ts(3) by (auto simp: nexts_def)
  moreover have "nexts g y \<subseteq> set seen'" if "y \<in> ball g k d - set A" for y
  proof (cases "y = x")
    case False
    with that have "y \<in> ball g k d - set (x # A)" by simp
    then have "nexts g y \<subseteq> set seen" using lv assms(4) unfolding level_def by blast
    with ts(2) show ?thesis by blast
  qed (simp add: all)
  ultimately have "level g k hops d A (B @ ts) queue' seen'"
    using lv ts(1,2) assms(4) unfolding level_def by (auto simp del: ball.simps)
  then show ?thesis by blast
qed

lemma level_end:
  assumes "level g k hops d A B [] seen"
  shows "set seen = ball g k (nat hops)"
proof -
  from assms have e: "A = []" "B = []" "set seen = ball g k d" "d \<le> nat hops" by (auto simp: level_def)
  show ?thesis
  proof (cases "int d < hops")
    case True
    with assms e have "nexts g y \<subseteq> ball g k d" if "y \<in> ball g k d" for y using that by (auto simp: level_def)
    then show ?thesis using ball_closed [of g k d "nat hops"] e by blast
  next
    case False
    with e(4) have "d = nat hops" by linarith
    with e show ?thesis by simp
  qed
qed

lemma search_related_complete:
  "search_related g hops n queue seen res = Inr out \<Longrightarrow> int (length out) < n \<Longrightarrow>
   sound_search g k hops n queue seen res \<Longrightarrow> (int (length res) < n \<Longrightarrow> \<exists>d A B. level g k hops d A B queue seen) \<Longrightarrow>
     insert k (rel_key ` set out) = ball g k (nat hops)"
proof (induction g hops n queue seen res rule: search_related.induct)
  case (1 g hops n seen res)
  then obtain d A B where "level g k hops d A B [] seen" by auto
  from level_end [OF this] 1 show ?case by (auto simp: sound_search_def)
next
  case (2 g hops n x d queue seen res)
  have room: "int (length res) < n" using "2.prems"(1,2) by (cases "int (length res) < n") auto
  with "2.prems"(4) obtain A B where lv: "level g k hops d (x # A) B ((x, d) # queue) seen" using level_front by blast
  show ?case
  proof (cases "hops \<le> int d")
    case True
    with lv have "level g k hops d A [] queue seen" by (auto simp: level_def)
    moreover have "sound_search g k hops n queue seen res" using "2.prems"(3) by (auto simp: sound_search_def)
    ultimately show ?thesis using "2.IH"(1) "2.prems"(1,2) room True by auto
  next
    case False
    with "2.prems"(1) room obtain queue' seen' res' where v:
      "visit_edges g n d (sorted_edges g x) (queue, seen, res) = Inr (queue', seen', res')"
      "search_related g hops n queue' seen' res' = Inr out"
      by (auto split: sum.splits prod.splits)
    have "sound_search g k hops n queue' seen' res'" by (rule sound_visit [OF "2.prems"(3) v(1) room]) (use False in simp)
    moreover have "\<exists>d A B. level g k hops d A B queue' seen'" if "int (length res') < n"
      using level_visit [OF lv v(1) that] False by auto
    ultimately show ?thesis using "2.IH"(2) [OF _ _ v(1) _ _ v(2) "2.prems"(2)] room False by auto
  qed
qed

lemma search_related_total:
  assumes "graph_ok g"
  shows "\<exists>out. search_related g hops n queue seen res = Inr out"
  using assms
proof (induction g hops n queue seen res rule: search_related.induct)
  case (2 g hops n x d queue seen res)
  have "\<forall>e \<in> set (sorted_edges g x). has_entity g (ed_target e)" using graph_ok_target "2.prems" by auto
  then obtain queue' seen' res' where v: "visit_edges g n d (sorted_edges g x) (queue, seen, res) = Inr (queue', seen', res')"
    using visit_edges_total by (metis prod_cases3)
  show ?case
  proof (cases "int (length res) < n")
    case True
    then show ?thesis using "2.IH"(1) "2.IH"(2) [OF _ _ v] v "2.prems" by (cases "hops \<le> int d") auto
  qed simp
qed simp

text \<open>
  C12. On a well-formed graph the search for what is related to an entity always answers: with distinct entities other
  than the start, each within the given number of hops, at most as many as asked for, and with all of them whenever the
  answer is shorter than that.
\<close>

theorem related_exact:
  assumes "graph_ok g"
  shows "\<exists>out. related g k hops n = Inr out \<and> distinct (k # map rel_key out) \<and> rel_key ` set out \<subseteq> ball g k (nat hops) \<and>
    int (length out) \<le> max 0 n \<and> (int (length out) < n \<longrightarrow> insert k (rel_key ` set out) = ball g k (nat hops))"
proof -
  obtain out where out: "search_related g hops n [(k, 0)] [k] [] = Inr out" using search_related_total [OF assms] by blast
  have start: "sound_search g k hops n [(k, 0)] [k] []" by (simp add: sound_search_def)
  from search_related_sound [OF out start] have s: "distinct (k # map rel_key out)" "rel_key ` set out \<subseteq> ball g k (nat hops)"
    "0 \<le> n \<longrightarrow> int (length out) \<le> n" by (auto simp: sound_search_def)
  have "level g k hops 0 [k] [] [(k, 0)] [k]" by (simp add: level_def)
  then have c: "insert k (rel_key ` set out) = ball g k (nat hops)" if "int (length out) < n"
    using search_related_complete [OF out that start] by blast
  have "int (length out) \<le> max 0 n" using s(3) out by (cases "0 \<le> n") auto
  with out s c show ?thesis unfolding related_def by blast
qed

end
