(* ===== verification/GraphAnswers.thy ===== *)
theory GraphAnswers
  imports GraphInv "HOL-Library.Multiset"
begin

text \<open>
  Resolution never guesses between equals, and the seeds of a question keep the breadth of its themes.
\<close>

section \<open>Resolution\<close>

text \<open>Why a subject is resolved to an entity: nobody else of the pool matches it as well.\<close>

definition matches_id :: "string \<Rightarrow> entity \<Rightarrow> bool" where
  "matches_id subject en \<longleftrightarrow> normalize_name (en_id en) = normalize_name subject"

definition matches_name :: "string \<Rightarrow> entity \<Rightarrow> bool" where
  "matches_name subject en \<longleftrightarrow> list_ex (\<lambda>a. normalize_name a = normalize_name subject) (en_aliases en)"

definition only_match :: "('a \<Rightarrow> bool) \<Rightarrow> 'a list \<Rightarrow> 'a \<Rightarrow> bool" where
  "only_match P xs x \<longleftrightarrow> filter P xs = [x]"

definition best_overlap :: "string \<Rightarrow> entity list \<Rightarrow> entity \<Rightarrow> bool" where
  "best_overlap subject pool en \<longleftrightarrow>
     (\<exists>score before after. mset (concat (map (overlap_score (name_tokens subject)) pool)) = add_mset (score, en) (mset (before @ after)) \<and>
        list_all (\<lambda>p. fst p \<le> score - 1 / 10 ^ 9) (before @ after))"

lemma length_one_hd: "length xs = Suc 0 \<Longrightarrow> xs = [hd xs]"
  by (cases xs) auto

lemma scored_best:
  assumes "scored_of subject pool = (best, en) # rest"
    and "length (filter (\<lambda>p. \<bar>fst p - best\<bar> < 1 / 10 ^ 9) ((best, en) # rest)) = 1"
  shows "best_overlap subject pool en"
proof -
  let ?key = "\<lambda>p. (- fst p, en_type (snd p), en_id (snd p))"
  have "sorted (map ?key (scored_of subject pool))" by (simp add: scored_of_def)
  then have "sorted (map ?key ((best, en) # rest))" unfolding assms(1) .
  then have le: "fst p \<le> best" if "p \<in> set rest" for p using that by (auto simp: less_eq_prod_def less_prod_def)
  have "fst p \<le> best - 1 / 10 ^ 9" if "p \<in> set rest" for p
  proof -
    from assms(2) that have "\<not> \<bar>fst p - best\<bar> < 1 / 10 ^ 9" by (auto simp: filter_empty_conv)
    with le [OF that] show ?thesis by auto
  qed
  moreover have "mset (concat (map (overlap_score (name_tokens subject)) pool)) = mset ((best, en) # rest)"
    using arg_cong [OF assms(1), of mset] by (simp add: scored_of_def)
  ultimately show ?thesis
    unfolding best_overlap_def by (intro exI [of _ best] exI [of _ "[]"] exI [of _ rest]) (simp add: list_all_iff)
qed

text \<open>
  A subject that is resolved names an entity of the graph, of an expected type when types are expected, and does so
  for one of three reasons: it is the only one whose identifier matches, the only one with a matching name, or the one
  whose overlap of words is ahead of all others; whatever is not resolved names no entity.
\<close>

theorem resolve_unique:
  "case rs_entity (resolve_subject rnd g subject expected) of
     None \<Rightarrow> rs_status (resolve_subject rnd g subject expected) \<in> {''ambiguous'', ''not_found''}
   | Some en \<Rightarrow> rs_status (resolve_subject rnd g subject expected) = ''resolved'' \<and>
       (only_match (matches_id subject) (pool_of g expected) en \<or> only_match (matches_name subject) (pool_of g expected) en \<or>
        best_overlap subject (pool_of g expected) en)"
proof -
  let ?pool = "pool_of g expected"
  have lexical: "case rs_entity (resolve_lexical rnd subject ?pool) of
     None \<Rightarrow> rs_status (resolve_lexical rnd subject ?pool) \<in> {''ambiguous'', ''not_found''}
   | Some en \<Rightarrow> rs_status (resolve_lexical rnd subject ?pool) = ''resolved'' \<and> best_overlap subject ?pool en"
  proof (cases "scored_of subject ?pool")
    case (Cons p rest)
    then show ?thesis using scored_best [of subject ?pool "fst p" "snd p" rest]
      by (cases p) (auto simp: resolve_lexical_def unresolved_def resolved_to_def Let_def)
  qed (simp add: resolve_lexical_def unresolved_def)
  have exact: "length (filter P ?pool) = 1 \<Longrightarrow> only_match P ?pool (hd (filter P ?pool))" for P
    using length_one_hd by (auto simp: only_match_def)
  have fold: "(\<lambda>en. normalize_name (en_id en) = normalize_name subject) = matches_id subject"
    "(\<lambda>en. list_ex (\<lambda>a. normalize_name a = normalize_name subject) (en_aliases en)) = matches_name subject"
    by (simp_all add: fun_eq_iff matches_id_def matches_name_def)
  show ?thesis
    unfolding resolve_subject_def Let_def fold
    using lexical exact [of "matches_id subject"] exact [of "matches_name subject"]
    by (auto simp: resolved_to_def unresolved_def split: option.splits)
qed

section \<open>Seeds\<close>

lemma pick_themes_spec:
  assumes "pick_themes n cs sel = (out, full)" "distinct (map sd_theme sel)" "int (length sel) < n"
  shows "distinct (map sd_theme out) \<and> set sel \<subseteq> set out \<and> set out \<subseteq> set sel \<union> set cs \<and> int (length out) \<le> n \<and>
    (if full then int (length out) = n else int (length out) < n \<and> sd_theme ` set cs \<subseteq> sd_theme ` set out)"
  using assms
proof (induction n cs sel rule: pick_themes.induct)
  case (2 n c cs sel)
  then show ?case by (auto split: if_splits)
qed auto

lemma fill_seeds_spec:
  assumes "int (length sel) < n" "distinct (map sd_key sel)"
  shows "distinct (map sd_key (fill_seeds n cs sel)) \<and> set sel \<subseteq> set (fill_seeds n cs sel) \<and>
    set (fill_seeds n cs sel) \<subseteq> set sel \<union> set cs \<and> int (length (fill_seeds n cs sel)) \<le> n \<and>
    (int (length (fill_seeds n cs sel)) < n \<longrightarrow> sd_key ` set cs \<subseteq> sd_key ` set (fill_seeds n cs sel))"
  using assms
proof (induction n cs sel rule: fill_seeds.induct)
  case (2 n c cs sel)
  show ?case
  proof (cases "sd_key c \<in> sd_key ` set sel")
    case True
    with 2 have IH: "distinct (map sd_key (fill_seeds n cs sel)) \<and> set sel \<subseteq> set (fill_seeds n cs sel) \<and>
      set (fill_seeds n cs sel) \<subseteq> set sel \<union> set cs \<and> int (length (fill_seeds n cs sel)) \<le> n \<and>
      (int (length (fill_seeds n cs sel)) < n \<longrightarrow> sd_key ` set cs \<subseteq> sd_key ` set (fill_seeds n cs sel))" by simp
    then have "sd_key c \<in> sd_key ` set (fill_seeds n cs sel)" using True by blast
    with IH True show ?thesis by auto
  next
    case False
    with 2 show ?thesis by auto
  qed
qed auto

lemma pool_keys: "graph_ok g \<Longrightarrow> distinct (map en_key (pool_of g expected))"
proof -
  assume "graph_ok g"
  then have d: "distinct (map fst (g_entities g))" and k: "\<forall>(k, en) \<in> set (g_entities g). en_key en = k"
    by (auto simp: graph_ok_def)
  from k have "map en_key (map snd (g_entities g)) = map fst (g_entities g)" by (induction "g_entities g") auto
  with d have "distinct (map en_key (map snd (g_entities g)))" by metis
  then show ?thesis unfolding pool_of_def by (rule distinct_map_filter)
qed

lemma distinct_concat_optional:
  "(\<And>x. f x = [] \<or> f x = [key x]) \<Longrightarrow> distinct (map key xs) \<Longrightarrow> distinct (concat (map f xs)) \<and> set (concat (map f xs)) \<subseteq> key ` set xs"
proof (induction xs)
  case (Cons x xs)
  from Cons.prems(1) [of x] Cons.IH [OF Cons.prems(1)] Cons.prems(2) show ?case by (auto 0 0) blast+
qed simp

lemma rank_seed_keys:
  "distinct (map en_key xs) \<Longrightarrow> distinct (map (\<lambda>p. sd_key (snd p)) (concat (map (rank_seed sh rnd question) xs)))"
  using distinct_concat_optional [of "\<lambda>en. map (\<lambda>p. sd_key (snd p)) (rank_seed sh rnd question en)" en_key xs]
  by (simp add: map_concat comp_def rank_seed_def Let_def)

lemma ranked_keys: "graph_ok g \<Longrightarrow> distinct (map sd_key (ranked_seeds sh rnd g question expected))"
proof -
  let ?L = "concat (map (rank_seed sh rnd question) (pool_of g expected))"
  assume "graph_ok g"
  then have "distinct (map (\<lambda>p. sd_key (snd p)) ?L)" using pool_keys rank_seed_keys by blast
  moreover have "mset (map (\<lambda>p. sd_key (snd p)) (sort_key fst ?L)) = mset (map (\<lambda>p. sd_key (snd p)) ?L)"
    by (simp only: mset_map mset_sort)
  ultimately have "distinct (map (\<lambda>p. sd_key (snd p)) (sort_key fst ?L))" by (metis mset_eq_imp_distinct_iff)
  then show ?thesis by (simp add: ranked_seeds_def comp_def)
qed

text \<open>
  The seeds of a question are distinct matches, at most as many as asked for; they cover as many themes as there
  are among the matches, or as there is room for; and when there is room left, every match is a seed.
\<close>

theorem seed_candidates_broad:
  assumes "graph_ok g" and "1 \<le> max_items"
    and ranked_def: "ranked = ranked_seeds sh rnd g question expected"
    and seeds_def: "seeds = seed_candidates sh rnd g question expected max_items"
  shows "distinct (map sd_key seeds) \<and> set seeds \<subseteq> set ranked \<and> int (length seeds) \<le> max_items \<and>
    min max_items (int (card (sd_theme ` set ranked))) \<le> int (card (sd_theme ` set seeds)) \<and>
    (int (length seeds) < max_items \<longrightarrow> set seeds = set ranked)"
proof -
  obtain sel full where pick: "pick_themes max_items ranked [] = (sel, full)" by fastforce
  from pick_themes_spec [OF pick] assms(2) have p: "distinct (map sd_theme sel)" "set sel \<subseteq> set ranked"
    "int (length sel) \<le> max_items"
    "if full then int (length sel) = max_items else int (length sel) < max_items \<and> sd_theme ` set ranked \<subseteq> sd_theme ` set sel"
    by auto
  have inj: "inj_on sd_key (set ranked)" using ranked_keys [OF assms(1)] unfolding ranked_def by (auto simp: distinct_map)
  have keys: "distinct (map sd_key sel)" using p(1,2) inj by (auto simp: distinct_map intro: inj_on_subset)
  have themes: "card (sd_theme ` set sel) = length sel" using distinct_card [OF p(1)] by simp
  show ?thesis
  proof (cases full)
    case True
    then have "seeds = sel" using pick by (simp add: seeds_def seed_candidates_def ranked_def Let_def)
    with True p keys themes show ?thesis by auto
  next
    case False
    then have s: "seeds = fill_seeds max_items ranked sel" using pick by (simp add: seeds_def seed_candidates_def ranked_def Let_def)
    with fill_seeds_spec [of sel max_items ranked] False p keys
    have f: "distinct (map sd_key seeds)" "set sel \<subseteq> set seeds" "set seeds \<subseteq> set ranked" "int (length seeds) \<le> max_items"
      "int (length seeds) < max_items \<longrightarrow> sd_key ` set ranked \<subseteq> sd_key ` set seeds" by auto
    have "sd_theme ` set ranked \<subseteq> sd_theme ` set sel" using p(4) False by simp
    also have "\<dots> \<subseteq> sd_theme ` set seeds" using f(2) by (rule image_mono)
    finally have "sd_theme ` set ranked \<subseteq> sd_theme ` set seeds" .
    then have "card (sd_theme ` set ranked) \<le> card (sd_theme ` set seeds)" by (simp add: card_mono)
    moreover have "set seeds = set ranked" if "int (length seeds) < max_items"
      using f(3,5) that inj by (metis inj_on_image_eq_iff subset_antisym image_mono order_refl)
    ultimately show ?thesis using f by auto
  qed
qed

end
