(* ===== verification/GraphDemo.thy ===== *)
theory GraphDemo
  imports FrontierDemo GraphProps GraphRelated GraphAnswers
begin

text \<open>
  A project whose workflow lists a lane before its parent: its graph, what is related to the child, and the seeds of a
  question.
\<close>

definition demo_child_lane :: pdict where
  "demo_child_lane = [(''id'', PStr ''L2''), (''role'', PStr ''worker''), (''parent_lane_id'', PStr ''L1'')]"

definition demo_root_lane :: pdict where
  "demo_root_lane = [(''id'', PStr ''L1''), (''role'', PStr ''lead'')]"

definition demo_workflow_project :: project_snapshot where
  "demo_workflow_project = demo_project\<lparr>snap_workflow :=
     [(''available'', PBool True),
      (''runs'', PList [PDict [(''id'', PStr ''R1''), (''root_task_id'', PStr ''B''),
         (''lanes'', PList [PDict demo_child_lane, PDict demo_root_lane])]])]\<rparr>"

abbreviation demo_graph_tasks :: reconciled_project where
  "demo_graph_tasks \<equiv> demo_frontier [''A'', ''B'']"

definition demo_graph :: "graph result" where
  "demo_graph = build_graph demo_show (\<lambda>_. None) demo_workflow_project demo_graph_tasks"

lemma demo_graph_result: obtains g where "build_graph demo_show (\<lambda>_. None) demo_workflow_project demo_graph_tasks = Inr g"
proof -
  have "\<exists>g. build_graph demo_show (\<lambda>_. None) demo_workflow_project demo_graph_tasks = Inr g"
    by (simp add: build_graph_def demo_frontier_def demo_workflow_project_def demo_project_def demo_child_lane_def demo_root_lane_def
        build_workflow_def build_workflow_records_def workflow_view_def each_dict_def iter_of_def as_dict_def list_field_def
        dget_def dget_or_def declare_run_def relate_run_def relate_lane_def Let_def)
  then show thesis using that by blast
qed

theorem project_graph_wellformed_witness: "\<exists>g. demo_graph = Inr g \<and> graph_ok g \<and> has_entity g ''task:A''"
proof -
  obtain g where g: "build_graph demo_show (\<lambda>_. None) demo_workflow_project demo_graph_tasks = Inr g" by (rule demo_graph_result)
  have "(''A'', [(''id'', PStr ''A''), (''frontier_eligible'', PBool True)]) \<in> set (rp_tasks demo_graph_tasks)"
    by (simp add: demo_frontier_def)
  with project_graph_wellformed [OF g] have "graph_ok g" "has_entity g (entity_key ''task'' ''A'')" by auto
  then show ?thesis using g by (intro exI [of _ g]) (simp add: demo_graph_def entity_key_def)
qed

theorem lane_parents_linked_witness:
  "\<exists>g e. demo_graph = Inr g \<and> e \<in> set (g_edges g) \<and> ed_source e = ''lane:L2'' \<and> ed_target e = ''lane:L1'' \<and> ed_relation e = ''child_lane''"
proof -
  obtain g where g: "build_graph demo_show (\<lambda>_. None) demo_workflow_project demo_graph_tasks = Inr g" by (rule demo_graph_result)
  have lanes: "view_lanes (snap_workflow demo_workflow_project) = [demo_child_lane, demo_root_lane]" by code_simp
  have "dget (snap_workflow demo_workflow_project) ''available'' = PBool True"
    "truthy (dget demo_child_lane ''parent_lane_id'')"
    "py_str demo_show (dget demo_child_lane ''parent_lane_id'') = py_str demo_show (dget demo_root_lane ''id'')"
    by code_simp+
  from lane_parents_linked [OF g this(1) _ _ this(2,3)] lanes
  obtain e where "e \<in> set (g_edges g)" "ed_source e = ref_key demo_show ''lane'' (dget demo_child_lane ''id'')"
    "ed_target e = ref_key demo_show ''lane'' (dget demo_root_lane ''id'')" "ed_relation e = ''child_lane''" by auto
  moreover have "ref_key demo_show ''lane'' (dget demo_child_lane ''id'') = ''lane:L2''"
    "ref_key demo_show ''lane'' (dget demo_root_lane ''id'') = ''lane:L1''" by code_simp+
  ultimately show ?thesis using g by (intro exI [of _ g] exI [of _ e]) (simp add: demo_graph_def)
qed

lemma demo_graph_ok: "\<exists>g. demo_graph = Inr g \<and> graph_ok g"
proof -
  obtain g where g: "build_graph demo_show (\<lambda>_. None) demo_workflow_project demo_graph_tasks = Inr g" by (rule demo_graph_result)
  obtain g1 g2 g3 where "graph_ok g" by (rule build_graph_stages [OF g])
  with g show ?thesis by (simp add: demo_graph_def)
qed

theorem related_exact_witness:
  "\<exists>g out. demo_graph = Inr g \<and> graph_ok g \<and> related g ''lane:L2'' 2 60 = Inr out \<and> rel_key ` set out \<subseteq> ball g ''lane:L2'' 2"
proof -
  obtain g where g: "demo_graph = Inr g" "graph_ok g" using demo_graph_ok by blast
  from related_exact [OF g(2), of "''lane:L2''" 2 60] g show ?thesis by auto
qed

theorem seed_candidates_broad_witness:
  "\<exists>g. demo_graph = Inr g \<and> graph_ok g \<and>
     distinct (map sd_key (seed_candidates demo_show (\<lambda>x _. x) g ''lane L1'' [] 24)) \<and>
     set (seed_candidates demo_show (\<lambda>x _. x) g ''lane L1'' [] 24) \<subseteq> set (ranked_seeds demo_show (\<lambda>x _. x) g ''lane L1'' [])"
proof -
  obtain g where g: "demo_graph = Inr g" "graph_ok g" using demo_graph_ok by blast
  have "(1 :: int) \<le> 24" by simp
  from seed_candidates_broad [OF g(2) this refl refl] g show ?thesis by blast
qed

end
