(* ===== verification/ChildIdentity.thy ===== *)
theory ChildIdentity
  imports Json PyBuiltins
begin

text \<open>
  The issuer of child credentials (\<^verbatim>\<open>src/src/project_control/native_child_identity.py\<close>): process-local, one-use
  identities for delegated children.  The lock makes every call one step on the two dictionaries.  \<^verbatim>\<open>sha256\<close>, the random
  token and subject and the monotonic clock are arguments; text is ASCII.
\<close>

section \<open>Arguments\<close>

text \<open>A Python object as far as the checks look at it: text, a tuple, or something else.\<close>

datatype obj = OText string | OTuple "obj list" | OOther

definition required_text :: "obj \<Rightarrow> string \<Rightarrow> nat \<Rightarrow> string result" where
  "required_text v field limit =
     (case v of
        OText s \<Rightarrow>
          if strip s = [] \<or> s \<noteq> strip s then Inl (ChildCredentialUnavailable (field @ '' is invalid''))
          else if length s > limit then Inl (ChildCredentialUnavailable (field @ '' is too long''))
          else Inr s
      | _ \<Rightarrow> Inl (ChildCredentialUnavailable (field @ '' is invalid'')))"

definition scope_row :: "string \<Rightarrow> obj \<Rightarrow> (string \<times> string) result" where
  "scope_row label item =
     (case item of
        OTuple [a, b] \<Rightarrow> bindR (required_text a label 512) (\<lambda>x. bindR (required_text b label 32) (\<lambda>y. Inr (x, y)))
      | _ \<Rightarrow> Inl (ChildCredentialUnavailable (''child '' @ label @ '' are invalid'')))"

definition scope_rows :: "obj \<Rightarrow> string \<Rightarrow> (string \<times> string) list result" where
  "scope_rows v label =
     (case v of
        OTuple items \<Rightarrow>
          if int (length items) > 4096 then Inl (ChildCredentialUnavailable (''child '' @ label @ '' are invalid''))
          else mapR (scope_row label) items
      | _ \<Rightarrow> Inl (ChildCredentialUnavailable (''child '' @ label @ '' are invalid'')))"

record delegation_request =
  cq_project :: obj
  cq_principal :: obj
  cq_profile :: obj
  cq_parent_attempt :: obj
  cq_execution :: obj
  cq_logical :: obj
  cq_paths :: obj
  cq_locks :: obj
  cq_actions :: obj
  cq_idempotency :: obj

definition action_ids :: "obj \<Rightarrow> string list result" where
  "action_ids v =
     (case v of
        OTuple acts \<Rightarrow>
          if acts = [] \<or> length acts > 128 then Inl (ChildCredentialUnavailable ''child action set is invalid'')
          else bindR (mapR (\<lambda>a. required_text a ''action'' 512) acts) (\<lambda>ids.
            if \<not> distinct ids then Inl (ChildCredentialUnavailable ''child action set is not unique'') else Inr ids)
      | _ \<Rightarrow> Inl (ChildCredentialUnavailable ''child action set is invalid''))"

definition row_pv :: "string \<times> string \<Rightarrow> pv" where
  "row_pv = (\<lambda>(a, b). PList [PStr a, PStr b])"

text \<open>The checked request as the object that is digested, with its project.\<close>

definition child_binding :: "delegation_request \<Rightarrow> (string \<times> pv) result" where
  "child_binding q =
     bindR (required_text (cq_project q) ''project_id'' 512) (\<lambda>project.
     bindR (required_text (cq_principal q) ''principal'' 512) (\<lambda>principal.
     bindR (required_text (cq_profile q) ''profile'' 512) (\<lambda>profile.
     bindR (required_text (cq_parent_attempt q) ''parent_attempt_id'' 512) (\<lambda>parent.
     bindR (required_text (cq_execution q) ''execution_id'' 512) (\<lambda>execution.
     bindR (required_text (cq_logical q) ''logical_id'' 512) (\<lambda>logical.
     bindR (required_text (cq_idempotency q) ''idempotency_key'' 512) (\<lambda>idempotency.
     bindR (scope_rows (cq_paths q) ''paths'') (\<lambda>paths.
     bindR (scope_rows (cq_locks q) ''locks'') (\<lambda>locks.
     bindR (action_ids (cq_actions q)) (\<lambda>actions.
     Inr (project, PDict
       [(''project_id'', PStr project), (''principal'', PStr principal), (''profile'', PStr profile),
        (''parent_attempt_id'', PStr parent), (''execution_id'', PStr execution), (''logical_id'', PStr logical),
        (''scope'', PDict [(''paths'', PList (map row_pv paths)), (''locks'', PList (map row_pv locks))]),
        (''actions'', PList (map PStr actions)), (''idempotency_key'', PStr idempotency)])))))))))))"

section \<open>The issuer\<close>

definition PENDING_TTL_SECONDS :: real where
  "PENDING_TTL_SECONDS = 60"

definition SUBJECT_TTL_SECONDS :: real where
  "SUBJECT_TTL_SECONDS = 86400"

definition MAX_PENDING_CREDENTIALS :: int where
  "MAX_PENDING_CREDENTIALS = 1024"

definition MAX_BOUND_IDENTITIES :: int where
  "MAX_BOUND_IDENTITIES = 8192"

record child_credential =
  cc_token :: string
  cc_project :: string
  cc_binding :: string

record pending_identity =
  pi_project :: string
  pi_subject :: string
  pi_binding :: string
  pi_expires :: real

record issuer =
  is_pending :: "(string \<times> pending_identity) list"
  is_subjects :: "(string \<times> (string \<times> real)) list"

definition new_issuer :: issuer where
  "new_issuer = \<lparr>is_pending = [], is_subjects = []\<rparr>"

definition prune_issuer :: "real \<Rightarrow> issuer \<Rightarrow> issuer" where
  "prune_issuer now st =
     st\<lparr>is_pending := filter (\<lambda>p. pi_expires (snd p) > now) (is_pending st),
        is_subjects := filter (\<lambda>p. snd (snd p) > now) (is_subjects st)\<rparr>"

text \<open>\<^verbatim>\<open>min(subjects, key=...)\<close>: the first of those that expire first.\<close>

fun oldest_subject :: "string \<times> (string \<times> real) \<Rightarrow> (string \<times> (string \<times> real)) list \<Rightarrow> string" where
  "oldest_subject best [] = fst best"
| "oldest_subject best (p # ps) = oldest_subject (if snd (snd p) < snd (snd best) then p else best) ps"

definition make_room :: "(string \<times> (string \<times> real)) list \<Rightarrow> (string \<times> (string \<times> real)) list" where
  "make_room subjects =
     (if int (length subjects) \<ge> MAX_BOUND_IDENTITIES then
        (case subjects of [] \<Rightarrow> [] | p # ps \<Rightarrow> AList.delete (oldest_subject p ps) subjects)
      else subjects)"

definition bind_subject :: "string \<Rightarrow> string \<Rightarrow> real \<Rightarrow> issuer \<Rightarrow> string \<times> issuer" where
  "bind_subject digest fresh now st =
     (let renew = (fresh, st\<lparr>is_subjects := AList.update digest (fresh, now + SUBJECT_TTL_SECONDS) (make_room (is_subjects st))\<rparr>) in
      case map_of (is_subjects st) digest of
        None \<Rightarrow> renew
      | Some (subject, expires) \<Rightarrow> if expires \<le> now then renew else (subject, st))"

definition issue_child ::
  "(string \<Rightarrow> string) \<Rightarrow> delegation_request \<Rightarrow> string \<Rightarrow> string \<Rightarrow> real \<Rightarrow> issuer \<Rightarrow> child_credential result \<times> issuer" where
  "issue_child sha q token fresh now st =
     (case child_binding q of
        Inl e \<Rightarrow> (Inl e, st)
      | Inr (project, binding) \<Rightarrow>
          (let digest = sha (json_enc (\<lambda>_. []) binding); st1 = prune_issuer now st in
           if int (length (is_pending st1)) \<ge> MAX_PENDING_CREDENTIALS
           then (Inl (ChildCredentialUnavailable ''too many pending child credentials''), st1)
           else
             (case bind_subject digest fresh now st1 of (subject, st2) \<Rightarrow>
                (Inr \<lparr>cc_token = token, cc_project = project, cc_binding = digest\<rparr>,
                 st2\<lparr>is_pending := AList.update (sha token)
                   \<lparr>pi_project = project, pi_subject = subject, pi_binding = digest, pi_expires = now + PENDING_TTL_SECONDS\<rparr>
                   (is_pending st2)\<rparr>))))"

text \<open>
  \<^verbatim>\<open>_authenticate\<close>: the pending identity is consumed before it is looked at.  The principal of the result is given by
  its subject.
\<close>

definition authenticate_child ::
  "(string \<Rightarrow> string) \<Rightarrow> child_credential \<Rightarrow> string \<Rightarrow> real \<Rightarrow> issuer \<Rightarrow> string option \<times> issuer" where
  "authenticate_child sha c project now st =
     (let k = sha (cc_token c); st' = st\<lparr>is_pending := AList.delete k (is_pending st)\<rparr> in
      (case map_of (is_pending st) k of
         None \<Rightarrow> None
       | Some p \<Rightarrow>
           if pi_expires p \<le> now \<or> pi_project p \<noteq> project \<or> cc_project c \<noteq> project \<or> pi_binding p \<noteq> cc_binding c then None
           else Some (pi_subject p), st'))"

section \<open>Histories\<close>

datatype child_event =
    Issue delegation_request string string real "child_credential result"
  | Auth child_credential string real "string option"

inductive child_history :: "(string \<Rightarrow> string) \<Rightarrow> child_event list \<Rightarrow> issuer \<Rightarrow> bool" for sha where
  history_start: "child_history sha [] new_issuer"
| history_issue: "child_history sha evs st \<Longrightarrow> issue_child sha q token fresh now st = (r, st') \<Longrightarrow>
    child_history sha (evs @ [Issue q token fresh now r]) st'"
| history_auth: "child_history sha evs st \<Longrightarrow> authenticate_child sha c project now st = (r, st') \<Longrightarrow>
    child_history sha (evs @ [Auth c project now r]) st'"

end
