(* ===== verification/ChildIdentityProps.thy ===== *)
theory ChildIdentityProps
  imports ChildIdentity Machine
begin

text \<open>
  What the credential issuer promises over every history of calls: a credential is accepted at most once, in its own
  project, within its minute and for the request it was issued for, and the two dictionaries stay bounded.
\<close>

section \<open>What a history shows\<close>

definition issued :: "(string \<Rightarrow> string) \<Rightarrow> string \<Rightarrow> child_event \<Rightarrow> bool" where
  "issued sha k ev = (case ev of Issue q token fresh now r \<Rightarrow> sha token = k \<and> isl r = False | _ \<Rightarrow> False)"

definition accepted :: "(string \<Rightarrow> string) \<Rightarrow> string \<Rightarrow> child_event \<Rightarrow> bool" where
  "accepted sha k ev = (case ev of Auth c project now r \<Rightarrow> sha (cc_token c) = k \<and> r \<noteq> None | _ \<Rightarrow> False)"

definition how_often :: "('a \<Rightarrow> bool) \<Rightarrow> 'a list \<Rightarrow> nat" where
  "how_often P xs = length (filter P xs)"

text \<open>An event that issued a credential for a project and binding, and one that made a subject for a binding.\<close>

definition issues_for :: "(string \<Rightarrow> string) \<Rightarrow> string \<Rightarrow> string \<Rightarrow> string \<Rightarrow> real \<Rightarrow> child_event \<Rightarrow> bool" where
  "issues_for sha k project binding now ev =
     (case ev of
        Issue q token fresh t r \<Rightarrow> sha token = k \<and> t = now \<and> r = Inr \<lparr>cc_token = token, cc_project = project, cc_binding = binding\<rparr>
      | _ \<Rightarrow> False)"

definition makes_subject :: "string \<Rightarrow> string \<Rightarrow> child_event \<Rightarrow> bool" where
  "makes_subject binding subject ev =
     (case ev of Issue q token fresh t r \<Rightarrow> fresh = subject \<and> (\<exists>c. r = Inr c \<and> cc_binding c = binding) | _ \<Rightarrow> False)"

section \<open>The invariant\<close>

text \<open>
  Both dictionaries are bounded; every pending identity and every subject comes from a call that issued it; and the calls
  that accepted a token, with its pending identity, are at most the calls that issued it.
\<close>

definition bounded :: "issuer \<Rightarrow> bool" where
  "bounded st \<longleftrightarrow> int (length (is_pending st)) \<le> MAX_PENDING_CREDENTIALS \<and> int (length (is_subjects st)) \<le> MAX_BOUND_IDENTITIES"

definition subject_made :: "child_event list \<Rightarrow> string \<Rightarrow> string \<Rightarrow> bool" where
  "subject_made evs b subject \<longleftrightarrow> (\<exists>ev \<in> set evs. makes_subject b subject ev)"

definition subjects_made :: "child_event list \<Rightarrow> issuer \<Rightarrow> bool" where
  "subjects_made evs st \<longleftrightarrow> (\<forall>b subject expires. (b, subject, expires) \<in> set (is_subjects st) \<longrightarrow> subject_made evs b subject)"

definition pending_made :: "(string \<Rightarrow> string) \<Rightarrow> child_event list \<Rightarrow> string \<Rightarrow> pending_identity \<Rightarrow> bool" where
  "pending_made sha evs k p \<longleftrightarrow>
     (\<exists>ev \<in> set evs. issues_for sha k (pi_project p) (pi_binding p) (pi_expires p - PENDING_TTL_SECONDS) ev) \<and>
     subject_made evs (pi_binding p) (pi_subject p)"

definition all_pending_made :: "(string \<Rightarrow> string) \<Rightarrow> child_event list \<Rightarrow> issuer \<Rightarrow> bool" where
  "all_pending_made sha evs st \<longleftrightarrow> (\<forall>k p. (k, p) \<in> set (is_pending st) \<longrightarrow> pending_made sha evs k p)"

definition counted :: "(string \<Rightarrow> string) \<Rightarrow> child_event list \<Rightarrow> issuer \<Rightarrow> bool" where
  "counted sha evs st \<longleftrightarrow>
     (\<forall>k. how_often (accepted sha k) evs + (if k \<in> fst ` set (is_pending st) then 1 else 0) \<le> how_often (issued sha k) evs)"

definition issuer_ok :: "(string \<Rightarrow> string) \<Rightarrow> child_event list \<Rightarrow> issuer \<Rightarrow> bool" where
  "issuer_ok sha evs st \<longleftrightarrow> bounded st \<and> subjects_made evs st \<and> all_pending_made sha evs st \<and> counted sha evs st"

lemmas issuer_defs = bounded_def subjects_made_def all_pending_made_def counted_def

lemma how_often_snoc [simp]: "how_often P (xs @ [x]) = how_often P xs + (if P x then 1 else 0)"
  by (simp add: how_often_def)

lemma length_update_le: "length (AList.update k v xs) \<le> Suc (length xs)"
  by (induction xs) auto

lemma length_delete_less: "k \<in> fst ` set xs \<Longrightarrow> length (AList.delete k xs) < length xs"
  by (induction xs) (auto simp: AList.delete_eq le_imp_less_Suc)

lemma delete_subset: "set (AList.delete k xs) \<subseteq> set xs"
  by (auto simp: AList.delete_eq)

lemma oldest_subject_in: "oldest_subject p ps \<in> fst ` set (p # ps)"
proof (induction ps arbitrary: p)
  case (Cons x xs)
  show ?case using Cons.IH [of x] Cons.IH [of p] by (cases "snd (snd x) < snd (snd p)") auto
qed simp

lemma make_room_cons:
  "make_room (p # ps) = (if int (length (p # ps)) \<ge> MAX_BOUND_IDENTITIES then AList.delete (oldest_subject p ps) (p # ps) else p # ps)"
  by (simp add: make_room_def)

lemma make_room_room:
  assumes "int (length xs) \<le> MAX_BOUND_IDENTITIES"
  shows "int (length (make_room xs)) < MAX_BOUND_IDENTITIES"
proof (cases xs)
  case Nil
  then show ?thesis by (simp add: make_room_def MAX_BOUND_IDENTITIES_def)
next
  case (Cons p ps)
  have "length (AList.delete (oldest_subject p ps) (p # ps)) < length (p # ps)"
    by (rule length_delete_less [OF oldest_subject_in])
  then show ?thesis using assms Cons by (simp only: make_room_cons split: if_split) linarith
qed

lemma make_room_subset: "set (make_room xs) \<subseteq> set xs"
  by (cases xs) (simp_all only: make_room_cons delete_subset subset_refl make_room_def list.case if_cancel split: if_split, simp_all)

lemma filter_length_int: "int (length xs) \<le> m \<Longrightarrow> int (length (filter P xs)) \<le> m"
  using length_filter_le [of P xs] by linarith

lemma length_update_int: "int (length xs) < m \<Longrightarrow> int (length (AList.update k v xs)) \<le> m"
  using length_update_le [of k v xs] by linarith

lemma length_delete_int: "int (length xs) \<le> m \<Longrightarrow> int (length (AList.delete k xs)) \<le> m"
  by (simp add: AList.delete_eq filter_length_int)

text \<open>A longer history vouches for what a shorter one does, and pruning keeps the invariant.\<close>

lemma subject_made_more: "subject_made evs b s \<Longrightarrow> subject_made (evs @ new) b s"
  by (auto simp: subject_made_def)

lemma pending_made_more: "pending_made sha evs k p \<Longrightarrow> pending_made sha (evs @ new) k p"
  by (auto simp: pending_made_def subject_made_more)

lemma subjects_made_more: "subjects_made evs st \<Longrightarrow> subjects_made (evs @ new) st"
  by (auto simp: subjects_made_def intro: subject_made_more)

lemma all_pending_made_more: "all_pending_made sha evs st \<Longrightarrow> all_pending_made sha (evs @ new) st"
  by (auto simp: all_pending_made_def intro: pending_made_more)

lemma counted_fewer:
  assumes "counted sha evs st" and "set (is_pending st') \<subseteq> set (is_pending st)"
  shows "counted sha evs st'"
  unfolding counted_def
proof
  fix k
  have "(if k \<in> fst ` set (is_pending st') then 1 else 0) \<le> (if k \<in> fst ` set (is_pending st) then 1 else (0 :: nat))"
    using image_mono [OF assms(2), of fst] by auto
  then show "how_often (accepted sha k) evs + (if k \<in> fst ` set (is_pending st') then 1 else 0) \<le> how_often (issued sha k) evs"
    using assms(1) [unfolded counted_def, rule_format, of k] by linarith
qed

lemma counted_le: "counted sha evs st \<Longrightarrow> how_often (accepted sha k) evs \<le> how_often (issued sha k) evs"
  by (meson add_leD1 counted_def)

lemma issuer_ok_prune: "issuer_ok sha evs st \<Longrightarrow> issuer_ok sha evs (prune_issuer now st)"
  by (auto simp: issuer_ok_def bounded_def subjects_made_def all_pending_made_def prune_issuer_def filter_length_int
      intro: counted_fewer)

lemma counted_silent:
  assumes "counted sha evs st" and "\<And>k. \<not> accepted sha k ev"
  shows "counted sha (evs @ [ev]) st"
  unfolding counted_def
proof
  fix k
  show "how_often (accepted sha k) (evs @ [ev]) + (if k \<in> fst ` set (is_pending st) then 1 else 0)
      \<le> how_often (issued sha k) (evs @ [ev])"
    using assms(1) [unfolded counted_def, rule_format, of k] by (simp add: assms(2))
qed

lemma issuer_ok_silent:
  "issuer_ok sha evs st \<Longrightarrow> (\<And>k. \<not> accepted sha k ev) \<Longrightarrow> issuer_ok sha (evs @ [ev]) st"
  by (simp add: issuer_ok_def subjects_made_more all_pending_made_more counted_silent)

section \<open>Issuing\<close>

text \<open>Binding a subject leaves the pending identities alone, and its subject is made for the digest.\<close>

lemma bind_subject_pending: "bind_subject digest fresh now st = (s, st') \<Longrightarrow> is_pending st' = is_pending st"
  by (auto simp: bind_subject_def Let_def split: option.splits if_splits)

lemma bind_subject_cases:
  assumes "bind_subject digest fresh now st = (s, st')"
  obtains (kept) expires where "(digest, s, expires) \<in> set (is_subjects st)" "st' = st"
  | (fresh) "s = fresh" "is_subjects st' = AList.update digest (fresh, now + SUBJECT_TTL_SECONDS) (make_room (is_subjects st))"
proof (cases "\<exists>subject expires. map_of (is_subjects st) digest = Some (subject, expires) \<and> \<not> expires \<le> now")
  case True
  then obtain subject expires where found: "map_of (is_subjects st) digest = Some (subject, expires)" "\<not> expires \<le> now"
    by (elim exE conjE)
  then have "s = subject" "st' = st" using assms by (simp_all add: bind_subject_def Let_def)
  then show thesis using map_of_SomeD [OF found(1)] kept by simp
next
  case False
  then have "s = fresh" "is_subjects st' = AList.update digest (fresh, now + SUBJECT_TTL_SECONDS) (make_room (is_subjects st))"
    using assms by (auto simp: bind_subject_def Let_def split: option.splits)
  then show thesis by (rule fresh)
qed

lemma bind_subject_bounded:
  assumes "bind_subject digest fresh now st = (s, st')" "int (length (is_subjects st)) \<le> MAX_BOUND_IDENTITIES"
  shows "int (length (is_subjects st')) \<le> MAX_BOUND_IDENTITIES"
  using assms(1)
  by (cases rule: bind_subject_cases) (use assms(2) in \<open>simp_all add: length_update_int make_room_room\<close>)

lemma bind_subject_made:
  assumes "bind_subject digest fresh now st = (s, st')" "subjects_made evs st" "subject_made evs digest fresh"
  shows "subject_made evs digest s \<and> subjects_made evs st'"
  using assms(1)
proof (cases rule: bind_subject_cases)
  case kept
  then show ?thesis using assms(2) by (auto simp: subjects_made_def)
next
  case fresh
  have "subject_made evs b subject" if "(b, subject, expires) \<in> set (is_subjects st')" for b subject expires
    using in_update [OF that [unfolded fresh(2)]] assms(2,3) make_room_subset [of "is_subjects st"]
    by (auto simp: subjects_made_def)
  then show ?thesis using fresh(1) assms(3) by (auto simp: subjects_made_def)
qed

text \<open>The three ways a call to issue ends.\<close>

lemma issue_child_cases:
  assumes "issue_child sha q token fresh now st = (r, st')"
  obtains (invalid) e where "r = Inl e" "st' = st"
  | (full) e where "r = Inl e" "st' = prune_issuer now st"
  | (new) project digest s st2 where "r = Inr \<lparr>cc_token = token, cc_project = project, cc_binding = digest\<rparr>"
      "int (length (is_pending (prune_issuer now st))) < MAX_PENDING_CREDENTIALS"
      "bind_subject digest fresh now (prune_issuer now st) = (s, st2)"
      "st' = st2\<lparr>is_pending := AList.update (sha token)
         \<lparr>pi_project = project, pi_subject = s, pi_binding = digest, pi_expires = now + PENDING_TTL_SECONDS\<rparr> (is_pending st2)\<rparr>"
  using assms
  by (auto simp: issue_child_def Let_def not_le split: sum.splits prod.splits if_splits)

lemma issue_child_ok:
  assumes ok: "issuer_ok sha evs st" and issue: "issue_child sha q token fresh now st = (r, st')"
  shows "issuer_ok sha (evs @ [Issue q token fresh now r]) st'"
  using issue
proof (cases rule: issue_child_cases)
  case invalid
  show ?thesis unfolding invalid(2) by (rule issuer_ok_silent [OF ok]) (simp add: accepted_def)
next
  case full
  show ?thesis unfolding full(2) by (rule issuer_ok_silent [OF issuer_ok_prune [OF ok]]) (simp add: accepted_def)
next
  case (new project digest s st2)
  let ?evs = "evs @ [Issue q token fresh now r]"
  let ?st1 = "prune_issuer now st"
  have ok1: "issuer_ok sha evs ?st1" by (rule issuer_ok_prune [OF ok])
  have here: "subject_made ?evs digest fresh" using new(1) by (simp add: subject_made_def makes_subject_def)
  have pending: "is_pending st2 = is_pending ?st1" by (rule bind_subject_pending [OF new(3)])
  have made: "subject_made ?evs digest s \<and> subjects_made ?evs st2"
    by (rule bind_subject_made [OF new(3) _ here]) (use ok1 in \<open>simp add: issuer_ok_def subjects_made_more\<close>)
  have "bounded st'"
    using new(2) ok1 bind_subject_bounded [OF new(3)] pending
    by (simp add: new(4) bounded_def issuer_ok_def length_update_int)
  moreover have "subjects_made ?evs st'" using made by (simp add: new(4) subjects_made_def)
  moreover have "all_pending_made sha ?evs st'"
  proof -
    have "all_pending_made sha ?evs ?st1" using ok1 by (simp add: issuer_ok_def all_pending_made_more)
    then show ?thesis
      using made new(1) pending
      by (auto simp: new(4) all_pending_made_def dest!: in_update)
        (simp add: pending_made_def issues_for_def)
  qed
  moreover have "counted sha ?evs st'"
    using ok1 pending new(1) counted_le [of sha evs ?st1]
    by (auto simp: new(4) issuer_ok_def counted_def dom_update accepted_def issued_def split: if_splits)
  ultimately show ?thesis by (simp add: issuer_ok_def)
qed

section \<open>Authenticating\<close>

lemma authenticate_child_some:
  assumes "authenticate_child sha c project now st = (Some s, st')"
  obtains p where "(sha (cc_token c), p) \<in> set (is_pending st)" "now < pi_expires p" "pi_project p = project"
    "cc_project c = project" "pi_binding p = cc_binding c" "pi_subject p = s"
  using assms by (auto simp: authenticate_child_def Let_def not_le dest: map_of_SomeD split: option.splits if_splits)

lemma authenticate_child_state:
  "authenticate_child sha c project now st = (r, st') \<Longrightarrow> st' = st\<lparr>is_pending := AList.delete (sha (cc_token c)) (is_pending st)\<rparr>"
  by (simp add: authenticate_child_def Let_def)

lemma authenticate_child_counted:
  assumes counted: "counted sha evs st" and auth: "authenticate_child sha c project now st = (r, st')"
  shows "counted sha (evs @ [Auth c project now r]) st'"
  unfolding counted_def
proof
  fix k
  have keys: "fst ` set (is_pending st') = fst ` set (is_pending st) - {sha (cc_token c)}"
    by (auto simp: authenticate_child_state [OF auth] AList.delete_eq image_iff)
  have known: "r \<noteq> None \<Longrightarrow> sha (cc_token c) \<in> fst ` set (is_pending st)"
    using auth by (cases r) (auto elim!: authenticate_child_some intro: rev_image_eqI)
  show "how_often (accepted sha k) (evs @ [Auth c project now r]) + (if k \<in> fst ` set (is_pending st') then 1 else 0)
      \<le> how_often (issued sha k) (evs @ [Auth c project now r])"
    using counted [unfolded counted_def, rule_format, of k] known by (auto simp: keys accepted_def issued_def split: if_splits)
qed

lemma authenticate_child_ok:
  assumes ok: "issuer_ok sha evs st" and auth: "authenticate_child sha c project now st = (r, st')"
  shows "issuer_ok sha (evs @ [Auth c project now r]) st'"
proof -
  have fewer: "set (is_pending st') \<subseteq> set (is_pending st)"
    by (simp add: authenticate_child_state [OF auth] delete_subset)
  have "bounded st'" "subjects_made (evs @ [Auth c project now r]) st'"
    using ok by (simp_all add: authenticate_child_state [OF auth] issuer_ok_def bounded_def length_delete_int
        subjects_made_def subject_made_more)
  moreover have "all_pending_made sha (evs @ [Auth c project now r]) st'"
    using ok fewer by (auto simp: issuer_ok_def all_pending_made_def intro: pending_made_more)
  ultimately show ?thesis using authenticate_child_counted [OF _ auth] ok by (simp add: issuer_ok_def)
qed

lemma child_history_ok: "child_history sha evs st \<Longrightarrow> issuer_ok sha evs st"
proof (induction rule: child_history.induct)
  case history_start
  show ?case
    by (simp add: issuer_ok_def bounded_def subjects_made_def all_pending_made_def counted_def how_often_def new_issuer_def
        MAX_PENDING_CREDENTIALS_def MAX_BOUND_IDENTITIES_def)
qed (simp_all only: issue_child_ok authenticate_child_ok)

inductive_cases history_snoc: "child_history sha (evs @ [ev]) st"

lemma child_history_prefix: "child_history sha (pre @ post) st \<Longrightarrow> \<exists>st1. child_history sha pre st1"
proof (induction post arbitrary: st rule: rev_induct)
  case (snoc ev post)
  from snoc.prems have "child_history sha ((pre @ post) @ [ev]) st" by simp
  then obtain st1 where "child_history sha (pre @ post) st1" by (elim history_snoc) (erule that)+
  then show ?case by (rule snoc.IH)
qed auto

section \<open>Properties\<close>

text \<open>
  C7. Over every history of calls, a token is accepted at most as often as it was issued -- a credential authenticates once --
  and there are never more than 1024 pending credentials nor more than 8192 bound identities.
\<close>

theorem child_credential_once:
  assumes "child_history sha evs st"
  shows "how_often (accepted sha k) evs \<le> how_often (issued sha k) evs \<and>
    length (is_pending st) \<le> 1024 \<and> length (is_subjects st) \<le> 8192"
  using child_history_ok [OF assms] counted_le [of sha evs st k]
  by (simp add: issuer_ok_def bounded_def MAX_PENDING_CREDENTIALS_def MAX_BOUND_IDENTITIES_def)

text \<open>
  C8. A credential is only ever accepted in the project it was issued for, with the binding it was issued with and less than a
  minute after; the subject it gives was made for that binding.
\<close>

theorem child_credential_bound:
  assumes "child_history sha (pre @ Auth c project now (Some s) # post) st"
  shows "cc_project c = project \<and> subject_made pre (cc_binding c) s \<and>
    (\<exists>t. now < t + 60 \<and> (\<exists>ev \<in> set pre. issues_for sha (sha (cc_token c)) project (cc_binding c) t ev))"
proof -
  from assms have "child_history sha ((pre @ [Auth c project now (Some s)]) @ post) st" by simp
  from child_history_prefix [OF this] obtain st1 where "child_history sha (pre @ [Auth c project now (Some s)]) st1" ..
  then obtain st0 where hist: "child_history sha pre st0" and auth: "authenticate_child sha c project now st0 = (Some s, st1)"
    by (elim history_snoc) auto
  from auth obtain p where p: "(sha (cc_token c), p) \<in> set (is_pending st0)" "now < pi_expires p" "pi_project p = project"
    "cc_project c = project" "pi_binding p = cc_binding c" "pi_subject p = s"
    by (rule authenticate_child_some)
  have "pending_made sha pre (sha (cc_token c)) p"
    using child_history_ok [OF hist] p(1) by (simp add: issuer_ok_def all_pending_made_def)
  then show ?thesis using p by (auto simp: pending_made_def PENDING_TTL_SECONDS_def intro!: exI [of _ "pi_expires p - 60"])
qed

text \<open>
  A credential that was just issued is accepted in its project for a minute; once it was tried, whether it was accepted or
  not, it is refused.
\<close>

theorem child_credential_usable:
  assumes "issue_child sha q token fresh now st = (Inr c, st1)"
  shows "(t < now + 60 \<longrightarrow> (\<exists>s. fst (authenticate_child sha c (cc_project c) t st1) = Some s)) \<and>
    (t \<ge> now + 60 \<longrightarrow> fst (authenticate_child sha c project t st1) = None) \<and>
    fst (authenticate_child sha c project2 t2 (snd (authenticate_child sha c project1 t1 st1))) = None"
  using assms
proof (cases rule: issue_child_cases)
  case (new project digest s st2)
  then show ?thesis
    by (auto simp: authenticate_child_def Let_def update_conv' delete_conv' PENDING_TTL_SECONDS_def)
qed simp_all

end
