(* ===== verification/ChildIdentityDemo.thy ===== *)
theory ChildIdentityDemo
  imports ChildIdentityProps
begin

text \<open>
  A delegation followed through: a credential is issued, accepted once and refused the second time.  The digest is the
  identity function, which is injective.
\<close>

definition demo_child :: delegation_request where
  "demo_child = \<lparr>cq_project = OText ''p'', cq_principal = OText ''u'', cq_profile = OText ''w'', cq_parent_attempt = OText ''a'',
     cq_execution = OText ''x'', cq_logical = OText ''l'', cq_paths = OTuple [OTuple [OText ''src'', OText ''write'']],
     cq_locks = OTuple [], cq_actions = OTuple [OText ''do''], cq_idempotency = OText ''k''\<rparr>"

definition demo_child_digest :: string where
  "demo_child_digest = json_enc (\<lambda>_. []) (snd (projr (child_binding demo_child)))"

definition demo_credential :: child_credential where
  "demo_credential = \<lparr>cc_token = ''t'', cc_project = ''p'', cc_binding = demo_child_digest\<rparr>"

definition demo_issued :: issuer where
  "demo_issued = \<lparr>is_pending = [(''t'', \<lparr>pi_project = ''p'', pi_subject = ''pc-child-1'', pi_binding = demo_child_digest, pi_expires = 60\<rparr>)],
     is_subjects = [(demo_child_digest, ''pc-child-1'', 86400)]\<rparr>"

definition demo_used :: issuer where
  "demo_used = demo_issued\<lparr>is_pending := []\<rparr>"

lemma demo_binding: "child_binding demo_child = Inr (''p'', snd (projr (child_binding demo_child)))"
  by code_simp

lemma demo_issue_value: "issue_child (\<lambda>s. s) demo_child ''t'' ''pc-child-1'' 0 new_issuer = (Inr demo_credential, demo_issued)"
  by (subst issue_child_def, subst demo_binding)
    (simp add: new_issuer_def prune_issuer_def bind_subject_def make_room_def demo_credential_def demo_issued_def
      demo_child_digest_def [symmetric] MAX_PENDING_CREDENTIALS_def MAX_BOUND_IDENTITIES_def PENDING_TTL_SECONDS_def
      SUBJECT_TTL_SECONDS_def)

lemma demo_auth_value: "authenticate_child (\<lambda>s. s) demo_credential ''p'' 1 demo_issued = (Some ''pc-child-1'', demo_used)"
  by (simp add: authenticate_child_def demo_credential_def demo_issued_def demo_used_def)

lemma demo_reuse_value: "authenticate_child (\<lambda>s. s) demo_credential ''p'' 2 demo_used = (None, demo_used)"
  by (simp add: authenticate_child_def demo_credential_def demo_used_def)

lemma demo_child_history:
  "child_history (\<lambda>s. s)
     [Issue demo_child ''t'' ''pc-child-1'' 0 (Inr demo_credential), Auth demo_credential ''p'' 1 (Some ''pc-child-1''),
      Auth demo_credential ''p'' 2 None] demo_used"
proof -
  have "child_history (\<lambda>s. s) ([] @ [Issue demo_child ''t'' ''pc-child-1'' 0 (Inr demo_credential)]) demo_issued"
    by (rule history_issue [OF history_start demo_issue_value])
  from history_auth [OF history_auth [OF this demo_auth_value] demo_reuse_value] show ?thesis by simp
qed

theorem child_credential_once_witness:
  "how_often (accepted (\<lambda>s. s) ''t'')
     [Issue demo_child ''t'' ''pc-child-1'' 0 (Inr demo_credential), Auth demo_credential ''p'' 1 (Some ''pc-child-1''),
      Auth demo_credential ''p'' 2 None] = 1 \<and>
   how_often (accepted (\<lambda>s. s) ''t'')
     [Issue demo_child ''t'' ''pc-child-1'' 0 (Inr demo_credential), Auth demo_credential ''p'' 1 (Some ''pc-child-1''),
      Auth demo_credential ''p'' 2 None] \<le>
   how_often (issued (\<lambda>s. s) ''t'')
     [Issue demo_child ''t'' ''pc-child-1'' 0 (Inr demo_credential), Auth demo_credential ''p'' 1 (Some ''pc-child-1''),
      Auth demo_credential ''p'' 2 None]"
  using child_credential_once [OF demo_child_history, of "''t''"]
  by (simp add: how_often_def accepted_def demo_credential_def)

theorem child_credential_bound_witness:
  "cc_project demo_credential = ''p'' \<and>
   subject_made [Issue demo_child ''t'' ''pc-child-1'' 0 (Inr demo_credential)] (cc_binding demo_credential) ''pc-child-1''"
  using child_credential_bound [of "\<lambda>s. s" "[Issue demo_child ''t'' ''pc-child-1'' 0 (Inr demo_credential)]"
      demo_credential "''p''" 1 "''pc-child-1''" "[Auth demo_credential ''p'' 2 None]" demo_used] demo_child_history
  by simp

theorem child_credential_usable_witness:
  "\<exists>s. fst (authenticate_child (\<lambda>s. s) demo_credential (cc_project demo_credential) 59 demo_issued) = Some s"
  using child_credential_usable [OF demo_issue_value, of 59 "''p''"] by simp

end
