(* ===== verification/ProjectMetadata.thy ===== *)
theory ProjectMetadata
  imports Json PyBuiltins
begin

text \<open>
  The append-only log of project metadata (\<^verbatim>\<open>src/src/project_control/project_metadata.py\<close>).  The five tables are lists of
  rows in the order of insertion, with the JSON columns decoded; the immediate transaction makes an amendment one step.  The
  file that holds the tables is created empty before the first amendment and is not modelled.  What \<^verbatim>\<open>amend\<close> is given by its
  caller -- the check of the sources, the trusted providers, the identities of the project and the digest of its scope -- and
  \<^verbatim>\<open>sha256\<close>, \<^verbatim>\<open>repr\<close> of a float and the clock are the fields of \<open>meta_env\<close>.
\<close>

section \<open>Tables\<close>

record meta_project =
  mp_project :: string
  mp_scope :: string
  mp_revision :: int

record meta_declaration =
  md_project :: string
  md_kind :: string
  md_id :: string
  md_version :: int
  md_payload :: pdict
  md_retired :: bool
  md_origin :: string
  md_created :: real
  md_revision :: int

record amendment =
  am_format :: string
  am_project :: string
  am_action :: string
  am_intent :: string
  am_expected :: int
  am_operation :: string
  am_payload :: pdict
  am_mode :: "string option"

record meta_operation =
  mo_project :: string
  mo_operation :: string
  mo_hash :: string
  mo_request :: amendment
  mo_receipt :: pdict
  mo_created :: real

record meta_preview =
  mv_project :: string
  mv_operation :: string
  mv_hash :: string
  mv_expected :: int
  mv_review :: pdict
  mv_created :: real

record meta_invalidation =
  mi_project :: string
  mi_revision :: int
  mi_kind :: string
  mi_entity :: string
  mi_action :: string
  mi_created :: real

record meta_db =
  db_projects :: "meta_project list"
  db_declarations :: "meta_declaration list"
  db_operations :: "meta_operation list"
  db_previews :: "meta_preview list"
  db_invalidations :: "meta_invalidation list"

definition empty_meta_db :: meta_db where
  "empty_meta_db = \<lparr>db_projects = [], db_declarations = [], db_operations = [], db_previews = [], db_invalidations = []\<rparr>"

record meta_env =
  me_sha :: "string \<Rightarrow> string"
  me_repr :: "real \<Rightarrow> string"
  me_scope :: string
  me_sources :: "pdict \<Rightarrow> pv list result"
  me_providers :: pdict
  me_identities :: "string list"
  me_now :: real

definition ACTIONS :: "(string \<times> string option) list" where
  "ACTIONS =
     [(''register_identity'', Some ''identity''), (''register_relation'', Some ''relation''),
      (''register_generation'', Some ''generation''), (''configure_provider'', Some ''provider''),
      (''remove_registration'', None), (''record_skill_use'', Some ''skill_use''),
      (''update_orientation'', Some ''orientation'')]"

definition meta_digest :: "meta_env \<Rightarrow> pv \<Rightarrow> string result" where
  "meta_digest env v = bindR (canonical (me_repr env) v) (\<lambda>s. Inr (me_sha env s))"

section \<open>Reading\<close>

definition decl_key :: "meta_declaration \<Rightarrow> string \<times> string \<times> string" where
  "decl_key d = (md_project d, md_kind d, md_id d)"

text \<open>The rows of a project with the greatest version of their key, by kind and identifier.\<close>

definition is_latest :: "meta_declaration list \<Rightarrow> meta_declaration \<Rightarrow> bool" where
  "is_latest ds d = list_all (\<lambda>x. decl_key x = decl_key d \<longrightarrow> md_version x \<le> md_version d) ds"

definition latest_declarations :: "meta_db \<Rightarrow> string \<Rightarrow> meta_declaration list" where
  "latest_declarations db project =
     sort_key (\<lambda>d. (md_kind d, md_id d))
       (filter (\<lambda>d. md_project d = project \<and> is_latest (db_declarations db) d) (db_declarations db))"

definition project_row :: "meta_db \<Rightarrow> string \<Rightarrow> meta_project option" where
  "project_row db project = find (\<lambda>r. mp_project r = project) (db_projects db)"

definition meta_revision :: "meta_db \<Rightarrow> string \<Rightarrow> int" where
  "meta_revision db project = (case project_row db project of None \<Rightarrow> 0 | Some r \<Rightarrow> mp_revision r)"

record meta_context =
  cx_revision :: int
  cx_all :: "meta_declaration list"
  cx_declarations :: "meta_declaration list"
  cx_orientation :: "meta_declaration list"
  cx_skill_uses :: "meta_declaration list"
  cx_registrations :: "meta_declaration list"
  cx_invalidations :: "meta_invalidation list"
  cx_scope_matches :: bool

definition read_context :: "meta_db \<Rightarrow> string \<Rightarrow> string \<Rightarrow> meta_context" where
  "read_context db project scope =
     (let ds = latest_declarations db project; active = filter (\<lambda>d. \<not> md_retired d) ds in
      \<lparr>cx_revision = meta_revision db project,
       cx_all = ds,
       cx_declarations = filter (\<lambda>d. md_kind d \<notin> {''orientation'', ''skill_use''}) active,
       cx_orientation = filter (\<lambda>d. md_kind d = ''orientation'') active,
       cx_skill_uses = filter (\<lambda>d. md_kind d = ''skill_use'') active,
       cx_registrations = filter (\<lambda>d. md_retired d \<or> md_kind d \<noteq> ''orientation'') ds,
       cx_invalidations =
         sort_key (\<lambda>i. (mi_revision i, mi_kind i, mi_entity i)) (filter (\<lambda>i. mi_project i = project) (db_invalidations db)),
       cx_scope_matches = (case project_row db project of None \<Rightarrow> True | Some r \<Rightarrow> mp_scope r = scope)\<rparr>)"

section \<open>Examining an amendment\<close>

definition operation_of :: "meta_db \<Rightarrow> string \<Rightarrow> string \<Rightarrow> meta_operation option" where
  "operation_of db project operation = find (\<lambda>o'. mo_project o' = project \<and> mo_operation o' = operation) (db_operations db)"

definition preview_of :: "meta_db \<Rightarrow> string \<Rightarrow> string \<Rightarrow> meta_preview option" where
  "preview_of db project operation = find (\<lambda>v. mv_project v = project \<and> mv_operation v = operation) (db_previews db)"

text \<open>The digest of a request leaves out its mode and the revision it expects.\<close>

definition request_hash :: "meta_env \<Rightarrow> amendment \<Rightarrow> string result" where
  "request_hash env q = meta_digest env (PDict
     [(''format'', PStr (am_format q)), (''project'', PStr (am_project q)), (''action'', PStr (am_action q)),
      (''intent'', PStr (am_intent q)), (''operation_id'', PStr (am_operation q)), (''payload'', PDict (am_payload q))])"

definition removing :: "amendment \<Rightarrow> bool" where
  "removing q = (am_action q = ''remove_registration'')"

definition amend_kind :: "amendment \<Rightarrow> pv result" where
  "amend_kind q =
     (if removing q then Inr (dget (am_payload q) ''kind'')
      else (case map_of ACTIONS (am_action q) of
              Some (Some k) \<Rightarrow> Inr (PStr k)
            | Some None \<Rightarrow> Inr PNone
            | None \<Rightarrow> Inl (KeyError (am_action q))))"

definition trust_digest :: "meta_env \<Rightarrow> amendment \<Rightarrow> string result" where
  "trust_digest env q =
     meta_digest env (PDict (if am_action q = ''configure_provider'' then me_providers env else []))"

text \<open>\<^verbatim>\<open>payload["id"]\<close>, which the caller has checked to be text.\<close>

definition payload_id :: "pdict \<Rightarrow> string result" where
  "payload_id payload =
     (case map_of payload ''id'' of
        None \<Rightarrow> Inl (KeyError ''id'')
      | Some (PStr i) \<Rightarrow> Inr i
      | Some _ \<Rightarrow> Inl (TypeError ''id is not text''))"

definition decl_at :: "meta_declaration list \<Rightarrow> string \<times> string \<Rightarrow> meta_declaration option" where
  "decl_at latest k = find (\<lambda>d. (md_kind d, md_id d) = k) latest"

definition current_declaration :: "meta_declaration list \<Rightarrow> pv \<Rightarrow> string \<Rightarrow> meta_declaration option result" where
  "current_declaration latest kind i =
     (if unhashable kind then Inl (TypeError ''unhashable type'')
      else Inr (case kind of PStr k \<Rightarrow> decl_at latest (k, i) | _ \<Rightarrow> None))"

text \<open>Whether an end of a relation is the registration that is removed.\<close>

definition names_registration :: "meta_env \<Rightarrow> meta_declaration \<Rightarrow> pdict \<Rightarrow> string \<Rightarrow> bool result" where
  "names_registration env current content end_key =
     (case dget content end_key of
        PDict e \<Rightarrow>
          andR (dget e ''kind'' = PStr (md_kind current) \<and> dget e ''id'' = PStr (md_id current))
            (bindR (text_in (dget e ''project_uuid'') (me_identities env)) (\<lambda>own.
              Inr (own \<and> (dget (md_payload current) ''repository'' = PNone \<or>
                          py_eq (dget e ''repository'') (dget (md_payload current) ''repository'')))))
      | _ \<Rightarrow> Inr False)"

definition is_related :: "meta_env \<Rightarrow> meta_declaration \<Rightarrow> meta_declaration \<Rightarrow> bool result" where
  "is_related env current row =
     andR (\<not> md_retired row \<and> md_kind row = ''relation'')
       (anyR (names_registration env current (md_payload row)) [''source'', ''target''])"

definition affected_rows ::
  "meta_env \<Rightarrow> amendment \<Rightarrow> meta_declaration list \<Rightarrow> meta_declaration option \<Rightarrow> meta_declaration list result" where
  "affected_rows env q latest current =
     (if removing q then
        (case current of
           None \<Rightarrow> Inl (ValueError ''registration_stale'')
         | Some c \<Rightarrow>
             if md_retired c then Inl (ValueError ''registration_stale'')
             else (case map_of (am_payload q) ''version'' of
                     None \<Rightarrow> Inl (KeyError ''version'')
                   | Some v \<Rightarrow>
                       if \<not> eq_int v (md_version c) then Inl (ValueError ''registration_stale'')
                       else bindR (filterR (is_related env c) latest) (\<lambda>related. Inr (c # related))))
      else Inr (case current of None \<Rightarrow> [] | Some c \<Rightarrow> [c]))"

definition amend_noop :: "amendment \<Rightarrow> meta_declaration option \<Rightarrow> bool" where
  "amend_noop q current =
     (\<not> removing q \<and>
      (case current of
         None \<Rightarrow> False
       | Some c \<Rightarrow> \<not> md_retired c \<and> md_origin c = ''project_declared'' \<and> py_eq (PDict (md_payload c)) (PDict (am_payload q))))"

definition locators_of :: "pdict \<Rightarrow> pv list result" where
  "locators_of item =
     bindR (iter_of (dget_or item ''anchors'' (PList []))) (\<lambda>anchors.
     bindR (iter_of (dget_or item ''inputs'' (PList []))) (\<lambda>inputs.
     bindR (as_dict (dget_or item ''field_anchors'' (PDict []))) (\<lambda>fields.
     bindR (mapR (\<lambda>p. iter_of (snd p)) fields) (\<lambda>groups.
     Inr (anchors @ inputs @ concat groups)))))"

definition locator_paths :: "pv list \<Rightarrow> string list" where
  "locator_paths locators = concat (map (\<lambda>d. case dget d ''path'' of PStr p \<Rightarrow> [p] | _ \<Rightarrow> []) (dicts_of locators))"

definition entities_of :: "string \<Rightarrow> pdict list \<Rightarrow> string list result" where
  "entities_of i items =
     bindR (mapR locators_of items) (\<lambda>locators. Inr (sorted_set (i # locator_paths (concat locators))))"

definition affected_pv :: "meta_declaration \<Rightarrow> pv" where
  "affected_pv d = PDict [(''kind'', PStr (md_kind d)), (''id'', PStr (md_id d)), (''version'', PInt (md_version d))]"

definition invalidations_of :: "string list \<Rightarrow> (string \<times> string) list" where
  "invalidations_of entities = concat (map (\<lambda>e. [(''graph'', e), (''search'', e), (''orientation'', e)]) entities)"

definition invalidation_pv :: "string \<times> string \<Rightarrow> pv" where
  "invalidation_pv p = PDict [(''kind'', PStr (fst p)), (''entity_id'', PStr (snd p))]"

record examined =
  ex_id :: string
  ex_latest :: "meta_declaration list"
  ex_rows :: "meta_declaration list"
  ex_noop :: bool
  ex_invalidations :: "(string \<times> string) list"
  ex_review :: pdict

definition examine_amendment :: "meta_env \<Rightarrow> amendment \<Rightarrow> pv \<Rightarrow> string \<Rightarrow> meta_db \<Rightarrow> examined result" where
  "examine_amendment env q kind trust db =
     bindR (me_sources env (am_payload q)) (\<lambda>sources.
     bindR (payload_id (am_payload q)) (\<lambda>i.
     bindR (current_declaration (latest_declarations db (am_project q)) kind i) (\<lambda>current.
     bindR (affected_rows env q (latest_declarations db (am_project q)) current) (\<lambda>rows.
     bindR (entities_of i (am_payload q # map md_payload rows)) (\<lambda>entities.
     (let invalidations = (if amend_noop q current then [] else invalidations_of entities) in
      bindR (meta_digest env (PDict
         [(''affected'', PList (map affected_pv rows)), (''sources'', PList sources), (''trust_digest'', PStr trust),
          (''payload'', PDict (am_payload q)), (''invalidations'', PList (map invalidation_pv invalidations))])) (\<lambda>digest.
      Inr \<lparr>ex_id = i, ex_latest = latest_declarations db (am_project q), ex_rows = rows, ex_noop = amend_noop q current,
           ex_invalidations = invalidations,
           ex_review =
             [(''review_digest'', PStr digest), (''affected'', PList (map affected_pv rows)), (''sources'', PList sources),
              (''invalidations'', PList (map invalidation_pv invalidations)), (''trust_digest'', PStr trust)]\<rparr>)))))))"

section \<open>Amending\<close>

definition replayed :: "pdict \<Rightarrow> pdict" where
  "replayed receipt =
     dupdate (dupdate receipt
       [(''status'', if dget receipt ''status'' = PStr ''applied'' then PStr ''replayed'' else dget receipt ''status'')])
       [(''receipt'', PDict receipt)]"

definition changes_pv :: "amendment \<Rightarrow> pv \<Rightarrow> string \<Rightarrow> pv" where
  "changes_pv q kind i = PList [PDict [(''action'', PStr (am_action q)), (''kind'', kind), (''id'', PStr i)]]"

definition same_review :: "meta_preview option \<Rightarrow> examined \<Rightarrow> bool" where
  "same_review prior x = (case prior of None \<Rightarrow> True | Some v \<Rightarrow> py_eq (PDict (mv_review v)) (PDict (ex_review x)))"

definition commit_preview ::
  "meta_env \<Rightarrow> amendment \<Rightarrow> string \<Rightarrow> pv \<Rightarrow> meta_preview option \<Rightarrow> examined \<Rightarrow> meta_db \<Rightarrow> pdict \<times> meta_db" where
  "commit_preview env q hash kind prior x db =
     (let revision = meta_revision db (am_project q) in
      (dupdate (dupdate [(''status'', PStr ''preview''), (''operation_id'', PStr (am_operation q)), (''expected_revision'', PInt revision)]
         (ex_review x)) [(''changes'', if ex_noop x then PList [] else changes_pv q kind (ex_id x))],
       if prior = None
       then db\<lparr>db_previews := db_previews db @
              [\<lparr>mv_project = am_project q, mv_operation = am_operation q, mv_hash = hash, mv_expected = revision,
                mv_review = ex_review x, mv_created = me_now env\<rparr>]\<rparr>
       else db))"

definition add_operation :: "meta_env \<Rightarrow> amendment \<Rightarrow> string \<Rightarrow> pdict \<Rightarrow> meta_db \<Rightarrow> meta_db" where
  "add_operation env q hash receipt db =
     db\<lparr>db_operations := db_operations db @
       [\<lparr>mo_project = am_project q, mo_operation = am_operation q, mo_hash = hash, mo_request = q, mo_receipt = receipt,
         mo_created = me_now env\<rparr>]\<rparr>"

definition set_scope :: "string \<Rightarrow> string \<Rightarrow> meta_db \<Rightarrow> meta_db" where
  "set_scope project scope db =
     db\<lparr>db_projects := map (\<lambda>r. if mp_project r = project then r\<lparr>mp_scope := scope\<rparr> else r) (db_projects db)\<rparr>"

definition noop_receipt :: "amendment \<Rightarrow> int \<Rightarrow> examined \<Rightarrow> pdict" where
  "noop_receipt q revision x =
     [(''status'', PStr ''noop''), (''operation_id'', PStr (am_operation q)), (''revision'', PInt revision),
      (''affected'', PList (map affected_pv (ex_rows x))), (''invalidations'', PList [])]"

definition commit_noop :: "meta_env \<Rightarrow> amendment \<Rightarrow> string \<Rightarrow> examined \<Rightarrow> meta_db \<Rightarrow> pdict \<times> meta_db" where
  "commit_noop env q hash x db =
     (let receipt = noop_receipt q (meta_revision db (am_project q)) x in
      (dupdate receipt [(''receipt'', PDict receipt)], add_operation env q hash receipt (set_scope (am_project q) (me_scope env) db)))"

text \<open>\<^verbatim>\<open>INSERT ... ON CONFLICT(project) DO UPDATE\<close>.\<close>

definition upsert_project :: "string \<Rightarrow> string \<Rightarrow> int \<Rightarrow> meta_project list \<Rightarrow> meta_project list" where
  "upsert_project project scope revision rows =
     (if list_ex (\<lambda>r. mp_project r = project) rows
      then map (\<lambda>r. if mp_project r = project then r\<lparr>mp_scope := scope, mp_revision := revision\<rparr> else r) rows
      else rows @ [\<lparr>mp_project = project, mp_scope = scope, mp_revision = revision\<rparr>])"

text \<open>The primary key of the declarations.\<close>

definition insert_declaration :: "meta_declaration \<Rightarrow> meta_declaration list \<Rightarrow> meta_declaration list result" where
  "insert_declaration d ds =
     (if list_ex (\<lambda>x. decl_key x = decl_key d \<and> md_version x = md_version d) ds then Inl IntegrityError else Inr (ds @ [d]))"

definition next_declaration :: "meta_env \<Rightarrow> amendment \<Rightarrow> int \<Rightarrow> meta_declaration list \<Rightarrow> string \<times> string \<Rightarrow> meta_declaration" where
  "next_declaration env q revision latest target =
     \<lparr>md_project = am_project q, md_kind = fst target, md_id = snd target,
      md_version = (case decl_at latest target of None \<Rightarrow> 1 | Some d \<Rightarrow> md_version d + 1),
      md_payload = (case decl_at latest target of
          Some d \<Rightarrow> if removing q then md_payload d else am_payload q
        | None \<Rightarrow> am_payload q),
      md_retired = removing q, md_origin = ''project_declared'', md_created = me_now env, md_revision = revision\<rparr>"

definition amend_targets :: "amendment \<Rightarrow> pv \<Rightarrow> examined \<Rightarrow> (string \<times> string) list" where
  "amend_targets q kind x =
     (if removing q then map (\<lambda>d. (md_kind d, md_id d)) (ex_rows x)
      else (case kind of PStr k \<Rightarrow> [(k, ex_id x)] | _ \<Rightarrow> []))"

text \<open>\<^verbatim>\<open>INSERT OR IGNORE\<close>.\<close>

definition add_invalidation ::
  "meta_env \<Rightarrow> amendment \<Rightarrow> int \<Rightarrow> string \<times> string \<Rightarrow> meta_invalidation list \<Rightarrow> meta_invalidation list" where
  "add_invalidation env q revision item rows =
     (if list_ex (\<lambda>i. mi_project i = am_project q \<and> mi_revision i = revision \<and> mi_kind i = fst item \<and> mi_entity i = snd item) rows
      then rows
      else rows @ [\<lparr>mi_project = am_project q, mi_revision = revision, mi_kind = fst item, mi_entity = snd item,
                    mi_action = am_action q, mi_created = me_now env\<rparr>])"

definition applied_receipt :: "amendment \<Rightarrow> pv \<Rightarrow> int \<Rightarrow> examined \<Rightarrow> pdict" where
  "applied_receipt q kind revision x =
     [(''status'', PStr ''applied''), (''operation_id'', PStr (am_operation q)), (''revision'', PInt revision),
      (''affected'', PList (map affected_pv (ex_rows x))), (''changes'', changes_pv q kind (ex_id x)),
      (''invalidations'', PList (map invalidation_pv (ex_invalidations x)))]"

definition commit_amendment ::
  "meta_env \<Rightarrow> amendment \<Rightarrow> string \<Rightarrow> pv \<Rightarrow> examined \<Rightarrow> meta_db \<Rightarrow> (pdict \<times> meta_db) result" where
  "commit_amendment env q hash kind x db =
     (let revision = meta_revision db (am_project q) + 1; receipt = applied_receipt q kind revision x in
      bindR (foldR (\<lambda>target. insert_declaration (next_declaration env q revision (ex_latest x) target)) (amend_targets q kind x)
               (db_declarations db)) (\<lambda>ds.
      Inr (dupdate receipt [(''receipt'', PDict receipt)],
        add_operation env q hash receipt
          (db\<lparr>db_projects := upsert_project (am_project q) (me_scope env) revision (db_projects db),
              db_declarations := ds,
              db_invalidations := fold (add_invalidation env q revision) (ex_invalidations x) (db_invalidations db)\<rparr>))))"

definition amend_transaction ::
  "meta_env \<Rightarrow> amendment \<Rightarrow> string \<Rightarrow> pv \<Rightarrow> string \<Rightarrow> meta_db \<Rightarrow> (pdict \<times> meta_db) result" where
  "amend_transaction env q hash kind trust db =
     (case operation_of db (am_project q) (am_operation q) of
        Some prior \<Rightarrow>
          if mo_hash prior \<noteq> hash then Inl (ValueError ''operation_id_conflict'')
          else if am_expected (mo_request prior) \<noteq> am_expected q then Inl (ValueError ''project_metadata_revision_stale'')
          else Inr (replayed (mo_receipt prior), db)
      | None \<Rightarrow>
          (let prior = preview_of db (am_project q) (am_operation q) in
           bindR (case prior of
                    None \<Rightarrow> Inr ()
                  | Some v \<Rightarrow>
                      if mv_hash v \<noteq> hash then Inl (ValueError ''operation_id_conflict'')
                      else if mv_expected v \<noteq> am_expected q then Inl (ValueError ''project_metadata_revision_stale'')
                      else Inr ()) (\<lambda>_.
           if meta_revision db (am_project q) \<noteq> am_expected q then Inl (ValueError ''project_metadata_revision_stale'')
           else
             bindR (examine_amendment env q kind trust db) (\<lambda>x.
             if \<not> same_review prior x then Inl (ValueError ''project_metadata_review_stale'')
             else if am_mode q = Some ''preview'' then Inr (commit_preview env q hash kind prior x db)
             else if ex_noop x then Inr (commit_noop env q hash x db)
             else commit_amendment env q hash kind x db))))"

definition amend_body :: "meta_env \<Rightarrow> amendment \<Rightarrow> meta_db \<Rightarrow> (pdict \<times> meta_db) result" where
  "amend_body env q db =
     bindR (canonical (me_repr env) (PDict (am_payload q))) (\<lambda>_.
     bindR (request_hash env q) (\<lambda>hash.
     bindR (amend_kind q) (\<lambda>kind.
     bindR (trust_digest env q) (\<lambda>trust.
     amend_transaction env q hash kind trust db))))"

text \<open>An exception rolls the transaction back.\<close>

definition amend :: "meta_env \<Rightarrow> amendment \<Rightarrow> meta_db \<Rightarrow> pdict result \<times> meta_db" where
  "amend env q db = (case amend_body env q db of Inl e \<Rightarrow> (Inl e, db) | Inr (answer, db') \<Rightarrow> (Inr answer, db'))"

end
