(* ===== verification/ProjectMetadataProps.thy ===== *)
theory ProjectMetadataProps
  imports ProjectMetadata Machine
begin

text \<open>
  What the metadata log promises: versions that count up, revisions that compare and swap, answers that are replayed, and
  removals that retire what names the removed registration.
\<close>

section \<open>How an amendment ends\<close>

text \<open>A request that is not recorded yet passes its checks and is previewed, found to change nothing, or applied.\<close>

definition commit_request ::
  "meta_env \<Rightarrow> amendment \<Rightarrow> string \<Rightarrow> pv \<Rightarrow> examined \<Rightarrow> meta_db \<Rightarrow> (pdict \<times> meta_db) result" where
  "commit_request env q hash kind x db =
     (if am_mode q = Some ''preview''
      then Inr (commit_preview env q hash kind (preview_of db (am_project q) (am_operation q)) x db)
      else if ex_noop x then Inr (commit_noop env q hash x db)
      else commit_amendment env q hash kind x db)"

lemma transaction_new:
  assumes "operation_of db (am_project q) (am_operation q) = None" "amend_transaction env q hash kind trust db = Inr b"
  obtains x where "meta_revision db (am_project q) = am_expected q" "examine_amendment env q kind trust db = Inr x"
    "same_review (preview_of db (am_project q) (am_operation q)) x" "commit_request env q hash kind x db = Inr b"
    "\<forall>v. preview_of db (am_project q) (am_operation q) = Some v \<longrightarrow> mv_hash v = hash \<and> mv_expected v = am_expected q"
  using assms
  by (auto simp: amend_transaction_def commit_request_def bindR_eq_Inr Let_def split: if_splits option.splits)

lemma amend_body_Inr:
  assumes "amend_body env q db = Inr b"
  obtains hash kind trust where "request_hash env q = Inr hash" "amend_kind q = Inr kind" "trust_digest env q = Inr trust"
    "amend_transaction env q hash kind trust db = Inr b"
  using assms by (simp only: amend_body_def bindR_eq_Inr) (elim exE conjE)

lemma amend_cases:
  assumes "amend env q db = (r, db')"
  obtains (error) e where "r = Inl e" "db' = db"
  | (replay) hash prior where "request_hash env q = Inr hash" "operation_of db (am_project q) (am_operation q) = Some prior"
      "mo_hash prior = hash" "am_expected (mo_request prior) = am_expected q" "r = Inr (replayed (mo_receipt prior))" "db' = db"
  | (preview) hash kind trust x where "operation_of db (am_project q) (am_operation q) = None" "am_mode q = Some ''preview''"
      "r = Inr (fst (commit_preview env q hash kind (preview_of db (am_project q) (am_operation q)) x db))"
      "db' = snd (commit_preview env q hash kind (preview_of db (am_project q) (am_operation q)) x db)"
  | (noop) hash kind trust x where "request_hash env q = Inr hash" "operation_of db (am_project q) (am_operation q) = None"
      "am_mode q \<noteq> Some ''preview''" "amend_kind q = Inr kind" "examine_amendment env q kind trust db = Inr x" "ex_noop x"
      "r = Inr (fst (commit_noop env q hash x db))" "db' = snd (commit_noop env q hash x db)"
  | (applied) hash kind trust x answer where "request_hash env q = Inr hash"
      "operation_of db (am_project q) (am_operation q) = None" "am_mode q \<noteq> Some ''preview''"
      "meta_revision db (am_project q) = am_expected q" "amend_kind q = Inr kind" "trust_digest env q = Inr trust"
      "examine_amendment env q kind trust db = Inr x"
      "same_review (preview_of db (am_project q) (am_operation q)) x" "\<not> ex_noop x"
      "commit_amendment env q hash kind x db = Inr (answer, db')" "r = Inr answer"
      "\<forall>v. preview_of db (am_project q) (am_operation q) = Some v \<longrightarrow> mv_hash v = hash \<and> mv_expected v = am_expected q"
proof (cases "amend_body env q db")
  case (Inl e)
  then show thesis using assms by (intro error [of e]) (auto simp: amend_def)
next
  case (Inr b)
  then have b: "b = (projr r, db')" "r = Inr (projr r)" using assms by (auto simp: amend_def split: prod.splits)
  from Inr obtain hash kind trust where pre: "request_hash env q = Inr hash" "amend_kind q = Inr kind" "trust_digest env q = Inr trust"
    and txn: "amend_transaction env q hash kind trust db = Inr (projr r, db')"
    unfolding b(1) by (rule amend_body_Inr)
  show thesis
  proof (cases "operation_of db (am_project q) (am_operation q)")
    case (Some prior)
    then show thesis using txn pre b(2)
      by (intro replay [of hash prior]) (simp_all add: amend_transaction_def split: if_splits)
  next
    case None
    obtain x where x: "meta_revision db (am_project q) = am_expected q"
      "examine_amendment env q kind trust db = Inr x" "same_review (preview_of db (am_project q) (am_operation q)) x"
      and fin: "commit_request env q hash kind x db = Inr (projr r, db')"
      and seen: "\<forall>v. preview_of db (am_project q) (am_operation q) = Some v \<longrightarrow> mv_hash v = hash \<and> mv_expected v = am_expected q"
      by (rule transaction_new [OF None txn])
    consider "am_mode q = Some ''preview''" | "am_mode q \<noteq> Some ''preview''" "ex_noop x"
      | "am_mode q \<noteq> Some ''preview''" "\<not> ex_noop x" by blast
    then show thesis
    proof cases
      case 1
      then show thesis using fin b None by (intro preview [of hash kind x]) (auto simp: commit_request_def)
    next
      case 2
      then show thesis using fin b None pre x by (intro noop [of hash kind trust x]) (auto simp: commit_request_def)
    next
      case 3
      then show thesis using fin b None pre x seen
        by (intro applied [of hash kind trust x "projr r"]) (auto simp: commit_request_def)
    qed
  qed
qed

section \<open>The log\<close>

text \<open>
  The rows of a key are its versions from one on, in order, with rising revisions; no row is of a revision that its project
  has not reached.
\<close>

definition rows_of :: "string \<times> string \<times> string \<Rightarrow> meta_declaration list \<Rightarrow> meta_declaration list" where
  "rows_of k ds = filter (\<lambda>d. decl_key d = k) ds"

definition counts_up :: "meta_declaration list \<Rightarrow> bool" where
  "counts_up ds \<longleftrightarrow> (\<forall>k. map md_version (rows_of k ds) = map int [1..<Suc (length (rows_of k ds))])"

definition meta_ok :: "meta_db \<Rightarrow> bool" where
  "meta_ok db \<longleftrightarrow> counts_up (db_declarations db) \<and>
     (\<forall>k. sorted_wrt (<) (map md_revision (rows_of k (db_declarations db)))) \<and>
     (\<forall>d \<in> set (db_declarations db). md_revision d \<le> meta_revision db (md_project d))"

lemma in_rows_of: "d \<in> set (rows_of k ds) \<longleftrightarrow> d \<in> set ds \<and> decl_key d = k"
  by (auto simp: rows_of_def)

lemma counts_up_versions:
  assumes "counts_up ds"
  shows "md_version ` set (rows_of k ds) = {1..int (length (rows_of k ds))}"
proof -
  have "md_version ` set (rows_of k ds) = int ` {1..<Suc (length (rows_of k ds))}"
    using arg_cong [OF assms [unfolded counts_up_def, rule_format, of k], of set] by (simp only: set_map set_upt)
  then show ?thesis by (simp add: atLeastLessThanSuc_atLeastAtMost image_int_atLeastAtMost)
qed

lemma set_latest:
  "set (latest_declarations db p) = {d \<in> set (db_declarations db). md_project d = p \<and> is_latest (db_declarations db) d}"
  by (auto simp: latest_declarations_def)

lemma is_latest_iff: "is_latest ds d \<longleftrightarrow> (\<forall>x \<in> set (rows_of (decl_key d) ds). md_version x \<le> md_version d)"
  by (auto simp: is_latest_def list_all_iff in_rows_of)

lemma is_latest_version:
  assumes "counts_up ds" "d \<in> set ds"
  shows "is_latest ds d \<longleftrightarrow> md_version d = int (length (rows_of (decl_key d) ds))"
proof -
  have v: "md_version ` set (rows_of (decl_key d) ds) = {1..int (length (rows_of (decl_key d) ds))}"
    by (rule counts_up_versions [OF assms(1)])
  have d: "d \<in> set (rows_of (decl_key d) ds)" using assms(2) by (simp add: in_rows_of)
  then have "md_version d \<in> {1..int (length (rows_of (decl_key d) ds))}" using v by blast
  moreover have "md_version x \<le> int (length (rows_of (decl_key d) ds))" if "x \<in> set (rows_of (decl_key d) ds)" for x
    using v that by auto
  moreover have "\<exists>x \<in> set (rows_of (decl_key d) ds). md_version x = int (length (rows_of (decl_key d) ds))"
  proof -
    have "int (length (rows_of (decl_key d) ds)) \<in> {1..int (length (rows_of (decl_key d) ds))}" using d by (cases "rows_of (decl_key d) ds") auto
    then show ?thesis using v by (metis image_iff)
  qed
  ultimately show ?thesis unfolding is_latest_iff by fastforce
qed

text \<open>The version that follows is one more than the number of rows there are.\<close>

lemma decl_at_Some:
  assumes "decl_at (latest_declarations db p) (k, i) = Some d"
  shows "d \<in> set (db_declarations db)" "decl_key d = (p, k, i)" "is_latest (db_declarations db) d"
proof -
  from assms have "d \<in> set (latest_declarations db p)" "(md_kind d, md_id d) = (k, i)"
    by (auto simp: decl_at_def find_Some_iff)
  then show "d \<in> set (db_declarations db)" "decl_key d = (p, k, i)" "is_latest (db_declarations db) d"
    by (auto simp: set_latest decl_key_def)
qed

lemma decl_at_None:
  assumes "counts_up (db_declarations db)" "decl_at (latest_declarations db p) (k, i) = None"
  shows "rows_of (p, k, i) (db_declarations db) = []"
proof (rule ccontr)
  let ?rows = "rows_of (p, k, i) (db_declarations db)"
  assume "?rows \<noteq> []"
  then have "int (length ?rows) \<in> {1..int (length ?rows)}" by (cases ?rows) auto
  then have "int (length ?rows) \<in> md_version ` set ?rows" using counts_up_versions [OF assms(1)] by simp
  then obtain d where "d \<in> set ?rows" "md_version d = int (length ?rows)" by (elim imageE) simp
  then have d: "d \<in> set (db_declarations db)" "decl_key d = (p, k, i)" "is_latest (db_declarations db) d"
    using is_latest_version [OF assms(1), of d] by (simp_all add: in_rows_of)
  then have "d \<in> set (latest_declarations db p)" "(md_kind d, md_id d) = (k, i)" by (auto simp: set_latest decl_key_def)
  then show False using assms(2) by (auto simp: decl_at_def find_None_iff)
qed

lemma next_version:
  assumes "counts_up (db_declarations db)"
  shows "(case decl_at (latest_declarations db p) (k, i) of None \<Rightarrow> 1 | Some d \<Rightarrow> md_version d + 1)
    = int (Suc (length (rows_of (p, k, i) (db_declarations db))))"
proof (cases "decl_at (latest_declarations db p) (k, i)")
  case None
  then show ?thesis using decl_at_None [OF assms None] by simp
next
  case (Some d)
  then show ?thesis using decl_at_Some [OF Some] is_latest_version [OF assms, of d] by simp
qed

section \<open>Inserting rows\<close>

lemma insert_declaration_Inr:
  "insert_declaration d ds = Inr ds' \<longleftrightarrow>
     ds' = ds @ [d] \<and> (\<forall>x \<in> set ds. decl_key x = decl_key d \<longrightarrow> md_version x \<noteq> md_version d)"
  by (auto simp: insert_declaration_def list_ex_iff)

lemma insert_declarations_fresh:
  "foldR (\<lambda>t. insert_declaration (f t)) ts ds = Inr ds' \<Longrightarrow> f t \<in> set ds \<Longrightarrow> t \<notin> set ts"
proof (induction ts arbitrary: ds)
  case (Cons u ts)
  from Cons.prems(1) have rest: "foldR (\<lambda>t. insert_declaration (f t)) ts (ds @ [f u]) = Inr ds'"
    and new: "\<forall>x \<in> set ds. decl_key x = decl_key (f u) \<longrightarrow> md_version x \<noteq> md_version (f u)"
    by (simp_all add: bindR_eq_Inr insert_declaration_Inr)
  show ?case using Cons.IH [OF rest] new Cons.prems(2) by auto
qed simp

lemma insert_declarations:
  "foldR (\<lambda>t. insert_declaration (f t)) ts ds = Inr ds' \<Longrightarrow> ds' = ds @ map f ts \<and> distinct ts"
proof (induction ts arbitrary: ds)
  case (Cons t ts)
  then have rest: "foldR (\<lambda>t. insert_declaration (f t)) ts (ds @ [f t]) = Inr ds'"
    by (simp add: bindR_eq_Inr insert_declaration_Inr)
  then show ?case using Cons.IH [OF rest] insert_declarations_fresh [OF rest, of t] by simp
qed simp

text \<open>What an applied amendment does to the tables.\<close>

lemma next_declaration_fields [simp]:
  "md_project (next_declaration env q revision latest t) = am_project q"
  "md_revision (next_declaration env q revision latest t) = revision"
  "md_retired (next_declaration env q revision latest t) = removing q"
  "decl_key (next_declaration env q revision latest t) = (am_project q, t)"
  by (simp_all add: next_declaration_def decl_key_def)

definition new_rows :: "meta_env \<Rightarrow> amendment \<Rightarrow> pv \<Rightarrow> examined \<Rightarrow> meta_db \<Rightarrow> meta_declaration list" where
  "new_rows env q kind x db =
     map (next_declaration env q (meta_revision db (am_project q) + 1) (ex_latest x)) (amend_targets q kind x)"

lemma commit_amendment_Inr:
  assumes "commit_amendment env q hash kind x db = Inr (answer, db')"
  shows "answer = dupdate (applied_receipt q kind (meta_revision db (am_project q) + 1) x)
           [(''receipt'', PDict (applied_receipt q kind (meta_revision db (am_project q) + 1) x))]"
    "db_projects db' = upsert_project (am_project q) (me_scope env) (meta_revision db (am_project q) + 1) (db_projects db)"
    "db_declarations db' = db_declarations db @ new_rows env q kind x db" "distinct (amend_targets q kind x)"
    "db_operations db' = db_operations (add_operation env q hash (applied_receipt q kind (meta_revision db (am_project q) + 1) x) db)"
    "db_previews db' = db_previews db"
  using assms
  by (auto simp: commit_amendment_def Let_def bindR_eq_Inr add_operation_def new_rows_def dest!: insert_declarations)

lemma find_map_key:
  assumes "\<And>r. key (f r) = key r"
  shows "find (\<lambda>r. key r = p) (map f rs) = map_option f (find (\<lambda>r. key r = p) rs)"
  by (induction rs) (simp_all add: assms)

lemma find_append: "find P (xs @ ys) = (case find P xs of None \<Rightarrow> find P ys | Some x \<Rightarrow> Some x)"
  by (induction xs) auto

lemma find_upsert_project:
  "find (\<lambda>r. mp_project r = p) (upsert_project project scope revision rows) =
     (if p = project then Some (case find (\<lambda>r. mp_project r = p) rows of
        None \<Rightarrow> \<lparr>mp_project = project, mp_scope = scope, mp_revision = revision\<rparr>
      | Some r \<Rightarrow> r\<lparr>mp_scope := scope, mp_revision := revision\<rparr>)
      else find (\<lambda>r. mp_project r = p) rows)"
proof (cases "list_ex (\<lambda>r. mp_project r = project) rows")
  case True
  then obtain r where "find (\<lambda>r. mp_project r = project) rows = Some r"
    by (cases "find (\<lambda>r. mp_project r = project) rows") (auto simp: find_None_iff list_ex_iff)
  with True show ?thesis
    by (auto simp: upsert_project_def find_map_key [where key = mp_project] find_Some_iff split: option.splits
        intro!: option.map_ident_strong)
next
  case False
  then have "find (\<lambda>r. mp_project r = project) rows = None" by (auto simp: find_None_iff list_ex_iff)
  with False show ?thesis by (auto simp: upsert_project_def find_append split: option.splits)
qed

lemma applied_revision:
  assumes "commit_amendment env q hash kind x db = Inr (answer, db')"
  shows "meta_revision db' p = (if p = am_project q then meta_revision db p + 1 else meta_revision db p)"
  using commit_amendment_Inr(2) [OF assms]
  by (auto simp: meta_revision_def project_row_def find_upsert_project split: option.splits)

lemma set_scope_revision: "meta_revision (set_scope project scope db) p = meta_revision db p"
  by (auto simp: meta_revision_def project_row_def set_scope_def find_map_key [where key = mp_project] split: option.splits)

lemma examine_latest: "examine_amendment env q kind trust db = Inr x \<Longrightarrow> ex_latest x = latest_declarations db (am_project q)"
  by (auto simp: examine_amendment_def bindR_eq_Inr Let_def)

lemma filter_eq_one: "distinct xs \<Longrightarrow> filter (\<lambda>x. x = t) xs = (if t \<in> set xs then [t] else [])"
  by (induction xs) auto

lemma rows_of_new:
  assumes "distinct (amend_targets q kind x)"
  shows "rows_of (p, t) (new_rows env q kind x db) =
    (if p = am_project q \<and> t \<in> set (amend_targets q kind x)
     then [next_declaration env q (meta_revision db (am_project q) + 1) (ex_latest x) t] else [])"
  using filter_eq_one [OF assms]
  by (auto simp: new_rows_def rows_of_def filter_map o_def filter_empty_conv)

lemma rows_of_append [simp]: "rows_of k (xs @ ys) = rows_of k xs @ rows_of k ys"
  by (simp add: rows_of_def)

lemma applied_counts_up:
  assumes up: "counts_up (db_declarations db)" and x: "ex_latest x = latest_declarations db (am_project q)"
    and commit: "commit_amendment env q hash kind x db = Inr (answer, db')"
  shows "counts_up (db_declarations db')"
  unfolding counts_up_def
proof
  fix k :: "string \<times> string \<times> string"
  obtain p t where k: "k = (p, t)" by (rule prod.exhaust)
  have old: "map md_version (rows_of k (db_declarations db)) = map int [1..<Suc (length (rows_of k (db_declarations db)))]"
    using up unfolding counts_up_def by (rule spec)
  have "md_version (next_declaration env q r (ex_latest x) t) = int (Suc (length (rows_of (am_project q, t) (db_declarations db))))" for r
    using next_version [OF up, of "am_project q" "fst t" "snd t"] x by (simp add: next_declaration_def)
  then show "map md_version (rows_of k (db_declarations db')) = map int [1..<Suc (length (rows_of k (db_declarations db')))]"
    using old by (simp add: commit_amendment_Inr(3) [OF commit] k rows_of_new [OF commit_amendment_Inr(4) [OF commit]])
qed

lemma applied_meta_ok:
  assumes ok: "meta_ok db" and x: "ex_latest x = latest_declarations db (am_project q)"
    and commit: "commit_amendment env q hash kind x db = Inr (answer, db')"
  shows "meta_ok db'"
proof -
  note new = commit_amendment_Inr(3) [OF commit] and targets = commit_amendment_Inr(4) [OF commit]
  have "sorted_wrt (<) (map md_revision (rows_of k (db_declarations db')))" for k
  proof -
    obtain p t where k: "k = (p, t)" by (rule prod.exhaust)
    have old: "sorted_wrt (<) (map md_revision (rows_of (p, t) (db_declarations db)))" using ok unfolding meta_ok_def by blast
    have "md_revision d < meta_revision db (am_project q) + 1" if "d \<in> set (rows_of (am_project q, t) (db_declarations db))" for d
      using ok that by (auto simp: meta_ok_def in_rows_of decl_key_def)
    then show ?thesis using old by (auto simp: new k rows_of_new [OF targets] sorted_wrt_append)
  qed
  moreover have "md_revision d \<le> meta_revision db' (md_project d)" if "d \<in> set (db_declarations db')" for d
    using that ok by (fastforce simp: applied_revision [OF commit] new meta_ok_def new_rows_def)
  ultimately show ?thesis using applied_counts_up [OF _ x commit] ok by (simp add: meta_ok_def)
qed

text \<open>Every other end leaves the declarations and the revisions as they are.\<close>

lemma commit_preview_frame [frame_simps]:
  "db_declarations (snd (commit_preview env q hash kind prior x db)) = db_declarations db"
  "db_operations (snd (commit_preview env q hash kind prior x db)) = db_operations db"
  "meta_revision (snd (commit_preview env q hash kind prior x db)) p = meta_revision db p"
  by (simp_all add: commit_preview_def Let_def meta_revision_def project_row_def)

lemma commit_noop_frame [frame_simps]:
  "db_declarations (snd (commit_noop env q hash x db)) = db_declarations db"
  "meta_revision (snd (commit_noop env q hash x db)) p = meta_revision db p"
  using set_scope_revision [of "am_project q" "me_scope env" db p]
  by (simp_all add: commit_noop_def Let_def add_operation_def set_scope_def meta_revision_def project_row_def)

lemma meta_ok_frame:
  "meta_ok db \<Longrightarrow> db_declarations db' = db_declarations db \<Longrightarrow> (\<And>p. meta_revision db' p = meta_revision db p) \<Longrightarrow> meta_ok db'"
  by (simp add: meta_ok_def)

lemma amend_meta_ok:
  assumes ok: "meta_ok db" and step: "amend env q db = (r, db')"
  shows "meta_ok db'"
  using step
proof (cases rule: amend_cases)
  case applied
  then show ?thesis using applied_meta_ok [OF ok examine_latest] by blast
qed (use ok in \<open>auto intro: meta_ok_frame simp: frame_simps\<close>)

text \<open>The databases that amendments lead to, whatever their callers pass.\<close>

inductive amended :: "meta_db \<Rightarrow> meta_db \<Rightarrow> bool" where
  amended_refl: "amended db db"
| amended_step: "amended db db1 \<Longrightarrow> amend env q db1 = (r, db2) \<Longrightarrow> amended db db2"

lemma amended_meta_ok: "amended db db' \<Longrightarrow> meta_ok db \<Longrightarrow> meta_ok db'"
  by (induction rule: amended.induct) (auto intro: amend_meta_ok)

lemma meta_ok_empty: "meta_ok empty_meta_db"
  by (simp add: meta_ok_def counts_up_def empty_meta_db_def rows_of_def)

section \<open>Properties\<close>

text \<open>
  C5. However often and with whatever arguments the metadata is amended, the rows of a declaration are its versions from one
  on, each once and in order, with strictly rising revisions that the project has reached.
\<close>

theorem metadata_log:
  assumes "amended empty_meta_db db"
  shows "map md_version (rows_of k (db_declarations db)) = map int [1..<Suc (length (rows_of k (db_declarations db)))] \<and>
    sorted_wrt (<) (map md_revision (rows_of k (db_declarations db))) \<and>
    (\<forall>d \<in> set (rows_of k (db_declarations db)). md_revision d \<le> meta_revision db (fst k))"
proof -
  have ok: "meta_ok db" by (rule amended_meta_ok [OF assms meta_ok_empty])
  then have "\<forall>d \<in> set (rows_of k (db_declarations db)). md_revision d \<le> meta_revision db (fst k)"
    by (auto simp: meta_ok_def in_rows_of decl_key_def)
  then show ?thesis using ok unfolding meta_ok_def counts_up_def by blast
qed

text \<open>An amendment that writes a declaration takes the revision that it expects.\<close>

lemma amend_takes_revision:
  assumes "amend env q db = (r, db')"
  shows "db_declarations db' = db_declarations db \<and> (\<forall>p. meta_revision db' p = meta_revision db p) \<or>
    meta_revision db (am_project q) = am_expected q \<and>
    (\<forall>p. meta_revision db' p = (if p = am_project q then am_expected q + 1 else meta_revision db p)) \<and>
    (\<exists>new. db_declarations db' = db_declarations db @ new \<and> (\<forall>d \<in> set new. md_project d = am_project q))"
  using assms
proof (cases rule: amend_cases)
  case (applied hash kind trust x answer)
  then show ?thesis
    using commit_amendment_Inr(3) [OF applied(10)] applied_revision [OF applied(10)] by (auto simp: new_rows_def)
qed (auto simp: frame_simps)

lemma amend_revision_mono: "amend env q db = (r, db') \<Longrightarrow> meta_revision db p \<le> meta_revision db' p"
  using amend_takes_revision [of env q db r db'] by (cases "p = am_project q") auto

lemma amended_revision_mono: "amended db db' \<Longrightarrow> meta_revision db p \<le> meta_revision db' p"
  by (induction rule: amended.induct) (auto intro: order_trans amend_revision_mono)

text \<open>
  C4. Compare and swap: once an amendment has written a declaration, no amendment of the project that expects the same
  revision or an earlier one writes any, whatever happens in between.
\<close>

theorem metadata_one_winner:
  assumes "amend env q db = (r, db1)" "db_declarations db1 \<noteq> db_declarations db" "amended db1 db2"
    and "am_project q' = am_project q" "am_expected q' \<le> am_expected q" "amend env' q' db2 = (r', db3)"
  shows "db_declarations db3 = db_declarations db2 \<and> (\<forall>p. meta_revision db3 p = meta_revision db2 p)"
proof -
  have "meta_revision db1 (am_project q) = am_expected q + 1"
    using amend_takes_revision [OF assms(1)] assms(2) by simp
  then have "am_expected q' < meta_revision db2 (am_project q')"
    using amended_revision_mono [OF assms(3), of "am_project q"] assms(4,5) by simp
  then show ?thesis using amend_takes_revision [OF assms(6)] by auto
qed

text \<open>A recorded operation stays the one that its identifier names.\<close>

lemma operation_append:
  "operation_of db p i = Some o' \<Longrightarrow> db_operations db' = db_operations db @ extra \<Longrightarrow> operation_of db' p i = Some o'"
  by (simp add: operation_of_def find_append)

lemma amend_operations:
  assumes "amend env q db = (r, db')"
  shows "\<exists>extra. db_operations db' = db_operations db @ extra"
  using assms
proof (cases rule: amend_cases)
  case (applied hash kind trust x answer)
  then show ?thesis using commit_amendment_Inr(5) [OF applied(10)] by (simp add: add_operation_def)
qed (simp_all add: frame_simps commit_noop_def add_operation_def set_scope_def Let_def)

lemma amended_operation: "amended db db' \<Longrightarrow> operation_of db p i = Some o' \<Longrightarrow> operation_of db' p i = Some o'"
proof (induction rule: amended.induct)
  case (amended_step db db1 env q r db2)
  then show ?case using amend_operations [OF amended_step.hyps(2)] operation_append by blast
qed

lemma operation_added:
  assumes "operation_of db (am_project q) (am_operation q) = None"
    "db_operations db' = db_operations (add_operation env q hash receipt db)"
  shows "\<exists>o'. operation_of db' (am_project q) (am_operation q) = Some o' \<and> mo_hash o' = hash \<and> mo_request o' = q \<and> mo_receipt o' = receipt"
  using assms by (simp add: operation_of_def find_append add_operation_def)

lemma dget_dupdate_receipt: "dget (dupdate d [(''receipt'', PDict d')]) ''receipt'' = PDict d'"
  by (simp add: dget_def dget_or_def dupdate_def update_conv')

lemma amend_recorded:
  assumes "amend env q db = (Inr answer, db')" "am_mode q \<noteq> Some ''preview''"
  obtains o' hash where "operation_of db' (am_project q) (am_operation q) = Some o'" "request_hash env q = Inr hash"
    "mo_hash o' = hash" "am_expected (mo_request o') = am_expected q" "dget answer ''receipt'' = PDict (mo_receipt o')"
  using assms(1)
proof (cases rule: amend_cases)
  case (replay hash prior)
  then show thesis by (intro that [of prior hash]) (simp_all add: replayed_def dget_dupdate_receipt)
next
  case (noop hash kind trust x)
  let ?receipt = "noop_receipt q (meta_revision db (am_project q)) x"
  have "db_operations db' = db_operations (add_operation env q hash ?receipt db)"
    by (simp add: noop(8) commit_noop_def add_operation_def set_scope_def Let_def)
  from operation_added [OF noop(2) this] obtain o' where "operation_of db' (am_project q) (am_operation q) = Some o'"
    "mo_hash o' = hash" "mo_request o' = q" "mo_receipt o' = ?receipt"
    by (elim exE conjE)
  then show thesis using noop(1,7) by (intro that [of o' hash]) (simp_all add: commit_noop_def Let_def dget_dupdate_receipt)
next
  case (applied hash kind trust x answer')
  note c = commit_amendment_Inr [OF applied(10)]
  from operation_added [OF applied(2) c(5)] obtain o' where "operation_of db' (am_project q) (am_operation q) = Some o'"
    "mo_hash o' = hash" "mo_request o' = q" "mo_receipt o' = applied_receipt q kind (meta_revision db (am_project q) + 1) x"
    by (elim exE conjE)
  then show thesis using applied(1,11) c(1) by (intro that [of o' hash]) (simp_all add: dget_dupdate_receipt)
qed (use assms(2) in simp_all)

lemma request_hash_env:
  "me_sha env' = me_sha env \<Longrightarrow> me_repr env' = me_repr env \<Longrightarrow> request_hash env' q = request_hash env q"
  by (simp add: request_hash_def meta_digest_def)

lemma amend_replays:
  assumes "json_finite (PDict (am_payload q))" "request_hash env q = Inr (mo_hash o')" "amend_kind q = Inr kind"
    "trust_digest env q = Inr trust" "operation_of db (am_project q) (am_operation q) = Some o'"
    "am_expected (mo_request o') = am_expected q"
  shows "amend env q db = (Inr (replayed (mo_receipt o')), db)"
proof -
  show ?thesis
    using assms(2-) by (simp add: amend_def amend_body_def amend_transaction_def canonical_def assms(1) del: json_finite.simps)
qed

lemma amend_conflicts:
  assumes "operation_of db (am_project q) (am_operation q) = Some o'" "request_hash env q \<noteq> Inr (mo_hash o')"
  shows "\<exists>e. amend env q db = (Inl e, db)"
proof -
  obtain r db' where step: "amend env q db = (r, db')" by (rule prod.exhaust)
  from step show ?thesis by (cases rule: amend_cases) (use step assms in auto)
qed

lemma amend_checked:
  assumes "amend env q db = (Inr answer, db')"
  obtains kind trust where "json_finite (PDict (am_payload q))" "amend_kind q = Inr kind" "trust_digest env q = Inr trust"
  using assms by (auto simp: amend_def amend_body_def bindR_eq_Inr split: sum.splits prod.splits)

text \<open>
  C6. An amendment whose reply was lost can be sent again at any time: it is answered with its first receipt and changes
  nothing, and another request under its identifier is refused.
\<close>

theorem metadata_replayed:
  assumes first: "amend env q db = (Inr answer, db1)" "am_mode q \<noteq> Some ''preview''" and later: "amended db1 db2"
    and host: "me_sha env' = me_sha env" "me_repr env' = me_repr env" "me_providers env' = me_providers env"
  shows "(\<exists>again. amend env' q db2 = (Inr again, db2) \<and> dget again ''receipt'' = dget answer ''receipt'') \<and>
    (am_project q' = am_project q \<and> am_operation q' = am_operation q \<and> request_hash env' q' \<noteq> request_hash env' q \<longrightarrow>
      (\<exists>e. amend env' q' db2 = (Inl e, db2)))"
proof -
  from amend_recorded [OF first] obtain o' hash where
    rec: "operation_of db1 (am_project q) (am_operation q) = Some o'" "request_hash env q = Inr hash"
    "mo_hash o' = hash" "am_expected (mo_request o') = am_expected q" "dget answer ''receipt'' = PDict (mo_receipt o')" .
  from amend_checked [OF first(1)] obtain kind trust where
    pre: "json_finite (PDict (am_payload q))" "amend_kind q = Inr kind" "trust_digest env q = Inr trust" .
  have hash: "request_hash env' q = Inr (mo_hash o')" using rec(2,3) request_hash_env [OF host(1,2)] by simp
  have trust: "trust_digest env' q = Inr trust" using pre(3) unfolding trust_digest_def meta_digest_def host .
  have known: "operation_of db2 (am_project q) (am_operation q) = Some o'" by (rule amended_operation [OF later rec(1)])
  have "\<exists>again. amend env' q db2 = (Inr again, db2) \<and> dget again ''receipt'' = dget answer ''receipt''"
    using amend_replays [OF pre(1) hash pre(2) trust known rec(4)] rec(5) by (simp add: replayed_def dget_dupdate_receipt)
  moreover have "\<exists>e. amend env' q' db2 = (Inl e, db2)"
    if "am_project q' = am_project q" "am_operation q' = am_operation q" "request_hash env' q' \<noteq> request_hash env' q"
    by (rule amend_conflicts [of _ _ o']) (use that known hash in simp_all)
  ultimately show ?thesis by blast
qed

lemma examine_review:
  assumes "examine_amendment env q kind trust db = Inr x"
  shows "dget (ex_review x) ''affected'' = PList (map affected_pv (ex_rows x))"
    "dget (ex_review x) ''invalidations'' = PList (map invalidation_pv (ex_invalidations x))"
  using assms by (auto simp: examine_amendment_def bindR_eq_Inr Let_def dget_def dget_or_def)

lemma applied_answer:
  assumes "commit_amendment env q hash kind x db = Inr (answer, db')"
  shows "dget answer ''affected'' = PList (map affected_pv (ex_rows x))"
    "dget answer ''invalidations'' = PList (map invalidation_pv (ex_invalidations x))"
  by (simp_all add: commit_amendment_Inr(1) [OF assms] dget_def dget_or_def dupdate_def update_conv' applied_receipt_def)

text \<open>
  What is applied after a preview is what was reviewed: the same request, at the revision it was reviewed at, with an
  equal review of the affected rows, the sources, the trusted providers and the invalidations.
\<close>

theorem metadata_reviewed:
  assumes "amend env q db = (Inr answer, db')" "db_declarations db' \<noteq> db_declarations db"
    and "preview_of db (am_project q) (am_operation q) = Some v"
  shows "request_hash env q = Inr (mv_hash v) \<and> meta_revision db (am_project q) = mv_expected v \<and>
    (\<exists>kind trust x. amend_kind q = Inr kind \<and> trust_digest env q = Inr trust \<and> examine_amendment env q kind trust db = Inr x \<and>
       py_eq (PDict (mv_review v)) (PDict (ex_review x)) \<and>
       dget answer ''affected'' = dget (ex_review x) ''affected'' \<and> dget answer ''invalidations'' = dget (ex_review x) ''invalidations'')"
  using assms(1)
proof (cases rule: amend_cases)
  case (applied hash kind trust x answer')
  then show ?thesis
    using assms(3) examine_review [OF applied(7)] applied_answer [OF applied(10)]
    by (auto simp: same_review_def)
qed (use assms(2) in \<open>simp_all add: frame_simps\<close>)

text \<open>What a removal finds: the registration first, then the active relations that name it.\<close>

lemma examine_parts:
  assumes "examine_amendment env q kind trust db = Inr x"
  obtains current where "payload_id (am_payload q) = Inr (ex_id x)"
    "current_declaration (latest_declarations db (am_project q)) kind (ex_id x) = Inr current"
    "affected_rows env q (latest_declarations db (am_project q)) current = Inr (ex_rows x)" "ex_noop x = amend_noop q current"
  using assms by (auto simp: examine_amendment_def bindR_eq_Inr Let_def)

lemma affected_removal:
  assumes "affected_rows env q latest current = Inr rows" "removing q"
  obtains c related where "current = Some c" "\<not> md_retired c" "filterR (is_related env c) latest = Inr related" "rows = c # related"
proof (cases current)
  case (Some c)
  then show thesis
    using assms that [of c "tl rows"] by (auto simp: affected_rows_def bindR_eq_Inr split: if_splits option.splits)
qed (use assms in \<open>simp add: affected_rows_def\<close>)

lemma examine_removal:
  assumes "examine_amendment env q kind trust db = Inr x" "removing q"
  obtains k c related where "kind = PStr k" "payload_id (am_payload q) = Inr (ex_id x)"
    "decl_at (latest_declarations db (am_project q)) (k, ex_id x) = Some c" "\<not> md_retired c"
    "filterR (is_related env c) (latest_declarations db (am_project q)) = Inr related" "ex_rows x = c # related" "\<not> ex_noop x"
proof -
  from examine_parts [OF assms(1)] obtain current where
    parts: "payload_id (am_payload q) = Inr (ex_id x)"
    "current_declaration (latest_declarations db (am_project q)) kind (ex_id x) = Inr current"
    "affected_rows env q (latest_declarations db (am_project q)) current = Inr (ex_rows x)" "ex_noop x = amend_noop q current" .
  from affected_removal [OF parts(3) assms(2)] obtain c related where
    c: "current = Some c" "\<not> md_retired c" "filterR (is_related env c) (latest_declarations db (am_project q)) = Inr related"
    "ex_rows x = c # related" .
  from parts(2) c(1) obtain k where "kind = PStr k" "decl_at (latest_declarations db (am_project q)) (k, ex_id x) = Some c"
    by (cases kind) (auto simp: current_declaration_def)
  then show thesis using that parts(1,4) c assms(2) by (simp add: amend_noop_def)
qed

lemma related_complete:
  assumes "filterR (is_related env c) ds = Inr related" "d \<in> set ds" "is_related env c d = Inr True"
  shows "d \<in> set related"
proof -
  from assms(1) obtain p where p: "\<forall>d \<in> set ds. is_related env c d = Inr (p d)" "related = filter p ds"
    unfolding filterR_eq_Inr by (elim exE conjE)
  have "is_related env c d = Inr (p d)" using p(1) assms(2) by (rule bspec)
  then show ?thesis using p(2) assms(2,3) by simp
qed

text \<open>A row that is still the latest after an applied amendment is new, or its key was not a target.\<close>

lemma applied_latest:
  assumes ok: "meta_ok db" and x: "ex_latest x = latest_declarations db (am_project q)"
    and commit: "commit_amendment env q hash kind x db = Inr (answer, db')"
    and d: "d \<in> set (latest_declarations db' (am_project q))"
  shows "d \<in> set (new_rows env q kind x db) \<or>
    d \<in> set (latest_declarations db (am_project q)) \<and> (md_kind d, md_id d) \<notin> set (amend_targets q kind x)"
proof (cases "d \<in> set (new_rows env q kind x db)")
  case False
  note new = commit_amendment_Inr(3) [OF commit]
  have up: "counts_up (db_declarations db)" "counts_up (db_declarations db')"
    using ok applied_meta_ok [OF ok x commit] by (simp_all add: meta_ok_def)
  have d': "d \<in> set (db_declarations db)" "md_project d = am_project q" "is_latest (db_declarations db') d" "d \<in> set (db_declarations db')"
    using d False by (auto simp: set_latest new)
  let ?n = "length (rows_of (decl_key d) (db_declarations db))"
  have "md_version d = int (?n + length (rows_of (decl_key d) (new_rows env q kind x db)))"
    using is_latest_version [OF up(2) d'(4)] d'(3) by (simp add: new)
  moreover have "md_version d \<le> int ?n"
    using counts_up_versions [OF up(1), of "decl_key d"] d'(1) by (auto simp: in_rows_of)
  ultimately have none: "rows_of (decl_key d) (new_rows env q kind x db) = []" "md_version d = int ?n" by simp_all
  then have "(md_kind d, md_id d) \<notin> set (amend_targets q kind x)"
    using d'(2) by (auto simp: decl_key_def rows_of_new [OF commit_amendment_Inr(4) [OF commit]] split: if_splits)
  moreover have "is_latest (db_declarations db) d" using is_latest_version [OF up(1) d'(1)] none(2) by simp
  ultimately show ?thesis using d' by (auto simp: set_latest)
qed simp

text \<open>
  C37. A removal that is applied retires the registration and every relation that names it: afterwards no active declaration
  of the project is the registration, and none is a relation that was found to name it.
\<close>

theorem metadata_removed:
  assumes ok: "meta_ok db" and step: "amend env q db = (Inr answer, db')" and mode: "removing q"
    and wrote: "db_declarations db' \<noteq> db_declarations db"
  shows "\<exists>c. amend_kind q = Inr (PStr (md_kind c)) \<and> payload_id (am_payload q) = Inr (md_id c) \<and>
    c \<in> set (latest_declarations db (am_project q)) \<and>
    (\<forall>d \<in> set (latest_declarations db' (am_project q)). \<not> md_retired d \<longrightarrow>
       (md_kind d, md_id d) \<noteq> (md_kind c, md_id c) \<and> d \<in> set (latest_declarations db (am_project q)) \<and> is_related env c d \<noteq> Inr True)"
  using step
proof (cases rule: amend_cases)
  case (applied hash kind trust x answer')
  from examine_removal [OF applied(7) mode] obtain k c related where
    found: "kind = PStr k" "payload_id (am_payload q) = Inr (ex_id x)"
    "decl_at (latest_declarations db (am_project q)) (k, ex_id x) = Some c" "\<not> md_retired c"
    "filterR (is_related env c) (latest_declarations db (am_project q)) = Inr related" "ex_rows x = c # related" "\<not> ex_noop x" .
  have c: "md_kind c = k" "md_id c = ex_id x" "c \<in> set (latest_declarations db (am_project q))"
    using decl_at_Some [OF found(3)] by (auto simp: decl_key_def set_latest)
  have targets: "amend_targets q kind x = map (\<lambda>d. (md_kind d, md_id d)) (c # related)"
    using mode found(6) by (simp add: amend_targets_def)
  have "(md_kind d, md_id d) \<noteq> (md_kind c, md_id c) \<and> d \<in> set (latest_declarations db (am_project q)) \<and> is_related env c d \<noteq> Inr True"
    if d: "d \<in> set (latest_declarations db' (am_project q))" "\<not> md_retired d" for d
  proof -
    have "d \<notin> set (new_rows env q kind x db)" using d(2) mode by (auto simp: new_rows_def)
    then have old: "d \<in> set (latest_declarations db (am_project q))" "(md_kind d, md_id d) \<notin> set (amend_targets q kind x)"
      using applied_latest [OF ok examine_latest [OF applied(7)] applied(10) d(1)] by simp_all
    then have "is_related env c d \<noteq> Inr True" using related_complete [OF found(5) old(1)] targets by auto
    then show ?thesis using old targets by auto
  qed
  then show ?thesis using applied(5) found(1,2) c by (intro exI [of _ c]) simp
qed (use wrote in \<open>simp_all add: frame_simps\<close>)

text \<open>
  C38. A relation with an end that names the relation itself cannot be removed: it is retired twice in one transaction, which
  the primary key refuses.
\<close>

theorem self_relation_kept:
  assumes "decl_at (latest_declarations db (am_project q)) (''relation'', i) = Some c"
    and "is_related env c c = Inr True"
    and "removing q" "dget (am_payload q) ''kind'' = PStr ''relation''" "payload_id (am_payload q) = Inr i"
    and "am_mode q \<noteq> Some ''preview''" "operation_of db (am_project q) (am_operation q) = None"
  shows "\<exists>e. amend env q db = (Inl e, db)"
proof -
  obtain r db' where step: "amend env q db = (r, db')" by (rule prod.exhaust)
  from step show ?thesis
  proof (cases rule: amend_cases)
    case (noop hash kind trust x)
    then show ?thesis using examine_removal [OF noop(5) assms(3)] by auto
  next
    case (applied hash kind trust x answer)
    from examine_removal [OF applied(7) assms(3)] obtain k c' related where
      found: "kind = PStr k" "payload_id (am_payload q) = Inr (ex_id x)"
      "decl_at (latest_declarations db (am_project q)) (k, ex_id x) = Some c'"
      "filterR (is_related env c') (latest_declarations db (am_project q)) = Inr related" "ex_rows x = c' # related" .
    have "c' = c" using found(1-3) assms(1,3-5) applied(5) by (simp add: amend_kind_def)
    moreover have "c \<in> set (latest_declarations db (am_project q))"
      using decl_at_Some [OF assms(1)] by (auto simp: set_latest decl_key_def)
    ultimately have "c \<in> set related" using related_complete [OF found(4)] assms(2) by simp
    then have "\<not> distinct (amend_targets q kind x)"
      using assms(3) found(5) \<open>c' = c\<close> by (auto simp: amend_targets_def)
    then show ?thesis using commit_amendment_Inr(4) [OF applied(10)] by simp
  qed (use step assms(6,7) in auto)
qed

end
