(* ===== verification/ProjectMetadataDemo.thy ===== *)
theory ProjectMetadataDemo
  imports ProjectMetadataProps
begin

text \<open>
  A short history of a project's metadata: an identity, a relation that names it, and its removal; and a relation that
  names itself.  The digest is the identity function.
\<close>

definition demo_meta_env :: meta_env where
  "demo_meta_env = \<lparr>me_sha = (\<lambda>s. s), me_repr = (\<lambda>_. []), me_scope = ''s'', me_sources = (\<lambda>_. Inr []), me_providers = [],
     me_identities = [''w''], me_now = 0\<rparr>"

definition demo_amendment :: "string \<Rightarrow> int \<Rightarrow> string \<Rightarrow> pdict \<Rightarrow> amendment" where
  "demo_amendment action expected operation payload =
     \<lparr>am_format = ''f'', am_project = ''w'', am_action = action, am_intent = ''i'', am_expected = expected,
      am_operation = operation, am_payload = payload, am_mode = None\<rparr>"

definition demo_ref :: "string \<Rightarrow> string \<Rightarrow> pv" where
  "demo_ref kind i = PDict [(''project_uuid'', PStr ''w''), (''repository'', PStr ''c''), (''kind'', PStr kind), (''id'', PStr i)]"

definition demo_identity :: amendment where
  "demo_identity = demo_amendment ''register_identity'' 0 ''o1'' [(''id'', PStr ''n''), (''repository'', PStr ''c'')]"

definition demo_relation :: amendment where
  "demo_relation = demo_amendment ''register_relation'' 1 ''o2''
     [(''id'', PStr ''r''), (''source'', demo_ref ''identity'' ''n''), (''target'', demo_ref ''identity'' ''m'')]"

definition demo_removal :: amendment where
  "demo_removal = demo_amendment ''remove_registration'' 2 ''o3''
     [(''id'', PStr ''n''), (''kind'', PStr ''identity''), (''version'', PInt 1)]"

definition demo_meta1 :: meta_db where
  "demo_meta1 = snd (amend demo_meta_env demo_identity empty_meta_db)"

definition demo_meta2 :: meta_db where
  "demo_meta2 = snd (amend demo_meta_env demo_relation demo_meta1)"

definition demo_meta3 :: meta_db where
  "demo_meta3 = snd (amend demo_meta_env demo_removal demo_meta2)"

lemma demo_rows:
  "map (\<lambda>d. (md_id d, md_version d, md_retired d, md_revision d)) (db_declarations demo_meta3) =
     [(''n'', 1, False, 1), (''r'', 1, False, 2), (''n'', 2, True, 3), (''r'', 2, True, 3)]"
  by code_simp

definition demo_meta0 :: meta_db where
  "demo_meta0 = snd (amend demo_meta_env (demo_identity\<lparr>am_mode := Some ''preview''\<rparr>) empty_meta_db)"

definition demo_self :: amendment where
  "demo_self = demo_amendment ''register_relation'' 0 ''o4''
     [(''id'', PStr ''r''), (''source'', demo_ref ''relation'' ''r''), (''target'', demo_ref ''identity'' ''m'')]"

definition demo_self_removal :: amendment where
  "demo_self_removal = demo_amendment ''remove_registration'' 1 ''o5''
     [(''id'', PStr ''r''), (''kind'', PStr ''relation''), (''version'', PInt 1)]"

definition demo_meta_self :: meta_db where
  "demo_meta_self = snd (amend demo_meta_env demo_self empty_meta_db)"

lemma amend_collapse: "amend env q db = (fst (amend env q db), snd (amend env q db))"
  by simp

lemma amend_done:
  "\<not> isl (fst (amend env q db)) \<Longrightarrow> amend env q db = (Inr (projr (fst (amend env q db))), snd (amend env q db))"
  by (simp add: prod_eq_iff)

lemma demo_step1: "amend demo_meta_env demo_identity empty_meta_db = (fst (amend demo_meta_env demo_identity empty_meta_db), demo_meta1)"
  by (simp add: demo_meta1_def)

lemma demo_step2: "amend demo_meta_env demo_relation demo_meta1 = (fst (amend demo_meta_env demo_relation demo_meta1), demo_meta2)"
  by (simp add: demo_meta2_def)

lemma demo_step3: "amend demo_meta_env demo_removal demo_meta2 = (fst (amend demo_meta_env demo_removal demo_meta2), demo_meta3)"
  by (simp add: demo_meta3_def)

lemma demo_amended: "amended empty_meta_db demo_meta3" "amended demo_meta1 demo_meta3"
  by (rule amended_step [OF amended_step [OF amended_step [OF amended_refl demo_step1] demo_step2] demo_step3],
      rule amended_step [OF amended_step [OF amended_refl demo_step2] demo_step3])

theorem metadata_log_witness:
  "map md_version (rows_of (''w'', ''identity'', ''n'') (db_declarations demo_meta3)) =
     map int [1..<Suc (length (rows_of (''w'', ''identity'', ''n'') (db_declarations demo_meta3)))]"
  using metadata_log [OF demo_amended(1), of "(''w'', ''identity'', ''n'')"] by (rule conjunct1)

lemma demo_meta1_rows: "db_declarations demo_meta1 \<noteq> db_declarations empty_meta_db"
  by code_simp

theorem metadata_one_winner_witness:
  "db_declarations (snd (amend demo_meta_env (demo_identity\<lparr>am_operation := ''o9''\<rparr>) demo_meta3)) = db_declarations demo_meta3"
  using metadata_one_winner [OF demo_step1 demo_meta1_rows demo_amended(2), of "demo_identity\<lparr>am_operation := ''o9''\<rparr>", OF _ _ amend_collapse]
  by simp

lemma demo_answer1: "\<not> isl (fst (amend demo_meta_env demo_identity empty_meta_db))"
  by code_simp

theorem metadata_replayed_witness:
  "\<exists>again. amend demo_meta_env demo_identity demo_meta3 = (Inr again, demo_meta3) \<and>
     dget again ''receipt'' = dget (projr (fst (amend demo_meta_env demo_identity empty_meta_db))) ''receipt''"
  using metadata_replayed [OF amend_done [OF demo_answer1, folded demo_meta1_def] _ demo_amended(2), of demo_meta_env]
  by (simp add: demo_identity_def demo_amendment_def)

lemma demo_applied:
  "\<not> isl (fst (amend demo_meta_env demo_identity demo_meta0))"
  "db_declarations (snd (amend demo_meta_env demo_identity demo_meta0)) \<noteq> db_declarations demo_meta0"
  "preview_of demo_meta0 (am_project demo_identity) (am_operation demo_identity) = Some (hd (db_previews demo_meta0))"
  by code_simp+

theorem metadata_reviewed_witness:
  "request_hash demo_meta_env demo_identity = Inr (mv_hash (hd (db_previews demo_meta0))) \<and>
   meta_revision demo_meta0 (am_project demo_identity) = mv_expected (hd (db_previews demo_meta0))"
  using metadata_reviewed [OF amend_done [OF demo_applied(1)] demo_applied(2,3)] by simp

lemma demo_removed:
  "\<not> isl (fst (amend demo_meta_env demo_removal demo_meta2))"
  "db_declarations demo_meta3 \<noteq> db_declarations demo_meta2"
  by code_simp+

lemma demo_meta2_ok: "meta_ok demo_meta2"
  by (rule amended_meta_ok [OF amended_step [OF amended_step [OF amended_refl demo_step1] demo_step2] meta_ok_empty])

theorem metadata_removed_witness:
  "\<exists>c. payload_id (am_payload demo_removal) = Inr (md_id c) \<and> c \<in> set (latest_declarations demo_meta2 (am_project demo_removal))"
  using metadata_removed [OF demo_meta2_ok amend_done [OF demo_removed(1), folded demo_meta3_def] _ demo_removed(2)]
  by (simp add: demo_removal_def demo_amendment_def removing_def) (elim exE conjE, rule exI, rule conjI, assumption)

lemma demo_self_facts:
  "decl_at (latest_declarations demo_meta_self (am_project demo_self_removal)) (''relation'', ''r'') = Some (hd (db_declarations demo_meta_self))"
  "is_related demo_meta_env (hd (db_declarations demo_meta_self)) (hd (db_declarations demo_meta_self)) = Inr True"
  "removing demo_self_removal" "dget (am_payload demo_self_removal) ''kind'' = PStr ''relation''"
  "payload_id (am_payload demo_self_removal) = Inr ''r''" "am_mode demo_self_removal \<noteq> Some ''preview''"
  "operation_of demo_meta_self (am_project demo_self_removal) (am_operation demo_self_removal) = None"
  by code_simp+

theorem self_relation_kept_witness:
  "\<exists>e. amend demo_meta_env demo_self_removal demo_meta_self = (Inl e, demo_meta_self)"
  by (rule self_relation_kept [OF demo_self_facts])

end
