(* ===== verification/JsonLoads.thy ===== *)
theory JsonLoads
  imports Json PyBuiltins
begin

text \<open>
  \<^verbatim>\<open>json.loads\<close>: the scanner of the standard library, on ASCII text.  How a code point outside ASCII is held (\<open>uc\<close>) and
  which float a numeral with a fraction or exponent denotes (\<open>pf\<close>) are arguments.  \<^verbatim>\<open>JSONDecodeError\<close> is a
  \<^verbatim>\<open>ValueError\<close>.  The parser of values is fuelled; \<open>loads_fuel\<close> shows that the fuel of \<open>json_loads\<close> is enough.
\<close>

section \<open>Tokens\<close>

definition decode_error :: "string \<Rightarrow> exn" where
  "decode_error m = ValueError m"

definition skip_ws :: "string \<Rightarrow> string" where
  "skip_ws = dropWhile (\<lambda>c. c \<in> {CHR '' '', CHR 0x09, CHR 0x0A, CHR 0x0D})"

lemma skip_ws_length: "length (skip_ws s) \<le> length s"
  by (simp add: skip_ws_def length_dropWhile_le)

definition hex_value :: "char \<Rightarrow> nat option" where
  "hex_value c =
     (if is_digit c then Some (of_char c - 48)
      else if CHR ''a'' \<le> c \<and> c \<le> CHR ''f'' then Some (of_char c - 87)
      else if CHR ''A'' \<le> c \<and> c \<le> CHR ''F'' then Some (of_char c - 55)
      else None)"

definition hex4 :: "string \<Rightarrow> nat option" where
  "hex4 s =
     (case map hex_value (take 4 s) of
        [Some a, Some b, Some c, Some d] \<Rightarrow> Some (((a * 16 + b) * 16 + c) * 16 + d)
      | _ \<Rightarrow> None)"

definition escapes :: "(char \<times> char) list" where
  "escapes =
     [(CHR 0x22, CHR 0x22), (CHR 0x5C, CHR 0x5C), (CHR 0x2F, CHR 0x2F), (CHR ''b'', CHR 0x08), (CHR ''f'', CHR 0x0C),
      (CHR ''n'', CHR 0x0A), (CHR ''r'', CHR 0x0D), (CHR ''t'', CHR 0x09)]"

text \<open>The code point of an escape and what is left after it; a high surrogate takes a low one with it.\<close>

definition code_point :: "string \<Rightarrow> (nat \<times> string) result" where
  "code_point s =
     (case hex4 s of
        None \<Rightarrow> Inl (decode_error ''Invalid uXXXX escape'')
      | Some n \<Rightarrow>
          (let t = drop 4 s in
           if 0xD800 \<le> n \<and> n \<le> 0xDBFF \<and> take 2 t = [CHR 0x5C, CHR ''u''] then
             (case hex4 (drop 2 t) of
                Some m \<Rightarrow> if 0xDC00 \<le> m \<and> m \<le> 0xDFFF then Inr (0x10000 + (n - 0xD800) * 1024 + (m - 0xDC00), drop 6 t) else Inr (n, t)
              | None \<Rightarrow> Inr (n, t))
           else Inr (n, t)))"

lemma code_point_length: "code_point s = Inr (n, t) \<Longrightarrow> length t \<le> length s"
  by (auto simp: code_point_def Let_def split: option.splits if_splits)

definition point_text :: "(nat \<Rightarrow> string) \<Rightarrow> nat \<Rightarrow> string" where
  "point_text uc n = (if n < 128 then [char_of n] else uc n)"

text \<open>A string after its opening quote.\<close>

function scan_string :: "(nat \<Rightarrow> string) \<Rightarrow> string \<Rightarrow> (string \<times> string) result" where
  "scan_string uc s =
     (case s of
        [] \<Rightarrow> Inl (decode_error ''Unterminated string'')
      | c # t \<Rightarrow>
          if c = CHR 0x22 then Inr ([], t)
          else if c \<noteq> CHR 0x5C then
            if (of_char c :: nat) < 32 then Inl (decode_error ''Invalid control character'')
            else bindR (scan_string uc t) (\<lambda>(r, rest). Inr (c # r, rest))
          else (case t of
              [] \<Rightarrow> Inl (decode_error ''Unterminated string'')
            | e # u \<Rightarrow>
                if e = CHR ''u'' then
                  (case code_point u of
                     Inl x \<Rightarrow> Inl x
                   | Inr (n, v) \<Rightarrow> bindR (scan_string uc v) (\<lambda>(r, rest). Inr (point_text uc n @ r, rest)))
                else (case map_of escapes e of
                    None \<Rightarrow> Inl (decode_error ''Invalid escape'')
                  | Some d \<Rightarrow> bindR (scan_string uc u) (\<lambda>(r, rest). Inr (d # r, rest)))))"
  by pat_completeness auto

termination
  by (relation "measure (\<lambda>(uc, s). length s)") (auto dest!: code_point_length)

declare scan_string.simps [simp del]

text \<open>A numeral: the integer part, then a fraction and an exponent that make it a float.\<close>

definition int_part :: "string \<Rightarrow> string" where
  "int_part s =
     (let (sign, r) = (case s of c # t \<Rightarrow> if c = CHR ''-'' then ([c], t) else ([], s) | [] \<Rightarrow> ([], [])) in
      case r of
        [] \<Rightarrow> []
      | d # t \<Rightarrow> if d = CHR ''0'' then sign @ [d] else if is_digit d then sign @ takeWhile is_digit r else [])"

definition frac_part :: "string \<Rightarrow> string" where
  "frac_part s =
     (case s of
        [] \<Rightarrow> []
      | c # t \<Rightarrow> if c = CHR ''.'' \<and> takeWhile is_digit t \<noteq> [] then c # takeWhile is_digit t else [])"

definition exp_part :: "string \<Rightarrow> string" where
  "exp_part s =
     (case s of
        [] \<Rightarrow> []
      | c # t \<Rightarrow>
          (let sign = takeWhile (\<lambda>d. d \<in> {CHR ''+'', CHR ''-''}) (take 1 t); digits = takeWhile is_digit (drop (length sign) t) in
           if c \<in> {CHR ''e'', CHR ''E''} \<and> digits \<noteq> [] then c # sign @ digits else []))"

definition scan_number :: "(string \<Rightarrow> pyfloat) \<Rightarrow> string \<Rightarrow> (pv \<times> string) result" where
  "scan_number pf s =
     (let i = int_part s; f = frac_part (drop (length i) s); e = exp_part (drop (length i + length f) s);
          rest = drop (length i + length f + length e) s in
      if i = [] then Inl (decode_error ''Expecting value'')
      else if f = [] \<and> e = [] then bindR (py_int i) (\<lambda>n. Inr (PInt n, rest))
      else Inr (PFloat (pf (i @ f @ e)), rest))"

definition literals :: "(string \<times> pv) list" where
  "literals =
     [(''null'', PNone), (''true'', PBool True), (''false'', PBool False), (''NaN'', PFloat NaN), (''Infinity'', PFloat PosInf),
      (''-Infinity'', PFloat NegInf)]"

definition scan_atom :: "(string \<Rightarrow> pyfloat) \<Rightarrow> string \<Rightarrow> (pv \<times> string) result" where
  "scan_atom pf s =
     (case find (\<lambda>l. startswith s (fst l)) literals of
        Some (l, v) \<Rightarrow> Inr (v, drop (length l) s)
      | None \<Rightarrow> scan_number pf s)"

section \<open>Values\<close>

text \<open>What follows an element or member: the closing bracket, or a comma and the rest.\<close>

definition delimited ::
  "char \<Rightarrow> (string \<Rightarrow> ('a list \<times> string) result) \<Rightarrow> 'a \<Rightarrow> string \<Rightarrow> ('a list \<times> string) result" where
  "delimited close tail x r =
     (case skip_ws r of
        [] \<Rightarrow> Inl (decode_error ''Expecting , delimiter'')
      | c # t \<Rightarrow>
          if c = close then Inr ([x], t)
          else if c = CHR '','' then bindR (tail (skip_ws t)) (\<lambda>(xs, rest). Inr (x # xs, rest))
          else Inl (decode_error ''Expecting , delimiter''))"

definition after_key :: "(string \<Rightarrow> (pv \<times> string) result) \<Rightarrow> string \<Rightarrow> string \<Rightarrow> ((string \<times> pv) \<times> string) result" where
  "after_key value k r =
     (case skip_ws r of
        [] \<Rightarrow> Inl (decode_error ''Expecting : delimiter'')
      | d # u \<Rightarrow>
          if d \<noteq> CHR '':'' then Inl (decode_error ''Expecting : delimiter'')
          else bindR (value (skip_ws u)) (\<lambda>(v, w). Inr ((k, v), w)))"

definition scan_member ::
  "(nat \<Rightarrow> string) \<Rightarrow> (string \<Rightarrow> (pv \<times> string) result) \<Rightarrow> string \<Rightarrow> ((string \<times> pv) \<times> string) result" where
  "scan_member uc value s =
     (case s of
        [] \<Rightarrow> Inl (decode_error ''Expecting property name enclosed in double quotes'')
      | q # t \<Rightarrow>
          if q \<noteq> CHR 0x22 then Inl (decode_error ''Expecting property name enclosed in double quotes'')
          else bindR (scan_string uc t) (\<lambda>(k, r). after_key value k r))"

text \<open>What follows the opening bracket.\<close>

definition bracketed ::
  "char \<Rightarrow> string \<Rightarrow> (string \<Rightarrow> ('a list \<times> string) result) \<Rightarrow> ('a list \<Rightarrow> pv) \<Rightarrow> string \<Rightarrow> (pv \<times> string) result" where
  "bracketed close expecting scan mk t =
     (case skip_ws t of
        [] \<Rightarrow> Inl (decode_error expecting)
      | d # u \<Rightarrow> if d = close then Inr (mk [], u) else bindR (scan (d # u)) (\<lambda>(xs, rest). Inr (mk xs, rest)))"

fun scan_value :: "nat \<Rightarrow> (nat \<Rightarrow> string) \<Rightarrow> (string \<Rightarrow> pyfloat) \<Rightarrow> string \<Rightarrow> (pv \<times> string) result"
  and scan_items :: "nat \<Rightarrow> (nat \<Rightarrow> string) \<Rightarrow> (string \<Rightarrow> pyfloat) \<Rightarrow> string \<Rightarrow> (pv list \<times> string) result"
  and scan_members :: "nat \<Rightarrow> (nat \<Rightarrow> string) \<Rightarrow> (string \<Rightarrow> pyfloat) \<Rightarrow> string \<Rightarrow> ((string \<times> pv) list \<times> string) result" where
  "scan_value 0 uc pf s = Inl OutOfFuel"
| "scan_value (Suc n) uc pf s =
     (case s of
        [] \<Rightarrow> Inl (decode_error ''Expecting value'')
      | c # t \<Rightarrow>
          if c = CHR 0x22 then bindR (scan_string uc t) (\<lambda>(r, rest). Inr (PStr r, rest))
          else if c = CHR 0x7B then
            bracketed (CHR 0x7D) ''Expecting property name enclosed in double quotes'' (\<lambda>u. scan_members n uc pf u)
              (\<lambda>ms. PDict (dupdate [] ms)) t
          else if c = CHR ''['' then bracketed (CHR '']'') ''Expecting value'' (\<lambda>u. scan_items n uc pf u) PList t
          else scan_atom pf s)"
| "scan_items 0 uc pf s = Inl OutOfFuel"
| "scan_items (Suc n) uc pf s =
     bindR (scan_value n uc pf s) (\<lambda>(v, r). delimited (CHR '']'') (\<lambda>u. scan_items n uc pf u) v r)"
| "scan_members 0 uc pf s = Inl OutOfFuel"
| "scan_members (Suc n) uc pf s =
     bindR (scan_member uc (\<lambda>u. scan_value n uc pf u) s) (\<lambda>(p, r). delimited (CHR 0x7D) (\<lambda>u. scan_members n uc pf u) p r)"

definition json_loads :: "(nat \<Rightarrow> string) \<Rightarrow> (string \<Rightarrow> pyfloat) \<Rightarrow> string \<Rightarrow> pv result" where
  "json_loads uc pf s =
     bindR (scan_value (2 * length s + 2) uc pf (skip_ws s)) (\<lambda>(v, rest).
       if skip_ws rest = [] then Inr v else Inl (decode_error ''Extra data''))"

section \<open>Enough fuel\<close>

text \<open>Every scanner consumes text, and the tokens do not run out of fuel.\<close>

lemma skip_ws_Cons: "skip_ws s = c # t \<Longrightarrow> length t < length s"
  using skip_ws_length [of s] by simp

lemma code_point_fuel: "code_point s \<noteq> Inl OutOfFuel"
  by (auto simp: code_point_def decode_error_def Let_def split: option.splits)

text \<open>One character of a string.\<close>

lemma scan_string_simps:
  "scan_string uc [] = Inl (decode_error ''Unterminated string'')"
  "scan_string uc (CHR 0x22 # t) = Inr ([], t)"
  "c \<noteq> CHR 0x22 \<Longrightarrow> c \<noteq> CHR 0x5C \<Longrightarrow> scan_string uc (c # t) =
     (if (of_char c :: nat) < 32 then Inl (decode_error ''Invalid control character'')
      else bindR (scan_string uc t) (\<lambda>(r, rest). Inr (c # r, rest)))"
  "scan_string uc [CHR 0x5C] = Inl (decode_error ''Unterminated string'')"
  "scan_string uc (CHR 0x5C # CHR ''u'' # u) =
     bindR (code_point u) (\<lambda>(n, v). bindR (scan_string uc v) (\<lambda>(r, rest). Inr (point_text uc n @ r, rest)))"
  "e \<noteq> CHR ''u'' \<Longrightarrow> scan_string uc (CHR 0x5C # e # u) =
     (case map_of escapes e of
        None \<Rightarrow> Inl (decode_error ''Invalid escape'')
      | Some d \<Rightarrow> bindR (scan_string uc u) (\<lambda>(r, rest). Inr (d # r, rest)))"
  by (simp_all add: scan_string.simps bindR_def split: sum.splits prod.splits)

lemma scan_string_step:
  "(\<exists>t. s = CHR 0x22 # t \<and> scan_string uc s = Inr ([], t)) \<or>
   (\<exists>m. scan_string uc s = Inl (ValueError m)) \<or>
   (\<exists>t p. length t < length s \<and> scan_string uc s = bindR (scan_string uc t) (\<lambda>(r, rest). Inr (p @ r, rest)))"
proof (cases s)
  case Nil
  then show ?thesis by (simp add: scan_string_simps decode_error_def)
next
  case (Cons c t)
  consider "c = CHR 0x22" | "c \<noteq> CHR 0x22" "c \<noteq> CHR 0x5C" | "c = CHR 0x5C" "t = []"
    | u where "c = CHR 0x5C" "t = CHR ''u'' # u" | e u where "c = CHR 0x5C" "t = e # u" "e \<noteq> CHR ''u''"
    by (cases t) auto
  then show ?thesis
  proof cases
    case 2
    show ?thesis
    proof (cases "(of_char c :: nat) < 32")
      case True
      then show ?thesis using 2 Cons by (simp add: scan_string_simps decode_error_def)
    next
      case False
      then have "length t < length s \<and> scan_string uc s = bindR (scan_string uc t) (\<lambda>(r, rest). Inr ([c] @ r, rest))"
        using 2 Cons by (simp add: scan_string_simps)
      then show ?thesis by blast
    qed
  next
    case (4 u)
    show ?thesis
    proof (cases "code_point u")
      case (Inl x)
      then have "\<exists>m. x = ValueError m" by (auto simp: code_point_def decode_error_def Let_def split: option.splits if_splits)
      then show ?thesis using 4 Cons Inl by (auto simp: scan_string_simps)
    next
      case (Inr p)
      then have "length (snd p) < length s \<and>
          scan_string uc s = bindR (scan_string uc (snd p)) (\<lambda>(r, rest). Inr (point_text uc (fst p) @ r, rest))"
        using 4 Cons code_point_length [of u "fst p" "snd p"] by (simp add: scan_string_simps split: prod.splits)
      then show ?thesis by blast
    qed
  next
    case (5 e u)
    show ?thesis
    proof (cases "map_of escapes e")
      case None
      then show ?thesis using 5 Cons by (simp add: scan_string_simps decode_error_def)
    next
      case (Some d)
      then have "length u < length s \<and> scan_string uc s = bindR (scan_string uc u) (\<lambda>(r, rest). Inr ([d] @ r, rest))"
        using 5 Cons by (simp add: scan_string_simps)
      then show ?thesis by blast
    qed
  qed (use Cons in \<open>auto simp: scan_string_simps decode_error_def\<close>)
qed

lemma scan_string_shorter: "scan_string uc s = Inr (r, rest) \<Longrightarrow> length rest < length s"
proof (induction s arbitrary: r rule: length_induct)
  case (1 s)
  show ?case using scan_string_step [of s uc] 1 by (fastforce simp: bindR_eq_Inr)
qed

lemma scan_string_fuel: "scan_string uc s \<noteq> Inl OutOfFuel"
proof (induction s rule: length_induct)
  case (1 s)
  show ?case using scan_string_step [of s uc] 1 by (fastforce simp: bindR_eq_Inl)
qed

lemma py_int_fuel: "py_int s \<noteq> Inl OutOfFuel"
  by (auto simp: py_int_def Let_def split: prod.splits)

lemma scan_atom_fuel: "scan_atom pf s \<noteq> Inl OutOfFuel"
  by (auto simp: scan_atom_def scan_number_def Let_def bindR_eq_Inl py_int_fuel decode_error_def split: option.splits)

lemma int_part_Nil [simp]: "int_part [] = []"
  by (simp add: int_part_def)

lemma scan_atom_shorter:
  assumes "scan_atom pf s = Inr (v, rest)"
  shows "length rest < length s"
proof (cases "find (\<lambda>l. startswith s (fst l)) literals")
  case None
  then have "int_part s \<noteq> []" "length rest \<le> length s - length (int_part s)"
    using assms by (auto simp: scan_atom_def scan_number_def Let_def bindR_eq_Inr split: if_splits)
  moreover from this(1) have "length (int_part s) > 0" "length s > 0" by (cases s; simp)+
  ultimately show ?thesis by linarith
next
  case (Some l)
  then have "l \<in> set literals" "startswith s (fst l)" by (auto simp: find_Some_iff)
  then show ?thesis using assms Some by (auto simp: scan_atom_def startswith_iff literals_def)
qed

text \<open>A scanner that returns has consumed text.\<close>

definition consumes :: "(string \<Rightarrow> ('a \<times> string) result) \<Rightarrow> bool" where
  "consumes f \<longleftrightarrow> (\<forall>s x rest. f s = Inr (x, rest) \<longrightarrow> length rest < length s)"

lemma consumesD: "consumes f \<Longrightarrow> f s = Inr (x, rest) \<Longrightarrow> length rest < length s"
  by (simp add: consumes_def)

lemma delimited_shorter:
  assumes "consumes tail" "delimited close tail x r = Inr (xs, rest)"
  shows "length rest < length r"
proof (cases "skip_ws r")
  case (Cons c t)
  have "length t < length r" "length (skip_ws t) \<le> length t" by (rule skip_ws_Cons [OF Cons], rule skip_ws_length)
  then show ?thesis
    using assms(2) Cons by (auto simp: delimited_def bindR_eq_Inr dest!: consumesD [OF assms(1)] split: if_splits)
qed (use assms(2) in \<open>simp add: delimited_def\<close>)

lemma delimited_fuel:
  assumes "\<And>s. length s < length r \<Longrightarrow> tail s \<noteq> Inl OutOfFuel"
  shows "delimited close tail x r \<noteq> Inl OutOfFuel"
proof (cases "skip_ws r")
  case (Cons c t)
  have "length t < length r" "length (skip_ws t) \<le> length t" by (rule skip_ws_Cons [OF Cons], rule skip_ws_length)
  then have "tail (skip_ws t) \<noteq> Inl OutOfFuel" by (intro assms) linarith
  then show ?thesis using Cons by (auto simp: delimited_def bindR_eq_Inl decode_error_def)
qed (simp add: delimited_def decode_error_def)

lemma after_key_shorter:
  assumes "consumes value" "after_key value k r = Inr (p, rest)"
  shows "length rest < length r"
proof (cases "skip_ws r")
  case (Cons d u)
  then obtain v where "value (skip_ws u) = Inr (v, rest)"
    using assms(2) by (auto simp: after_key_def bindR_eq_Inr split: if_splits)
  from consumesD [OF assms(1) this] show ?thesis using skip_ws_Cons [OF Cons] skip_ws_length [of u] by linarith
qed (use assms(2) in \<open>simp add: after_key_def\<close>)

lemma after_key_fuel:
  assumes "\<And>t. length t < length r \<Longrightarrow> value t \<noteq> Inl OutOfFuel"
  shows "after_key value k r \<noteq> Inl OutOfFuel"
proof (cases "skip_ws r")
  case (Cons d u)
  then have "value (skip_ws u) \<noteq> Inl OutOfFuel" using skip_ws_Cons [OF Cons] skip_ws_length [of u] by (intro assms) linarith
  then show ?thesis using Cons by (auto simp: after_key_def bindR_eq_Inl decode_error_def)
qed (simp add: after_key_def decode_error_def)

lemma scan_member_shorter:
  assumes "consumes value" "scan_member uc value s = Inr (p, rest)"
  shows "length rest < length s"
proof -
  from assms(2) obtain t k r where parts: "s = CHR 0x22 # t" "scan_string uc t = Inr (k, r)" "after_key value k r = Inr (p, rest)"
    by (auto simp: scan_member_def bindR_eq_Inr split: list.splits if_splits)
  show ?thesis
    using parts(1) scan_string_shorter [OF parts(2)] after_key_shorter [OF assms(1) parts(3)] by simp
qed

lemma scan_member_fuel:
  assumes "\<And>t. length t < length s \<Longrightarrow> value t \<noteq> Inl OutOfFuel"
  shows "scan_member uc value s \<noteq> Inl OutOfFuel"
proof (cases s)
  case (Cons q t)
  have "after_key value k r \<noteq> Inl OutOfFuel" if "scan_string uc t = Inr (k, r)" for k r
    by (rule after_key_fuel, rule assms) (use scan_string_shorter [OF that] Cons in simp)
  then show ?thesis using Cons by (auto simp: scan_member_def bindR_eq_Inl decode_error_def scan_string_fuel)
qed (simp add: scan_member_def decode_error_def)

lemma bracketed_shorter:
  assumes "consumes scan" "bracketed close m scan mk t = Inr (v, rest)"
  shows "length rest < length t"
proof (cases "skip_ws t")
  case (Cons d u)
  then show ?thesis
    using assms(2) skip_ws_Cons [OF Cons] skip_ws_length [of t] consumesD [OF assms(1), of "d # u"]
    by (fastforce simp: bracketed_def bindR_eq_Inr split: if_splits)
qed (use assms(2) in \<open>simp add: bracketed_def\<close>)

lemma bracketed_fuel:
  assumes "\<And>s. length s \<le> length t \<Longrightarrow> scan s \<noteq> Inl OutOfFuel"
  shows "bracketed close m scan mk t \<noteq> Inl OutOfFuel"
proof (cases "skip_ws t")
  case (Cons d u)
  then have "scan (d # u) \<noteq> Inl OutOfFuel" using skip_ws_length [of t] by (intro assms) simp
  then show ?thesis using Cons by (auto simp: bracketed_def bindR_eq_Inl)
qed (simp add: bracketed_def decode_error_def)

lemma consumes_bind:
  assumes "consumes f" "\<And>x r y rest. g x r = Inr (y, rest) \<Longrightarrow> length rest \<le> length r"
  shows "consumes (\<lambda>s. bindR (f s) (\<lambda>(x, r). g x r))"
  unfolding consumes_def
proof (intro allI impI)
  fix s y rest assume "bindR (f s) (\<lambda>(x, r). g x r) = Inr (y, rest)"
  then obtain x r where "f s = Inr (x, r)" "g x r = Inr (y, rest)" by (auto simp: bindR_eq_Inr)
  then show "length rest < length s" using consumesD [OF assms(1)] assms(2) le_less_trans by blast
qed

lemma scan_value_Suc_shorter:
  assumes "consumes (\<lambda>u. scan_members n uc pf u)" "consumes (\<lambda>u. scan_items n uc pf u)" "scan_value (Suc n) uc pf s = Inr (v, rest)"
  shows "length rest < length s"
proof (cases s)
  case (Cons c t)
  consider "c = CHR 0x22" | "c = CHR 0x7B" | "c = CHR ''[''" | "c \<noteq> CHR 0x22" "c \<noteq> CHR 0x7B" "c \<noteq> CHR ''[''" by blast
  then show ?thesis
  proof cases
    case 1
    then show ?thesis using assms(3) Cons scan_string_shorter by (fastforce simp: bindR_eq_Inr)
  next
    case 2
    then show ?thesis using assms(3) Cons bracketed_shorter [OF assms(1)] by fastforce
  next
    case 3
    then show ?thesis using assms(3) Cons bracketed_shorter [OF assms(2)] by fastforce
  next
    case 4
    then show ?thesis using assms(3) Cons scan_atom_shorter [of pf s v rest] by simp
  qed
qed (use assms(3) in simp)

lemma scan_shorter:
  "consumes (scan_value n uc pf)" "consumes (scan_items n uc pf)" "consumes (scan_members n uc pf)"
proof (induction n)
  case (Suc n)
  {
    case 1
    show ?case unfolding consumes_def using scan_value_Suc_shorter [OF Suc.IH(3) Suc.IH(2)] by blast
  next
    case 2
    have "consumes (\<lambda>s. bindR (scan_value n uc pf s) (\<lambda>(v, r). delimited (CHR '']'') (\<lambda>u. scan_items n uc pf u) v r))"
      by (rule consumes_bind [OF Suc.IH(1)]) (use delimited_shorter [OF Suc.IH(2)] less_imp_le in blast)
    then show ?case by (simp add: consumes_def)
  next
    case 3
    have "consumes (scan_member uc (\<lambda>u. scan_value n uc pf u))"
      unfolding consumes_def using scan_member_shorter [OF Suc.IH(1)] by blast
    then have "consumes (\<lambda>s. bindR (scan_member uc (\<lambda>u. scan_value n uc pf u) s) (\<lambda>(p, r). delimited (CHR 0x7D) (\<lambda>u. scan_members n uc pf u) p r))"
      by (rule consumes_bind) (use delimited_shorter [OF Suc.IH(3)] less_imp_le in blast)
    then show ?case by (simp add: consumes_def)
  }
qed (simp_all add: consumes_def)

lemma scan_fuel:
  "2 * length s < n \<Longrightarrow> scan_value n uc pf s \<noteq> Inl OutOfFuel"
  "2 * length s + 1 < n \<Longrightarrow> scan_items n uc pf s \<noteq> Inl OutOfFuel"
  "2 * length s + 1 < n \<Longrightarrow> scan_members n uc pf s \<noteq> Inl OutOfFuel"
proof (induction n arbitrary: s)
  case (Suc n)
  {
    case 1
    have "bracketed close m (\<lambda>u. scan_members n uc pf u) mk t \<noteq> Inl OutOfFuel"
      "bracketed close m (\<lambda>u. scan_items n uc pf u) mk' t \<noteq> Inl OutOfFuel" if "s = c # t" for close m mk mk' c t
      by (rule bracketed_fuel, rule Suc.IH(3), use 1 that in simp, rule bracketed_fuel, rule Suc.IH(2), use 1 that in simp)
    then show ?case
      by (auto simp: bindR_eq_Inl scan_string_fuel scan_atom_fuel decode_error_def split: list.splits)
  next
    case 2
    have "delimited (CHR '']'') (\<lambda>u. scan_items n uc pf u) v r \<noteq> Inl OutOfFuel" if "scan_value n uc pf s = Inr (v, r)" for v r
    proof (rule delimited_fuel, rule Suc.IH(2))
      fix t :: string assume "length t < length r"
      then show "2 * length t + 1 < n" using consumesD [OF scan_shorter(1) that] 2 by linarith
    qed
    then show ?case using Suc.IH(1) [of s] 2 by (auto simp: bindR_eq_Inl)
  next
    case 3
    have "delimited (CHR 0x7D) (\<lambda>u. scan_members n uc pf u) p r \<noteq> Inl OutOfFuel"
      if "scan_member uc (\<lambda>u. scan_value n uc pf u) s = Inr (p, r)" for p r
    proof (rule delimited_fuel, rule Suc.IH(3))
      fix t :: string assume "length t < length r"
      moreover have "length r < length s" by (rule scan_member_shorter [OF scan_shorter(1) that])
      ultimately show "2 * length t + 1 < n" using 3 by linarith
    qed
    moreover have "scan_member uc (\<lambda>u. scan_value n uc pf u) s \<noteq> Inl OutOfFuel"
      by (rule scan_member_fuel, rule Suc.IH(1)) (use 3 in linarith)
    ultimately show ?case by (auto simp: bindR_eq_Inl)
  }
qed simp_all

theorem loads_fuel: "json_loads uc pf s \<noteq> Inl OutOfFuel"
proof -
  have "scan_value (2 * length s + 2) uc pf (skip_ws s) \<noteq> Inl OutOfFuel"
    by (rule scan_fuel(1)) (use skip_ws_length [of s] in linarith)
  then show ?thesis by (auto simp: json_loads_def bindR_eq_Inl decode_error_def)
qed

end
