(* ===== verification/JsonRoundtrip.thy ===== *)
theory JsonRoundtrip
  imports JsonLoads
begin

text \<open>
  \<^verbatim>\<open>json.loads(json.dumps(v, sort_keys=True, separators=(",", ":")))\<close> is \<open>v\<close> with its keys sorted, for values without
  floats and with integers that can be written.
\<close>

section \<open>Digits\<close>

lemma is_digit_code: "n < 10 \<Longrightarrow> is_digit (char_of (48 + n :: nat))"
proof -
  assume "n < 10"
  moreover have "list_all (\<lambda>n. is_digit (char_of (48 + n :: nat))) [0..<10]" by code_simp
  ultimately show ?thesis by (simp add: list_all_iff)
qed

lemma digits_string_of_nat: "list_all is_digit (string_of_nat n)"
proof (induction n rule: less_induct)
  case (less n)
  show ?case
    by (subst string_of_nat.simps) (use less [of "n div 10"] in \<open>auto simp: is_digit_code\<close>)
qed

lemma digits_value_snoc: "digits_value (s @ [c]) = 10 * digits_value s + (int (of_char c) - 48)"
  by (simp add: digits_value_def)

lemma digits_value_string_of_nat: "digits_value (string_of_nat n) = int n"
proof (induction n rule: less_induct)
  case (less n)
  show ?case
  proof (cases "n < 10")
    case True
    then show ?thesis by (subst string_of_nat.simps) (simp add: digits_value_def of_char_of)
  next
    case False
    then have "digits_value (string_of_nat (n div 10)) = int (n div 10)" by (intro less) simp
    moreover have "10 * int (n div 10) + int (n mod 10) = int n" by presburger
    ultimately show ?thesis
      using False by (subst string_of_nat.simps) (simp add: digits_value_snoc of_char_of)
  qed
qed

lemma string_of_nat_head: "n > 0 \<Longrightarrow> hd (string_of_nat n) \<noteq> CHR ''0''"
proof (induction n rule: less_induct)
  case (less n)
  show ?case
  proof (cases "n < 10")
    case True
    have "list_all (\<lambda>n. char_of (48 + n :: nat) \<noteq> CHR ''0'') [1..<10]" by code_simp
    then show ?thesis using True less.prems by (subst string_of_nat.simps) (simp add: list_all_iff)
  next
    case False
    then have "hd (string_of_nat (n div 10)) \<noteq> CHR ''0''" by (intro less) (simp_all add: div_greater_zero_iff)
    with False show ?thesis by (subst string_of_nat.simps) (simp add: hd_append)
  qed
qed

lemma string_of_nat_0 [simp]: "string_of_nat 0 = ''0''"
  by code_simp

lemma not_space_digit: "is_digit c \<Longrightarrow> \<not> is_space c \<and> c \<noteq> CHR ''_'' \<and> c \<noteq> CHR ''-'' \<and> c \<noteq> CHR ''+''"
  by (auto simp: is_digit_def is_space_def less_eq_char_def)

lemma split_on_digits: "list_all is_digit s \<Longrightarrow> split_on (CHR ''_'') s = [s]"
  by (induction s) (auto simp: not_space_digit)

lemma strip_digits:
  assumes "list_all is_digit s" "\<not> is_space c"
  shows "strip (c # s) = c # s" "strip s = s"
proof -
  have id: "dropWhile is_space t = t" if "t = [] \<or> \<not> is_space (hd t)" for t using that by (cases t) auto
  have last: "rev s = [] \<or> \<not> is_space (hd (rev s))"
    using assms(1) by (cases s rule: rev_cases) (auto simp: not_space_digit)
  have "hd (rev (c # s)) = c \<or> hd (rev (c # s)) \<in> set s" by (cases s rule: rev_cases) auto
  moreover have "\<forall>x \<in> set s. \<not> is_space x" using assms(1) by (simp add: list_all_iff not_space_digit)
  ultimately have "\<not> is_space (hd (rev (c # s)))" using assms(2) by metis
  then have "dropWhile is_space (rev (c # s)) = rev (c # s)" by (intro id) blast
  moreover have "dropWhile is_space (c # s) = c # s" using assms(2) by simp
  ultimately show "strip (c # s) = c # s" by (simp only: strip_def rev_rev_ident)
  have "s = [] \<or> \<not> is_space (hd s)" using assms(1) by (cases s) (auto simp: not_space_digit)
  then have "dropWhile is_space s = s" by (rule id)
  then show "strip s = s" using id [OF last] by (simp only: strip_def rev_rev_ident)
qed

definition writable_int :: "int \<Rightarrow> bool" where
  "writable_int i \<longleftrightarrow> int (length (string_of_nat (nat \<bar>i\<bar>))) \<le> MAX_DIGITS"

lemma py_int_string:
  assumes "writable_int i"
  shows "py_int (string_of_int i) = Inr i"
proof -
  let ?s = "string_of_nat (nat \<bar>i\<bar>)"
  have digits: "list_all is_digit ?s" by (rule digits_string_of_nat)
  obtain d t where d: "?s = d # t" by (cases ?s) simp_all
  have head: "is_digit d" using digits d by simp
  have unsign: "unsign (strip (string_of_int i)) = (i < 0, ?s)"
  proof (cases "i < 0")
    case True
    then show ?thesis using strip_digits(1) [OF digits, of "CHR ''-''"] by (simp add: string_of_int_def is_space_def unsign_def)
  next
    case False
    then show ?thesis
      using strip_digits(2) [OF digits, of "CHR ''-''"] not_space_digit [OF head] d
      by (simp add: string_of_int_def is_space_def unsign_def)
  qed
  have "split_on (CHR ''_'') ?s = [?s]" "digits_value ?s = \<bar>i\<bar>" "isdigit ?s"
    using digits by (simp_all only: split_on_digits digits_value_string_of_nat isdigit_def) simp_all
  then show ?thesis
    using assms unfolding py_int_def unsign Let_def prod.case writable_int_def by (cases "i < 0") simp_all
qed

section \<open>Strings\<close>

lemma hex_digit_value:
  assumes "n < 16" shows "hex_value (hex_digit n) = Some n"
proof -
  have "list_all (\<lambda>n. hex_value (hex_digit n) = Some n) [0..<16]" by code_simp
  then show ?thesis using assms by (simp add: list_all_iff)
qed

lemma code_point_control:
  assumes "n < 32"
  shows "code_point (''00'' @ hex_digit (n div 16) # hex_digit (n mod 16) # rest) = Inr (n, rest)"
proof -
  have "hex_value (CHR ''0'') = Some 0" by code_simp
  then have "hex4 (''00'' @ hex_digit (n div 16) # hex_digit (n mod 16) # rest) = Some (n div 16 * 16 + n mod 16)"
    using assms by (simp add: hex4_def hex_digit_value)
  then show ?thesis using assms by (simp add: code_point_def)
qed

lemma scan_string_esc: "scan_string uc (esc_char c @ s) = bindR (scan_string uc s) (\<lambda>(r, rest). Inr (c # r, rest))"
proof -
  consider "c = CHR 0x22 \<or> c = CHR 0x5C" | "c \<in> {CHR 0x08, CHR 0x09, CHR 0x0A, CHR 0x0C, CHR 0x0D}"
    | "c \<notin> {CHR 0x22, CHR 0x5C, CHR 0x08, CHR 0x09, CHR 0x0A, CHR 0x0C, CHR 0x0D}" "(of_char c :: nat) < 32"
    | "c \<notin> {CHR 0x22, CHR 0x5C}" "\<not> (of_char c :: nat) < 32" by blast
  then show ?thesis
  proof cases
    case 3
    then have "esc_char c @ s = CHR 0x5C # CHR ''u'' # ''00'' @ hex_digit (of_char c div 16) # hex_digit (of_char c mod 16) # s"
      by (simp add: esc_char_def)
    then show ?thesis
      using 3(2) by (simp only: scan_string_simps code_point_control bindR_simps prod.case) (simp add: point_text_def)
  next
    case 4
    then have "esc_char c = [c]"
      by (auto simp: esc_char_def)
    then show ?thesis using 4 by (simp add: scan_string_simps)
  qed (auto simp: esc_char_def scan_string_simps escapes_def)
qed

lemma scan_json_string: "scan_string uc (concat (map esc_char t) @ CHR 0x22 # rest) = Inr (t, rest)"
  by (induction t) (simp_all add: scan_string_simps scan_string_esc)

section \<open>Numbers and literals\<close>

text \<open>What can follow a value in an object or array, or nothing.\<close>

definition stops :: "string \<Rightarrow> bool" where
  "stops rest \<longleftrightarrow> rest = [] \<or> hd rest \<in> {CHR '','', CHR '']'', CHR 0x7D}"

lemma stops_simps [simp]: "stops []" "stops (CHR '','' # s)" "stops (CHR '']'' # s)" "stops (CHR 0x7D # s)"
  by (simp_all add: stops_def)

lemma digits_then_stop:
  assumes "list_all is_digit s" "stops rest"
  shows "takeWhile is_digit (s @ rest) = s"
proof -
  have "\<not> is_digit (CHR '','')" "\<not> is_digit (CHR '']'')" "\<not> is_digit (CHR 0x7D)" by code_simp+
  then have "takeWhile is_digit rest = []" using assms(2) by (cases rest) (auto simp: stops_def)
  moreover have "\<forall>x \<in> set s. is_digit x" using assms(1) by (simp add: list_all_iff)
  ultimately show ?thesis by (simp add: takeWhile_append)
qed

lemma int_part_string:
  assumes "stops rest"
  shows "int_part (string_of_int i @ rest) = string_of_int i"
proof -
  let ?s = "string_of_nat (nat \<bar>i\<bar>)"
  have digits: "list_all is_digit ?s" by (rule digits_string_of_nat)
  obtain d t where d: "?s = d # t" by (cases ?s) simp_all
  have head: "is_digit d" using digits d by simp
  have zero: "d = CHR ''0'' \<Longrightarrow> t = []"
    using string_of_nat_head [of "nat \<bar>i\<bar>"] d by (cases "i = 0") auto
  have take: "takeWhile is_digit (d # t @ rest) = d # t"
    using digits_then_stop [OF digits assms] d by simp
  show ?thesis
  proof (cases "i < 0")
    case True
    then have "string_of_int i = CHR ''-'' # d # t" using d by (simp add: string_of_int_def)
    then show ?thesis using head zero take by (simp add: int_part_def)
  next
    case False
    then have "string_of_int i = d # t" using d by (simp add: string_of_int_def)
    then show ?thesis using head zero take not_space_digit [OF head] by (simp add: int_part_def)
  qed
qed

lemma no_literal_digit:
  assumes "is_digit d"
  shows "find (\<lambda>l. startswith (d # s) (fst l)) literals = None" "find (\<lambda>l. startswith (CHR ''-'' # d # s) (fst l)) literals = None"
proof -
  have "d \<noteq> CHR ''n''" "d \<noteq> CHR ''t''" "d \<noteq> CHR ''f''" "d \<noteq> CHR ''N''" "d \<noteq> CHR ''I''"
    using assms by (auto simp: is_digit_def less_eq_char_def)
  then show "find (\<lambda>l. startswith (d # s) (fst l)) literals = None" "find (\<lambda>l. startswith (CHR ''-'' # d # s) (fst l)) literals = None"
    using not_space_digit [OF assms] by (simp_all add: literals_def startswith_def)
qed

lemma stops_parts: "stops rest \<Longrightarrow> frac_part rest = [] \<and> exp_part rest = []"
  by (cases rest) (auto simp: stops_def frac_part_def exp_part_def Let_def)

lemma scan_int:
  assumes "writable_int i" "stops rest"
  shows "scan_atom pf (string_of_int i @ rest) = Inr (PInt i, rest)"
proof -
  let ?s = "string_of_nat (nat \<bar>i\<bar>)"
  obtain d t where d: "?s = d # t" by (cases ?s) simp_all
  have head: "is_digit d" using digits_string_of_nat [of "nat \<bar>i\<bar>"] d by simp
  have "string_of_int i = d # t \<or> string_of_int i = CHR ''-'' # d # t" using d by (auto simp: string_of_int_def)
  then have "find (\<lambda>l. startswith (string_of_int i @ rest) (fst l)) literals = None" "string_of_int i \<noteq> []"
    using no_literal_digit [OF head] by auto
  then show ?thesis
    using assms by (simp add: scan_atom_def scan_number_def Let_def int_part_string stops_parts py_int_string)
qed

lemma scan_literals:
  "scan_atom pf (''null'' @ rest) = Inr (PNone, rest)"
  "scan_atom pf (''true'' @ rest) = Inr (PBool True, rest)"
  "scan_atom pf (''false'' @ rest) = Inr (PBool False, rest)"
  by (simp_all add: scan_atom_def literals_def startswith_def)

section \<open>Values\<close>

fun plain_json :: "pv \<Rightarrow> bool" where
  "plain_json (PFloat x) = False"
| "plain_json (PInt i) = writable_int i"
| "plain_json (PList xs) = (\<forall>x \<in> set xs. plain_json x)"
| "plain_json (PDict d) = (\<forall>p \<in> set d. plain_json (snd p))"
| "plain_json _ = True"

fun json_norm :: "pv \<Rightarrow> pv" where
  "json_norm (PList xs) = PList (map json_norm xs)"
| "json_norm (PDict d) = PDict (sort_key fst (map (\<lambda>p. (fst p, json_norm (snd p))) d))"
| "json_norm v = v"

text \<open>The first character of a value is neither white space nor a closing bracket.\<close>

lemma skip_ws_id: "s \<noteq> [] \<Longrightarrow> hd s \<notin> {CHR '' '', CHR 0x09, CHR 0x0A, CHR 0x0D} \<Longrightarrow> skip_ws s = s"
  by (cases s) (auto simp: skip_ws_def)

lemma int_head: "string_of_int i \<noteq> [] \<and> (is_digit (hd (string_of_int i)) \<or> hd (string_of_int i) = CHR ''-'')"
proof -
  let ?s = "string_of_nat (nat \<bar>i\<bar>)"
  have "?s \<noteq> []" "is_digit (hd ?s)" using digits_string_of_nat [of "nat \<bar>i\<bar>"] by (cases ?s; simp)+
  then show ?thesis by (auto simp: string_of_int_def)
qed

lemma json_head:
  assumes "plain_json v"
  shows "json_enc rp v \<noteq> [] \<and> hd (json_enc rp v) \<notin> {CHR '' '', CHR 0x09, CHR 0x0A, CHR 0x0D, CHR '']'', CHR 0x7D}"
proof (cases v)
  case (PInt i)
  have "\<not> is_digit c" if "c \<in> {CHR '' '', CHR 0x09, CHR 0x0A, CHR 0x0D, CHR '']'', CHR 0x7D}" for c
  proof -
    have "list_all (\<lambda>c. \<not> is_digit c) [CHR '' '', CHR 0x09, CHR 0x0A, CHR 0x0D, CHR '']'', CHR 0x7D]" by code_simp
    then show ?thesis using that by auto
  qed
  then have "hd (string_of_int i) \<notin> {CHR '' '', CHR 0x09, CHR 0x0A, CHR 0x0D, CHR '']'', CHR 0x7D}"
    using int_head [of i] by (elim conjE disjE) (blast, simp)
  then show ?thesis using int_head [of i] PInt by simp
qed (use assms in \<open>simp_all add: json_string_def\<close>)

lemma skip_json: "plain_json v \<Longrightarrow> skip_ws (json_enc rp v @ s) = json_enc rp v @ s"
  using json_head [of v rp] by (intro skip_ws_id) (auto simp: hd_append)

lemma skip_mark [simp]:
  "skip_ws (CHR '','' # s) = CHR '','' # s" "skip_ws (CHR '']'' # s) = CHR '']'' # s" "skip_ws (CHR 0x7D # s) = CHR 0x7D # s"
  "skip_ws (CHR '':'' # s) = CHR '':'' # s" "skip_ws (CHR 0x22 # s) = CHR 0x22 # s"
  by (simp_all add: skip_ws_def)

text \<open>A value is read back by a scanner with enough fuel.\<close>

definition reads :: "(real \<Rightarrow> string) \<Rightarrow> (nat \<Rightarrow> string) \<Rightarrow> (string \<Rightarrow> pyfloat) \<Rightarrow> pv \<Rightarrow> bool" where
  "reads rp uc pf v \<longleftrightarrow>
     (\<forall>n rest. 2 * length (json_enc rp v) < n \<longrightarrow> stops rest \<longrightarrow> scan_value n uc pf (json_enc rp v @ rest) = Inr (json_norm v, rest))"

lemma readsD:
  "reads rp uc pf v \<Longrightarrow> 2 * length (json_enc rp v) < n \<Longrightarrow> stops rest \<Longrightarrow>
     scan_value n uc pf (json_enc rp v @ rest) = Inr (json_norm v, rest)"
  by (simp add: reads_def)

lemma scan_items_reads:
  assumes "\<And>x. x \<in> set xs \<Longrightarrow> reads rp uc pf x \<and> plain_json x" "xs \<noteq> []"
    and "2 * length (join '','' (map (json_enc rp) xs)) + 1 < n"
  shows "scan_items n uc pf (join '','' (map (json_enc rp) xs) @ CHR '']'' # rest) = Inr (map json_norm xs, rest)"
  using assms
proof (induction xs arbitrary: n)
  case (Cons x xs)
  obtain m where n: "n = Suc m" using Cons.prems(3) by (cases n) simp_all
  have x: "reads rp uc pf x" using Cons.prems(1) by simp
  show ?case
  proof (cases xs)
    case Nil
    then show ?thesis using Cons.prems(3) readsD [OF x, of m "CHR '']'' # rest"] by (simp add: n delimited_def)
  next
    case (Cons y ys)
    let ?tail = "join '','' (map (json_enc rp) xs)"
    have head: "scan_value m uc pf (json_enc rp x @ CHR '','' # ?tail @ CHR '']'' # rest) = Inr (json_norm x, CHR '','' # ?tail @ CHR '']'' # rest)"
      using Cons.prems(3) by (intro readsD [OF x]) (simp_all add: n \<open>xs = y # ys\<close>)
    have y: "plain_json y" using Cons.prems(1) Cons by simp
    obtain z where "?tail = json_enc rp y @ z" using Cons by (cases ys) auto
    then have skip: "skip_ws (?tail @ CHR '']'' # rest) = ?tail @ CHR '']'' # rest" using skip_json [OF y] by simp
    have "2 * length ?tail + 1 < m"
      using Cons.prems(3) json_head [of x rp] Cons.prems(1) [of x] by (cases "json_enc rp x") (simp_all add: n Cons)
    then have "scan_items m uc pf (?tail @ CHR '']'' # rest) = Inr (map json_norm xs, rest)"
      using Cons.prems(1) Cons by (intro Cons.IH) simp_all
    then show ?thesis using head skip by (simp add: n Cons delimited_def)
  qed
qed simp

lemma scan_members_reads:
  assumes "\<And>p. p \<in> set ps \<Longrightarrow> reads rp uc pf (snd p) \<and> plain_json (snd p)" "ps \<noteq> []"
    and "2 * length (join '','' (map (\<lambda>p. json_string (fst p) @ '':'' @ json_enc rp (snd p)) ps)) + 1 < n"
  shows "scan_members n uc pf (join '','' (map (\<lambda>p. json_string (fst p) @ '':'' @ json_enc rp (snd p)) ps) @ CHR 0x7D # rest) =
    Inr (map (\<lambda>p. (fst p, json_norm (snd p))) ps, rest)"
  using assms
proof (induction ps arbitrary: n)
  case (Cons p ps)
  let ?text = "\<lambda>p. json_string (fst p) @ '':'' @ json_enc rp (snd p)"
  obtain m where n: "n = Suc m" using Cons.prems(3) by (cases n) simp_all
  have p: "reads rp uc pf (snd p)" "plain_json (snd p)" using Cons.prems(1) by simp_all
  have member: "scan_member uc (\<lambda>u. scan_value m uc pf u) (?text p @ s) = Inr ((fst p, json_norm (snd p)), s)"
    if "2 * length (json_enc rp (snd p)) < m" "stops s" for s
    using readsD [OF p(1) that] skip_json [OF p(2)]
    by (simp add: scan_member_def json_string_def scan_json_string after_key_def)
  show ?case
  proof (cases ps)
    case Nil
    then show ?thesis using Cons.prems(3) member [of "CHR 0x7D # rest"] by (simp add: n delimited_def)
  next
    case (Cons q qs)
    let ?tail = "join '','' (map ?text ps)"
    have head: "scan_member uc (\<lambda>u. scan_value m uc pf u) (?text p @ CHR '','' # ?tail @ CHR 0x7D # rest) =
        Inr ((fst p, json_norm (snd p)), CHR '','' # ?tail @ CHR 0x7D # rest)"
      using Cons.prems(3) by (intro member) (simp_all add: n \<open>ps = q # qs\<close>)
    obtain z where "?tail = CHR 0x22 # z" using Cons by (cases qs) (auto simp: json_string_def)
    then have skip: "skip_ws (?tail @ CHR 0x7D # rest) = ?tail @ CHR 0x7D # rest" by simp
    have "2 * length ?tail + 1 < m"
      using Cons.prems(3) by (simp add: n Cons)
    then have "scan_members m uc pf (?tail @ CHR 0x7D # rest) = Inr (map (\<lambda>p. (fst p, json_norm (snd p))) ps, rest)"
      using Cons.prems(1) Cons by (intro Cons.IH) simp_all
    then show ?thesis using head skip by (simp add: n Cons delimited_def)
  qed
qed simp

lemma insort_key_values:
  "insort_key fst (fst p, f (snd p)) (map (\<lambda>p. (fst p, f (snd p))) ps) = map (\<lambda>p. (fst p, f (snd p))) (insort_key fst p ps)"
  by (induction ps) simp_all

lemma sort_key_values: "sort_key fst (map (\<lambda>p. (fst p, f (snd p))) ps) = map (\<lambda>p. (fst p, f (snd p))) (sort_key fst ps)"
  by (induction ps) (simp_all add: insort_key_values)

lemma update_new: "k \<notin> fst ` set d \<Longrightarrow> AList.update k v d = d @ [(k, v)]"
  by (induction d) auto

lemma dupdate_append: "distinct (map fst (d @ e)) \<Longrightarrow> dupdate d e = d @ e"
  by (induction e arbitrary: d) (auto simp: dupdate_def update_new)

lemma dupdate_new: "distinct (map fst e) \<Longrightarrow> dupdate [] e = e"
  using dupdate_append [of "[]" e] by simp

theorem json_reads: "plain_json v \<Longrightarrow> wf_pv v \<Longrightarrow> reads rp uc pf v"
proof (induction v)
  case (PList xs)
  have all: "reads rp uc pf x \<and> plain_json x" if "x \<in> set xs" for x using PList that by simp
  have "scan_value n uc pf (json_enc rp (PList xs) @ rest) = Inr (json_norm (PList xs), rest)"
    if n: "2 * length (json_enc rp (PList xs)) < n" for n rest
  proof -
    obtain m where m: "n = Suc m" using n by (cases n) simp_all
    show ?thesis
    proof (cases xs)
      case Nil
      then show ?thesis by (simp add: m bracketed_def)
    next
      case (Cons x ys)
      let ?items = "join '','' (map (json_enc rp) xs)"
      obtain z where z: "?items = json_enc rp x @ z" using Cons by (cases ys) auto
      have px: "plain_json x" using all Cons by simp
      then have skip: "skip_ws (?items @ CHR '']'' # rest) = ?items @ CHR '']'' # rest" using skip_json [OF px] z by simp
      obtain d u where d: "?items @ CHR '']'' # rest = d # u" "d \<noteq> CHR '']''"
        using json_head [OF px, of rp] z by (cases "json_enc rp x") auto
      have "scan_items m uc pf (?items @ CHR '']'' # rest) = Inr (map json_norm xs, rest)"
        by (rule scan_items_reads) (use all Cons n m in simp_all)
      then show ?thesis using skip d by (simp add: m bracketed_def)
    qed
  qed
  then show ?case by (simp add: reads_def del: scan_value.simps)
next
  case (PDict d)
  let ?ps = "sort_key fst d"
  have all: "reads rp uc pf (snd p) \<and> plain_json (snd p)" if "p \<in> set ?ps" for p
  proof -
    have p: "p \<in> set d" "plain_json (snd p)" "wf_pv (snd p)" using PDict.prems that by simp_all
    then show ?thesis using PDict.IH [OF p(1), of "snd p"] by (simp add: snds.intros)
  qed
  have enc: "json_enc rp (PDict d) = CHR 0x7B # join '','' (map (\<lambda>p. json_string (fst p) @ '':'' @ json_enc rp (snd p)) ?ps) @ [CHR 0x7D]"
    by (simp add: sort_key_values comp_def)
  have norm: "json_norm (PDict d) = PDict (map (\<lambda>p. (fst p, json_norm (snd p))) ?ps)" by (simp add: sort_key_values)
  have "scan_value n uc pf (json_enc rp (PDict d) @ rest) = Inr (json_norm (PDict d), rest)"
    if n: "2 * length (json_enc rp (PDict d)) < n" for n rest
  proof -
    obtain m where m: "n = Suc m" using n by (cases n) simp_all
    let ?items = "join '','' (map (\<lambda>p. json_string (fst p) @ '':'' @ json_enc rp (snd p)) ?ps)"
    show ?thesis
    proof (cases ?ps)
      case Nil
      then show ?thesis unfolding enc norm by (simp add: m bracketed_def dupdate_def)
    next
      case (Cons q qs)
      obtain z where z: "?items = CHR 0x22 # z" using Cons by (cases qs) (auto simp: json_string_def)
      have "scan_members m uc pf (?items @ CHR 0x7D # rest) = Inr (map (\<lambda>p. (fst p, json_norm (snd p))) ?ps, rest)"
        by (rule scan_members_reads) (use all Cons n m in \<open>simp_all add: enc del: json_enc.simps\<close>)
      moreover have "distinct (map fst (map (\<lambda>p. (fst p, json_norm (snd p))) ?ps))"
        using PDict.prems(2) by (simp add: comp_def distinct_map)
      ultimately show ?thesis
        unfolding enc norm using z by (simp add: m bracketed_def dupdate_new)
    qed
  qed
  then show ?case by (simp add: reads_def del: scan_value.simps json_enc.simps json_norm.simps)
next
  case (PInt i)
  have "scan_value n uc pf (string_of_int i @ rest) = Inr (PInt i, rest)" if n: "2 * length (string_of_int i) < n" and rest: "stops rest" for n rest
  proof -
    obtain m where m: "n = Suc m" using n by (cases n) simp_all
    obtain c t where c: "string_of_int i = c # t" using int_head [of i] by (cases "string_of_int i") simp_all
    have "\<not> is_digit (CHR 0x22)" "\<not> is_digit (CHR 0x7B)" "\<not> is_digit (CHR ''['')" by code_simp+
    then have "c \<noteq> CHR 0x22" "c \<noteq> CHR 0x7B" "c \<noteq> CHR ''[''" using int_head [of i] c by auto
    then show ?thesis using scan_int [of i rest pf] PInt rest by (simp add: m c)
  qed
  then show ?case by (simp add: reads_def del: scan_value.simps)
next
  case (PStr s)
  have "scan_value n uc pf (json_string s @ rest) = Inr (PStr s, rest)" if "n > 0" for n rest
    using that by (cases n) (simp_all add: json_string_def scan_json_string)
  then show ?case by (simp add: reads_def json_string_def del: scan_value.simps)
next
  case PNone
  have "scan_value n uc pf (''null'' @ rest) = Inr (PNone, rest)" if "n > 0" for n rest
    using that scan_literals(1) [of pf rest] by (cases n) simp_all
  then show ?case by (simp add: reads_def del: scan_value.simps)
next
  case (PBool b)
  have "scan_value n uc pf (''true'' @ rest) = Inr (PBool True, rest)"
    "scan_value n uc pf (''false'' @ rest) = Inr (PBool False, rest)" if "n > 0" for n rest
    using that scan_literals(2,3) [of pf rest] by (cases n; simp)+
  then show ?case by (simp add: reads_def del: scan_value.simps)
qed simp

theorem json_roundtrip:
  assumes "plain_json v" "wf_pv v"
  shows "json_loads uc pf (json_enc rp v) = Inr (json_norm v)"
proof -
  have "scan_value (2 * length (json_enc rp v) + 2) uc pf (json_enc rp v @ []) = Inr (json_norm v, [])"
    by (rule readsD [OF json_reads [OF assms]]) simp_all
  moreover have "skip_ws (json_enc rp v) = json_enc rp v" using skip_json [OF assms(1), of rp "[]"] by simp
  ultimately show ?thesis by (simp add: json_loads_def skip_ws_def del: scan_value.simps)
qed

end
