(* ===== verification/Base64.thy ===== *)
theory Base64
  imports PyText
begin

text \<open>
  \<^verbatim>\<open>base64.urlsafe_b64encode\<close> and \<^verbatim>\<open>base64.urlsafe_b64decode\<close> on bytes.  Decoding is the automaton of \<^verbatim>\<open>binascii\<close> in its
  lenient mode: characters outside the alphabet are skipped, a pad that completes a group ends the input, and an incomplete
  group raises \<^verbatim>\<open>binascii.Error\<close>, which is a \<^verbatim>\<open>ValueError\<close>.
\<close>

section \<open>Encoding\<close>

definition b64_alphabet :: string where
  "b64_alphabet = ''ABCDEFGHIJKLMNOPQRSTUVWXYZabcdefghijklmnopqrstuvwxyz0123456789-_''"

definition b64_char :: "nat \<Rightarrow> char" where
  "b64_char n = b64_alphabet ! n"

abbreviation byte :: "char \<Rightarrow> nat" where
  "byte c \<equiv> of_char c"

fun b64_encode :: "string \<Rightarrow> string" where
  "b64_encode [] = []"
| "b64_encode [a] = [b64_char (byte a div 4), b64_char (byte a mod 4 * 16), CHR ''='', CHR ''='']"
| "b64_encode [a, b] =
     [b64_char (byte a div 4), b64_char (byte a mod 4 * 16 + byte b div 16), b64_char (byte b mod 16 * 4), CHR ''='']"
| "b64_encode (a # b # c # s) =
     b64_char (byte a div 4) # b64_char (byte a mod 4 * 16 + byte b div 16) #
     b64_char (byte b mod 16 * 4 + byte c div 64) # b64_char (byte c mod 64) # b64_encode s"

section \<open>Decoding\<close>

text \<open>The url-safe characters and the ordinary ones they stand for.\<close>

definition b64_index :: "char \<Rightarrow> nat option" where
  "b64_index c =
     (if is_upper c then Some (byte c - 65)
      else if is_lower c then Some (byte c - 71)
      else if is_digit c then Some (byte c + 4)
      else if c = CHR ''-'' \<or> c = CHR ''+'' then Some 62
      else if c = CHR ''_'' \<or> c = CHR ''/'' then Some 63
      else None)"

text \<open>The position in a group of four, the bits left over and the pads seen since the last character.\<close>

fun b64_scan :: "nat \<Rightarrow> nat \<Rightarrow> nat \<Rightarrow> string \<Rightarrow> string result" where
  "b64_scan quad left pads [] =
     (if quad = 0 then Inr [] else Inl (ValueError ''Incorrect padding''))"
| "b64_scan quad left pads (c # s) =
     (if c = CHR ''='' then
        (if quad \<ge> 2 \<and> quad + pads + 1 \<ge> 4 then Inr []
         else b64_scan quad left (if quad \<ge> 2 then pads + 1 else pads) s)
      else
        (case b64_index c of
           None \<Rightarrow> b64_scan quad left pads s
         | Some n \<Rightarrow>
             if quad = 0 then b64_scan 1 n 0 s
             else if quad = 1 then bindR (b64_scan 2 (n mod 16) 0 s) (\<lambda>r. Inr (char_of (left * 4 + n div 16) # r))
             else if quad = 2 then bindR (b64_scan 3 (n mod 4) 0 s) (\<lambda>r. Inr (char_of (left * 16 + n div 4) # r))
             else bindR (b64_scan 0 0 0 s) (\<lambda>r. Inr (char_of (left * 64 + n) # r))))"

definition b64_decode :: "string \<Rightarrow> string result" where
  "b64_decode s = b64_scan 0 0 0 s"

text \<open>\<^verbatim>\<open>.rstrip("=")\<close>, and the pads that are added back: \<^verbatim>\<open>"=" * (-len(s) % 4)\<close>.\<close>

definition strip_pads :: "string \<Rightarrow> string" where
  "strip_pads s = rev (dropWhile (\<lambda>c. c = CHR ''='') (rev s))"

definition add_pads :: "string \<Rightarrow> string" where
  "add_pads s = s @ replicate (nat ((- int (length s)) mod 4)) (CHR ''='')"

section \<open>The round trip\<close>

lemma b64_table: "list_all (\<lambda>n. b64_index (b64_char n) = Some n \<and> b64_char n \<noteq> CHR ''='') [0..<64]"
  by code_simp

lemma b64_char_index [simp]:
  assumes "n < 64"
  shows "b64_index (b64_char n) = Some n" "b64_char n \<noteq> CHR ''=''"
  using b64_table assms by (auto simp: list_all_iff)

lemma byte_parts [simp]:
  "byte c div 4 < 64" "byte c mod 4 * 16 < 64" "byte c mod 4 * 16 + byte d div 16 < 64" "byte c mod 16 * 4 < 64"
  "byte c mod 16 * 4 + byte d div 64 < 64" "byte c mod 64 < 64"
  using nat_of_char_less_256 [of c] nat_of_char_less_256 [of d] by linarith+

text \<open>Three bytes from four indices.\<close>

lemma split_join:
  assumes "y < m"
  shows "(x * m + y) div m = (x :: nat)" "(x * m + y) mod m = y"
  using assms by simp_all

lemma byte_join [simp]:
  "byte a div 4 * 4 + (byte a mod 4 * 16) div 16 = byte a"
  "byte a div 4 * 4 + (byte a mod 4 * 16 + byte b div 16) div 16 = byte a"
  "(byte a mod 4 * 16 + byte b div 16) mod 16 * 16 + (byte b mod 16 * 4) div 4 = byte b"
  "(byte a mod 4 * 16 + byte b div 16) mod 16 * 16 + (byte b mod 16 * 4 + byte c div 64) div 4 = byte b"
  "(byte b mod 16 * 4 + byte c div 64) mod 4 * 64 + byte c mod 64 = byte c"
proof -
  have b: "byte b div 16 < 16" and c: "byte c div 64 < 4"
    using nat_of_char_less_256 [of b] nat_of_char_less_256 [of c] by linarith+
  show "byte a div 4 * 4 + (byte a mod 4 * 16) div 16 = byte a"
    "byte a div 4 * 4 + (byte a mod 4 * 16 + byte b div 16) div 16 = byte a"
    "(byte a mod 4 * 16 + byte b div 16) mod 16 * 16 + (byte b mod 16 * 4) div 4 = byte b"
    "(byte a mod 4 * 16 + byte b div 16) mod 16 * 16 + (byte b mod 16 * 4 + byte c div 64) div 4 = byte b"
    "(byte b mod 16 * 4 + byte c div 64) mod 4 * 64 + byte c mod 64 = byte c"
    by (simp_all only: split_join [OF b] split_join [OF c] div_mult_mod_eq) simp_all
qed

lemma b64_decode_encode: "b64_decode (b64_encode s) = Inr s"
  unfolding b64_decode_def
  by (induction s rule: b64_encode.induct) (simp_all only: b64_encode.simps b64_scan.simps b64_char_index byte_parts byte_join
      option.case if_False if_True one_neq_zero refl bindR_simps char_of_char, simp_all)

text \<open>The encoding is a sequence of groups of four that ends with at most two pads.\<close>

lemma b64_encode_pads:
  "\<exists>t k. b64_encode s = t @ replicate k (CHR ''='') \<and> k \<le> 2 \<and> (t \<noteq> [] \<longrightarrow> last t \<noteq> CHR ''='') \<and> length (t @ replicate k (CHR ''='')) mod 4 = 0"
proof (induction s rule: b64_encode.induct)
  case (2 a)
  show ?case by (intro exI [of _ "[b64_char (byte a div 4), b64_char (byte a mod 4 * 16)]"] exI [of _ 2]) (simp add: numeral_2_eq_2)
next
  case (3 a b)
  show ?case
    by (intro exI [of _ "[b64_char (byte a div 4), b64_char (byte a mod 4 * 16 + byte b div 16), b64_char (byte b mod 16 * 4)]"] exI [of _ 1]) simp
next
  case (4 a b c s)
  then obtain t k where t: "b64_encode s = t @ replicate k (CHR ''='')" "k \<le> 2" "t \<noteq> [] \<longrightarrow> last t \<noteq> CHR ''=''"
    "length (t @ replicate k (CHR ''='')) mod 4 = 0" by (elim exE conjE)
  show ?case
  proof (cases "t = [] \<and> k \<noteq> 0")
    case True
    then show ?thesis using t by simp
  next
    case False
    let ?g = "[b64_char (byte a div 4), b64_char (byte a mod 4 * 16 + byte b div 16),
       b64_char (byte b mod 16 * 4 + byte c div 64), b64_char (byte c mod 64)]"
    show ?thesis using t False by (intro exI [of _ "?g @ t"] exI [of _ k]) (auto simp: last_append split: if_splits)
  qed
qed auto

lemma strip_pads_append: "(t \<noteq> [] \<longrightarrow> last t \<noteq> CHR ''='') \<Longrightarrow> strip_pads (t @ replicate k (CHR ''='')) = t"
  by (cases t rule: rev_cases) (simp_all add: strip_pads_def dropWhile_append)

lemma add_strip_pads: "add_pads (strip_pads (b64_encode s)) = b64_encode s"
proof -
  obtain t k where t: "b64_encode s = t @ replicate k (CHR ''='')" "k \<le> 2" "t \<noteq> [] \<longrightarrow> last t \<noteq> CHR ''=''"
    "length (t @ replicate k (CHR ''='')) mod 4 = 0" using b64_encode_pads [of s] by (elim exE conjE)
  have "(- int (length t)) mod 4 = int k"
  proof -
    have "(int (length t) + int k) mod 4 = 0" using t(4) by (metis length_append length_replicate of_nat_0 of_nat_add of_nat_mod of_nat_numeral)
    then show ?thesis using t(2) by presburger
  qed
  then show ?thesis by (simp add: t(1) strip_pads_append [OF t(3)] add_pads_def)
qed

theorem b64_roundtrip: "b64_decode (add_pads (strip_pads (b64_encode s))) = Inr s"
  by (simp add: add_strip_pads b64_decode_encode)

end
