(* ===== verification/Retrieval.thy ===== *)
theory Retrieval
  imports JsonRoundtrip Base64 Reconcile
begin

text \<open>
  The helpers of the read tools (\<^verbatim>\<open>src/src/project_control/retrieval.py\<close>), the cursors of
  \<^verbatim>\<open>src/src/project_control/coordination.py\<close> and \<^verbatim>\<open>src/src/project_control/services/source_context.py\<close>.
  \<^verbatim>\<open>sha256\<close> is the argument \<open>sha\<close>, \<^verbatim>\<open>str\<close> of a container \<open>sh\<close>; a cursor is ASCII and decodes to ASCII.  An
  ellipsis is written as its UTF-8 bytes.
\<close>

section \<open>Records and events\<close>

definition AUTHORITY_LABELS :: "(string \<times> string) list" where
  "AUTHORITY_LABELS =
     map (\<lambda>k. (k, ''authoritative_fact''))
       [''task'', ''interface'', ''decision'', ''invariant'', ''checkpoint'', ''gate'', ''run'', ''lane'', ''workflow_dispatch'',
        ''run_message'', ''rendezvous'', ''workspace'', ''patch_artifact'', ''integration'', ''local_child'', ''git_commit''] @
     [(''path'', ''source_authority''), (''symbol'', ''source_authority''), (''cuda_campaign'', ''performance_authority''),
      (''cuda_result'', ''performance_authority'')]"

definition MATERIAL_EVENT_WORDS :: "string list" where
  "MATERIAL_EVENT_WORDS =
     [''task.'', ''decision'', ''interface'', ''fragment'', ''context'', ''checkpoint'', ''gate.'', ''message'', ''rendezvous'',
      ''arrival'', ''workspace'', ''patch'', ''integration'', ''handoff'']"

definition NOISE_EVENT_WORDS :: "string list" where
  "NOISE_EVENT_WORDS = [''heartbeat'', ''pulse'', ''lease.renew'', ''receipt'', ''cursor'']"

definition stable_digest :: "(string \<Rightarrow> string) \<Rightarrow> (real \<Rightarrow> string) \<Rightarrow> pv \<Rightarrow> string" where
  "stable_digest sha rp v = sha (json_enc rp v)"

definition authority_label :: "string \<Rightarrow> bool \<Rightarrow> bool \<Rightarrow> string" where
  "authority_label kind inferred relationship =
     (if inferred then ''inference''
      else if relationship then ''derived_relationship''
      else (case map_of AUTHORITY_LABELS kind of None \<Rightarrow> ''durable_authority_fact'' | Some l \<Rightarrow> l))"

definition is_current :: "(pv \<Rightarrow> string) \<Rightarrow> pdict \<Rightarrow> string \<Rightarrow> bool" where
  "is_current sh rc scope =
     (if scope = ''all'' then True
      else
        (let relevance = relevance_text sh rc;
             state = py_str sh (pv_or (pv_or (dget rc ''effective_state'') (dget rc ''state'')) (PStr [])) in
         if relevance \<in> {''historical'', ''superseded''} \<or>
            state \<in> {''superseded'', ''canceled'', ''cancelled'', ''abandoned'', ''invalidated''} then False
         else if scope = ''current'' then relevance \<noteq> ''reference'' \<and> \<not> truthy (dget rc ''terminal'')
         else True))"

definition ellipsis :: string where
  "ellipsis = [CHR 0xE2, CHR 0x80, CHR 0xA6]"

definition BULKY :: "string list" where
  "BULKY = [''note'', ''notes'', ''content'', ''payload'', ''raw_payload'', ''raw_result'', ''transcript'', ''log'']"

definition economical_field :: "string \<times> pv \<Rightarrow> pdict \<Rightarrow> pdict" where
  "economical_field p result =
     (case p of (key, v) \<Rightarrow>
        if key \<in> set BULKY then
          (case v of
             PStr s \<Rightarrow>
               if s = [] then result
               else AList.update (key @ ''_summary'') (PStr (take 256 s @ (if length s > 256 then ellipsis else []))) result
           | _ \<Rightarrow> result)
        else
          (case v of
             PStr s \<Rightarrow> AList.update key (PStr (if length s > 1024 then take 1024 s @ ellipsis else s)) result
           | _ \<Rightarrow> AList.update key v result))"

definition economical_record :: "pdict \<Rightarrow> bool \<Rightarrow> pdict" where
  "economical_record rc expanded = (if expanded then rc else fold economical_field rc [])"

fun occurs_in :: "string \<Rightarrow> string \<Rightarrow> bool" where
  "occurs_in w [] = (w = [])"
| "occurs_in w (c # s) = (startswith (c # s) w \<or> occurs_in w s)"

definition event_name :: "(pv \<Rightarrow> string) \<Rightarrow> pdict \<Rightarrow> string" where
  "event_name sh event = py_str sh (pv_or (pv_or (dget event ''event_type'') (dget event ''type'')) (PStr []))"

definition material_event :: "(pv \<Rightarrow> string) \<Rightarrow> pdict \<Rightarrow> bool" where
  "material_event sh event =
     (let name = lower (event_name sh event) in
      if list_ex (\<lambda>w. occurs_in w name) NOISE_EVENT_WORDS then False
      else list_ex (\<lambda>w. occurs_in w name) MATERIAL_EVENT_WORDS)"

text \<open>Only \<^verbatim>\<open>TypeError\<close> and \<^verbatim>\<open>ValueError\<close> of \<^verbatim>\<open>int\<close> are caught.\<close>

definition revision_number :: "pv \<Rightarrow> int result" where
  "revision_number v =
     (case py_int_of (pv_or v (PInt 0)) of
        Inl (TypeError _) \<Rightarrow> Inr 0
      | Inl (ValueError _) \<Rightarrow> Inr 0
      | r \<Rightarrow> r)"

definition event_sort_key :: "(pv \<Rightarrow> string) \<Rightarrow> pdict \<Rightarrow> (int \<times> int \<times> string \<times> string \<times> string) result" where
  "event_sort_key sh event =
     bindR (revision_number (dget event ''revision'')) (\<lambda>revision.
     Inr (if dget event ''revision'' \<noteq> PNone then 0 else 1, revision,
       py_str sh (pv_or (pv_or (pv_or (dget event ''timestamp'') (dget event ''created_at'')) (dget event ''observed_at'')) (PStr [])),
       event_name sh event,
       py_str sh (pv_or (pv_or (dget event ''entity_id'') (dget event ''id'')) (PStr []))))"

definition records_from_tables :: "(string \<times> pv list) list \<Rightarrow> string list \<Rightarrow> (string \<times> pdict) list" where
  "records_from_tables tables names =
     concat (map (\<lambda>n. map (\<lambda>d. (n, d)) (dicts_of (case map_of tables n of None \<Rightarrow> [] | Some rs \<Rightarrow> rs))) names)"

section \<open>Cursors\<close>

definition cursor_text :: "(real \<Rightarrow> string) \<Rightarrow> pv \<Rightarrow> string" where
  "cursor_text rp v = strip_pads (b64_encode (json_enc rp v))"

definition cursor_value :: "(nat \<Rightarrow> string) \<Rightarrow> (string \<Rightarrow> pyfloat) \<Rightarrow> string \<Rightarrow> pv result" where
  "cursor_value uc pf s = bindR (b64_decode (add_pads s)) (json_loads uc pf)"

definition encode_cursor :: "(real \<Rightarrow> string) \<Rightarrow> string \<Rightarrow> string \<Rightarrow> int \<Rightarrow> string" where
  "encode_cursor rp operation query_key offset =
     cursor_text rp (PDict
       [(''v'', PInt 1), (''operation'', PStr operation), (''query'', PStr query_key), (''offset'', PInt offset)])"

definition int_of_pv :: "pv \<Rightarrow> int" where
  "int_of_pv v = (case v of PInt i \<Rightarrow> i | PBool b \<Rightarrow> (if b then 1 else 0) | _ \<Rightarrow> 0)"

definition decode_cursor ::
  "(nat \<Rightarrow> string) \<Rightarrow> (string \<Rightarrow> pyfloat) \<Rightarrow> string option \<Rightarrow> string \<Rightarrow> string \<Rightarrow> int result" where
  "decode_cursor uc pf cursor operation query_key =
     (case cursor of
        None \<Rightarrow> Inr 0
      | Some s \<Rightarrow>
          if s = [] then Inr 0
          else
            (case cursor_value uc pf s of
               Inl _ \<Rightarrow> Inl (ValueError ''invalid_continuation_cursor'')
             | Inr (PDict d) \<Rightarrow>
                 if \<not> py_eq (PDict d) (PDict [(''v'', PInt 1), (''operation'', PStr operation), (''query'', PStr query_key),
                        (''offset'', dget d ''offset'')]) \<or>
                    \<not> is_int (dget d ''offset'') \<or> int_of_pv (dget d ''offset'') < 0
                 then Inl (ValueError ''continuation_cursor_mismatch'')
                 else Inr (int_of_pv (dget d ''offset''))
             | Inr _ \<Rightarrow> Inl (AttributeError ''get'')))"

record pagination =
  pg_considered :: int
  pg_returned :: int
  pg_offset :: int
  pg_omitted :: int
  pg_cursor :: "string option"

definition page ::
  "(string \<Rightarrow> string) \<Rightarrow> (real \<Rightarrow> string) \<Rightarrow> (nat \<Rightarrow> string) \<Rightarrow> (string \<Rightarrow> pyfloat) \<Rightarrow>
   'a list \<Rightarrow> string \<Rightarrow> pv \<Rightarrow> nat \<Rightarrow> string option \<Rightarrow> ('a list \<times> pagination) result" where
  "page sha rp uc pf items operation query limit cursor =
     (let query_key = stable_digest sha rp query in
      bindR (decode_cursor uc pf cursor operation query_key) (\<lambda>offset.
        let selected = take limit (drop (nat offset) items); next_offset = offset + int (length selected) in
        Inr (selected,
          \<lparr>pg_considered = int (length items), pg_returned = int (length selected), pg_offset = offset,
           pg_omitted = max 0 (int (length items) - next_offset),
           pg_cursor = (if next_offset < int (length items) then Some (encode_cursor rp operation query_key next_offset) else None)\<rparr>)))"

section \<open>The cursors of the coordination view and of the source context\<close>

definition parse_json :: "(nat \<Rightarrow> string) \<Rightarrow> (string \<Rightarrow> pyfloat) \<Rightarrow> pv \<Rightarrow> pv \<Rightarrow> pv" where
  "parse_json uc pf v fallback =
     (case v of
        PDict _ \<Rightarrow> v
      | PList _ \<Rightarrow> v
      | PStr s \<Rightarrow> (case json_loads uc pf s of Inl _ \<Rightarrow> fallback | Inr w \<Rightarrow> w)
      | _ \<Rightarrow> fallback)"

definition group_row :: "string list \<Rightarrow> pdict \<Rightarrow> (string list \<times> pdict list) list \<Rightarrow> (string list \<times> pdict list) list" where
  "group_row identity row groups =
     AList.update identity ((case map_of groups identity of None \<Rightarrow> [] | Some rows \<Rightarrow> rows) @ [row]) groups"

definition table_index :: "(pv \<Rightarrow> string) \<Rightarrow> pdict list \<Rightarrow> string list \<Rightarrow> (string list \<times> pdict list) list" where
  "table_index sh rows ks =
     fold (\<lambda>row. group_row (map (\<lambda>k. py_str sh (dget_or row k (PStr []))) ks) row) rows []"

definition observation_identity :: "(string \<Rightarrow> string) \<Rightarrow> (pv \<Rightarrow> string) \<Rightarrow> pv list \<Rightarrow> string" where
  "observation_identity sha sh values = sha (join [CHR 0x00] (map (py_str sh) values))"

definition view_payload :: "string \<Rightarrow> string \<Rightarrow> int \<Rightarrow> pv" where
  "view_payload tool identity offset =
     PDict [(''v'', PInt 1), (''tool'', PStr tool), (''identity'', PStr identity), (''offset'', PInt offset)]"

definition encode_view_cursor :: "(string \<Rightarrow> string) \<Rightarrow> (real \<Rightarrow> string) \<Rightarrow> string \<Rightarrow> string \<Rightarrow> int \<Rightarrow> string" where
  "encode_view_cursor sha rp tool identity offset =
     cursor_text rp (PDict
       [(''payload'', view_payload tool identity offset),
        (''digest'', PStr (sha (json_enc rp (view_payload tool identity offset))))])"

text \<open>\<^verbatim>\<open>x[k]\<close> for a text key.\<close>

definition item_of :: "pv \<Rightarrow> string \<Rightarrow> pv result" where
  "item_of v k =
     (case v of
        PDict d \<Rightarrow> (case map_of d k of None \<Rightarrow> Inl (KeyError k) | Some x \<Rightarrow> Inr x)
      | _ \<Rightarrow> Inl (TypeError ''indices must be integers''))"

definition view_cursor_valid ::
  "(string \<Rightarrow> string) \<Rightarrow> (real \<Rightarrow> string) \<Rightarrow> string \<Rightarrow> string \<Rightarrow> pv \<Rightarrow> (bool \<times> pv) result" where
  "view_cursor_valid sha rp tool identity envelope =
     bindR (item_of envelope ''payload'') (\<lambda>payload.
     bindR (item_of envelope ''digest'') (\<lambda>digest.
     bindR (andR (digest = PStr (sha (json_enc rp payload)))
       (bindR (item_of payload ''v'') (\<lambda>v. andR (eq_int v 1)
         (bindR (item_of payload ''tool'') (\<lambda>t. andR (t = PStr tool)
           (bindR (item_of payload ''identity'') (\<lambda>i. andR (i = PStr identity)
             (bindR (item_of payload ''offset'') (\<lambda>n. Inr (is_int n \<and> int_of_pv n \<ge> 0)))))))))) (\<lambda>valid.
     Inr (valid, payload))))"

definition decode_view_cursor ::
  "(string \<Rightarrow> string) \<Rightarrow> (real \<Rightarrow> string) \<Rightarrow> (nat \<Rightarrow> string) \<Rightarrow> (string \<Rightarrow> pyfloat) \<Rightarrow>
   string option \<Rightarrow> string \<Rightarrow> string \<Rightarrow> int result" where
  "decode_view_cursor sha rp uc pf cursor tool identity =
     (case cursor of
        None \<Rightarrow> Inr 0
      | Some s \<Rightarrow>
          if s = [] then Inr 0
          else
            (case bindR (cursor_value uc pf s) (view_cursor_valid sha rp tool identity) of
               Inr (True, payload) \<Rightarrow> bindR (item_of payload ''offset'') (\<lambda>n. Inr (int_of_pv n))
             | _ \<Rightarrow> Inl (ValueError ''continuation cursor is invalid or stale'')))"

definition encode_source_cursor :: "(real \<Rightarrow> string) \<Rightarrow> string \<Rightarrow> int \<Rightarrow> string" where
  "encode_source_cursor rp identity offset =
     cursor_text rp (PDict [(''v'', PInt 1), (''source'', PStr identity), (''offset'', PInt offset)])"

text \<open>Only \<^verbatim>\<open>ValueError\<close> and \<^verbatim>\<open>TypeError\<close> are turned into the error of the tool.\<close>

definition source_cursor_offset :: "string \<Rightarrow> pv \<Rightarrow> int result" where
  "source_cursor_offset identity item =
     bindR (as_dict item) (\<lambda>d.
     if \<not> eq_int (dget d ''v'') 1 \<or> dget d ''source'' \<noteq> PStr identity then Inl (ValueError [])
     else bindR (item_of (PDict d) ''offset'') (\<lambda>v. bindR (py_int_of v) (\<lambda>n. Inr (max 0 n))))"

definition decode_source_cursor ::
  "(nat \<Rightarrow> string) \<Rightarrow> (string \<Rightarrow> pyfloat) \<Rightarrow> string option \<Rightarrow> string \<Rightarrow> int result" where
  "decode_source_cursor uc pf cursor identity =
     (case cursor of
        None \<Rightarrow> Inr 0
      | Some s \<Rightarrow>
          if s = [] then Inr 0
          else
            (case bindR (cursor_value uc pf s) (source_cursor_offset identity) of
               Inl (ValueError _) \<Rightarrow> Inl (ValueError ''invalid_or_stale_continuation_cursor'')
             | Inl (TypeError _) \<Rightarrow> Inl (ValueError ''invalid_or_stale_continuation_cursor'')
             | r \<Rightarrow> r))"

end
