(* ===== verification/RetrievalProps.thy ===== *)
theory RetrievalProps
  imports Retrieval
begin

text \<open>
  What the cursors promise: each is read back exactly, by its own tool and query only, and the pages that they continue are
  the whole answer.  Two of the three decoders let other exceptions through.
\<close>

section \<open>The values in cursors\<close>

lemma writable_1 [simp]: "writable_int 1"
proof -
  have "length (string_of_nat 1) = 1" by code_simp
  then show ?thesis by (simp add: writable_int_def MAX_DIGITS_def)
qed

lemma norm_cursor [simp]:
  "json_norm (PDict [(''v'', PInt 1), (''operation'', PStr a), (''query'', PStr b), (''offset'', PInt n)]) =
     PDict [(''offset'', PInt n), (''operation'', PStr a), (''query'', PStr b), (''v'', PInt 1)]"
  "json_norm (PDict [(''v'', PInt 1), (''source'', PStr a), (''offset'', PInt n)]) =
     PDict [(''offset'', PInt n), (''source'', PStr a), (''v'', PInt 1)]"
  "json_norm (view_payload a b n) =
     PDict [(''identity'', PStr b), (''offset'', PInt n), (''tool'', PStr a), (''v'', PInt 1)]"
  "json_norm (PDict [(''payload'', v), (''digest'', PStr s)]) = PDict [(''digest'', PStr s), (''payload'', json_norm v)]"
  by (simp_all add: view_payload_def less_list_code less_eq_list_code less_char_def less_eq_char_def)

lemma cursor_value_text:
  "plain_json v \<Longrightarrow> wf_pv v \<Longrightarrow> cursor_value uc pf (cursor_text rp v) = Inr (json_norm v)"
  by (simp add: cursor_value_def cursor_text_def b64_roundtrip json_roundtrip)

lemma cursor_text_not_Nil: "cursor_text rp (PDict d) \<noteq> []"
proof
  assume "cursor_text rp (PDict d) = []"
  then have "b64_decode (add_pads (strip_pads (b64_encode (json_enc rp (PDict d))))) = b64_decode (add_pads [])"
    by (simp only: cursor_text_def)
  then have "json_enc rp (PDict d) = []" unfolding b64_roundtrip by (simp add: add_pads_def b64_decode_def)
  then show False by simp
qed

lemma norm_enc_payload: "json_enc rp (json_norm (view_payload a b n)) = json_enc rp (view_payload a b n)"
  by (simp add: view_payload_def less_list_code less_eq_list_code less_char_def less_eq_char_def)

lemma py_eq_str [simp]: "py_eq (PStr a) (PStr b) = (a = b)" "py_eq (PInt i) (PInt i)"
  by (auto simp: eq_atom_def)

section \<open>Round trips\<close>

lemma decode_encode_cursor:
  assumes "0 \<le> n" "writable_int n"
  shows "decode_cursor uc pf (Some (encode_cursor rp a b n)) a' b' =
    (if a' = a \<and> b' = b then Inr n else Inl (ValueError ''continuation_cursor_mismatch''))"
proof -
  have "cursor_value uc pf (encode_cursor rp a b n) = Inr (PDict [(''offset'', PInt n), (''operation'', PStr a), (''query'', PStr b), (''v'', PInt 1)])"
    unfolding encode_cursor_def using assms(2) by (subst cursor_value_text) simp_all
  moreover have "encode_cursor rp a b n \<noteq> []" by (simp only: encode_cursor_def cursor_text_not_Nil not_False_eq_True)
  ultimately show ?thesis
    using assms(1) by (auto simp: decode_cursor_def dget_def dget_or_def int_of_pv_def eq_atom_def)
qed

lemma decode_encode_source:
  assumes "0 \<le> n" "writable_int n"
  shows "decode_source_cursor uc pf (Some (encode_source_cursor rp a n)) a' =
    (if a' = a then Inr n else Inl (ValueError ''invalid_or_stale_continuation_cursor''))"
proof -
  have "cursor_value uc pf (encode_source_cursor rp a n) = Inr (PDict [(''offset'', PInt n), (''source'', PStr a), (''v'', PInt 1)])"
    unfolding encode_source_cursor_def using assms(2) by (subst cursor_value_text) simp_all
  moreover have "encode_source_cursor rp a n \<noteq> []" by (simp only: encode_source_cursor_def cursor_text_not_Nil not_False_eq_True)
  ultimately show ?thesis
    using assms(1)
    by (simp add: decode_source_cursor_def source_cursor_offset_def as_dict_def item_of_def dget_def dget_or_def)
qed

lemma decode_encode_view:
  assumes "0 \<le> n" "writable_int n"
  shows "decode_view_cursor sha rp uc pf (Some (encode_view_cursor sha rp a b n)) a' b' =
    (if a' = a \<and> b' = b then Inr n else Inl (ValueError ''continuation cursor is invalid or stale''))"
proof -
  let ?s = "sha (json_enc rp (view_payload a b n))"
  have "plain_json (PDict [(''payload'', view_payload a b n), (''digest'', PStr ?s)])" using assms(2) by (simp add: view_payload_def)
  moreover have "wf_pv (PDict [(''payload'', view_payload a b n), (''digest'', PStr ?s)])" by (simp add: view_payload_def)
  ultimately have v: "cursor_value uc pf (encode_view_cursor sha rp a b n) =
      Inr (PDict [(''digest'', PStr ?s), (''payload'', json_norm (view_payload a b n))])"
    unfolding encode_view_cursor_def by (subst cursor_value_text) (simp_all only: norm_cursor)
  have "encode_view_cursor sha rp a b n \<noteq> []" by (simp only: encode_view_cursor_def cursor_text_not_Nil not_False_eq_True)
  moreover have "view_cursor_valid sha rp a' b' (PDict [(''digest'', PStr ?s), (''payload'', json_norm (view_payload a b n))]) =
      Inr (a' = a \<and> b' = b, json_norm (view_payload a b n))"
    unfolding view_cursor_valid_def item_of_def using norm_enc_payload [of rp a b n] assms(1)
    by (auto simp: andR_def int_of_pv_def)
  ultimately show ?thesis
    using v by (auto simp: decode_view_cursor_def item_of_def int_of_pv_def split: bool.splits)
qed

section \<open>Properties\<close>

text \<open>
  C10. A cursor of each of the three tools is read back as the offset it was made for, and is refused for every other
  operation, query, identity or tool, with the error of the tool.
\<close>

theorem cursors_exact:
  assumes "0 \<le> n" "writable_int n"
  shows "decode_cursor uc pf (Some (encode_cursor rp a b n)) a' b' =
      (if a' = a \<and> b' = b then Inr n else Inl (ValueError ''continuation_cursor_mismatch'')) \<and>
    decode_view_cursor sha rp uc pf (Some (encode_view_cursor sha rp a b n)) a' b' =
      (if a' = a \<and> b' = b then Inr n else Inl (ValueError ''continuation cursor is invalid or stale'')) \<and>
    decode_source_cursor uc pf (Some (encode_source_cursor rp a n)) a' =
      (if a' = a then Inr n else Inl (ValueError ''invalid_or_stale_continuation_cursor''))"
  using assms by (simp only: decode_encode_cursor decode_encode_view decode_encode_source simp_thms)

text \<open>Reading page after page, each with the cursor of the one before.\<close>

fun read_pages ::
  "nat \<Rightarrow> (string \<Rightarrow> string) \<Rightarrow> (real \<Rightarrow> string) \<Rightarrow> (nat \<Rightarrow> string) \<Rightarrow> (string \<Rightarrow> pyfloat) \<Rightarrow>
   'a list \<Rightarrow> string \<Rightarrow> pv \<Rightarrow> nat \<Rightarrow> string option \<Rightarrow> 'a list result" where
  "read_pages 0 sha rp uc pf items operation query limit cursor = Inl OutOfFuel"
| "read_pages (Suc n) sha rp uc pf items operation query limit cursor =
     bindR (page sha rp uc pf items operation query limit cursor) (\<lambda>(selected, pg).
       case pg_cursor pg of
         None \<Rightarrow> Inr selected
       | Some c \<Rightarrow> bindR (read_pages n sha rp uc pf items operation query limit (Some c)) (\<lambda>rest. Inr (selected @ rest)))"

lemma writable_less: "writable_int (int n) \<Longrightarrow> m \<le> n \<Longrightarrow> writable_int (int m)"
  using length_string_of_nat_mono [of m n] by (simp add: writable_int_def)

lemma read_pages_from:
  assumes "0 < limit" "writable_int (int (length items))" "k \<le> length items" "length items - k < n"
    and "decode_cursor uc pf cursor operation (stable_digest sha rp query) = Inr (int k)"
  shows "read_pages n sha rp uc pf items operation query limit cursor = Inr (drop k items)"
  using assms(3-)
proof (induction n arbitrary: k cursor)
  case (Suc n)
  let ?selected = "take limit (drop k items)" and ?next = "k + length (take limit (drop k items))"
  show ?case
  proof (cases "?next < length items")
    case True
    let ?c = "encode_cursor rp operation (stable_digest sha rp query) (int ?next)"
    have "decode_cursor uc pf (Some ?c) operation (stable_digest sha rp query) = Inr (int ?next)"
      using decode_encode_cursor [of "int ?next" uc pf rp operation "stable_digest sha rp query"] True
        writable_less [OF assms(2), of ?next] by simp
    moreover have "length items - ?next < n" using True Suc.prems(2) assms(1) by auto
    ultimately have "read_pages n sha rp uc pf items operation query limit (Some ?c) = Inr (drop ?next items)"
      using True by (intro Suc.IH) simp_all
    moreover have "?selected @ drop ?next items = drop k items"
    proof -
      have "length ?selected = limit" using True by (simp add: min_def split: if_splits)
      moreover have "drop limit (drop k items) = drop (k + limit) items" by (simp add: add.commute)
      ultimately show ?thesis using append_take_drop_id [of limit "drop k items"] by simp
    qed
    ultimately show ?thesis using True Suc.prems(3) by (simp add: page_def Let_def)
  next
    case False
    then have "?selected = drop k items" by (simp add: min_def split: if_splits)
    then show ?thesis using False Suc.prems(3) by (simp add: page_def Let_def)
  qed
qed simp

text \<open>
  C9. Page after page, the whole answer: reading on while there is a cursor ends after at most one page per item, and gives
  every item once and in order, whatever the size of a page.
\<close>

theorem pages_complete:
  assumes "0 < limit" "writable_int (int (length items))"
  shows "read_pages (Suc (length items)) sha rp uc pf items operation query limit None = Inr items"
  using read_pages_from [OF assms, of 0 "Suc (length items)" uc pf None operation sha rp query]
  by (simp add: decode_cursor_def)







section \<open>Examples\<close>


theorem cursors_exact_witness:
  "decode_cursor (\<lambda>_. []) (\<lambda>_. NaN) (Some (encode_cursor (\<lambda>_. []) ''history_trace'' ''k'' 7)) ''history_trace'' ''k'' = Inr 7 \<and>
   decode_source_cursor (\<lambda>_. []) (\<lambda>_. NaN) (Some (encode_source_cursor (\<lambda>_. []) ''a'' 7)) ''b'' =
     Inl (ValueError ''invalid_or_stale_continuation_cursor'')"
proof -
  have "length (string_of_nat (nat \<bar>7\<bar>)) = 1" by code_simp
  then have "writable_int 7" by (simp add: writable_int_def MAX_DIGITS_def)
  then show ?thesis
    using cursors_exact [of 7 "\<lambda>_. []" "\<lambda>_. NaN" "\<lambda>_. []" "''history_trace''" "''k''" "''history_trace''" "''k''"]
      cursors_exact [of 7 "\<lambda>_. []" "\<lambda>_. NaN" "\<lambda>_. []" "''a''" "''k''" "''b''" "''k''"] by simp
qed

theorem pages_complete_witness:
  "read_pages 4 (\<lambda>s. s) (\<lambda>_. []) (\<lambda>_. []) (\<lambda>_. NaN) [True, False, True] ''o'' PNone 2 None = Inr [True, False, True]"
proof -
  have "length (string_of_nat (nat \<bar>3\<bar>)) = 1" by code_simp
  then have "writable_int 3" by (simp add: writable_int_def MAX_DIGITS_def)
  then show ?thesis
    using pages_complete [of 2 "[True, False, True]" "\<lambda>s. s" "\<lambda>_. []" "\<lambda>_. []" "\<lambda>_. NaN" "''o''" PNone]
    by (simp only: list.size) (simp add: eval_nat_numeral del: read_pages.simps)
qed

end
