(* ===== verification/Trace.thy ===== *)
theory Trace
  imports PacketContracts Json PyBuiltins
begin

text \<open>
  The impact trace (\<^verbatim>\<open>TraceService\<close> of \<^verbatim>\<open>src/src/project_control/as1_trace.py\<close>): how the fragments of the providers are
  merged into one generation, which generations are kept, and the traversal from the targets of a request.  The providers
  read files and run Git, so their fragments and the observations they are bound to are arguments; so are \<^verbatim>\<open>sha256\<close>
  (\<open>sha\<close>), the clock of the traversal, the source snippets and the lexical candidates.  Of the answer the
  constant fields, its status (\<^verbatim>\<open>ok\<close> when there is no warning) and the list of repositories are left out.
\<close>

section \<open>Entities, edges and fragments\<close>

record entity_ref =
  er_uuid :: string
  er_repository :: string
  er_kind :: string
  er_id :: string
  er_path :: "string option"

record provider_input =
  in_kind :: string
  in_key :: string
  in_digest :: string

record impact_edge =
  ie_source :: entity_ref
  ie_target :: entity_ref
  ie_relation :: string
  ie_origin :: string
  ie_provider :: string
  ie_generation :: string
  ie_inputs :: "provider_input list"
  ie_resolution :: string
  ie_witness :: "pv option"
  ie_conditions :: "string list option"

definition entity_pv :: "entity_ref \<Rightarrow> pv" where
  "entity_pv n = PDict
     ([(''project_uuid'', PStr (er_uuid n)), (''repository'', PStr (er_repository n)), (''kind'', PStr (er_kind n)),
       (''id'', PStr (er_id n))] @ (case er_path n of None \<Rightarrow> [] | Some p \<Rightarrow> [(''path'', PStr p)]))"

definition input_pv :: "provider_input \<Rightarrow> pv" where
  "input_pv i = PDict [(''kind'', PStr (in_kind i)), (''key'', PStr (in_key i)), (''digest'', PStr (in_digest i))]"

definition impact_edge_pv :: "impact_edge \<Rightarrow> pv" where
  "impact_edge_pv e = PDict
     ([(''format'', PStr ''pc-impact-edge/1''), (''source'', entity_pv (ie_source e)), (''target'', entity_pv (ie_target e)),
       (''relation'', PStr (ie_relation e)), (''origin'', PStr (ie_origin e)), (''provider'', PStr (ie_provider e)),
       (''generation'', PStr (ie_generation e)), (''input_manifest'', PList (map input_pv (ie_inputs e))),
       (''resolution'', PStr (ie_resolution e))] @ (case ie_witness e of None \<Rightarrow> [] | Some w \<Rightarrow> [(''witness'', w)]) @
      (case ie_conditions e of None \<Rightarrow> [] | Some cs \<Rightarrow> [(''change_conditions'', PList (map PStr cs))]))"

definition trace_digest :: "(string \<Rightarrow> string) \<Rightarrow> pv \<Rightarrow> string" where
  "trace_digest sha v = sha (json_enc (\<lambda>_. []) v)"

definition node_key :: "(string \<Rightarrow> string) \<Rightarrow> entity_ref \<Rightarrow> string" where
  "node_key sha n = trace_digest sha (PList [PStr (er_uuid n), PStr (er_repository n), PStr (er_kind n), PStr (er_id n)])"

definition edge_key :: "(string \<Rightarrow> string) \<Rightarrow> impact_edge \<Rightarrow> string" where
  "edge_key sha e = trace_digest sha (PDict
     [(''source'', entity_pv (ie_source e)), (''target'', entity_pv (ie_target e)), (''relation'', PStr (ie_relation e)),
      (''origin'', PStr (ie_origin e)), (''provider'', PStr (ie_provider e))])"

record provider_fragment =
  pf_provider :: string
  pf_generation :: string
  pf_inputs :: "provider_input list"
  pf_edges :: "impact_edge list"
  pf_nodes :: "entity_ref list"
  pf_relations :: "string list"
  pf_complete :: bool
  pf_freshness :: string
  pf_gaps :: "string list"

record trace_obs =
  ob_project :: string
  ob_uuid :: string
  ob_repository :: string
  ob_alias :: string
  ob_commit :: string
  ob_fingerprint :: string
  ob_freshness :: string

record coverage_row =
  cv_project :: string
  cv_uuid :: string
  cv_repository :: string
  cv_provider :: string
  cv_generation :: string
  cv_relations :: "string list"
  cv_complete :: bool
  cv_freshness :: string
  cv_inputs :: "provider_input list"
  cv_gaps :: "string list"

definition coverage_pv :: "coverage_row \<Rightarrow> pv" where
  "coverage_pv c = PDict
     [(''project'', PStr (cv_project c)), (''project_uuid'', PStr (cv_uuid c)), (''repository'', PStr (cv_repository c)),
      (''provider'', PStr (cv_provider c)), (''generation'', PStr (cv_generation c)),
      (''relations'', PList (map PStr (cv_relations c))), (''complete'', PBool (cv_complete c)),
      (''freshness'', PStr (cv_freshness c)), (''input_manifest'', PList (map input_pv (cv_inputs c))),
      (''gaps'', PList (map PStr (cv_gaps c)))]"

section \<open>Merging fragments into a generation\<close>

type_synonym lookup = "((string \<times> string) \<times> trace_obs) list"

definition obs_lookup :: "trace_obs list \<Rightarrow> lookup" where
  "obs_lookup observations = fold (\<lambda>o'. AList.update (ob_uuid o', ob_repository o') o') observations []"

definition obs_of :: "lookup \<Rightarrow> entity_ref \<Rightarrow> trace_obs option" where
  "obs_of lk n = map_of lk (er_uuid n, er_repository n)"

definition edge_ends :: "impact_edge \<Rightarrow> entity_ref list" where
  "edge_ends e = [ie_source e, ie_target e]"

definition foreign_edge :: "lookup \<Rightarrow> impact_edge \<Rightarrow> bool" where
  "foreign_edge lk e = list_ex (\<lambda>n. obs_of lk n = None) (edge_ends e)"

definition stale_edge :: "lookup \<Rightarrow> provider_fragment \<Rightarrow> impact_edge \<Rightarrow> bool" where
  "stale_edge lk f e \<longleftrightarrow>
     pf_freshness f \<noteq> ''current'' \<or>
     list_ex (\<lambda>n. map_option ob_freshness (obs_of lk n) \<noteq> Some ''current'') (edge_ends e)"

definition merged_edge :: "lookup \<Rightarrow> provider_fragment \<Rightarrow> impact_edge \<Rightarrow> impact_edge" where
  "merged_edge lk f e =
     (let e1 = (if foreign_edge lk e then e\<lparr>ie_resolution := ''unresolved''\<rparr> else e) in
      if stale_edge lk f e then e1\<lparr>ie_resolution := ''stale''\<rparr> else e1)"

record trace_state =
  ts_generation :: string
  ts_nodes :: "(string \<times> entity_ref) list"
  ts_edges :: "(string \<times> impact_edge) list"
  ts_providers :: "coverage_row list"
  ts_unknown :: "pv list"
  ts_lookup :: lookup

definition put_node :: "(string \<Rightarrow> string) \<Rightarrow> entity_ref \<Rightarrow> (string \<times> entity_ref) list \<Rightarrow> (string \<times> entity_ref) list" where
  "put_node sha n = AList.update (node_key sha n) n"

text \<open>The entry for a foreign edge holds the edge itself, so that it shows what becomes of its resolution.\<close>

definition merge_edge ::
  "(string \<Rightarrow> string) \<Rightarrow> lookup \<Rightarrow> provider_fragment \<Rightarrow> impact_edge \<Rightarrow> trace_state \<Rightarrow> trace_state" where
  "merge_edge sha lk f e st =
     (let e' = merged_edge lk f e in
      st\<lparr>ts_unknown := ts_unknown st @
           (if foreign_edge lk e
            then [PDict [(''provider'', PStr (pf_provider f)), (''reason'', PStr ''inaccessible_or_unregistered_relationship''),
                         (''edge'', impact_edge_pv e')]]
            else []),
         ts_nodes := fold (put_node sha) (edge_ends e') (ts_nodes st),
         ts_edges := AList.update (edge_key sha e') e' (ts_edges st)\<rparr>)"

definition coverage_of :: "trace_obs \<Rightarrow> provider_fragment \<Rightarrow> coverage_row" where
  "coverage_of o' f =
     \<lparr>cv_project = ob_project o', cv_uuid = ob_uuid o', cv_repository = ob_repository o', cv_provider = pf_provider f,
      cv_generation = pf_generation f, cv_relations = pf_relations f, cv_complete = pf_complete f,
      cv_freshness = (if ob_freshness o' \<noteq> ''current'' then ''stale'' else pf_freshness f), cv_inputs = pf_inputs f,
      cv_gaps = pf_gaps f\<rparr>"

definition merge_fragment :: "(string \<Rightarrow> string) \<Rightarrow> lookup \<Rightarrow> trace_obs \<times> provider_fragment \<Rightarrow> trace_state \<Rightarrow> trace_state" where
  "merge_fragment sha lk p st =
     (case p of (o', f) \<Rightarrow>
        fold (merge_edge sha lk f) (pf_edges f)
          (st\<lparr>ts_providers := ts_providers st @ [coverage_of o' f],
              ts_nodes := fold (put_node sha) (pf_nodes f) (ts_nodes st)\<rparr>))"

definition generation_of :: "(string \<Rightarrow> string) \<Rightarrow> trace_obs list \<Rightarrow> trace_state \<Rightarrow> string" where
  "generation_of sha observations st = trace_digest sha (PDict
     [(''nodes'', PDict (map (\<lambda>p. (fst p, entity_pv (snd p))) (ts_nodes st))),
      (''edges'', PDict (map (\<lambda>p. (fst p, impact_edge_pv (snd p))) (ts_edges st))),
      (''coverage'', PList (map coverage_pv (ts_providers st))), (''unknown'', PList (ts_unknown st)),
      (''source'', PList (map (\<lambda>o'. PList [PStr (ob_uuid o'), PStr (ob_repository o'), PStr (ob_commit o'), PStr (ob_fingerprint o')])
         observations))])"

definition merge_fragments ::
  "(string \<Rightarrow> string) \<Rightarrow> trace_obs list \<Rightarrow> (trace_obs \<times> provider_fragment) list \<Rightarrow> pv list \<Rightarrow> bool \<Rightarrow> trace_state" where
  "merge_fragments sha observations fragments unknown watcher_lost =
     (let lk = obs_lookup observations;
          st = fold (merge_fragment sha lk) fragments
            \<lparr>ts_generation = [], ts_nodes = [], ts_edges = [], ts_providers = [], ts_unknown = unknown, ts_lookup = lk\<rparr>;
          st1 = (if watcher_lost
                 then st\<lparr>ts_unknown := ts_unknown st @
                   [PDict [(''reason'', PStr ''watcher_loss_reconciled;installed_providers_must_reobserve_inputs'')]]\<rparr>
                 else st) in
      st1\<lparr>ts_generation := generation_of sha observations st1\<rparr>)"

text \<open>Eight generations are kept, the oldest goes first.\<close>

fun drop_oldest :: "'a list \<Rightarrow> 'a list" where
  "drop_oldest [] = []"
| "drop_oldest (x # xs) = (if length (x # xs) > 8 then drop_oldest xs else x # xs)"

definition retain :: "trace_state \<Rightarrow> (string \<times> trace_state) list \<Rightarrow> (string \<times> trace_state) list" where
  "retain st generations = drop_oldest (AList.update (ts_generation st) st generations)"

section \<open>The traversal\<close>

definition REVERSE_RELATIONS :: "string list" where
  "REVERSE_RELATIONS =
     [''depends_on'', ''imports'', ''includes'', ''calls'', ''consumes'', ''build_input'', ''package_dependency'', ''generated_from'']"

definition FORWARD_RELATIONS :: "string list" where
  "FORWARD_RELATIONS = [''generates'', ''produces_output'']"

definition propagates :: "impact_edge \<Rightarrow> bool" where
  "propagates e \<longleftrightarrow> ie_origin e \<noteq> ''candidate'' \<and> ie_relation e \<in> set (REVERSE_RELATIONS @ FORWARD_RELATIONS)"

definition traversable :: "impact_edge \<Rightarrow> bool" where
  "traversable e \<longleftrightarrow> propagates e \<and> ie_resolution e = ''resolved''"

text \<open>From the provider to its consumer, or from the producer to its output.\<close>

definition trace_start :: "(string \<Rightarrow> string) \<Rightarrow> impact_edge \<Rightarrow> string" where
  "trace_start sha e = (if ie_relation e \<in> set REVERSE_RELATIONS then node_key sha (ie_target e) else node_key sha (ie_source e))"

definition trace_end :: "(string \<Rightarrow> string) \<Rightarrow> impact_edge \<Rightarrow> string" where
  "trace_end sha e = (if ie_relation e \<in> set REVERSE_RELATIONS then node_key sha (ie_source e) else node_key sha (ie_target e))"

definition ordered_edges :: "trace_state \<Rightarrow> (string \<times> impact_edge) list" where
  "ordered_edges st = sort_key fst (ts_edges st)"

definition neighbors :: "(string \<Rightarrow> string) \<Rightarrow> trace_state \<Rightarrow> string \<Rightarrow> impact_edge list" where
  "neighbors sha st k = filter (\<lambda>e. traversable e \<and> trace_start sha e = k) (map snd (ordered_edges st))"

definition halo_edges :: "trace_state \<Rightarrow> impact_edge list" where
  "halo_edges st = filter (\<lambda>e. \<not> propagates e) (map snd (ordered_edges st))"

definition blocked_edges :: "trace_state \<Rightarrow> impact_edge list" where
  "blocked_edges st = filter (\<lambda>e. propagates e \<and> \<not> traversable e) (map snd (ordered_edges st))"

text \<open>The search: its queue of nodes with their witness chains, what was visited, the results and the counters.\<close>

record trace_search =
  sr_queue :: "(string \<times> impact_edge list) list"
  sr_visited :: "string list"
  sr_results :: "(string \<times> impact_edge list) list"
  sr_traversed :: nat
  sr_cycles :: nat
  sr_omitted :: "(string \<times> nat) list"

text \<open>
  \<open>late n\<close>: the clock has passed the deadline when the edge after \<open>n\<close> examined ones is looked at.  A budget that is used up
  records what is left and empties the queue.
\<close>

definition out_of_budget :: "nat \<Rightarrow> nat \<Rightarrow> (nat \<Rightarrow> bool) \<Rightarrow> trace_search \<Rightarrow> bool" where
  "out_of_budget max_nodes max_edges late s \<longleftrightarrow>
     sr_traversed s \<ge> max_edges \<or> length (sr_results s) \<ge> max_nodes \<or> late (sr_traversed s)"

fun visit_neighbors ::
  "(string \<Rightarrow> string) \<Rightarrow> trace_state \<Rightarrow> nat \<Rightarrow> nat \<Rightarrow> (nat \<Rightarrow> bool) \<Rightarrow> string \<Rightarrow> impact_edge list \<Rightarrow> impact_edge list \<Rightarrow>
   trace_search \<Rightarrow> trace_search" where
  "visit_neighbors sha st max_nodes max_edges late current chain [] s = s"
| "visit_neighbors sha st max_nodes max_edges late current chain (e # es) s =
     (if out_of_budget max_nodes max_edges late s then
        s\<lparr>sr_omitted := (current, length (e # es)) # map (\<lambda>p. (fst p, length (neighbors sha st (fst p)))) (sr_queue s),
          sr_queue := []\<rparr>
      else
        (let s1 = s\<lparr>sr_traversed := Suc (sr_traversed s)\<rparr>; end_key = trace_end sha e in
         visit_neighbors sha st max_nodes max_edges late current chain es
           (if end_key \<in> set (sr_visited s1) then s1\<lparr>sr_cycles := Suc (sr_cycles s1)\<rparr>
            else s1\<lparr>sr_visited := sr_visited s1 @ [end_key], sr_results := sr_results s1 @ [(end_key, chain @ [e])],
                    sr_queue := sr_queue s1 @ [(end_key, chain @ [e])]\<rparr>)))"

lemma set_ordered_edges [simp]: "set (ordered_edges st) = set (ts_edges st)"
  by (simp add: ordered_edges_def)

lemma in_neighbors: "e \<in> set (neighbors sha st k) \<longleftrightarrow> e \<in> snd ` set (ts_edges st) \<and> traversable e \<and> trace_start sha e = k"
  by (auto simp: neighbors_def)

text \<open>Every round takes a node from the queue, and every node that is put there is visited for the first time.\<close>

definition end_keys :: "(string \<Rightarrow> string) \<Rightarrow> trace_state \<Rightarrow> string set" where
  "end_keys sha st = trace_end sha ` snd ` set (ts_edges st)"

definition search_left :: "(string \<Rightarrow> string) \<Rightarrow> trace_state \<Rightarrow> trace_search \<Rightarrow> nat" where
  "search_left sha st s = card (end_keys sha st - set (sr_visited s)) + length (sr_queue s)"

lemma visit_neighbors_left:
  "set es \<subseteq> snd ` set (ts_edges st) \<Longrightarrow>
     search_left sha st (visit_neighbors sha st max_nodes max_edges late current chain es s) \<le> search_left sha st s"
proof (induction es arbitrary: s)
  case (Cons e es)
  have fin: "finite (end_keys sha st)" by (simp add: end_keys_def)
  have e: "trace_end sha e \<in> end_keys sha st" using Cons.prems by (auto simp: end_keys_def)
  show ?case
  proof (cases "out_of_budget max_nodes max_edges late s")
    case True
    then show ?thesis by (simp add: search_left_def)
  next
    case False
    let ?s1 = "s\<lparr>sr_traversed := Suc (sr_traversed s)\<rparr>"
    let ?s2 = "if trace_end sha e \<in> set (sr_visited ?s1) then ?s1\<lparr>sr_cycles := Suc (sr_cycles ?s1)\<rparr>
            else ?s1\<lparr>sr_visited := sr_visited ?s1 @ [trace_end sha e], sr_results := sr_results ?s1 @ [(trace_end sha e, chain @ [e])],
                    sr_queue := sr_queue ?s1 @ [(trace_end sha e, chain @ [e])]\<rparr>"
    have "search_left sha st ?s2 \<le> search_left sha st s"
    proof (cases "trace_end sha e \<in> set (sr_visited s)")
      case False
      then have "end_keys sha st - set (sr_visited ?s2) = end_keys sha st - set (sr_visited s) - {trace_end sha e}" by auto
      moreover have "trace_end sha e \<in> end_keys sha st - set (sr_visited s)" using e False by simp
      ultimately have "Suc (card (end_keys sha st - set (sr_visited ?s2))) = card (end_keys sha st - set (sr_visited s))"
        using fin by (simp only: card_Suc_Diff1 finite_Diff)
      then show ?thesis using False by (simp add: search_left_def)
    qed (simp add: search_left_def)
    then show ?thesis using Cons.IH [of ?s2] Cons.prems False by (simp add: Let_def)
  qed
qed simp

function trace_loop ::
  "(string \<Rightarrow> string) \<Rightarrow> trace_state \<Rightarrow> nat \<Rightarrow> nat \<Rightarrow> (nat \<Rightarrow> bool) \<Rightarrow> trace_search \<Rightarrow> trace_search" where
  "trace_loop sha st max_nodes max_edges late s =
     (case sr_queue s of
        [] \<Rightarrow> s
      | (current, chain) # queue \<Rightarrow>
          trace_loop sha st max_nodes max_edges late
            (visit_neighbors sha st max_nodes max_edges late current chain (neighbors sha st current) (s\<lparr>sr_queue := queue\<rparr>)))"
  by pat_completeness auto

termination
proof (relation "measure (\<lambda>(sha, st, _, _, _, s). search_left sha st s)", simp)
  fix sha :: "string \<Rightarrow> string" and st :: trace_state and max_nodes max_edges :: nat and late :: "nat \<Rightarrow> bool"
    and s :: trace_search and p queue current chain
  assume q: "sr_queue s = p # queue" "(current, chain) = p"
  have "search_left sha st (visit_neighbors sha st max_nodes max_edges late current chain (neighbors sha st current) (s\<lparr>sr_queue := queue\<rparr>))
      \<le> search_left sha st (s\<lparr>sr_queue := queue\<rparr>)"
    by (rule visit_neighbors_left) (auto simp: in_neighbors)
  then show "((sha, st, max_nodes, max_edges, late,
      visit_neighbors sha st max_nodes max_edges late current chain (neighbors sha st current) (s\<lparr>sr_queue := queue\<rparr>)),
     (sha, st, max_nodes, max_edges, late, s)) \<in> measure (\<lambda>(sha, st, _, _, _, s). search_left sha st s)"
    using q by (simp add: search_left_def)
qed

declare trace_loop.simps [simp del]

definition search_from :: "(string \<Rightarrow> string) \<Rightarrow> trace_state \<Rightarrow> nat \<Rightarrow> nat \<Rightarrow> (nat \<Rightarrow> bool) \<Rightarrow> string list \<Rightarrow> trace_search" where
  "search_from sha st max_nodes max_edges late seeds =
     trace_loop sha st max_nodes max_edges late
       \<lparr>sr_queue = map (\<lambda>k. (k, [])) (sorted_set seeds), sr_visited = sorted_set seeds, sr_results = [], sr_traversed = 0,
        sr_cycles = 0, sr_omitted = []\<rparr>"

section \<open>Targets\<close>

definition node_field :: "entity_ref \<Rightarrow> string \<Rightarrow> pv" where
  "node_field n k = dget (mapping_or_empty (entity_pv n)) k"

definition trace_target :: "pv \<Rightarrow> pdict result" where
  "trace_target v =
     (case v of
        PStr s \<Rightarrow> bindR (relative_path s) (\<lambda>p. Inr [(''path'', PStr p)])
      | PDict d \<Rightarrow>
          if set (keys d) \<subseteq> {''project'', ''repository'', ''kind'', ''id'', ''path''} then Inr d
          else Inl (ValueError ''invalid_trace_target'')
      | _ \<Rightarrow> Inl (ValueError ''invalid_trace_target''))"

definition target_matches :: "trace_state \<Rightarrow> string \<Rightarrow> pdict \<Rightarrow> string \<times> entity_ref \<Rightarrow> bool result" where
  "target_matches st project d p =
     (case obs_of (ts_lookup st) (snd p) of
        None \<Rightarrow> Inr False
      | Some o' \<Rightarrow>
          andR (dget_or d ''project'' (PStr project) = PStr (ob_project o'))
            (bindR (if truthy (dget d ''repository'') then text_in (dget d ''repository'') [ob_alias o', ob_repository o'] else Inr True)
              (\<lambda>here. Inr (here \<and> list_all (\<lambda>k. has_key d k \<longrightarrow> py_eq (node_field (snd p) k) (dget d k)) [''kind'', ''id'', ''path'']))))"

definition unknown_target :: "pdict \<Rightarrow> nat \<Rightarrow> pv" where
  "unknown_target d n = PDict
     [(''target'', PDict d), (''reason'', PStr (if n > 0 then ''ambiguous_target'' else ''target_not_indexed'')), (''count'', PInt (int n))]"

text \<open>One match is a seed; several are all seeds when the target is a path in one repository.\<close>

definition resolve_target :: "trace_state \<Rightarrow> string \<Rightarrow> pv \<Rightarrow> string list \<times> pv list \<Rightarrow> (string list \<times> pv list) result" where
  "resolve_target st project v acc =
     (case acc of (seeds, unknown) \<Rightarrow>
        bindR (trace_target v) (\<lambda>d.
        bindR (filterR (target_matches st project d) (ts_nodes st)) (\<lambda>matches.
        Inr (if length matches = 1 \<or>
                matches \<noteq> [] \<and> has_key d ''path'' \<and> \<not> has_key d ''kind'' \<and> \<not> has_key d ''id'' \<and>
                card ((er_repository \<circ> snd) ` set matches) = 1
             then (seeds @ map fst matches, unknown)
             else (seeds, unknown @ [unknown_target d (length matches)])))))"

section \<open>The answer\<close>

record dependency =
  dp_node :: entity_ref
  dp_chain :: "impact_edge list"
  dp_fanout :: nat
  dp_snippet :: "pv option"

datatype trace_delta =
    DeltaUnavailable
  | Delta string string "impact_edge list" "impact_edge list" "impact_edge list" bool

record trace_answer =
  ta_generation :: string
  ta_seeds :: "entity_ref list"
  ta_dependencies :: "dependency list"
  ta_candidates :: "pv list"
  ta_halo :: "impact_edge list"
  ta_unknown :: "pv list"
  ta_complete :: bool
  ta_visited :: nat
  ta_examined :: nat
  ta_cycles :: nat
  ta_omitted :: "(entity_ref \<times> nat) list"
  ta_continuation :: "(string \<times> string) option"
  ta_delta :: "trace_delta option"
  ta_warnings :: "string list"

datatype trace_reply = RefreshRequired string | Traced trace_answer

record trace_request =
  rq_project :: string
  rq_targets :: "pv list"
  rq_mode :: string
  rq_change_class :: string
  rq_max_nodes :: int
  rq_max_edges :: int
  rq_time_budget_ms :: int
  rq_since :: "string option"
  rq_cursor :: "pdict option"
  rq_query :: "string option"
  rq_max_payload :: pv

record trace_host =
  th_permitted :: "string list"
  th_registered :: "string list"
  th_late :: "nat \<Rightarrow> bool"
  th_snippet :: "entity_ref \<Rightarrow> impact_edge list \<Rightarrow> pv"
  th_candidates :: "string \<Rightarrow> pv list"

definition opt_text :: "string option \<Rightarrow> pv" where
  "opt_text x = (case x of None \<Rightarrow> PNone | Some s \<Rightarrow> PStr s)"

definition request_digest :: "(string \<Rightarrow> string) \<Rightarrow> trace_request \<Rightarrow> string" where
  "request_digest sha rq = trace_digest sha (PDict
     [(''project'', PStr (rq_project rq)), (''targets'', PList (rq_targets rq)), (''mode'', PStr (rq_mode rq)),
      (''change_class'', PStr (rq_change_class rq)), (''query'', opt_text (rq_query rq))])"

definition cursor_stale :: "(string \<Rightarrow> string) \<Rightarrow> trace_state \<Rightarrow> trace_request \<Rightarrow> bool" where
  "cursor_stale sha st rq =
     (case rq_cursor rq of
        None \<Rightarrow> False
      | Some c \<Rightarrow> c \<noteq> [] \<and> (dget c ''generation'' \<noteq> PStr (ts_generation st) \<or> dget c ''request'' \<noteq> PStr (request_digest sha rq)))"

definition edges_at :: "(string \<times> impact_edge) list \<Rightarrow> string set \<Rightarrow> impact_edge list" where
  "edges_at es ks = map snd (filter (\<lambda>p. fst p \<in> ks) (sort_key fst es))"

definition changed_edge :: "(string \<times> impact_edge) list \<Rightarrow> (string \<times> impact_edge) list \<Rightarrow> string \<Rightarrow> bool" where
  "changed_edge new old k =
     (case (map_of new k, map_of old k) of
        (Some a, Some b) \<Rightarrow> \<not> py_eq (impact_edge_pv a) (impact_edge_pv b)
      | _ \<Rightarrow> False)"

definition delta_of :: "trace_state \<Rightarrow> (string \<times> trace_state) list \<Rightarrow> string \<Rightarrow> trace_delta" where
  "delta_of st generations since =
     (case map_of generations since of
        None \<Rightarrow> DeltaUnavailable
      | Some older \<Rightarrow>
          Delta since (ts_generation st)
            (edges_at (ts_edges st) (fst ` set (ts_edges st) - fst ` set (ts_edges older)))
            (edges_at (ts_edges older) (fst ` set (ts_edges older) - fst ` set (ts_edges st)))
            (edges_at (ts_edges st) {k \<in> fst ` set (ts_edges st). changed_edge (ts_edges st) (ts_edges older) k})
            (ts_providers st \<noteq> ts_providers older))"

definition node_at :: "trace_state \<Rightarrow> string \<Rightarrow> entity_ref result" where
  "node_at st k = (case map_of (ts_nodes st) k of None \<Rightarrow> Inl (KeyError k) | Some n \<Rightarrow> Inr n)"

definition dependency_of :: "(string \<Rightarrow> string) \<Rightarrow> trace_host \<Rightarrow> trace_state \<Rightarrow> trace_request \<Rightarrow> string \<times> impact_edge list \<Rightarrow> dependency result" where
  "dependency_of sha th st rq p =
     bindR (node_at st (fst p)) (\<lambda>n.
     Inr \<lparr>dp_node = n, dp_chain = snd p, dp_fanout = length (neighbors sha st (fst p)),
          dp_snippet = (if rq_mode rq = ''snippets'' then Some (th_snippet th n (snd p)) else None)\<rparr>)"

definition snippet_missing :: "dependency \<Rightarrow> bool" where
  "snippet_missing d =
     (case dp_snippet d of None \<Rightarrow> False | Some v \<Rightarrow> dget (mapping_or_empty v) ''status'' \<noteq> PStr ''ok'')"

definition blocked_pv :: "impact_edge \<Rightarrow> pv" where
  "blocked_pv e = PDict [(''reason'', PStr (''edge_'' @ ie_resolution e)), (''edge'', impact_edge_pv e)]"

definition provider_ok :: "coverage_row \<Rightarrow> bool" where
  "provider_ok c \<longleftrightarrow> cv_complete c \<and> cv_freshness c = ''current''"

definition answer_of ::
  "(string \<Rightarrow> string) \<Rightarrow> trace_host \<Rightarrow> (string \<times> trace_state) list \<Rightarrow> trace_state \<Rightarrow> trace_request \<Rightarrow> pv list \<Rightarrow>
   trace_search \<Rightarrow> entity_ref list \<Rightarrow> dependency list \<Rightarrow> (entity_ref \<times> nat) list \<Rightarrow> trace_answer" where
  "answer_of sha th generations st rq unknown s seeds dependencies leftover =
     (let complete = (unknown = [] \<and> leftover = [] \<and> list_all provider_ok (ts_providers st)) in
      \<lparr>ta_generation = ts_generation st, ta_seeds = seeds, ta_dependencies = dependencies,
       ta_candidates = (case rq_query rq of None \<Rightarrow> [] | Some q \<Rightarrow> if q = [] then [] else th_candidates th q),
       ta_halo = filter (\<lambda>e. node_key sha (ie_source e) \<in> set (sr_visited s) \<or> node_key sha (ie_target e) \<in> set (sr_visited s))
         (halo_edges st),
       ta_unknown = unknown, ta_complete = complete, ta_visited = length (sr_visited s), ta_examined = sr_traversed s,
       ta_cycles = sr_cycles s, ta_omitted = leftover,
       ta_continuation = (if leftover = [] then None else Some (ts_generation st, request_digest sha rq)),
       ta_delta = (case rq_since rq of None \<Rightarrow> None | Some g \<Rightarrow> if g = [] then None else Some (delta_of st generations g)),
       ta_warnings =
         (if complete then [] else [''dependency_coverage_partial'']) @
         (if leftover = [] then [] else [''trace_budget;continue_with_larger_budget_same_generation'']) @
         (if list_ex snippet_missing dependencies then [''source_snippets_partial''] else [])\<rparr>)"

definition trace_from ::
  "(string \<Rightarrow> string) \<Rightarrow> trace_host \<Rightarrow> (string \<times> trace_state) list \<Rightarrow> trace_state \<Rightarrow> trace_request \<Rightarrow>
   string list \<times> pv list \<Rightarrow> trace_reply result" where
  "trace_from sha th generations st rq found =
     (let s = search_from sha st (nat (rq_max_nodes rq)) (nat (rq_max_edges rq)) (th_late th) (fst found) in
      bindR (mapR (node_at st) (fst found)) (\<lambda>seeds.
      bindR (mapR (dependency_of sha th st rq) (sr_results s)) (\<lambda>dependencies.
      bindR (mapR (\<lambda>p. bindR (node_at st (fst p)) (\<lambda>n. Inr (n, snd p))) (sr_omitted s)) (\<lambda>leftover.
      Inr (Traced (answer_of sha th generations st rq (snd found @ map blocked_pv (blocked_edges st)) s seeds dependencies
        leftover))))))"

definition trace :: "(string \<Rightarrow> string) \<Rightarrow> trace_host \<Rightarrow> (string \<times> trace_state) list \<Rightarrow> trace_state \<Rightarrow> trace_request \<Rightarrow> trace_reply result" where
  "trace sha th generations st rq =
     (if cursor_stale sha st rq then Inr (RefreshRequired (ts_generation st))
      else bindR (foldR (resolve_target st (rq_project rq)) (rq_targets rq) ([], ts_unknown st)) (trace_from sha th generations st rq))"

text \<open>The checks of a request.\<close>

definition bad_payload_budget :: "pv \<Rightarrow> bool" where
  "bad_payload_budget v = (case v of PNone \<Rightarrow> False | PInt n \<Rightarrow> n < 1024 | _ \<Rightarrow> True)"

definition check_trace :: "trace_host \<Rightarrow> trace_request \<Rightarrow> unit result" where
  "check_trace th rq =
     bindR (raise_if (rq_project rq \<notin> set (th_permitted th)) (PermissionError ''project_not_permitted'')) (\<lambda>_.
     bindR (raise_if (rq_project rq \<notin> set (th_registered th)) (ValueError ''unknown workspace'')) (\<lambda>_.
     bindR (raise_if (rq_mode rq \<notin> {''paths'', ''snippets''}) (ValueError ''unsupported_trace_mode'')) (\<lambda>_.
     bindR (raise_if (rq_change_class rq \<notin> {''body'', ''interface'', ''configuration'', ''generator'', ''removal'', ''unknown''})
       (ValueError ''unsupported_change_class'')) (\<lambda>_.
     bindR (raise_if (rq_targets rq = [] \<or> length (rq_targets rq) > 32) (ValueError ''trace_requires_1_to_32_targets'')) (\<lambda>_.
     bindR (raise_if (\<not> (1 \<le> rq_max_nodes rq \<and> rq_max_nodes rq \<le> 10000 \<and> 1 \<le> rq_max_edges rq \<and> rq_max_edges rq \<le> 100000 \<and>
       1 \<le> rq_time_budget_ms rq \<and> rq_time_budget_ms rq \<le> 30000)) (ValueError ''invalid_trace_budget'')) (\<lambda>_.
     raise_if (bad_payload_budget (rq_max_payload rq)) (ValueError ''invalid_payload_budget'')))))))"

end
