(* ===== verification/TraceProps.thy ===== *)
theory TraceProps
  imports Trace
begin

text \<open>
  What the impact trace guarantees: the state that the fragments are merged into is well formed; every node the traversal
  reports is reached along the edges of its witness chain, within the budgets; and a traversal that left nothing out has
  reached all there is to reach.
\<close>

section \<open>Paths of traversable edges\<close>

fun chain_from :: "(string \<Rightarrow> string) \<Rightarrow> trace_state \<Rightarrow> string \<Rightarrow> impact_edge list \<Rightarrow> string \<Rightarrow> bool" where
  "chain_from sha st a [] b \<longleftrightarrow> a = b"
| "chain_from sha st a (e # es) b \<longleftrightarrow> e \<in> set (neighbors sha st a) \<and> chain_from sha st (trace_end sha e) es b"

lemma chain_from_append [simp]:
  "chain_from sha st a (es @ fs) b \<longleftrightarrow> (\<exists>k. chain_from sha st a es k \<and> chain_from sha st k fs b)"
  by (induction es arbitrary: a) auto

definition ends_of :: "(string \<Rightarrow> string) \<Rightarrow> impact_edge list \<Rightarrow> string set" where
  "ends_of sha es = trace_end sha ` set es"

definition end_set :: "(string \<Rightarrow> string) \<Rightarrow> trace_state \<Rightarrow> string \<Rightarrow> string set" where
  "end_set sha st k = ends_of sha (neighbors sha st k)"

inductive reachable :: "(string \<Rightarrow> string) \<Rightarrow> trace_state \<Rightarrow> string set \<Rightarrow> string \<Rightarrow> bool" for sha st S where
  seed: "a \<in> S \<Longrightarrow> reachable sha st S a"
| impact: "reachable sha st S a \<Longrightarrow> b \<in> end_set sha st a \<Longrightarrow> reachable sha st S b"

lemma chain_reachable: "reachable sha st S a \<Longrightarrow> chain_from sha st a es b \<Longrightarrow> reachable sha st S b"
proof (induction es arbitrary: a)
  case (Cons e es)
  then have "reachable sha st S (trace_end sha e)"
    by (auto simp: end_set_def ends_of_def intro: reachable.impact)
  then show ?case using Cons by simp
qed simp

lemma closed_reachable:
  assumes "reachable sha st S k" "S \<subseteq> V" "\<And>a. a \<in> V \<Longrightarrow> end_set sha st a \<subseteq> V"
  shows "k \<in> V"
  using assms(1) by induction (use assms in auto)

section \<open>The invariant of the search\<close>

definition witnessed :: "(string \<Rightarrow> string) \<Rightarrow> trace_state \<Rightarrow> string set \<Rightarrow> string \<times> impact_edge list \<Rightarrow> bool" where
  "witnessed sha st S p \<longleftrightarrow> (\<exists>a \<in> S. chain_from sha st a (snd p) (fst p))"

definition search_ok :: "(string \<Rightarrow> string) \<Rightarrow> trace_state \<Rightarrow> string list \<Rightarrow> nat \<Rightarrow> nat \<Rightarrow> trace_search \<Rightarrow> bool" where
  "search_ok sha st seeds N E s \<longleftrightarrow>
     sr_visited s = sorted_set seeds @ map fst (sr_results s) \<and> distinct (sr_visited s) \<and>
     (\<forall>p \<in> set (sr_results s). witnessed sha st (set seeds) p \<and> snd p \<noteq> []) \<and>
     (\<forall>p \<in> set (sr_queue s). witnessed sha st (set seeds) p \<and> fst p \<in> set (sr_visited s)) \<and>
     length (sr_results s) \<le> N \<and> sr_traversed s \<le> E \<and> sr_traversed s = length (sr_results s) + sr_cycles s"

text \<open>Where the search has not stopped, only the ends of the nodes still queued (and of \<open>ks\<close>) may be missing.\<close>

definition search_closed :: "(string \<Rightarrow> string) \<Rightarrow> trace_state \<Rightarrow> string set \<Rightarrow> trace_search \<Rightarrow> bool" where
  "search_closed sha st ks s \<longleftrightarrow>
     (\<forall>k \<in> set (sr_visited s). k \<notin> fst ` set (sr_queue s) \<longrightarrow> k \<notin> ks \<longrightarrow> end_set sha st k \<subseteq> set (sr_visited s))"

definition search_stopped :: "nat \<Rightarrow> nat \<Rightarrow> (nat \<Rightarrow> bool) \<Rightarrow> trace_search \<Rightarrow> bool" where
  "search_stopped N E late s \<longleftrightarrow> sr_omitted s \<noteq> [] \<and> sr_queue s = [] \<and> out_of_budget N E late s \<and>
     fst ` set (sr_omitted s) \<subseteq> set (sr_visited s)"

definition step_ok :: "(string \<Rightarrow> string) \<Rightarrow> trace_state \<Rightarrow> string list \<Rightarrow> nat \<Rightarrow> nat \<Rightarrow> (nat \<Rightarrow> bool) \<Rightarrow> string set \<Rightarrow> trace_search \<Rightarrow> bool" where
  "step_ok sha st seeds N E late ks s \<longleftrightarrow>
     search_ok sha st seeds N E s \<and> (search_stopped N E late s \<or> sr_omitted s = [] \<and> search_closed sha st ks s)"

text \<open>One examined edge.\<close>

definition examine :: "(string \<Rightarrow> string) \<Rightarrow> impact_edge list \<Rightarrow> impact_edge \<Rightarrow> trace_search \<Rightarrow> trace_search" where
  "examine sha chain e s =
     (let s1 = s\<lparr>sr_traversed := Suc (sr_traversed s)\<rparr>; end_key = trace_end sha e in
      if end_key \<in> set (sr_visited s1) then s1\<lparr>sr_cycles := Suc (sr_cycles s1)\<rparr>
      else s1\<lparr>sr_visited := sr_visited s1 @ [end_key], sr_results := sr_results s1 @ [(end_key, chain @ [e])],
              sr_queue := sr_queue s1 @ [(end_key, chain @ [e])]\<rparr>)"

lemma visit_neighbors_Cons:
  "\<not> out_of_budget N E late s \<Longrightarrow>
     visit_neighbors sha st N E late current chain (e # es) s =
       visit_neighbors sha st N E late current chain es (examine sha chain e s)"
  by (simp add: examine_def Let_def)

lemma examine_grows:
  "set (sr_visited s) \<subseteq> set (sr_visited (examine sha chain e s))" "trace_end sha e \<in> set (sr_visited (examine sha chain e s))"
  "sr_omitted (examine sha chain e s) = sr_omitted s"
  by (auto simp: examine_def Let_def)

lemma examine_ok:
  assumes "search_ok sha st seeds N E s" "\<not> out_of_budget N E late s" "e \<in> set (neighbors sha st current)"
    "witnessed sha st (set seeds) (current, chain)"
  shows "search_ok sha st seeds N E (examine sha chain e s)"
proof -
  have w: "witnessed sha st (set seeds) (trace_end sha e, chain @ [e])"
    using assms(3,4) by (auto simp: witnessed_def)
  have b: "sr_traversed s < E" "length (sr_results s) < N" using assms(2) by (auto simp: out_of_budget_def)
  show ?thesis
  proof (cases "trace_end sha e \<in> set (sr_visited s)")
    case True
    then have r: "examine sha chain e s = s\<lparr>sr_traversed := Suc (sr_traversed s), sr_cycles := Suc (sr_cycles s)\<rparr>"
      by (simp add: examine_def Let_def)
    show ?thesis using assms(1) b unfolding search_ok_def r by (elim conjE) simp
  next
    case False
    have r: "sr_results (examine sha chain e s) = sr_results s @ [(trace_end sha e, chain @ [e])]"
      "sr_visited (examine sha chain e s) = sr_visited s @ [trace_end sha e]"
      "sr_queue (examine sha chain e s) = sr_queue s @ [(trace_end sha e, chain @ [e])]"
      "sr_traversed (examine sha chain e s) = Suc (sr_traversed s)" "sr_cycles (examine sha chain e s) = sr_cycles s"
      using False by (simp_all add: examine_def Let_def)
    show ?thesis using assms(1) b w False unfolding search_ok_def r
      by (elim conjE) (simp del: disjoint_iff)
  qed
qed

lemma examine_closed: "search_closed sha st ks s \<Longrightarrow> search_closed sha st ks (examine sha chain e s)"
  by (auto simp: search_closed_def examine_def Let_def)

lemma visit_neighbors_ok:
  assumes "search_ok sha st seeds N E s" "sr_omitted s = []" "search_closed sha st {current} s" "current \<in> set (sr_visited s)"
    "set es \<subseteq> set (neighbors sha st current)" "witnessed sha st (set seeds) (current, chain)"
    "end_set sha st current \<subseteq> set (sr_visited s) \<union> ends_of sha es"
  shows "step_ok sha st seeds N E late {} (visit_neighbors sha st N E late current chain es s)"
  using assms
proof (induction es arbitrary: s)
  case Nil
  then have "search_closed sha st {} s" by (auto simp: search_closed_def ends_of_def)
  then show ?case using Nil by (simp add: step_ok_def)
next
  case (Cons e es)
  show ?case
  proof (cases "out_of_budget N E late s")
    case True
    have "search_ok sha st seeds N E (s\<lparr>sr_omitted := os, sr_queue := []\<rparr>)" for os
      using Cons.prems(1) unfolding search_ok_def by (elim conjE) simp
    moreover have "fst ` set (sr_queue s) \<subseteq> set (sr_visited s)" using Cons.prems(1) by (auto simp: search_ok_def)
    ultimately show ?thesis
      using True Cons.prems(4) by (auto simp: step_ok_def search_stopped_def out_of_budget_def)
  next
    case False
    have "end_set sha st current \<subseteq> set (sr_visited (examine sha chain e s)) \<union> ends_of sha es"
      using Cons.prems(7) examine_grows(1) [of s sha chain e] examine_grows(2) [of sha e chain s] by (auto simp: ends_of_def)
    then show ?thesis
      using Cons.IH [of "examine sha chain e s"] Cons.prems False
        examine_ok [OF Cons.prems(1) False _ Cons.prems(6)] subsetD [OF examine_grows(1) Cons.prems(4)] examine_closed [OF Cons.prems(3)]
      by (simp add: visit_neighbors_Cons examine_grows del: visit_neighbors.simps)
  qed
qed

lemma trace_loop_ok:
  "step_ok sha st seeds N E late {} s \<Longrightarrow>
     step_ok sha st seeds N E late {} (trace_loop sha st N E late s) \<and> sr_queue (trace_loop sha st N E late s) = []"
proof (induction sha st N E late s rule: trace_loop.induct)
  case (1 sha st N E late s)
  show ?case
  proof (cases "sr_queue s")
    case Nil
    then show ?thesis using 1 by (simp add: trace_loop.simps)
  next
    case (Cons p queue)
    obtain current chain where p: "p = (current, chain)" by fastforce
    let ?s = "s\<lparr>sr_queue := queue\<rparr>"
    let ?s' = "visit_neighbors sha st N E late current chain (neighbors sha st current) ?s"
    have ok: "search_ok sha st seeds N E s" and run: "sr_omitted s = []" "search_closed sha st {} s"
      using 1(2) Cons by (auto simp: step_ok_def search_stopped_def)
    have "search_ok sha st seeds N E ?s" "witnessed sha st (set seeds) (current, chain)" "current \<in> set (sr_visited s)"
      using ok Cons p unfolding search_ok_def by (elim conjE, simp)+
    moreover have "search_closed sha st {current} ?s" using run(2) Cons p by (auto simp: search_closed_def)
    ultimately have "step_ok sha st seeds N E late {} ?s'"
      using run(1) by (intro visit_neighbors_ok) (auto simp: end_set_def)
    then show ?thesis using 1(1) [OF Cons p [symmetric]] Cons p by (simp add: trace_loop.simps)
  qed
qed

lemma search_from_ok:
  "step_ok sha st seeds N E late {} (search_from sha st N E late seeds)" "sr_queue (search_from sha st N E late seeds) = []"
proof -
  let ?s = "\<lparr>sr_queue = map (\<lambda>k. (k, [])) (sorted_set seeds), sr_visited = sorted_set seeds, sr_results = [], sr_traversed = 0,
        sr_cycles = 0, sr_omitted = []\<rparr> :: trace_search"
  have "step_ok sha st seeds N E late {} ?s"
    by (auto simp: step_ok_def search_ok_def search_closed_def witnessed_def image_iff)
  then show "step_ok sha st seeds N E late {} (search_from sha st N E late seeds)" "sr_queue (search_from sha st N E late seeds) = []"
    using trace_loop_ok [of sha st seeds N E late ?s] by (simp_all add: search_from_def)
qed

text \<open>A search that leaves nothing out has found everything.\<close>

lemma search_from_covers:
  assumes "sr_omitted (search_from sha st N E late seeds) = []"
  shows "set (sr_visited (search_from sha st N E late seeds)) = {k. reachable sha st (set seeds) k}"
proof -
  let ?s = "search_from sha st N E late seeds"
  have ok: "search_ok sha st seeds N E ?s" and cl: "search_closed sha st {} ?s"
    using search_from_ok(1,2) [where sha = sha and st = st and seeds = seeds and N = N and E = E and late = late] assms by (auto simp: step_ok_def search_stopped_def)
  have v: "sr_visited ?s = sorted_set seeds @ map fst (sr_results ?s)"
    and w: "\<And>p. p \<in> set (sr_results ?s) \<Longrightarrow> witnessed sha st (set seeds) p"
    using ok by (simp_all add: search_ok_def)
  have "reachable sha st (set seeds) k" if vis: "k \<in> set (sr_visited ?s)" for k
  proof (cases "k \<in> set seeds")
    case False
    then obtain c where "(k, c) \<in> set (sr_results ?s)" using vis unfolding v by auto
    then obtain a where "a \<in> set seeds" "chain_from sha st a c k" using w by (fastforce simp: witnessed_def)
    then show ?thesis by (blast intro: reachable.seed chain_reachable)
  qed (rule reachable.seed)
  moreover have "k \<in> set (sr_visited ?s)" if "reachable sha st (set seeds) k" for k
    using that by (rule closed_reachable) (use cl search_from_ok(2) [where sha = sha and st = st and seeds = seeds and N = N and E = E and late = late] in \<open>auto simp: v search_closed_def\<close>)
  ultimately show ?thesis by blast
qed

section \<open>The state the fragments are merged into\<close>

definition trace_state_ok :: "(string \<Rightarrow> string) \<Rightarrow> trace_state \<Rightarrow> bool" where
  "trace_state_ok sha st \<longleftrightarrow>
     distinct (map fst (ts_nodes st)) \<and> (\<forall>(k, n) \<in> set (ts_nodes st). k = node_key sha n) \<and>
     distinct (map fst (ts_edges st)) \<and> (\<forall>(k, e) \<in> set (ts_edges st). k = edge_key sha e) \<and>
     (\<forall>e \<in> snd ` set (ts_edges st). node_key sha ` set (edge_ends e) \<subseteq> fst ` set (ts_nodes st))"

definition nodes_ok :: "(string \<Rightarrow> string) \<Rightarrow> (string \<times> entity_ref) list \<Rightarrow> bool" where
  "nodes_ok sha ns \<longleftrightarrow> distinct (map fst ns) \<and> (\<forall>(k, n) \<in> set ns. k = node_key sha n)"

lemma update_in: "p \<in> set (AList.update k v al) \<Longrightarrow> p = (k, v) \<or> p \<in> set al"
  by (induction al) (auto split: if_splits)

lemma put_node_ok: "nodes_ok sha ns \<Longrightarrow> nodes_ok sha (put_node sha n ns)"
  by (auto simp: nodes_ok_def put_node_def distinct_update dest!: update_in)

lemma put_nodes_ok: "nodes_ok sha ns \<Longrightarrow> nodes_ok sha (fold (put_node sha) xs ns)"
  by (induction xs arbitrary: ns) (auto simp: put_node_ok)

lemma put_nodes_keys: "fst ` set (fold (put_node sha) xs ns) = fst ` set ns \<union> node_key sha ` set xs"
proof (induction xs arbitrary: ns)
  case (Cons x xs)
  have "fst ` set (put_node sha x ns) = insert (node_key sha x) (fst ` set ns)"
    by (simp add: put_node_def dom_map_of_conv_image_fst [symmetric] update_conv')
  then show ?case using Cons.IH [of "put_node sha x ns"] by auto
qed simp

lemma trace_state_ok_iff:
  "trace_state_ok sha st \<longleftrightarrow> nodes_ok sha (ts_nodes st) \<and> distinct (map fst (ts_edges st)) \<and>
     (\<forall>(k, e) \<in> set (ts_edges st). k = edge_key sha e \<and> node_key sha ` set (edge_ends e) \<subseteq> fst ` set (ts_nodes st))"
  by (fastforce simp: trace_state_ok_def nodes_ok_def)

lemma merge_edge_ok:
  assumes "trace_state_ok sha st"
  shows "trace_state_ok sha (merge_edge sha lk f e st)"
proof -
  let ?e = "merged_edge lk f e"
  have "nodes_ok sha (ts_nodes (merge_edge sha lk f e st))"
    using assms by (simp add: merge_edge_def Let_def trace_state_ok_iff put_nodes_ok)
  moreover have "k = edge_key sha e' \<and> node_key sha ` set (edge_ends e') \<subseteq> fst ` set (ts_nodes (merge_edge sha lk f e st))"
    if "(k, e') \<in> set (ts_edges (merge_edge sha lk f e st))" for k e'
  proof -
    have "(k, e') = (edge_key sha ?e, ?e) \<or> (k, e') \<in> set (ts_edges st)"
      using that by (auto simp: merge_edge_def Let_def dest: update_in)
    then show ?thesis
    proof
      assume "(k, e') = (edge_key sha ?e, ?e)"
      then show ?thesis by (simp add: merge_edge_def Let_def put_nodes_keys)
    next
      assume "(k, e') \<in> set (ts_edges st)"
      then have "k = edge_key sha e' \<and> node_key sha ` set (edge_ends e') \<subseteq> fst ` set (ts_nodes st)"
        using assms unfolding trace_state_ok_iff by blast
      then show ?thesis by (auto simp: merge_edge_def Let_def put_nodes_keys)
    qed
  qed
  moreover have "distinct (map fst (ts_edges (merge_edge sha lk f e st)))"
    using assms by (simp add: trace_state_ok_def merge_edge_def Let_def distinct_update)
  ultimately show ?thesis unfolding trace_state_ok_iff by blast
qed

lemma merge_fragment_ok: "trace_state_ok sha st \<Longrightarrow> trace_state_ok sha (merge_fragment sha lk p st)"
proof -
  assume ok: "trace_state_ok sha st"
  obtain o' f where p: "p = (o', f)" by fastforce
  have "trace_state_ok sha (fold (merge_edge sha lk f) es st)" if "trace_state_ok sha st" for es st
    using that by (induction es arbitrary: st) (auto simp: merge_edge_ok)
  moreover have "trace_state_ok sha (st\<lparr>ts_providers := ps, ts_nodes := fold (put_node sha) ns (ts_nodes st)\<rparr>)" for ps ns
    using ok by (fastforce simp: trace_state_ok_iff put_nodes_ok put_nodes_keys)
  ultimately show ?thesis by (simp add: merge_fragment_def p)
qed

lemma merge_fragments_ok: "trace_state_ok sha (merge_fragments sha observations fragments unknown watcher_lost)"
proof -
  have "trace_state_ok sha (fold (merge_fragment sha lk) fs st)" if "trace_state_ok sha st" for lk fs st
    using that by (induction fs arbitrary: st) (auto simp: merge_fragment_ok)
  moreover have "trace_state_ok sha \<lparr>ts_generation = [], ts_nodes = [], ts_edges = [], ts_providers = [], ts_unknown = unknown, ts_lookup = lk\<rparr>"
    for lk by (simp add: trace_state_ok_def)
  ultimately have "trace_state_ok sha (fold (merge_fragment sha lk) fragments
      \<lparr>ts_generation = [], ts_nodes = [], ts_edges = [], ts_providers = [], ts_unknown = unknown, ts_lookup = lk\<rparr>)" for lk by blast
  then show ?thesis by (simp add: merge_fragments_def Let_def trace_state_ok_def)
qed

section \<open>The answer\<close>

lemma node_at_Some: "node_at st k = Inr n \<longleftrightarrow> map_of (ts_nodes st) k = Some n"
  by (auto simp: node_at_def split: option.splits)

lemma node_at_iff: "trace_state_ok sha st \<Longrightarrow> node_at st k = Inr n \<longleftrightarrow> (k, n) \<in> set (ts_nodes st)"
  by (simp add: node_at_Some trace_state_ok_def)

lemma node_at_key: "trace_state_ok sha st \<Longrightarrow> node_at st k = Inr n \<Longrightarrow> node_key sha n = k"
  by (auto simp: node_at_iff trace_state_ok_def)

lemma node_at_known: "k \<in> fst ` set (ts_nodes st) \<Longrightarrow> \<exists>n. node_at st k = Inr n"
  using map_of_eq_None_iff [of "ts_nodes st" k] by (auto simp: node_at_Some)

lemma end_known: "trace_state_ok sha st \<Longrightarrow> e \<in> set (neighbors sha st k) \<Longrightarrow> trace_end sha e \<in> fst ` set (ts_nodes st)"
  unfolding trace_state_ok_def by (auto simp: in_neighbors trace_end_def edge_ends_def)

lemma resolve_target_cases:
  assumes "resolve_target st project v acc = Inr acc'"
  shows "(\<exists>matches. set matches \<subseteq> set (ts_nodes st) \<and> acc' = (fst acc @ map fst matches, snd acc)) \<or>
     (\<exists>u. acc' = (fst acc, snd acc @ [u]))"
proof -
  obtain d matches where m: "filterR (target_matches st project d) (ts_nodes st) = Inr matches"
    and a: "acc' = (fst acc @ map fst matches, snd acc) \<or> acc' = (fst acc, snd acc @ [unknown_target d (length matches)])"
    using assms unfolding resolve_target_def bindR_eq_Inr
    by (cases acc, simp only: prod.case bindR_eq_Inr, elim exE conjE) (auto split: if_splits)
  from filterR_subset [OF m] a show ?thesis by blast
qed

lemma resolve_target_known:
  assumes "resolve_target st project v acc = Inr acc'" "set (fst acc) \<subseteq> fst ` set (ts_nodes st)"
  shows "set (fst acc') \<subseteq> fst ` set (ts_nodes st)"
  using resolve_target_cases [OF assms(1)] assms(2) by (elim disjE exE conjE) (simp_all add: image_mono)

lemma resolve_targets_known:
  "foldR (resolve_target st project) vs acc = Inr acc' \<Longrightarrow> set (fst acc) \<subseteq> fst ` set (ts_nodes st) \<Longrightarrow>
     set (fst acc') \<subseteq> fst ` set (ts_nodes st)"
proof (induction vs arbitrary: acc)
  case (Cons v vs)
  then obtain acc1 where "resolve_target st project v acc = Inr acc1" "foldR (resolve_target st project) vs acc1 = Inr acc'"
    by (auto simp: bindR_eq_Inr)
  then show ?case using Cons.IH Cons.prems(2) resolve_target_known by blast
qed simp

lemma resolve_target_unknown: "resolve_target st project v acc = Inr acc' \<Longrightarrow> set (snd acc) \<subseteq> set (snd acc')"
  by (drule resolve_target_cases) auto

lemma resolve_targets_unknown: "foldR (resolve_target st project) vs acc = Inr acc' \<Longrightarrow> set (snd acc) \<subseteq> set (snd acc')"
proof (induction vs arbitrary: acc)
  case (Cons v vs)
  then obtain acc1 where "resolve_target st project v acc = Inr acc1" "foldR (resolve_target st project) vs acc1 = Inr acc'"
    by (auto simp: bindR_eq_Inr)
  then show ?case using Cons.IH resolve_target_unknown by blast
qed simp

text \<open>What an answer is made of.\<close>

lemma trace_Traced:
  assumes "trace sha th generations st rq = Inr (Traced a)"
  obtains found seeds dependencies leftover where
    "foldR (resolve_target st (rq_project rq)) (rq_targets rq) ([], ts_unknown st) = Inr found"
    "mapR (node_at st) (fst found) = Inr seeds"
    "mapR (dependency_of sha th st rq)
       (sr_results (search_from sha st (nat (rq_max_nodes rq)) (nat (rq_max_edges rq)) (th_late th) (fst found))) = Inr dependencies"
    "mapR (\<lambda>p. bindR (node_at st (fst p)) (\<lambda>n. Inr (n, snd p)))
       (sr_omitted (search_from sha st (nat (rq_max_nodes rq)) (nat (rq_max_edges rq)) (th_late th) (fst found))) = Inr leftover"
    "a = answer_of sha th generations st rq (snd found @ map blocked_pv (blocked_edges st))
       (search_from sha st (nat (rq_max_nodes rq)) (nat (rq_max_edges rq)) (th_late th) (fst found)) seeds dependencies leftover"
proof -
  obtain found where f: "foldR (resolve_target st (rq_project rq)) (rq_targets rq) ([], ts_unknown st) = Inr found"
    and t: "trace_from sha th generations st rq found = Inr (Traced a)"
    using assms unfolding trace_def by (auto simp: bindR_eq_Inr split: if_splits)
  show ?thesis
    using t f that unfolding trace_from_def Let_def bindR_eq_Inr by (elim exE conjE) simp
qed

lemma mapR_node_at:
  assumes "trace_state_ok sha st" "mapR (node_at st) ks = Inr ns"
  shows "map (node_key sha) ns = ks"
  using assms(2) by (induction ks arbitrary: ns) (auto simp: bindR_eq_Inr dest: node_at_key [OF assms(1)])

lemma dependency_of_node:
  assumes "trace_state_ok sha st" "dependency_of sha th st rq p = Inr d"
  shows "(node_key sha (dp_node d), dp_chain d) = p"
proof -
  obtain n where "node_at st (fst p) = Inr n" "dp_node d = n" "dp_chain d = snd p"
    using assms(2) by (auto simp: dependency_of_def bindR_eq_Inr)
  then show ?thesis using node_at_key [OF assms(1)] by (simp add: prod_eq_iff)
qed

lemma mapR_dependencies:
  assumes "trace_state_ok sha st" "mapR (dependency_of sha th st rq) ps = Inr ds"
  shows "map (\<lambda>d. (node_key sha (dp_node d), dp_chain d)) ds = ps"
  using assms(2)
proof (induction ps arbitrary: ds)
  case (Cons p ps)
  then obtain d ds' where "dependency_of sha th st rq p = Inr d" "mapR (dependency_of sha th st rq) ps = Inr ds'" "ds = d # ds'"
    by (auto simp: bindR_eq_Inr)
  then show ?case using Cons.IH dependency_of_node [OF assms(1)] by simp
qed simp

text \<open>The search behind an answer, in the answer's terms.\<close>

lemma trace_answer_search:
  assumes "trace_state_ok sha st" "trace sha th generations st rq = Inr (Traced a)"
  obtains found s where
    "foldR (resolve_target st (rq_project rq)) (rq_targets rq) ([], ts_unknown st) = Inr found"
    "s = search_from sha st (nat (rq_max_nodes rq)) (nat (rq_max_edges rq)) (th_late th) (fst found)"
    "map (node_key sha) (ta_seeds a) = fst found"
    "map (\<lambda>d. (node_key sha (dp_node d), dp_chain d)) (ta_dependencies a) = sr_results s"
    "ta_examined a = sr_traversed s" "ta_omitted a = [] \<longleftrightarrow> sr_omitted s = []"
    "ta_unknown a = snd found @ map blocked_pv (blocked_edges st)"
    "ta_complete a \<longleftrightarrow> ta_unknown a = [] \<and> ta_omitted a = [] \<and> list_all provider_ok (ts_providers st)"
proof (rule trace_Traced [OF assms(2)])
  fix found :: "string list \<times> pv list" and seeds dependencies leftover
  let ?s = "search_from sha st (nat (rq_max_nodes rq)) (nat (rq_max_edges rq)) (th_late th) (fst found)"
  assume f: "foldR (resolve_target st (rq_project rq)) (rq_targets rq) ([], ts_unknown st) = Inr found"
    and m: "mapR (node_at st) (fst found) = Inr seeds" "mapR (dependency_of sha th st rq) (sr_results ?s) = Inr dependencies"
    and l: "mapR (\<lambda>p. bindR (node_at st (fst p)) (\<lambda>n. Inr (n, snd p))) (sr_omitted ?s) = Inr leftover"
    and a: "a = answer_of sha th generations st rq (snd found @ map blocked_pv (blocked_edges st)) ?s seeds dependencies leftover"
  have "leftover = [] \<longleftrightarrow> sr_omitted ?s = []" using l by (cases "sr_omitted ?s") (auto simp: bindR_eq_Inr)
  then show ?thesis
    using that [OF f refl] mapR_node_at [OF assms(1) m(1)] mapR_dependencies [OF assms(1) m(2)] a
    by (simp add: answer_of_def Let_def)
qed

lemma search_results:
  assumes "s = search_from sha st N E late seeds"
  shows "length (sr_results s) \<le> N" "sr_traversed s \<le> E" "distinct (map fst (sr_results s))"
    "p \<in> set (sr_results s) \<Longrightarrow> snd p \<noteq> [] \<and> fst p \<notin> set seeds \<and> witnessed sha st (set seeds) p"
    "sr_omitted s = [] \<Longrightarrow> set seeds \<union> fst ` set (sr_results s) = {k. reachable sha st (set seeds) k}"
    "fst ` set (sr_omitted s) \<subseteq> set seeds \<union> fst ` set (sr_results s)"
proof -
  have st: "step_ok sha st seeds N E late {} s" using search_from_ok(1) assms by simp
  then have ok: "search_ok sha st seeds N E s" by (simp add: step_ok_def)
  then have v: "sr_visited s = sorted_set seeds @ map fst (sr_results s)" and d: "distinct (sr_visited s)"
    unfolding search_ok_def by blast+
  show "length (sr_results s) \<le> N" "sr_traversed s \<le> E" using ok unfolding search_ok_def by blast+
  show "distinct (map fst (sr_results s))" using d unfolding v by simp
  have q: "witnessed sha st (set seeds) p \<and> snd p \<noteq> []" if "p \<in> set (sr_results s)"
    using ok that unfolding search_ok_def by blast
  show "snd p \<noteq> [] \<and> fst p \<notin> set seeds \<and> witnessed sha st (set seeds) p" if "p \<in> set (sr_results s)"
    using q [OF that] that d unfolding v by auto
  show "set seeds \<union> fst ` set (sr_results s) = {k. reachable sha st (set seeds) k}" if "sr_omitted s = []"
    using search_from_covers [of sha st N E late seeds] that v by (simp add: assms [symmetric])
  show "fst ` set (sr_omitted s) \<subseteq> set seeds \<union> fst ` set (sr_results s)"
    using st v by (auto simp: step_ok_def search_stopped_def)
qed

text \<open>The ends of a witness chain are entities of the generation.\<close>

lemma chain_known: "trace_state_ok sha st \<Longrightarrow> chain_from sha st a c k \<Longrightarrow> c \<noteq> [] \<Longrightarrow> k \<in> fst ` set (ts_nodes st)"
proof (induction c arbitrary: a)
  case (Cons e c)
  then show ?case by (cases c) (auto dest: end_known)
qed simp

section \<open>Generations and foreign edges\<close>

lemma drop_oldest_few: "length xs \<le> 8 \<Longrightarrow> drop_oldest xs = xs"
  by (induction xs) auto

lemma update_fresh: "k \<notin> fst ` set al \<Longrightarrow> AList.update k v al = al @ [(k, v)]"
  by (induction al) auto

lemma update_known: "k \<in> fst ` set al \<Longrightarrow> length (AList.update k v al) = length al"
  by (induction al) auto

text \<open>
  However many traces have run, at most eight generations are kept, and the one just traced is among them.
\<close>

theorem generations_bounded:
  assumes "distinct (map fst generations)" "length generations \<le> 8"
  shows "distinct (map fst (retain st generations)) \<and> length (retain st generations) \<le> 8 \<and>
    map_of (retain st generations) (ts_generation st) = Some st"
proof (cases "ts_generation st \<in> fst ` set generations \<or> length generations < 8")
  case True
  then have "length (AList.update (ts_generation st) st generations) \<le> 8"
    using assms(2) by (cases "ts_generation st \<in> fst ` set generations") (simp_all add: update_known update_fresh)
  then show ?thesis using assms(1) by (simp add: retain_def drop_oldest_few distinct_update update_conv')
next
  case False
  then obtain p ps where g: "generations = p # ps" "length ps = 7" using assms(2) by (cases generations) auto
  then have "retain st generations = ps @ [(ts_generation st, st)]"
    using False g update_fresh [of "ts_generation st" generations st] by (simp add: retain_def drop_oldest_few)
  moreover have "map_of ps (ts_generation st) = None" using False g by (auto simp: map_of_eq_None_iff)
  ultimately show ?thesis using False assms(1) g by (simp add: map_add_def)
qed

text \<open>
  An edge of a generation that has an end in no observed repository is stale, and so is never followed, whatever its
  provider says of it; it is not called unresolved.
\<close>

lemma obs_lookup_known: "obs_of (obs_lookup observations) n = Some o' \<Longrightarrow>
    \<exists>o'' \<in> set observations. ob_uuid o'' = er_uuid n \<and> ob_repository o'' = er_repository n"
proof -
  have "map_of (fold (\<lambda>o'. AList.update (ob_uuid o', ob_repository o') o') os al) k = Some x \<Longrightarrow>
      map_of al k = Some x \<or> (\<exists>o'' \<in> set os. (ob_uuid o'', ob_repository o'') = k)" for os al k and x :: trace_obs
  proof (induction os arbitrary: al)
    case (Cons y os)
    then show ?case using Cons.IH [of "AList.update (ob_uuid y, ob_repository y) y al"] by (auto simp: update_conv' split: if_splits)
  qed simp
  from this [of observations "[]" "(er_uuid n, er_repository n)" o']
  show "obs_of (obs_lookup observations) n = Some o' \<Longrightarrow> ?thesis" by (auto simp: obs_of_def obs_lookup_def)
qed

definition foreign_stale :: "lookup \<Rightarrow> trace_state \<Rightarrow> bool" where
  "foreign_stale lk st \<longleftrightarrow> (\<forall>e \<in> snd ` set (ts_edges st). foreign_edge lk e \<longrightarrow> ie_resolution e = ''stale'')"

lemma merged_edge_stale: "foreign_edge lk e \<Longrightarrow> ie_resolution (merged_edge lk f e) = ''stale''"
  by (auto simp: merged_edge_def Let_def foreign_edge_def stale_edge_def list_ex_iff intro!: bexI)

lemma merged_edge_ends: "edge_ends (merged_edge lk f e) = edge_ends e"
  by (simp add: merged_edge_def Let_def edge_ends_def)

lemma merge_edge_foreign:
  assumes "foreign_stale lk st"
  shows "foreign_stale lk (merge_edge sha lk f e st)"
proof -
  let ?e = "merged_edge lk f e"
  have "ie_resolution e' = ''stale''"
    if "(k, e') \<in> set (ts_edges (merge_edge sha lk f e st))" "foreign_edge lk e'" for k e'
  proof -
    have "e' = ?e \<or> (k, e') \<in> set (ts_edges st)" using that by (auto simp: merge_edge_def Let_def dest: update_in)
    then show ?thesis
    proof
      assume e': "e' = ?e"
      then have "foreign_edge lk e" using that(2) by (simp add: foreign_edge_def merged_edge_ends)
      then show ?thesis unfolding e' by (rule merged_edge_stale)
    next
      assume "(k, e') \<in> set (ts_edges st)"
      then show ?thesis using assms that(2) unfolding foreign_stale_def by force
    qed
  qed
  then show ?thesis unfolding foreign_stale_def by auto
qed

lemma merge_fragment_foreign: "foreign_stale lk st \<Longrightarrow> foreign_stale lk (merge_fragment sha lk p st)"
proof -
  assume ok: "foreign_stale lk st"
  have "foreign_stale lk (fold (merge_edge sha lk f) es st)" if "foreign_stale lk st" for f es st
    using that by (induction es arbitrary: st) (auto simp: merge_edge_foreign)
  moreover have "foreign_stale lk (st\<lparr>ts_providers := ps, ts_nodes := ns\<rparr>)" for ps ns using ok by (simp add: foreign_stale_def)
  ultimately show ?thesis by (cases p) (simp add: merge_fragment_def)
qed

theorem foreign_edges_stale:
  assumes "e \<in> snd ` set (ts_edges (merge_fragments sha observations fragments unknown watcher_lost))" "n \<in> set (edge_ends e)"
    and "\<And>o'. o' \<in> set observations \<Longrightarrow> (ob_uuid o', ob_repository o') \<noteq> (er_uuid n, er_repository n)"
  shows "ie_resolution e = ''stale'' \<and> \<not> traversable e"
proof -
  let ?lk = "obs_lookup observations"
  have "foreign_stale ?lk (fold (merge_fragment sha ?lk) fs st)" if "foreign_stale ?lk st" for fs st
    using that by (induction fs arbitrary: st) (auto simp: merge_fragment_foreign)
  moreover have "foreign_stale ?lk \<lparr>ts_generation = [], ts_nodes = [], ts_edges = [], ts_providers = [], ts_unknown = unknown,
      ts_lookup = ?lk\<rparr>" by (simp add: foreign_stale_def)
  ultimately have "foreign_stale ?lk (fold (merge_fragment sha ?lk) fragments \<lparr>ts_generation = [], ts_nodes = [], ts_edges = [],
      ts_providers = [], ts_unknown = unknown, ts_lookup = ?lk\<rparr>)" by blast
  then have "foreign_stale ?lk (merge_fragments sha observations fragments unknown watcher_lost)"
    by (simp add: merge_fragments_def Let_def foreign_stale_def [of ?lk])
  moreover have "obs_of ?lk n = None" using obs_lookup_known [of observations n] assms(3) by (cases "obs_of ?lk n") auto
  ultimately show ?thesis using assms(1,2) by (auto simp: foreign_stale_def foreign_edge_def list_ex_iff traversable_def)
qed

end
