(* ===== verification/TraceTasks.thy ===== *)
theory TraceTasks
  imports TraceProps GraphInv
begin

text \<open>
  The graph of the project's tasks as a provider of the impact trace, the generation that answers a request about tasks
  alone, and the call of the service that chooses between it and the full build (\<^verbatim>\<open>_todo\<close>, \<^verbatim>\<open>_task_impact_state\<close>
  and \<^verbatim>\<open>__call__\<close> of \<^verbatim>\<open>src/src/project_control/as1_trace.py\<close>).  The repository the tasks are read in is given by its
  observation.
\<close>

section \<open>The task graph as a fragment\<close>

definition checked_path :: "pv \<Rightarrow> string option result" where
  "checked_path v =
     (case v of
        PNone \<Rightarrow> Inr None
      | PStr s \<Rightarrow> bindR (relative_path s) (\<lambda>p. Inr (Some p))
      | _ \<Rightarrow> if truthy v then Inl (AttributeError ''startswith'')
             else Inl (ValueError ''source path must be relative without traversal''))"

definition obs_node :: "trace_obs \<Rightarrow> string \<Rightarrow> string \<Rightarrow> pv \<Rightarrow> entity_ref result" where
  "obs_node o' kind ident path =
     bindR (checked_path path) (\<lambda>p.
     Inr \<lparr>er_uuid = ob_uuid o', er_repository = ob_repository o', er_kind = kind, er_id = ident, er_path = p\<rparr>)"

definition todo_node :: "trace_obs \<Rightarrow> string \<times> entity \<Rightarrow> (string \<times> entity_ref) result" where
  "todo_node o' p =
     bindR (obs_node o' (en_type (snd p)) (en_id (snd p))
       (if en_type (snd p) = ''path'' then dget (en_record (snd p)) ''path'' else PNone)) (\<lambda>n. Inr (fst p, n))"

definition lookup_node :: "(string \<times> entity_ref) list \<Rightarrow> string \<Rightarrow> entity_ref result" where
  "lookup_node ns k = (case map_of ns k of None \<Rightarrow> Inl (KeyError k) | Some n \<Rightarrow> Inr n)"

definition revision_pv :: "int option \<Rightarrow> pv" where
  "revision_pv r = (case r of None \<Rightarrow> PNone | Some n \<Rightarrow> PInt n)"

definition todo_edge ::
  "(string \<times> entity_ref) list \<Rightarrow> int option \<Rightarrow> string \<Rightarrow> provider_input list \<Rightarrow> graph_edge \<Rightarrow> impact_edge result" where
  "todo_edge ns revision generation inputs e =
     bindR (lookup_node ns (ed_source e)) (\<lambda>source.
     bindR (lookup_node ns (ed_target e)) (\<lambda>target.
     Inr \<lparr>ie_source = source, ie_target = target, ie_relation = ed_relation e, ie_origin = ''project_declared'',
          ie_provider = ''todo/1'', ie_generation = generation, ie_inputs = inputs, ie_resolution = ''resolved'',
          ie_witness = Some (PDict [(''basis'', PStr (ed_basis e)), (''revision'', revision_pv revision)]),
          ie_conditions = None\<rparr>))"

definition graph_edge_pv :: "graph_edge \<Rightarrow> pv" where
  "graph_edge_pv e = PDict
     [(''source'', PStr (ed_source e)), (''target'', PStr (ed_target e)), (''relation'', PStr (ed_relation e)),
      (''basis'', PStr (ed_basis e)), (''confidence'', PStr (ed_confidence e))]"

definition todo_fragment ::
  "(string \<Rightarrow> string) \<Rightarrow> trace_obs \<Rightarrow> int option \<Rightarrow> graph \<Rightarrow> provider_fragment result" where
  "todo_fragment sha o' revision g =
     (let inputs = [\<lparr>in_kind = ''semantic_revision'', in_key = ob_project o', in_digest = trace_digest sha (revision_pv revision)\<rparr>];
          generation = trace_digest sha (PList [PList (map input_pv inputs), PList (map graph_edge_pv (g_edges g))]) in
      bindR (mapR (todo_node o') (g_entities g)) (\<lambda>ns.
      bindR (mapR (todo_edge ns revision generation inputs) (g_edges g)) (\<lambda>es.
      Inr \<lparr>pf_provider = ''todo/1'', pf_generation = generation, pf_inputs = inputs, pf_edges = es, pf_nodes = map snd ns,
           pf_relations = sorted_set (map ie_relation es), pf_complete = True, pf_freshness = ''current'',
           pf_gaps = [''workflow_declarations_do_not_prove_source_calls'']\<rparr>)))"

section \<open>The generation of a request about tasks\<close>

definition impact_coverage :: "trace_obs \<Rightarrow> provider_fragment \<Rightarrow> coverage_row" where
  "impact_coverage o' f =
     \<lparr>cv_project = ob_project o', cv_uuid = ob_uuid o', cv_repository = ob_repository o', cv_provider = pf_provider f,
      cv_generation = pf_generation f, cv_relations = pf_relations f, cv_complete = pf_complete f,
      cv_freshness = pf_freshness f, cv_inputs = pf_inputs f, cv_gaps = pf_gaps f\<rparr>"

definition not_observed :: "trace_obs \<Rightarrow> string \<Rightarrow> pv" where
  "not_observed o' reason = PDict [(''project'', PStr (ob_project o')), (''reason'', PStr reason)]"

definition put_edge :: "(string \<Rightarrow> string) \<Rightarrow> impact_edge \<Rightarrow> (string \<times> impact_edge) list \<Rightarrow> (string \<times> impact_edge) list" where
  "put_edge sha e = AList.update (edge_key sha e) e"

definition impact_state_of :: "(string \<Rightarrow> string) \<Rightarrow> trace_obs \<Rightarrow> int option \<Rightarrow> provider_fragment \<Rightarrow> trace_state" where
  "impact_state_of sha o' revision f =
     (let nodes = fold (put_node sha) (pf_nodes f) []; edges = fold (put_edge sha) (pf_edges f) [];
          provider = impact_coverage o' f in
      \<lparr>ts_generation = trace_digest sha (PDict
         [(''project_uuid'', PStr (ob_uuid o')), (''todo_revision'', revision_pv revision),
          (''nodes'', PDict (map (\<lambda>p. (fst p, entity_pv (snd p))) nodes)),
          (''edges'', PDict (map (\<lambda>p. (fst p, impact_edge_pv (snd p))) edges)), (''coverage'', PList [coverage_pv provider])]),
       ts_nodes = nodes, ts_edges = edges, ts_providers = [provider],
       ts_unknown = [not_observed o' ''task_impact_source_relationships_not_observed'',
                     not_observed o' ''task_impact_cross_project_declarations_not_observed''],
       ts_lookup = [((ob_uuid o', ob_repository o'), o')]\<rparr>)"

definition task_impact_state :: "(string \<Rightarrow> string) \<Rightarrow> trace_obs \<Rightarrow> int option \<Rightarrow> graph \<Rightarrow> trace_state result" where
  "task_impact_state sha o' revision g =
     bindR (todo_fragment sha o' revision g) (\<lambda>f. Inr (impact_state_of sha o' revision f))"

section \<open>The call\<close>

definition task_target :: "string \<Rightarrow> pv \<Rightarrow> bool" where
  "task_target project v =
     (case v of
        PDict d \<Rightarrow>
          dget d ''kind'' = PStr ''task'' \<and> is_str (dget d ''id'') \<and> dget_or d ''project'' (PStr project) = PStr project \<and>
          set (keys d) \<subseteq> {''project'', ''repository'', ''kind'', ''id''}
      | _ \<Rightarrow> False)"

definition exact_task_targets :: "bool \<Rightarrow> bool \<Rightarrow> trace_request \<Rightarrow> bool" where
  "exact_task_targets installed watcher_lost rq \<longleftrightarrow>
     \<not> installed \<and> \<not> watcher_lost \<and> rq_since rq \<in> {None, Some []} \<and> rq_cursor rq \<in> {None, Some []} \<and>
     rq_query rq \<in> {None, Some []} \<and> list_all (task_target (rq_project rq)) (rq_targets rq)"

text \<open>
  \<open>impact\<close> is the state \<^verbatim>\<open>_task_impact_state\<close> gives, \<open>built\<close> the one \<^verbatim>\<open>_build\<close> merges and keeps; the answer is
  the one before \<^verbatim>\<open>_bound_result\<close>.
\<close>

definition trace_call ::
  "(string \<Rightarrow> string) \<Rightarrow> trace_host \<Rightarrow> bool \<Rightarrow> bool \<Rightarrow> trace_state result \<Rightarrow> trace_state \<Rightarrow> trace_request \<Rightarrow>
   (string \<times> trace_state) list \<Rightarrow> trace_reply result \<times> (string \<times> trace_state) list" where
  "trace_call sha th installed watcher_lost impact built rq generations =
     (case check_trace th rq of
        Inl e \<Rightarrow> (Inl e, generations)
      | Inr _ \<Rightarrow>
          if exact_task_targets installed watcher_lost rq
          then (bindR impact (\<lambda>st. trace sha th generations st rq), generations)
          else (trace sha th (retain built generations) built rq, retain built generations))"

section \<open>The states traces run on\<close>

inductive built_state :: "(string \<Rightarrow> string) \<Rightarrow> trace_state \<Rightarrow> bool" for sha where
  merged: "built_state sha (merge_fragments sha observations fragments unknown watcher_lost)"
| impact: "task_impact_state sha o' revision g = Inr st \<Longrightarrow> built_state sha st"

lemma lookup_node_in: "lookup_node ns k = Inr n \<Longrightarrow> (k, n) \<in> set ns"
  by (auto simp: lookup_node_def split: option.splits dest: map_of_SomeD)

lemma todo_edge_nodes: "todo_edge ns revision gen inputs e = Inr ie \<Longrightarrow> set (edge_ends ie) \<subseteq> snd ` set ns"
  by (auto simp: todo_edge_def bindR_eq_Inr edge_ends_def dest!: lookup_node_in) (force simp: image_iff)+

lemma put_edges_in: "p \<in> set (fold (put_edge sha) es al) \<Longrightarrow> p \<in> set al \<or> snd p \<in> set es \<and> fst p = edge_key sha (snd p)"
proof (induction es arbitrary: al)
  case (Cons e es)
  have "p \<in> set al \<or> p = (edge_key sha e, e)" if "p \<in> set (put_edge sha e al)"
    using update_in [OF that [unfolded put_edge_def]] by blast
  then show ?case using Cons.IH [of "put_edge sha e al"] Cons.prems by auto
qed simp

lemma put_edges_distinct: "distinct (map fst al) \<Longrightarrow> distinct (map fst (fold (put_edge sha) es al))"
  by (induction es arbitrary: al) (auto simp: put_edge_def distinct_update)

lemma impact_state_fields:
  assumes "task_impact_state sha o' revision g = Inr st"
  obtains ns es gen inputs where "mapR (todo_node o') (g_entities g) = Inr ns"
    "mapR (todo_edge ns revision gen inputs) (g_edges g) = Inr es" "ts_nodes st = fold (put_node sha) (map snd ns) []"
    "ts_edges st = fold (put_edge sha) es []" "ts_unknown st \<noteq> []"
  using assms unfolding task_impact_state_def todo_fragment_def Let_def bindR_eq_Inr
  by (elim exE conjE) (auto simp: impact_state_of_def Let_def)

lemma impact_state_ok: "task_impact_state sha o' revision g = Inr st \<Longrightarrow> trace_state_ok sha st"
proof (erule impact_state_fields)
  fix ns es gen inputs
  assume es: "mapR (todo_edge ns revision gen inputs) (g_edges g) = Inr es"
    and st: "ts_nodes st = fold (put_node sha) (map snd ns) []" "ts_edges st = fold (put_edge sha) es []"
  have "set (edge_ends e) \<subseteq> set (map snd ns)" if "e \<in> set es" for e
    using mapR_member [OF es that] todo_edge_nodes by fastforce
  then have "k = edge_key sha e \<and> node_key sha ` set (edge_ends e) \<subseteq> fst ` set (ts_nodes st)"
    if "(k, e) \<in> set (ts_edges st)" for k e
    using put_edges_in [OF that [unfolded st]] unfolding st put_nodes_keys by (auto simp del: set_map intro!: imageI)
  moreover have "nodes_ok sha (ts_nodes st)" unfolding st by (rule put_nodes_ok) (simp add: nodes_ok_def)
  moreover have "distinct (map fst (ts_edges st))" unfolding st by (rule put_edges_distinct) simp
  ultimately show ?thesis unfolding trace_state_ok_iff by blast
qed

lemma built_state_ok: "built_state sha st \<Longrightarrow> trace_state_ok sha st"
  by (induction rule: built_state.induct) (simp_all add: merge_fragments_ok impact_state_ok)

end
