(* ===== verification/TraceAnswers.thy ===== *)
theory TraceAnswers
  imports TraceTasks
begin

text \<open>
  What the answers of the impact trace guarantee, on the generations the service builds: every dependency reported is
  reached along its witness chain and within the budgets, an answer that left nothing out has everything, and a trace of a
  request about tasks alone stays on the relations the project declared.
\<close>

definition seed_keys :: "(string \<Rightarrow> string) \<Rightarrow> trace_answer \<Rightarrow> string set" where
  "seed_keys sha a = node_key sha ` set (ta_seeds a)"

definition dependency_key :: "(string \<Rightarrow> string) \<Rightarrow> dependency \<Rightarrow> string" where
  "dependency_key sha d = node_key sha (dp_node d)"

lemma trace_witnessed_ok:
  assumes ok: "trace_state_ok sha st"
    and "trace sha th generations st rq = Inr (Traced a)"
  shows "length (ta_dependencies a) \<le> nat (rq_max_nodes rq) \<and> ta_examined a \<le> nat (rq_max_edges rq) \<and>
    distinct (map (dependency_key sha) (ta_dependencies a)) \<and>
    (\<forall>d \<in> set (ta_dependencies a).
       dependency_key sha d \<notin> seed_keys sha a \<and> dp_chain d \<noteq> [] \<and>
       (\<exists>k \<in> seed_keys sha a. chain_from sha st k (dp_chain d) (dependency_key sha d)))"
proof -
  show ?thesis
  proof (rule trace_answer_search [OF ok assms(2)])
    fix found :: "string list \<times> pv list" and s
    assume s: "s = search_from sha st (nat (rq_max_nodes rq)) (nat (rq_max_edges rq)) (th_late th) (fst found)"
      and seeds: "map (node_key sha) (ta_seeds a) = fst found"
      and deps: "map (\<lambda>d. (node_key sha (dp_node d), dp_chain d)) (ta_dependencies a) = sr_results s"
      and ex: "ta_examined a = sr_traversed s"
    note r = search_results [OF s]
    have k: "seed_keys sha a = set (fst found)" unfolding seed_keys_def seeds [symmetric] by simp
    have "length (ta_dependencies a) \<le> nat (rq_max_nodes rq)" using r(1) unfolding deps [symmetric] by simp
    moreover have "distinct (map (dependency_key sha) (ta_dependencies a))"
      using r(3) unfolding deps [symmetric] by (simp add: comp_def dependency_key_def [abs_def])
    moreover have "dependency_key sha d \<notin> seed_keys sha a \<and> dp_chain d \<noteq> [] \<and>
       (\<exists>k \<in> seed_keys sha a. chain_from sha st k (dp_chain d) (dependency_key sha d))" if "d \<in> set (ta_dependencies a)" for d
    proof -
      have "(dependency_key sha d, dp_chain d) \<in> set (sr_results s)"
        using that unfolding deps [symmetric] dependency_key_def by auto
      from r(4) [OF this] show ?thesis by (simp add: k witnessed_def)
    qed
    ultimately show ?thesis using r(2) ex by simp
  qed
qed

lemma trace_covers_ok:
  assumes ok: "trace_state_ok sha st"
    and "trace sha th generations st rq = Inr (Traced a)"
  shows "(ta_omitted a = [] \<longrightarrow>
      seed_keys sha a \<union> dependency_key sha ` set (ta_dependencies a) = {k. reachable sha st (seed_keys sha a) k}) \<and>
    (ta_complete a \<longrightarrow> ta_omitted a = [] \<and> list_all provider_ok (ts_providers st) \<and> ts_unknown st = [] \<and>
      (\<forall>e \<in> snd ` set (ts_edges st). propagates e \<longrightarrow> ie_resolution e = ''resolved''))"
proof -
  show ?thesis
  proof (rule trace_answer_search [OF ok assms(2)])
    fix found :: "string list \<times> pv list" and s
    assume f: "foldR (resolve_target st (rq_project rq)) (rq_targets rq) ([], ts_unknown st) = Inr found"
      and s: "s = search_from sha st (nat (rq_max_nodes rq)) (nat (rq_max_edges rq)) (th_late th) (fst found)"
      and seeds: "map (node_key sha) (ta_seeds a) = fst found"
      and deps: "map (\<lambda>d. (node_key sha (dp_node d), dp_chain d)) (ta_dependencies a) = sr_results s"
      and left: "ta_omitted a = [] \<longleftrightarrow> sr_omitted s = []" "ta_unknown a = snd found @ map blocked_pv (blocked_edges st)"
        "ta_complete a \<longleftrightarrow> ta_unknown a = [] \<and> ta_omitted a = [] \<and> list_all provider_ok (ts_providers st)"
    have k: "seed_keys sha a = set (fst found)" unfolding seed_keys_def seeds [symmetric] by simp
    have d: "dependency_key sha ` set (ta_dependencies a) = fst ` set (sr_results s)"
      unfolding deps [symmetric] by (simp add: image_image dependency_key_def)
    have "ts_unknown st = []" if "ta_unknown a = []" using resolve_targets_unknown [OF f] left(2) that by simp
    moreover have "ie_resolution e = ''resolved''"
      if "ta_unknown a = []" "e \<in> snd ` set (ts_edges st)" "propagates e" for e
      using left(2) that by (auto simp: blocked_edges_def traversable_def filter_empty_conv)
    ultimately show ?thesis using search_results(5) [OF s] left(1,3) unfolding k d by blast
  qed
qed

text \<open>
  C2. Every dependency the trace reports is a node of its own, no target, and is reached from a target along the edges of its
  witness chain, each resolved, of a relation that propagates, and no candidate; no more are reported, and no more edges
  examined, than the request allows.  When the trace left no edge out, its targets and dependencies are all the entities that
  a change of the targets reaches; and an answer that calls itself complete left none out, and in the generation it answers
  from every propagating edge is resolved and every provider is complete and current.
\<close>

theorem trace_exact:
  assumes "built_state sha st" and "trace sha th generations st rq = Inr (Traced a)"
  shows "length (ta_dependencies a) \<le> nat (rq_max_nodes rq) \<and> ta_examined a \<le> nat (rq_max_edges rq) \<and>
    distinct (map (dependency_key sha) (ta_dependencies a)) \<and>
    (\<forall>d \<in> set (ta_dependencies a).
       dependency_key sha d \<notin> seed_keys sha a \<and> dp_chain d \<noteq> [] \<and>
       (\<exists>k \<in> seed_keys sha a. chain_from sha st k (dp_chain d) (dependency_key sha d))) \<and>
    (ta_omitted a = [] \<longrightarrow>
      seed_keys sha a \<union> dependency_key sha ` set (ta_dependencies a) = {k. reachable sha st (seed_keys sha a) k}) \<and>
    (ta_complete a \<longrightarrow> ta_omitted a = [] \<and> list_all provider_ok (ts_providers st) \<and> ts_unknown st = [] \<and>
      (\<forall>e \<in> snd ` set (ts_edges st). propagates e \<longrightarrow> ie_resolution e = ''resolved''))"
  using trace_witnessed_ok [OF built_state_ok [OF assms(1)] assms(2)] trace_covers_ok [OF built_state_ok [OF assms(1)] assms(2)]
  by blast

text \<open>
  On a generation that was built, a trace raises only what checking its targets raises: every node that the
  traversal looks up is there.
\<close>

lemma mapR_total: "(\<And>x. x \<in> set xs \<Longrightarrow> \<exists>y. f x = Inr y) \<Longrightarrow> \<exists>ys. mapR f xs = Inr ys"
  by (induction xs) (fastforce simp: bindR_def)+

lemma trace_from_total:
  assumes "trace_state_ok sha st" "set (fst found) \<subseteq> fst ` set (ts_nodes st)"
  shows "\<exists>a. trace_from sha th generations st rq found = Inr (Traced a)"
proof -
  let ?s = "search_from sha st (nat (rq_max_nodes rq)) (nat (rq_max_edges rq)) (th_late th) (fst found)"
  have res: "fst p \<in> fst ` set (ts_nodes st)" if "p \<in> set (sr_results ?s)" for p
    using search_results(4) [OF refl that] chain_known [OF assms(1)] by (auto simp: witnessed_def)
  have "fst ` set (sr_omitted ?s) \<subseteq> set (fst found) \<union> fst ` set (sr_results ?s)" by (rule search_results(6) [OF refl])
  also have "\<dots> \<subseteq> fst ` set (ts_nodes st)" using res assms(2) by auto
  finally have om: "fst p \<in> fst ` set (ts_nodes st)" if "p \<in> set (sr_omitted ?s)" for p using that by auto
  obtain seeds where "mapR (node_at st) (fst found) = Inr seeds"
    using mapR_total [of "fst found" "node_at st"] node_at_known [OF subsetD [OF assms(2)]] by blast
  moreover have "\<exists>d. dependency_of sha th st rq p = Inr d" if "p \<in> set (sr_results ?s)" for p
    using node_at_known [OF res [OF that]] by (auto simp: dependency_of_def)
  then obtain ds where "mapR (dependency_of sha th st rq) (sr_results ?s) = Inr ds" using mapR_total by blast
  moreover have "\<exists>d. bindR (node_at st (fst p)) (\<lambda>n. Inr (n, snd p)) = Inr d" if "p \<in> set (sr_omitted ?s)" for p
    using node_at_known [OF om [OF that]] by auto
  then have "\<exists>os. mapR (\<lambda>p. bindR (node_at st (fst p)) (\<lambda>n. Inr (n, snd p))) (sr_omitted ?s) = Inr os"
    by (rule mapR_total)
  ultimately show ?thesis by (auto simp: trace_from_def Let_def)
qed

theorem trace_raises:
  assumes "built_state sha st" "trace sha th generations st rq = Inl e"
  shows "foldR (resolve_target st (rq_project rq)) (rq_targets rq) ([], ts_unknown st) = Inl e"
proof (cases "foldR (resolve_target st (rq_project rq)) (rq_targets rq) ([], ts_unknown st)")
  case (Inl e')
  then show ?thesis using assms(2) by (auto simp: trace_def split: if_splits)
next
  case (Inr found)
  have ok: "trace_state_ok sha st" using assms(1) by (rule built_state_ok)
  have "set (fst found) \<subseteq> fst ` set (ts_nodes st)" using resolve_targets_known [OF Inr] by simp
  then show ?thesis
    using trace_from_total [OF ok, of found th generations rq] assms(2) Inr by (auto simp: trace_def split: if_splits)
qed

text \<open>An edge that a relation of the project's graph declares between two of its entities.\<close>

definition declared_edge :: "trace_obs \<Rightarrow> graph \<Rightarrow> impact_edge \<Rightarrow> bool" where
  "declared_edge o' g e \<longleftrightarrow>
     (\<exists>ge \<in> set (g_edges g). \<exists>source target. ie_relation e = ed_relation ge \<and>
        (ed_source ge, source) \<in> set (g_entities g) \<and> (ed_target ge, target) \<in> set (g_entities g) \<and>
        todo_node o' (ed_source ge, source) = Inr (ed_source ge, ie_source e) \<and>
        todo_node o' (ed_target ge, target) = Inr (ed_target ge, ie_target e))"

lemma chain_edges: "chain_from sha st a es b \<Longrightarrow> e \<in> set es \<Longrightarrow> e \<in> snd ` set (ts_edges st)"
  by (induction es arbitrary: a) (auto simp: in_neighbors)

lemma todo_node_found:
  assumes "mapR (todo_node o') (g_entities g) = Inr ns" "lookup_node ns k = Inr n"
  shows "\<exists>en. (k, en) \<in> set (g_entities g) \<and> todo_node o' (k, en) = Inr (k, n)"
proof -
  obtain p where p: "p \<in> set (g_entities g)" "todo_node o' p = Inr (k, n)"
    using mapR_member [OF assms(1) lookup_node_in [OF assms(2)]] by blast
  then have "fst p = k" by (auto simp: todo_node_def bindR_eq_Inr)
  then show ?thesis using p by (metis prod.collapse)
qed

lemma impact_edges:
  assumes "task_impact_state sha o' revision g = Inr st" "e \<in> snd ` set (ts_edges st)"
  shows "declared_edge o' g e"
proof (rule impact_state_fields [OF assms(1)])
  fix ns es gen inputs
  assume ns: "mapR (todo_node o') (g_entities g) = Inr ns"
    and es: "mapR (todo_edge ns revision gen inputs) (g_edges g) = Inr es" "ts_edges st = fold (put_edge sha) es []"
  obtain k where "(k, e) \<in> set (ts_edges st)" using assms(2) by auto
  then have "e \<in> set es" using put_edges_in [of "(k, e)" sha es "[]"] es(2) by simp
  then obtain ge where ge: "ge \<in> set (g_edges g)" "todo_edge ns revision gen inputs ge = Inr e"
    using mapR_member [OF es(1)] by blast
  then have "lookup_node ns (ed_source ge) = Inr (ie_source e)" "lookup_node ns (ed_target ge) = Inr (ie_target e)"
    "ie_relation e = ed_relation ge" by (auto simp: todo_edge_def bindR_eq_Inr)
  then show ?thesis using ge(1) todo_node_found [OF ns] unfolding declared_edge_def by metis
qed

text \<open>
  C3. A trace of a request about tasks alone follows only relations that the project's graph holds, and never claims to be
  complete; it leaves the kept generations alone.
\<close>

theorem task_trace_declared:
  assumes "exact_task_targets installed watcher_lost rq"
    and "trace_call sha th installed watcher_lost (task_impact_state sha o' revision g) built rq generations =
      (Inr (Traced a), generations')"
  shows "generations' = generations \<and> \<not> ta_complete a \<and>
    (\<forall>d \<in> set (ta_dependencies a). \<forall>e \<in> set (dp_chain d). declared_edge o' g e)"
proof -
  obtain st where st: "task_impact_state sha o' revision g = Inr st" and g: "generations' = generations"
    and tr: "trace sha th generations st rq = Inr (Traced a)"
    using assms by (auto simp: trace_call_def bindR_eq_Inr split: sum.splits)
  have built: "built_state sha st" by (rule built_state.impact [OF st])
  have "ts_unknown st \<noteq> []" using impact_state_fields [OF st] by metis
  then have "\<not> ta_complete a" using trace_covers_ok [OF built_state_ok [OF built] tr] by blast
  moreover have "declared_edge o' g e" if "d \<in> set (ta_dependencies a)" "e \<in> set (dp_chain d)" for d e
    using trace_witnessed_ok [OF built_state_ok [OF built] tr] that chain_edges impact_edges [OF st] by metis
  ultimately show ?thesis using g by blast
qed

end
