(* ===== verification/TraceDemo.thy ===== *)
theory TraceDemo
  imports TraceAnswers
begin

text \<open>
  A repository whose module \<open>ccc\<close> calls \<open>bb\<close>, which imports \<open>a\<close>, with an edge into a repository that is not observed: what
  a change of \<open>a\<close> reaches, and the same question put to a graph of tasks.  A digest is the end of the text, which tells
  the entities and edges here apart.
\<close>

definition demo_sha :: "string \<Rightarrow> string" where
  "demo_sha s = take 60 (rev s)"

definition demo_obs :: trace_obs where
  "demo_obs = \<lparr>ob_project = ''p'', ob_uuid = ''u'', ob_repository = ''r'', ob_alias = ''main'', ob_commit = ''c1'',
     ob_fingerprint = ''w1'', ob_freshness = ''current''\<rparr>"

definition demo_module :: "string \<Rightarrow> string \<Rightarrow> entity_ref" where
  "demo_module repository name =
     \<lparr>er_uuid = ''u'', er_repository = repository, er_kind = ''module'', er_id = name, er_path = Some name\<rparr>"

definition demo_impact :: "entity_ref \<Rightarrow> entity_ref \<Rightarrow> string \<Rightarrow> impact_edge" where
  "demo_impact source target relation =
     \<lparr>ie_source = source, ie_target = target, ie_relation = relation, ie_origin = ''observed'', ie_provider = ''s'',
      ie_generation = ''g'', ie_inputs = [], ie_resolution = ''resolved'', ie_witness = None, ie_conditions = None\<rparr>"

definition demo_fragment :: "impact_edge list \<Rightarrow> provider_fragment" where
  "demo_fragment es =
     \<lparr>pf_provider = ''s'', pf_generation = ''g'', pf_inputs = [], pf_edges = es, pf_nodes = [], pf_relations = [],
      pf_complete = True, pf_freshness = ''current'', pf_gaps = []\<rparr>"

definition demo_import :: impact_edge where
  "demo_import = demo_impact (demo_module ''r'' ''bb'') (demo_module ''r'' ''a'') ''imports''"

definition demo_call :: impact_edge where
  "demo_call = demo_impact (demo_module ''r'' ''ccc'') (demo_module ''r'' ''bb'') ''calls''"

definition demo_foreign :: impact_edge where
  "demo_foreign = demo_impact (demo_module ''far'' ''dddd'') (demo_module ''r'' ''bb'') ''calls''"

definition demo_merge :: "impact_edge list \<Rightarrow> trace_state" where
  "demo_merge es = merge_fragments demo_sha [demo_obs] [(demo_obs, demo_fragment es)] [] False"

definition demo_host :: trace_host where
  "demo_host = \<lparr>th_permitted = [''p''], th_registered = [''p''], th_late = (\<lambda>_. False), th_snippet = (\<lambda>_ _. PNone),
     th_candidates = (\<lambda>_. [])\<rparr>"

definition demo_request :: "pv list \<Rightarrow> int \<Rightarrow> trace_request" where
  "demo_request targets budget =
     \<lparr>rq_project = ''p'', rq_targets = targets, rq_mode = ''paths'', rq_change_class = ''body'', rq_max_nodes = budget,
      rq_max_edges = 10, rq_time_budget_ms = 1000, rq_since = None, rq_cursor = None, rq_query = None, rq_max_payload = PNone\<rparr>"

definition demo_deps :: "trace_reply result \<Rightarrow> (string \<times> string list) list" where
  "demo_deps r = (case r of Inr (Traced a) \<Rightarrow> map (\<lambda>d. (er_id (dp_node d), map ie_relation (dp_chain d))) (ta_dependencies a) | _ \<Rightarrow> [])"

definition demo_complete :: "trace_reply result \<Rightarrow> bool" where
  "demo_complete r = (case r of Inr (Traced a) \<Rightarrow> ta_complete a | _ \<Rightarrow> False)"

definition demo_result :: "trace_reply result \<Rightarrow> (string \<times> string list) list \<times> bool" where
  "demo_result r = (demo_deps r, demo_complete r)"

lemma demo_trace_result:
  "demo_result (trace demo_sha demo_host [] (demo_merge [demo_import, demo_call]) (demo_request [PStr ''a''] 5)) =
     ([(''bb'', [''imports'']), (''ccc'', [''imports'', ''calls''])], True)"
  by code_simp

lemma demo_trace:
  "demo_deps (trace demo_sha demo_host [] (demo_merge [demo_import, demo_call]) (demo_request [PStr ''a''] 5)) =
     [(''bb'', [''imports'']), (''ccc'', [''imports'', ''calls''])]"
  "demo_complete (trace demo_sha demo_host [] (demo_merge [demo_import, demo_call]) (demo_request [PStr ''a''] 5))"
  using demo_trace_result by (simp_all add: demo_result_def)

abbreviation demo_linked :: trace_state where
  "demo_linked \<equiv> demo_merge [demo_import, demo_call]"

lemma demo_answer:
  obtains a where "trace demo_sha demo_host [] demo_linked (demo_request [PStr ''a''] 5) = Inr (Traced a)"
    "length (ta_dependencies a) = 2" "ta_complete a"
proof (cases "trace demo_sha demo_host [] demo_linked (demo_request [PStr ''a''] 5)")
  case (Inr reply)
  show thesis
  proof (cases reply)
    case (Traced a)
    have "map (\<lambda>d. (er_id (dp_node d), map ie_relation (dp_chain d))) (ta_dependencies a) =
        [(''bb'', [''imports'']), (''ccc'', [''imports'', ''calls''])]"
      using demo_trace(1) Inr Traced by (simp add: demo_deps_def)
    from arg_cong [OF this, of length] have "length (ta_dependencies a) = 2" by simp
    moreover have "ta_complete a" using demo_trace(2) Inr Traced by (simp add: demo_complete_def)
    ultimately show thesis using that Inr Traced by simp
  qed (use demo_trace Inr in \<open>simp add: demo_deps_def\<close>)
qed (use demo_trace(1) in \<open>simp add: demo_deps_def\<close>)

lemma demo_built: "built_state demo_sha (demo_merge es)"
  unfolding demo_merge_def by (rule built_state.merged)

theorem trace_exact_witness:
  "\<exists>a. trace demo_sha demo_host [] demo_linked (demo_request [PStr ''a''] 5) = Inr (Traced a) \<and>
     length (ta_dependencies a) = 2 \<and> ta_examined a \<le> 10 \<and>
     seed_keys demo_sha a \<union> dependency_key demo_sha ` set (ta_dependencies a) = {k. reachable demo_sha demo_linked (seed_keys demo_sha a) k} \<and>
     (\<forall>e \<in> snd ` set (ts_edges demo_linked). propagates e \<longrightarrow> ie_resolution e = ''resolved'')"
proof -
  obtain a where a: "trace demo_sha demo_host [] demo_linked (demo_request [PStr ''a''] 5) = Inr (Traced a)"
    "length (ta_dependencies a) = 2" "ta_complete a" by (rule demo_answer)
  from trace_exact [OF demo_built a(1)] a(3) have "ta_examined a \<le> nat (rq_max_edges (demo_request [PStr ''a''] 5))"
    "seed_keys demo_sha a \<union> dependency_key demo_sha ` set (ta_dependencies a) = {k. reachable demo_sha demo_linked (seed_keys demo_sha a) k}"
    "\<forall>e \<in> snd ` set (ts_edges demo_linked). propagates e \<longrightarrow> ie_resolution e = ''resolved''"
    by blast+
  then show ?thesis using a(1,2) by (simp add: demo_request_def)
qed

lemma demo_bad_path: "relative_path ''../a'' = Inl (ValueError ''source path must be relative without traversal'')"
  by code_simp

theorem trace_raises_witness:
  "foldR (resolve_target demo_linked ''p'') [PStr ''../a''] ([], ts_unknown demo_linked) =
     Inl (ValueError ''source path must be relative without traversal'')"
proof -
  have "trace demo_sha demo_host [] demo_linked (demo_request [PStr ''../a''] 5) =
      Inl (ValueError ''source path must be relative without traversal'')"
    by (simp add: trace_def cursor_stale_def demo_request_def resolve_target_def trace_target_def demo_bad_path)
  from trace_raises [OF demo_built this] show ?thesis by (simp add: demo_request_def)
qed

definition demo_far :: impact_edge where
  "demo_far = demo_foreign\<lparr>ie_resolution := ''stale''\<rparr>"

lemma demo_far_edge: "demo_far \<in> snd ` set (ts_edges (demo_merge [demo_foreign]))"
  by code_simp

theorem foreign_edges_stale_witness: "ie_resolution demo_far = ''stale'' \<and> \<not> traversable demo_far"
proof -
  have e: "demo_far \<in> snd ` set (ts_edges (merge_fragments demo_sha [demo_obs] [(demo_obs, demo_fragment [demo_foreign])] [] False))"
    using demo_far_edge by (simp add: demo_merge_def)
  show ?thesis
    by (rule foreign_edges_stale [OF e, of "ie_source demo_far"])
      (auto simp: edge_ends_def demo_far_def demo_foreign_def demo_impact_def demo_module_def demo_obs_def)
qed

definition demo_task_graph :: graph where
  "demo_task_graph =
     add_edge ''task:bb'' ''task:a'' ''depends_on'' ''todo''
       (add_entity (\<lambda>_. []) ''task'' (PStr ''bb'') [] (add_entity (\<lambda>_. []) ''task'' (PStr ''a'') [] empty_graph))"

abbreviation demo_task_request :: trace_request where
  "demo_task_request \<equiv> demo_request [PDict [(''kind'', PStr ''task''), (''id'', PStr ''a'')]] 5"

abbreviation demo_task_call :: "trace_reply result \<times> (string \<times> trace_state) list" where
  "demo_task_call \<equiv> trace_call demo_sha demo_host False False (task_impact_state demo_sha demo_obs (Some 3) demo_task_graph)
     demo_linked demo_task_request []"

lemma demo_task_deps: "demo_deps (fst demo_task_call) = [(''bb'', [''depends_on''])]"
  by code_simp

theorem task_trace_declared_witness:
  "\<exists>a. demo_task_call = (Inr (Traced a), []) \<and> ta_dependencies a \<noteq> [] \<and>
     (\<forall>d \<in> set (ta_dependencies a). \<forall>e \<in> set (dp_chain d). declared_edge demo_obs demo_task_graph e)"
proof -
  have deps: "demo_deps (fst demo_task_call) \<noteq> []" using demo_task_deps by simp
  obtain a where a: "fst demo_task_call = Inr (Traced a)"
    using deps by (cases "fst demo_task_call") (auto simp: demo_deps_def split: trace_reply.splits)
  have "exact_task_targets False False demo_task_request" by code_simp
  moreover have "demo_task_call = (Inr (Traced a), snd demo_task_call)" using a by (metis prod.collapse)
  ultimately have "snd demo_task_call = [] \<and> (\<forall>d \<in> set (ta_dependencies a). \<forall>e \<in> set (dp_chain d). declared_edge demo_obs demo_task_graph e)"
    using task_trace_declared by blast
  moreover have "ta_dependencies a \<noteq> []" using deps a by (auto simp: demo_deps_def)
  ultimately show ?thesis using a by (metis prod.collapse)
qed

end
