(* ===== verification/Spec2Isabelle.thy ===== *)
theory Spec2Isabelle
  imports HostProps HostRelease Cache PacketDemo PreledgerProps WorkflowToolsDemo TopologyDemo DeviceSchedulerDemo GraphDemo ChildIdentityDemo ProjectMetadataDemo RetrievalProps TraceDemo
begin

text \<open>
  Project Control: a verification development.

  Project Control (\<^verbatim>\<open>src/src/project_control\<close>) lets agents work on registered repositories: it hands
  out tasks, reserves the machine's accelerators for them, keeps what they find out as packets and
  notes, and compiles plans into a task ledger.  This development models the parts that keep state of
  their own and that other parts rely on, and proves what they promise.

  \<^bold>\<open>The parts and the theories that model them.\<close>

  \<^item> \<^emph>\<open>Host resources\<close> (\<^verbatim>\<open>host_resources/\<close>).  A registry in SQLite, shared by every project of a machine, says
    who holds which accelerator.  \<^verbatim>\<open>Policy\<close> has the priority classes and capacity limits
    (\<^verbatim>\<open>policy.py\<close>, \<^verbatim>\<open>capacity.py\<close>, \<^verbatim>\<open>process.py\<close>), \<^verbatim>\<open>Contracts\<close> the validators of requests
    (\<^verbatim>\<open>contracts.py\<close>), \<^verbatim>\<open>HostDb\<close> the four tables with their keys and the triggers that guard resident
    services, \<^verbatim>\<open>Coordinator\<close> every method of \<^verbatim>\<open>HostCoordinator\<close> (\<^verbatim>\<open>coordinator.py\<close>) as a function on the
    tables.  \<^verbatim>\<open>CoordinatorInv\<close> shows that each keeps the tables in order; \<^verbatim>\<open>HostMachine\<close> makes them the
    steps of a machine; \<^verbatim>\<open>HostProps\<close> and \<^verbatim>\<open>HostRelease\<close> have the behaviour: a resource has one holder,
    selection finds a free combination exactly when there is one, preemption falls on the weakest
    holders, a foreground intent fences its resources, a sweep releases exactly the dead, and a
    protected service is released only with its capability and proof, whatever older clients write.
  \<^item> \<^emph>\<open>The compact workflow\<close> (\<^verbatim>\<open>compact_workflow.py\<close>).  Four tools over the native Todo host, with a private
    journal that makes them resumable.  \<^verbatim>\<open>Json\<close> is the canonical encoder whose byte counts bound
    everything; \<^verbatim>\<open>WorkflowStore\<close> is \<^verbatim>\<open>_PrivateWorkflowStore\<close>, \<^verbatim>\<open>WorkflowInv\<close> its invariant and
    machine, \<^verbatim>\<open>WorkflowProps\<close> what reservations and records promise.  \<^verbatim>\<open>WorkflowHost\<close> has the actions of
    \<^verbatim>\<open>CompactWorkflowHost\<close> on the journal and the native host: durable intents, leases, gates and
    administrator previews; \<^verbatim>\<open>WorkflowContext\<close> the context of a task, assembled from chunks and cut down
    to packets and summaries; \<^verbatim>\<open>WorkflowNext\<close> the stages of \<^verbatim>\<open>next_task\<close>, \<^verbatim>\<open>WorkflowCoordinate\<close> the native requests
    of the actions and their receipts, \<^verbatim>\<open>WorkflowFinish\<close> the stages of \<^verbatim>\<open>finish_task\<close>, and \<^verbatim>\<open>WorkflowTools\<close> the
    tools \<^verbatim>\<open>inspect_task\<close>, \<^verbatim>\<open>coordinate_task\<close> and \<^verbatim>\<open>finish_task\<close> themselves.  \<^verbatim>\<open>WorkflowPhases\<close> shows that a
    lost reply is replayed exactly and a preview completed once, \<^verbatim>\<open>WorkflowContextProps\<close> that assembly
    and the size loops end with the right result, \<^verbatim>\<open>WorkflowNextProps\<close> and \<^verbatim>\<open>WorkflowToolsProps\<close> that the tools
    change the journal by store operations only, also when other processes do so during their calls,
    \<^verbatim>\<open>WorkflowInspectProps\<close> that an inspection is answered within its budget, by the context itself or by exactly the summary
    that fits, and \<^verbatim>\<open>WorkflowFinishProps\<close> that a finish reports what the journal holds and that a
    native action that was answered is never sent again.
  \<^item> \<^emph>\<open>The packet store\<close> (\<^verbatim>\<open>as1_packets.py\<close>, \<^verbatim>\<open>as1_contracts.py\<close>).  \<^verbatim>\<open>Mask\<close> removes secrets, and shows
    that nothing private is left by a policy stated apart from the code; \<^verbatim>\<open>Closure\<close> is the
    worklist that finds what is reachable, \<^verbatim>\<open>PacketContracts\<close> the wire types, \<^verbatim>\<open>PacketStore\<close> the tables and
    their operations, \<^verbatim>\<open>PacketNotes\<close> the notes that cite packets.  \<^verbatim>\<open>PacketInv\<close> and \<^verbatim>\<open>PacketMachine\<close> show that
    references are never rebound, that collection is invisible to readers, that what a reader sees was
    authorised and has its digest, and the rules of scope, evidence and number of notes.
  \<^item> \<^emph>\<open>The pre-ledger compiler\<close> (\<^verbatim>\<open>preledger.py\<close>).  \<^verbatim>\<open>Preledger\<close> compiles a package of task files into a plan;
    \<^verbatim>\<open>PreledgerProps\<close> shows that the plan has the tasks of its repository, that its dependencies are
    closed, and that every declared prerequisite is accounted for.
  \<^item> \<^emph>\<open>Accelerator topology\<close> (\<^verbatim>\<open>host_resources/topology.py\<close>).  \<^verbatim>\<open>Topology\<close> reads the matrix that \<^verbatim>\<open>nvidia-smi\<close> prints and
    joins linked accelerators by a union-find; \<^verbatim>\<open>TopologyProps\<close> shows that the islands are the connected components
    and that a host is always classified; \<^verbatim>\<open>Discovery\<close> reads the inventory with the csv automaton and makes every
    device one resource of its island.
  \<^item> \<^emph>\<open>The device scheduler facade\<close> (\<^verbatim>\<open>device_scheduler.py\<close>).  \<^verbatim>\<open>DeviceScheduler\<close> maps the requests of the host registry
    to leases of an external scheduler, which is a parameter; \<^verbatim>\<open>DeviceSchedulerProps\<close> shows that only verified
    resources are asked for, that a grant is accepted only when it is exactly what was asked for, that a release is
    fenced, and that waiting ends.
  \<^item> \<^emph>\<open>Reconciliation, frontier and project graph\<close> (\<^verbatim>\<open>reconcile.py\<close>, \<^verbatim>\<open>lifecycle.py\<close>, \<^verbatim>\<open>services/frontier.py\<close>, \<^verbatim>\<open>graph.py\<close>).
    \<^verbatim>\<open>Reconcile\<close> computes the effective state of tasks, checkpoints, gates and performance evidence from a snapshot;
    \<^verbatim>\<open>ReconcileProps\<close> shows how each task is listed and when evidence counts.  \<^verbatim>\<open>Frontier\<close> groups the ready tasks and
    walks the critical path; \<^verbatim>\<open>FrontierProps\<close> shows that groups are free of conflicts and when the walk ends.
    \<^verbatim>\<open>Graph\<close> builds the request-local graph from both, \<^verbatim>\<open>GraphSearch\<close> has the searches on it; \<^verbatim>\<open>GraphInv\<close> and
    \<^verbatim>\<open>GraphProps\<close> show that the graph is well formed and complete for lanes, \<^verbatim>\<open>GraphRelated\<close> that the breadth-first
    search returns what is within reach, \<^verbatim>\<open>GraphAnswers\<close> that resolution never guesses and seeds keep their breadth.
  \<^item> \<^emph>\<open>Project metadata\<close> (\<^verbatim>\<open>project_metadata.py\<close>).  \<^verbatim>\<open>ProjectMetadata\<close> is the append-only log of declarations with its
    amendments, previews and reads; \<^verbatim>\<open>ProjectMetadataProps\<close> shows that versions count up, that a revision is taken by one
    amendment, that a lost reply is replayed, that what is applied was reviewed, and what a removal retires.
  \<^item> \<^emph>\<open>Impact trace\<close> (\<^verbatim>\<open>as1_trace.py\<close>).  \<^verbatim>\<open>Trace\<close> merges the fragments of the providers into a generation of a code graph,
    keeps the generations, resolves targets and searches within the limits of a call; \<^verbatim>\<open>TraceTasks\<close> is the task graph as a
    provider and the call \<^verbatim>\<open>trace_codegraph_impact\<close>.  \<^verbatim>\<open>TraceProps\<close> shows that the kept state is well formed and bounded, that edges
    on foreign content are stale, and the invariant of the search; \<^verbatim>\<open>TraceAnswers\<close> that a search within its limits
    returns exactly what is within reach, and that the trace of a task stays on relations its record declares.
  \<^item> \<^emph>\<open>Child credentials\<close> (\<^verbatim>\<open>native_child_identity.py\<close>).  \<^verbatim>\<open>ChildIdentity\<close> issues and consumes the credentials of delegated
    children; \<^verbatim>\<open>ChildIdentityProps\<close> shows over every history of calls that one is accepted once, in its project, with its
    binding and within its minute, and that the tables stay bounded.
  \<^item> \<^emph>\<open>Retrieval helpers and cursors\<close> (\<^verbatim>\<open>retrieval.py\<close>, \<^verbatim>\<open>coordination.py\<close>, \<^verbatim>\<open>services/source_context.py\<close>).
    \<^verbatim>\<open>Retrieval\<close> has the helpers of the read tools; its cursors go through \<^verbatim>\<open>Base64\<close> and through the JSON scanner of
    \<^verbatim>\<open>JsonLoads\<close>, whose round trip with the encoder is in \<^verbatim>\<open>JsonRoundtrip\<close>.  \<^verbatim>\<open>RetrievalProps\<close> shows that cursors are exact,
    that the pages they continue are the whole answer, and which errors the decoders let through.
  \<^item> \<^emph>\<open>The snapshot cache\<close> (\<^verbatim>\<open>cache.py\<close>).  \<^verbatim>\<open>Cache\<close>: a bounded cache by revision that never changes what is read.

  \<^verbatim>\<open>Prelude\<close>, \<^verbatim>\<open>PyValue\<close>, \<^verbatim>\<open>PyText\<close> and \<^verbatim>\<open>PyBuiltins\<close> are shared: results with exceptions, Python values and
  dictionaries with their equality, text functions, and the builtins that several parts use.  \<^verbatim>\<open>Machine\<close> has the interfaces: a transition system with an
  invariant, a registry with one holder per resource, and names that are never rebound; the
  host registry, the packet store and the journal interpret them.  \<^verbatim>\<open>WorkflowNextProps\<close> has one more, a
  relation on journals that every action keeps.  The theories \<^verbatim>\<open>HostDemo\<close>, \<^verbatim>\<open>PacketDemo\<close>, \<^verbatim>\<open>WorkflowDemo\<close>,
  \<^verbatim>\<open>WorkflowContextDemo\<close>, \<^verbatim>\<open>WorkflowToolsDemo\<close>, \<^verbatim>\<open>TopologyDemo\<close>, \<^verbatim>\<open>DeviceSchedulerDemo\<close>, \<^verbatim>\<open>FrontierDemo\<close>, \<^verbatim>\<open>GraphDemo\<close>,
  \<^verbatim>\<open>ProjectMetadataDemo\<close>, \<^verbatim>\<open>ChildIdentityDemo\<close> and \<^verbatim>\<open>TraceDemo\<close> hold small states on which the properties are evaluated.

  \<^bold>\<open>How the code is translated.\<close>  An operation is a function that returns \<open>Inl\<close> of an exception or
  \<open>Inr\<close> of its result and the new state; a transaction that raises leaves the state alone, as the
  rollback, the temporary file and the unchanged list of the code do.  Actions of the workflow host
  also keep what they did before an exception.  The clock, random handles, \<^verbatim>\<open>sha256\<close>, \<^verbatim>\<open>repr\<close> of a float,
  base64 and \<^verbatim>\<open>json.loads\<close> of the workflow's chunks, \<^verbatim>\<open>str\<close> of a container, the iteration order of a set, the process table, the runner of
  \<^verbatim>\<open>nvidia-smi\<close>, the device scheduler, the native Todo host and the providers, snippets and lexical candidates of a trace are parameters; the
  hypotheses on them are named where they are used (\<open>fresh_handle\<close>, \<open>cooperative\<close>,
  \<open>token_respected\<close>, \<open>serves\<close>, \<open>sound_clock\<close>).

  \<^bold>\<open>Idealisations.\<close>  A transaction reads the clock once.  Times and memory are exact reals and integers; the
  limits of three quarters and four fifths are exact below \<open>2\<close> to the power \<open>50\<close> bytes.  Strings are ASCII,
  so that characters and bytes are counted alike.  Dictionaries are association lists, compared up to order.
  Stored JSON is kept as the value it encodes.  Exceptions carry their code or message without the values
  quoted in it.

  \<^bold>\<open>Loops and bounds.\<close>  The closure of the store and the size loop of the compact context terminate by a
  measure; the rounds of the chunk assembly (33, which 64 KiB in chunks of 2 KiB never exceed, by
  \<open>fragment_assembles\<close>) and the pages of the review queue (32) are the bounds of the code itself.  The search of the
  graph terminates by the number of entities not seen yet, that of the trace by the nodes not visited yet, and the JSON scanner has twice the length of its text
  as fuel, which \<open>loads_fuel\<close> shows to be enough.  Three loops need not end and are partial functions, where
  \<open>None\<close> is not returning: the root of a union-find, the wait for quiescence and the critical path.  The first is shown
  to return, the second when the clock advances, the third exactly when the dependencies it follows have no cycle.

  \<^bold>\<open>Not modelled.\<close>  The assistance
  contexts and job control (\<^verbatim>\<open>as1_context.py\<close>, \<^verbatim>\<open>as1_control.py\<close>, \<^verbatim>\<open>as1_surface.py\<close>), the trace providers that read files
  and Git and the preview of a trace that is too large (\<^verbatim>\<open>as1_trace.py\<close>), and most of
  the read-only services under \<^verbatim>\<open>services/\<close>.  The adapters of the Todo
  package, of Git and of the machine, the configuration files, the terminal and the server start-up
  are input and output; the code under \<^verbatim>\<open>legacy/\<close> and \<^verbatim>\<open>archive/\<close> is no longer part of the program.
\<close>

end
